(* ===== verification/Prelude.thy ===== *)
theory Prelude
  imports
    Main
    "HOL-Library.AList"
    "HOL-Library.Char_ord"
    "HOL-Library.List_Lexorder"
    "HOL-Library.Product_Lexorder"
begin

text \<open>
  What every component theory shares: results with errors as values and their sequencing,
  Python text operations, identifiers and timestamps with their textual forms, tables as
  lists of rows, and the locale of state machines with an invariant.

  A Python \<^verbatim>\<open>str\<close> is a list of characters; the model's characters are the code points
  below 256, which is Isabelle's type \<^typ>\<open>char\<close>.
\<close>

section \<open>Results: a value or an error\<close>

type_synonym ('e, 'a) result = "'e + 'a"

definition bindE :: "('e, 'a) result \<Rightarrow> ('a \<Rightarrow> ('e, 'b) result) \<Rightarrow> ('e, 'b) result" where
  "bindE r f = (case r of Inl e \<Rightarrow> Inl e | Inr x \<Rightarrow> f x)"

text \<open>\<open>require\<close> is the guard \<^verbatim>\<open>if not b: raise e\<close>.\<close>

definition require :: "bool \<Rightarrow> 'e \<Rightarrow> ('e, unit) result" where
  "require b e = (if b then Inr () else Inl e)"

definition map_error :: "('e \<Rightarrow> 'f) \<Rightarrow> ('e, 'a) result \<Rightarrow> ('f, 'a) result" where
  "map_error g r = (case r of Inl e \<Rightarrow> Inl (g e) | Inr x \<Rightarrow> Inr x)"

definition is_ok :: "('e, 'a) result \<Rightarrow> bool" where
  "is_ok r = (case r of Inl _ \<Rightarrow> False | Inr _ \<Rightarrow> True)"

lemma bindE_simps [simp]: "bindE (Inl e) f = Inl e" "bindE (Inr x) f = f x"
  by (simp_all add: bindE_def)

lemma require_simps [simp]: "require True e = Inr ()" "require False e = Inl e"
  by (simp_all add: require_def)

lemma map_error_simps [simp]: "map_error g (Inl e) = Inl (g e)" "map_error g (Inr x) = Inr x"
  by (simp_all add: map_error_def)

lemma is_ok_simps [simp]: "is_ok (Inr x)" "\<not> is_ok (Inl e)"
  by (simp_all add: is_ok_def)

lemma bindE_Inr_iff: "bindE r f = Inr y \<longleftrightarrow> (\<exists>x. r = Inr x \<and> f x = Inr y)"
  by (cases r) auto

lemma bindE_Inl_iff: "bindE r f = Inl e \<longleftrightarrow> r = Inl e \<or> (\<exists>x. r = Inr x \<and> f x = Inl e)"
  by (cases r) auto

lemma require_Inr_iff: "require b e = Inr u \<longleftrightarrow> b"
  by (simp add: require_def)

lemma require_Inl_iff: "require b e = Inl e' \<longleftrightarrow> \<not> b \<and> e' = e"
  by (auto simp: require_def)

lemma map_error_Inr_iff: "map_error g r = Inr x \<longleftrightarrow> r = Inr x"
  by (cases r) auto

lemma map_error_Inl_iff: "map_error g r = Inl f \<longleftrightarrow> (\<exists>e. r = Inl e \<and> f = g e)"
  by (cases r) auto

lemma bindE_split:
  "P (bindE r f) \<longleftrightarrow> (\<forall>e. r = Inl e \<longrightarrow> P (Inl e)) \<and> (\<forall>x. r = Inr x \<longrightarrow> P (f x))"
  by (cases r) auto

text \<open>The facts a proof by cases on where a handler stopped uses.\<close>

lemmas result_iffs =
  bindE_Inr_iff bindE_Inl_iff require_Inr_iff require_Inl_iff map_error_Inr_iff map_error_Inl_iff

text \<open>An optional row that must exist.\<close>

definition require_some :: "'a option \<Rightarrow> 'e \<Rightarrow> ('e, 'a) result" where
  "require_some x e = (case x of None \<Rightarrow> Inl e | Some y \<Rightarrow> Inr y)"

lemma require_some_simps [simp]: "require_some None e = Inl e" "require_some (Some x) e = Inr x"
  by (simp_all add: require_some_def)

lemma require_some_Inr_iff: "require_some x e = Inr y \<longleftrightarrow> x = Some y"
  by (cases x) auto

lemma require_some_Inl_iff: "require_some x e = Inl e' \<longleftrightarrow> x = None \<and> e' = e"
  by (cases x) auto

section \<open>Text\<close>

text \<open>\<^verbatim>\<open>str.isspace\<close> on code points below 256.\<close>

definition is_space :: "char \<Rightarrow> bool" where
  "is_space c = (let n = (of_char c :: nat) in
     (9 \<le> n \<and> n \<le> 13) \<or> (28 \<le> n \<and> n \<le> 32) \<or> n = 133 \<or> n = 160)"

definition lstrip :: "string \<Rightarrow> string" where
  "lstrip s = dropWhile is_space s"

definition strip :: "string \<Rightarrow> string" where
  "strip s = rev (dropWhile is_space (rev (dropWhile is_space s)))"

text \<open>\<^verbatim>\<open>str.lower\<close>: the capital letters of ASCII and of Latin-1 (192 to 222, not 215).\<close>

definition is_upper :: "char \<Rightarrow> bool" where
  "is_upper c = (let n = (of_char c :: nat) in
     (65 \<le> n \<and> n \<le> 90) \<or> (192 \<le> n \<and> n \<le> 222 \<and> n \<noteq> 215))"

definition lower_char :: "char \<Rightarrow> char" where
  "lower_char c = (if is_upper c then char_of ((of_char c :: nat) + 32) else c)"

definition lower :: "string \<Rightarrow> string" where
  "lower s = map lower_char s"

text \<open>
  \<^verbatim>\<open>str.casefold\<close> differs from \<^verbatim>\<open>lower\<close> below 256 at two points: sharp s (223) becomes
  \<^verbatim>\<open>ss\<close>; the micro sign (181) becomes a letter above 255 which no model character is,
  and is left alone (the folding stays injective there).
\<close>

definition casefold :: "string \<Rightarrow> string" where
  "casefold s = concat (map (\<lambda>c. if (of_char c :: nat) = 223 then ''ss'' else [lower_char c]) s)"

lemma strip_Nil [simp]: "strip [] = []"
  by (simp add: strip_def)

lemma dropWhile_hd: "dropWhile P xs = [] \<or> \<not> P (hd (dropWhile P xs))"
  by (induction xs) auto

lemma dropWhile_id: "xs = [] \<or> \<not> P (hd xs) \<Longrightarrow> dropWhile P xs = xs"
  by (cases xs) auto

lemma dropWhile_rev_hd:
  assumes "xs \<noteq> []" "\<not> P (hd xs)"
  shows "\<exists>ys. rev (dropWhile P (rev xs)) = hd xs # ys"
  using assms by (cases xs) (auto simp: dropWhile_append3)

lemma strip_hd: "strip s = [] \<or> \<not> is_space (hd (strip s))"
proof (cases "dropWhile is_space s")
  case Nil
  have "strip s = []" unfolding strip_def Nil by simp
  then show ?thesis ..
next
  case (Cons x xs)
  have nsp: "\<not> is_space (hd (x # xs))" using dropWhile_hd [of is_space s] Cons by simp
  obtain ys where "rev (dropWhile is_space (rev (x # xs))) = x # ys"
    using dropWhile_rev_hd [of "x # xs" is_space] nsp by auto
  then have "strip s = x # ys" using Cons unfolding strip_def by simp
  then show ?thesis using nsp by simp
qed

lemma strip_idem [simp]: "strip (strip s) = strip s"
proof -
  let ?t = "strip s"
  have front: "dropWhile is_space ?t = ?t"
    by (rule dropWhile_id) (rule strip_hd)
  have "rev ?t = dropWhile is_space (rev (dropWhile is_space s))"
    by (simp add: strip_def)
  then have behind: "dropWhile is_space (rev ?t) = rev ?t"
    by (metis dropWhile_idem)
  show ?thesis
    by (subst (1) strip_def) (simp add: front behind)
qed

lemma set_strip: "set (strip s) \<subseteq> set s"
  by (auto simp: strip_def dest!: set_dropWhileD)

lemma length_strip: "length (strip s) \<le> length s"
  unfolding strip_def by (metis length_dropWhile_le length_rev order_trans)

lemma of_char_bound: "of_char c < (256 :: nat)"
  by simp

lemma of_char_lower_char:
  "(of_char (lower_char c) :: nat) = (if is_upper c then of_char c + 32 else of_char c)"
proof -
  have "(of_char c :: nat) + 32 < 256" if "is_upper c"
    using that by (auto simp: is_upper_def Let_def)
  then show ?thesis by (simp add: lower_char_def)
qed

lemma lower_char_not_upper: "\<not> is_upper (lower_char c)"
proof (cases "is_upper c")
  case True
  then show ?thesis
    using of_char_lower_char [of c] unfolding is_upper_def Let_def by auto
next
  case False
  then show ?thesis by (simp add: lower_char_def)
qed

lemma lower_char_idem [simp]: "lower_char (lower_char c) = lower_char c"
  using lower_char_not_upper [of c] by (simp add: lower_char_def)

lemma lower_idem [simp]: "lower (lower s) = lower s"
  by (simp add: lower_def)

lemma is_space_lower_char [simp]: "is_space (lower_char c) = is_space c"
proof (cases "is_upper c")
  case True
  then show ?thesis
    using of_char_lower_char [of c] unfolding is_upper_def is_space_def Let_def by auto
next
  case False
  then show ?thesis by (simp add: lower_char_def)
qed

lemma dropWhile_lower: "dropWhile is_space (lower s) = lower (dropWhile is_space s)"
  by (induction s) (auto simp: lower_def)

lemma rev_lower: "rev (lower s) = lower (rev s)"
  by (simp add: lower_def rev_map)

lemma strip_lower: "strip (lower s) = lower (strip s)"
  by (simp add: strip_def dropWhile_lower rev_lower)

lemma length_casefold: "length s \<le> length (casefold s)"
  unfolding casefold_def by (induction s) auto

text \<open>\<open>join\<close> is \<^verbatim>\<open>sep.join(parts)\<close>.\<close>

fun join :: "string \<Rightarrow> string list \<Rightarrow> string" where
  "join sep [] = []"
| "join sep [x] = x"
| "join sep (x # y # zs) = x @ sep @ join sep (y # zs)"

text \<open>\<open>split_char c s\<close> is \<^verbatim>\<open>s.split(c)\<close> for a one-character separator.\<close>

fun split_char :: "char \<Rightarrow> string \<Rightarrow> string list" where
  "split_char c [] = [[]]"
| "split_char c (x # xs) =
     (if x = c then [] # split_char c xs
      else case split_char c xs of [] \<Rightarrow> [[x]] | p # ps \<Rightarrow> (x # p) # ps)"

text \<open>\<open>split_space s\<close> is \<^verbatim>\<open>s.split()\<close>: maximal runs of characters that are not spaces.\<close>

fun split_space_from :: "string \<Rightarrow> string \<Rightarrow> string list" where
  "split_space_from acc [] = (if acc = [] then [] else [rev acc])"
| "split_space_from acc (x # xs) =
     (if is_space x then (if acc = [] then split_space_from [] xs
                          else rev acc # split_space_from [] xs)
      else split_space_from (x # acc) xs)"

definition split_space :: "string \<Rightarrow> string list" where
  "split_space s = split_space_from [] s"

text \<open>\<open>is_infix x s\<close> is \<^verbatim>\<open>x in s\<close> on text.\<close>

fun is_prefix :: "string \<Rightarrow> string \<Rightarrow> bool" where
  "is_prefix [] s = True"
| "is_prefix (x # xs) [] = False"
| "is_prefix (x # xs) (y # ys) = (x = y \<and> is_prefix xs ys)"

fun is_infix :: "string \<Rightarrow> string \<Rightarrow> bool" where
  "is_infix x [] = (x = [])"
| "is_infix x (c # cs) = (is_prefix x (c # cs) \<or> is_infix x cs)"

lemma is_prefix_append [simp]: "is_prefix x (x @ y)"
  by (induction x) auto

lemma is_infix_append [simp]: "is_infix x (a @ x @ b)"
proof (induction a)
  case Nil
  have "is_prefix x (x @ b)" by (rule is_prefix_append)
  then show ?case by (cases "x @ b") simp_all
next
  case (Cons c a)
  then show ?case by simp
qed

section \<open>Numbers, identifiers and times as text\<close>

definition digit :: "nat \<Rightarrow> char" where
  "digit d = char_of (if d < 10 then 48 + d else 87 + d)"

fun show_nat :: "nat \<Rightarrow> string" where
  "show_nat n = (if n < 10 then [digit n] else show_nat (n div 10) @ [digit (n mod 10)])"

declare show_nat.simps [simp del]

definition show_int :: "int \<Rightarrow> string" where
  "show_int i = (if i < 0 then CHR ''-'' # show_nat (nat (- i)) else show_nat (nat i))"

text \<open>\<open>pad k n\<close>: decimal, at least \<open>k\<close> digits, with leading zeros.\<close>

definition pad :: "nat \<Rightarrow> nat \<Rightarrow> string" where
  "pad k n = (let s = show_nat n in replicate (k - length s) CHR ''0'' @ s)"

text \<open>A UUID is its 128-bit number; \<^verbatim>\<open>str(uuid)\<close> is 32 hexadecimal digits in five groups.\<close>

type_synonym uuid = nat

fun hex_digits :: "nat \<Rightarrow> nat \<Rightarrow> string" where
  "hex_digits 0 n = []"
| "hex_digits (Suc k) n = hex_digits k (n div 16) @ [digit (n mod 16)]"

definition uuid_hex :: "uuid \<Rightarrow> string" where
  "uuid_hex u = hex_digits 32 u"

definition uuid_str :: "uuid \<Rightarrow> string" where
  "uuid_str u = (let h = uuid_hex u in
     take 8 h @ ''-'' @ take 4 (drop 8 h) @ ''-'' @ take 4 (drop 12 h) @ ''-''
       @ take 4 (drop 16 h) @ ''-'' @ drop 20 h)"

text \<open>
  A \<^verbatim>\<open>datetime\<close> in UTC is its number of microseconds since 1970-01-01, and a
  \<^verbatim>\<open>timedelta\<close> a number of microseconds.
\<close>

type_synonym time = int

definition seconds :: "int \<Rightarrow> int" where "seconds n = n * 1000000"
definition minutes :: "int \<Rightarrow> int" where "minutes n = seconds (60 * n)"
definition hours :: "int \<Rightarrow> int" where "hours n = minutes (60 * n)"
definition days :: "int \<Rightarrow> int" where "days n = hours (24 * n)"

lemmas duration_defs = seconds_def minutes_def hours_def days_def

text \<open>Year, month and day of a day number, counted in 400-year eras from March.\<close>

definition civil :: "int \<Rightarrow> int \<times> int \<times> int" where
  "civil d = (let z = d + 719468; era = z div 146097; doe = z mod 146097;
      yoe = (doe - doe div 1460 + doe div 36524 - doe div 146096) div 365;
      doy = doe - (365 * yoe + yoe div 4 - yoe div 100);
      mp = (5 * doy + 2) div 153;
      dd = doy - (153 * mp + 2) div 5 + 1;
      mm = (if mp < 10 then mp + 3 else mp - 9);
      yy = yoe + era * 400 + (if mm \<le> 2 then 1 else 0)
    in (yy, mm, dd))"

definition isoformat :: "string \<Rightarrow> time \<Rightarrow> string" where
  "isoformat sep t = (let day = t div days 1; r = t mod days 1; us = r mod 1000000;
      s = r div 1000000; (yy, mm, dd) = civil day
    in pad 4 (nat yy) @ ''-'' @ pad 2 (nat mm) @ ''-'' @ pad 2 (nat dd) @ sep
       @ pad 2 (nat (s div 3600)) @ '':'' @ pad 2 (nat ((s div 60) mod 60)) @ '':''
       @ pad 2 (nat (s mod 60))
       @ (if us = 0 then [] else ''.'' @ pad 6 (nat us)) @ ''+00:00'')"

section \<open>Tables\<close>

text \<open>
  A table is the list of its rows. \<open>find\<close> is \<^verbatim>\<open>session.scalar\<close> of a select,
  \<open>update_where\<close> an \<^verbatim>\<open>update ... where\<close>, \<open>filter\<close> a \<^verbatim>\<open>delete\<close> of the other rows.
\<close>

definition update_where :: "('r \<Rightarrow> bool) \<Rightarrow> ('r \<Rightarrow> 'r) \<Rightarrow> 'r list \<Rightarrow> 'r list" where
  "update_where P f rows = map (\<lambda>r. if P r then f r else r) rows"

lemma length_update_where [simp]: "length (update_where P f rows) = length rows"
  by (simp add: update_where_def)

lemma update_where_Nil [simp]: "update_where P f [] = []"
  by (simp add: update_where_def)

lemma update_where_Cons [simp]:
  "update_where P f (r # rs) = (if P r then f r else r) # update_where P f rs"
  by (simp add: update_where_def)

lemma update_where_append [simp]:
  "update_where P f (xs @ ys) = update_where P f xs @ update_where P f ys"
  by (simp add: update_where_def)

lemma in_update_where:
  "r' \<in> set (update_where P f rows) \<longleftrightarrow>
     (\<exists>r\<in>set rows. P r \<and> r' = f r) \<or> (r' \<in> set rows \<and> \<not> P r')"
  by (auto simp: update_where_def)

lemma map_update_where:
  "(\<And>r. g (f r) = g r) \<Longrightarrow> map g (update_where P f rows) = map g rows"
  by (induction rows) auto

lemma map_update_where_on:
  "(\<And>r. r \<in> set rows \<Longrightarrow> P r \<Longrightarrow> g (f r) = g r) \<Longrightarrow> map g (update_where P f rows) = map g rows"
  by (induction rows) auto

lemma find_append: "find P (xs @ ys) = (case find P xs of None \<Rightarrow> find P ys | Some x \<Rightarrow> Some x)"
  by (induction xs) auto

lemma find_Some_mem: "find P xs = Some x \<Longrightarrow> x \<in> set xs"
  by (auto simp: find_Some_iff)

lemma find_Some_holds: "find P xs = Some x \<Longrightarrow> P x"
  by (auto simp: find_Some_iff)

lemma find_key_None: "find (\<lambda>r. k r = v) xs = None \<longleftrightarrow> v \<notin> k ` set xs"
  by (auto simp: find_None_iff)

lemma find_pair_None:
  "find (\<lambda>r. k r = a \<and> l r = b) xs = None \<longleftrightarrow> (a, b) \<notin> (\<lambda>r. (k r, l r)) ` set xs"
  by (auto simp: find_None_iff)

lemma find_key_unique:
  assumes "distinct (map k xs)" "x \<in> set xs"
  shows "find (\<lambda>r. k r = k x) xs = Some x"
  using assms by (induction xs) (auto simp: rev_image_eqI)

lemma find_cong_set: "(\<And>x. x \<in> set xs \<Longrightarrow> P x = Q x) \<Longrightarrow> find P xs = find Q xs"
  by (induction xs) auto

lemma find_update_where:
  "(\<And>r. Q (if P r then f r else r) = Q r) \<Longrightarrow>
     find Q (update_where P f rows) = map_option (\<lambda>r. if P r then f r else r) (find Q rows)"
  by (induction rows) (auto split: if_splits)

lemma distinct_key_eq:
  "distinct (map k xs) \<Longrightarrow> x \<in> set xs \<Longrightarrow> y \<in> set xs \<Longrightarrow> k x = k y \<Longrightarrow> x = y"
  by (auto simp: distinct_map dest: inj_onD)

lemma filter_key_unique:
  assumes "distinct (map k xs)" "x \<in> set xs"
  shows "filter (\<lambda>r. k r = k x) xs = [x]"
  using assms by (induction xs) (auto simp: filter_empty_conv rev_image_eqI)

section \<open>State machines with an invariant\<close>

text \<open>
  A component's behaviour is a step relation. Every state reachable by steps from one
  that satisfies the invariant satisfies it, and a relation between states that every
  step satisfies and that composes holds along every run.
\<close>

inductive run :: "('s \<Rightarrow> 's \<Rightarrow> bool) \<Rightarrow> 's \<Rightarrow> 's \<Rightarrow> bool" for step where
  run_refl: "run step s s"
| run_step: "run step s t \<Longrightarrow> step t u \<Longrightarrow> run step s u"

lemma run_trans: "run step s t \<Longrightarrow> run step t u \<Longrightarrow> run step s u"
  by (rotate_tac, induction rule: run.induct) (auto intro: run.intros)

lemma run_single: "step s t \<Longrightarrow> run step s t"
  by (blast intro: run.intros)

locale invariant_machine =
  fixes step :: "'s \<Rightarrow> 's \<Rightarrow> bool"
    and inv :: "'s \<Rightarrow> bool"
  assumes inv_step: "step s t \<Longrightarrow> inv s \<Longrightarrow> inv t"
begin

lemma inv_run: "run step s t \<Longrightarrow> inv s \<Longrightarrow> inv t"
  by (induction rule: run.induct) (auto intro: inv_step)

text \<open>A one-step relation that is reflexive and transitive holds along runs.\<close>

lemma run_relation:
  assumes "run step s t" "inv s"
    and refl: "\<And>s. R s s"
    and trans: "\<And>s t u. R s t \<Longrightarrow> R t u \<Longrightarrow> R s u"
    and one: "\<And>s t. step s t \<Longrightarrow> inv s \<Longrightarrow> R s t"
  shows "R s t"
  using assms(1,2)
proof (induction rule: run.induct)
  case (run_refl s)
  show ?case by (rule refl)
next
  case (run_step s t u)
  then have "inv t" using inv_run by blast
  with run_step one trans show ?case by blast
qed

text \<open>A property that steps keep once it holds is permanent.\<close>

lemma run_stable:
  assumes "run step s t" "inv s" "P s"
    and "\<And>s t. step s t \<Longrightarrow> inv s \<Longrightarrow> P s \<Longrightarrow> P t"
  shows "P t"
proof -
  have "P s \<longrightarrow> P t"
    by (rule run_relation [where R = "\<lambda>s t. P s \<longrightarrow> P t", OF assms(1,2)])
       (use assms(4) in blast)+
  with assms(3) show ?thesis by blast
qed

end

end
