(* ===== verification/Pyvalue.thy ===== *)
theory Pyvalue
  imports Prelude
begin

text \<open>
  The Python values that JSON columns, request payloads and audit metadata hold, the
  dictionary operations on them, \<^verbatim>\<open>json.dumps\<close> with the options the code passes, and the
  generic text helpers (\<^verbatim>\<open>_optional_text\<close>, \<^verbatim>\<open>_safe_text\<close>) several services share.

  Dictionaries come from JSON documents or from literals of the code, so their keys are
  text and distinct; they are association lists in insertion order. A float is the text
  \<^verbatim>\<open>repr\<close> prints for it: the code only stores and prints floats.
\<close>

datatype pyval =
    PNone
  | PBool bool
  | PInt int
  | PFloat string
  | PStr string
  | PList "pyval list"
  | PDict "(string \<times> pyval) list"
  | PUuid uuid
  | PTime time

type_synonym pydict = "(string \<times> pyval) list"

section \<open>Dictionaries\<close>

text \<open>\<^verbatim>\<open>d.get(key)\<close>: a missing key reads as \<^verbatim>\<open>None\<close>.\<close>

definition py_get :: "pydict \<Rightarrow> string \<Rightarrow> pyval" where
  "py_get d k = (case map_of d k of None \<Rightarrow> PNone | Some v \<Rightarrow> v)"

text \<open>\<^verbatim>\<open>d[key] = value\<close>: an existing key keeps its place.\<close>

definition dict_set :: "string \<Rightarrow> pyval \<Rightarrow> pydict \<Rightarrow> pydict" where
  "dict_set k v d = AList.update k v d"

lemma py_get_dict_set: "py_get (dict_set k v d) k' = (if k' = k then v else py_get d k')"
  by (simp add: py_get_def dict_set_def update_conv')

lemma keys_dict_set: "fst ` set (dict_set k v d) = insert k (fst ` set d)"
  by (simp add: dict_set_def dom_update)

lemma set_dict_set: "set (dict_set k v d) \<subseteq> insert (k, v) (set d)"
  by (induction d) (auto simp: dict_set_def)

text \<open>\<^verbatim>\<open>is_dict v\<close> is \<^verbatim>\<open>isinstance(v, Mapping)\<close>.\<close>

definition as_dict :: "pyval \<Rightarrow> pydict option" where
  "as_dict v = (case v of PDict d \<Rightarrow> Some d | _ \<Rightarrow> None)"

definition as_str :: "pyval \<Rightarrow> string option" where
  "as_str v = (case v of PStr s \<Rightarrow> Some s | _ \<Rightarrow> None)"

text \<open>\<open>isinstance(v, int)\<close>: in Python a bool is an int.\<close>

definition as_int :: "pyval \<Rightarrow> int option" where
  "as_int v = (case v of PInt i \<Rightarrow> Some i | PBool b \<Rightarrow> Some (if b then 1 else 0) | _ \<Rightarrow> None)"

text \<open>\<^verbatim>\<open>str(v)\<close> of an int or a bool.\<close>

definition str_of_int_like :: "pyval \<Rightarrow> string option" where
  "str_of_int_like v = (case v of PInt i \<Rightarrow> Some (show_int i)
     | PBool b \<Rightarrow> Some (if b then ''True'' else ''False'') | _ \<Rightarrow> None)"

text \<open>\<^verbatim>\<open>bool(v)\<close>; a float is false only as \<^verbatim>\<open>0.0\<close> or \<^verbatim>\<open>-0.0\<close>.\<close>

definition truthy :: "pyval \<Rightarrow> bool" where
  "truthy v = (case v of PNone \<Rightarrow> False | PBool b \<Rightarrow> b | PInt i \<Rightarrow> i \<noteq> 0
     | PFloat s \<Rightarrow> s \<noteq> ''0.0'' \<and> s \<noteq> ''-0.0'' | PStr s \<Rightarrow> s \<noteq> [] | PList xs \<Rightarrow> xs \<noteq> []
     | PDict d \<Rightarrow> d \<noteq> [] | PUuid _ \<Rightarrow> True | PTime _ \<Rightarrow> True)"

definition opt_val :: "('a \<Rightarrow> pyval) \<Rightarrow> 'a option \<Rightarrow> pyval" where
  "opt_val f x = (case x of None \<Rightarrow> PNone | Some y \<Rightarrow> f y)"

lemma opt_val_simps [simp]: "opt_val f None = PNone" "opt_val f (Some x) = f x"
  by (simp_all add: opt_val_def)

section \<open>Text helpers of the services\<close>

text \<open>\<^verbatim>\<open>_optional_text\<close>: \<^verbatim>\<open>None\<close> for what is not text or is blank.\<close>

definition optional_text :: "string option \<Rightarrow> string option" where
  "optional_text v = (case v of None \<Rightarrow> None
     | Some s \<Rightarrow> (let t = strip s in if t = [] then None else Some t))"

definition optional_text_limit :: "nat \<Rightarrow> string option \<Rightarrow> string option" where
  "optional_text_limit n v = (case v of None \<Rightarrow> None
     | Some s \<Rightarrow> (let t = strip s in if t = [] then None else Some (take n t)))"

definition safe_text :: "string \<Rightarrow> nat \<Rightarrow> string option \<Rightarrow> string" where
  "safe_text fallback n v =
     (case optional_text_limit n v of Some t \<Rightarrow> t | None \<Rightarrow> take n fallback)"

lemma optional_text_Some: "optional_text v = Some t \<Longrightarrow> t \<noteq> [] \<and> strip t = t"
  by (auto simp: optional_text_def Let_def split: option.splits if_splits)

lemma optional_text_idem: "optional_text (optional_text v) = optional_text v"
  by (auto simp: optional_text_def Let_def split: option.splits)

lemma optional_text_limit_length: "optional_text_limit n v = Some t \<Longrightarrow> length t \<le> n"
  by (auto simp: optional_text_limit_def Let_def split: option.splits if_splits)

lemma length_safe_text: "length (safe_text fb n v) \<le> n"
  by (auto simp: safe_text_def split: option.splits dest: optional_text_limit_length)

section \<open>JSON text\<close>

text \<open>
  The options of \<^verbatim>\<open>json.dumps\<close>: sorted keys, compact separators, ASCII-only output,
  whether NaN and infinities are allowed, and the \<^verbatim>\<open>default\<close> function for identifiers and
  times (\<^const>\<open>None\<close> where it raises \<^verbatim>\<open>TypeError\<close>).
\<close>

record json_opts =
  sort_keys :: bool
  compact :: bool
  ensure_ascii :: bool
  allow_nan :: bool
  default_text :: "pyval \<Rightarrow> string option"

definition nonfinite :: "string \<Rightarrow> bool" where
  "nonfinite s \<longleftrightarrow> s = ''nan'' \<or> s = ''inf'' \<or> s = ''-inf''"

text \<open>\<^verbatim>\<open>json.dumps\<close> writes the non-finite floats in JavaScript's spelling.\<close>

definition json_float :: "string \<Rightarrow> string" where
  "json_float s = (if s = ''nan'' then ''NaN'' else if s = ''inf'' then ''Infinity''
     else if s = ''-inf'' then ''-Infinity'' else s)"

definition json_char :: "bool \<Rightarrow> char \<Rightarrow> string" where
  "json_char ascii c = (let n = (of_char c :: nat) in
     if n = 34 then [char_of (92 :: nat), c]
     else if n = 92 then [c, c]
     else if n = 10 then [char_of (92 :: nat), CHR ''n'']
     else if n = 13 then [char_of (92 :: nat), CHR ''r'']
     else if n = 9 then [char_of (92 :: nat), CHR ''t'']
     else if n = 8 then [char_of (92 :: nat), CHR ''b'']
     else if n = 12 then [char_of (92 :: nat), CHR ''f'']
     else if n < 32 \<or> (ascii \<and> 126 < n)
       then char_of (92 :: nat) # CHR ''u'' # hex_digits 4 n
     else [c])"

definition json_string :: "bool \<Rightarrow> string \<Rightarrow> string" where
  "json_string ascii s = char_of (34 :: nat) # concat (map (json_char ascii) s) @ [char_of (34 :: nat)]"

fun dumps :: "json_opts \<Rightarrow> pyval \<Rightarrow> string option"
  and dumps_list :: "json_opts \<Rightarrow> pyval list \<Rightarrow> string list option"
  and dumps_items :: "json_opts \<Rightarrow> (string \<times> pyval) list \<Rightarrow> (string \<times> string) list option"
where
  "dumps jo PNone = Some ''null''"
| "dumps jo (PBool b) = Some (if b then ''true'' else ''false'')"
| "dumps jo (PInt i) = Some (show_int i)"
| "dumps jo (PFloat s) = (if nonfinite s \<and> \<not> allow_nan jo then None else Some (json_float s))"
| "dumps jo (PStr s) = Some (json_string (ensure_ascii jo) s)"
| "dumps jo (PList xs) = (case dumps_list jo xs of None \<Rightarrow> None
     | Some ts \<Rightarrow> Some (''['' @ join (if compact jo then '','' else '', '') ts @ '']''))"
| "dumps jo (PDict kvs) = (case dumps_items jo kvs of None \<Rightarrow> None
     | Some ts \<Rightarrow> Some (''{'' @ join (if compact jo then '','' else '', '')
          (map (\<lambda>(k, t). json_string (ensure_ascii jo) k @ (if compact jo then '':'' else '': '') @ t)
               (if sort_keys jo then sort_key fst ts else ts)) @ ''}''))"
| "dumps jo (PUuid u) = map_option (json_string (ensure_ascii jo)) (default_text jo (PUuid u))"
| "dumps jo (PTime t) = map_option (json_string (ensure_ascii jo)) (default_text jo (PTime t))"
| "dumps_list jo [] = Some []"
| "dumps_list jo (x # xs) = (case dumps jo x of None \<Rightarrow> None
     | Some t \<Rightarrow> map_option ((#) t) (dumps_list jo xs))"
| "dumps_items jo [] = Some []"
| "dumps_items jo ((k, v) # kvs) = (case dumps jo v of None \<Rightarrow> None
     | Some t \<Rightarrow> map_option ((#) (k, t)) (dumps_items jo kvs))"

text \<open>\<^verbatim>\<open>default=str\<close>.\<close>

definition str_default :: "pyval \<Rightarrow> string option" where
  "str_default v = (case v of PUuid u \<Rightarrow> Some (uuid_str u) | PTime t \<Rightarrow> Some (isoformat '' '' t)
     | _ \<Rightarrow> None)"

text \<open>\<^verbatim>\<open>.encode("utf-8")\<close>: a code point from 128 to 255 takes two bytes.\<close>

definition utf8 :: "string \<Rightarrow> string" where
  "utf8 s = concat (map (\<lambda>c. let n = (of_char c :: nat) in
     if n < 128 then [c] else [char_of (192 + n div 64), char_of (128 + n mod 64)]) s)"

text \<open>Every finite value without identifiers or times has a JSON text.\<close>

fun plain :: "pyval \<Rightarrow> bool"
  and plain_list :: "pyval list \<Rightarrow> bool"
  and plain_items :: "(string \<times> pyval) list \<Rightarrow> bool"
where
  "plain (PFloat s) = (\<not> nonfinite s)"
| "plain (PList xs) = plain_list xs"
| "plain (PDict d) = plain_items d"
| "plain (PUuid _) = False"
| "plain (PTime _) = False"
| "plain _ = True"
| "plain_list [] = True"
| "plain_list (x # xs) = (plain x \<and> plain_list xs)"
| "plain_items [] = True"
| "plain_items ((k, v) # d) = (plain v \<and> plain_items d)"

lemma dumps_plain:
  "plain v \<Longrightarrow> \<exists>t. dumps jo v = Some t"
  "plain_list xs \<Longrightarrow> \<exists>ts. dumps_list jo xs = Some ts"
  "plain_items d \<Longrightarrow> \<exists>ts. dumps_items jo d = Some ts"
  by (induction v and xs and d rule: plain_plain_list_plain_items.induct) auto

text \<open>With a \<^verbatim>\<open>default\<close> that covers identifiers and times and NaN allowed, all values have one.\<close>

lemma dumps_total:
  assumes "allow_nan jo" "\<And>u. default_text jo (PUuid u) \<noteq> None" "\<And>t. default_text jo (PTime t) \<noteq> None"
  shows "\<exists>t. dumps jo v = Some t"
    "\<exists>ts. dumps_list jo xs = Some ts"
    "\<exists>ts. dumps_items jo d = Some ts"
  using assms by (induction v and xs and d rule: plain_plain_list_plain_items.induct) fastforce+

section \<open>Secret-like keys\<close>

definition SECRET_LIKE_KEYS :: "string list" where
  "SECRET_LIKE_KEYS = [''token'', ''access_token'', ''refresh_token'', ''password'', ''secret'',
     ''api_key'', ''private_key'']"

text \<open>
  \<^verbatim>\<open>_first_secret_like_key\<close> (of both the proposal and the execution service): dictionaries
  are searched depth first; of a list only the items that are dictionaries.
\<close>

fun first_secret_like_key :: "pydict \<Rightarrow> string option"
  and first_secret_in_list :: "pyval list \<Rightarrow> string option"
where
  "first_secret_like_key [] = None"
| "first_secret_like_key ((k, v) # rest) =
     (let key_text = casefold (strip k) in
      if key_text \<in> set SECRET_LIKE_KEYS then Some key_text
      else case (case v of PDict d \<Rightarrow> first_secret_like_key d
                         | PList xs \<Rightarrow> first_secret_in_list xs | _ \<Rightarrow> None) of
             Some nested \<Rightarrow> Some nested
           | None \<Rightarrow> first_secret_like_key rest)"
| "first_secret_in_list [] = None"
| "first_secret_in_list (x # xs) =
     (case (case x of PDict d \<Rightarrow> first_secret_like_key d | _ \<Rightarrow> None) of
        Some nested \<Rightarrow> Some nested
      | None \<Rightarrow> first_secret_in_list xs)"

text \<open>
  The specification: \<open>reaches p v k\<close> says that key \<open>k\<close> occurs in \<open>v\<close> under dictionaries
  and lists; with \<open>p\<close> false, not under a list that is itself an item of a list.
\<close>

inductive reaches :: "bool \<Rightarrow> pyval \<Rightarrow> string \<Rightarrow> bool" for p where
  here: "(k, v) \<in> set d \<Longrightarrow> reaches p (PDict d) k"
| under: "(k', v) \<in> set d \<Longrightarrow> reaches p v k \<Longrightarrow> reaches p (PDict d) k"
| item: "x \<in> set xs \<Longrightarrow> p \<or> (\<exists>d. x = PDict d) \<Longrightarrow> reaches p x k \<Longrightarrow> reaches p (PList xs) k"

inductive_simps reaches_dict: "reaches p (PDict d) k"
inductive_simps reaches_list: "reaches p (PList xs) k"
inductive_cases reaches_str: "reaches p (PStr s) k"

lemma reaches_atom [simp]:
  "\<not> reaches p PNone k" "\<not> reaches p (PBool b) k" "\<not> reaches p (PInt i) k"
  "\<not> reaches p (PFloat s) k" "\<not> reaches p (PStr s) k" "\<not> reaches p (PUuid u) k"
  "\<not> reaches p (PTime t) k"
  by (auto elim: reaches.cases)

lemma reaches_Cons_dict:
  "reaches p (PDict ((k, v) # d)) q \<longleftrightarrow> q = k \<or> reaches p v q \<or> reaches p (PDict d) q"
  by (auto simp: reaches_dict)

lemma reaches_Cons_list:
  "reaches p (PList (x # xs)) q \<longleftrightarrow>
     ((p \<or> (\<exists>d. x = PDict d)) \<and> reaches p x q) \<or> reaches p (PList xs) q"
  by (auto simp: reaches_list)

lemma not_reaches_Nil [simp]: "\<not> reaches p (PDict []) q" "\<not> reaches p (PList []) q"
  by (auto simp: reaches_dict reaches_list)

definition secret_key :: "string \<Rightarrow> bool" where
  "secret_key k \<longleftrightarrow> casefold (strip k) \<in> set SECRET_LIKE_KEYS"

lemma first_secret_NoneD:
  "first_secret_like_key d = None \<Longrightarrow> reaches False (PDict d) q \<Longrightarrow> \<not> secret_key q"
  "first_secret_in_list xs = None \<Longrightarrow> reaches False (PList xs) q \<Longrightarrow> \<not> secret_key q"
proof (induction d and xs rule: first_secret_like_key_first_secret_in_list.induct)
  case (2 k v rest)
  then show ?case
    by (cases v) (auto simp: reaches_Cons_dict secret_key_def Let_def split: option.splits if_splits)
next
  case (4 x xs)
  then show ?case
    by (cases x) (auto simp: reaches_Cons_list split: option.splits)
qed simp_all

lemma first_secret_Some:
  "first_secret_like_key d = Some s \<Longrightarrow> \<exists>q. reaches False (PDict d) q \<and> secret_key q \<and> s = casefold (strip q)"
  "first_secret_in_list xs = Some s \<Longrightarrow> \<exists>q. reaches False (PList xs) q \<and> secret_key q \<and> s = casefold (strip q)"
proof (induction d and xs rule: first_secret_like_key_first_secret_in_list.induct)
  case (2 k v rest)
  then show ?case
    by (cases v) (fastforce simp: reaches_Cons_dict secret_key_def Let_def split: option.splits if_splits)+
next
  case (4 x xs)
  then show ?case
    by (cases x) (fastforce simp: reaches_Cons_list split: option.splits)+
qed simp_all

lemma first_secret_None_iff:
  "first_secret_like_key d = None \<longleftrightarrow> (\<forall>q. reaches False (PDict d) q \<longrightarrow> \<not> secret_key q)"
  using first_secret_NoneD(1) [of d] first_secret_Some(1) [of d]
  by (cases "first_secret_like_key d") blast+

end
