(* ===== verification/Identity.thy ===== *)
theory Identity
  imports Pyvalue
begin

text \<open>
  Users, workspaces and memberships (\<^verbatim>\<open>app/db/identity_models.py\<close>) and the operations of
  \<^verbatim>\<open>app/services/identity_service.py\<close>. New identifiers and the clock are arguments. An
  insert that breaks a unique constraint is the \<^verbatim>\<open>IntegrityError\<close> the flush raises.
\<close>

section \<open>Tables\<close>

datatype user_status = UserActive | UserDisabled

record user =
  u_id :: uuid
  u_email :: string
  u_name :: "string option"
  u_password_hash :: "string option"
  u_status :: user_status
  u_created_at :: time
  u_updated_at :: time
  u_last_login_at :: "time option"

datatype workspace_status = WorkspaceActive | WorkspaceArchived

record workspace =
  w_id :: uuid
  w_name :: string
  w_slug :: string
  w_status :: workspace_status
  w_created_by_user_id :: uuid
  w_created_at :: time
  w_updated_at :: time

record membership =
  m_id :: uuid
  m_workspace_id :: uuid
  m_user_id :: uuid
  m_role :: string
  m_created_at :: time

record identity_db =
  users :: "user list"
  workspaces :: "workspace list"
  memberships :: "membership list"

datatype identity_error =
    IdentityConflictError string
  | IdentityAccessError string
  | IntegrityError string

section \<open>Roles\<close>

definition MEMBERSHIP_ROLE_OWNER :: string where "MEMBERSHIP_ROLE_OWNER = ''owner''"
definition MEMBERSHIP_ROLE_ADMIN :: string where "MEMBERSHIP_ROLE_ADMIN = ''admin''"
definition MEMBERSHIP_ROLE_MEMBER :: string where "MEMBERSHIP_ROLE_MEMBER = ''member''"
definition MEMBERSHIP_ROLE_VIEWER :: string where "MEMBERSHIP_ROLE_VIEWER = ''viewer''"

lemmas role_defs = MEMBERSHIP_ROLE_OWNER_def MEMBERSHIP_ROLE_ADMIN_def
  MEMBERSHIP_ROLE_MEMBER_def MEMBERSHIP_ROLE_VIEWER_def

definition ROLE_ORDER :: "(string \<times> nat) list" where
  "ROLE_ORDER = [(MEMBERSHIP_ROLE_VIEWER, 10), (MEMBERSHIP_ROLE_MEMBER, 20),
     (MEMBERSHIP_ROLE_ADMIN, 30), (MEMBERSHIP_ROLE_OWNER, 40)]"

definition role_allows :: "string \<Rightarrow> string \<Rightarrow> bool" where
  "role_allows actual_role required_role =
     (case (map_of ROLE_ORDER actual_role, map_of ROLE_ORDER required_role) of
        (Some actual_rank, Some required_rank) \<Rightarrow> required_rank \<le> actual_rank
      | _ \<Rightarrow> False)"

definition ensure_role_allows :: "string \<Rightarrow> string \<Rightarrow> (identity_error, unit) result" where
  "ensure_role_allows actual_role required_role =
     require (role_allows actual_role required_role)
       (IdentityAccessError ''insufficient workspace role'')"

text \<open>The roles as an ordered type, the specification of \<^const>\<open>role_allows\<close>.\<close>

datatype role = Viewer | Member | Admin | Owner

fun role_level :: "role \<Rightarrow> nat" where
  "role_level Viewer = 0"
| "role_level Member = 1"
| "role_level Admin = 2"
| "role_level Owner = 3"

lemma role_level_inj: "role_level r = role_level r' \<Longrightarrow> r = r'"
  by (cases r; cases r') auto

instantiation role :: linorder
begin

definition less_eq_role :: "role \<Rightarrow> role \<Rightarrow> bool" where
  "less_eq_role r r' \<longleftrightarrow> role_level r \<le> role_level r'"

definition less_role :: "role \<Rightarrow> role \<Rightarrow> bool" where
  "less_role r r' \<longleftrightarrow> role_level r < role_level r'"

instance
  by standard (auto simp: less_eq_role_def less_role_def dest: role_level_inj)

end

definition parse_role :: "string \<Rightarrow> role option" where
  "parse_role s = (if s = ''viewer'' then Some Viewer else if s = ''member'' then Some Member
     else if s = ''admin'' then Some Admin else if s = ''owner'' then Some Owner else None)"

lemma role_order_parse: "map_of ROLE_ORDER s = map_option (\<lambda>r. 10 * (role_level r + 1)) (parse_role s)"
  by (simp add: ROLE_ORDER_def role_defs parse_role_def)

lemma role_allows_iff_order:
  "role_allows a q \<longleftrightarrow> (\<exists>ra rq. parse_role a = Some ra \<and> parse_role q = Some rq \<and> rq \<le> ra)"
  by (auto simp: role_allows_def role_order_parse less_eq_role_def split: option.splits)

section \<open>Normalisation and lookups\<close>

definition normalize_email :: "string \<Rightarrow> string" where
  "normalize_email email = lower (strip email)"

definition normalize_slug :: "string \<Rightarrow> string" where
  "normalize_slug slug = lower (strip slug)"

lemma normalize_email_idem [simp]: "normalize_email (normalize_email e) = normalize_email e"
  by (simp add: normalize_email_def strip_lower)

lemma normalize_slug_idem [simp]: "normalize_slug (normalize_slug e) = normalize_slug e"
  by (simp add: normalize_slug_def strip_lower)

definition get_user_by_email :: "string \<Rightarrow> 'z identity_db_scheme \<Rightarrow> user option" where
  "get_user_by_email email db = find (\<lambda>u. u_email u = normalize_email email) (users db)"

definition get_user :: "uuid \<Rightarrow> 'z identity_db_scheme \<Rightarrow> user option" where
  "get_user uid db = find (\<lambda>u. u_id u = uid) (users db)"

definition get_workspace :: "uuid \<Rightarrow> 'z identity_db_scheme \<Rightarrow> workspace option" where
  "get_workspace wid db = find (\<lambda>w. w_id w = wid) (workspaces db)"

definition get_workspace_by_slug :: "string \<Rightarrow> 'z identity_db_scheme \<Rightarrow> workspace option" where
  "get_workspace_by_slug slug db = find (\<lambda>w. w_slug w = normalize_slug slug) (workspaces db)"

definition get_membership :: "uuid \<Rightarrow> uuid \<Rightarrow> 'z identity_db_scheme \<Rightarrow> membership option" where
  "get_membership wid uid db =
     find (\<lambda>m. m_workspace_id m = wid \<and> m_user_id m = uid) (memberships db)"

section \<open>Creating rows\<close>

definition create_user ::
  "uuid \<Rightarrow> time \<Rightarrow> string \<Rightarrow> string option \<Rightarrow> string option \<Rightarrow> 'z identity_db_scheme \<Rightarrow>
     (identity_error, user \<times> 'z identity_db_scheme) result" where
  "create_user new_id now email name password_hash db =
     (let user = \<lparr> u_id = new_id, u_email = normalize_email email, u_name = optional_text name,
        u_password_hash = password_hash, u_status = UserActive, u_created_at = now,
        u_updated_at = now, u_last_login_at = None \<rparr> in
      bindE (require (find (\<lambda>u. u_email u = u_email user) (users db) = None)
               (IntegrityError ''uq_users_email'')) (\<lambda>_.
      Inr (user, db\<lparr>users := users db @ [user]\<rparr>)))"

definition get_or_create_user_by_email ::
  "uuid \<Rightarrow> time \<Rightarrow> string \<Rightarrow> string option \<Rightarrow> 'z identity_db_scheme \<Rightarrow>
     (identity_error, (user \<times> bool) \<times> 'z identity_db_scheme) result" where
  "get_or_create_user_by_email new_id now email name db =
     (case get_user_by_email email db of
        Some user \<Rightarrow> Inr ((user, False), db)
      | None \<Rightarrow> bindE (create_user new_id now email name None db) (\<lambda>(user, db').
          Inr ((user, True), db')))"

definition create_workspace ::
  "uuid \<Rightarrow> time \<Rightarrow> string \<Rightarrow> string \<Rightarrow> uuid \<Rightarrow> 'z identity_db_scheme \<Rightarrow>
     (identity_error, workspace \<times> 'z identity_db_scheme) result" where
  "create_workspace new_id now name slug created_by_user_id db =
     (let workspace = \<lparr> w_id = new_id, w_name = strip name, w_slug = normalize_slug slug,
        w_status = WorkspaceActive, w_created_by_user_id = created_by_user_id,
        w_created_at = now, w_updated_at = now \<rparr> in
      bindE (require (find (\<lambda>w. w_slug w = w_slug workspace) (workspaces db) = None)
               (IntegrityError ''uq_workspaces_slug'')) (\<lambda>_.
      Inr (workspace, db\<lparr>workspaces := workspaces db @ [workspace]\<rparr>)))"

definition create_membership ::
  "uuid \<Rightarrow> time \<Rightarrow> uuid \<Rightarrow> uuid \<Rightarrow> string \<Rightarrow> 'z identity_db_scheme \<Rightarrow>
     (identity_error, (membership \<times> bool) \<times> 'z identity_db_scheme) result" where
  "create_membership new_id now workspace_id user_id role db =
     (case get_membership workspace_id user_id db of
        Some existing \<Rightarrow> Inr ((existing, False), db)
      | None \<Rightarrow>
         (let membership = \<lparr> m_id = new_id, m_workspace_id = workspace_id, m_user_id = user_id,
            m_role = role, m_created_at = now \<rparr> in
          bindE (require (role \<in> set (map fst ROLE_ORDER))
                   (IntegrityError ''ck_memberships_role'')) (\<lambda>_.
          Inr ((membership, True), db\<lparr>memberships := memberships db @ [membership]\<rparr>))))"

section \<open>Provisioning and bootstrap\<close>

record provisioned =
  pv_user :: user
  pv_workspace :: workspace
  pv_membership :: membership
  pv_login_credential_set :: bool
  pv_user_created :: bool

definition provision_workspace_member ::
  "uuid \<Rightarrow> uuid \<Rightarrow> time \<Rightarrow> uuid \<Rightarrow> string \<Rightarrow> string option \<Rightarrow> string \<Rightarrow>
     'z identity_db_scheme \<Rightarrow> (identity_error, provisioned \<times> 'z identity_db_scheme) result" where
  "provision_workspace_member new_user_id new_membership_id now workspace_id email name role db =
     bindE (require (role \<noteq> MEMBERSHIP_ROLE_OWNER)
              (IdentityAccessError ''owner role is bootstrap-only'')) (\<lambda>_.
     bindE (require (role \<in> set (map fst ROLE_ORDER))
              (IdentityAccessError ''unsupported membership role'')) (\<lambda>_.
     bindE (require_some (get_workspace workspace_id db)
              (IdentityAccessError ''workspace not found'')) (\<lambda>workspace.
     bindE (get_or_create_user_by_email new_user_id now email name db) (\<lambda>((user0, user_created), db1).
     bindE (if user_created then Inr user0
            else require_some (get_user (u_id user0) db1)
                   (IdentityConflictError ''existing account is unavailable'')) (\<lambda>user.
     bindE (require (u_status user \<noteq> UserDisabled)
              (IdentityAccessError ''user disabled'')) (\<lambda>_.
     bindE (require (user_created \<or>
                find (\<lambda>m. m_user_id m = u_id user \<and> m_workspace_id m \<noteq> w_id workspace)
                  (memberships db1) = None)
              (IdentityConflictError ''existing account must accept a workspace invitation'')) (\<lambda>_.
     bindE (create_membership new_membership_id now (w_id workspace) (u_id user) role db1)
       (\<lambda>((membership, membership_created), db2).
     bindE (require membership_created
              (IdentityConflictError ''workspace membership already exists'')) (\<lambda>_.
     Inr (\<lparr> pv_user = user, pv_workspace = workspace, pv_membership = membership,
            pv_login_credential_set = False, pv_user_created = user_created \<rparr>, db2))))))))))"

definition bootstrap_workspace_for_owner ::
  "uuid \<Rightarrow> uuid \<Rightarrow> uuid \<Rightarrow> time \<Rightarrow> string \<Rightarrow> string option \<Rightarrow> string \<Rightarrow> string \<Rightarrow>
     'z identity_db_scheme \<Rightarrow>
     (identity_error, (user \<times> workspace \<times> membership) \<times> 'z identity_db_scheme) result" where
  "bootstrap_workspace_for_owner new_user_id new_workspace_id new_membership_id now
       owner_email owner_name workspace_name workspace_slug db =
     bindE (get_or_create_user_by_email new_user_id now owner_email owner_name db) (\<lambda>((user, _), db1).
     bindE (require (u_status user \<noteq> UserDisabled)
              (IdentityAccessError ''user disabled'')) (\<lambda>_.
     bindE (require (get_workspace_by_slug workspace_slug db1 = None)
              (IdentityConflictError ''workspace slug already exists'')) (\<lambda>_.
     bindE (create_workspace new_workspace_id now workspace_name workspace_slug (u_id user) db1)
       (\<lambda>(workspace, db2).
     bindE (create_membership new_membership_id now (w_id workspace) (u_id user)
              MEMBERSHIP_ROLE_OWNER db2) (\<lambda>((membership, _), db3).
     Inr ((user, workspace, membership), db3))))))"

section \<open>Reads\<close>

definition joined_memberships :: "'z identity_db_scheme \<Rightarrow> (user \<times> workspace \<times> membership) list" where
  "joined_memberships db = [(u, w, m). m \<leftarrow> memberships db, u \<leftarrow> users db, u_id u = m_user_id m,
     w \<leftarrow> workspaces db, w_id w = m_workspace_id m]"

definition list_workspace_members ::
  "uuid \<Rightarrow> 'z identity_db_scheme \<Rightarrow> (user \<times> workspace \<times> membership) list" where
  "list_workspace_members workspace_id db =
     sort_key (\<lambda>(u, w, m). (m_created_at m, u_email u))
       (filter (\<lambda>(u, w, m). w_id w = workspace_id) (joined_memberships db))"

definition list_workspaces_for_user ::
  "uuid \<Rightarrow> 'z identity_db_scheme \<Rightarrow> (user \<times> workspace \<times> membership) list" where
  "list_workspaces_for_user user_id db =
     sort_key (\<lambda>(u, w, m). - w_created_at w)
       (filter (\<lambda>(u, w, m). u_id u = user_id) (joined_memberships db))"

definition get_workspace_for_user ::
  "uuid \<Rightarrow> uuid \<Rightarrow> 'z identity_db_scheme \<Rightarrow> (user \<times> workspace \<times> membership) option" where
  "get_workspace_for_user workspace_id user_id db =
     find (\<lambda>(u, w, m). u_id u = user_id \<and> w_id w = workspace_id) (joined_memberships db)"

definition user_has_workspace_access :: "uuid \<Rightarrow> uuid \<Rightarrow> 'z identity_db_scheme \<Rightarrow> bool" where
  "user_has_workspace_access workspace_id user_id db \<longleftrightarrow>
     get_workspace_for_user workspace_id user_id db \<noteq> None"

lemma set_joined_memberships:
  "(u, w, m) \<in> set (joined_memberships db) \<longleftrightarrow>
     m \<in> set (memberships db) \<and> u \<in> set (users db) \<and> w \<in> set (workspaces db) \<and>
     u_id u = m_user_id m \<and> w_id w = m_workspace_id m"
  unfolding joined_memberships_def by auto

lemma user_access_iff:
  "user_has_workspace_access wid uid db \<longleftrightarrow>
     (\<exists>u w m. (u, w, m) \<in> set (joined_memberships db) \<and> u_id u = uid \<and> w_id w = wid)"
  unfolding user_has_workspace_access_def get_workspace_for_user_def
  by (auto simp: find_None_iff)

section \<open>The invariant of the tables\<close>

text \<open>
  Primary keys and unique constraints hold, stored emails and slugs are normalised, roles
  are known, and foreign keys resolve.
\<close>

definition identity_inv :: "'z identity_db_scheme \<Rightarrow> bool" where
  "identity_inv db \<longleftrightarrow>
     distinct (map u_id (users db)) \<and> distinct (map u_email (users db)) \<and>
     (\<forall>u\<in>set (users db). normalize_email (u_email u) = u_email u) \<and>
     distinct (map w_id (workspaces db)) \<and> distinct (map w_slug (workspaces db)) \<and>
     (\<forall>w\<in>set (workspaces db). normalize_slug (w_slug w) = w_slug w
        \<and> w_created_by_user_id w \<in> u_id ` set (users db)) \<and>
     distinct (map (\<lambda>m. (m_workspace_id m, m_user_id m)) (memberships db)) \<and>
     (\<forall>m\<in>set (memberships db). m_role m \<in> set (map fst ROLE_ORDER)
        \<and> m_workspace_id m \<in> w_id ` set (workspaces db) \<and> m_user_id m \<in> u_id ` set (users db))"

lemma identity_invD:
  assumes "identity_inv db"
  shows "distinct (map u_id (users db))" "distinct (map u_email (users db))"
    "distinct (map w_id (workspaces db))" "distinct (map w_slug (workspaces db))"
    "distinct (map (\<lambda>m. (m_workspace_id m, m_user_id m)) (memberships db))"
  using assms by (auto simp: identity_inv_def)

text \<open>What a successful insert did.\<close>

lemma create_user_Inr:
  "create_user i now e n p db = Inr (u, db') \<longleftrightarrow>
     normalize_email e \<notin> u_email ` set (users db) \<and>
     u = \<lparr> u_id = i, u_email = normalize_email e, u_name = optional_text n, u_password_hash = p,
       u_status = UserActive, u_created_at = now, u_updated_at = now, u_last_login_at = None \<rparr> \<and>
     db' = db\<lparr>users := users db @ [u]\<rparr>"
  by (auto simp: create_user_def Let_def result_iffs find_key_None)

lemma create_workspace_Inr:
  "create_workspace i now n s by_user db = Inr (w, db') \<longleftrightarrow>
     normalize_slug s \<notin> w_slug ` set (workspaces db) \<and>
     w = \<lparr> w_id = i, w_name = strip n, w_slug = normalize_slug s, w_status = WorkspaceActive,
       w_created_by_user_id = by_user, w_created_at = now, w_updated_at = now \<rparr> \<and>
     db' = db\<lparr>workspaces := workspaces db @ [w]\<rparr>"
  by (auto simp: create_workspace_def Let_def result_iffs find_key_None)

lemma create_membership_new:
  "create_membership i now wid uid r db = Inr ((m, True), db') \<longleftrightarrow>
     (wid, uid) \<notin> (\<lambda>m. (m_workspace_id m, m_user_id m)) ` set (memberships db) \<and>
     r \<in> set (map fst ROLE_ORDER) \<and>
     m = \<lparr> m_id = i, m_workspace_id = wid, m_user_id = uid, m_role = r, m_created_at = now \<rparr> \<and>
     db' = db\<lparr>memberships := memberships db @ [m]\<rparr>"
proof (cases "get_membership wid uid db")
  case None
  then have "(wid, uid) \<notin> (\<lambda>m. (m_workspace_id m, m_user_id m)) ` set (memberships db)"
    unfolding get_membership_def by (simp only: find_pair_None not_False_eq_True)
  with None show ?thesis
    by (auto simp: create_membership_def Let_def result_iffs)
next
  case (Some m')
  then have "get_membership wid uid db \<noteq> None" by simp
  then have "(wid, uid) \<in> (\<lambda>m. (m_workspace_id m, m_user_id m)) ` set (memberships db)"
    unfolding get_membership_def by (simp only: find_pair_None not_not)
  with Some show ?thesis by (simp add: create_membership_def)
qed

lemma create_membership_old:
  "create_membership i now wid uid r db = Inr ((m, False), db') \<longleftrightarrow>
     get_membership wid uid db = Some m \<and> db' = db"
  by (auto simp: create_membership_def Let_def result_iffs split: option.splits)

lemma get_or_create_old:
  "get_or_create_user_by_email i now e n db = Inr ((u, False), db') \<longleftrightarrow>
     get_user_by_email e db = Some u \<and> db' = db"
  by (auto simp: get_or_create_user_by_email_def result_iffs split: option.splits)

lemma get_or_create_new:
  "get_or_create_user_by_email i now e n db = Inr ((u, True), db') \<longleftrightarrow>
     get_user_by_email e db = None \<and> create_user i now e n None db = Inr (u, db')"
  by (auto simp: get_or_create_user_by_email_def result_iffs split: option.splits)

text \<open>Each insert keeps the invariant.\<close>

lemma identity_inv_create_user:
  assumes "identity_inv db" "create_user i now e n p db = Inr (u, db')" "i \<notin> u_id ` set (users db)"
  shows "identity_inv db'"
  using assms unfolding identity_inv_def create_user_Inr by auto

lemma identity_inv_create_workspace:
  assumes "identity_inv db" "create_workspace i now n s by_user db = Inr (w, db')"
    "i \<notin> w_id ` set (workspaces db)" "by_user \<in> u_id ` set (users db)"
  shows "identity_inv db'"
  using assms unfolding identity_inv_def create_workspace_Inr by auto

lemma identity_inv_create_membership:
  assumes "identity_inv db" "create_membership i now wid uid r db = Inr ((m, c), db')"
    "wid \<in> w_id ` set (workspaces db)" "uid \<in> u_id ` set (users db)"
  shows "identity_inv db'"
proof (cases c)
  case True
  then have "create_membership i now wid uid r db = Inr ((m, True), db')" using assms(2) by simp
  then show ?thesis using assms(1,3,4) unfolding create_membership_new identity_inv_def by auto
next
  case False
  then have "create_membership i now wid uid r db = Inr ((m, False), db')" using assms(2) by simp
  then show ?thesis using assms(1) unfolding create_membership_old by simp
qed

lemma identity_inv_get_or_create:
  assumes "identity_inv db" "get_or_create_user_by_email i now e n db = Inr ((u, c), db')"
    "i \<notin> u_id ` set (users db)"
  shows "identity_inv db' \<and> u \<in> set (users db') \<and> workspaces db' = workspaces db
    \<and> memberships db' = memberships db"
proof (cases c)
  case True
  with assms show ?thesis
    using identity_inv_create_user by (fastforce simp: get_or_create_new create_user_Inr)
next
  case False
  with assms show ?thesis
    by (auto simp: get_or_create_old get_user_by_email_def dest: find_Some_mem)
qed

section \<open>What provisioning and bootstrap do\<close>

text \<open>A successful provisioning, with the account new or found.\<close>

lemma provision_Inr:
  assumes "provision_workspace_member i j now wid email name role db = Inr (r, db')"
  obtains user c db1 w where
    "get_or_create_user_by_email i now email name db = Inr ((user, c), db1)"
    "get_workspace wid db = Some w" "w_id w = wid"
    "role \<noteq> MEMBERSHIP_ROLE_OWNER" "role \<in> set (map fst ROLE_ORDER)"
    "c \<or> get_user (u_id user) db1 = Some (pv_user r)" "c \<Longrightarrow> pv_user r = user"
    "u_status (pv_user r) \<noteq> UserDisabled"
    "c \<or> (\<forall>m\<in>set (memberships db1). m_user_id m = u_id (pv_user r) \<longrightarrow> m_workspace_id m = wid)"
    "create_membership j now wid (u_id (pv_user r)) role db1 = Inr ((pv_membership r, True), db')"
    "pv_user_created r = c" "pv_workspace r = w"
proof -
  from assms obtain user c db1 w where
    goc: "get_or_create_user_by_email i now email name db = Inr ((user, c), db1)" and
    w: "get_workspace wid db = Some w"
    unfolding provision_workspace_member_def
    by (auto simp: bindE_Inr_iff require_some_Inr_iff split: prod.splits)
  have wid: "w_id w = wid"
    using w find_Some_holds unfolding get_workspace_def by fastforce
  show thesis
    by (rule that [OF goc w wid])
       (use assms goc w wid in \<open>auto simp: provision_workspace_member_def result_iffs
          require_some_Inr_iff find_None_iff split: prod.splits if_splits\<close>)
qed

lemma identity_inv_provision:
  assumes "identity_inv db" "i \<notin> u_id ` set (users db)"
    "provision_workspace_member i j now wid email name role db = Inr (r, db')"
  shows "identity_inv db'"
  using assms(3)
proof (cases rule: provision_Inr)
  case (1 user c db1 w)
  from identity_inv_get_or_create [OF assms(1) 1(1) assms(2)]
  have db1: "identity_inv db1" "user \<in> set (users db1)" "workspaces db1 = workspaces db" by auto
  have "pv_user r \<in> set (users db1)"
    using 1(6,7) db1(2) by (auto simp: get_user_def dest: find_Some_mem)
  moreover have "w \<in> set (workspaces db1)"
    using 1(2) db1(3) by (auto simp: get_workspace_def dest: find_Some_mem)
  ultimately show ?thesis
    using identity_inv_create_membership [OF db1(1) 1(10)] 1(3) by auto
qed

lemma bootstrap_Inr:
  assumes "bootstrap_workspace_for_owner i k j now email name wname slug db = Inr ((u, w, m), db')"
  obtains c db1 db2 d where
    "get_or_create_user_by_email i now email name db = Inr ((u, c), db1)"
    "u_status u \<noteq> UserDisabled" "get_workspace_by_slug slug db1 = None"
    "create_workspace k now wname slug (u_id u) db1 = Inr (w, db2)"
    "create_membership j now (w_id w) (u_id u) MEMBERSHIP_ROLE_OWNER db2 = Inr ((m, d), db')"
  using assms unfolding bootstrap_workspace_for_owner_def
  by (auto simp: result_iffs split: prod.splits)

lemma identity_inv_bootstrap:
  assumes "identity_inv db" "i \<notin> u_id ` set (users db)" "k \<notin> w_id ` set (workspaces db)"
    "bootstrap_workspace_for_owner i k j now email name wname slug db = Inr ((u, w, m), db')"
  shows "identity_inv db'"
  using assms(4)
proof (cases rule: bootstrap_Inr)
  case (1 c db1 db2 d)
  from identity_inv_get_or_create [OF assms(1) 1(1) assms(2)]
  have db1: "identity_inv db1" "u \<in> set (users db1)" "workspaces db1 = workspaces db" by auto
  have db2: "identity_inv db2"
    using identity_inv_create_workspace [OF db1(1) 1(4)] assms(3) db1(2,3) by auto
  from 1(4) db1(2) have "w_id w \<in> w_id ` set (workspaces db2)" "u_id u \<in> u_id ` set (users db2)"
    by (auto simp: create_workspace_Inr)
  then show ?thesis using identity_inv_create_membership [OF db2 1(5)] by blast
qed

section \<open>The identity tables as a state machine\<close>

inductive identity_step :: "identity_db \<Rightarrow> identity_db \<Rightarrow> bool" where
  provision: "provision_workspace_member i j now wid email name role db = Inr (r, db') \<Longrightarrow>
     i \<notin> u_id ` set (users db) \<Longrightarrow> identity_step db db'"
| bootstrap: "bootstrap_workspace_for_owner i k j now email name wname slug db = Inr (r, db') \<Longrightarrow>
     i \<notin> u_id ` set (users db) \<Longrightarrow> k \<notin> w_id ` set (workspaces db) \<Longrightarrow> identity_step db db'"

definition empty_identity_db :: identity_db where
  "empty_identity_db = \<lparr> users = [], workspaces = [], memberships = [] \<rparr>"

lemma identity_inv_empty: "identity_inv empty_identity_db"
  by (simp add: identity_inv_def empty_identity_db_def)

interpretation identity_machine: invariant_machine identity_step identity_inv
proof
  fix s t
  assume "identity_step s t" "identity_inv s"
  then show "identity_inv t"
    by (cases rule: identity_step.cases)
       (auto intro: identity_inv_provision dest: identity_inv_bootstrap)
qed

text \<open>From empty tables, every sequence of provisionings and bootstraps keeps the tables
  well formed: identifiers, emails, slugs and (workspace, user) pairs stay unique, stored
  emails and slugs stay normalised, roles stay known and foreign keys resolve.\<close>

theorem identity_reachable_inv:
  "run identity_step empty_identity_db db \<Longrightarrow> identity_inv db"
  using identity_machine.inv_run identity_inv_empty by blast

text \<open>Provisioning never reaches across workspaces: after a successful call every
  membership of the provisioned user is in the target workspace, the user has access to
  it, the granted role is the requested one and not owner, and no other membership changed.\<close>

theorem provision_isolates_tenants:
  assumes "identity_inv db" "i \<notin> u_id ` set (users db)"
    "provision_workspace_member i j now wid email name role db = Inr (r, db')"
  shows "(\<forall>m\<in>set (memberships db'). m_user_id m = u_id (pv_user r) \<longrightarrow> m_workspace_id m = wid)
    \<and> user_has_workspace_access wid (u_id (pv_user r)) db'
    \<and> memberships db' = memberships db @ [pv_membership r]
    \<and> m_role (pv_membership r) = role \<and> role \<noteq> MEMBERSHIP_ROLE_OWNER
    \<and> u_email (pv_user r) = normalize_email email"
  using assms(3)
proof (cases rule: provision_Inr)
  case (1 user c db1 w)
  from identity_inv_get_or_create [OF assms(1) 1(1) assms(2)]
  have db1: "user \<in> set (users db1)" "memberships db1 = memberships db"
    "workspaces db1 = workspaces db" by auto
  have new: "memberships db' = memberships db1 @ [pv_membership r]" "users db' = users db1"
    "workspaces db' = workspaces db1" "m_workspace_id (pv_membership r) = wid"
    "m_user_id (pv_membership r) = u_id (pv_user r)" "m_role (pv_membership r) = role"
    using 1(10) by (auto simp: create_membership_new)
  have fresh: "\<forall>m\<in>set (memberships db). m_user_id m \<noteq> u_id user" if c
  proof -
    have "u_id user = i" using 1(1) that by (auto simp: get_or_create_new create_user_Inr)
    moreover have "m_user_id m \<in> u_id ` set (users db)" if "m \<in> set (memberships db)" for m
      using assms(1) that unfolding identity_inv_def by blast
    ultimately show ?thesis using assms(2) by metis
  qed
  have only: "\<forall>m\<in>set (memberships db'). m_user_id m = u_id (pv_user r) \<longrightarrow> m_workspace_id m = wid"
    using 1(7,9) fresh new db1(2) by auto
  have u: "pv_user r \<in> set (users db')"
    using 1(6,7) db1(1) new(2) by (auto simp: get_user_def dest: find_Some_mem)
  have w: "w \<in> set (workspaces db')" "w_id w = wid"
    using 1(2,3) db1(3) new(3) by (auto simp: get_workspace_def dest: find_Some_mem)
  have access: "user_has_workspace_access wid (u_id (pv_user r)) db'"
  proof -
    have "(pv_user r, w, pv_membership r) \<in> set (joined_memberships db')"
      using u w new by (simp add: set_joined_memberships)
    then show ?thesis using w(2) unfolding user_access_iff by blast
  qed
  have email: "u_email (pv_user r) = normalize_email email"
  proof (cases c)
    case True
    then show ?thesis using 1(1,7) by (auto simp: get_or_create_new create_user_Inr)
  next
    case False
    with 1(1) have found: "get_user_by_email email db = Some user" "db1 = db"
      by (auto simp: get_or_create_old)
    have "pv_user r = user"
      using find_key_unique [of u_id "users db" user] False 1(6) found assms(1) db1(1)
      by (auto simp: get_user_def identity_inv_def)
    then show ?thesis using found find_Some_holds unfolding get_user_by_email_def by fastforce
  qed
  from only access new(1,6) db1(2) 1(4) email show ?thesis by simp
qed

section \<open>The properties at concrete tables\<close>

theorem identity_reachable_inv_witness:
  "\<exists>r db. bootstrap_workspace_for_owner 1 2 3 0 '' Ann@X.io '' None ''Acme'' ''ACME'' empty_identity_db = Inr (r, db)
     \<and> identity_inv db"
proof -
  let ?b = "bootstrap_workspace_for_owner 1 2 3 0 '' Ann@X.io '' None ''Acme'' ''ACME'' empty_identity_db"
  have "is_ok ?b" by code_simp
  then obtain r db where b: "?b = Inr (r, db)" by (auto simp: is_ok_def split: sum.splits)
  have "identity_step empty_identity_db db"
    by (rule identity_step.bootstrap [OF b]) (simp_all add: empty_identity_db_def)
  from identity_reachable_inv [OF run_single [of identity_step, OF this]] b show ?thesis by blast
qed

definition example_workspace :: identity_db where
  "example_workspace = \<lparr> users = [\<lparr> u_id = 1, u_email = ''a@x'', u_name = None, u_password_hash = None,
       u_status = UserActive, u_created_at = 0, u_updated_at = 0, u_last_login_at = None \<rparr>],
     workspaces = [\<lparr> w_id = 2, w_name = ''X'', w_slug = ''x'', w_status = WorkspaceActive,
       w_created_by_user_id = 1, w_created_at = 0, w_updated_at = 0 \<rparr>],
     memberships = [\<lparr> m_id = 3, m_workspace_id = 2, m_user_id = 1, m_role = MEMBERSHIP_ROLE_OWNER, m_created_at = 0 \<rparr>] \<rparr>"

theorem provision_isolates_tenants_witness:
  "\<exists>r db'. provision_workspace_member 4 5 0 2 '' Bob@X '' None MEMBERSHIP_ROLE_ADMIN example_workspace = Inr (r, db')
     \<and> user_has_workspace_access 2 (u_id (pv_user r)) db' \<and> u_email (pv_user r) = ''bob@x''
     \<and> memberships db' = memberships example_workspace @ [pv_membership r]"
proof -
  let ?p = "provision_workspace_member 4 5 0 2 '' Bob@X '' None MEMBERSHIP_ROLE_ADMIN example_workspace"
  have "is_ok ?p" by code_simp
  then obtain r db' where p: "?p = Inr (r, db')" by (auto simp: is_ok_def split: sum.splits)
  have i: "identity_inv example_workspace" by code_simp
  have f: "4 \<notin> u_id ` set (users example_workspace)" by code_simp
  have e: "normalize_email '' Bob@X '' = ''bob@x''" by code_simp
  from provision_isolates_tenants [OF i f p] p e show ?thesis by auto
qed

end
