(* ===== verification/Sessions.thy ===== *)
theory Sessions
  imports Identity
begin

text \<open>
  Login sessions: the auth tables of \<^verbatim>\<open>app/db/identity_models.py\<close>, the operations of
  \<^verbatim>\<open>app/services/session_service.py\<close> and the cleanup of
  \<^verbatim>\<open>app/services/auth_artifact_cleanup_service.py\<close>. SHA-256 is an argument \<open>sha\<close> of the
  operations that hash; random tokens and the clock are arguments too.
\<close>

section \<open>Tables\<close>

record user_session =
  s_id :: uuid
  s_user_id :: uuid
  s_token_hash :: string
  s_created_at :: time
  s_expires_at :: time
  s_last_seen_at :: "time option"
  s_revoked_at :: "time option"
  s_user_agent :: "string option"
  s_ip_address :: "string option"

record login_attempt =
  la_id :: uuid
  la_email :: string
  la_failed_count :: int
  la_locked_until :: "time option"
  la_last_attempt_at :: time
  la_updated_at :: time

record account_setup_token =
  st_id :: uuid
  st_user_id :: uuid
  st_created_by_user_id :: "uuid option"
  st_token_hash :: string
  st_purpose :: string
  st_created_at :: time
  st_expires_at :: time
  st_consumed_at :: "time option"

record founder_enrollment_invite =
  fi_id :: uuid
  fi_token_hash :: string
  fi_created_at :: time
  fi_expires_at :: time
  fi_consumed_at :: "time option"
  fi_revoked_at :: "time option"
  fi_consumed_by_user_id :: "uuid option"
  fi_consumed_workspace_id :: "uuid option"

record auth_db = identity_db +
  sessions :: "user_session list"
  login_attempts :: "login_attempt list"
  setup_tokens :: "account_setup_token list"
  founder_invites :: "founder_enrollment_invite list"

type_synonym sha = "string \<Rightarrow> string"

section \<open>Session operations\<close>

definition hash_token :: "sha \<Rightarrow> string \<Rightarrow> string" where
  "hash_token sha raw_token = sha (utf8 raw_token)"

definition create_session ::
  "sha \<Rightarrow> int \<Rightarrow> uuid \<Rightarrow> string \<Rightarrow> time \<Rightarrow> uuid \<Rightarrow> string option \<Rightarrow> string option \<Rightarrow>
     int option \<Rightarrow> 'z auth_db_scheme \<Rightarrow>
     (identity_error, (string \<times> user_session) \<times> 'z auth_db_scheme) result" where
  "create_session sha session_ttl_days new_id raw_token now user_id user_agent ip_address ttl_days db =
     (let ttl = (case ttl_days of None \<Rightarrow> session_ttl_days | Some t \<Rightarrow> t);
          row = \<lparr> s_id = new_id, s_user_id = user_id, s_token_hash = hash_token sha raw_token,
            s_created_at = now, s_expires_at = now + days ttl, s_last_seen_at = None,
            s_revoked_at = None, s_user_agent = user_agent, s_ip_address = ip_address \<rparr> in
      bindE (require (s_token_hash row \<notin> s_token_hash ` set (sessions db))
               (IntegrityError ''sessions_token_hash_key'')) (\<lambda>_.
      Inr ((raw_token, row), db\<lparr>sessions := sessions db @ [row]\<rparr>)))"

definition session_of :: "sha \<Rightarrow> string \<Rightarrow> 'z auth_db_scheme \<Rightarrow> user_session option" where
  "session_of sha raw_token db = find (\<lambda>s. s_token_hash s = hash_token sha raw_token) (sessions db)"

definition update_session ::
  "uuid \<Rightarrow> (user_session \<Rightarrow> user_session) \<Rightarrow> 'z auth_db_scheme \<Rightarrow> 'z auth_db_scheme" where
  "update_session sid f db = db\<lparr>sessions := update_where (\<lambda>s. s_id s = sid) f (sessions db)\<rparr>"

definition validate_session ::
  "sha \<Rightarrow> int \<Rightarrow> time \<Rightarrow> string option \<Rightarrow> 'z auth_db_scheme \<Rightarrow> user option \<times> 'z auth_db_scheme" where
  "validate_session sha last_seen_interval now raw_token db =
     (case raw_token of None \<Rightarrow> (None, db) | Some token \<Rightarrow>
      if token = [] then (None, db)
      else case session_of sha token db of None \<Rightarrow> (None, db) | Some row \<Rightarrow>
      if s_revoked_at row \<noteq> None then (None, db)
      else if s_expires_at row \<le> now then (None, db)
      else case get_user (s_user_id row) db of
        None \<Rightarrow> (None, update_session (s_id row) (\<lambda>s. s\<lparr>s_revoked_at := Some now\<rparr>) db)
      | Some user \<Rightarrow>
         if u_status user \<noteq> UserActive
         then (None, update_session (s_id row) (\<lambda>s. s\<lparr>s_revoked_at := Some now\<rparr>) db)
         else (let last_seen_cutoff = now - seconds last_seen_interval in
           if (case s_last_seen_at row of None \<Rightarrow> True | Some t \<Rightarrow> t \<le> last_seen_cutoff)
           then (Some user, update_session (s_id row) (\<lambda>s. s\<lparr>s_last_seen_at := Some now\<rparr>) db)
           else (Some user, db)))"

text \<open>The shared statement of the three revocations: live rows that satisfy a condition.\<close>

definition revoke_where ::
  "(user_session \<Rightarrow> bool) \<Rightarrow> time \<Rightarrow> 'z auth_db_scheme \<Rightarrow> 'z auth_db_scheme" where
  "revoke_where P now db = db\<lparr>sessions :=
     update_where (\<lambda>s. P s \<and> s_revoked_at s = None) (\<lambda>s. s\<lparr>s_revoked_at := Some now\<rparr>) (sessions db)\<rparr>"

datatype token_or_id = RawToken string | SessionId uuid

definition revoke_session :: "sha \<Rightarrow> time \<Rightarrow> token_or_id \<Rightarrow> 'z auth_db_scheme \<Rightarrow> 'z auth_db_scheme" where
  "revoke_session sha now raw_token_or_id db =
     (case raw_token_or_id of
        SessionId sid \<Rightarrow> revoke_where (\<lambda>s. s_id s = sid) now db
      | RawToken token \<Rightarrow> revoke_where (\<lambda>s. s_token_hash s = hash_token sha token) now db)"

definition revoke_all_for_user :: "time \<Rightarrow> uuid \<Rightarrow> 'z auth_db_scheme \<Rightarrow> 'z auth_db_scheme" where
  "revoke_all_for_user now user_id db = revoke_where (\<lambda>s. s_user_id s = user_id) now db"

definition revoke_other_sessions ::
  "sha \<Rightarrow> time \<Rightarrow> uuid \<Rightarrow> string option \<Rightarrow> 'z auth_db_scheme \<Rightarrow> 'z auth_db_scheme" where
  "revoke_other_sessions sha now user_id keep_raw_token db =
     (case keep_raw_token of
        Some token \<Rightarrow> if token = [] then revoke_where (\<lambda>s. s_user_id s = user_id) now db
          else revoke_where (\<lambda>s. s_user_id s = user_id \<and> s_token_hash s \<noteq> hash_token sha token) now db
      | None \<Rightarrow> revoke_where (\<lambda>s. s_user_id s = user_id) now db)"

section \<open>Cleanup of expired artifacts\<close>

definition cleanup_expired_auth_artifacts :: "int \<Rightarrow> time \<Rightarrow> 'z auth_db_scheme \<Rightarrow> 'z auth_db_scheme" where
  "cleanup_expired_auth_artifacts revoked_session_retention_hours cleanup_time db =
     (let revoked_cutoff = cleanup_time - hours revoked_session_retention_hours in
      db\<lparr>sessions := filter (\<lambda>s. \<not> (s_expires_at s \<le> cleanup_time \<or>
             (case s_revoked_at s of None \<Rightarrow> False | Some r \<Rightarrow> r \<le> revoked_cutoff))) (sessions db),
         setup_tokens := filter (\<lambda>t. \<not> st_expires_at t \<le> cleanup_time) (setup_tokens db),
         founder_invites := filter (\<lambda>f. \<not> fi_expires_at f \<le> cleanup_time) (founder_invites db)\<rparr>)"

section \<open>Live and dead tokens\<close>

definition session_inv :: "'z auth_db_scheme \<Rightarrow> bool" where
  "session_inv db \<longleftrightarrow> distinct (map s_id (sessions db)) \<and> distinct (map s_token_hash (sessions db))"

definition live_row :: "time \<Rightarrow> user_session \<Rightarrow> bool" where
  "live_row now s \<longleftrightarrow> s_revoked_at s = None \<and> now < s_expires_at s"

text \<open>A hash is dead when no row with it is live: no request at or after \<open>now\<close> can use it.\<close>

definition dead_hash :: "string \<Rightarrow> time \<Rightarrow> 'z auth_db_scheme \<Rightarrow> bool" where
  "dead_hash h now db \<longleftrightarrow> (\<forall>s\<in>set (sessions db). s_token_hash s = h \<longrightarrow> \<not> live_row now s)"

lemma session_of_Some:
  "session_of sha t db = Some s \<Longrightarrow> s \<in> set (sessions db) \<and> s_token_hash s = hash_token sha t"
  by (auto simp: session_of_def dest: find_Some_mem find_Some_holds)

lemma session_of_unique:
  "session_inv db \<Longrightarrow> s \<in> set (sessions db) \<Longrightarrow> s_token_hash s = hash_token sha t \<Longrightarrow>
     session_of sha t db = Some s"
  using find_key_unique [of s_token_hash "sessions db" s] by (simp add: session_of_def session_inv_def)

text \<open>Which tokens authenticate, and as whom.\<close>

lemma validate_session_Some:
  "fst (validate_session sha iv now tok db) = Some u \<longleftrightarrow>
     (\<exists>t s. tok = Some t \<and> t \<noteq> [] \<and> session_of sha t db = Some s \<and> live_row now s
        \<and> get_user (s_user_id s) db = Some u \<and> u_status u = UserActive)"
  by (auto simp: validate_session_def live_row_def Let_def split: option.splits)

text \<open>Validation writes at most one column of one row.\<close>

lemma validate_session_db:
  "\<exists>sid f. snd (validate_session sha iv now tok db) = update_session sid f db \<and>
     (\<forall>s. s_id (f s) = s_id s \<and> s_token_hash (f s) = s_token_hash s \<and> s_user_id (f s) = s_user_id s
        \<and> s_expires_at (f s) = s_expires_at s \<and> (s_revoked_at (f s) = None \<longrightarrow> s_revoked_at s = None))"
proof -
  have idle: "db = update_session 0 (\<lambda>s. s) db"
    by (simp add: update_session_def update_where_def)
  have cases: "\<exists>sid f. (\<forall>s. s_id (f s) = s_id s \<and> s_token_hash (f s) = s_token_hash s
       \<and> s_user_id (f s) = s_user_id s \<and> s_expires_at (f s) = s_expires_at s
       \<and> (s_revoked_at (f s) = None \<longrightarrow> s_revoked_at s = None)) \<and> db' = update_session sid f db"
    if "db' = db \<or> (\<exists>sid. db' = update_session sid (\<lambda>s. s\<lparr>s_revoked_at := Some now\<rparr>) db)
        \<or> (\<exists>sid. db' = update_session sid (\<lambda>s. s\<lparr>s_last_seen_at := Some now\<rparr>) db)" for db'
    using that
  proof (elim disjE exE)
    assume "db' = db"
    then show ?thesis using idle by (intro exI [of _ 0] exI [of _ "\<lambda>s. s"]) simp
  next
    fix sid assume "db' = update_session sid (\<lambda>s. s\<lparr>s_revoked_at := Some now\<rparr>) db"
    then show ?thesis by (intro exI [of _ sid] exI [of _ "\<lambda>s. s\<lparr>s_revoked_at := Some now\<rparr>"]) simp
  next
    fix sid assume "db' = update_session sid (\<lambda>s. s\<lparr>s_last_seen_at := Some now\<rparr>) db"
    then show ?thesis by (intro exI [of _ sid] exI [of _ "\<lambda>s. s\<lparr>s_last_seen_at := Some now\<rparr>"]) simp
  qed
  have "snd (validate_session sha iv now tok db) = db
      \<or> (\<exists>sid. snd (validate_session sha iv now tok db) = update_session sid (\<lambda>s. s\<lparr>s_revoked_at := Some now\<rparr>) db)
      \<or> (\<exists>sid. snd (validate_session sha iv now tok db) = update_session sid (\<lambda>s. s\<lparr>s_last_seen_at := Some now\<rparr>) db)"
    by (simp add: validate_session_def Let_def split: option.splits) blast
  from cases [OF this] show ?thesis by blast
qed

lemma dead_hash_mono: "dead_hash h now db \<Longrightarrow> now \<le> now' \<Longrightarrow> dead_hash h now' db"
  unfolding dead_hash_def live_row_def by force

lemma dead_hash_update_session:
  assumes "dead_hash h now db"
    "\<forall>s. s_token_hash (f s) = s_token_hash s \<and> s_expires_at (f s) = s_expires_at s
       \<and> (s_revoked_at (f s) = None \<longrightarrow> s_revoked_at s = None)"
  shows "dead_hash h now (update_session sid f db)"
  using assms unfolding dead_hash_def live_row_def update_session_def
  by (fastforce simp: in_update_where)

lemma dead_hash_revoke_where: "dead_hash h now db \<Longrightarrow> dead_hash h now (revoke_where P t db)"
  unfolding dead_hash_def live_row_def revoke_where_def by (fastforce simp: in_update_where)

lemma dead_hash_cleanup: "dead_hash h now db \<Longrightarrow> dead_hash h now (cleanup_expired_auth_artifacts r t db)"
  unfolding dead_hash_def cleanup_expired_auth_artifacts_def by (auto simp: Let_def)

text \<open>Revocation makes a hash dead.\<close>

lemma revoke_where_dead:
  "\<forall>s\<in>set (sessions db). s_token_hash s = h \<longrightarrow> P s \<Longrightarrow> dead_hash h now (revoke_where P t db)"
  unfolding dead_hash_def live_row_def revoke_where_def by (auto simp: in_update_where)

lemma dead_hash_validate:
  assumes "dead_hash (hash_token sha t) now db"
  shows "fst (validate_session sha iv now (Some t) db) = None"
proof (rule ccontr)
  assume "fst (validate_session sha iv now (Some t) db) \<noteq> None"
  then obtain u where "fst (validate_session sha iv now (Some t) db) = Some u" by blast
  then show False using assms unfolding validate_session_Some dead_hash_def
    by (auto dest: session_of_Some)
qed

section \<open>The session tables as a state machine\<close>

text \<open>
  A step is one operation at a time not before the last one. Random tokens do not repeat:
  new sessions get a hash other than \<open>h\<close>, the hash of the token under study.
\<close>

inductive session_step :: "sha \<Rightarrow> string \<Rightarrow> time \<times> auth_db \<Rightarrow> time \<times> auth_db \<Rightarrow> bool"
  for sha :: sha and h :: string where
  create: "t \<le> now \<Longrightarrow> hash_token sha raw \<noteq> h \<Longrightarrow> i \<notin> s_id ` set (sessions db) \<Longrightarrow>
     create_session sha ttl0 i raw now uid ua ip ttl db = Inr (r, db') \<Longrightarrow>
     session_step sha h (t, db) (now, db')"
| validate: "t \<le> now \<Longrightarrow> session_step sha h (t, db) (now, snd (validate_session sha iv now tok db))"
| revoke: "t \<le> now \<Longrightarrow> session_step sha h (t, db) (now, revoke_session sha now x db)"
| revoke_all: "t \<le> now \<Longrightarrow> session_step sha h (t, db) (now, revoke_all_for_user now uid db)"
| revoke_other: "t \<le> now \<Longrightarrow> session_step sha h (t, db) (now, revoke_other_sessions sha now uid keep db)"
| cleanup: "t \<le> now \<Longrightarrow> session_step sha h (t, db) (now, cleanup_expired_auth_artifacts ret now db)"

lemma revoke_session_where: "\<exists>P. revoke_session sha now x db = revoke_where P now db"
  by (cases x) (auto simp: revoke_session_def)

lemma revoke_other_where: "\<exists>P. revoke_other_sessions sha now uid keep db = revoke_where P now db"
  by (auto simp: revoke_other_sessions_def split: option.splits)

lemma session_inv_revoke_where: "session_inv db \<Longrightarrow> session_inv (revoke_where P t db)"
  by (simp add: session_inv_def revoke_where_def map_update_where)

lemma session_inv_update_session:
  "session_inv db \<Longrightarrow> \<forall>s. s_id (f s) = s_id s \<and> s_token_hash (f s) = s_token_hash s \<Longrightarrow>
     session_inv (update_session sid f db)"
  by (simp add: session_inv_def update_session_def map_update_where)

lemma create_session_Inr:
  "create_session sha ttl0 i raw now uid ua ip ttl db = Inr ((tok, row), db') \<Longrightarrow>
     tok = raw \<and> s_token_hash row = hash_token sha raw \<and> s_id row = i \<and> s_user_id row = uid
     \<and> s_revoked_at row = None \<and> hash_token sha raw \<notin> s_token_hash ` set (sessions db)
     \<and> s_expires_at row = now + days (case ttl of None \<Rightarrow> ttl0 | Some d \<Rightarrow> d)
     \<and> db' = db\<lparr>sessions := sessions db @ [row]\<rparr>"
  by (auto simp: create_session_def Let_def result_iffs)

lemma session_step_inv: "session_step sha h s t \<Longrightarrow> session_inv (snd s) \<Longrightarrow> session_inv (snd t)"
proof (induction rule: session_step.induct)
  case (create t now raw i db ttl0 uid ua ip ttl r db')
  then show ?case by (cases r) (auto dest!: create_session_Inr simp: session_inv_def)
next
  case (validate t now db iv tok)
  obtain sid f where "snd (validate_session sha iv now tok db) = update_session sid f db"
    "\<forall>s. s_id (f s) = s_id s \<and> s_token_hash (f s) = s_token_hash s"
    using validate_session_db [of sha iv now tok db] by blast
  then show ?case using session_inv_update_session validate.prems by simp
next
  case (revoke t now db x)
  then show ?case using revoke_session_where [of sha now x db] session_inv_revoke_where by auto
next
  case (revoke_all t now db uid)
  then show ?case by (simp add: revoke_all_for_user_def session_inv_revoke_where)
next
  case (revoke_other t now db uid keep)
  then show ?case using revoke_other_where [of sha now uid keep db] session_inv_revoke_where by auto
next
  case (cleanup t now db ret)
  then show ?case
    by (auto simp: session_inv_def cleanup_expired_auth_artifacts_def Let_def distinct_map_filter)
qed

lemma session_step_time: "session_step sha h s t \<Longrightarrow> fst s \<le> fst t"
  by (induction rule: session_step.induct) auto

lemma session_step_dead:
  "session_step sha h s t \<Longrightarrow> dead_hash h (fst s) (snd s) \<Longrightarrow> dead_hash h (fst t) (snd t)"
proof (induction rule: session_step.induct)
  case (create t now raw i db ttl0 uid ua ip ttl r db')
  then have "dead_hash h now db" using dead_hash_mono by simp
  with create show ?case
    by (cases r) (auto dest!: create_session_Inr simp: dead_hash_def)
next
  case (validate t now db iv tok)
  then have dead: "dead_hash h now db" using dead_hash_mono by simp
  obtain sid f where eq: "snd (validate_session sha iv now tok db) = update_session sid f db"
    and f: "\<forall>s. s_token_hash (f s) = s_token_hash s \<and> s_expires_at (f s) = s_expires_at s
       \<and> (s_revoked_at (f s) = None \<longrightarrow> s_revoked_at s = None)"
    using validate_session_db [of sha iv now tok db] by blast
  show ?case unfolding fst_conv snd_conv eq by (rule dead_hash_update_session [OF dead f])
next
  case (revoke t now db x)
  then have "dead_hash h now db" using dead_hash_mono by simp
  then show ?case using revoke_session_where [of sha now x db] dead_hash_revoke_where by auto
next
  case (revoke_all t now db uid)
  then have "dead_hash h now db" using dead_hash_mono by simp
  then show ?case by (simp add: revoke_all_for_user_def dead_hash_revoke_where)
next
  case (revoke_other t now db uid keep)
  then have "dead_hash h now db" using dead_hash_mono by simp
  then show ?case using revoke_other_where [of sha now uid keep db] dead_hash_revoke_where by auto
next
  case (cleanup t now db ret)
  then have "dead_hash h now db" using dead_hash_mono by simp
  then show ?case by (simp add: dead_hash_cleanup)
qed

interpretation session_machine: invariant_machine "session_step sha h" "\<lambda>s. session_inv (snd s)" for sha h
  by unfold_locales (rule session_step_inv)

lemma run_dead:
  assumes "run (session_step sha h) s t" "session_inv (snd s)" "dead_hash h (fst s) (snd s)"
  shows "dead_hash h (fst t) (snd t)"
  using session_machine.run_stable [where P = "\<lambda>s. dead_hash h (fst s) (snd s)", OF assms]
    session_step_dead by blast

section \<open>Properties\<close>

text \<open>Logout is permanent: once a token has been revoked at time \<open>t0\<close>, no sequence of
  later session operations and cleanups makes it authenticate again.\<close>

theorem revoked_session_stays_dead:
  assumes "session_inv db"
    and "run (session_step sha (hash_token sha tok)) (t0, revoke_session sha t0 (RawToken tok) db) (t1, db1)"
    and "t1 \<le> now"
  shows "fst (validate_session sha iv now (Some tok) db1) = None"
proof -
  have "dead_hash (hash_token sha tok) t0 (revoke_session sha t0 (RawToken tok) db)"
    by (simp add: revoke_session_def revoke_where_dead)
  moreover have "session_inv (revoke_session sha t0 (RawToken tok) db)"
    by (simp add: revoke_session_def session_inv_revoke_where assms(1))
  ultimately have "dead_hash (hash_token sha tok) t1 db1"
    using run_dead [OF assms(2)] by simp
  then show ?thesis using dead_hash_mono dead_hash_validate assms(3) by blast
qed

text \<open>A disabled account cannot use a session issued before: validation refuses it and
  leaves its token dead, so it stays refused even after the account is enabled again.\<close>

theorem disabled_user_session_is_revoked:
  assumes "session_inv db" "session_of sha tok db = Some s" "tok \<noteq> []"
    and "get_user (s_user_id s) db = Some u" "u_status u = UserDisabled"
    and "validate_session sha iv now (Some tok) db = (r, db')"
  shows "r = None \<and> dead_hash (hash_token sha tok) now db'"
proof -
  have only: "s' = s" if "s' \<in> set (sessions db)" "s_token_hash s' = hash_token sha tok" for s'
    using session_of_unique [OF assms(1) that] assms(2) by simp
  have r: "r = None"
    using assms(2-6) by (auto simp: validate_session_def split: if_splits)
  show ?thesis
  proof (cases "live_row now s")
    case True
    with assms(2-6) have "db' = update_session (s_id s) (\<lambda>s. s\<lparr>s_revoked_at := Some now\<rparr>) db"
      by (auto simp: validate_session_def live_row_def)
    then show ?thesis using r only
      by (auto simp: dead_hash_def live_row_def update_session_def in_update_where)
  next
    case False
    with assms(2-6) have "db' = db"
      by (auto simp: validate_session_def live_row_def split: if_splits)
    then show ?thesis using r only False by (auto simp: dead_hash_def)
  qed
qed

text \<open>A freshly issued token authenticates its active owner until the expiry, and a
  password change that keeps it logs out every other session of the user and no one else's.\<close>

theorem session_keep_and_logout_others:
  assumes "session_inv db" "tok \<noteq> []" "fst (validate_session sha iv now (Some tok) db) = Some u"
    and "db' = revoke_other_sessions sha now (u_id u) (Some tok) db"
  shows "fst (validate_session sha iv now (Some tok) db') = Some u
    \<and> (\<forall>s\<in>set (sessions db'). s_user_id s = u_id u \<and> s_token_hash s \<noteq> hash_token sha tok \<longrightarrow>
          \<not> live_row now s)
    \<and> filter (\<lambda>s. s_user_id s \<noteq> u_id u) (sessions db') = filter (\<lambda>s. s_user_id s \<noteq> u_id u) (sessions db)"
proof (intro conjI)
  obtain s where s: "session_of sha tok db = Some s" "live_row now s"
      "get_user (s_user_id s) db = Some u" "u_status u = UserActive"
    using assms(3) unfolding validate_session_Some by blast
  let ?P = "\<lambda>s. s_user_id s = u_id u \<and> s_token_hash s \<noteq> hash_token sha tok"
  have db': "db' = revoke_where ?P now db"
    using assms(2,4) by (simp add: revoke_other_sessions_def)
  have mem: "s \<in> set (sessions db)" "s_token_hash s = hash_token sha tok"
    using session_of_Some [OF s(1)] by auto
  have kept: "s \<in> set (sessions db')"
    using mem by (auto simp: db' revoke_where_def in_update_where)
  have "session_of sha tok db' = Some s"
    by (rule session_of_unique) (use assms(1) kept mem in \<open>auto simp: db' session_inv_revoke_where\<close>)
  moreover have "get_user (s_user_id s) db' = Some u"
    using s(3) by (simp add: db' revoke_where_def get_user_def)
  ultimately show "fst (validate_session sha iv now (Some tok) db') = Some u"
    unfolding validate_session_Some using assms(2) s(2,4) by blast
  show "\<forall>s\<in>set (sessions db'). ?P s \<longrightarrow> \<not> live_row now s"
    by (auto simp: db' revoke_where_def in_update_where live_row_def)
  have "filter (\<lambda>s. s_user_id s \<noteq> u_id u) (update_where (\<lambda>s. ?P s \<and> s_revoked_at s = None) f rows)
      = filter (\<lambda>s. s_user_id s \<noteq> u_id u) rows"
    if "\<And>s. s_user_id (f s) = s_user_id s" for f :: "user_session \<Rightarrow> user_session" and rows
    using that by (induction rows) auto
  then show "filter (\<lambda>s. s_user_id s \<noteq> u_id u) (sessions db') = filter (\<lambda>s. s_user_id s \<noteq> u_id u) (sessions db)"
    by (simp add: db' revoke_where_def)
qed

section \<open>The properties at concrete tables\<close>

definition example_auth :: auth_db where
  "example_auth = identity_db.extend example_workspace (auth_db.fields
     [\<lparr> s_id = 10, s_user_id = 1, s_token_hash = ''t'', s_created_at = 0, s_expires_at = 1000,
        s_last_seen_at = None, s_revoked_at = None, s_user_agent = None, s_ip_address = None \<rparr>,
      \<lparr> s_id = 11, s_user_id = 1, s_token_hash = ''u'', s_created_at = 0, s_expires_at = 1000,
        s_last_seen_at = None, s_revoked_at = None, s_user_agent = None, s_ip_address = None \<rparr>] [] [] [])"

theorem revoked_session_stays_dead_witness:
  "fst (validate_session id 60 30 (Some ''t'') (snd (validate_session id 60 20 (Some ''t'')
      (revoke_session id 10 (RawToken ''t'') example_auth)))) = None"
proof (rule revoked_session_stays_dead [where ?t0.0 = 10])
  show "session_inv example_auth" by code_simp
  show "run (session_step id (hash_token id ''t'')) (10, revoke_session id 10 (RawToken ''t'') example_auth)
     (20, snd (validate_session id 60 20 (Some ''t'') (revoke_session id 10 (RawToken ''t'') example_auth)))"
    by (rule run_single, rule session_step.validate) simp
qed simp

theorem session_keep_and_logout_others_witness:
  "fst (validate_session id 60 30 (Some ''t'') (revoke_other_sessions id 30 1 (Some ''t'') example_auth))
     = Some (hd (users example_auth))"
proof -
  have i: "session_inv example_auth" by code_simp
  have v: "fst (validate_session id 60 30 (Some ''t'') example_auth) = Some (hd (users example_auth))" by code_simp
  have u: "u_id (hd (users example_auth)) = 1" by code_simp
  from session_keep_and_logout_others [OF i _ v refl] show ?thesis by (simp add: u)
qed

definition example_disabled :: auth_db where
  "example_disabled = example_auth\<lparr>users := map (\<lambda>u. u\<lparr>u_status := UserDisabled\<rparr>) (users example_auth)\<rparr>"

theorem disabled_user_session_is_revoked_witness:
  "dead_hash ''t'' 30 (snd (validate_session id 60 30 (Some ''t'') example_disabled))"
proof -
  have i: "session_inv example_disabled" by code_simp
  have s: "session_of id ''t'' example_disabled = Some (hd (sessions example_disabled))" by code_simp
  have g: "get_user (s_user_id (hd (sessions example_disabled))) example_disabled = Some (hd (users example_disabled))"
    by code_simp
  have d: "u_status (hd (users example_disabled)) = UserDisabled" by code_simp
  have h: "hash_token id ''t'' = ''t''" by code_simp
  from disabled_user_session_is_revoked [OF i s _ g d surjective_pairing] show ?thesis by (simp add: h)
qed

end
