(* ===== verification/Enrollment.thy ===== *)
theory Enrollment
  imports Sessions
begin

text \<open>
  Founder invitations (\<^verbatim>\<open>app/services/founder_enrollment_service.py\<close>) and teammate setup
  links (\<^verbatim>\<open>app/services/account_setup_service.py\<close>). The Argon2 hash is the argument
  \<open>argon2\<close>, SHA-256 the argument \<open>sha\<close>; a raised error leaves the transaction to be rolled
  back, so an operation returns a new state only when it succeeds.
\<close>

datatype enrollment_error =
    TtlError string
  | InvalidFounderInviteError string
  | FounderEnrollmentConflictError string
  | FounderInviteRevocationError string
  | AccountSetupTokenError string
  | IdentityError identity_error

definition MAX_FOUNDER_INVITE_TTL_HOURS :: int where "MAX_FOUNDER_INVITE_TTL_HOURS = 168"
definition INVALID_FOUNDER_INVITE :: string where
  "INVALID_FOUNDER_INVITE = ''founder invite is invalid or expired''"
definition FOUNDER_ENROLLMENT_CONFLICT :: string where
  "FOUNDER_ENROLLMENT_CONFLICT = ''email or workspace slug already exists''"
definition FOUNDER_INVITE_REVOCATION_FAILURE :: string where
  "FOUNDER_INVITE_REVOCATION_FAILURE = ''founder invite not found or already consumed''"
definition INVALID_ACCOUNT_SETUP_TOKEN :: string where
  "INVALID_ACCOUNT_SETUP_TOKEN = ''setup token is invalid or expired''"

section \<open>Founder invitations\<close>

definition create_founder_invite ::
  "sha \<Rightarrow> uuid \<Rightarrow> string \<Rightarrow> time \<Rightarrow> int \<Rightarrow> 'z auth_db_scheme \<Rightarrow>
     (enrollment_error, (string \<times> founder_enrollment_invite) \<times> 'z auth_db_scheme) result" where
  "create_founder_invite sha new_id raw_token now ttl_hours db =
     bindE (require (\<not> (ttl_hours \<le> 0 \<or> MAX_FOUNDER_INVITE_TTL_HOURS < ttl_hours))
              (TtlError ''ttl_hours must be between 1 and 168'')) (\<lambda>_.
     (let row = \<lparr> fi_id = new_id, fi_token_hash = hash_token sha raw_token, fi_created_at = now,
        fi_expires_at = now + hours ttl_hours, fi_consumed_at = None, fi_revoked_at = None,
        fi_consumed_by_user_id = None, fi_consumed_workspace_id = None \<rparr> in
      bindE (require (fi_token_hash row \<notin> fi_token_hash ` set (founder_invites db))
               (IdentityError (IntegrityError ''uq_founder_enrollment_invites_token_hash''))) (\<lambda>_.
      Inr ((raw_token, row), db\<lparr>founder_invites := founder_invites db @ [row]\<rparr>))))"

definition invite_of :: "sha \<Rightarrow> string \<Rightarrow> 'z auth_db_scheme \<Rightarrow> founder_enrollment_invite option" where
  "invite_of sha raw_token db =
     find (\<lambda>f. fi_token_hash f = hash_token sha raw_token) (founder_invites db)"

definition usable_invite :: "time \<Rightarrow> founder_enrollment_invite \<Rightarrow> bool" where
  "usable_invite now f \<longleftrightarrow>
     \<not> (fi_consumed_at f \<noteq> None \<or> fi_revoked_at f \<noteq> None \<or> fi_expires_at f \<le> now)"

definition consume_founder_invite ::
  "sha \<Rightarrow> (string \<Rightarrow> string) \<Rightarrow> uuid \<Rightarrow> uuid \<Rightarrow> uuid \<Rightarrow> time \<Rightarrow> string \<Rightarrow> string \<Rightarrow> string option \<Rightarrow>
     string \<Rightarrow> string \<Rightarrow> string \<Rightarrow> 'z auth_db_scheme \<Rightarrow>
     (enrollment_error, (user \<times> workspace \<times> membership \<times> founder_enrollment_invite) \<times> 'z auth_db_scheme) result"
where
  "consume_founder_invite sha argon2 new_user_id new_workspace_id new_membership_id now raw_token
       email name plaintext_password workspace_name workspace_slug db =
     bindE (require (raw_token \<noteq> []) (InvalidFounderInviteError INVALID_FOUNDER_INVITE)) (\<lambda>_.
     bindE (require_some (invite_of sha raw_token db)
              (InvalidFounderInviteError INVALID_FOUNDER_INVITE)) (\<lambda>invite.
     bindE (require (usable_invite now invite)
              (InvalidFounderInviteError INVALID_FOUNDER_INVITE)) (\<lambda>_.
     (let normalized_email = normalize_email email; normalized_slug = normalize_slug workspace_slug in
     bindE (require (\<not> (get_user_by_email normalized_email db \<noteq> None
                       \<or> get_workspace_by_slug normalized_slug db \<noteq> None))
              (FounderEnrollmentConflictError FOUNDER_ENROLLMENT_CONFLICT)) (\<lambda>_.
     bindE (map_error IdentityError (create_user new_user_id now normalized_email name
              (Some (argon2 plaintext_password)) db)) (\<lambda>(user, db1).
     bindE (map_error IdentityError (create_workspace new_workspace_id now workspace_name
              normalized_slug (u_id user) db1)) (\<lambda>(workspace, db2).
     bindE (map_error IdentityError (create_membership new_membership_id now (w_id workspace)
              (u_id user) MEMBERSHIP_ROLE_OWNER db2)) (\<lambda>((membership, created), db3).
     bindE (require created (FounderEnrollmentConflictError FOUNDER_ENROLLMENT_CONFLICT)) (\<lambda>_.
     (let invite' = invite\<lparr>fi_consumed_at := Some now, fi_consumed_by_user_id := Some (u_id user),
            fi_consumed_workspace_id := Some (w_id workspace)\<rparr> in
      Inr ((user, workspace, membership, invite'),
        db3\<lparr>founder_invites := update_where (\<lambda>f. fi_id f = fi_id invite) (\<lambda>f. invite')
              (founder_invites db3)\<rparr>)))))))))))"

definition revoke_founder_invite ::
  "time \<Rightarrow> uuid \<Rightarrow> 'z auth_db_scheme \<Rightarrow>
     (enrollment_error, founder_enrollment_invite \<times> 'z auth_db_scheme) result" where
  "revoke_founder_invite now invite_id db =
     bindE (require_some (find (\<lambda>f. fi_id f = invite_id) (founder_invites db))
              (FounderInviteRevocationError FOUNDER_INVITE_REVOCATION_FAILURE)) (\<lambda>invite.
     bindE (require (fi_consumed_at invite = None)
              (FounderInviteRevocationError FOUNDER_INVITE_REVOCATION_FAILURE)) (\<lambda>_.
     if fi_revoked_at invite = None
     then Inr (invite\<lparr>fi_revoked_at := Some now\<rparr>,
            db\<lparr>founder_invites := update_where (\<lambda>f. fi_id f = invite_id)
                 (\<lambda>f. f\<lparr>fi_revoked_at := Some now\<rparr>) (founder_invites db)\<rparr>)
     else Inr (invite, db)))"

section \<open>Setup links\<close>

definition create_account_setup_token ::
  "sha \<Rightarrow> uuid \<Rightarrow> string \<Rightarrow> time \<Rightarrow> uuid \<Rightarrow> uuid option \<Rightarrow> int \<Rightarrow> 'z auth_db_scheme \<Rightarrow>
     (enrollment_error, (string \<times> account_setup_token) \<times> 'z auth_db_scheme) result" where
  "create_account_setup_token sha new_id raw_token now user_id created_by_user_id ttl_days db =
     bindE (require_some (get_user user_id db) (AccountSetupTokenError ''user not active'')) (\<lambda>user.
     bindE (require (u_status user = UserActive) (AccountSetupTokenError ''user not active'')) (\<lambda>_.
     bindE (require (u_password_hash user = None)
              (AccountSetupTokenError ''user already has a password'')) (\<lambda>_.
     (let tokens1 = update_where (\<lambda>t. st_user_id t = user_id \<and> st_consumed_at t = None)
            (\<lambda>t. t\<lparr>st_consumed_at := Some now\<rparr>) (setup_tokens db);
          row = \<lparr> st_id = new_id, st_user_id = user_id, st_created_by_user_id = created_by_user_id,
            st_token_hash = hash_token sha raw_token, st_purpose = ''team_invite'',
            st_created_at = now, st_expires_at = now + days ttl_days, st_consumed_at = None \<rparr> in
      bindE (require (st_token_hash row \<notin> st_token_hash ` set tokens1)
               (IdentityError (IntegrityError ''uq_account_setup_tokens_token_hash''))) (\<lambda>_.
      Inr ((raw_token, row), db\<lparr>setup_tokens := tokens1 @ [row]\<rparr>))))))"

definition complete_account_setup_token ::
  "sha \<Rightarrow> (string \<Rightarrow> string) \<Rightarrow> time \<Rightarrow> string \<Rightarrow> string \<Rightarrow> 'z auth_db_scheme \<Rightarrow>
     (enrollment_error, user \<times> 'z auth_db_scheme) result" where
  "complete_account_setup_token sha argon2 now raw_token plaintext_password db =
     bindE (require (raw_token \<noteq> []) (AccountSetupTokenError INVALID_ACCOUNT_SETUP_TOKEN)) (\<lambda>_.
     bindE (require_some (find (\<lambda>t. st_token_hash t = hash_token sha raw_token) (setup_tokens db))
              (AccountSetupTokenError INVALID_ACCOUNT_SETUP_TOKEN)) (\<lambda>row.
     bindE (require (st_consumed_at row = None \<and> \<not> st_expires_at row \<le> now)
              (AccountSetupTokenError INVALID_ACCOUNT_SETUP_TOKEN)) (\<lambda>_.
     bindE (require_some (get_user (st_user_id row) db)
              (AccountSetupTokenError INVALID_ACCOUNT_SETUP_TOKEN)) (\<lambda>user.
     bindE (require (u_status user = UserActive \<and> u_password_hash user = None)
              (AccountSetupTokenError INVALID_ACCOUNT_SETUP_TOKEN)) (\<lambda>_.
     (let user' = user\<lparr>u_password_hash := Some (argon2 plaintext_password), u_updated_at := now\<rparr> in
      Inr (user', db\<lparr>users := update_where (\<lambda>u. u_id u = u_id user) (\<lambda>u. user') (users db),
        setup_tokens := update_where (\<lambda>t. st_id t = st_id row)
          (\<lambda>t. t\<lparr>st_consumed_at := Some now\<rparr>) (setup_tokens db)\<rparr>)))))))"

section \<open>Invariant of the invitation and token tables\<close>

text \<open>
  Unique identifiers and hashes, the two check constraints of the invitation table, and at
  most one open setup token per user.
\<close>

definition invite_ok :: "founder_enrollment_invite \<Rightarrow> bool" where
  "invite_ok f \<longleftrightarrow>
     (fi_consumed_at f \<noteq> None \<or> fi_consumed_by_user_id f = None \<and> fi_consumed_workspace_id f = None)
     \<and> (fi_consumed_at f = None \<or> fi_revoked_at f = None)"

definition enrollment_inv :: "'z auth_db_scheme \<Rightarrow> bool" where
  "enrollment_inv db \<longleftrightarrow>
     distinct (map fi_id (founder_invites db)) \<and> distinct (map fi_token_hash (founder_invites db)) \<and>
     (\<forall>f\<in>set (founder_invites db). invite_ok f) \<and>
     distinct (map st_id (setup_tokens db)) \<and> distinct (map st_token_hash (setup_tokens db)) \<and>
     (\<forall>t\<in>set (setup_tokens db). \<forall>t'\<in>set (setup_tokens db).
        st_consumed_at t = None \<and> st_consumed_at t' = None \<and> st_user_id t = st_user_id t' \<longrightarrow> t = t')"

lemma consume_Inr:
  assumes "consume_founder_invite sha argon2 i k j now raw email name pw wname slug db = Inr (r, db')"
  obtains invt u w m db1 db2 db3 where
    "raw \<noteq> []" "invite_of sha raw db = Some invt" "usable_invite now invt"
    "create_user i now (normalize_email email) name (Some (argon2 pw)) db = Inr (u, db1)"
    "create_workspace k now wname (normalize_slug slug) (u_id u) db1 = Inr (w, db2)"
    "create_membership j now (w_id w) (u_id u) MEMBERSHIP_ROLE_OWNER db2 = Inr ((m, True), db3)"
    "r = (u, w, m, invt\<lparr>fi_consumed_at := Some now, fi_consumed_by_user_id := Some (u_id u),
       fi_consumed_workspace_id := Some (w_id w)\<rparr>)"
    "db' = db3\<lparr>founder_invites := update_where (\<lambda>f. fi_id f = fi_id invt)
       (\<lambda>f. invt\<lparr>fi_consumed_at := Some now, fi_consumed_by_user_id := Some (u_id u),
       fi_consumed_workspace_id := Some (w_id w)\<rparr>) (founder_invites db3)\<rparr>"
  using assms unfolding consume_founder_invite_def
  by (auto simp: Let_def result_iffs require_some_Inr_iff split: prod.splits)

text \<open>The tables the identity operations do not touch.\<close>

lemma create_user_frame:
  "create_user i now e n p (db :: 'z auth_db_scheme) = Inr (u, db') \<Longrightarrow>
     founder_invites db' = founder_invites db \<and> setup_tokens db' = setup_tokens db
     \<and> sessions db' = sessions db"
  by (auto simp: create_user_Inr)

lemma create_workspace_frame:
  "create_workspace i now n s c (db :: 'z auth_db_scheme) = Inr (w, db') \<Longrightarrow>
     founder_invites db' = founder_invites db \<and> setup_tokens db' = setup_tokens db
     \<and> sessions db' = sessions db"
  by (auto simp: create_workspace_Inr)

lemma create_membership_frame:
  "create_membership i now wid uid r (db :: 'z auth_db_scheme) = Inr ((m, True), db') \<Longrightarrow>
     founder_invites db' = founder_invites db \<and> setup_tokens db' = setup_tokens db
     \<and> sessions db' = sessions db"
  by (auto simp: create_membership_new)

lemma consume_tables:
  assumes "consume_founder_invite sha argon2 i k j now raw email name pw wname slug db = Inr ((u, w, m, inv'), db')"
  obtains invt where
    "invite_of sha raw db = Some invt" "usable_invite now invt" "raw \<noteq> []"
    "inv' = invt\<lparr>fi_consumed_at := Some now, fi_consumed_by_user_id := Some i, fi_consumed_workspace_id := Some k\<rparr>"
    "founder_invites db' = update_where (\<lambda>f. fi_id f = fi_id invt) (\<lambda>f. inv') (founder_invites db)"
    "setup_tokens db' = setup_tokens db" "sessions db' = sessions db"
    "users db' = users db @ [u]" "workspaces db' = workspaces db @ [w]"
    "memberships db' = memberships db @ [m]"
    "u_id u = i" "u_email u = normalize_email email" "u_password_hash u = Some (argon2 pw)"
    "w_id w = k" "w_created_by_user_id w = i"
    "m_user_id m = i" "m_workspace_id m = k" "m_role m = MEMBERSHIP_ROLE_OWNER"
  using assms
proof (cases rule: consume_Inr)
  case (1 invt u0 w0 m0 db1 db2 db3)
  have eqs: "u0 = u" "w0 = w" "m0 = m" using 1(7) by auto
  have frames: "founder_invites db3 = founder_invites db" "setup_tokens db3 = setup_tokens db"
    "sessions db3 = sessions db"
    using create_user_frame [OF 1(4)] create_workspace_frame [OF 1(5)]
      create_membership_frame [OF 1(6)] by auto
  have ids: "u_id u = i" "w_id w = k" using 1(4,5) unfolding eqs by (auto simp: create_user_Inr create_workspace_Inr)
  show thesis
    by (rule that [of invt])
       (use 1 frames ids in \<open>auto simp: eqs create_user_Inr create_workspace_Inr create_membership_new\<close>)
qed

lemma identity_inv_consume:
  assumes "identity_inv db" "i \<notin> u_id ` set (users db)" "k \<notin> w_id ` set (workspaces db)"
    "consume_founder_invite sha argon2 i k j now raw email name pw wname slug db = Inr (r, db')"
  shows "identity_inv db'"
  using assms(4)
proof (cases rule: consume_Inr)
  case (1 invt u w m db1 db2 db3)
  have db1: "identity_inv db1" using identity_inv_create_user [OF assms(1) 1(4) assms(2)] .
  have u: "u_id u \<in> u_id ` set (users db1)" "workspaces db1 = workspaces db"
    using 1(4) by (auto simp: create_user_Inr)
  have db2: "identity_inv db2" using identity_inv_create_workspace [OF db1 1(5)] assms(3) u by auto
  have "w_id w \<in> w_id ` set (workspaces db2)" "u_id u \<in> u_id ` set (users db2)"
    using 1(5) u by (auto simp: create_workspace_Inr)
  then have "identity_inv db3" using identity_inv_create_membership [OF db2 1(6)] by blast
  then show ?thesis using 1(8) by (simp add: identity_inv_def)
qed

section \<open>A spent hash stays spent\<close>

text \<open>A founder token is spent when every invitation with its hash is consumed, revoked or expired.\<close>

definition spent_invite :: "string \<Rightarrow> time \<Rightarrow> 'z auth_db_scheme \<Rightarrow> bool" where
  "spent_invite h now db \<longleftrightarrow>
     (\<forall>f\<in>set (founder_invites db). fi_token_hash f = h \<longrightarrow> \<not> usable_invite now f)"

lemma usable_invite_spent [simp]:
  "\<not> usable_invite now (f\<lparr>fi_revoked_at := Some t\<rparr>)"
  "\<not> usable_invite now (f\<lparr>fi_consumed_at := Some t, fi_consumed_by_user_id := u, fi_consumed_workspace_id := w\<rparr>)"
  by (simp_all add: usable_invite_def)

lemma spent_invite_mono: "spent_invite h t db \<Longrightarrow> t \<le> now \<Longrightarrow> spent_invite h now db"
  unfolding spent_invite_def usable_invite_def by force

lemma spent_invite_rejected:
  "spent_invite (hash_token sha raw) now db \<Longrightarrow>
     consume_founder_invite sha argon2 i k j now raw email name pw wname slug db
       = Inl (InvalidFounderInviteError INVALID_FOUNDER_INVITE)"
  unfolding spent_invite_def consume_founder_invite_def invite_of_def
  by (cases "raw = []"; cases "find (\<lambda>f. fi_token_hash f = hash_token sha raw) (founder_invites db)")
     (auto dest: find_Some_mem find_Some_holds)

inductive enrollment_step :: "sha \<Rightarrow> string \<Rightarrow> time \<times> auth_db \<Rightarrow> time \<times> auth_db \<Rightarrow> bool"
  for sha :: sha and h :: string where
  invite: "t \<le> now \<Longrightarrow> hash_token sha raw \<noteq> h \<Longrightarrow> i \<notin> fi_id ` set (founder_invites db) \<Longrightarrow>
     create_founder_invite sha i raw now ttl db = Inr (r, db') \<Longrightarrow> enrollment_step sha h (t, db) (now, db')"
| consume: "t \<le> now \<Longrightarrow>
     consume_founder_invite sha argon2 i k j now raw email name pw wname slug db = Inr (r, db') \<Longrightarrow>
     enrollment_step sha h (t, db) (now, db')"
| revoke: "t \<le> now \<Longrightarrow> revoke_founder_invite now fid db = Inr (f, db') \<Longrightarrow>
     enrollment_step sha h (t, db) (now, db')"
| setup_link: "t \<le> now \<Longrightarrow> hash_token sha raw \<noteq> h \<Longrightarrow> i \<notin> st_id ` set (setup_tokens db) \<Longrightarrow>
     create_account_setup_token sha i raw now uid by_user ttl db = Inr (s, db') \<Longrightarrow>
     enrollment_step sha h (t, db) (now, db')"
| complete: "t \<le> now \<Longrightarrow> complete_account_setup_token sha argon2 now raw pw db = Inr (u, db') \<Longrightarrow>
     enrollment_step sha h (t, db) (now, db')"
| cleanup: "t \<le> now \<Longrightarrow> enrollment_step sha h (t, db) (now, cleanup_expired_auth_artifacts ret now db)"

lemma create_founder_invite_Inr:
  "create_founder_invite sha i raw now ttl db = Inr ((tok, row), db') \<Longrightarrow>
     0 < ttl \<and> ttl \<le> 168 \<and> tok = raw \<and> fi_id row = i \<and> fi_token_hash row = hash_token sha raw
     \<and> fi_consumed_at row = None \<and> fi_revoked_at row = None \<and> fi_consumed_by_user_id row = None
     \<and> fi_consumed_workspace_id row = None \<and> fi_expires_at row = now + hours ttl
     \<and> fi_token_hash row \<notin> fi_token_hash ` set (founder_invites db)
     \<and> db' = db\<lparr>founder_invites := founder_invites db @ [row]\<rparr>"
  by (auto simp: create_founder_invite_def Let_def result_iffs MAX_FOUNDER_INVITE_TTL_HOURS_def)

lemma revoke_founder_invite_Inr:
  "revoke_founder_invite now fid db = Inr (f, db') \<Longrightarrow>
     \<exists>invt. find (\<lambda>f. fi_id f = fid) (founder_invites db) = Some invt \<and> fi_consumed_at invt = None \<and>
       (db' = db \<and> fi_revoked_at invt \<noteq> None \<or> db' = db\<lparr>founder_invites := update_where (\<lambda>f. fi_id f = fid)
            (\<lambda>f. f\<lparr>fi_revoked_at := Some now\<rparr>) (founder_invites db)\<rparr>)"
  by (auto simp: revoke_founder_invite_def result_iffs require_some_Inr_iff split: if_splits)

lemma create_setup_Inr:
  "create_account_setup_token sha i raw now uid by_user ttl db = Inr ((tok, row), db') \<Longrightarrow>
     \<exists>user ts. get_user uid db = Some user \<and> u_status user = UserActive \<and> u_password_hash user = None
     \<and> ts = update_where (\<lambda>t. st_user_id t = uid \<and> st_consumed_at t = None)
            (\<lambda>t. t\<lparr>st_consumed_at := Some now\<rparr>) (setup_tokens db)
     \<and> st_id row = i \<and> st_user_id row = uid \<and> st_token_hash row = hash_token sha raw
     \<and> st_consumed_at row = None \<and> st_token_hash row \<notin> st_token_hash ` set ts
     \<and> db' = db\<lparr>setup_tokens := ts @ [row]\<rparr>"
  by (auto simp: create_account_setup_token_def Let_def result_iffs require_some_Inr_iff)

lemma complete_Inr:
  "complete_account_setup_token sha argon2 now raw pw db = Inr (u', db') \<Longrightarrow>
     \<exists>row user. find (\<lambda>t. st_token_hash t = hash_token sha raw) (setup_tokens db) = Some row
     \<and> st_consumed_at row = None \<and> now < st_expires_at row
     \<and> get_user (st_user_id row) db = Some user \<and> u_status user = UserActive
     \<and> u_password_hash user = None
     \<and> u' = user\<lparr>u_password_hash := Some (argon2 pw), u_updated_at := now\<rparr>
     \<and> db' = db\<lparr>users := update_where (\<lambda>u. u_id u = u_id user) (\<lambda>u. u') (users db),
        setup_tokens := update_where (\<lambda>t. st_id t = st_id row)
          (\<lambda>t. t\<lparr>st_consumed_at := Some now\<rparr>) (setup_tokens db)\<rparr>"
  by (auto simp: complete_account_setup_token_def Let_def result_iffs require_some_Inr_iff)

section \<open>Steps keep the invariant\<close>

lemma invite_of_Some:
  "invite_of sha raw db = Some invt \<Longrightarrow> invt \<in> set (founder_invites db) \<and> fi_token_hash invt = hash_token sha raw"
  by (auto simp: invite_of_def dest: find_Some_mem find_Some_holds)

lemma enrollment_inv_consume:
  assumes "enrollment_inv db"
    "consume_founder_invite sha argon2 i k j now raw email name pw wname slug db = Inr (r, db')"
  shows "enrollment_inv db'"
proof -
  obtain u w m inv' where r: "r = (u, w, m, inv')" by (cases r)
  from assms(2) [unfolded r] show ?thesis
  proof (cases rule: consume_tables)
    case (1 invt)
    have invt: "invt \<in> set (founder_invites db)" using invite_of_Some 1(1) by blast
    have same: "f = invt" if "f \<in> set (founder_invites db)" "fi_id f = fi_id invt" for f
      using distinct_key_eq that invt assms(1) unfolding enrollment_inv_def by metis
    have ids: "map fi_id (founder_invites db') = map fi_id (founder_invites db)"
      "map fi_token_hash (founder_invites db') = map fi_token_hash (founder_invites db)"
      unfolding 1(5) by (rule map_update_where_on; use same 1(4) in auto)+
    have rows: "f \<in> set (founder_invites db) \<or> f = inv'" if "f \<in> set (founder_invites db')" for f
      using that unfolding 1(5) by (auto simp: in_update_where)
    have inv': "fi_consumed_at inv' \<noteq> None" "fi_revoked_at inv' = None"
      using 1(2,4) by (auto simp: usable_invite_def)
    then have "invite_ok inv'" by (simp add: invite_ok_def)
    then show ?thesis using assms(1) rows 1(6) unfolding enrollment_inv_def ids by auto
  qed
qed

lemma enrollment_inv_revoke:
  assumes "enrollment_inv db" "revoke_founder_invite now fid db = Inr (f, db')"
  shows "enrollment_inv db'"
proof -
  from revoke_founder_invite_Inr [OF assms(2)] obtain invt where
    invt: "find (\<lambda>f. fi_id f = fid) (founder_invites db) = Some invt" "fi_consumed_at invt = None" and
    db': "db' = db \<or> db' = db\<lparr>founder_invites := update_where (\<lambda>f. fi_id f = fid)
            (\<lambda>f. f\<lparr>fi_revoked_at := Some now\<rparr>) (founder_invites db)\<rparr>" by blast
  have only: "f = invt" if "f \<in> set (founder_invites db)" "fi_id f = fid" for f
    using distinct_key_eq [of fi_id "founder_invites db" f invt] that invt assms(1)
      find_Some_mem [OF invt(1)] find_Some_holds [OF invt(1)] unfolding enrollment_inv_def by auto
  have "invite_ok (f\<lparr>fi_revoked_at := Some now\<rparr>)" if "f \<in> set (founder_invites db)" "fi_id f = fid" for f
    using only [OF that] that(1) assms(1) invt(2) by (auto simp: enrollment_inv_def invite_ok_def)
  then show ?thesis using db' assms(1)
    by (elim disjE) (auto simp: enrollment_inv_def map_update_where in_update_where)
qed

lemma enrollment_inv_setup:
  assumes "enrollment_inv db" "i \<notin> st_id ` set (setup_tokens db)"
    "create_account_setup_token sha i raw now uid by_user ttl db = Inr ((tok, row), db')"
  shows "enrollment_inv db'"
proof -
  let ?ts = "update_where (\<lambda>t. st_user_id t = uid \<and> st_consumed_at t = None)
            (\<lambda>t. t\<lparr>st_consumed_at := Some now\<rparr>) (setup_tokens db)"
  from create_setup_Inr [OF assms(3)] have row: "st_id row = i" "st_user_id row = uid"
    "st_consumed_at row = None" "st_token_hash row \<notin> st_token_hash ` set ?ts"
    and db': "db' = db\<lparr>setup_tokens := ?ts @ [row]\<rparr>" by auto
  have maps: "map st_id ?ts = map st_id (setup_tokens db)"
    "map st_token_hash ?ts = map st_token_hash (setup_tokens db)"
    by (simp_all add: map_update_where)
  have "st_id row \<notin> set (map st_id ?ts)" using maps(1) row(1) assms(2) by simp
  moreover have open_old: "t \<in> set (setup_tokens db) \<and> st_user_id t \<noteq> uid" if "t \<in> set ?ts" "st_consumed_at t = None" for t
    using that by (auto simp: in_update_where)
  moreover have "st_token_hash row \<notin> set (map st_token_hash ?ts)" using row(4) by simp
  moreover have "\<forall>t\<in>set (?ts @ [row]). \<forall>t'\<in>set (?ts @ [row]).
      st_consumed_at t = None \<and> st_consumed_at t' = None \<and> st_user_id t = st_user_id t' \<longrightarrow> t = t'"
    using assms(1) open_old row(2) unfolding enrollment_inv_def by simp metis
  ultimately show ?thesis using assms(1) row(1,3) unfolding db' enrollment_inv_def
    by (simp add: maps)
qed

lemma enrollment_inv_complete:
  assumes "enrollment_inv db" "complete_account_setup_token sha argon2 now raw pw db = Inr (u, db')"
  shows "enrollment_inv db'"
  using complete_Inr [OF assms(2)] assms(1) unfolding enrollment_inv_def
  by (auto simp: map_update_where in_update_where)

lemma enrollment_inv_cleanup:
  "enrollment_inv db \<Longrightarrow> enrollment_inv (cleanup_expired_auth_artifacts ret now db)"
  by (auto simp: enrollment_inv_def cleanup_expired_auth_artifacts_def Let_def distinct_map_filter)

lemma enrollment_step_inv:
  "enrollment_step sha h s t \<Longrightarrow> enrollment_inv (snd s) \<Longrightarrow> enrollment_inv (snd t)"
proof (induction rule: enrollment_step.induct)
  case (invite t now raw i db ttl r db')
  then show ?case
    by (cases r) (auto dest!: create_founder_invite_Inr simp: enrollment_inv_def invite_ok_def)
next
  case (setup_link t now raw i db uid by_user ttl s db')
  then show ?case by (cases s) (auto intro: enrollment_inv_setup)
qed (auto intro: enrollment_inv_consume enrollment_inv_revoke enrollment_inv_complete enrollment_inv_cleanup)

interpretation enrollment_machine:
  invariant_machine "enrollment_step sha h" "\<lambda>s. enrollment_inv (snd s)" for sha h
  by unfold_locales (rule enrollment_step_inv)

lemma enrollment_step_spent:
  "enrollment_step sha h s t \<Longrightarrow> enrollment_inv (snd s) \<Longrightarrow>
     spent_invite h (fst s) (snd s) \<Longrightarrow> spent_invite h (fst t) (snd t)"
proof (induction rule: enrollment_step.induct)
  case (invite t now raw i db ttl r db')
  then have "spent_invite h now db" using spent_invite_mono by simp
  with invite show ?case
    by (cases r) (auto dest!: create_founder_invite_Inr simp: spent_invite_def)
next
  case (consume t now argon2 i k j raw email name pw wname slug db r db')
  then have spent: "spent_invite h now db" using spent_invite_mono by simp
  obtain u w m inv' where r: "r = (u, w, m, inv')" by (cases r)
  from consume.hyps(2) [unfolded r] show ?case
  proof (cases rule: consume_tables)
    case (1 invt)
    have "\<not> usable_invite now inv'" using 1(4) by simp
    then show ?thesis using spent unfolding spent_invite_def by (auto simp: 1(5) in_update_where)
  qed
next
  case (revoke t now fid db f db')
  then have "spent_invite h now db" using spent_invite_mono by simp
  then show ?case using revoke_founder_invite_Inr [OF revoke.hyps(2)]
    by (auto simp: spent_invite_def in_update_where)
next
  case (setup_link t now raw i db uid by_user ttl s db')
  then have "spent_invite h now db" using spent_invite_mono by simp
  then show ?case using setup_link.hyps(4)
    by (cases s) (auto dest!: create_setup_Inr simp: spent_invite_def)
next
  case (complete t now argon2 raw pw db u db')
  then have "spent_invite h now db" using spent_invite_mono by simp
  then show ?case using complete_Inr [OF complete.hyps(2)] by (auto simp: spent_invite_def)
next
  case (cleanup t now db ret)
  then have "spent_invite h now db" using spent_invite_mono by simp
  then show ?case by (auto simp: spent_invite_def cleanup_expired_auth_artifacts_def Let_def)
qed

lemma run_spent:
  assumes "run (enrollment_step sha h) s t" "enrollment_inv (snd s)" "spent_invite h (fst s) (snd s)"
  shows "spent_invite h (fst t) (snd t)"
  by (rule enrollment_machine.run_stable [where P = "\<lambda>s. spent_invite h (fst s) (snd s)", OF assms])
     (rule enrollment_step_spent)

lemma consume_spends:
  assumes "enrollment_inv db"
    "consume_founder_invite sha argon2 i k j now raw email name pw wname slug db = Inr (r, db')"
  shows "spent_invite (hash_token sha raw) now db'"
proof -
  obtain u w m inv' where r: "r = (u, w, m, inv')" by (cases r)
  from assms(2) [unfolded r] show ?thesis
  proof (cases rule: consume_tables)
    case (1 invt)
    have only: "f = invt" if "f \<in> set (founder_invites db)" "fi_token_hash f = hash_token sha raw" for f
      using distinct_key_eq [of fi_token_hash "founder_invites db" f invt] that
        invite_of_Some [OF 1(1)] assms(1) unfolding enrollment_inv_def by simp
    have "\<not> usable_invite now inv'" using 1(4) by simp
    then show ?thesis using only unfolding spent_invite_def by (auto simp: 1(5) in_update_where)
  qed
qed

section \<open>Properties\<close>

text \<open>A founder link works once. A successful enrollment creates exactly one account, one
  workspace and its owner membership, in tables that stay well formed, and from then on no
  sequence of invitations, enrollments, revocations, setup links and cleanups lets the same
  link enroll again.\<close>

theorem founder_link_single_use:
  assumes "identity_inv db" "enrollment_inv db"
    and "i \<notin> u_id ` set (users db)" "k \<notin> w_id ` set (workspaces db)"
    and "consume_founder_invite sha argon2 i k j now raw email name pw wname slug db = Inr ((u, w, m, invt), db')"
    and "run (enrollment_step sha (hash_token sha raw)) (now, db') (t1, db1)" "t1 \<le> later"
  shows "identity_inv db' \<and> users db' = users db @ [u] \<and> workspaces db' = workspaces db @ [w]
      \<and> memberships db' = memberships db @ [m]
      \<and> m_user_id m = u_id u \<and> m_workspace_id m = w_id w \<and> m_role m = MEMBERSHIP_ROLE_OWNER
      \<and> consume_founder_invite sha argon2' i' k' j' later raw email' name' pw' wname' slug' db1
          = Inl (InvalidFounderInviteError INVALID_FOUNDER_INVITE)"
proof -
  have inv': "identity_inv db'" by (rule identity_inv_consume [OF assms(1,3,4,5)])
  have "enrollment_inv db'" by (rule enrollment_inv_consume [OF assms(2,5)])
  then have "spent_invite (hash_token sha raw) t1 db1"
    using run_spent [OF assms(6)] consume_spends [OF assms(2,5)] by simp
  then have "spent_invite (hash_token sha raw) later db1" using spent_invite_mono assms(7) by blast
  from spent_invite_rejected [OF this] inv' assms(5) show ?thesis
    by (elim consume_tables) simp
qed

text \<open>Only an invitation that was not consumed can be revoked, and a revoked founder link can
  no longer be consumed, whatever operations follow: every later attempt with it is the same
  generic rejection.\<close>

theorem founder_link_revocation:
  assumes "enrollment_inv db" "invite_of sha raw db = Some invt"
    and "revoke_founder_invite now (fi_id invt) db = Inr (f, db')"
    and "run (enrollment_step sha (hash_token sha raw)) (now, db') (t1, db1)" "t1 \<le> later"
  shows "fi_consumed_at invt = None \<and> fi_revoked_at f \<noteq> None \<and>
      consume_founder_invite sha argon2 i k j later raw email name pw wname slug db1
        = Inl (InvalidFounderInviteError INVALID_FOUNDER_INVITE)"
proof -
  have invt: "invt \<in> set (founder_invites db)" "fi_token_hash invt = hash_token sha raw"
    using invite_of_Some [OF assms(2)] by auto
  have found: "find (\<lambda>f. fi_id f = fi_id invt) (founder_invites db) = Some invt"
    using find_key_unique [of fi_id "founder_invites db" invt] invt(1) assms(1)
    unfolding enrollment_inv_def by blast
  have only: "f = invt" if "f \<in> set (founder_invites db)" "fi_token_hash f = hash_token sha raw" for f
    using distinct_key_eq [of fi_token_hash "founder_invites db" f invt] that invt assms(1)
    unfolding enrollment_inv_def by simp
  have row: "fi_consumed_at invt = None" "fi_revoked_at f \<noteq> None"
    using assms(3) by (auto simp: revoke_founder_invite_def found result_iffs split: if_splits)
  have "\<not> usable_invite now invt" if "fi_revoked_at invt \<noteq> None"
    using that by (simp add: usable_invite_def)
  then have keep: "\<not> usable_invite now f" if "f \<in> set (founder_invites db)"
      "fi_token_hash f = hash_token sha raw" "fi_revoked_at invt \<noteq> None" for f
    using only [OF that(1,2)] that(3) by simp
  have hit: "fi_id f = fi_id invt" if "f \<in> set (founder_invites db)" "fi_token_hash f = hash_token sha raw" for f
    using only [OF that] by simp
  from revoke_founder_invite_Inr [OF assms(3)] found
  consider "db' = db" "fi_revoked_at invt \<noteq> None" | "db' = db\<lparr>founder_invites := update_where
      (\<lambda>f. fi_id f = fi_id invt) (\<lambda>f. f\<lparr>fi_revoked_at := Some now\<rparr>) (founder_invites db)\<rparr>" by auto
  then have "spent_invite (hash_token sha raw) now db'"
  proof cases
    case 1
    then show ?thesis using keep by (simp add: spent_invite_def)
  next
    case 2
    then show ?thesis using hit by (auto simp: spent_invite_def in_update_where)
  qed
  moreover have "enrollment_inv db'" by (rule enrollment_inv_revoke [OF assms(1,3)])
  ultimately have "spent_invite (hash_token sha raw) t1 db1" using run_spent [OF assms(4)] by simp
  then have "spent_invite (hash_token sha raw) later db1" using spent_invite_mono assms(5) by blast
  from spent_invite_rejected [OF this] row show ?thesis by simp
qed

text \<open>Setup links never change a password that exists: along every sequence of enrollment
  operations, an account that has a password keeps it.\<close>

theorem setup_links_never_overwrite_password:
  assumes "run (enrollment_step sha h) s t" "enrollment_inv (snd s)"
    and "get_user uid (snd s) = Some u" "u_password_hash u = Some p"
  shows "\<exists>u'. get_user uid (snd t) = Some u' \<and> u_password_hash u' = Some p"
proof -
  let ?P = "\<lambda>s. \<exists>u'. get_user uid (snd s) = Some u' \<and> u_password_hash u' = Some p"
  have step: "?P t" if "enrollment_step sha h s t" "?P s" for s t :: "time \<times> auth_db"
    using that
  proof (induction rule: enrollment_step.induct)
    case (invite t now raw i db ttl r db')
    then show ?case by (cases r) (auto dest!: create_founder_invite_Inr simp: get_user_def)
  next
    case (consume t now argon2 i k j raw email name pw wname slug db r db')
    obtain u w m inv' where r: "r = (u, w, m, inv')" by (cases r)
    from consume.hyps(2) [unfolded r] have "users db' = users db @ [u]" by (elim consume_tables)
    then show ?case using consume.prems by (auto simp: get_user_def find_append)
  next
    case (revoke t now fid db f db')
    then show ?case using revoke_founder_invite_Inr [OF revoke.hyps(2)] by (auto simp: get_user_def)
  next
    case (setup_link t now raw i db uid' by_user ttl s db')
    then show ?case by (cases s) (auto dest!: create_setup_Inr simp: get_user_def)
  next
    case (complete t now argon2 raw pw db u db')
    from complete_Inr [OF complete.hyps(2)] obtain user and row :: account_setup_token where
      c: "get_user (st_user_id row) db = Some user" "u_password_hash user = None"
        and u: "u = user\<lparr>u_password_hash := Some (argon2 pw), u_updated_at := now\<rparr>"
        and all: "db' = db\<lparr>users := update_where (\<lambda>u. u_id u = u_id user) (\<lambda>_. u) (users db),
          setup_tokens := update_where (\<lambda>t. st_id t = st_id row)
            (\<lambda>t. t\<lparr>st_consumed_at := Some now\<rparr>) (setup_tokens db)\<rparr>"
      by blast
    have db': "users db' = update_where (\<lambda>x. u_id x = u_id user) (\<lambda>x. u) (users db)"
      by (simp add: all)
    from complete.prems obtain v where v: "get_user uid db = Some v" "u_password_hash v = Some p" by auto
    have id_row: "u_id user = st_user_id row" and id_v: "u_id v = uid"
      using find_Some_holds [OF c(1) [unfolded get_user_def]]
        find_Some_holds [OF v(1) [unfolded get_user_def]] by simp_all
    have "st_user_id row \<noteq> uid" using c(1,2) v by auto
    then have other: "u_id user \<noteq> uid" by (simp add: id_row)
    have "find (\<lambda>x. u_id x = uid) (users db')
        = map_option (\<lambda>x. if u_id x = u_id user then u else x) (find (\<lambda>x. u_id x = uid) (users db))"
      unfolding db' by (rule find_update_where) (use other u in auto)
    then have "get_user uid db' = Some v" using v id_v other by (simp add: get_user_def)
    then show ?case using v by simp
  next
    case (cleanup t now db ret)
    then show ?case by (simp add: get_user_def cleanup_expired_auth_artifacts_def Let_def)
  qed
  show ?thesis
    by (rule enrollment_machine.run_stable [where P = ?P, OF assms(1,2)]) (use assms(3,4) step in blast)+
qed

section \<open>The properties at concrete tables\<close>

definition example_invited :: auth_db where
  "example_invited = example_auth\<lparr>founder_invites := [\<lparr> fi_id = 20, fi_token_hash = ''inv'', fi_created_at = 0,
     fi_expires_at = 1000, fi_consumed_at = None, fi_revoked_at = None, fi_consumed_by_user_id = None,
     fi_consumed_workspace_id = None \<rparr>]\<rparr>"

lemma example_invited_ok: "identity_inv example_invited" "enrollment_inv example_invited"
  by code_simp+

theorem founder_link_single_use_witness:
  "\<exists>u w m invt db'.
     consume_founder_invite id id 30 31 32 10 ''inv'' ''f@y'' None ''pw'' ''Y'' ''y'' example_invited = Inr ((u, w, m, invt), db')
     \<and> users db' = users example_invited @ [u]
     \<and> consume_founder_invite id id 40 41 42 20 ''inv'' ''g@z'' None ''pw'' ''Z'' ''z''
         (cleanup_expired_auth_artifacts 0 15 db') = Inl (InvalidFounderInviteError INVALID_FOUNDER_INVITE)"
proof -
  let ?c = "consume_founder_invite id id 30 31 32 10 ''inv'' ''f@y'' None ''pw'' ''Y'' ''y'' example_invited"
  have "is_ok ?c" by code_simp
  then obtain u w m invt db' where c: "?c = Inr ((u, w, m, invt), db')" by (auto simp: is_ok_def split: sum.splits)
  have f: "30 \<notin> u_id ` set (users example_invited)" "31 \<notin> w_id ` set (workspaces example_invited)" by code_simp+
  have "enrollment_step id (hash_token id ''inv'') (10, db') (15, cleanup_expired_auth_artifacts 0 15 db')"
    by (rule enrollment_step.cleanup) simp
  note r = run_single [of "enrollment_step id (hash_token id ''inv'')", OF this]
  show ?thesis using founder_link_single_use [OF example_invited_ok f c r, of 20] c by auto
qed

theorem founder_link_revocation_witness:
  "\<exists>f db'. revoke_founder_invite 10 20 example_invited = Inr (f, db') \<and> fi_revoked_at f \<noteq> None
     \<and> consume_founder_invite id id 30 31 32 20 ''inv'' ''f@y'' None ''pw'' ''Y'' ''y'' db'
         = Inl (InvalidFounderInviteError INVALID_FOUNDER_INVITE)"
proof -
  let ?i = "hd (founder_invites example_invited)"
  have "is_ok (revoke_founder_invite 10 20 example_invited)" by code_simp
  then obtain f db' where c: "revoke_founder_invite 10 20 example_invited = Inr (f, db')"
    by (auto simp: is_ok_def split: sum.splits)
  have i: "invite_of id ''inv'' example_invited = Some ?i" by code_simp
  have "fi_id ?i = 20" by code_simp
  with c have "revoke_founder_invite 10 (fi_id ?i) example_invited = Inr (f, db')" by simp
  from founder_link_revocation [OF example_invited_ok(2) i this run_refl, of 20] c show ?thesis by auto
qed

definition example_password :: auth_db where
  "example_password = example_invited\<lparr>users := map (\<lambda>u. u\<lparr>u_password_hash := Some ''h''\<rparr>) (users example_invited),
     setup_tokens := [\<lparr> st_id = 50, st_user_id = 1, st_created_by_user_id = None, st_token_hash = ''s'',
       st_purpose = ''team_invite'', st_created_at = 0, st_expires_at = 1000, st_consumed_at = None \<rparr>]\<rparr>"

theorem setup_links_never_overwrite_password_witness:
  "\<exists>u. get_user 1 (cleanup_expired_auth_artifacts 0 15 example_password) = Some u \<and> u_password_hash u = Some ''h''"
proof -
  have i: "enrollment_inv (snd (10::time, example_password))" by code_simp
  have g: "get_user 1 (snd (10::time, example_password)) = Some (hd (users example_password))"
    "u_password_hash (hd (users example_password)) = Some ''h''" by code_simp+
  have "enrollment_step id ''x'' (10, example_password) (15, cleanup_expired_auth_artifacts 0 15 example_password)"
    by (rule enrollment_step.cleanup) simp
  from setup_links_never_overwrite_password [OF run_single [of "enrollment_step id ''x''", OF this] i g]
  show ?thesis by simp
qed

end
