(* ===== verification/Throttle.thy ===== *)
theory Throttle
  imports Sessions
begin

text \<open>
  The failed-login throttle of \<^verbatim>\<open>app/services/login_throttle_service.py\<close>: one row of
  \<^verbatim>\<open>login_attempts\<close> per submitted email, changed by an atomic upsert. The process-local time
  of the last cleanup is the first component of the state; monotonic time is counted in
  microseconds.
\<close>

record throttle_config =
  login_max_failed_attempts :: int
  login_lockout_minutes :: int
  login_attempt_retention_hours :: int

definition CLEANUP_INTERVAL_SECONDS :: int where "CLEANUP_INTERVAL_SECONDS = 60 * 60"

definition claim_stale_cleanup :: "int \<Rightarrow> int option \<Rightarrow> bool \<times> int option" where
  "claim_stale_cleanup monotonic_now last_cleanup =
     (if (case last_cleanup of None \<Rightarrow> False
            | Some prev \<Rightarrow> monotonic_now - prev < seconds CLEANUP_INTERVAL_SECONDS)
      then (False, last_cleanup) else (True, Some monotonic_now))"

definition locked_until :: "time \<Rightarrow> string \<Rightarrow> 'z auth_db_scheme \<Rightarrow> time option" where
  "locked_until now email db =
     (case find (\<lambda>r. la_email r = normalize_email email) (login_attempts db) of
        None \<Rightarrow> None
      | Some row \<Rightarrow> (case la_locked_until row of None \<Rightarrow> None
          | Some t \<Rightarrow> if now < t then Some t else None))"

text \<open>The \<^verbatim>\<open>set_\<close> clause of the upsert: the next count and the next lock of an existing row.\<close>

definition next_failed_count :: "time \<Rightarrow> login_attempt \<Rightarrow> int" where
  "next_failed_count now r =
     (if (case la_locked_until r of None \<Rightarrow> False | Some t \<Rightarrow> t \<le> now) then 1
      else la_failed_count r + 1)"

definition next_locked_until :: "throttle_config \<Rightarrow> time \<Rightarrow> login_attempt \<Rightarrow> time option" where
  "next_locked_until cfg now r =
     (if (case la_locked_until r of None \<Rightarrow> False | Some t \<Rightarrow> now < t) then la_locked_until r
      else if login_max_failed_attempts cfg \<le> next_failed_count now r
      then Some (now + minutes (login_lockout_minutes cfg)) else None)"

definition purge_stale :: "throttle_config \<Rightarrow> bool \<Rightarrow> time \<Rightarrow> login_attempt list \<Rightarrow> login_attempt list" where
  "purge_stale cfg claimed now rows =
     (if claimed
      then filter (\<lambda>r. \<not> la_updated_at r < now - hours (login_attempt_retention_hours cfg)) rows
      else rows)"

definition fresh_attempt :: "throttle_config \<Rightarrow> uuid \<Rightarrow> time \<Rightarrow> string \<Rightarrow> login_attempt" where
  "fresh_attempt cfg new_id now normalized =
     \<lparr> la_id = new_id, la_email = normalized, la_failed_count = 1,
       la_locked_until = (if login_max_failed_attempts cfg \<le> 1
          then Some (now + minutes (login_lockout_minutes cfg)) else None),
       la_last_attempt_at = now, la_updated_at = now \<rparr>"

definition failed_again :: "throttle_config \<Rightarrow> time \<Rightarrow> login_attempt \<Rightarrow> login_attempt" where
  "failed_again cfg now r = r\<lparr>la_failed_count := next_failed_count now r,
     la_locked_until := next_locked_until cfg now r, la_last_attempt_at := now, la_updated_at := now\<rparr>"

definition upsert_failure ::
  "throttle_config \<Rightarrow> uuid \<Rightarrow> time \<Rightarrow> string \<Rightarrow> login_attempt list \<Rightarrow> login_attempt list" where
  "upsert_failure cfg new_id now normalized rows =
     (if normalized \<in> la_email ` set rows
      then update_where (\<lambda>r. la_email r = normalized) (failed_again cfg now) rows
      else rows @ [fresh_attempt cfg new_id now normalized])"

definition record_failure ::
  "throttle_config \<Rightarrow> uuid \<Rightarrow> time \<Rightarrow> int \<Rightarrow> string \<Rightarrow> int option \<times> 'z auth_db_scheme \<Rightarrow>
     int option \<times> 'z auth_db_scheme" where
  "record_failure cfg new_id now monotonic_now email st =
     (let normalized = normalize_email email;
          claim = claim_stale_cleanup monotonic_now (fst st);
          rows = purge_stale cfg (fst claim) now (login_attempts (snd st))
      in (snd claim, (snd st)\<lparr>login_attempts := upsert_failure cfg new_id now normalized rows\<rparr>))"

definition reset_throttle :: "time \<Rightarrow> string \<Rightarrow> 'z auth_db_scheme \<Rightarrow> 'z auth_db_scheme" where
  "reset_throttle now email db = db\<lparr>login_attempts :=
     update_where (\<lambda>r. la_email r = normalize_email email)
       (\<lambda>r. r\<lparr>la_failed_count := 0, la_locked_until := None, la_updated_at := now\<rparr>) (login_attempts db)\<rparr>"

section \<open>One email's row\<close>

definition attempt_row :: "string \<Rightarrow> 'z auth_db_scheme \<Rightarrow> login_attempt option" where
  "attempt_row email db = find (\<lambda>r. la_email r = normalize_email email) (login_attempts db)"

lemma locked_until_row:
  "locked_until now email db = (case attempt_row email db of None \<Rightarrow> None
     | Some r \<Rightarrow> Option.bind (la_locked_until r) (\<lambda>t. if now < t then Some t else None))"
  by (simp add: locked_until_def attempt_row_def split: option.splits)

lemma attempt_row_email: "attempt_row email db = Some r \<Longrightarrow> la_email r = normalize_email email"
  unfolding attempt_row_def by (rule find_Some_holds)

lemma find_filter_keep: "find P rows = Some r \<Longrightarrow> Q r \<Longrightarrow> find P (filter Q rows) = Some r"
  by (induction rows) (auto split: if_splits)

lemma find_filter_None: "find P rows = None \<Longrightarrow> find P (filter Q rows) = None"
  by (auto simp: find_None_iff)

lemma find_upsert_failure:
  "find (\<lambda>r. la_email r = e) (upsert_failure cfg i now e rows) =
     Some (case find (\<lambda>r. la_email r = e) rows of None \<Rightarrow> fresh_attempt cfg i now e
           | Some r \<Rightarrow> failed_again cfg now r)"
proof (cases "find (\<lambda>r. la_email r = e) rows")
  case None
  then have "e \<notin> la_email ` set rows" using find_key_None [of la_email e rows] by simp
  with None show ?thesis by (simp add: upsert_failure_def find_append fresh_attempt_def)
next
  case (Some r)
  then have "e \<in> la_email ` set rows" using find_key_None [of la_email e rows] by auto
  with Some find_Some_holds [OF Some] show ?thesis
    by (simp add: upsert_failure_def find_update_where failed_again_def)
qed

lemma find_upsert_other:
  "e' \<noteq> e \<Longrightarrow> find (\<lambda>r. la_email r = e') (upsert_failure cfg i now e rows) = find (\<lambda>r. la_email r = e') rows"
proof -
  assume ne: "e' \<noteq> e"
  have "find (\<lambda>r. la_email r = e') (update_where (\<lambda>r. la_email r = e) (failed_again cfg now) rows)
    = map_option (\<lambda>r. if la_email r = e then failed_again cfg now r else r) (find (\<lambda>r. la_email r = e') rows)"
    by (rule find_update_where) (simp add: failed_again_def)
  also have "\<dots> = find (\<lambda>r. la_email r = e') rows"
    using ne by (cases "find (\<lambda>r. la_email r = e') rows") (auto dest: find_Some_holds)
  finally show ?thesis using ne
    by (auto simp: upsert_failure_def find_append fresh_attempt_def split: option.splits)
qed

lemma find_purge_stale:
  "find P (purge_stale cfg claimed now rows) = find P rows \<or>
     claimed \<and> (\<exists>r. find P rows = Some r \<and> la_updated_at r < now - hours (login_attempt_retention_hours cfg))"
  by (cases "find P rows") (auto simp: purge_stale_def find_filter_None intro: find_filter_keep)

lemma distinct_upsert_failure:
  "distinct (map la_email rows) \<Longrightarrow> distinct (map la_email (upsert_failure cfg i now e rows))"
  by (simp add: upsert_failure_def map_update_where failed_again_def fresh_attempt_def image_iff)

lemma distinct_purge_stale:
  "distinct (map la_email rows) \<Longrightarrow> distinct (map la_email (purge_stale cfg claimed now rows))"
  by (simp add: purge_stale_def distinct_map_filter)

lemma attempt_row_record_failure:
  assumes "\<And>r. attempt_row email db = Some r \<Longrightarrow>
      now - hours (login_attempt_retention_hours cfg) \<le> la_updated_at r"
  shows "attempt_row email (snd (record_failure cfg i now mt email (prev, db))) =
     Some (case attempt_row email db of None \<Rightarrow> fresh_attempt cfg i now (normalize_email email)
           | Some r \<Rightarrow> failed_again cfg now r)"
proof -
  let ?P = "\<lambda>r. la_email r = normalize_email email"
  have "find ?P (purge_stale cfg (fst (claim_stale_cleanup mt prev)) now (login_attempts db))
      = attempt_row email db"
    using find_purge_stale [of ?P cfg "fst (claim_stale_cleanup mt prev)" now "login_attempts db"]
      assms unfolding attempt_row_def by fastforce
  then show ?thesis
    by (simp add: attempt_row_def record_failure_def Let_def find_upsert_failure)
qed

text \<open>The row after a series of failures of one email, with the clock values each one read.\<close>

fun record_failures ::
  "throttle_config \<Rightarrow> string \<Rightarrow> (uuid \<times> time \<times> int) list \<Rightarrow> int option \<times> 'z auth_db_scheme \<Rightarrow>
     int option \<times> 'z auth_db_scheme" where
  "record_failures cfg email [] st = st"
| "record_failures cfg email ((i, now, mt) # fs) st =
     record_failures cfg email fs (record_failure cfg i now mt email st)"

text \<open>
  \<open>counting cfg t0 ts n r\<close>: row \<open>r\<close> has counted \<open>n\<close> failures at the times \<open>ts\<close> (latest first), all
  at or after \<open>t0\<close>, and was locked by the failure that reached the threshold.
\<close>

definition counting :: "throttle_config \<Rightarrow> time \<Rightarrow> time list \<Rightarrow> login_attempt \<Rightarrow> bool" where
  "counting cfg t0 ts r \<longleftrightarrow> la_failed_count r = int (length ts) \<and> t0 \<le> la_updated_at r \<and>
     (\<forall>t\<in>set ts. t0 \<le> t) \<and>
     la_locked_until r = (if ts \<noteq> [] \<and> login_max_failed_attempts cfg \<le> int (length ts)
       then Some (rev ts ! (max 1 (nat (login_max_failed_attempts cfg)) - 1)
                   + minutes (login_lockout_minutes cfg))
       else None)"

lemma counting_next:
  assumes "counting cfg t0 ts r" "t0 \<le> now" "now < t0 + minutes (login_lockout_minutes cfg)"
  shows "counting cfg t0 (now # ts) (failed_again cfg now r)"
proof -
  let ?n = "max 1 (nat (login_max_failed_attempts cfg)) - 1"
  let ?locked = "ts \<noteq> [] \<and> login_max_failed_attempts cfg \<le> int (length ts)"
  have pos: "?n < length ts" if ?locked using that by (cases ts) auto
  have lock: "now < rev ts ! ?n + minutes (login_lockout_minutes cfg)" if ?locked
  proof -
    have "rev ts ! ?n \<in> set ts" using pos [OF that] by (metis length_rev nth_mem set_rev)
    then show ?thesis using assms unfolding counting_def by fastforce
  qed
  have cnt: "next_failed_count now r = int (length (now # ts))"
    using assms(1) lock unfolding next_failed_count_def counting_def by (auto simp: not_le)
  have "next_locked_until cfg now r = (if login_max_failed_attempts cfg \<le> int (length (now # ts))
       then Some (rev (now # ts) ! ?n + minutes (login_lockout_minutes cfg)) else None)"
  proof (cases ?locked)
    case True
    then have "next_locked_until cfg now r = la_locked_until r"
      using assms(1) lock unfolding next_locked_until_def counting_def by auto
    then show ?thesis using True assms(1) pos [OF True] unfolding counting_def
      by (auto simp: nth_append)
  next
    case False
    then have "la_locked_until r = None" using assms(1) unfolding counting_def by auto
    moreover have "?n = length ts" if "login_max_failed_attempts cfg \<le> int (length (now # ts))"
      using that False by (cases ts) (auto simp: max_def)
    ultimately show ?thesis unfolding next_locked_until_def cnt by (auto simp: nth_append)
  qed
  then show ?thesis using assms(1,2) cnt unfolding counting_def failed_again_def by auto
qed

lemma record_failures_counting:
  assumes "attempt_row email (snd st) = Some r" "counting cfg t0 ts r"
    and "\<forall>(i, now, mt)\<in>set fs. t0 \<le> now \<and> now < t0 + minutes (login_lockout_minutes cfg)
          \<and> now \<le> t0 + hours (login_attempt_retention_hours cfg)"
  shows "\<exists>r'. attempt_row email (snd (record_failures cfg email fs st)) = Some r' \<and>
      counting cfg t0 (rev (map (\<lambda>(i, now, mt). now) fs) @ ts) r'"
  using assms
proof (induction fs arbitrary: st r ts)
  case Nil
  then show ?case by auto
next
  case (Cons f fs)
  obtain i now mt where f: "f = (i, now, mt)" by (cases f)
  obtain prev db where st: "st = (prev, db)" by (cases st)
  let ?r = "failed_again cfg now r"
  have bounds: "t0 \<le> now" "now < t0 + minutes (login_lockout_minutes cfg)"
    "now \<le> t0 + hours (login_attempt_retention_hours cfg)" using Cons.prems(3) f by auto
  have "t0 \<le> la_updated_at r" using Cons.prems(2) by (simp add: counting_def)
  then have "attempt_row email (snd (record_failure cfg i now mt email st)) = Some ?r"
    using attempt_row_record_failure [of email db now cfg i mt prev] Cons.prems(1) bounds st by simp
  from Cons.IH [OF this counting_next [OF Cons.prems(2) bounds(1,2)]] Cons.prems(3)
  show ?case by (simp add: f)
qed

lemma reset_row:
  "attempt_row email db = Some r \<Longrightarrow> attempt_row email (reset_throttle now email db)
     = Some (r\<lparr>la_failed_count := 0, la_locked_until := None, la_updated_at := now\<rparr>)"
  using attempt_row_email [of email db r]
  by (simp add: attempt_row_def reset_throttle_def find_update_where)

lemma reset_no_row: "attempt_row email db = None \<Longrightarrow> attempt_row email (reset_throttle now email db) = None"
  by (simp add: attempt_row_def reset_throttle_def find_update_where)

text \<open>Failures counted after a reset, whether the email had a row or not.\<close>

lemma failures_after_reset:
  assumes "fs \<noteq> []"
    and "\<forall>(i, now, mt)\<in>set fs. t0 \<le> now \<and> now < t0 + minutes (login_lockout_minutes cfg)
          \<and> now \<le> t0 + hours (login_attempt_retention_hours cfg)"
  shows "\<exists>r. attempt_row email (snd (record_failures cfg email fs (prev, reset_throttle t0 email db))) = Some r
      \<and> counting cfg t0 (rev (map (\<lambda>(i, now, mt). now) fs)) r"
proof (cases "attempt_row email db")
  case (Some r)
  have "counting cfg t0 [] (r\<lparr>la_failed_count := 0, la_locked_until := None, la_updated_at := t0\<rparr>)"
    by (simp add: counting_def)
  from record_failures_counting [OF _ this assms(2), of email "(prev, reset_throttle t0 email db)"]
    reset_row [OF Some, of t0]
  show ?thesis by simp
next
  case None
  let ?db = "reset_throttle t0 email db"
  note row = reset_no_row [OF None, of t0]
  obtain i now mt fs' where fs: "fs = (i, now, mt) # fs'" using assms(1) by (cases fs) auto
  from attempt_row_record_failure [of email ?db now cfg i mt prev] obtain r where
    r: "attempt_row email (snd (record_failure cfg i now mt email (prev, ?db))) = Some r"
      "r = fresh_attempt cfg i now (normalize_email email)"
    using row by auto
  have "counting cfg t0 [now] r" using assms(2) unfolding r(2) counting_def fs fresh_attempt_def by auto
  from record_failures_counting [OF r(1) this] assms(2) fs show ?thesis by simp
qed

section \<open>Properties\<close>

text \<open>C30. The lockout threshold is exact. After a successful login (or for an email never seen),
  \<open>n\<close> failures of the email within the lockout and retention windows count \<open>n\<close>, and the
  email is locked exactly when \<open>n\<close> reached the threshold; the lock runs from the failure that
  reached it and later failures do not extend it. The operations never read the users table:
  known and unknown emails behave alike.\<close>

theorem lockout_threshold_exact:
  assumes "fs \<noteq> []"
    and "\<forall>(i, t, mt)\<in>set fs. t0 \<le> t \<and> t < t0 + minutes (login_lockout_minutes cfg)
          \<and> t \<le> t0 + hours (login_attempt_retention_hours cfg)"
    and "n = int (length fs)" "threshold = max 1 (login_max_failed_attempts cfg)"
  shows "locked_until now email (snd (record_failures cfg email fs (prev, reset_throttle t0 email db)))
    = (let lock = fst (snd (fs ! (nat threshold - 1))) + minutes (login_lockout_minutes cfg) in
       if threshold \<le> n \<and> now < lock then Some lock else None)"
proof -
  let ?ts = "map (\<lambda>(i, now, mt). now) fs"
  let ?n = "max 1 (nat (login_max_failed_attempts cfg)) - 1"
  obtain r where r: "attempt_row email (snd (record_failures cfg email fs (prev, reset_throttle t0 email db))) = Some r"
    "counting cfg t0 (rev ?ts) r"
    using failures_after_reset [OF assms(1,2)] by blast
  have n: "?n = nat threshold - 1" using assms(4) by (cases "1 \<le> login_max_failed_attempts cfg") auto
  have le: "(login_max_failed_attempts cfg \<le> int (length fs)) = (threshold \<le> n)"
    using assms(1,3,4) by (cases fs) auto
  have "?ts ! ?n = fst (snd (fs ! (nat threshold - 1)))" if "threshold \<le> n"
    using that assms(3,4) unfolding n by (subst nth_map) (auto simp: case_prod_beta)
  then show ?thesis
    using r assms(1) unfolding locked_until_row counting_def by (auto simp: le Let_def)
qed

text \<open>The throttle of one email leaves every other email alone: recording a failure or a
  success of an email changes no other email's row, except that a due cleanup deletes rows not
  touched for the whole retention time; and no email ever has two rows.\<close>

theorem throttle_isolated:
  assumes "normalize_email other \<noteq> normalize_email email" "distinct (map la_email (login_attempts db))"
  shows "let db' = snd (record_failure cfg i now mt email (prev, db)) in
      distinct (map la_email (login_attempts db')) \<and>
      (attempt_row other db' = attempt_row other db \<or>
       (\<exists>r. attempt_row other db = Some r \<and> attempt_row other db' = None
         \<and> fst (claim_stale_cleanup mt prev)
         \<and> la_updated_at r < now - hours (login_attempt_retention_hours cfg))) \<and>
      attempt_row other (reset_throttle now email db) = attempt_row other db \<and>
      distinct (map la_email (login_attempts (reset_throttle now email db)))"
proof -
  let ?rows = "purge_stale cfg (fst (claim_stale_cleanup mt prev)) now (login_attempts db)"
  let ?P = "\<lambda>r. la_email r = normalize_email other"
  have fail: "attempt_row other (snd (record_failure cfg i now mt email (prev, db))) = find ?P ?rows"
    using assms(1) by (simp add: attempt_row_def record_failure_def Let_def find_upsert_other)
  have none: "find ?P ?rows = None" if "fst (claim_stale_cleanup mt prev)"
      "find ?P (login_attempts db) = Some r" "la_updated_at r < now - hours (login_attempt_retention_hours cfg)" for r
  proof -
    have r: "r \<in> set (login_attempts db)" "la_email r = normalize_email other"
      using find_Some_mem [OF that(2)] find_Some_holds [OF that(2)] by auto
    have "x = r" if "x \<in> set (login_attempts db)" "la_email x = normalize_email other" for x
      using distinct_key_eq [OF assms(2) that(1) r(1)] that(2) r(2) by simp
    then show ?thesis using that(1,3) by (fastforce simp: purge_stale_def find_None_iff)
  qed
  have "attempt_row other (reset_throttle now email db)
     = map_option (\<lambda>r. if la_email r = normalize_email email
        then r\<lparr>la_failed_count := 0, la_locked_until := None, la_updated_at := now\<rparr> else r) (attempt_row other db)"
    unfolding attempt_row_def reset_throttle_def by (simp add: find_update_where)
  then have reset: "attempt_row other (reset_throttle now email db) = attempt_row other db"
    using attempt_row_email [of other db] assms(1) by (cases "attempt_row other db") auto
  have "distinct (map la_email (login_attempts (snd (record_failure cfg i now mt email (prev, db)))))"
    by (simp add: record_failure_def Let_def distinct_upsert_failure distinct_purge_stale assms(2))
  moreover have "distinct (map la_email (login_attempts (reset_throttle now email db)))"
    using assms(2) by (simp add: reset_throttle_def map_update_where)
  ultimately show ?thesis
    using fail none reset find_purge_stale [of ?P cfg "fst (claim_stale_cleanup mt prev)" now "login_attempts db"]
    unfolding Let_def attempt_row_def by auto
qed

section \<open>The properties at concrete tables\<close>

definition example_throttle :: throttle_config where
  "example_throttle = \<lparr> login_max_failed_attempts = 2, login_lockout_minutes = 15, login_attempt_retention_hours = 24 \<rparr>"

theorem lockout_threshold_exact_witness:
  "locked_until 30 '' A@x '' (snd (record_failures example_throttle '' A@x '' [(60, 10, 0), (61, 20, 1)]
     (None, reset_throttle 5 '' A@x '' example_auth))) = Some (20 + minutes 15)"
proof -
  have "\<forall>(i :: uuid, t, mt :: int)\<in>set [(60, 10, 0), (61, 20, 1)]. 5 \<le> t \<and> t < 5 + minutes (login_lockout_minutes example_throttle)
          \<and> t \<le> 5 + hours (login_attempt_retention_hours example_throttle)"
    by (simp add: example_throttle_def minutes_def hours_def seconds_def)
  from lockout_threshold_exact [OF _ this refl refl, of 30 "'' A@x ''" None example_auth]
  show ?thesis by (simp add: example_throttle_def minutes_def seconds_def)
qed

theorem throttle_isolated_witness:
  "attempt_row ''b@x'' (reset_throttle 10 ''a@x'' example_auth) = attempt_row ''b@x'' example_auth"
proof -
  have n: "normalize_email ''b@x'' \<noteq> normalize_email ''a@x''" by code_simp
  have d: "distinct (map la_email (login_attempts example_auth))" by code_simp
  show ?thesis using throttle_isolated [OF n d, of example_throttle 70 10 0 None] by (simp add: Let_def)
qed

end
