(* ===== verification/Admission.thy ===== *)
theory Admission
  imports Prelude
begin

text \<open>
  The process-local admission controller of \<^verbatim>\<open>app/services/login_rate_limit_service.py\<close>:
  attempts per client and in total within a sliding window, and the number of admitted
  attempts still in flight. Monotonic time is counted in microseconds. The controller's lock
  makes each operation one step. The Redis backend runs its script in the Redis server and is
  not modelled.
\<close>

record admission_config =
  login_rate_limit_window_seconds :: int
  login_rate_limit_per_ip :: int
  login_rate_limit_global :: int
  login_max_concurrent_attempts :: int

record controller =
  attempts_by_client :: "(string \<times> time list) list"
  global_attempts :: "time list"
  in_flight :: int

definition controller_init :: controller where
  "controller_init = \<lparr> attempts_by_client = [], global_attempts = [], in_flight = 0 \<rparr>"

definition prune :: "time list \<Rightarrow> time \<Rightarrow> time list" where
  "prune attempts window_start = dropWhile (\<lambda>a. a \<le> window_start) attempts"

text \<open>The loop over the known clients: prune each, drop those left without attempts.\<close>

definition prune_clients :: "time \<Rightarrow> (string \<times> time list) list \<Rightarrow> (string \<times> time list) list" where
  "prune_clients window_start clients =
     filter (\<lambda>(k, ts). ts \<noteq> []) (map (\<lambda>(k, ts). (k, prune ts window_start)) clients)"

definition client_key_of :: "string option \<Rightarrow> string" where
  "client_key_of client_key = (case client_key of None \<Rightarrow> ''unknown-client''
     | Some k \<Rightarrow> if k = [] then ''unknown-client'' else k)"

text \<open>The lookup in a \<^verbatim>\<open>defaultdict(deque)\<close>; the key it inserts is written back below.\<close>

definition client_deque :: "string \<Rightarrow> (string \<times> time list) list \<Rightarrow> time list" where
  "client_deque key clients = (case map_of clients key of None \<Rightarrow> [] | Some ts \<Rightarrow> ts)"

definition acquire :: "admission_config \<Rightarrow> time \<Rightarrow> string option \<Rightarrow> controller \<Rightarrow> bool \<times> controller" where
  "acquire cfg now client_key c =
     (let window_start = now - seconds (login_rate_limit_window_seconds cfg);
          key = client_key_of client_key;
          global = prune (global_attempts c) window_start;
          clients = prune_clients window_start (attempts_by_client c);
          client_attempts = prune (client_deque key clients) window_start
      in if login_rate_limit_per_ip cfg \<le> int (length client_attempts)
           \<or> login_rate_limit_global cfg \<le> int (length global)
           \<or> login_max_concurrent_attempts cfg \<le> in_flight c
         then (False, \<lparr> attempts_by_client = AList.update key client_attempts clients,
                 global_attempts = global, in_flight = in_flight c \<rparr>)
         else (True, \<lparr> attempts_by_client = AList.update key (client_attempts @ [now]) clients,
                 global_attempts = global @ [now], in_flight = in_flight c + 1 \<rparr>))"

definition release :: "controller \<Rightarrow> controller" where
  "release c = c\<lparr>in_flight := max 0 (in_flight c - 1)\<rparr>"

text \<open>A lease remembers whether it was released; releasing it again does nothing.\<close>

definition lease_release :: "bool \<Rightarrow> controller \<Rightarrow> bool \<times> controller" where
  "lease_release released c = (if released then (True, c) else (True, release c))"

section \<open>The controller with its leases and the history of admissions\<close>

text \<open>
  The clock, the controller, the leases handed out (with their flags) and, for the
  specification only, the log of admitted attempts, latest last.
\<close>

record system =
  clock :: time
  ctrl :: controller
  leases :: "bool list"
  admitted :: "(string \<times> time) list"

definition system_init :: "time \<Rightarrow> system" where
  "system_init t = \<lparr> clock = t, ctrl = controller_init, leases = [], admitted = [] \<rparr>"

inductive admission_step :: "admission_config \<Rightarrow> system \<Rightarrow> system \<Rightarrow> bool" for cfg where
  attempt: "clock s \<le> now \<Longrightarrow> acquire cfg now client (ctrl s) = (ok, c') \<Longrightarrow>
     admission_step cfg s (s\<lparr>clock := now, ctrl := c',
       leases := (if ok then leases s @ [False] else leases s),
       admitted := (if ok then admitted s @ [(client_key_of client, now)] else admitted s)\<rparr>)"
| finish: "i < length (leases s) \<Longrightarrow> lease_release (leases s ! i) (ctrl s) = (b, c') \<Longrightarrow>
     admission_step cfg s (s\<lparr>ctrl := c', leases := (leases s)[i := b]\<rparr>)"

text \<open>The times of a client's admissions, and of all.\<close>

definition times_of :: "string \<Rightarrow> (string \<times> time) list \<Rightarrow> time list" where
  "times_of k log = map snd (filter (\<lambda>e. fst e = k) log)"

definition in_window :: "admission_config \<Rightarrow> time \<Rightarrow> time list \<Rightarrow> time list" where
  "in_window cfg t ts = filter (\<lambda>a. t - seconds (login_rate_limit_window_seconds cfg) < a \<and> a \<le> t) ts"

text \<open>
  \<open>tracks cfg now q ts\<close>: the deque \<open>q\<close> holds the admissions \<open>ts\<close> (ascending, none after \<open>now\<close>)
  that are later than some point not after the start of the current window.
\<close>

definition tracks :: "admission_config \<Rightarrow> time \<Rightarrow> time list \<Rightarrow> time list \<Rightarrow> bool" where
  "tracks cfg now q ts \<longleftrightarrow> sorted ts \<and> (\<forall>a\<in>set ts. a \<le> now) \<and>
     (\<exists>w \<le> now - seconds (login_rate_limit_window_seconds cfg). q = filter (\<lambda>a. w < a) ts)"

definition window_ok :: "admission_config \<Rightarrow> int \<Rightarrow> time list \<Rightarrow> bool" where
  "window_ok cfg limit ts \<longleftrightarrow> (\<forall>t. int (length (in_window cfg t ts)) \<le> max 0 limit)"

definition admission_inv :: "admission_config \<Rightarrow> system \<Rightarrow> bool" where
  "admission_inv cfg s \<longleftrightarrow> distinct (map fst (attempts_by_client (ctrl s))) \<and>
     tracks cfg (clock s) (global_attempts (ctrl s)) (map snd (admitted s)) \<and>
     window_ok cfg (login_rate_limit_global cfg) (map snd (admitted s)) \<and>
     (\<forall>k. tracks cfg (clock s) (client_deque k (attempts_by_client (ctrl s))) (times_of k (admitted s)) \<and>
          window_ok cfg (login_rate_limit_per_ip cfg) (times_of k (admitted s))) \<and>
     in_flight (ctrl s) = int (length (filter Not (leases s))) \<and>
     in_flight (ctrl s) \<le> max 0 (login_max_concurrent_attempts cfg)"

lemma dropWhile_sorted: "sorted (ts :: time list) \<Longrightarrow> dropWhile (\<lambda>a. a \<le> w) ts = filter (\<lambda>a. w < a) ts"
proof (induction ts)
  case (Cons a ts)
  have "filter (\<lambda>a. w < a) ts = ts" if "w < a" using Cons.prems that by (auto simp: filter_id_conv)
  with Cons show ?case by auto
qed simp

lemma tracks_later:
  assumes "tracks cfg t q ts" "t \<le> now"
  shows "tracks cfg now q ts"
proof -
  from assms(1) obtain w where "w \<le> t - seconds (login_rate_limit_window_seconds cfg)"
      "q = filter (\<lambda>a. w < a) ts" "sorted ts" "\<forall>a\<in>set ts. a \<le> t" unfolding tracks_def by blast
  moreover have "w \<le> now - seconds (login_rate_limit_window_seconds cfg)" using calculation(1) assms(2) by simp
  moreover have "\<forall>a\<in>set ts. a \<le> now" using calculation(4) assms(2) by fastforce
  ultimately show ?thesis unfolding tracks_def by blast
qed

lemma prune_tracks:
  assumes "tracks cfg t q ts" "t \<le> now"
  shows "prune q (now - seconds (login_rate_limit_window_seconds cfg))
    = filter (\<lambda>a. now - seconds (login_rate_limit_window_seconds cfg) < a) ts"
proof -
  let ?w' = "now - seconds (login_rate_limit_window_seconds cfg)"
  obtain w where w: "w \<le> ?w'" "q = filter (\<lambda>a. w < a) ts" "sorted ts"
    using tracks_later [OF assms] unfolding tracks_def by blast
  have "prune q ?w' = filter (\<lambda>a. ?w' < a) q"
    unfolding prune_def by (rule dropWhile_sorted) (simp add: w(2,3) sorted_wrt_filter)
  also have "\<dots> = filter (\<lambda>a. ?w' < a) ts"
    using w(1) unfolding w(2) filter_filter by (intro filter_cong) auto
  finally show ?thesis .
qed

lemma tracks_prune:
  assumes "tracks cfg t q ts" "t \<le> now"
  shows "tracks cfg now (prune q (now - seconds (login_rate_limit_window_seconds cfg))) ts"
  using tracks_later [OF assms] prune_tracks [OF assms] unfolding tracks_def by blast

lemma tracks_add:
  assumes "tracks cfg now q ts" "0 < login_rate_limit_window_seconds cfg"
  shows "tracks cfg now (q @ [now]) (ts @ [now])"
proof -
  from assms(1) obtain w where w: "w \<le> now - seconds (login_rate_limit_window_seconds cfg)"
      "q = filter (\<lambda>a. w < a) ts" unfolding tracks_def by blast
  have "w < now" using w(1) assms(2) by (simp add: seconds_def)
  then have "q @ [now] = filter (\<lambda>a. w < a) (ts @ [now])" using w(2) by simp
  then show ?thesis using assms(1) w(1) unfolding tracks_def by (auto simp: sorted_append)
qed

lemma window_ok_add:
  assumes "window_ok cfg limit ts"
    and "int (length (filter (\<lambda>a. now - seconds (login_rate_limit_window_seconds cfg) < a) ts)) < limit"
  shows "window_ok cfg limit (ts @ [now])"
  unfolding window_ok_def
proof
  fix t
  let ?W = "seconds (login_rate_limit_window_seconds cfg)"
  show "int (length (in_window cfg t (ts @ [now]))) \<le> max 0 limit"
  proof (cases "now \<le> t")
    case True
    have "in_window cfg t ts = filter (\<lambda>a. t - ?W < a \<and> a \<le> t) (filter (\<lambda>a. now - ?W < a) ts)"
      using True unfolding in_window_def filter_filter by (intro filter_cong) auto
    then have "length (in_window cfg t ts) \<le> length (filter (\<lambda>a. now - ?W < a) ts)"
      by (simp del: filter_filter)
    then show ?thesis using assms(2) by (simp add: in_window_def)
  next
    case False
    then show ?thesis using assms(1) unfolding window_ok_def in_window_def by simp
  qed
qed

text \<open>Lookups in the table of deques.\<close>

lemma fst_prune_clients: "set (map fst (prune_clients w cl)) \<subseteq> set (map fst cl)"
  unfolding prune_clients_def by force

lemma distinct_prune_clients: "distinct (map fst cl) \<Longrightarrow> distinct (map fst (prune_clients w cl))"
proof (induction cl)
  case (Cons e cl)
  then show ?case using fst_prune_clients [of w cl] by (cases e) (auto simp: prune_clients_def)
qed (simp add: prune_clients_def)

lemma client_deque_prune:
  "distinct (map fst cl) \<Longrightarrow> client_deque k (prune_clients w cl) = prune (client_deque k cl) w"
proof (induction cl)
  case (Cons e cl)
  obtain k' ts where e: "e = (k', ts)" by (cases e)
  have none: "client_deque k (prune_clients w cl) = []" if "k = k'"
  proof -
    have "k \<notin> set (map fst (prune_clients w cl))"
      using Cons.prems that e fst_prune_clients [of w cl] by auto
    then have "map_of (prune_clients w cl) k = None" by (simp add: map_of_eq_None_iff)
    then show ?thesis by (simp add: client_deque_def)
  qed
  have "prune_clients w (e # cl) =
      (if prune ts w = [] then prune_clients w cl else (k', prune ts w) # prune_clients w cl)"
    by (simp add: e prune_clients_def)
  then show ?case using Cons none by (auto simp: e client_deque_def)
qed (simp add: prune_clients_def client_deque_def prune_def)

lemma client_deque_update:
  "client_deque k (AList.update k' ts cl) = (if k = k' then ts else client_deque k cl)"
  by (simp add: client_deque_def update_conv')

lemma prune_prune: "prune (prune q w) w = prune q w"
  by (simp add: prune_def dropWhile_idem)

lemma times_of_snoc: "times_of k (log @ [(k', t)]) = (if k = k' then times_of k log @ [t] else times_of k log)"
  by (simp add: times_of_def)

lemma unreleased_update:
  "i < length ls \<Longrightarrow> length (filter Not ls) = (if ls ! i then 0 else 1) + length (filter Not (ls[i := True]))"
proof (induction ls arbitrary: i)
  case (Cons l ls)
  then show ?case by (cases i) auto
qed simp

section \<open>Every step keeps the bounds\<close>

text \<open>
  The state \<^verbatim>\<open>acquire\<close> leaves, seen through the deques. Both outcomes prune; an admission
  appends the current time to the client's deque and to the global one.
\<close>

lemma acquire_deques:
  assumes "acquire cfg now client c = (ok, c')" "distinct (map fst (attempts_by_client c))"
  defines "w \<equiv> now - seconds (login_rate_limit_window_seconds cfg)"
    and "k0 \<equiv> client_key_of client" and "new \<equiv> (if ok then [now] else [])"
  shows "global_attempts c' = prune (global_attempts c) w @ new"
    and "client_deque k (attempts_by_client c') = prune (client_deque k (attempts_by_client c)) w
           @ (if k = k0 then new else [])"
    and "distinct (map fst (attempts_by_client c'))"
    and "in_flight c' = in_flight c + (if ok then 1 else 0)"
    and "ok \<longleftrightarrow> int (length (prune (client_deque k0 (attempts_by_client c)) w)) < login_rate_limit_per_ip cfg
           \<and> int (length (prune (global_attempts c) w)) < login_rate_limit_global cfg
           \<and> in_flight c < login_max_concurrent_attempts cfg"
  using assms
  by (auto simp: acquire_def Let_def client_deque_update client_deque_prune prune_prune
      distinct_prune_clients distinct_update split: if_splits)

lemma admission_step_inv:
  assumes "0 < login_rate_limit_window_seconds cfg" "admission_step cfg s t" "admission_inv cfg s"
  shows "admission_inv cfg t"
  using assms(2,3)
proof cases
  case (attempt now client ok c')
  let ?w = "now - seconds (login_rate_limit_window_seconds cfg)"
  let ?k = "client_key_of client"
  have s: "distinct (map fst (attempts_by_client (ctrl s)))" using assms(3) by (simp add: admission_inv_def)
  note acq = acquire_deques [OF attempt(3) s]
  have glob: "tracks cfg (clock s) (global_attempts (ctrl s)) (map snd (admitted s))"
    "window_ok cfg (login_rate_limit_global cfg) (map snd (admitted s))"
    and cl: "\<And>k. tracks cfg (clock s) (client_deque k (attempts_by_client (ctrl s))) (times_of k (admitted s))"
    "\<And>k. window_ok cfg (login_rate_limit_per_ip cfg) (times_of k (admitted s))"
    and fl: "in_flight (ctrl s) = int (length (filter Not (leases s)))"
      "in_flight (ctrl s) \<le> max 0 (login_max_concurrent_attempts cfg)"
    using assms(3) by (auto simp: admission_inv_def)
  note prunes = prune_tracks [OF glob(1) attempt(2)] prune_tracks [OF cl(1) attempt(2)]
  note tr = tracks_prune [OF glob(1) attempt(2)] tracks_prune [OF cl(1) attempt(2)]
  show ?thesis
  proof (cases ok)
    case True
    have lim: "int (length (filter (\<lambda>a. ?w < a) (map snd (admitted s)))) < login_rate_limit_global cfg"
      "int (length (filter (\<lambda>a. ?w < a) (times_of ?k (admitted s)))) < login_rate_limit_per_ip cfg"
      "in_flight (ctrl s) < login_max_concurrent_attempts cfg"
      using acq(5) True prunes by auto
    show ?thesis
      using True tr tracks_add [OF tr(1) assms(1)] tracks_add [OF tr(2) assms(1)]
        window_ok_add [OF glob(2) lim(1)] window_ok_add [OF cl(2) lim(2)] lim(3) acq(3,4) cl(2) fl
      by (simp add: attempt(1) admission_inv_def times_of_snoc acq(1,2))
  next
    case False
    then show ?thesis using tr glob(2) cl(2) fl acq(3,4)
      by (simp add: attempt(1) admission_inv_def acq(1,2))
  qed
next
  case (finish i b c')
  have "b" and c': "c' = (if leases s ! i then ctrl s else release (ctrl s))"
    using finish(3) by (auto simp: lease_release_def split: if_splits)
  then show ?thesis
    using assms(3) unreleased_update [OF finish(2)] unfolding finish(1) admission_inv_def
    by (simp add: release_def)
qed

text \<open>The invariant of one configuration, as the machine's.\<close>

definition admission_guarded :: "admission_config \<Rightarrow> system \<Rightarrow> bool" where
  "admission_guarded cfg s \<longleftrightarrow> (0 < login_rate_limit_window_seconds cfg \<longrightarrow> admission_inv cfg s)"

interpretation admission_machine: invariant_machine "admission_step cfg" "admission_guarded cfg" for cfg
  by unfold_locales (auto simp: admission_guarded_def intro: admission_step_inv)

lemma admission_inv_init: "admission_inv cfg (system_init t)"
  by (simp add: admission_inv_def system_init_def controller_init_def tracks_def window_ok_def
      in_window_def client_deque_def times_of_def) (rule exI, rule order_refl)

lemma admission_reachable:
  assumes "0 < login_rate_limit_window_seconds cfg" "run (admission_step cfg) (system_init t0) s"
  shows "admission_inv cfg s"
  using admission_machine.inv_run [OF assms(2)] assms(1) admission_inv_init
  by (auto simp: admission_guarded_def)

section \<open>Properties\<close>

text \<open>Admission is bounded. Whatever attempts and releases happen in whatever order, no
  client is admitted more often than its limit and all clients together not more often than
  the global limit within any window, wherever it is placed; and the number in flight is the
  number of leases not yet released, never above its limit (releasing a lease twice does not
  free a second slot).\<close>

theorem admission_bounded:
  assumes "0 < login_rate_limit_window_seconds cfg" "run (admission_step cfg) (system_init t0) s"
  shows "int (length (in_window cfg t (times_of client (admitted s)))) \<le> max 0 (login_rate_limit_per_ip cfg)
    \<and> int (length (in_window cfg t (map snd (admitted s)))) \<le> max 0 (login_rate_limit_global cfg)
    \<and> in_flight (ctrl s) = int (length (filter Not (leases s)))
    \<and> in_flight (ctrl s) \<le> max 0 (login_max_concurrent_attempts cfg)"
  using admission_reachable [OF assms] by (simp add: admission_inv_def window_ok_def)

text \<open>C31. Admission is exact. In every reachable state an attempt is admitted exactly when the
  client's admissions in the window ending now, all admissions in that window, and the leases
  not yet released are each below their limits: pruning forgets nothing that still counts
  and rejected attempts count for nothing.\<close>

theorem admission_exact:
  assumes "0 < login_rate_limit_window_seconds cfg" "run (admission_step cfg) (system_init t0) s"
    and "clock s \<le> now"
  shows "fst (acquire cfg now client (ctrl s)) \<longleftrightarrow>
      int (length (in_window cfg now (times_of (client_key_of client) (admitted s)))) < login_rate_limit_per_ip cfg
    \<and> int (length (in_window cfg now (map snd (admitted s)))) < login_rate_limit_global cfg
    \<and> int (length (filter Not (leases s))) < login_max_concurrent_attempts cfg"
proof -
  let ?w = "now - seconds (login_rate_limit_window_seconds cfg)"
  note invariant = admission_reachable [OF assms(1,2)]
  have exact: "filter (\<lambda>a. ?w < a) ts = in_window cfg now ts" if "tracks cfg (clock s) q ts" for q ts
    using that assms(3) unfolding tracks_def in_window_def by (intro filter_cong) fastforce+
  have tr: "tracks cfg (clock s) (global_attempts (ctrl s)) (map snd (admitted s))"
    "tracks cfg (clock s) (client_deque (client_key_of client) (attempts_by_client (ctrl s)))
       (times_of (client_key_of client) (admitted s))"
    and fl: "in_flight (ctrl s) = int (length (filter Not (leases s)))"
    and d: "distinct (map fst (attempts_by_client (ctrl s)))"
    using invariant by (auto simp: admission_inv_def)
  obtain ok c' where acq: "acquire cfg now client (ctrl s) = (ok, c')" by fastforce
  show ?thesis
    using acquire_deques(5) [OF acq d] exact [OF tr(1)] exact [OF tr(2)]
      prune_tracks [OF tr(1) assms(3)] prune_tracks [OF tr(2) assms(3)] fl by (simp add: acq)
qed

section \<open>The properties at a concrete controller\<close>

definition example_limits :: admission_config where
  "example_limits = \<lparr> login_rate_limit_window_seconds = 60, login_rate_limit_per_ip = 1,
     login_rate_limit_global = 5, login_max_concurrent_attempts = 4 \<rparr>"

definition example_admitted :: system where
  "example_admitted = \<lparr> clock = 10, ctrl = snd (acquire example_limits 10 (Some ''ip'') controller_init),
     leases = [False], admitted = [(''ip'', 10)] \<rparr>"

lemma example_admitted_run: "run (admission_step example_limits) (system_init 0) example_admitted"
proof (rule run_single)
  have a: "acquire example_limits 10 (Some ''ip'') (ctrl (system_init 0))
      = (True, snd (acquire example_limits 10 (Some ''ip'') controller_init))"
    by code_simp
  have k: "client_key_of (Some ''ip'') = ''ip''" by code_simp
  show "admission_step example_limits (system_init 0) example_admitted"
    using admission_step.attempt [OF _ a] by (simp add: example_admitted_def k system_init_def)
qed

theorem admission_bounded_witness:
  "int (length (in_window example_limits 10 (times_of ''ip'' (admitted example_admitted)))) \<le> 1
    \<and> in_flight (ctrl example_admitted) = 1"
proof -
  have "0 < login_rate_limit_window_seconds example_limits" by (simp add: example_limits_def)
  from admission_bounded [OF this example_admitted_run, of 10 "''ip''"]
  show ?thesis by (simp add: example_limits_def example_admitted_def)
qed

theorem admission_exact_witness:
  "\<not> fst (acquire example_limits 20 (Some ''ip'') (ctrl example_admitted))"
proof -
  have w: "0 < login_rate_limit_window_seconds example_limits" by (simp add: example_limits_def)
  have c: "clock example_admitted \<le> 20" by (simp add: example_admitted_def)
  have n: "int (length (in_window example_limits 20 (times_of (client_key_of (Some ''ip'')) (admitted example_admitted)))) = 1"
    "login_rate_limit_per_ip example_limits = 1" by code_simp+
  show ?thesis using admission_exact [OF w example_admitted_run c, of "Some ''ip''"] n by simp
qed

end
