(* ===== verification/Ledger.thy ===== *)
theory Ledger
  imports Sessions
begin

text \<open>
  The append-only tables and their rows: audit events (\<^verbatim>\<open>app/db/action_models.py\<close>), memory
  events with their per-workspace sequence (\<^verbatim>\<open>app/db/memory_models.py\<close>) and source records
  (\<^verbatim>\<open>app/db/canonical_models.py\<close>); and the contract of a ledger whose rows carry a unique
  idempotency key, as the locale \<open>keyed_ledger\<close> that the audit log and the memory ledger
  interpret.
\<close>

section \<open>Tables\<close>

record execution_event =
  ev_id :: uuid
  ev_workspace_id :: uuid
  ev_action_proposal_id :: uuid
  ev_event_type :: string
  ev_actor :: string
  ev_status :: string
  ev_message :: string
  ev_event_metadata :: pydict
  ev_idempotency_key :: string
  ev_provider :: "string option"
  ev_action :: "string option"
  ev_external_execution_enabled :: bool
  ev_confirmation_received :: bool
  ev_external_result_id :: "string option"
  ev_external_result_url :: "string option"
  ev_error_code :: "string option"
  ev_error_message :: "string option"
  ev_created_at :: time

record memory_event =
  me_id :: uuid
  me_workspace_id :: uuid
  me_workspace_sequence :: nat
  me_event_type :: string
  me_lifecycle_state :: string
  me_subject_type :: string
  me_subject_key :: string
  me_subject_id :: uuid
  me_source_key :: string
  me_actor_user_id :: "uuid option"
  me_primary_source_record_id :: "uuid option"
  me_evidence_refs :: "(string \<times> string) list"
  me_payload_fingerprint :: string
  me_idempotency_key :: string
  me_occurred_at :: time
  me_observed_at :: time

record source_record =
  sr_id :: uuid
  sr_workspace_id :: uuid
  sr_provider :: string
  sr_connection_id :: "uuid option"
  sr_external_id :: string
  sr_record_type :: string
  sr_source_url :: "string option"
  sr_payload :: pydict
  sr_payload_hash :: string
  sr_observed_at :: time
  sr_source_updated_at :: "time option"
  sr_sync_job_id :: "uuid option"
  sr_is_deleted :: bool
  sr_tombstoned_at :: "time option"
  sr_tombstone_observed_at :: "time option"
  sr_tombstone_sync_job_id :: "uuid option"
  sr_tombstone_reason :: "string option"
  sr_created_at :: time

text \<open>\<open>memory_streams\<close> is the table of last sequence numbers, one row per workspace.\<close>

record ledger_db = auth_db +
  execution_events :: "execution_event list"
  memory_events :: "memory_event list"
  memory_streams :: "(uuid \<times> nat) list"
  source_records :: "source_record list"

section \<open>The contract of a keyed ledger\<close>

text \<open>
  \<open>append e db\<close> appends an entry or answers with the row that has its key. \<open>regular e\<close> are the
  entries whose key is stored as it is looked up, \<open>same e r\<close> says that row \<open>r\<close> answers a repeat of
  \<open>e\<close>, \<open>conflict\<close> is the error for a row that does not.
\<close>

locale keyed_ledger =
  fixes append :: "'e \<Rightarrow> 'db \<Rightarrow> 'err + ('r \<times> 'db)"
    and rows :: "'db \<Rightarrow> 'r list"
    and key :: "'r \<Rightarrow> 'k"
    and key_of :: "'e \<Rightarrow> 'k"
    and regular :: "'e \<Rightarrow> bool"
    and same :: "'e \<Rightarrow> 'r \<Rightarrow> bool"
    and conflict :: 'err
  assumes append_found: "regular e \<Longrightarrow> find (\<lambda>r. key r = key_of e) (rows db) = Some r \<Longrightarrow>
      append e db = (if same e r then Inr (r, db) else Inl conflict)"
    and append_cases: "append e db = Inr (r, db') \<Longrightarrow>
      (db' = db \<and> r \<in> set (rows db)) \<or> (rows db' = rows db @ [r] \<and> key r \<notin> key ` set (rows db))"
    and append_key: "append e db = Inr (r, db') \<Longrightarrow> regular e \<Longrightarrow> key r = key_of e \<and> same e r"
begin

definition appended :: "'db \<Rightarrow> 'db \<Rightarrow> bool" where
  "appended db db' \<longleftrightarrow> (\<exists>new. rows db' = rows db @ new) \<and>
     (distinct (map key (rows db)) \<longrightarrow> distinct (map key (rows db')))"

lemma appended_refl: "appended db db"
  by (simp add: appended_def)

lemma appended_trans: "appended a b \<Longrightarrow> appended b c \<Longrightarrow> appended a c"
  by (auto simp: appended_def)

lemma append_appended: "append e db = Inr (r, db') \<Longrightarrow> appended db db'"
  using append_cases [of e db r db'] by (auto simp: appended_def)

lemma appended_keeps: "appended db db' \<Longrightarrow> r \<in> set (rows db) \<Longrightarrow> r \<in> set (rows db')"
  by (auto simp: appended_def)

lemma append_in_rows: "append e db = Inr (r, db') \<Longrightarrow> r \<in> set (rows db')"
  using append_cases [of e db r db'] by auto

text \<open>A repeat of a stored entry returns the stored row and stores nothing.\<close>

lemma replay_known:
  assumes "regular e" "distinct (map key (rows db))" "r \<in> set (rows db)" "key r = key_of e" "same e r"
  shows "append e db = Inr (r, db)"
proof -
  have "find (\<lambda>x. key x = key r) (rows db) = Some r"
    using assms(2,3) by (rule find_key_unique)
  then have "find (\<lambda>x. key x = key_of e) (rows db) = Some r" by (simp add: assms(4))
  from append_found [OF assms(1) this] assms(5) show ?thesis by simp
qed

lemma replay_same:
  assumes "append e db = Inr (r, db')" "regular e" "distinct (map key (rows db))" "appended db' db''"
    and "regular e2" "key_of e2 = key_of e" "same e2 r"
  shows "append e2 db'' = Inr (r, db'')"
proof (rule replay_known [OF assms(5)])
  show "distinct (map key (rows db''))"
    using append_appended [OF assms(1)] assms(3,4) by (auto simp: appended_def)
  show "r \<in> set (rows db'')" by (rule appended_keeps [OF assms(4) append_in_rows [OF assms(1)]])
  show "key r = key_of e2" using append_key [OF assms(1,2)] assms(6) by simp
qed (rule assms(7))

lemma replay_later:
  assumes "append e db = Inr (r, db')" "regular e" "distinct (map key (rows db))" "appended db' db''"
  shows "append e db'' = Inr (r, db'')"
  using replay_same [OF assms assms(2) refl] append_key [OF assms(1,2)] by blast

text \<open>A different entry under a stored key is refused and stores nothing.\<close>

lemma conflict_refused:
  assumes "append e db = Inr (r, db')" "regular e" "distinct (map key (rows db))" "appended db' db''"
    and "regular e2" "key_of e2 = key_of e" "\<not> same e2 r"
  shows "append e2 db'' = Inl conflict"
proof -
  have "append e db'' = Inr (r, db'')" by (rule replay_later [OF assms(1-4)])
  have "distinct (map key (rows db''))"
    using append_appended [OF assms(1)] assms(3,4) by (auto simp: appended_def)
  moreover have "r \<in> set (rows db'')" by (rule appended_keeps [OF assms(4) append_in_rows [OF assms(1)]])
  ultimately have "find (\<lambda>x. key x = key r) (rows db'') = Some r" by (rule find_key_unique)
  then have "find (\<lambda>x. key x = key_of e2) (rows db'') = Some r"
    using append_key [OF assms(1,2)] assms(6) by simp
  from append_found [OF assms(5) this] assms(7) show ?thesis by simp
qed

end

text \<open>The ledgers of the concrete tables, for the examples.\<close>

definition example_ledger :: ledger_db where
  "example_ledger = auth_db.extend example_auth (ledger_db.fields [] [] [] [])"

end
