(* ===== verification/Execution_Audit.thy ===== *)
theory Execution_Audit
  imports Ledger
begin

text \<open>
  The audit log of action decisions and executions,
  \<^verbatim>\<open>app/services/action_execution_audit_service.py\<close>: sanitized metadata, keys that digest the
  request, and an append that answers a repeated key with the event already stored.
\<close>

datatype audit_error = AuditIntegrityError string

section \<open>Sanitizing\<close>

text \<open>
  \<^verbatim>\<open>_sanitize_metadata\<close>. The dictionary under construction is the first argument of
  \<open>sanitize_items\<close>: keys are stripped, blank and secret-like ones dropped, the others cut.
\<close>

fun sanitize :: "pyval \<Rightarrow> pyval"
  and sanitize_items :: "pydict \<Rightarrow> pydict \<Rightarrow> pydict"
  and sanitize_list :: "pyval list \<Rightarrow> pyval list"
where
  "sanitize (PDict d) = PDict (sanitize_items [] d)"
| "sanitize (PList xs) = PList (take 50 (sanitize_list xs))"
| "sanitize (PStr s) = PStr (take 500 s)"
| "sanitize (PUuid u) = PStr (take 500 (uuid_str u))"
| "sanitize (PTime t) = PStr (take 500 (isoformat '' '' t))"
| "sanitize v = v"
| "sanitize_items acc [] = acc"
| "sanitize_items acc ((k, v) # rest) =
     (let key_text = strip k in
      if key_text = [] then sanitize_items acc rest
      else if casefold key_text \<in> set SECRET_LIKE_KEYS then sanitize_items acc rest
      else sanitize_items (dict_set (take 120 key_text) (sanitize v) acc) rest)"
| "sanitize_list [] = []"
| "sanitize_list (x # xs) = sanitize x # sanitize_list xs"

definition sanitize_metadata :: "pydict \<Rightarrow> pydict" where
  "sanitize_metadata d = sanitize_items [] d"

section \<open>Keys\<close>

definition digest_opts :: json_opts where
  "digest_opts = \<lparr> sort_keys = True, compact = True, ensure_ascii = True, allow_nan = True,
     default_text = str_default \<rparr>"

definition serialized :: "pydict \<Rightarrow> string" where
  "serialized payload = (case dumps digest_opts (PDict payload) of Some t \<Rightarrow> t | None \<Rightarrow> [])"

definition stable_digest :: "sha \<Rightarrow> pydict \<Rightarrow> string" where
  "stable_digest sha payload = take 32 (sha (utf8 (serialized payload)))"

definition execution_event_idempotency_key ::
  "sha \<Rightarrow> uuid \<Rightarrow> uuid \<Rightarrow> string \<Rightarrow> bool \<Rightarrow> bool \<Rightarrow> string option \<Rightarrow> string option \<Rightarrow> string" where
  "execution_event_idempotency_key sha workspace_id action_proposal_id event_type
       external_execution_enabled confirmation_received preview_hash reason =
     (let basis = [(''action_proposal_id'', PStr (uuid_str action_proposal_id)),
        (''confirmation_received'', PBool confirmation_received),
        (''event_type'', PStr event_type),
        (''external_execution_enabled'', PBool external_execution_enabled),
        (''preview_hash'', opt_val PStr preview_hash),
        (''reason'', opt_val PStr reason),
        (''workspace_id'', PStr (uuid_str workspace_id))]
      in ''action-execution-event:'' @ event_type @ '':'' @ stable_digest sha basis)"

definition local_decision_event_idempotency_key :: "sha \<Rightarrow> uuid \<Rightarrow> uuid \<Rightarrow> string \<Rightarrow> string" where
  "local_decision_event_idempotency_key sha workspace_id action_proposal_id client_idempotency_key =
     ''action-local-decision:'' @ stable_digest sha
       [(''action_proposal_id'', PStr (uuid_str action_proposal_id)),
        (''client_idempotency_key'', PStr client_idempotency_key),
        (''workspace_id'', PStr (uuid_str workspace_id))]"

section \<open>Appending and reading\<close>

text \<open>The keyword arguments of \<^verbatim>\<open>append_execution_event\<close>, the new identifier and the clock.\<close>

record event_args =
  ea_new_id :: uuid
  ea_now :: time
  ea_workspace_id :: uuid
  ea_action_proposal_id :: uuid
  ea_event_type :: string
  ea_actor :: string
  ea_status :: string
  ea_message :: string
  ea_idempotency_key :: string
  ea_provider :: "string option"
  ea_action :: "string option"
  ea_external_execution_enabled :: bool
  ea_confirmation_received :: bool
  ea_event_metadata :: pydict
  ea_external_result_id :: "string option"
  ea_external_result_url :: "string option"
  ea_error_code :: "string option"
  ea_error_message :: "string option"

definition new_execution_event :: "event_args \<Rightarrow> execution_event" where
  "new_execution_event a = \<lparr> ev_id = ea_new_id a, ev_workspace_id = ea_workspace_id a,
     ev_action_proposal_id = ea_action_proposal_id a, ev_event_type = ea_event_type a,
     ev_actor = safe_text ''system'' 80 (Some (ea_actor a)), ev_status = ea_status a,
     ev_message = safe_text ''Audit event recorded locally.'' 500 (Some (ea_message a)),
     ev_event_metadata = sanitize_metadata (ea_event_metadata a),
     ev_idempotency_key = safe_text [] 500 (Some (ea_idempotency_key a)),
     ev_provider = optional_text_limit 40 (ea_provider a),
     ev_action = optional_text_limit 80 (ea_action a),
     ev_external_execution_enabled = ea_external_execution_enabled a,
     ev_confirmation_received = ea_confirmation_received a,
     ev_external_result_id = optional_text_limit 255 (ea_external_result_id a),
     ev_external_result_url = optional_text_limit 1000 (ea_external_result_url a),
     ev_error_code = optional_text_limit 120 (ea_error_code a),
     ev_error_message = optional_text_limit 500 (ea_error_message a),
     ev_created_at = ea_now a \<rparr>"

definition get_execution_event_by_idempotency_key ::
  "string \<Rightarrow> 'z ledger_db_scheme \<Rightarrow> execution_event option" where
  "get_execution_event_by_idempotency_key key db =
     find (\<lambda>e. ev_idempotency_key e = key) (execution_events db)"

definition EXECUTION_EVENT_STATUSES :: "string list" where
  "EXECUTION_EVENT_STATUSES = [''recorded'', ''blocked'', ''unsupported'']"

text \<open>
  \<^verbatim>\<open>append_execution_event\<close>. The state \<open>seen\<close> is what its first select reads; \<open>db\<close> is the state
  at the flush, in which transactions that committed in between have added their rows.
\<close>

definition append_execution_event ::
  "event_args \<Rightarrow> 'z ledger_db_scheme \<Rightarrow> 'z ledger_db_scheme \<Rightarrow>
     (audit_error, execution_event \<times> 'z ledger_db_scheme) result" where
  "append_execution_event a seen db =
     (case get_execution_event_by_idempotency_key (ea_idempotency_key a) seen of
        Some existing \<Rightarrow> Inr (existing, db)
      | None \<Rightarrow>
        (let event = new_execution_event a in
         if ev_status event \<in> set EXECUTION_EVENT_STATUSES
            \<and> ev_idempotency_key event \<notin> ev_idempotency_key ` set (execution_events db)
         then Inr (event, db\<lparr>execution_events := execution_events db @ [event]\<rparr>)
         else case get_execution_event_by_idempotency_key (ea_idempotency_key a) db of
           Some existing \<Rightarrow> Inr (existing, db)
         | None \<Rightarrow> Inl (AuditIntegrityError ''action_execution_events'')))"

definition event_order_case :: "string \<Rightarrow> int" where
  "event_order_case event_type = (case map_of
     [(''action_proposal_approved_locally'', 1), (''action_proposal_rejected_locally'', 2),
      (''execution_preview_generated'', 10), (''execution_preview_blocked'', 11),
      (''execution_unsupported'', 12), (''execution_confirmation_missing'', 20),
      (''execution_confirmation_received_but_disabled'', 21), (''execution_blocked'', 22),
      (''execution_repository_not_allowed'', 23), (''execution_confirmation_received'', 30),
      (''execution_claimed'', 35), (''execution_started'', 40), (''execution_succeeded'', 50),
      (''execution_failed'', 51), (''execution_outcome_uncertain'', 52),
      (''execution_duplicate_returned_existing_receipt'', 60),
      (''execution_result_sync_started'', 70), (''execution_reconciliation_pending'', 71),
      (''execution_outcome_reconciled'', 71), (''execution_write_not_observed'', 71),
      (''execution_result_synced'', 72), (''execution_result_sync_failed'', 73)] event_type of
     Some n \<Rightarrow> n | None \<Rightarrow> 100)"

definition event_sort_key :: "execution_event \<Rightarrow> time \<times> int \<times> uuid" where
  "event_sort_key e = (ev_created_at e, event_order_case (ev_event_type e), ev_id e)"

definition list_execution_events ::
  "uuid \<Rightarrow> uuid \<Rightarrow> 'z ledger_db_scheme \<Rightarrow> execution_event list" where
  "list_execution_events workspace_id action_proposal_id db =
     sort_key event_sort_key (filter (\<lambda>e. ev_workspace_id e = workspace_id
       \<and> ev_action_proposal_id e = action_proposal_id) (execution_events db))"

definition serialize_execution_event :: "execution_event \<Rightarrow> pydict" where
  "serialize_execution_event event =
     [(''id'', PUuid (ev_id event)), (''event_type'', PStr (ev_event_type event)),
      (''event'', PStr (ev_event_type event)), (''actor'', PStr (ev_actor event)),
      (''status'', PStr (ev_status event)), (''message'', PStr (ev_message event)),
      (''event_metadata'', PDict (ev_event_metadata event)),
      (''provider'', opt_val PStr (ev_provider event)), (''action'', opt_val PStr (ev_action event)),
      (''external_execution_enabled'', PBool (ev_external_execution_enabled event)),
      (''confirmation_received'', PBool (ev_confirmation_received event)),
      (''external_result_id'', opt_val PStr (ev_external_result_id event)),
      (''external_result_url'', opt_val PStr (ev_external_result_url event)),
      (''error_code'', opt_val PStr (ev_error_code event)),
      (''error_message'', opt_val PStr (ev_error_message event)),
      (''created_at'', PTime (ev_created_at event))]"

section \<open>The audit log as a keyed ledger\<close>

definition regular_event :: "event_args \<Rightarrow> bool" where
  "regular_event a \<longleftrightarrow> safe_text [] 500 (Some (ea_idempotency_key a)) = ea_idempotency_key a"

lemma append_execution_event_found:
  "find (\<lambda>r. ev_idempotency_key r = ea_idempotency_key a) (execution_events db) = Some r \<Longrightarrow>
     append_execution_event a db db = Inr (r, db)"
  by (simp add: append_execution_event_def get_execution_event_by_idempotency_key_def)

lemma append_execution_event_cases:
  "append_execution_event a db db = Inr (r, db') \<Longrightarrow>
     (db' = db \<and> r \<in> set (execution_events db) \<and> ev_idempotency_key r = ea_idempotency_key a) \<or>
     (r = new_execution_event a \<and> db' = db\<lparr>execution_events := execution_events db @ [r]\<rparr>
       \<and> ev_idempotency_key r \<notin> ev_idempotency_key ` set (execution_events db)
       \<and> ea_status a \<in> set EXECUTION_EVENT_STATUSES)"
  by (auto simp: append_execution_event_def get_execution_event_by_idempotency_key_def Let_def
      new_execution_event_def dest: find_Some_mem find_Some_holds split: option.splits if_splits)

interpretation audit_log: keyed_ledger
  "\<lambda>a (db :: 'z ledger_db_scheme). append_execution_event a db db"
  execution_events ev_idempotency_key ea_idempotency_key regular_event "\<lambda>_ _. True"
  "AuditIntegrityError []"
proof unfold_locales
  fix a r and db db' :: "'z ledger_db_scheme"
  assume app: "append_execution_event a db db = Inr (r, db')"
  show "db' = db \<and> r \<in> set (execution_events db) \<or>
      execution_events db' = execution_events db @ [r] \<and>
      ev_idempotency_key r \<notin> ev_idempotency_key ` set (execution_events db)"
    using append_execution_event_cases [OF app] by auto
  assume "regular_event a"
  then show "ev_idempotency_key r = ea_idempotency_key a \<and> True"
    using append_execution_event_cases [OF app] by (auto simp: regular_event_def new_execution_event_def)
qed (simp add: append_execution_event_found)

section \<open>What sanitized metadata looks like\<close>

text \<open>
  The specification of sanitized metadata, for a condition \<open>P\<close> on keys: text of at most 500
  characters, lists of at most 50 items, distinct keys of 1 to 120 characters none of which
  folds to a secret-like name, and no identifier or time objects.
\<close>

fun tidy :: "(string \<Rightarrow> bool) \<Rightarrow> pyval \<Rightarrow> bool"
  and tidy_items :: "(string \<Rightarrow> bool) \<Rightarrow> pydict \<Rightarrow> bool"
  and tidy_list :: "(string \<Rightarrow> bool) \<Rightarrow> pyval list \<Rightarrow> bool"
where
  "tidy P (PDict d) = (distinct (map fst d) \<and> tidy_items P d)"
| "tidy P (PList xs) = (length xs \<le> 50 \<and> tidy_list P xs)"
| "tidy P (PStr s) = (length s \<le> 500)"
| "tidy P (PUuid u) = False"
| "tidy P (PTime t) = False"
| "tidy P v = True"
| "tidy_items P [] = True"
| "tidy_items P ((k, v) # d) = (P k \<and> k \<noteq> [] \<and> length k \<le> 120 \<and>
     casefold k \<notin> set SECRET_LIKE_KEYS \<and> tidy P v \<and> tidy_items P d)"
| "tidy_list P [] = True"
| "tidy_list P (x # xs) = (tidy P x \<and> tidy_list P xs)"

lemma tidy_items_set: "tidy_items P d \<longleftrightarrow> (\<forall>(k, v)\<in>set d. P k \<and> k \<noteq> [] \<and> length k \<le> 120 \<and>
     casefold k \<notin> set SECRET_LIKE_KEYS \<and> tidy P v)"
  by (induction d) auto

lemma tidy_list_set: "tidy_list P xs \<longleftrightarrow> (\<forall>x\<in>set xs. tidy P x)"
  by (induction xs) auto

lemma tidy_dict_set:
  assumes "tidy_items P d" "P k" "k \<noteq> []" "length k \<le> 120" "casefold k \<notin> set SECRET_LIKE_KEYS" "tidy P v"
  shows "tidy_items P (dict_set k v d)"
  using assms set_dict_set [of k v d] unfolding tidy_items_set by blast

lemma secret_keys_short: "k \<in> set SECRET_LIKE_KEYS \<Longrightarrow> length k \<le> 13"
  by (auto simp: SECRET_LIKE_KEYS_def)

text \<open>Cutting a key cannot turn it into a secret-like name: a cut key has 120 characters.\<close>

lemma casefold_cut:
  assumes "casefold k \<notin> set SECRET_LIKE_KEYS"
  shows "casefold (take 120 k) \<notin> set SECRET_LIKE_KEYS"
proof (cases "length k \<le> 120")
  case False
  then have "120 \<le> length (casefold (take 120 k))" using length_casefold [of "take 120 k"] by simp
  then show ?thesis using secret_keys_short by fastforce
qed (use assms in simp)

text \<open>A stored key is stripped, or it was cut to 120 characters.\<close>

definition stored_key :: "string \<Rightarrow> bool" where
  "stored_key k \<longleftrightarrow> strip k = k \<or> length k = 120"

lemma stored_key_cut: "strip k = k \<Longrightarrow> stored_key (take 120 k)"
  by (cases "length k \<le> 120") (simp_all add: stored_key_def)

lemma sanitize_tidy:
  "tidy stored_key (sanitize v)"
  "distinct (map fst acc) \<Longrightarrow> tidy_items stored_key acc \<Longrightarrow>
     distinct (map fst (sanitize_items acc d)) \<and> tidy_items stored_key (sanitize_items acc d)"
  "tidy_list stored_key (sanitize_list xs)"
proof (induction v and acc d and xs rule: sanitize_sanitize_items_sanitize_list.induct)
  case (2 xs)
  then show ?case by (auto simp: tidy_list_set dest: in_set_takeD)
next
  case (8 acc k v rest)
  show ?case
  proof (cases "strip k = [] \<or> casefold (strip k) \<in> set SECRET_LIKE_KEYS")
    case True
    then show ?thesis using 8 by (auto simp: Let_def)
  next
    case False
    let ?acc = "dict_set (take 120 (strip k)) (sanitize v) acc"
    have "distinct (map fst ?acc)" using 8(5) by (simp add: dict_set_def distinct_update)
    moreover have "tidy_items stored_key ?acc"
      by (rule tidy_dict_set) (use 8 False casefold_cut [of "strip k"] stored_key_cut [of "strip k"] in auto)
    ultimately show ?thesis using 8(4) False by (simp add: Let_def)
  qed
qed (simp_all add: Let_def)

lemma dict_set_new: "k \<notin> fst ` set d \<Longrightarrow> dict_set k v d = d @ [(k, v)]"
  by (induction d) (auto simp: dict_set_def)

lemma sanitize_id:
  "tidy (\<lambda>k. strip k = k) v \<Longrightarrow> sanitize v = v"
  "tidy_items (\<lambda>k. strip k = k) d \<Longrightarrow> distinct (map fst (acc @ d)) \<Longrightarrow> sanitize_items acc d = acc @ d"
  "tidy_list (\<lambda>k. strip k = k) xs \<Longrightarrow> sanitize_list xs = xs"
proof (induction v and acc d and xs rule: sanitize_sanitize_items_sanitize_list.induct)
  case (8 acc k v rest)
  then have "k \<notin> fst ` set acc" by auto
  with 8 show ?case by (simp add: Let_def dict_set_new)
qed (simp_all add: Let_def)

lemma tidy_reaches:
  "reaches True v k \<Longrightarrow> tidy P v \<Longrightarrow> P k \<and> k \<noteq> [] \<and> length k \<le> 120 \<and> casefold k \<notin> set SECRET_LIKE_KEYS"
  by (induction rule: reaches.induct) (auto simp: tidy_items_set tidy_list_set)

text \<open>
  The limit of the sanitizer: a key cut to 120 characters is not stripped again, so a name
  that is secret-like but for trailing blanks can be stored with its value.
\<close>

lemma sanitize_cut_key:
  "sanitize_metadata [(''token'' @ replicate 116 CHR '' '' @ ''x'', PStr ''value'')]
     = [(''token'' @ replicate 115 CHR '' '', PStr ''value'')]
   \<and> secret_key (''token'' @ replicate 115 CHR '' '')"
  by code_simp

text \<open>Metadata whose keys are all plain keeps its shape; only the values are cut.\<close>

definition plain_key :: "string \<Rightarrow> bool" where
  "plain_key k \<longleftrightarrow> strip k = k \<and> k \<noteq> [] \<and> length k \<le> 120 \<and> casefold k \<notin> set SECRET_LIKE_KEYS"

lemma sanitize_items_plain:
  "list_all plain_key (map fst d) \<Longrightarrow> distinct (map fst (acc @ d)) \<Longrightarrow>
     sanitize_items acc d = acc @ map (\<lambda>(k, v). (k, sanitize v)) d"
proof (induction d arbitrary: acc)
  case (Cons x d)
  obtain k v where x: "x = (k, v)" by (cases x)
  have "k \<notin> fst ` set acc" using Cons.prems(2) by (auto simp: x)
  then show ?case
    using Cons.IH [of "acc @ [(k, sanitize v)]"] Cons.prems
    by (simp add: x plain_key_def Let_def dict_set_new)
qed simp

section \<open>Properties\<close>

text \<open>C32. What the audit log stores as metadata, whatever it was given: at any depth of dictionaries
  and lists (of lists), keys, text and lists are within their limits and the stored JSON holds no
  identifier or time objects; no key folds to a secret-like name; and a key that would be one once
  stripped was cut at 120 characters, which is the one way a secret-like key gets through. Metadata
  that is already clean with stripped keys is stored unchanged.\<close>

theorem audit_metadata_clean:
  "tidy stored_key (PDict (ev_event_metadata (new_execution_event a))) \<and>
   (reaches True (PDict (ev_event_metadata (new_execution_event a))) k \<longrightarrow>
      k \<noteq> [] \<and> length k \<le> 120 \<and> casefold k \<notin> set SECRET_LIKE_KEYS \<and>
      (casefold (strip k) \<in> set SECRET_LIKE_KEYS \<longrightarrow> length k = 120 \<and> strip k \<noteq> k)) \<and>
   (tidy (\<lambda>k. strip k = k) (PDict (ea_event_metadata a)) \<longrightarrow>
      ev_event_metadata (new_execution_event a) = ea_event_metadata a)"
proof -
  have t: "tidy stored_key (PDict (ev_event_metadata (new_execution_event a)))"
    using sanitize_tidy(1) [of "PDict (ea_event_metadata a)"]
    by (simp add: new_execution_event_def sanitize_metadata_def)
  moreover have "ev_event_metadata (new_execution_event a) = ea_event_metadata a"
    if "tidy (\<lambda>k. strip k = k) (PDict (ea_event_metadata a))"
    using sanitize_id(1) [OF that] by (simp add: new_execution_event_def sanitize_metadata_def)
  moreover have "k \<noteq> [] \<and> length k \<le> 120 \<and> casefold k \<notin> set SECRET_LIKE_KEYS \<and>
      (casefold (strip k) \<in> set SECRET_LIKE_KEYS \<longrightarrow> length k = 120 \<and> strip k \<noteq> k)"
    if r: "reaches True (PDict (ev_event_metadata (new_execution_event a))) k"
  proof -
    have k: "stored_key k" "k \<noteq> []" "length k \<le> 120" "casefold k \<notin> set SECRET_LIKE_KEYS"
      using tidy_reaches [OF r t] by simp_all
    then show ?thesis by (cases "strip k = k") (simp_all add: stored_key_def)
  qed
  ultimately show ?thesis by simp
qed

text \<open>C35. One audit event per key, also under races. If an append succeeds, its event is in the
  log afterwards, at most that event was added and nothing was changed or removed; and every
  later append with the same key, whatever its other arguments and however stale the state
  its first lookup saw, returns that event and adds nothing.\<close>

theorem audit_append_exactly_once:
  fixes db db' db'' seen seen'' :: "'z ledger_db_scheme"
  assumes "distinct (map ev_idempotency_key (execution_events db))" "regular_event a"
    and "set (execution_events seen) \<subseteq> set (execution_events db)"
    and "append_execution_event a seen db = Inr (e, db')"
    and "execution_events db'' = execution_events db' @ newer"
    and "distinct (map ev_idempotency_key (execution_events db''))"
    and "set (execution_events seen'') \<subseteq> set (execution_events db'')"
    and "regular_event a2" "ea_idempotency_key a2 = ea_idempotency_key a"
  shows "e \<in> set (execution_events db') \<and> ev_idempotency_key e = ea_idempotency_key a
    \<and> (db' = db \<or> execution_events db' = execution_events db @ [e])
    \<and> append_execution_event a2 seen'' db'' = Inr (e, db'')"
proof -
  have race: "append_execution_event b s d = append_execution_event b d d"
    if sub: "set (execution_events s) \<subseteq> set (execution_events d)"
      and uniq: "distinct (map ev_idempotency_key (execution_events d))" and reg: "regular_event b"
    for b and s d :: "'z ledger_db_scheme"
  proof (cases "get_execution_event_by_idempotency_key (ea_idempotency_key b) s")
    case (Some r)
    then have r: "r \<in> set (execution_events d)" "ev_idempotency_key r = ea_idempotency_key b"
      using sub by (auto simp: get_execution_event_by_idempotency_key_def dest: find_Some_mem find_Some_holds)
    from audit_log.replay_known [OF reg uniq r] show ?thesis
      by (simp add: append_execution_event_def Some)
  next
    case None
    have "ev_idempotency_key (new_execution_event b) = ea_idempotency_key b"
      using reg by (simp add: regular_event_def new_execution_event_def)
    then show ?thesis
      using find_key_None [of ev_idempotency_key "ea_idempotency_key b" "execution_events d"]
        None [unfolded get_execution_event_by_idempotency_key_def]
      by (auto simp: append_execution_event_def Let_def get_execution_event_by_idempotency_key_def
          split: option.split)
  qed
  note first = assms(4) [unfolded race [OF assms(3,1,2)]]
  have stored: "e \<in> set (execution_events db')" "ev_idempotency_key e = ea_idempotency_key a"
    using audit_log.append_in_rows [OF first] audit_log.append_key [OF first assms(2)] by auto
  have "append_execution_event a2 db'' db'' = Inr (e, db'')"
    by (rule audit_log.replay_known [OF assms(8,6)]) (use stored assms(5,9) in auto)
  then show ?thesis
    using stored append_execution_event_cases [OF first] race [OF assms(7,6,8)] by auto
qed

section \<open>The properties at concrete tables\<close>

definition example_event :: event_args where
  "example_event = \<lparr> ea_new_id = 80, ea_now = 10, ea_workspace_id = 2, ea_action_proposal_id = 7,
     ea_event_type = ''execution_blocked'', ea_actor = ''user:1'', ea_status = ''blocked'', ea_message = ''m'',
     ea_idempotency_key = ''k'', ea_provider = None, ea_action = None, ea_external_execution_enabled = False,
     ea_confirmation_received = False,
     ea_event_metadata = [(''a'', PInt 1), ('' Token '', PStr ''s''), (''b'', PList [PDict [(''SECRET'', PNone)]])],
     ea_external_result_id = None, ea_external_result_url = None, ea_error_code = None, ea_error_message = None \<rparr>"

theorem audit_metadata_clean_witness:
  "\<not> reaches True (PDict (ev_event_metadata (new_execution_event example_event))) ''SECRET''
    \<and> ev_event_metadata (new_execution_event (example_event\<lparr>ea_event_metadata := [(''a'', PInt 1)]\<rparr>)) = [(''a'', PInt 1)]"
proof
  have secret: "casefold ''SECRET'' \<in> set SECRET_LIKE_KEYS" by code_simp
  show "\<not> reaches True (PDict (ev_event_metadata (new_execution_event example_event))) ''SECRET''"
  proof
    assume "reaches True (PDict (ev_event_metadata (new_execution_event example_event))) ''SECRET''"
    from mp [OF conjunct1 [OF conjunct2 [OF audit_metadata_clean]] this]
    show False by (elim conjE) (rule notE [OF _ secret])
  qed
  have given: "ea_event_metadata (example_event\<lparr>ea_event_metadata := [(''a'', PInt 1)]\<rparr>) = [(''a'', PInt 1)]"
    by simp
  have "tidy (\<lambda>k. strip k = k) (PDict [(''a'', PInt 1)])" by code_simp
  then have "tidy (\<lambda>k. strip k = k) (PDict (ea_event_metadata (example_event\<lparr>ea_event_metadata := [(''a'', PInt 1)]\<rparr>)))"
    by (simp only: given)
  from mp [OF conjunct2 [OF conjunct2 [OF audit_metadata_clean]] this]
  show "ev_event_metadata (new_execution_event (example_event\<lparr>ea_event_metadata := [(''a'', PInt 1)]\<rparr>)) = [(''a'', PInt 1)]"
    by (simp only: given)
qed

theorem audit_append_exactly_once_witness:
  "\<exists>e db'. append_execution_event example_event example_ledger example_ledger = Inr (e, db')
     \<and> execution_events db' = [e]
     \<and> append_execution_event (example_event\<lparr>ea_message := ''other''\<rparr>) example_ledger db' = Inr (e, db')"
proof -
  have d: "distinct (map ev_idempotency_key (execution_events example_ledger))" by code_simp
  have r: "regular_event example_event" "regular_event (example_event\<lparr>ea_message := ''other''\<rparr>)" by code_simp+
  have "is_ok (append_execution_event example_event example_ledger example_ledger)" by code_simp
  then obtain e db' where a: "append_execution_event example_event example_ledger example_ledger = Inr (e, db')"
    by (auto simp: is_ok_def split: sum.splits)
  have n: "execution_events example_ledger = []" by code_simp
  have "execution_events db' = [e]"
    using a n by (auto simp: append_execution_event_def get_execution_event_by_idempotency_key_def Let_def
        split: if_splits option.splits)
  then show ?thesis
    using audit_append_exactly_once [OF d r(1) _ a, of db' "[]" example_ledger "example_event\<lparr>ea_message := ''other''\<rparr>"]
      r(2) a n by auto
qed

end
