(* ===== verification/Memory_Events.thy ===== *)
theory Memory_Events
  imports Ledger
begin

text \<open>
  The lifecycle memory ledger, \<^verbatim>\<open>app/services/company_memory_event_service.py\<close>: validated
  events with a fingerprint, idempotent per workspace and key, numbered per workspace by an
  upserted counter. Evidence references are built by \<^verbatim>\<open>_evidence_ref\<close> from an identifier in
  every caller, so a reference is a type and an identifier here, and reading the identifier
  back from its text is the identity.
\<close>

datatype memory_error =
    MemoryValueError string
  | CompanyMemoryEventConflictError string
  | MemoryIntegrityError string

definition COMPANY_MEMORY_EVENT_VERSION :: string where
  "COMPANY_MEMORY_EVENT_VERSION = ''company-memory-event.v1''"
definition COMPANY_MEMORY_EVENT_EVIDENCE_LIMIT :: nat where "COMPANY_MEMORY_EVENT_EVIDENCE_LIMIT = 4"
definition COMPANY_MEMORY_EVENT_SOURCE_KEYS :: "string list" where
  "COMPANY_MEMORY_EVENT_SOURCE_KEYS = [''github'', ''jira'', ''gmail'', ''drive'', ''internal'']"
definition COMPANY_MEMORY_EVENT_REFERENCE_TYPES :: "string list" where
  "COMPANY_MEMORY_EVENT_REFERENCE_TYPES = [''action_execution_event'', ''action_proposal'',
     ''company_world_resolution'', ''source_record'', ''sync_job'']"

definition EVENT_RULES :: "(string \<times> string \<times> string list) list" where
  "EVENT_RULES =
     [(''action_proposal_created'', ''created'', [''action_proposal'']),
      (''action_proposal_approved'', ''resolved'', [''action_proposal'']),
      (''action_proposal_rejected'', ''resolved'', [''action_proposal'']),
      (''company_world_confirmed'', ''resolved'', [''external_person_candidate'', ''organization_candidate'']),
      (''company_world_dismissed'', ''resolved'', [''external_person_candidate'', ''organization_candidate'']),
      (''source_record_disappeared'', ''resolved'', [''source_record'']),
      (''source_record_restored'', ''created'', [''source_record''])]"

section \<open>Validation\<close>

definition validated_evidence_refs ::
  "(string \<times> uuid) list \<Rightarrow> (memory_error, (string \<times> string) list) result" where
  "validated_evidence_refs refs =
     bindE (require (refs \<noteq> [] \<and> length refs \<le> COMPANY_MEMORY_EVENT_EVIDENCE_LIMIT)
       (MemoryValueError ''company memory event requires bounded evidence refs'')) (\<lambda>_.
     bindE (require (\<forall>r\<in>set refs. fst r \<in> set COMPANY_MEMORY_EVENT_REFERENCE_TYPES)
       (MemoryValueError ''unsupported company memory evidence reference type'')) (\<lambda>_.
     Inr (rev (remdups (rev (map (\<lambda>(t, i). (t, uuid_str i)) refs))))))"

definition subject_key_of :: "string \<Rightarrow> string \<Rightarrow> uuid \<Rightarrow> (memory_error, string) result" where
  "subject_key_of subject_type subject_key subject_id =
     (let normalized = lower (strip subject_key) in
      if subject_type \<in> {''action_proposal'', ''source_record''}
      then (if normalized \<noteq> uuid_str subject_id
            then Inl (MemoryValueError ''company memory subject identity is inconsistent'')
            else Inr normalized)
      else if length normalized \<noteq> 64 \<or> (\<exists>c\<in>set normalized. c \<notin> set ''0123456789abcdef'')
      then Inl (MemoryValueError ''company world memory subject key must be a version hash'')
      else Inr normalized)"

definition memory_digest_opts :: json_opts where
  "memory_digest_opts = \<lparr> sort_keys = True, compact = True, ensure_ascii = True, allow_nan = True,
     default_text = str_default \<rparr>"

definition memory_digest :: "sha \<Rightarrow> pydict \<Rightarrow> string" where
  "memory_digest sha payload = sha (utf8 (case dumps memory_digest_opts (PDict payload) of
     Some t \<Rightarrow> t | None \<Rightarrow> []))"

text \<open>The keyword arguments of \<^verbatim>\<open>append_company_memory_event\<close>, the new identifier and the clock.\<close>

record memory_args =
  ma_new_id :: uuid
  ma_observed_at :: time
  ma_workspace_id :: uuid
  ma_event_type :: string
  ma_subject_type :: string
  ma_subject_key :: string
  ma_subject_id :: uuid
  ma_source_key :: string
  ma_actor_user_id :: "uuid option"
  ma_primary_source_record_id :: "uuid option"
  ma_evidence_refs :: "(string \<times> uuid) list"
  ma_occurred_at :: "time option"
  ma_idempotency_material :: pydict

definition memory_idempotency_key :: "sha \<Rightarrow> memory_args \<Rightarrow> string" where
  "memory_idempotency_key sha a = ''cme1_'' @ memory_digest sha (ma_idempotency_material a)"

definition fingerprint_material ::
  "memory_args \<Rightarrow> string \<Rightarrow> string \<Rightarrow> (string \<times> string) list \<Rightarrow> time \<Rightarrow> pydict" where
  "fingerprint_material a lifecycle_state subject_key evidence occurred_at =
     [(''access_scope'', PStr ''workspace''), (''actor_user_id'', opt_val PUuid (ma_actor_user_id a)),
      (''confidence'', PFloat ''1.0''), (''event_type'', PStr (ma_event_type a)),
      (''event_version'', PStr COMPANY_MEMORY_EVENT_VERSION),
      (''evidence_refs'', PList (map (\<lambda>(t, i). PDict [(''reference_type'', PStr t), (''reference_id'', PStr i)]) evidence)),
      (''lifecycle_state'', PStr lifecycle_state), (''occurred_at'', PTime occurred_at),
      (''primary_source_record_id'', opt_val PUuid (ma_primary_source_record_id a)),
      (''retention_policy'', PStr ''workspace_canonical''), (''sensitivity'', PStr ''internal''),
      (''source_key'', PStr (ma_source_key a)), (''subject_id'', PUuid (ma_subject_id a)),
      (''subject_key'', PStr subject_key), (''subject_type'', PStr (ma_subject_type a)),
      (''workspace_id'', PUuid (ma_workspace_id a))]"

text \<open>
  The checks before the first lookup, and the event they lead to; its sequence number is
  assigned at the flush.
\<close>

definition prepared_event :: "sha \<Rightarrow> memory_args \<Rightarrow> (memory_error, memory_event) result" where
  "prepared_event sha a =
     bindE (require_some (map_of EVENT_RULES (ma_event_type a))
       (MemoryValueError ''unsupported company memory event type'')) (\<lambda>(lifecycle_state, allowed_subject_types).
     bindE (require (ma_subject_type a \<in> set allowed_subject_types)
       (MemoryValueError ''company memory subject type does not match event type'')) (\<lambda>_.
     bindE (require (ma_source_key a \<in> set COMPANY_MEMORY_EVENT_SOURCE_KEYS)
       (MemoryValueError ''unsupported company memory source key'')) (\<lambda>_.
     bindE (subject_key_of (ma_subject_type a) (ma_subject_key a) (ma_subject_id a)) (\<lambda>subject_key.
     bindE (validated_evidence_refs (ma_evidence_refs a)) (\<lambda>evidence.
     bindE (require_some (ma_occurred_at a)
       (MemoryValueError ''company memory event occurred_at is required'')) (\<lambda>occurred_at.
     Inr \<lparr> me_id = ma_new_id a, me_workspace_id = ma_workspace_id a, me_workspace_sequence = 0,
       me_event_type = ma_event_type a, me_lifecycle_state = lifecycle_state,
       me_subject_type = ma_subject_type a, me_subject_key = subject_key,
       me_subject_id = ma_subject_id a, me_source_key = ma_source_key a,
       me_actor_user_id = ma_actor_user_id a,
       me_primary_source_record_id = ma_primary_source_record_id a,
       me_evidence_refs = evidence,
       me_payload_fingerprint = memory_digest sha
         (fingerprint_material a lifecycle_state subject_key evidence occurred_at),
       me_idempotency_key = memory_idempotency_key sha a,
       me_occurred_at = occurred_at, me_observed_at = ma_observed_at a \<rparr>))))))"

section \<open>Appending\<close>

definition last_sequence :: "uuid \<Rightarrow> 'z ledger_db_scheme \<Rightarrow> nat" where
  "last_sequence workspace_id db = (case map_of (memory_streams db) workspace_id of None \<Rightarrow> 0 | Some n \<Rightarrow> n)"

text \<open>The upsert of the workspace's counter, returning the new value.\<close>

definition next_workspace_sequence :: "uuid \<Rightarrow> 'z ledger_db_scheme \<Rightarrow> nat \<times> 'z ledger_db_scheme" where
  "next_workspace_sequence workspace_id db =
     (let n = (case map_of (memory_streams db) workspace_id of None \<Rightarrow> 1 | Some k \<Rightarrow> k + 1)
      in (n, db\<lparr>memory_streams := AList.update workspace_id n (memory_streams db)\<rparr>))"

definition memory_key :: "memory_event \<Rightarrow> uuid \<times> string" where
  "memory_key e = (me_workspace_id e, me_idempotency_key e)"

definition memory_event_by_key :: "uuid \<Rightarrow> string \<Rightarrow> 'z ledger_db_scheme \<Rightarrow> memory_event option" where
  "memory_event_by_key workspace_id key db = find (\<lambda>e. memory_key e = (workspace_id, key)) (memory_events db)"

definition assert_exact_replay :: "memory_event \<Rightarrow> string \<Rightarrow> (memory_error, unit) result" where
  "assert_exact_replay event payload_fingerprint =
     require (me_payload_fingerprint event = payload_fingerprint)
       (CompanyMemoryEventConflictError ''company memory event idempotency conflict'')"

text \<open>The constraints of the table: unique keys, foreign keys, the length of the fingerprint.\<close>

definition memory_row_ok :: "memory_event \<Rightarrow> 'z ledger_db_scheme \<Rightarrow> bool" where
  "memory_row_ok e db \<longleftrightarrow> memory_key e \<notin> memory_key ` set (memory_events db) \<and>
     (me_workspace_id e, me_workspace_sequence e)
       \<notin> (\<lambda>x. (me_workspace_id x, me_workspace_sequence x)) ` set (memory_events db) \<and>
     me_workspace_id e \<in> w_id ` set (workspaces db) \<and>
     (case me_actor_user_id e of None \<Rightarrow> True | Some u \<Rightarrow> u \<in> u_id ` set (users db)) \<and>
     (case me_primary_source_record_id e of None \<Rightarrow> True | Some r \<Rightarrow> r \<in> sr_id ` set (source_records db)) \<and>
     length (me_payload_fingerprint e) = 64"

text \<open>As for the audit log, \<open>seen\<close> is the state of the first lookup and \<open>db\<close> that of the flush.\<close>

definition append_company_memory_event ::
  "sha \<Rightarrow> memory_args \<Rightarrow> 'z ledger_db_scheme \<Rightarrow> 'z ledger_db_scheme \<Rightarrow>
     (memory_error, memory_event \<times> 'z ledger_db_scheme) result" where
  "append_company_memory_event sha a seen db =
     bindE (prepared_event sha a) (\<lambda>prepared.
     case memory_event_by_key (ma_workspace_id a) (memory_idempotency_key sha a) seen of
       Some existing \<Rightarrow>
         bindE (assert_exact_replay existing (me_payload_fingerprint prepared)) (\<lambda>_. Inr (existing, db))
     | None \<Rightarrow>
        (let (n, db1) = next_workspace_sequence (ma_workspace_id a) db;
             event = prepared\<lparr>me_workspace_sequence := n\<rparr> in
         if memory_row_ok event db1
         then Inr (event, db1\<lparr>memory_events := memory_events db1 @ [event]\<rparr>)
         else case memory_event_by_key (ma_workspace_id a) (memory_idempotency_key sha a) db of
           None \<Rightarrow> Inl (MemoryIntegrityError ''company_memory_events'')
         | Some existing \<Rightarrow>
             bindE (assert_exact_replay existing (me_payload_fingerprint prepared)) (\<lambda>_. Inr (existing, db))))"

definition append_source_record_lifecycle_memory_event ::
  "sha \<Rightarrow> uuid \<Rightarrow> time \<Rightarrow> source_record \<Rightarrow> uuid \<Rightarrow> string \<Rightarrow> time \<Rightarrow> 'z ledger_db_scheme \<Rightarrow>
     (memory_error, memory_event \<times> 'z ledger_db_scheme) result" where
  "append_source_record_lifecycle_memory_event sha new_id now source_record sync_job_id event_type occurred_at db =
     bindE (require (event_type \<in> {''source_record_disappeared'', ''source_record_restored''})
       (MemoryValueError ''unsupported source record lifecycle event'')) (\<lambda>_.
     append_company_memory_event sha
       \<lparr> ma_new_id = new_id, ma_observed_at = now, ma_workspace_id = sr_workspace_id source_record,
         ma_event_type = event_type, ma_subject_type = ''source_record'',
         ma_subject_key = uuid_str (sr_id source_record), ma_subject_id = sr_id source_record,
         ma_source_key = sr_provider source_record, ma_actor_user_id = None,
         ma_primary_source_record_id = Some (sr_id source_record),
         ma_evidence_refs = [(''source_record'', sr_id source_record), (''sync_job'', sync_job_id)],
         ma_occurred_at = Some occurred_at,
         ma_idempotency_material = [(''event_type'', PStr event_type),
           (''source_record_id'', PUuid (sr_id source_record)), (''sync_job_id'', PUuid sync_job_id),
           (''workspace_id'', PUuid (sr_workspace_id source_record))] \<rparr> db db)"

section \<open>The memory ledger as a keyed ledger\<close>

definition memory_fingerprint :: "sha \<Rightarrow> memory_args \<Rightarrow> string" where
  "memory_fingerprint sha a = (case prepared_event sha a of Inr e \<Rightarrow> me_payload_fingerprint e | Inl _ \<Rightarrow> [])"

definition valid_memory_args :: "sha \<Rightarrow> memory_args \<Rightarrow> bool" where
  "valid_memory_args sha a \<longleftrightarrow> is_ok (prepared_event sha a)"

definition memory_args_key :: "sha \<Rightarrow> memory_args \<Rightarrow> uuid \<times> string" where
  "memory_args_key sha a = (ma_workspace_id a, memory_idempotency_key sha a)"

definition memory_conflict :: memory_error where
  "memory_conflict = CompanyMemoryEventConflictError ''company memory event idempotency conflict''"

lemma prepared_event_Inr:
  "prepared_event sha a = Inr e \<Longrightarrow> me_workspace_id e = ma_workspace_id a
     \<and> me_idempotency_key e = memory_idempotency_key sha a \<and> me_actor_user_id e = ma_actor_user_id a
     \<and> me_payload_fingerprint e = memory_fingerprint sha a \<and> me_workspace_sequence e = 0
     \<and> me_event_type e = ma_event_type a \<and> me_subject_id e = ma_subject_id a"
  by (auto simp: prepared_event_def result_iffs require_some_Inr_iff memory_fingerprint_def)

lemma next_sequence_eq:
  "next_workspace_sequence w db = (last_sequence w db + 1,
     db\<lparr>memory_streams := AList.update w (last_sequence w db + 1) (memory_streams db)\<rparr>)"
  by (simp add: next_workspace_sequence_def last_sequence_def split: option.splits)

text \<open>The ways an append ends well: the stored event, or a new one with the next number.\<close>

lemma append_memory_cases:
  assumes "append_company_memory_event sha a seen db = Inr (e, db')"
  obtains (stored) "db' = db" "memory_key e = memory_args_key sha a"
      "e \<in> set (memory_events seen) \<or> e \<in> set (memory_events db)"
      "me_payload_fingerprint e = memory_fingerprint sha a" "valid_memory_args sha a"
  | (fresh) p where "prepared_event sha a = Inr p"
      "e = p\<lparr>me_workspace_sequence := last_sequence (ma_workspace_id a) db + 1\<rparr>"
      "memory_key e = memory_args_key sha a"
      "memory_row_ok e (snd (next_workspace_sequence (ma_workspace_id a) db))"
      "db' = db\<lparr>memory_streams := AList.update (ma_workspace_id a) (last_sequence (ma_workspace_id a) db + 1)
               (memory_streams db), memory_events := memory_events db @ [e]\<rparr>"
      "me_payload_fingerprint e = memory_fingerprint sha a" "valid_memory_args sha a"
proof -
  from assms obtain p where p: "prepared_event sha a = Inr p"
    by (auto simp: append_company_memory_event_def result_iffs)
  note pe = prepared_event_Inr [OF p]
  have v: "valid_memory_args sha a" by (simp add: valid_memory_args_def p)
  have ok: "e \<in> set (memory_events d) \<and> memory_key e = memory_args_key sha a
      \<and> me_payload_fingerprint e = memory_fingerprint sha a \<and> db' = db"
    if "memory_event_by_key (ma_workspace_id a) (memory_idempotency_key sha a) d = Some x"
      "bindE (assert_exact_replay x (me_payload_fingerprint p)) (\<lambda>_. Inr (x, db)) = Inr (e, db')"
    for x and d :: "'a ledger_db_scheme"
    using that find_Some_mem find_Some_holds pe
    by (fastforce simp: memory_event_by_key_def assert_exact_replay_def result_iffs memory_args_key_def)
  show thesis
  proof (cases "memory_event_by_key (ma_workspace_id a) (memory_idempotency_key sha a) seen")
    case (Some x)
    then show thesis
      using assms ok [OF Some] v stored by (auto simp: append_company_memory_event_def p)
  next
    case None
    let ?e = "p\<lparr>me_workspace_sequence := last_sequence (ma_workspace_id a) db + 1\<rparr>"
    show thesis
    proof (cases "memory_row_ok ?e (snd (next_workspace_sequence (ma_workspace_id a) db))")
      case True
      with assms have "e = ?e" "db' = db\<lparr>memory_streams := AList.update (ma_workspace_id a)
          (last_sequence (ma_workspace_id a) db + 1) (memory_streams db), memory_events := memory_events db @ [e]\<rparr>"
        by (auto simp: append_company_memory_event_def p None next_sequence_eq Let_def)
      with fresh [OF p] True pe v show thesis by (simp add: memory_key_def memory_args_key_def)
    next
      case False
      then obtain x where "memory_event_by_key (ma_workspace_id a) (memory_idempotency_key sha a) db = Some x"
        "bindE (assert_exact_replay x (me_payload_fingerprint p)) (\<lambda>_. Inr (x, db)) = Inr (e, db')"
        using assms by (auto simp: append_company_memory_event_def p None next_sequence_eq Let_def
            split: option.splits)
      with ok [OF this] v stored show thesis by blast
    qed
  qed
qed

lemma append_memory_found:
  assumes "valid_memory_args sha a"
    and "find (\<lambda>r. memory_key r = memory_args_key sha a) (memory_events seen) = Some r"
  shows "append_company_memory_event sha a seen db =
    (if me_payload_fingerprint r = memory_fingerprint sha a then Inr (r, db) else Inl memory_conflict)"
proof -
  obtain p where p: "prepared_event sha a = Inr p"
    using assms(1) by (cases "prepared_event sha a") (auto simp: valid_memory_args_def)
  show ?thesis using assms(2) prepared_event_Inr [OF p]
    by (simp add: append_company_memory_event_def p memory_event_by_key_def memory_args_key_def
        assert_exact_replay_def memory_conflict_def)
qed

interpretation memory_ledger: keyed_ledger
  "\<lambda>a (db :: 'z ledger_db_scheme). append_company_memory_event sha a db db"
  memory_events memory_key "memory_args_key sha" "valid_memory_args sha"
  "\<lambda>a r. me_payload_fingerprint r = memory_fingerprint sha a" memory_conflict for sha
proof unfold_locales
  fix a r and db db' :: "'z ledger_db_scheme"
  assume app: "append_company_memory_event sha a db db = Inr (r, db')"
  from app show "db' = db \<and> r \<in> set (memory_events db) \<or>
      memory_events db' = memory_events db @ [r] \<and> memory_key r \<notin> memory_key ` set (memory_events db)"
    by (rule append_memory_cases) (auto simp: memory_row_ok_def next_sequence_eq)
  assume "valid_memory_args sha a"
  from app show "memory_key r = memory_args_key sha a \<and> me_payload_fingerprint r = memory_fingerprint sha a"
    by (rule append_memory_cases) auto
qed (rule append_memory_found)

lemma append_memory_frame:
  assumes "append_company_memory_event sha a seen db = Inr (e, db')"
  shows "\<exists>streams events. db' = db\<lparr>memory_streams := streams, memory_events := events\<rparr>"
  using assms
proof (cases rule: append_memory_cases)
  case stored
  then have "db' = db\<lparr>memory_streams := memory_streams db, memory_events := memory_events db\<rparr>" by simp
  then show ?thesis by blast
qed blast

section \<open>Sequence numbers\<close>

text \<open>
  The invariant: one counter per workspace, keys are unique, and the events of a workspace
  carry, in the order they were appended, the numbers from 1 to its counter.
\<close>

definition workspace_numbers :: "uuid \<Rightarrow> 'z ledger_db_scheme \<Rightarrow> nat list" where
  "workspace_numbers w db = map me_workspace_sequence (filter (\<lambda>e. me_workspace_id e = w) (memory_events db))"

definition memory_inv :: "'z ledger_db_scheme \<Rightarrow> bool" where
  "memory_inv db \<longleftrightarrow> distinct (map fst (memory_streams db)) \<and>
     distinct (map memory_key (memory_events db)) \<and>
     (\<forall>w. workspace_numbers w db = [1..<Suc (last_sequence w db)])"

inductive memory_step :: "sha \<Rightarrow> ledger_db \<Rightarrow> ledger_db \<Rightarrow> bool" for sha where
  append: "append_company_memory_event sha a seen db = Inr (e, db') \<Longrightarrow> memory_step sha db db'"

lemma memory_inv_append:
  assumes "append_company_memory_event sha a seen db = Inr (e, db')" "memory_inv db"
  shows "memory_inv db'"
  using assms(1)
proof (cases rule: append_memory_cases)
  case stored
  then show ?thesis using assms(2) by simp
next
  case (fresh p)
  have w: "me_workspace_id e = ma_workspace_id a" using fresh(2) prepared_event_Inr [OF fresh(1)] by simp
  have seq: "last_sequence v db' = (if v = ma_workspace_id a then last_sequence v db + 1 else last_sequence v db)" for v
    by (simp add: fresh(5) last_sequence_def update_conv')
  have nums: "workspace_numbers v db' = workspace_numbers v db @
      (if v = ma_workspace_id a then [last_sequence v db + 1] else [])" for v
    using w by (simp add: fresh(5) workspace_numbers_def) (simp add: fresh(2))
  have "distinct (map memory_key (memory_events db'))"
    using assms(2) fresh(4) by (simp add: fresh(5) memory_inv_def memory_row_ok_def next_sequence_eq)
  moreover have "distinct (map fst (memory_streams db'))"
    using assms(2) by (simp add: fresh(5) memory_inv_def distinct_update)
  ultimately show ?thesis using assms(2) by (simp add: memory_inv_def seq nums)
qed

interpretation memory_machine: invariant_machine "memory_step sha" memory_inv for sha
  by unfold_locales (auto elim!: memory_step.cases intro: memory_inv_append)

lemma memory_run_appends:
  assumes "run (memory_step sha) db db'" "memory_inv db"
  shows "\<exists>new. memory_events db' = memory_events db @ new"
proof (rule memory_machine.run_relation [where R = "\<lambda>a b. \<exists>new. memory_events b = memory_events a @ new", OF assms])
  fix s t assume "memory_step sha s t"
  then show "\<exists>new. memory_events t = memory_events s @ new"
    by (auto elim!: memory_step.cases append_memory_cases)
qed auto

section \<open>Properties\<close>

text \<open>C33. The memory ledger only grows, and every workspace's events are numbered 1, 2, 3, ...
  without gaps in the order they were appended, whatever appends (of any workspaces, with
  any stale first lookups) happen; a rejected append consumes no number.\<close>

theorem memory_sequences_dense:
  assumes "run (memory_step sha) db db'" "memory_inv db"
  shows "(\<exists>new. memory_events db' = memory_events db @ new) \<and>
    map me_workspace_sequence (filter (\<lambda>e. me_workspace_id e = w) (memory_events db'))
      = [1..<Suc (last_sequence w db')]"
  using memory_run_appends [OF assms] memory_machine.inv_run [OF assms]
  by (simp add: memory_inv_def workspace_numbers_def)

text \<open>Memory events are idempotent per workspace and key. After a successful append, along
  any later appends, the same request returns the very event stored first and adds nothing,
  and a request with the same key whose content differs (another fingerprint) is refused with
  the conflict error.\<close>

theorem memory_append_replay:
  assumes "memory_inv db" "append_company_memory_event sha a db db = Inr (e, db1)"
    and "run (memory_step sha) db1 db2"
    and "valid_memory_args sha b" "memory_args_key sha b = memory_args_key sha a"
  shows "append_company_memory_event sha b db2 db2 =
    (if memory_fingerprint sha b = memory_fingerprint sha a then Inr (e, db2) else Inl memory_conflict)"
proof -
  have inv1: "memory_inv db1" by (rule memory_inv_append [OF assms(2,1)])
  then have inv2: "memory_inv db2" by (rule memory_machine.inv_run [OF assms(3)])
  obtain new where "memory_events db2 = memory_events db1 @ new"
    using memory_run_appends [OF assms(3) inv1] by blast
  moreover have "valid_memory_args sha a" using assms(2) by (cases rule: append_memory_cases) auto
  moreover have "e \<in> set (memory_events db1)" by (rule memory_ledger.append_in_rows [OF assms(2)])
  ultimately have e: "e \<in> set (memory_events db2)" "memory_key e = memory_args_key sha b"
      "me_payload_fingerprint e = memory_fingerprint sha a"
    using memory_ledger.append_key [OF assms(2)] assms(5) by auto
  have "find (\<lambda>r. memory_key r = memory_key e) (memory_events db2) = Some e"
    by (rule find_key_unique) (use inv2 e in \<open>auto simp: memory_inv_def\<close>)
  then have "find (\<lambda>r. memory_key r = memory_args_key sha b) (memory_events db2) = Some e"
    by (simp add: e(2))
  from append_memory_found [OF assms(4) this] show ?thesis by (auto simp: e(3))
qed

section \<open>The properties at concrete tables\<close>

definition zero_sha :: "string \<Rightarrow> string" where "zero_sha text = replicate 64 CHR ''0''"

definition example_memory :: memory_args where
  "example_memory = \<lparr> ma_new_id = 90, ma_observed_at = 10, ma_workspace_id = 2, ma_event_type = ''action_proposal_created'',
     ma_subject_type = ''action_proposal'', ma_subject_key = uuid_str 7, ma_subject_id = 7, ma_source_key = ''internal'',
     ma_actor_user_id = Some 1, ma_primary_source_record_id = None, ma_evidence_refs = [(''action_proposal'', 7)],
     ma_occurred_at = Some 5, ma_idempotency_material = [(''id'', PInt 7)] \<rparr>"

lemma example_memory_inv: "memory_inv example_ledger"
proof -
  have "memory_events example_ledger = [] \<and> memory_streams example_ledger = []" by code_simp
  then show ?thesis by (simp add: memory_inv_def workspace_numbers_def last_sequence_def)
qed

lemma example_evidence: "validated_evidence_refs [(''action_proposal'', i)] = Inr [(''action_proposal'', uuid_str i)]"
  by (simp add: validated_evidence_refs_def bindE_def require_def COMPANY_MEMORY_EVENT_REFERENCE_TYPES_def
      COMPANY_MEMORY_EVENT_EVIDENCE_LIMIT_def)

lemma example_subject: "subject_key_of ''action_proposal'' (uuid_str 7) 7 = Inr (uuid_str 7)"
  by code_simp

lemma zero_memory_digest: "memory_digest zero_sha m = replicate 64 CHR ''0''"
  by (simp add: memory_digest_def zero_sha_def)

lemmas example_memory_simps = prepared_event_def example_memory_def example_evidence example_subject EVENT_RULES_def
  bindE_def require_def require_some_def COMPANY_MEMORY_EVENT_SOURCE_KEYS_def zero_memory_digest

lemma example_memory_ok: "is_ok (append_company_memory_event zero_sha example_memory example_ledger example_ledger)"
  by (simp add: append_company_memory_event_def example_memory_simps memory_event_by_key_def
      next_workspace_sequence_def memory_row_ok_def example_ledger_def auth_db.defs ledger_db.defs
      example_auth_def example_workspace_def identity_db.defs Let_def)

theorem memory_sequences_dense_witness:
  "\<exists>e db'. append_company_memory_event zero_sha example_memory example_ledger example_ledger = Inr (e, db')
    \<and> map me_workspace_sequence (filter (\<lambda>e. me_workspace_id e = 2) (memory_events db')) = [1..<Suc (last_sequence 2 db')]"
proof -
  obtain e db' where a: "append_company_memory_event zero_sha example_memory example_ledger example_ledger = Inr (e, db')"
    using example_memory_ok by (auto simp: is_ok_def split: sum.splits)
  show ?thesis
    using memory_sequences_dense [OF run_single [of "memory_step zero_sha", OF memory_step.append [OF a]] example_memory_inv, of 2] a
    by blast
qed

theorem memory_append_replay_witness:
  "\<exists>e db'. append_company_memory_event zero_sha example_memory example_ledger example_ledger = Inr (e, db')
    \<and> append_company_memory_event zero_sha (example_memory\<lparr>ma_new_id := 91\<rparr>) db' db' = Inr (e, db')"
proof -
  obtain e db' where a: "append_company_memory_event zero_sha example_memory example_ledger example_ledger = Inr (e, db')"
    using example_memory_ok by (auto simp: is_ok_def split: sum.splits)
  let ?b = "example_memory\<lparr>ma_new_id := 91\<rparr>"
  have v: "valid_memory_args zero_sha ?b" "memory_args_key zero_sha ?b = memory_args_key zero_sha example_memory"
    "memory_fingerprint zero_sha ?b = memory_fingerprint zero_sha example_memory"
    by (simp_all add: valid_memory_args_def memory_args_key_def memory_idempotency_key_def memory_fingerprint_def
        example_memory_simps)
  show ?thesis using memory_append_replay [OF example_memory_inv a run_refl v(1,2)] v(3) a by simp
qed

end
