(* ===== verification/Stdlib_Text.thy ===== *)
theory Stdlib_Text
  imports Pyvalue
begin

text \<open>
  What the code uses of the Python library on text: \<^verbatim>\<open>uuid.UUID(text)\<close>, and
  \<^verbatim>\<open>urllib.parse.urlsplit\<close> (Python 3.12) as far as the scheme, the network location and the
  errors of both \<^verbatim>\<open>urlsplit\<close> and the \<^verbatim>\<open>port\<close> attribute.
\<close>

section \<open>Characters and pieces of text\<close>

definition is_digit :: "char \<Rightarrow> bool" where
  "is_digit c = (let n = (of_char c :: nat) in 48 \<le> n \<and> n \<le> 57)"

definition is_ascii_letter :: "char \<Rightarrow> bool" where
  "is_ascii_letter c = (let n = (of_char c :: nat) in (65 \<le> n \<and> n \<le> 90) \<or> (97 \<le> n \<and> n \<le> 122))"

definition hex_value :: "char \<Rightarrow> nat option" where
  "hex_value c = (let n = (of_char c :: nat) in
     if 48 \<le> n \<and> n \<le> 57 then Some (n - 48)
     else if 97 \<le> n \<and> n \<le> 102 then Some (n - 87)
     else if 65 \<le> n \<and> n \<le> 70 then Some (n - 55) else None)"

text \<open>\<open>partition_at c s\<close> is \<^verbatim>\<open>s.partition(c)\<close>: before, whether found, after.\<close>

fun partition_at :: "char \<Rightarrow> string \<Rightarrow> string \<times> bool \<times> string" where
  "partition_at c [] = ([], False, [])"
| "partition_at c (x # xs) = (if x = c then ([], True, xs)
     else case partition_at c xs of (a, f, b) \<Rightarrow> (x # a, f, b))"

text \<open>\<open>after_last c s\<close> is \<^verbatim>\<open>s.rpartition(c)[2]\<close>.\<close>

definition after_last :: "char \<Rightarrow> string \<Rightarrow> string" where
  "after_last c s = rev (takeWhile (\<lambda>x. x \<noteq> c) (rev s))"

text \<open>\<open>remove_all x s\<close> is \<^verbatim>\<open>s.replace(x, "")\<close>.\<close>

function remove_all :: "string \<Rightarrow> string \<Rightarrow> string" where
  "remove_all x [] = []"
| "remove_all x (c # cs) = (if x \<noteq> [] \<and> is_prefix x (c # cs) then remove_all x (drop (length x) (c # cs))
     else c # remove_all x cs)"
  by pat_completeness auto
termination by (relation "measure (length \<circ> snd)") auto

section \<open>\<^verbatim>\<open>UUID(text)\<close>\<close>

text \<open>
  \<^verbatim>\<open>int(text, 16)\<close> of text without a minus sign: surrounding blanks, a plus sign and a \<^verbatim>\<open>0x\<close>
  prefix are accepted, and single underscores between digits.
\<close>

fun hex_digits_value :: "bool \<Rightarrow> nat \<Rightarrow> string \<Rightarrow> nat option" where
  "hex_digits_value seen acc [] = (if seen then Some acc else None)"
| "hex_digits_value seen acc (c # cs) =
     (if c = CHR ''_'' then (if seen \<and> cs \<noteq> [] \<and> hd cs \<noteq> CHR ''_'' then hex_digits_value False acc cs else None)
      else case hex_value c of None \<Rightarrow> None | Some d \<Rightarrow> hex_digits_value True (16 * acc + d) cs)"

definition parse_hex :: "string \<Rightarrow> nat option" where
  "parse_hex s = (let t = strip s; u = (if t \<noteq> [] \<and> hd t = CHR ''+'' then tl t else t) in
     if is_prefix ''0x'' u \<or> is_prefix ''0X'' u
     then (let d = drop 2 u in
       if d \<noteq> [] \<and> hd d = CHR ''_'' then hex_digits_value False 0 (tl d) else hex_digits_value False 0 d)
     else hex_digits_value False 0 u)"

definition strip_braces :: "string \<Rightarrow> string" where
  "strip_braces s = (let brace = (\<lambda>c. c = CHR ''{'' \<or> c = CHR ''}'') in
     rev (dropWhile brace (rev (dropWhile brace s))))"

definition parse_uuid :: "string \<Rightarrow> uuid option" where
  "parse_uuid s =
     (let h = filter (\<lambda>c. c \<noteq> CHR ''-'') (strip_braces (remove_all ''uuid:'' (remove_all ''urn:'' s))) in
      if length h \<noteq> 32 then None else parse_hex h)"

section \<open>\<^verbatim>\<open>urlsplit\<close>\<close>

definition scheme_char :: "char \<Rightarrow> bool" where
  "scheme_char c \<longleftrightarrow> is_ascii_letter c \<or> is_digit c \<or> c \<in> set ''+-.''"

text \<open>\<^verbatim>\<open>ipaddress.ip_address\<close> of the text between brackets, an IPv6 address.\<close>

definition ipv4_ok :: "string \<Rightarrow> bool" where
  "ipv4_ok s = (let parts = split_char CHR ''.'' s in length parts = 4 \<and>
     (\<forall>p\<in>set parts. p \<noteq> [] \<and> list_all is_digit p \<and> length p \<le> 3 \<and> (length p = 1 \<or> hd p \<noteq> CHR ''0'')
        \<and> foldl (\<lambda>a c. 10 * a + (of_char c - 48 :: nat)) 0 p \<le> 255))"

definition hextet_ok :: "string \<Rightarrow> bool" where
  "hextet_ok p \<longleftrightarrow> p \<noteq> [] \<and> length p \<le> 4 \<and> list_all (\<lambda>c. hex_value c \<noteq> None) p"

definition ipv6_parts_ok :: "string list \<Rightarrow> bool" where
  "ipv6_parts_ok parts =
     (let n = length parts; inner = filter (\<lambda>i. parts ! i = []) [1..<n - 1] in
      n \<le> 9 \<and>
      (case inner of
         [] \<Rightarrow> n = 8 \<and> list_all hextet_ok parts
       | [i] \<Rightarrow>
          (let hi = take i parts; lo = drop (i + 1) parts;
               hi' = (if hd hi = [] then tl hi else hi);
               lo' = (if last lo = [] then butlast lo else lo) in
           (hd hi = [] \<longrightarrow> hi' = []) \<and> (last lo = [] \<longrightarrow> lo' = [])
           \<and> length hi' + length lo' < 8 \<and> list_all hextet_ok hi' \<and> list_all hextet_ok lo')
       | _ \<Rightarrow> False))"

definition ipv6_ok :: "string \<Rightarrow> bool" where
  "ipv6_ok s =
     (let (addr, has_scope, scope_id) = partition_at CHR ''%'' s;
          parts = split_char CHR '':'' addr in
      (has_scope \<longrightarrow> scope_id \<noteq> [] \<and> CHR ''%'' \<notin> set scope_id) \<and> 3 \<le> length parts \<and>
      (if CHR ''.'' \<in> set (last parts)
       then ipv4_ok (last parts) \<and> ipv6_parts_ok (butlast parts @ [''0'', ''0''])
       else ipv6_parts_ok parts))"

text \<open>\<^verbatim>\<open>_check_bracketed_netloc\<close>; a host that starts with \<^verbatim>\<open>v\<close> must look like \<^verbatim>\<open>vH.x\<close>.\<close>

definition bracketed_host_ok :: "string \<Rightarrow> bool" where
  "bracketed_host_ok h =
     (if h \<noteq> [] \<and> hd h = CHR ''v''
      then (let (a, found, b) = partition_at CHR ''.'' (tl h) in
        found \<and> a \<noteq> [] \<and> list_all (\<lambda>c. hex_value c \<noteq> None) a \<and> b \<noteq> [])
      else ipv6_ok h)"

definition netloc_ok :: "string \<Rightarrow> bool" where
  "netloc_ok netloc =
     ((CHR ''['' \<in> set netloc) = (CHR '']'' \<in> set netloc) \<and>
      (CHR ''['' \<in> set netloc \<longrightarrow>
        (let (front, found, bracketed) = partition_at CHR ''['' (after_last CHR ''@'' netloc) in
         if found
         then front = [] \<and>
           (let (host, _, port) = partition_at CHR '']'' bracketed in
            (port = [] \<or> hd port = CHR '':'') \<and> bracketed_host_ok host)
         else True)))"

definition port_ok :: "string \<Rightarrow> bool" where
  "port_ok netloc =
     (let hostinfo = after_last CHR ''@'' netloc;
          (_, have_open_br, bracketed) = partition_at CHR ''['' hostinfo;
          port = (if have_open_br
            then snd (snd (partition_at CHR '':'' (snd (snd (partition_at CHR '']'' bracketed)))))
            else snd (snd (partition_at CHR '':'' hostinfo))) in
      port = [] \<or> (list_all is_digit port \<and> foldl (\<lambda>a c. 10 * a + (of_char c - 48 :: nat)) 0 port \<le> 65535))"

definition split_scheme :: "string \<Rightarrow> string \<times> string" where
  "split_scheme url =
     (let (a, found, b) = partition_at CHR '':'' url in
      if found \<and> a \<noteq> [] \<and> is_ascii_letter (hd a) \<and> list_all scheme_char a then (lower a, b) else ([], url))"

text \<open>The scheme and the network location, or \<^const>\<open>None\<close> where \<^verbatim>\<open>ValueError\<close> is raised.\<close>

definition urlsplit_port :: "string \<Rightarrow> (string \<times> string) option" where
  "urlsplit_port text =
     (let url = filter (\<lambda>c. (of_char c :: nat) \<notin> {9, 10, 13})
            (dropWhile (\<lambda>c. (of_char c :: nat) \<le> 32) text);
          (scheme, rest) = split_scheme url;
          netloc = (if take 2 rest = ''//''
            then takeWhile (\<lambda>c. c \<notin> set ''/?#'') (drop 2 rest) else []) in
      if netloc_ok netloc \<and> port_ok netloc then Some (scheme, netloc) else None)"

section \<open>Identifiers are read back\<close>

lemma of_char_digit: "d < 16 \<Longrightarrow> (of_char (digit d) :: nat) = (if d < 10 then 48 + d else 87 + d)"
  by (simp add: digit_def)

lemma hex_value_digit: "d < 16 \<Longrightarrow> hex_value (digit d) = Some d"
  unfolding hex_value_def Let_def by (simp add: of_char_digit)

lemma set_hex_digits: "c \<in> set (hex_digits k n) \<Longrightarrow> \<exists>d<16. c = digit d"
proof (induction k arbitrary: n)
  case (Suc k)
  show ?case
  proof (cases "c = digit (n mod 16)")
    case True
    then show ?thesis by (intro exI [of _ "n mod 16"]) simp
  next
    case False
    then show ?thesis using Suc by auto
  qed
qed simp

lemma length_hex_digits [simp]: "length (hex_digits k n) = k"
  by (induction k arbitrary: n) auto

definition hex_char :: "char \<Rightarrow> bool" where
  "hex_char c \<longleftrightarrow> (let n = (of_char c :: nat) in (48 \<le> n \<and> n \<le> 57) \<or> (97 \<le> n \<and> n \<le> 102))"

lemma hex_char_digits: "c \<in> set (hex_digits k n) \<Longrightarrow> hex_char c"
  using set_hex_digits [of c k n] by (auto simp: hex_char_def of_char_digit Let_def split: if_splits)

lemma hex_char_ne: "hex_char c \<Longrightarrow> \<not> is_space c \<and> c \<noteq> CHR ''-'' \<and> c \<noteq> CHR ''{'' \<and> c \<noteq> CHR ''}''
    \<and> c \<noteq> CHR ''_'' \<and> c \<noteq> CHR ''+'' \<and> c \<noteq> CHR ''x'' \<and> c \<noteq> CHR ''X'' \<and> c \<noteq> CHR ''u''"
  by (auto simp: hex_char_def is_space_def Let_def)

lemma hex_digits_value_digits:
  "hex_digits_value b acc (hex_digits k n @ r) =
     hex_digits_value (b \<or> 0 < k) (acc * 16 ^ k + n mod 16 ^ k) r"
proof (induction k arbitrary: n r b acc)
  case (Suc k)
  have d: "n mod 16 < 16" by simp
  have ne: "digit (n mod 16) \<noteq> CHR ''_''"
  proof
    assume "digit (n mod 16) = CHR ''_''"
    then have "hex_value (CHR ''_'') = Some (n mod 16)" using hex_value_digit [OF d] by simp
    then show False by (simp add: hex_value_def)
  qed
  have eq: "(n div 16) mod 16 ^ k * 16 + n mod 16 = n mod (16 * 16 ^ k)"
    by (simp add: mod_mult2_eq)
  have "hex_digits_value b acc (hex_digits (Suc k) n @ r)
      = hex_digits_value (b \<or> 0 < k) (acc * 16 ^ k + (n div 16) mod 16 ^ k) (digit (n mod 16) # r)"
    by (simp add: Suc.IH)
  also have "\<dots> = hex_digits_value True (16 * (acc * 16 ^ k + (n div 16) mod 16 ^ k) + n mod 16) r"
    using ne by (simp add: hex_value_digit [OF d])
  also have "16 * (acc * 16 ^ k + (n div 16) mod 16 ^ k) + n mod 16 = acc * 16 ^ Suc k + n mod 16 ^ Suc k"
    using eq by (simp add: algebra_simps)
  finally show ?case by simp
qed simp

lemma remove_all_absent: "x \<noteq> [] \<Longrightarrow> hd x \<notin> set s \<Longrightarrow> remove_all x s = s"
proof (induction s)
  case (Cons c cs)
  then have "\<not> is_prefix x (c # cs)" by (cases x) auto
  with Cons show ?case by simp
qed simp

lemma hex_chars_uuid_str: "c \<in> set (uuid_str u) \<Longrightarrow> hex_char c \<or> c = CHR ''-''"
  unfolding uuid_str_def Let_def uuid_hex_def
  by (auto dest!: in_set_takeD in_set_dropD hex_char_digits)

lemma filter_uuid_str: "filter (\<lambda>c. c \<noteq> CHR ''-'') (uuid_str u) = uuid_hex u"
proof -
  have keep: "filter (\<lambda>c. c \<noteq> CHR ''-'') xs = xs" if "set xs \<subseteq> set (uuid_hex u)" for xs
    using that hex_char_digits hex_char_ne unfolding uuid_hex_def by (fastforce simp: filter_id_conv)
  have sub: "set (take n xs) \<subseteq> set (uuid_hex u)" "set (drop n xs) \<subseteq> set (uuid_hex u)"
    if "set xs \<subseteq> set (uuid_hex u)" for n xs
    using that by (auto dest: in_set_takeD in_set_dropD)
  have len: "length (uuid_hex u) = 32" by (simp add: uuid_hex_def)
  have "uuid_hex u = take 8 (uuid_hex u) @ take 4 (drop 8 (uuid_hex u)) @ take 4 (drop 12 (uuid_hex u))
      @ take 4 (drop 16 (uuid_hex u)) @ drop 20 (uuid_hex u)"
    using append_take_drop_id [of 8 "uuid_hex u"] append_take_drop_id [of 4 "drop 8 (uuid_hex u)"]
      append_take_drop_id [of 4 "drop 12 (uuid_hex u)"] append_take_drop_id [of 4 "drop 16 (uuid_hex u)"]
    by simp
  moreover have "filter (\<lambda>c. c \<noteq> CHR ''-'') (uuid_str u) = take 8 (uuid_hex u) @ take 4 (drop 8 (uuid_hex u))
      @ take 4 (drop 12 (uuid_hex u)) @ take 4 (drop 16 (uuid_hex u)) @ drop 20 (uuid_hex u)"
    unfolding uuid_str_def Let_def filter_append
    by (simp add: keep sub)
  ultimately show ?thesis by simp
qed

lemma strip_braces_id: "s \<noteq> [] \<Longrightarrow> \<forall>c\<in>set s. c \<noteq> CHR ''{'' \<and> c \<noteq> CHR ''}'' \<Longrightarrow> strip_braces s = s"
proof -
  assume "s \<noteq> []" and all: "\<forall>c\<in>set s. c \<noteq> CHR ''{'' \<and> c \<noteq> CHR ''}''"
  have id: "dropWhile (\<lambda>c. c = CHR ''{'' \<or> c = CHR ''}'') xs = xs" if "set xs \<subseteq> set s" for xs
    using that all by (cases xs) auto
  show ?thesis unfolding strip_braces_def Let_def by (simp add: id)
qed

lemma strip_id: "\<forall>c\<in>set s. \<not> is_space c \<Longrightarrow> strip s = s"
proof -
  assume all: "\<forall>c\<in>set s. \<not> is_space c"
  have id: "dropWhile is_space xs = xs" if "set xs \<subseteq> set s" for xs
    using that all by (cases xs) auto
  show ?thesis unfolding strip_def by (simp add: id)
qed

lemma parse_uuid_str: "u < 2 ^ 128 \<Longrightarrow> parse_uuid (uuid_str u) = Some u"
proof -
  assume u: "u < 2 ^ 128"
  have chars: "c \<noteq> CHR ''{'' \<and> c \<noteq> CHR ''}'' \<and> c \<noteq> CHR ''u''" if "c \<in> set (uuid_str u)" for c
    using hex_chars_uuid_str [OF that] hex_char_ne by auto
  have ne: "uuid_str u \<noteq> []" by (simp add: uuid_str_def Let_def)
  have "remove_all ''uuid:'' (remove_all ''urn:'' (uuid_str u)) = uuid_str u"
  proof -
    have u: "CHR ''u'' \<notin> set (uuid_str u)" using chars by blast
    have "remove_all ''urn:'' (uuid_str u) = uuid_str u" by (rule remove_all_absent) (use u in simp_all)
    moreover have "remove_all ''uuid:'' (uuid_str u) = uuid_str u" by (rule remove_all_absent) (use u in simp_all)
    ultimately show ?thesis by simp
  qed
  moreover have "strip_braces (uuid_str u) = uuid_str u" by (rule strip_braces_id [OF ne]) (use chars in blast)
  ultimately have "parse_uuid (uuid_str u) = parse_hex (uuid_hex u)"
    by (simp add: parse_uuid_def filter_uuid_str) (simp add: uuid_hex_def)
  moreover have "parse_hex (uuid_hex u) = Some u"
  proof -
    have hx: "hex_char c" if "c \<in> set (uuid_hex u)" for c using that hex_char_digits by (simp add: uuid_hex_def)
    obtain a b r where h: "uuid_hex u = a # b # r"
    proof -
      have "length (uuid_hex u) = 32" by (simp add: uuid_hex_def)
      then show thesis using that by (cases "uuid_hex u"; cases "tl (uuid_hex u)") auto
    qed
    have "hex_char a" "hex_char b" using hx by (simp_all add: h)
    then have ab: "b \<noteq> CHR ''x''" "b \<noteq> CHR ''X''" "a \<noteq> CHR ''+''" using hex_char_ne by blast+
    have "strip (uuid_hex u) = uuid_hex u" by (rule strip_id) (use hx hex_char_ne in blast)
    then have "parse_hex (uuid_hex u) = hex_digits_value False 0 (uuid_hex u)"
      using ab unfolding parse_hex_def h by (simp del: hex_digits_value.simps)
    also have "\<dots> = Some (u mod 16 ^ 32)"
      using hex_digits_value_digits [of False 0 32 u "[]"] by (simp add: uuid_hex_def)
    also have "u mod 16 ^ 32 = u" using u by (intro mod_less) simp
    finally show ?thesis .
  qed
  ultimately show ?thesis by simp
qed

text \<open>The documented shape of \<^verbatim>\<open>hashlib.sha256(...).hexdigest()\<close>: 64 lowercase hexadecimal digits.\<close>

definition sha256_hex :: "(string \<Rightarrow> string) \<Rightarrow> bool" where
  "sha256_hex sha \<longleftrightarrow> (\<forall>x. length (sha x) = 64 \<and> (\<forall>c\<in>set (sha x). hex_char c))"

lemma sha256_hexD: "sha256_hex sha \<Longrightarrow> length (sha x) = 64" "sha256_hex sha \<Longrightarrow> c \<in> set (sha x) \<Longrightarrow> \<not> is_space c"
  using hex_char_ne by (auto simp: sha256_hex_def)

lemma sha256_hex_zero: "sha256_hex (\<lambda>_. replicate 64 CHR ''0'')"
  by (simp add: sha256_hex_def hex_char_def)

end
