(* ===== verification/Action_Tables.thy ===== *)
theory Action_Tables
  imports Memory_Events Execution_Audit Stdlib_Text
begin

text \<open>
  The rows the action services read and write: proposals and executions
  (\<^verbatim>\<open>app/db/action_models.py\<close>), connections and sync jobs (\<^verbatim>\<open>app/db/integration_models.py\<close>),
  repositories and evidence rows (\<^verbatim>\<open>app/db/canonical_models.py\<close>). A status column with a check
  constraint is a datatype whose texts are the column's values.
\<close>

section \<open>Statuses\<close>

datatype proposal_status = Proposed | Approved | Rejected | Executed | ProposalFailed

fun proposal_status_text :: "proposal_status \<Rightarrow> string" where
  "proposal_status_text Proposed = ''proposed''"
| "proposal_status_text Approved = ''approved''"
| "proposal_status_text Rejected = ''rejected''"
| "proposal_status_text Executed = ''executed''"
| "proposal_status_text ProposalFailed = ''failed''"

datatype execution_status = Claimed | Running | Succeeded | Failed | Uncertain

fun execution_status_text :: "execution_status \<Rightarrow> string" where
  "execution_status_text Claimed = ''claimed''"
| "execution_status_text Running = ''running''"
| "execution_status_text Succeeded = ''succeeded''"
| "execution_status_text Failed = ''failed''"
| "execution_status_text Uncertain = ''uncertain''"

datatype connection_status = Connected | ConnectionError | Revoked | Disabled

datatype sync_status = Queued | SyncRunning | SyncSucceeded | SyncFailed | Partial | Cancelled

fun sync_status_text :: "sync_status \<Rightarrow> string" where
  "sync_status_text Queued = ''queued''"
| "sync_status_text SyncRunning = ''running''"
| "sync_status_text SyncSucceeded = ''succeeded''"
| "sync_status_text SyncFailed = ''failed''"
| "sync_status_text Partial = ''partial''"
| "sync_status_text Cancelled = ''cancelled''"

section \<open>Rows\<close>

record action_proposal =
  ap_id :: uuid
  ap_workspace_id :: uuid
  ap_briefing_item_id :: "uuid option"
  ap_target_provider :: string
  ap_action_type :: string
  ap_title :: string
  ap_description :: "string option"
  ap_payload :: pydict
  ap_status :: proposal_status
  ap_evidence_refs :: "pyval list"
  ap_created_by :: string
  ap_created_by_user_id :: "uuid option"
  ap_approved_by_user_id :: "uuid option"
  ap_approved_at :: "time option"
  ap_rejected_by_user_id :: "uuid option"
  ap_rejected_at :: "time option"
  ap_rejection_reason :: "string option"
  ap_created_at :: time
  ap_updated_at :: time

record action_execution =
  ex_id :: uuid
  ex_action_proposal_id :: uuid
  ex_workspace_id :: uuid
  ex_requested_by_user_id :: "uuid option"
  ex_connection_id :: "uuid option"
  ex_client_idempotency_key :: string
  ex_request_hash :: string
  ex_status :: execution_status
  ex_provider_response :: pydict
  ex_external_id :: "string option"
  ex_error_message :: "string option"
  ex_claimed_at :: time
  ex_started_at :: "time option"
  ex_finished_at :: "time option"
  ex_reconciled_at :: "time option"
  ex_created_at :: time
  ex_updated_at :: time

record integration_connection =
  ic_id :: uuid
  ic_workspace_id :: uuid
  ic_provider :: string
  ic_status :: connection_status
  ic_display_name :: "string option"
  ic_external_account_id :: "string option"
  ic_scopes :: "string list"
  ic_encrypted_access_token :: "string option"
  ic_encrypted_refresh_token :: "string option"
  ic_token_expires_at :: "time option"
  ic_provider_metadata :: pydict
  ic_last_sync_at :: "time option"
  ic_last_error :: "string option"
  ic_created_at :: time

record sync_job =
  sj_id :: uuid
  sj_workspace_id :: uuid
  sj_connection_id :: uuid
  sj_provider :: string
  sj_status :: sync_status
  sj_sync_type :: string
  sj_started_at :: "time option"
  sj_finished_at :: "time option"
  sj_cursor_before :: "pydict option"
  sj_cursor_after :: "pydict option"
  sj_records_seen :: int
  sj_records_created :: int
  sj_records_updated :: int
  sj_error_message :: "string option"
  sj_logs :: "pyval list option"
  sj_attempt_count :: int
  sj_max_attempts :: int
  sj_next_attempt_at :: time
  sj_lease_owner :: "string option"
  sj_lease_expires_at :: "time option"
  sj_cancel_requested_at :: "time option"
  sj_created_at :: time
  sj_updated_at :: time

record repository =
  rp_id :: uuid
  rp_workspace_id :: uuid
  rp_provider :: string
  rp_external_id :: string
  rp_name :: string
  rp_full_name :: string
  rp_archived :: bool
  rp_default_branch :: "string option"
  rp_visibility :: "string option"
  rp_source_url :: "string option"
  rp_metadata :: pydict
  rp_last_activity_at :: "time option"
  rp_created_at :: time
  rp_updated_at :: time

record evidence_row =
  er_id :: uuid
  er_workspace_id :: uuid
  er_source_record_id :: uuid

record action_db = ledger_db +
  action_proposals :: "action_proposal list"
  action_executions :: "action_execution list"
  connections :: "integration_connection list"
  sync_jobs :: "sync_job list"
  repositories :: "repository list"
  evidence_rows :: "evidence_row list"

end
