(* ===== verification/Action_Proposals.thy ===== *)
theory Action_Proposals
  imports Action_Tables
begin

text \<open>
  Action proposals, \<^verbatim>\<open>app/services/action_proposal_service.py\<close>: the validation in the order of
  its checks, the strict evidence schema, creation with its memory event, the plain approval
  and rejection, reading, and the version that digests the exact row.
\<close>

datatype proposal_error =
    ActionProposalError string
  | ActionProposalNotFoundError string
  | ActionProposalTransitionError string
  | ProposalMemoryError memory_error
  | ProposalIntegrityError string

definition ACTION_PROPOSAL_NO_EXECUTION_WARNING :: string where
  "ACTION_PROPOSAL_NO_EXECUTION_WARNING =
     ''Action proposal API is local-only and does not execute provider actions.''"
definition ACTION_PROPOSAL_PAYLOAD_MAX_BYTES :: nat where "ACTION_PROPOSAL_PAYLOAD_MAX_BYTES = 64 * 1024"
definition ACTION_PROPOSAL_EVIDENCE_REFS_MAX_BYTES :: nat where
  "ACTION_PROPOSAL_EVIDENCE_REFS_MAX_BYTES = 64 * 1024"
definition ACTION_PROPOSAL_EVIDENCE_REFS_MAX_ITEMS :: nat where
  "ACTION_PROPOSAL_EVIDENCE_REFS_MAX_ITEMS = 50"
definition ACTION_EVIDENCE_ALLOWED_KEYS :: "string list" where
  "ACTION_EVIDENCE_ALLOWED_KEYS = [''evidence_ref_id'', ''id'', ''kind'', ''record_id'', ''ref'',
     ''source'', ''source_record_id'', ''url'']"
definition VALID_TARGET_PROVIDERS :: "string list" where
  "VALID_TARGET_PROVIDERS = [''github'', ''internal'']"
definition VALID_ACTION_TYPES :: "string list" where
  "VALID_ACTION_TYPES = [''create_github_issue'', ''internal_todo'']"
definition VALID_PROVIDER_ACTION_PAIRS :: "(string \<times> string) list" where
  "VALID_PROVIDER_ACTION_PAIRS = [(''github'', ''create_github_issue''), (''internal'', ''internal_todo'')]"
definition VALID_CREATED_BY :: "string list" where
  "VALID_CREATED_BY = [''user'', ''system'', ''ai'']"

section \<open>The evidence schema\<close>

definition strict_text :: "pyval \<Rightarrow> string option" where
  "strict_text value = (case value of PStr s \<Rightarrow>
     if s = [] \<or> s \<noteq> strip s then None
     else if (\<exists>c\<in>set s. is_space c \<and> c \<noteq> CHR '' '') then None
     else if (\<exists>c\<in>set s. (of_char c :: nat) < 32 \<or> (of_char c :: nat) = 127) then None
     else Some s | _ \<Rightarrow> None)"

definition action_evidence_url_is_safe :: "pyval \<Rightarrow> bool" where
  "action_evidence_url_is_safe value = (case strict_text value of None \<Rightarrow> False
     | Some text \<Rightarrow>
        if 1000 < length text \<or> char_of (92 :: nat) \<in> set text \<or> (\<exists>c\<in>set text. is_space c) then False
        else (case urlsplit_port text of None \<Rightarrow> False
          | Some (scheme, netloc) \<Rightarrow> casefold scheme \<in> {''http'', ''https''} \<and> netloc \<noteq> []))"

definition EVIDENCE_SELECTOR_KEYS :: "string list" where
  "EVIDENCE_SELECTOR_KEYS = [''evidence_ref_id'', ''source_record_id'', ''record_id'', ''ref'', ''id'']"

definition action_evidence_ref_matches_schema :: "pydict \<Rightarrow> bool" where
  "action_evidence_ref_matches_schema ref =
     (if \<not> set (map fst ref) \<subseteq> set ACTION_EVIDENCE_ALLOWED_KEYS then False
      else case (strict_text (py_get ref ''kind''), strict_text (py_get ref ''source'')) of
        (Some kind, Some source) \<Rightarrow>
          if 80 < length kind \<or> 80 < length source then False
          else (let selectors = map (\<lambda>k. (k, strict_text (py_get ref k)))
                      (filter (\<lambda>k. py_get ref k \<noteq> PNone) EVIDENCE_SELECTOR_KEYS) in
            if selectors = [] \<or> (\<exists>s\<in>set selectors. snd s = None) then False
            else if (\<exists>s\<in>set selectors. 500 < length (the (snd s))) then False
            else if (\<exists>s\<in>set selectors. fst s \<in> {''evidence_ref_id'', ''source_record_id'', ''record_id''}
                       \<and> parse_uuid (the (snd s)) = None) then False
            else py_get ref ''url'' = PNone \<or> action_evidence_url_is_safe (py_get ref ''url''))
      | _ \<Rightarrow> False)"

section \<open>Validation of a new proposal\<close>

record create_input =
  ci_target_provider :: string
  ci_action_type :: string
  ci_title :: string
  ci_description :: "string option"
  ci_payload :: pydict
  ci_evidence_refs :: "pyval list"
  ci_briefing_item_id :: "uuid option"
  ci_created_by :: string

definition normalize_value :: "string \<Rightarrow> string" where
  "normalize_value v = casefold (strip v)"

text \<open>\<^verbatim>\<open>json.dumps(value, allow_nan=False)\<close>, and the size check on its bytes.\<close>

definition column_json_opts :: json_opts where
  "column_json_opts = \<lparr> sort_keys = False, compact = False, ensure_ascii = True, allow_nan = False,
     default_text = (\<lambda>_. None) \<rparr>"

definition validate_json_byte_size :: "pyval \<Rightarrow> string \<Rightarrow> nat \<Rightarrow> (proposal_error, unit) result" where
  "validate_json_byte_size value field_name max_bytes =
     bindE (require_some (dumps column_json_opts value)
       (ActionProposalError (field_name @ '' must be JSON serializable''))) (\<lambda>text.
     require (length (utf8 text) \<le> max_bytes)
       (ActionProposalError (field_name @ '' exceeds '' @ show_nat max_bytes @ '' UTF-8 serialized bytes'')))"

definition validate_action_proposal_input :: "create_input \<Rightarrow> (proposal_error, unit) result" where
  "validate_action_proposal_input p =
     (let target_provider = normalize_value (ci_target_provider p);
          action_type = normalize_value (ci_action_type p);
          created_by = normalize_value (ci_created_by p);
          title = strip (ci_title p) in
      bindE (require (target_provider \<in> set VALID_TARGET_PROVIDERS) (ActionProposalError ''unknown target_provider'')) (\<lambda>_.
      bindE (require (action_type \<in> set VALID_ACTION_TYPES) (ActionProposalError ''unknown action_type'')) (\<lambda>_.
      bindE (require ((target_provider, action_type) \<in> set VALID_PROVIDER_ACTION_PAIRS)
        (ActionProposalError ''invalid provider/action pair'')) (\<lambda>_.
      bindE (require (title \<noteq> []) (ActionProposalError ''title is required'')) (\<lambda>_.
      bindE (require (length (ci_evidence_refs p) \<le> ACTION_PROPOSAL_EVIDENCE_REFS_MAX_ITEMS)
        (ActionProposalError ''evidence_refs exceeds 50 items'')) (\<lambda>_.
      bindE (require (\<forall>r\<in>set (ci_evidence_refs p). as_dict r \<noteq> None)
        (ActionProposalError ''evidence_refs items must be objects'')) (\<lambda>_.
      bindE (validate_json_byte_size (PDict (ci_payload p)) ''payload'' ACTION_PROPOSAL_PAYLOAD_MAX_BYTES) (\<lambda>_.
      bindE (validate_json_byte_size (PList (ci_evidence_refs p)) ''evidence_refs''
        ACTION_PROPOSAL_EVIDENCE_REFS_MAX_BYTES) (\<lambda>_.
      bindE (require (\<forall>r\<in>set (ci_evidence_refs p). action_evidence_ref_matches_schema (the (as_dict r)))
        (ActionProposalError ''evidence_refs items must match the evidence_ref.v1 schema'')) (\<lambda>_.
      bindE (require (created_by \<in> set VALID_CREATED_BY) (ActionProposalError ''unknown created_by'')) (\<lambda>_.
      case first_secret_like_key (ci_payload p) of
        None \<Rightarrow> Inr ()
      | Some key \<Rightarrow> Inl (ActionProposalError (''payload contains secret-like key: '' @ key)))))))))))))"

section \<open>Memory events of proposals\<close>

definition append_action_proposal_created_memory_event ::
  "sha \<Rightarrow> uuid \<Rightarrow> time \<Rightarrow> action_proposal \<Rightarrow> 'z ledger_db_scheme \<Rightarrow>
     (memory_error, memory_event \<times> 'z ledger_db_scheme) result" where
  "append_action_proposal_created_memory_event sha new_id now proposal db =
     append_company_memory_event sha
       \<lparr> ma_new_id = new_id, ma_observed_at = now, ma_workspace_id = ap_workspace_id proposal,
         ma_event_type = ''action_proposal_created'', ma_subject_type = ''action_proposal'',
         ma_subject_key = uuid_str (ap_id proposal), ma_subject_id = ap_id proposal,
         ma_source_key = ap_target_provider proposal, ma_actor_user_id = ap_created_by_user_id proposal,
         ma_primary_source_record_id = None,
         ma_evidence_refs = [(''action_proposal'', ap_id proposal)],
         ma_occurred_at = Some (ap_created_at proposal),
         ma_idempotency_material = [(''event_type'', PStr ''action_proposal_created''),
           (''proposal_id'', PUuid (ap_id proposal)), (''workspace_id'', PUuid (ap_workspace_id proposal))] \<rparr> db db"

definition append_action_proposal_decision_memory_event ::
  "sha \<Rightarrow> uuid \<Rightarrow> time \<Rightarrow> action_proposal \<Rightarrow> uuid \<Rightarrow> uuid option \<Rightarrow> 'z ledger_db_scheme \<Rightarrow>
     (memory_error, memory_event \<times> 'z ledger_db_scheme) result" where
  "append_action_proposal_decision_memory_event sha new_id now proposal actor_user_id execution_event_id db =
     bindE (case ap_status proposal of
         Approved \<Rightarrow> Inr (''action_proposal_approved'', ap_approved_at proposal)
       | Rejected \<Rightarrow> Inr (''action_proposal_rejected'', ap_rejected_at proposal)
       | _ \<Rightarrow> Inl (MemoryValueError ''action proposal does not have a terminal review decision''))
     (\<lambda>(event_type, occurred_at).
     append_company_memory_event sha
       \<lparr> ma_new_id = new_id, ma_observed_at = now, ma_workspace_id = ap_workspace_id proposal,
         ma_event_type = event_type, ma_subject_type = ''action_proposal'',
         ma_subject_key = uuid_str (ap_id proposal), ma_subject_id = ap_id proposal,
         ma_source_key = ap_target_provider proposal, ma_actor_user_id = Some actor_user_id,
         ma_primary_source_record_id = None,
         ma_evidence_refs = (''action_proposal'', ap_id proposal) #
           (case execution_event_id of None \<Rightarrow> [] | Some i \<Rightarrow> [(''action_execution_event'', i)]),
         ma_occurred_at = occurred_at,
         ma_idempotency_material = [(''event_type'', PStr event_type),
           (''proposal_id'', PUuid (ap_id proposal)), (''workspace_id'', PUuid (ap_workspace_id proposal))] \<rparr> db db)"

section \<open>Operations\<close>

definition new_action_proposal ::
  "uuid \<Rightarrow> time \<Rightarrow> uuid \<Rightarrow> uuid option \<Rightarrow> create_input \<Rightarrow> action_proposal" where
  "new_action_proposal new_id now workspace_id created_by_user_id p =
     (let created_by = normalize_value (ci_created_by p) in
      \<lparr> ap_id = new_id, ap_workspace_id = workspace_id, ap_briefing_item_id = ci_briefing_item_id p,
        ap_target_provider = normalize_value (ci_target_provider p),
        ap_action_type = normalize_value (ci_action_type p), ap_title = strip (ci_title p),
        ap_description = optional_text (ci_description p), ap_payload = ci_payload p,
        ap_status = Proposed, ap_evidence_refs = ci_evidence_refs p, ap_created_by = created_by,
        ap_created_by_user_id = (if created_by = ''user'' then created_by_user_id else None),
        ap_approved_by_user_id = None, ap_approved_at = None, ap_rejected_by_user_id = None,
        ap_rejected_at = None, ap_rejection_reason = None, ap_created_at = now, ap_updated_at = now \<rparr>)"

text \<open>The foreign keys and the primary key of the table, checked by the flush.\<close>

definition proposal_row_ok :: "action_proposal \<Rightarrow> 'z action_db_scheme \<Rightarrow> bool" where
  "proposal_row_ok p db \<longleftrightarrow> ap_id p \<notin> ap_id ` set (action_proposals db) \<and>
     ap_workspace_id p \<in> w_id ` set (workspaces db) \<and>
     (case ap_created_by_user_id p of None \<Rightarrow> True | Some u \<Rightarrow> u \<in> u_id ` set (users db)) \<and>
     length (ap_title p) \<le> 500"

definition create_action_proposal ::
  "sha \<Rightarrow> uuid \<Rightarrow> uuid \<Rightarrow> time \<Rightarrow> uuid \<Rightarrow> uuid option \<Rightarrow> create_input \<Rightarrow> 'z action_db_scheme \<Rightarrow>
     (proposal_error, action_proposal \<times> 'z action_db_scheme) result" where
  "create_action_proposal sha new_id event_id now workspace_id created_by_user_id p db =
     bindE (validate_action_proposal_input p) (\<lambda>_.
     (let proposal = new_action_proposal new_id now workspace_id created_by_user_id p in
      bindE (require (proposal_row_ok proposal db) (ProposalIntegrityError ''action_proposals'')) (\<lambda>_.
      bindE (map_error ProposalMemoryError (append_action_proposal_created_memory_event sha event_id now proposal
         (db\<lparr>action_proposals := action_proposals db @ [proposal]\<rparr>))) (\<lambda>(event, db').
      Inr (proposal, db')))))"

record proposal_filters =
  pf_status :: "string option"
  pf_target_provider :: "string option"
  pf_action_type :: "string option"
  pf_limit :: nat

text \<open>A filter that is absent or the empty text does not apply.\<close>

definition matches_filter :: "string option \<Rightarrow> string \<Rightarrow> bool" where
  "matches_filter f v = (case f of None \<Rightarrow> True | Some t \<Rightarrow> t = [] \<or> v = t)"

definition list_action_proposals ::
  "uuid \<Rightarrow> proposal_filters \<Rightarrow> 'z action_db_scheme \<Rightarrow> action_proposal list" where
  "list_action_proposals workspace_id f db =
     take (pf_limit f) (rev (sort_key (\<lambda>p. (ap_created_at p, ap_id p))
       (filter (\<lambda>p. ap_workspace_id p = workspace_id
          \<and> matches_filter (pf_status f) (proposal_status_text (ap_status p))
          \<and> matches_filter (pf_target_provider f) (ap_target_provider p)
          \<and> matches_filter (pf_action_type f) (ap_action_type p)) (action_proposals db))))"

definition get_action_proposal :: "uuid \<Rightarrow> uuid \<Rightarrow> 'z action_db_scheme \<Rightarrow> action_proposal option" where
  "get_action_proposal workspace_id proposal_id db =
     find (\<lambda>p. ap_workspace_id p = workspace_id \<and> ap_id p = proposal_id) (action_proposals db)"

text \<open>A flush of a changed proposal also sets \<^verbatim>\<open>updated_at\<close>.\<close>

definition store_proposal :: "time \<Rightarrow> action_proposal \<Rightarrow> 'z action_db_scheme \<Rightarrow> action_proposal \<times> 'z action_db_scheme" where
  "store_proposal now p db = (let p' = p\<lparr>ap_updated_at := now\<rparr> in
     (p', db\<lparr>action_proposals := update_where (\<lambda>r. ap_id r = ap_id p) (\<lambda>_. p') (action_proposals db)\<rparr>))"

definition get_action_proposal_or_raise ::
  "uuid \<Rightarrow> uuid \<Rightarrow> 'z action_db_scheme \<Rightarrow> (proposal_error, action_proposal) result" where
  "get_action_proposal_or_raise workspace_id proposal_id db =
     require_some (get_action_proposal workspace_id proposal_id db)
       (ActionProposalNotFoundError ''action proposal not found'')"

definition ensure_proposed :: "action_proposal \<Rightarrow> (proposal_error, unit) result" where
  "ensure_proposed p = require (ap_status p = Proposed)
     (ActionProposalTransitionError ''action proposal is not in proposed status'')"

text \<open>
  The plain decisions take no row lock: the row is read in the state \<^verbatim>\<open>seen\<close>, its changed
  columns are flushed to the row of that id in the state \<^verbatim>\<open>db\<close> the transaction writes to, and
  the row is refreshed from there. No route of the application calls these two functions;
  the decisions of its users go through \<^verbatim>\<open>decide_action_proposal\<close>, which locks the row.
\<close>

definition flush_proposal ::
  "time \<Rightarrow> uuid \<Rightarrow> (action_proposal \<Rightarrow> action_proposal) \<Rightarrow> 'z action_db_scheme \<Rightarrow>
     (proposal_error, action_proposal \<times> 'z action_db_scheme) result" where
  "flush_proposal now proposal_id columns db = (let db1 = db\<lparr>action_proposals := update_where
       (\<lambda>r. ap_id r = proposal_id) (\<lambda>r. (columns r)\<lparr>ap_updated_at := now\<rparr>) (action_proposals db)\<rparr> in
     bindE (require_some (find (\<lambda>r. ap_id r = proposal_id) (action_proposals db1))
       (ProposalIntegrityError ''action_proposals'')) (\<lambda>p. Inr (p, db1)))"

definition approve_action_proposal ::
  "sha \<Rightarrow> uuid \<Rightarrow> time \<Rightarrow> uuid \<Rightarrow> uuid \<Rightarrow> uuid \<Rightarrow> 'z action_db_scheme \<Rightarrow> 'z action_db_scheme \<Rightarrow>
     (proposal_error, action_proposal \<times> 'z action_db_scheme) result" where
  "approve_action_proposal sha event_id now workspace_id proposal_id approved_by_user_id seen db =
     bindE (get_action_proposal_or_raise workspace_id proposal_id seen) (\<lambda>p.
     bindE (ensure_proposed p) (\<lambda>_.
     bindE (flush_proposal now proposal_id (\<lambda>r. r\<lparr>ap_status := Approved,
            ap_approved_by_user_id := Some approved_by_user_id, ap_approved_at := Some now\<rparr>) db) (\<lambda>(p', db1).
     bindE (map_error ProposalMemoryError (append_action_proposal_decision_memory_event sha event_id now p'
         approved_by_user_id None db1)) (\<lambda>(event, db2). Inr (p', db2)))))"

definition reject_action_proposal ::
  "sha \<Rightarrow> uuid \<Rightarrow> time \<Rightarrow> uuid \<Rightarrow> uuid \<Rightarrow> uuid \<Rightarrow> string option \<Rightarrow> 'z action_db_scheme \<Rightarrow>
     'z action_db_scheme \<Rightarrow> (proposal_error, action_proposal \<times> 'z action_db_scheme) result" where
  "reject_action_proposal sha event_id now workspace_id proposal_id rejected_by_user_id reason seen db =
     bindE (get_action_proposal_or_raise workspace_id proposal_id seen) (\<lambda>p.
     bindE (ensure_proposed p) (\<lambda>_.
     bindE (flush_proposal now proposal_id (\<lambda>r. r\<lparr>ap_status := Rejected,
            ap_rejected_by_user_id := Some rejected_by_user_id, ap_rejected_at := Some now,
            ap_rejection_reason := optional_text reason\<rparr>) db) (\<lambda>(p', db1).
     bindE (map_error ProposalMemoryError (append_action_proposal_decision_memory_event sha event_id now p'
         rejected_by_user_id None db1)) (\<lambda>(event, db2). Inr (p', db2)))))"

text \<open>
  What a plain decision guarantees: the row it read was undecided and the row it returns has
  the decision, with the columns it does not write as they are stored. It does not
  guarantee that the stored row was still undecided.
\<close>

lemma flush_proposal_Inr:
  assumes "flush_proposal now i f db = Inr (p', db')" "\<And>r. ap_id (f r) = ap_id r"
  obtains r where "find (\<lambda>r. ap_id r = i) (action_proposals db) = Some r" "p' = (f r)\<lparr>ap_updated_at := now\<rparr>"
proof -
  let ?g = "\<lambda>r. if ap_id r = i then (f r)\<lparr>ap_updated_at := now\<rparr> else r"
  have u: "find (\<lambda>r. ap_id r = i) (update_where (\<lambda>r. ap_id r = i) (\<lambda>r. (f r)\<lparr>ap_updated_at := now\<rparr>) (action_proposals db))
    = map_option ?g (find (\<lambda>r. ap_id r = i) (action_proposals db))"
    by (rule find_update_where) (simp add: assms(2))
  have "map_option ?g (find (\<lambda>r. ap_id r = i) (action_proposals db)) = Some p'"
    using assms(1) by (simp add: flush_proposal_def Let_def result_iffs require_some_Inr_iff u)
  then obtain r where r: "find (\<lambda>r. ap_id r = i) (action_proposals db) = Some r" "p' = ?g r"
    by (cases "find (\<lambda>r. ap_id r = i) (action_proposals db)") simp_all
  show thesis by (rule that [OF r(1)]) (use r find_Some_holds [OF r(1)] in simp)
qed

lemma approve_action_proposal_Inr:
  assumes "approve_action_proposal sha j now w i u seen db = Inr (p', db')"
  shows "\<exists>p r. get_action_proposal w i seen = Some p \<and> ap_status p = Proposed \<and>
    find (\<lambda>r. ap_id r = i) (action_proposals db) = Some r \<and>
    p' = r\<lparr>ap_status := Approved, ap_approved_by_user_id := Some u, ap_approved_at := Some now, ap_updated_at := now\<rparr>"
proof -
  obtain p db1 where p: "get_action_proposal w i seen = Some p" "ap_status p = Proposed"
    and f: "flush_proposal now i (\<lambda>r. r\<lparr>ap_status := Approved,
            ap_approved_by_user_id := Some u, ap_approved_at := Some now\<rparr>) db = Inr (p', db1)"
    using assms by (auto simp: approve_action_proposal_def get_action_proposal_or_raise_def ensure_proposed_def
        result_iffs require_some_Inr_iff)
  from f show ?thesis by (rule flush_proposal_Inr) (use p in simp_all)
qed

lemma reject_action_proposal_Inr:
  assumes "reject_action_proposal sha j now w i u reason seen db = Inr (p', db')"
  shows "\<exists>p r. get_action_proposal w i seen = Some p \<and> ap_status p = Proposed \<and>
    find (\<lambda>r. ap_id r = i) (action_proposals db) = Some r \<and>
    p' = r\<lparr>ap_status := Rejected, ap_rejected_by_user_id := Some u, ap_rejected_at := Some now,
      ap_rejection_reason := optional_text reason, ap_updated_at := now\<rparr>"
proof -
  obtain p db1 where p: "get_action_proposal w i seen = Some p" "ap_status p = Proposed"
    and f: "flush_proposal now i (\<lambda>r. r\<lparr>ap_status := Rejected,
            ap_rejected_by_user_id := Some u, ap_rejected_at := Some now, ap_rejection_reason := optional_text reason\<rparr>) db = Inr (p', db1)"
    using assms by (auto simp: reject_action_proposal_def get_action_proposal_or_raise_def ensure_proposed_def
        result_iffs require_some_Inr_iff)
  from f show ?thesis by (rule flush_proposal_Inr) (use p in simp_all)
qed

section \<open>The version of a row\<close>

definition version_json_opts :: json_opts where
  "version_json_opts = \<lparr> sort_keys = True, compact = True, ensure_ascii = False, allow_nan = False,
     default_text = (\<lambda>v. case v of PUuid u \<Rightarrow> Some (uuid_str u) | PTime t \<Rightarrow> Some (isoformat ''T'' t)
       | _ \<Rightarrow> None) \<rparr>"

definition version_material :: "action_proposal \<Rightarrow> pydict" where
  "version_material p =
     [(''id'', PUuid (ap_id p)), (''workspace_id'', PUuid (ap_workspace_id p)),
      (''briefing_item_id'', opt_val PUuid (ap_briefing_item_id p)),
      (''target_provider'', PStr (ap_target_provider p)), (''action_type'', PStr (ap_action_type p)),
      (''title'', PStr (ap_title p)), (''description'', opt_val PStr (ap_description p)),
      (''payload'', PDict (ap_payload p)), (''status'', PStr (proposal_status_text (ap_status p))),
      (''evidence_refs'', PList (ap_evidence_refs p)), (''created_by'', PStr (ap_created_by p)),
      (''created_by_user_id'', opt_val PUuid (ap_created_by_user_id p)),
      (''approved_by_user_id'', opt_val PUuid (ap_approved_by_user_id p)),
      (''approved_at'', opt_val PTime (ap_approved_at p)),
      (''rejected_by_user_id'', opt_val PUuid (ap_rejected_by_user_id p)),
      (''rejected_at'', opt_val PTime (ap_rejected_at p)),
      (''rejection_reason'', opt_val PStr (ap_rejection_reason p)),
      (''created_at'', PTime (ap_created_at p)), (''updated_at'', PTime (ap_updated_at p))]"

text \<open>\<^const>\<open>None\<close> where \<^verbatim>\<open>json.dumps\<close> raises, for a payload or reference that is not JSON.\<close>

definition action_proposal_version :: "sha \<Rightarrow> action_proposal \<Rightarrow> string option" where
  "action_proposal_version sha p =
     map_option (\<lambda>t. ''ap1_'' @ sha (utf8 t)) (dumps version_json_opts (PDict (version_material p)))"

definition serialize_action_proposal :: "sha \<Rightarrow> action_proposal \<Rightarrow> pydict option" where
  "serialize_action_proposal sha p = map_option (\<lambda>version.
     [(''id'', PUuid (ap_id p)), (''workspace_id'', PUuid (ap_workspace_id p)),
      (''briefing_item_id'', opt_val PUuid (ap_briefing_item_id p)),
      (''target_provider'', PStr (ap_target_provider p)), (''action_type'', PStr (ap_action_type p)),
      (''title'', PStr (ap_title p)), (''description'', opt_val PStr (ap_description p)),
      (''payload'', PDict (ap_payload p)), (''status'', PStr (proposal_status_text (ap_status p))),
      (''evidence_refs'', PList (ap_evidence_refs p)), (''created_by'', PStr (ap_created_by p)),
      (''created_by_user_id'', opt_val PUuid (ap_created_by_user_id p)),
      (''approved_by_user_id'', opt_val PUuid (ap_approved_by_user_id p)),
      (''approved_at'', opt_val PTime (ap_approved_at p)),
      (''rejected_by_user_id'', opt_val PUuid (ap_rejected_by_user_id p)),
      (''rejected_at'', opt_val PTime (ap_rejected_at p)),
      (''rejection_reason'', opt_val PStr (ap_rejection_reason p)),
      (''created_at'', PTime (ap_created_at p)), (''updated_at'', PTime (ap_updated_at p)),
      (''proposal_version'', PStr version), (''is_live'', PBool False),
      (''execution_started'', PBool False),
      (''warnings'', PList [PStr ACTION_PROPOSAL_NO_EXECUTION_WARNING])]) (action_proposal_version sha p)"

end
