(* ===== verification/Evidence_Validation.thy ===== *)
theory Evidence_Validation
  imports Action_Proposals
begin

text \<open>
  The evidence gate of proposals: \<^verbatim>\<open>validate_action_proposal_evidence\<close> of
  \<^verbatim>\<open>app/services/headquarters_read_service.py\<close> with the resolver and the selectors it uses.
  A resolved reference is the row it resolved to; of the display data the code builds beside
  it, the match kind and the match key are modelled, which are what the gate reads.
\<close>

definition SOURCE_KEY_ALIASES :: "(string \<times> string) list" where
  "SOURCE_KEY_ALIASES =
     [(''canonical_github_company_brain'', ''github''), (''drive'', ''drive''), (''github'', ''github''),
      (''github_app_live_sync'', ''github''), (''github_app_setup'', ''github''),
      (''github_issue_read_api'', ''github''), (''github_normalization_work_item'', ''github''),
      (''github_repository_read_api'', ''github''), (''gmail'', ''gmail''), (''internal'', ''internal''),
      (''jira'', ''jira''), (''repository_inventory'', ''github''),
      (''selected_repository_issue_sync'', ''github''), (''selected_repository_pr_sync'', ''github'')]"

definition GENERIC_SOURCE_ALIASES :: "string list" where
  "GENERIC_SOURCE_ALIASES = [''briefing_item'', ''canonical_source_record'', ''company_brain'',
     ''documents'', ''founderos'', ''local_db'']"

section \<open>Text, sources and selectors\<close>

definition clean_text :: "pyval \<Rightarrow> string option" where
  "clean_text value = (case value of PStr s \<Rightarrow>
     (let cleaned = join '' '' (split_space (strip s)) in if cleaned = [] then None else Some cleaned)
     | _ \<Rightarrow> None)"

definition source_key :: "pyval \<Rightarrow> string option" where
  "source_key value = (case clean_text value of None \<Rightarrow> None
     | Some t \<Rightarrow> map_of SOURCE_KEY_ALIASES (casefold t))"

definition source_alias_is_supported :: "pyval \<Rightarrow> bool" where
  "source_alias_is_supported value = (case clean_text value of None \<Rightarrow> True
     | Some t \<Rightarrow> casefold t \<in> fst ` set SOURCE_KEY_ALIASES \<or> casefold t \<in> set GENERIC_SOURCE_ALIASES)"

datatype selector_kind = EvidenceRefSelector | SourceRecordSelector | ExternalSelector

record evidence_selector =
  es_kind :: selector_kind
  es_token :: string
  es_source_record_tokens :: "string list"

definition first_keys :: "'a list \<Rightarrow> 'a list" where
  "first_keys xs = rev (remdups (rev xs))"

lemma set_first_keys [simp]: "set (first_keys xs) = set xs"
  by (simp add: first_keys_def)

definition evidence_selector_of :: "pydict \<Rightarrow> evidence_selector option" where
  "evidence_selector_of ref =
     (let source_record_tokens = first_keys (List.map_filter (\<lambda>k. clean_text (py_get ref k))
            [''source_record_id'', ''record_id'']) in
      case clean_text (py_get ref ''evidence_ref_id'') of
        Some t \<Rightarrow> Some \<lparr> es_kind = EvidenceRefSelector, es_token = t,
                    es_source_record_tokens = source_record_tokens \<rparr>
      | None \<Rightarrow>
          if source_record_tokens \<noteq> []
          then (if length source_record_tokens \<noteq> 1 then None
                else Some \<lparr> es_kind = SourceRecordSelector, es_token = hd source_record_tokens,
                       es_source_record_tokens = [] \<rparr>)
          else case clean_text (py_get ref ''ref'') of
            Some t \<Rightarrow> Some \<lparr> es_kind = ExternalSelector, es_token = t, es_source_record_tokens = [] \<rparr>
          | None \<Rightarrow> map_option (\<lambda>t. \<lparr> es_kind = ExternalSelector, es_token = t,
                       es_source_record_tokens = [] \<rparr>) (clean_text (py_get ref ''id'')))"

definition evidence_tokens :: "pydict \<Rightarrow> string list" where
  "evidence_tokens ref = (case evidence_selector_of ref of None \<Rightarrow> []
     | Some s \<Rightarrow> first_keys (es_token s # es_source_record_tokens s))"

definition evidence_ref_matches_schema :: "pydict \<Rightarrow> bool" where
  "evidence_ref_matches_schema ref \<longleftrightarrow>
     action_evidence_ref_matches_schema ref \<and> source_alias_is_supported (py_get ref ''source'')"

definition strict_evidence_refs :: "pyval list \<Rightarrow> pydict list option" where
  "strict_evidence_refs value =
     (if value = [] \<or> ACTION_PROPOSAL_EVIDENCE_REFS_MAX_ITEMS < length value
         \<or> (\<exists>r\<in>set value. as_dict r = None) then None
      else (let refs = map (the \<circ> as_dict) value in
        if \<exists>r\<in>set refs. \<not> evidence_ref_matches_schema r then None else Some refs))"

section \<open>The resolver\<close>

record evidence_resolver =
  rv_sources :: "source_record list"
  rv_repositories :: "repository list"
  rv_connections :: "integration_connection list"
  rv_evidence :: "(evidence_row \<times> source_record) list"

definition ACTIVE_CONNECTION_STATUSES :: "connection_status list" where
  "ACTIVE_CONNECTION_STATUSES = [Connected, ConnectionError]"

text \<open>
  The source builds dictionaries from rows in the order the database gives them, which keep the last
  row of a key. Rows are looked up with \<^const>\<open>find\<close>, which takes the first: identifiers, the external
  id of a provider and the full name of a provider are unique in a workspace, and the application
  stores repositories of one provider only, so there is no other row of the key.
\<close>

definition build_direct_evidence_resolver ::
  "uuid \<Rightarrow> pydict list \<Rightarrow> 'z action_db_scheme \<Rightarrow> evidence_resolver" where
  "build_direct_evidence_resolver workspace_id refs db =
     (let tokens = filter (\<lambda>t. t \<noteq> []) (concat (map evidence_tokens refs));
          uuid_tokens = List.map_filter parse_uuid tokens;
          live = filter (\<lambda>r. sr_workspace_id r = workspace_id \<and> \<not> sr_is_deleted r) (source_records db) in
      \<lparr> rv_sources = filter (\<lambda>r. sr_id r \<in> set uuid_tokens \<or> sr_external_id r \<in> set tokens) live,
        rv_repositories = filter (\<lambda>r. rp_workspace_id r = workspace_id \<and> \<not> rp_archived r
          \<and> (rp_id r \<in> set uuid_tokens \<or> rp_full_name r \<in> set tokens)) (repositories db),
        rv_connections = filter (\<lambda>c. ic_workspace_id c = workspace_id \<and> ic_id c \<in> set uuid_tokens
          \<and> ic_status c \<in> set ACTIVE_CONNECTION_STATUSES) (connections db),
        rv_evidence = concat (map (\<lambda>e. map (Pair e) (filter (\<lambda>r. sr_id r = er_source_record_id e) live))
          (filter (\<lambda>e. er_workspace_id e = workspace_id \<and> er_id e \<in> set uuid_tokens) (evidence_rows db))) \<rparr>)"

datatype resolved_evidence =
    ResolvedSource source_record
  | ResolvedRepository repository
  | ResolvedConnection integration_connection

definition is_repository_record :: "source_record \<Rightarrow> bool" where
  "is_repository_record r \<longleftrightarrow> source_key (PStr (sr_provider r)) = Some ''github''
     \<and> (case clean_text (PStr (sr_record_type r)) of None \<Rightarrow> False | Some t \<Rightarrow> casefold t = ''repository'')"

fun match_kind :: "resolved_evidence \<Rightarrow> string" where
  "match_kind (ResolvedSource r) = (if is_repository_record r then ''repository_source_record'' else ''source_record'')"
| "match_kind (ResolvedRepository r) = ''repository''"
| "match_kind (ResolvedConnection c) = ''integration_connection''"

fun match_key :: "resolved_evidence \<Rightarrow> string" where
  "match_key (ResolvedSource r) = (if is_repository_record r then sr_external_id r else uuid_str (sr_id r))"
| "match_key (ResolvedRepository r) = rp_full_name r"
| "match_key (ResolvedConnection c) = uuid_str (ic_id c)"

definition provider_matches_source_hint :: "string \<Rightarrow> string option \<Rightarrow> bool" where
  "provider_matches_source_hint provider source_hint \<longleftrightarrow>
     source_hint = None \<or> source_key (PStr provider) = source_hint"

definition resolve_direct_evidence :: "pydict \<Rightarrow> evidence_resolver \<Rightarrow> resolved_evidence option" where
  "resolve_direct_evidence ref rv =
     (if \<not> source_alias_is_supported (py_get ref ''source'') then None
      else case evidence_selector_of ref of None \<Rightarrow> None | Some sel \<Rightarrow>
      (let source_hint = source_key (py_get ref ''source''); token = es_token sel;
           evidence = find (\<lambda>(e, r). uuid_str (er_id e) = token) (rv_evidence rv);
           source = find (\<lambda>r. uuid_str (sr_id r) = token) (rv_sources rv) in
       case es_kind sel of
         EvidenceRefSelector \<Rightarrow> (case evidence of None \<Rightarrow> None | Some (e, r) \<Rightarrow>
           if \<not> provider_matches_source_hint (sr_provider r) source_hint then None
           else if \<exists>v\<in>set (es_source_record_tokens sel). v \<noteq> uuid_str (sr_id r) then None
           else Some (ResolvedSource r))
       | SourceRecordSelector \<Rightarrow> (case source of None \<Rightarrow> None | Some r \<Rightarrow>
           if provider_matches_source_hint (sr_provider r) source_hint then Some (ResolvedSource r) else None)
       | ExternalSelector \<Rightarrow>
          (case evidence of Some (e, r) \<Rightarrow>
             if provider_matches_source_hint (sr_provider r) source_hint then Some (ResolvedSource r) else None
           | None \<Rightarrow>
          (case source of Some r \<Rightarrow>
             if provider_matches_source_hint (sr_provider r) source_hint then Some (ResolvedSource r) else None
           | None \<Rightarrow>
          (case (case source_hint of None \<Rightarrow> None | Some h \<Rightarrow>
                   find (\<lambda>r. sr_provider r = h \<and> sr_external_id r = token) (rv_sources rv)) of
             Some r \<Rightarrow> Some (ResolvedSource r)
           | None \<Rightarrow>
          (case find (\<lambda>r. uuid_str (rp_id r) = token) (rv_repositories rv) of Some r \<Rightarrow>
             if provider_matches_source_hint (rp_provider r) source_hint then Some (ResolvedRepository r) else None
           | None \<Rightarrow>
          (case find (\<lambda>r. rp_full_name r = token) (rv_repositories rv) of Some r \<Rightarrow>
             if provider_matches_source_hint (rp_provider r) source_hint then Some (ResolvedRepository r) else None
           | None \<Rightarrow>
          (case find (\<lambda>c. uuid_str (ic_id c) = token) (rv_connections rv) of Some c \<Rightarrow>
             if provider_matches_source_hint (ic_provider c) source_hint then Some (ResolvedConnection c) else None
           | None \<Rightarrow> None))))))))"

section \<open>The gate\<close>

definition proposal_evidence_is_relevant :: "action_proposal \<Rightarrow> resolved_evidence list \<Rightarrow> bool" where
  "proposal_evidence_is_relevant p resolved =
     (if ap_target_provider p \<noteq> ''github'' then True
      else case clean_text (py_get (ap_payload p) ''repository_full_name'') of
        None \<Rightarrow> False
      | Some full_name \<Rightarrow> \<exists>r\<in>set resolved.
          match_kind r \<in> {''repository'', ''repository_source_record''}
          \<and> casefold (match_key r) = casefold full_name)"

definition validate_action_proposal_evidence ::
  "uuid \<Rightarrow> action_proposal \<Rightarrow> 'z action_db_scheme \<Rightarrow> (string, resolved_evidence list) result" where
  "validate_action_proposal_evidence workspace_id p db =
     bindE (require (ap_workspace_id p = workspace_id) ''proposal evidence belongs to another workspace'') (\<lambda>_.
     bindE (require_some (strict_evidence_refs (ap_evidence_refs p))
       ''proposal evidence_refs do not match the strict evidence schema'') (\<lambda>refs.
     (let rv = build_direct_evidence_resolver workspace_id refs db;
          resolved = List.map_filter (\<lambda>r. resolve_direct_evidence r rv) refs in
      bindE (require (length resolved = length refs)
        ''proposal evidence is missing, inactive, unsupported, or outside the workspace'') (\<lambda>_.
      bindE (require (proposal_evidence_is_relevant p resolved)
        ''proposal evidence is unrelated to the requested action'') (\<lambda>_.
      Inr resolved)))))"

section \<open>What resolves is live and in the workspace\<close>

fun live_in :: "uuid \<Rightarrow> 'z action_db_scheme \<Rightarrow> resolved_evidence \<Rightarrow> bool" where
  "live_in w db (ResolvedSource r) \<longleftrightarrow> r \<in> set (source_records db) \<and> sr_workspace_id r = w \<and> \<not> sr_is_deleted r"
| "live_in w db (ResolvedRepository r) \<longleftrightarrow> r \<in> set (repositories db) \<and> rp_workspace_id r = w \<and> \<not> rp_archived r"
| "live_in w db (ResolvedConnection c) \<longleftrightarrow> c \<in> set (connections db) \<and> ic_workspace_id c = w
     \<and> (ic_status c = Connected \<or> ic_status c = ConnectionError)"

definition resolver_ok :: "uuid \<Rightarrow> 'z action_db_scheme \<Rightarrow> evidence_resolver \<Rightarrow> bool" where
  "resolver_ok w db rv \<longleftrightarrow>
     (\<forall>r\<in>set (rv_sources rv). live_in w db (ResolvedSource r)) \<and>
     (\<forall>x\<in>set (rv_evidence rv). live_in w db (ResolvedSource (snd x))) \<and>
     (\<forall>r\<in>set (rv_repositories rv). live_in w db (ResolvedRepository r)) \<and>
     (\<forall>c\<in>set (rv_connections rv). live_in w db (ResolvedConnection c))"

lemma resolver_ok_build: "resolver_ok w db (build_direct_evidence_resolver w refs db)"
  by (auto simp: resolver_ok_def build_direct_evidence_resolver_def Let_def ACTIVE_CONNECTION_STATUSES_def)

lemma resolve_live:
  assumes "resolver_ok w db rv" "resolve_direct_evidence ref rv = Some x"
  shows "live_in w db x"
proof -
  have src: "live_in w db (ResolvedSource r)" if "find P (rv_sources rv) = Some r" for P r
    using find_Some_mem [OF that] assms(1) unfolding resolver_ok_def by blast
  have ev: "live_in w db (ResolvedSource (snd y))" if "find P (rv_evidence rv) = Some y" for P y
    using find_Some_mem [OF that] assms(1) unfolding resolver_ok_def by blast
  have rep: "live_in w db (ResolvedRepository r)" if "find P (rv_repositories rv) = Some r" for P r
    using find_Some_mem [OF that] assms(1) unfolding resolver_ok_def by blast
  have con: "live_in w db (ResolvedConnection c)" if "find P (rv_connections rv) = Some c" for P c
    using find_Some_mem [OF that] assms(1) unfolding resolver_ok_def by blast
  show ?thesis
    using assms(2) unfolding resolve_direct_evidence_def Let_def
    by (auto simp del: live_in.simps dest!: src rep con split: option.splits if_splits selector_kind.splits dest: ev)
qed

lemma length_map_filter: "length (List.map_filter f xs) \<le> length xs"
  by (simp add: List.map_filter_def)

lemma map_filter_full:
  "length (List.map_filter f xs) = length xs \<Longrightarrow> map f xs = map Some (List.map_filter f xs)"
proof (induction xs)
  case (Cons x xs)
  show ?case
  proof (cases "f x")
    case None
    then have "List.map_filter f (x # xs) = List.map_filter f xs" by (simp add: List.map_filter_def)
    then show ?thesis using Cons.prems length_map_filter [of f xs] by simp
  next
    case (Some y)
    then have "List.map_filter f (x # xs) = y # List.map_filter f xs" by (simp add: List.map_filter_def)
    then show ?thesis using Cons Some by simp
  qed
qed (simp add: List.map_filter_def)

text \<open>What an accepted proposal's references resolved to, one row per reference.\<close>

lemma validate_evidence_Inr:
  assumes "validate_action_proposal_evidence w p db = Inr resolved"
  obtains refs where "ap_workspace_id p = w" "strict_evidence_refs (ap_evidence_refs p) = Some refs"
    "map (\<lambda>r. resolve_direct_evidence r (build_direct_evidence_resolver w refs db)) refs = map Some resolved"
    "proposal_evidence_is_relevant p resolved" "\<forall>x\<in>set resolved. live_in w db x"
proof -
  from assms obtain refs where refs: "ap_workspace_id p = w"
      "strict_evidence_refs (ap_evidence_refs p) = Some refs" "proposal_evidence_is_relevant p resolved"
    and res: "resolved = List.map_filter (\<lambda>r. resolve_direct_evidence r (build_direct_evidence_resolver w refs db)) refs"
      "length resolved = length refs"
    by (auto simp: validate_action_proposal_evidence_def Let_def result_iffs require_some_Inr_iff)
  have maps: "map (\<lambda>r. resolve_direct_evidence r (build_direct_evidence_resolver w refs db)) refs = map Some resolved"
    using map_filter_full res by metis
  have "live_in w db x" if "x \<in> set resolved" for x
  proof -
    have "Some x \<in> set (map Some resolved)" using that by simp
    then obtain r where "resolve_direct_evidence r (build_direct_evidence_resolver w refs db) = Some x"
      unfolding maps [symmetric] by auto
    then show ?thesis using resolve_live resolver_ok_build by blast
  qed
  then show thesis using that refs maps by blast
qed

section \<open>Properties\<close>

text \<open>C4. The evidence gate cannot be passed with foreign, deleted or unrelated evidence. If a
  proposal's evidence is accepted for a workspace, the proposal is the workspace's own, every
  one of its 1 to 50 references resolved to a row, all those rows belong to that workspace
  and are live (a source record not deleted, a repository not archived, an active
  connection), and a GitHub proposal names a repository that one of them is.\<close>

theorem evidence_gate_sound:
  assumes "validate_action_proposal_evidence w p db = Inr resolved"
  shows "ap_workspace_id p = w \<and> length resolved = length (ap_evidence_refs p)
    \<and> 1 \<le> length resolved \<and> length resolved \<le> 50
    \<and> (\<forall>x\<in>set resolved. live_in w db x)
    \<and> (ap_target_provider p = ''github'' \<longrightarrow>
        (\<exists>full_name x. clean_text (py_get (ap_payload p) ''repository_full_name'') = Some full_name
          \<and> x \<in> set resolved \<and> match_kind x \<in> {''repository'', ''repository_source_record''}
          \<and> casefold (match_key x) = casefold full_name))"
proof -
  from assms obtain refs where r: "ap_workspace_id p = w"
      "strict_evidence_refs (ap_evidence_refs p) = Some refs"
      "map (\<lambda>r. resolve_direct_evidence r (build_direct_evidence_resolver w refs db)) refs = map Some resolved"
      "proposal_evidence_is_relevant p resolved" "\<forall>x\<in>set resolved. live_in w db x"
    by (rule validate_evidence_Inr)
  have "length refs = length (ap_evidence_refs p)" "ap_evidence_refs p \<noteq> []" "length (ap_evidence_refs p) \<le> 50"
    using r(2) by (auto simp: strict_evidence_refs_def Let_def ACTION_PROPOSAL_EVIDENCE_REFS_MAX_ITEMS_def
        split: if_splits)
  moreover have "length resolved = length refs" using arg_cong [OF r(3), of length] by simp
  ultimately have len: "length resolved = length (ap_evidence_refs p)" "1 \<le> length resolved" "length resolved \<le> 50"
    by (auto simp: Suc_le_eq)
  have "\<exists>full_name x. clean_text (py_get (ap_payload p) ''repository_full_name'') = Some full_name
      \<and> x \<in> set resolved \<and> match_kind x \<in> {''repository'', ''repository_source_record''}
      \<and> casefold (match_key x) = casefold full_name" if "ap_target_provider p = ''github''"
    using r(4) that unfolding proposal_evidence_is_relevant_def
    by (cases "clean_text (py_get (ap_payload p) ''repository_full_name'')") auto
  then show ?thesis using r(1,5) len by blast
qed

section \<open>The gate at concrete tables\<close>

definition example_ref :: pydict where
  "example_ref = [(''kind'', PStr ''repository''), (''source'', PStr ''github''), (''ref'', PStr ''a/b'')]"

definition example_proposal :: action_proposal where
  "example_proposal = \<lparr> ap_id = 7, ap_workspace_id = 2, ap_briefing_item_id = None, ap_target_provider = ''github'',
     ap_action_type = ''create_github_issue'', ap_title = ''T'', ap_description = None,
     ap_payload = [(''repository_full_name'', PStr ''a/b''), (''title'', PStr ''T''), (''body'', PStr ''B'')],
     ap_status = Proposed, ap_evidence_refs = [PDict example_ref], ap_created_by = ''user'',
     ap_created_by_user_id = Some 1, ap_approved_by_user_id = None, ap_approved_at = None,
     ap_rejected_by_user_id = None, ap_rejected_at = None, ap_rejection_reason = None,
     ap_created_at = 0, ap_updated_at = 0 \<rparr>"

definition example_repository :: repository where
  "example_repository = \<lparr> rp_id = 60, rp_workspace_id = 2, rp_provider = ''github'', rp_external_id = ''1'',
     rp_name = ''b'', rp_full_name = ''a/b'', rp_archived = False,
     rp_default_branch = None, rp_visibility = None, rp_source_url = None, rp_metadata = [], rp_last_activity_at = None,
     rp_created_at = 0, rp_updated_at = 0 \<rparr>"

definition example_connection :: integration_connection where
  "example_connection = \<lparr> ic_id = 61, ic_workspace_id = 2, ic_provider = ''github'', ic_status = Connected,
     ic_display_name = None, ic_external_account_id = None, ic_scopes = [], ic_encrypted_access_token = Some ''enc'',
     ic_encrypted_refresh_token = None, ic_token_expires_at = None, ic_provider_metadata = [], ic_last_sync_at = None,
     ic_last_error = None, ic_created_at = 0 \<rparr>"

definition example_db :: action_db where
  "example_db = ledger_db.extend example_ledger
     (action_db.fields [example_proposal] [] [example_connection] [] [example_repository] [])"

lemma example_clean: "clean_text (PStr ''a/b'') = Some ''a/b''" "clean_text (PStr ''github'') = Some ''github''"
  by code_simp+

lemma example_none: "clean_text PNone = None"
  by (simp add: clean_text_def)

lemma example_strict: "strict_text (PStr ''a/b'') = Some ''a/b''" "strict_text (PStr ''github'') = Some ''github''"
  "strict_text (PStr ''repository'') = Some ''repository''"
  by code_simp+

lemma example_source: "source_key (PStr ''github'') = Some ''github''" "source_alias_is_supported (PStr ''github'')"
   "parse_uuid ''a/b'' = None"
  by code_simp+

lemma example_strict_refs: "strict_evidence_refs [PDict example_ref] = Some [example_ref]"
  by (simp add: strict_evidence_refs_def evidence_ref_matches_schema_def action_evidence_ref_matches_schema_def
      ACTION_PROPOSAL_EVIDENCE_REFS_MAX_ITEMS_def ACTION_EVIDENCE_ALLOWED_KEYS_def EVIDENCE_SELECTOR_KEYS_def
      example_ref_def example_strict example_source py_get_def as_dict_def)

lemma example_selector: "evidence_selector_of example_ref
   = Some \<lparr> es_kind = ExternalSelector, es_token = ''a/b'', es_source_record_tokens = [] \<rparr>"
  by (simp add: evidence_selector_of_def example_ref_def py_get_def first_keys_def map_filter_simps example_clean
      example_none)

lemma example_resolver: "build_direct_evidence_resolver 2 [example_ref] example_db
   = \<lparr> rv_sources = [], rv_repositories = [example_repository], rv_connections = [], rv_evidence = [] \<rparr>"
  by (simp add: build_direct_evidence_resolver_def evidence_tokens_def example_selector first_keys_def
     map_filter_simps example_source example_db_def auth_db.defs ledger_db.defs action_db.defs example_repository_def
     example_ledger_def)

lemma uuid_str_length: "length (uuid_str u) = 36"
  by (simp add: uuid_str_def Let_def uuid_hex_def)

lemma uuid_str_ne: "length t \<noteq> 36 \<Longrightarrow> uuid_str u \<noteq> t"
  using uuid_str_length [of u] by blast

lemma example_resolved: "resolve_direct_evidence example_ref
   \<lparr> rv_sources = [], rv_repositories = [example_repository], rv_connections = [], rv_evidence = [] \<rparr>
   = Some (ResolvedRepository example_repository)"
proof -
  have "py_get example_ref ''source'' = PStr ''github''" by (simp add: example_ref_def py_get_def)
  then show ?thesis
    by (simp add: resolve_direct_evidence_def example_selector uuid_str_ne provider_matches_source_hint_def Let_def
        example_source example_repository_def)
qed

lemma example_relevant: "ap_payload p = ap_payload example_proposal \<Longrightarrow>
   proposal_evidence_is_relevant p [ResolvedRepository example_repository]"
  by (simp add: proposal_evidence_is_relevant_def example_proposal_def py_get_def example_clean example_repository_def)

definition example_world :: "action_db \<Rightarrow> bool" where
  "example_world db \<longleftrightarrow> repositories db = repositories example_db \<and> connections db = connections example_db
     \<and> source_records db = source_records example_db \<and> evidence_rows db = evidence_rows example_db"

lemma example_validated:
  assumes "ap_workspace_id p = 2" "ap_evidence_refs p = ap_evidence_refs example_proposal"
    "ap_payload p = ap_payload example_proposal" "example_world db"
  shows "validate_action_proposal_evidence 2 p db = Inr [ResolvedRepository example_repository]"
proof -
  have "build_direct_evidence_resolver 2 [example_ref] db = build_direct_evidence_resolver 2 [example_ref] example_db"
    using assms(4) by (simp add: build_direct_evidence_resolver_def example_world_def)
  moreover have "ap_evidence_refs p = [PDict example_ref]" using assms(2) by (simp add: example_proposal_def)
  ultimately show ?thesis using assms(1) example_relevant [OF assms(3)]
    by (simp add: validate_action_proposal_evidence_def bindE_def require_def require_some_def Let_def
        example_strict_refs example_resolver example_resolved map_filter_simps)
qed

theorem evidence_gate_sound_witness:
  "live_in 2 example_db (ResolvedRepository example_repository)
    \<and> (\<exists>full_name. clean_text (py_get (ap_payload example_proposal) ''repository_full_name'') = Some full_name
         \<and> casefold (match_key (ResolvedRepository example_repository)) = casefold full_name)"
proof -
  have v: "validate_action_proposal_evidence 2 example_proposal example_db = Inr [ResolvedRepository example_repository]"
    by (rule example_validated) (simp_all add: example_proposal_def example_world_def)
  show ?thesis using evidence_gate_sound [OF v] by (auto simp: example_proposal_def)
qed

end
