(* ===== verification/Proposal_Decisions.thy ===== *)
theory Proposal_Decisions
  imports Evidence_Validation
begin

text \<open>
  Local decisions on proposals, \<^verbatim>\<open>app/services/action_proposal_decision_service.py\<close>: the role
  check in the write session, replay by idempotency key, binding to the version the actor
  reviewed, the evidence gate, the headquarters snapshot, and the audit and memory events. The
  row locks make a decision one step. The headquarters projection
  (\<^verbatim>\<open>read_workspace_headquarters\<close>) is an argument \<open>hq\<close>: \<^const>\<open>None\<close> where it raises because
  the membership disappeared.
\<close>

datatype decision_error =
    ActionProposalDecisionNotFoundError string
  | ActionProposalDecisionForbiddenError string
  | ActionProposalDecisionConflictError string
  | DecisionMemoryError memory_error
  | DecisionAuditError audit_error
  | DecisionVersionError

datatype decision = Approve | Reject

fun decision_text :: "decision \<Rightarrow> string" where
  "decision_text Approve = ''approved''"
| "decision_text Reject = ''rejected''"

record decision_command =
  dc_decision :: decision
  dc_idempotency_key :: string
  dc_proposal_version :: string
  dc_expected_snapshot_id :: "string option"
  dc_reason :: "string option"
  dc_bulk :: bool

record decision_result =
  dr_proposal :: action_proposal
  dr_event :: execution_event
  dr_decision :: decision
  dr_replayed :: bool
  dr_proposal_version :: string

type_synonym headquarters = "uuid \<Rightarrow> uuid \<Rightarrow> pydict option"

section \<open>Checks\<close>

definition require_current_admin ::
  "uuid \<Rightarrow> uuid \<Rightarrow> 'z identity_db_scheme \<Rightarrow> (decision_error, unit) result" where
  "require_current_admin workspace_id user_id db =
     (case (get_membership workspace_id user_id db, get_user user_id db) of
        (Some membership, Some user) \<Rightarrow>
          bindE (require (u_status user = UserActive) (ActionProposalDecisionForbiddenError ''user disabled'')) (\<lambda>_.
          require (role_allows (m_role membership) MEMBERSHIP_ROLE_ADMIN)
            (ActionProposalDecisionForbiddenError ''insufficient workspace role''))
      | _ \<Rightarrow> Inl (ActionProposalDecisionNotFoundError ''workspace not found''))"

text \<open>\<^verbatim>\<open>str(v)\<close> of an identifier or a text.\<close>

definition id_text :: "pyval \<Rightarrow> string" where
  "id_text v = (case v of PStr s \<Rightarrow> s | PUuid u \<Rightarrow> uuid_str u | _ \<Rightarrow> ''None'')"

definition exact_mission :: "uuid \<Rightarrow> pydict \<Rightarrow> bool" where
  "exact_mission proposal_id m \<longleftrightarrow>
     py_get m ''id'' = PStr (''proposal:'' @ uuid_str proposal_id)
     \<and> py_get m ''kind'' = PStr ''review_proposal''
     \<and> py_get m ''reference_type'' = PStr ''proposal''
     \<and> py_get m ''reference_id'' = PStr (uuid_str proposal_id)
     \<and> id_text (py_get m ''proposal_id'') = uuid_str proposal_id"

definition headquarters_missions :: "pydict \<Rightarrow> pydict list" where
  "headquarters_missions h = List.map_filter as_dict (py_get h ''priority'' #
     (case py_get h ''queue'' of PList q \<Rightarrow> q | _ \<Rightarrow> []))"

definition headquarters_snapshot_id :: "pydict \<Rightarrow> pyval" where
  "headquarters_snapshot_id h = (case py_get h ''snapshot'' of PDict s \<Rightarrow> py_get s ''id'' | _ \<Rightarrow> PNone)"

definition validate_expected_headquarters_context ::
  "headquarters \<Rightarrow> uuid \<Rightarrow> uuid \<Rightarrow> uuid \<Rightarrow> string option \<Rightarrow> string \<Rightarrow> (decision_error, unit) result" where
  "validate_expected_headquarters_context hq workspace_id proposal_id actor_user_id expected_snapshot_id
       proposal_version =
     (case expected_snapshot_id of None \<Rightarrow> Inr () | Some snapshot_id \<Rightarrow>
      bindE (require_some (hq workspace_id actor_user_id)
        (ActionProposalDecisionNotFoundError ''workspace not found'')) (\<lambda>h.
      bindE (require (headquarters_snapshot_id h = PStr snapshot_id)
        (ActionProposalDecisionConflictError ''headquarters snapshot changed'')) (\<lambda>_.
      bindE (require_some (find (exact_mission proposal_id) (headquarters_missions h))
        (ActionProposalDecisionConflictError ''proposal is not an active headquarters mission'')) (\<lambda>m.
      require (py_get m ''proposal_version'' = PStr proposal_version)
        (ActionProposalDecisionConflictError ''action proposal version changed'')))))"

definition decision_request_fingerprint :: "sha \<Rightarrow> decision_command \<Rightarrow> string" where
  "decision_request_fingerprint sha c = stable_digest sha
     [(''decision'', PStr (decision_text (dc_decision c))),
      (''expected_snapshot_id'', opt_val PStr (dc_expected_snapshot_id c)),
      (''proposal_version'', PStr (dc_proposal_version c)),
      (''reason'', opt_val PStr (optional_text (dc_reason c)))]"

fun decision_event_type :: "decision \<Rightarrow> string" where
  "decision_event_type Approve = ''action_proposal_approved_locally''"
| "decision_event_type Reject = ''action_proposal_rejected_locally''"

fun decision_replay_statuses :: "decision \<Rightarrow> proposal_status list" where
  "decision_replay_statuses Approve = [Approved, Executed, ProposalFailed]"
| "decision_replay_statuses Reject = [Rejected]"

definition IDEMPOTENCY_CONFLICT :: decision_error where
  "IDEMPOTENCY_CONFLICT = ActionProposalDecisionConflictError
     ''idempotency key was already used with different decision input''"

definition replayed_result ::
  "action_proposal \<Rightarrow> execution_event \<Rightarrow> decision_command \<Rightarrow> string \<Rightarrow> (decision_error, decision_result) result" where
  "replayed_result p event c request_fingerprint =
     (let metadata = ev_event_metadata event in
      bindE (require (ev_event_type event = decision_event_type (dc_decision c)
          \<and> ev_workspace_id event = ap_workspace_id p \<and> ev_action_proposal_id event = ap_id p
          \<and> py_get metadata ''request_fingerprint'' = PStr request_fingerprint
          \<and> py_get metadata ''decision'' = PStr (decision_text (dc_decision c))
          \<and> ap_status p \<in> set (decision_replay_statuses (dc_decision c))) IDEMPOTENCY_CONFLICT) (\<lambda>_.
      bindE (require (py_get metadata ''proposal_version'' = PStr (dc_proposal_version c))
          IDEMPOTENCY_CONFLICT) (\<lambda>_.
      Inr \<lparr> dr_proposal = p, dr_event = event, dr_decision = dc_decision c, dr_replayed = True,
            dr_proposal_version = dc_proposal_version c \<rparr>)))"

section \<open>The decision\<close>

fun apply_decision :: "decision \<Rightarrow> uuid \<Rightarrow> time \<Rightarrow> string option \<Rightarrow> action_proposal \<Rightarrow> action_proposal" where
  "apply_decision Approve actor now reason p =
     p\<lparr>ap_status := Approved, ap_approved_by_user_id := Some actor, ap_approved_at := Some now\<rparr>"
| "apply_decision Reject actor now reason p =
     p\<lparr>ap_status := Rejected, ap_rejected_by_user_id := Some actor, ap_rejected_at := Some now,
       ap_rejection_reason := optional_text reason\<rparr>"

definition decision_event_args ::
  "uuid \<Rightarrow> time \<Rightarrow> uuid \<Rightarrow> action_proposal \<Rightarrow> decision_command \<Rightarrow> string \<Rightarrow> string \<Rightarrow> event_args" where
  "decision_event_args new_id now actor p c audit_key request_fingerprint =
     \<lparr> ea_new_id = new_id, ea_now = now, ea_workspace_id = ap_workspace_id p,
       ea_action_proposal_id = ap_id p, ea_event_type = decision_event_type (dc_decision c),
       ea_actor = ''user:'' @ uuid_str actor, ea_status = ''recorded'',
       ea_message = ''Action proposal '' @ decision_text (dc_decision c) @ '' locally. No external write occurred.'',
       ea_idempotency_key = audit_key, ea_provider = Some (ap_target_provider p),
       ea_action = Some (ap_action_type p), ea_external_execution_enabled = False,
       ea_confirmation_received = False,
       ea_event_metadata = [(''bulk'', PBool (dc_bulk c)), (''decision'', PStr (decision_text (dc_decision c))),
         (''decision_contract'', PStr ''local-decision.v1''),
         (''expected_snapshot_id'', opt_val PStr (dc_expected_snapshot_id c)),
         (''external_execution_enabled'', PBool False), (''external_write_performed'', PBool False),
         (''proposal_status'', PStr (proposal_status_text (ap_status p))),
         (''proposal_version'', PStr (dc_proposal_version c)),
         (''request_fingerprint'', PStr request_fingerprint)],
       ea_external_result_id = None, ea_external_result_url = None, ea_error_code = None,
       ea_error_message = None \<rparr>"

record fresh_ids =
  fr_event :: uuid
  fr_memory :: uuid

text \<open>The branch of a known key: the receipt again, and the memory event it must have.\<close>

definition replay_decision ::
  "sha \<Rightarrow> fresh_ids \<Rightarrow> time \<Rightarrow> action_proposal \<Rightarrow> execution_event \<Rightarrow> decision_command \<Rightarrow>
     'z action_db_scheme \<Rightarrow> (decision_error, decision_result \<times> 'z action_db_scheme) result" where
  "replay_decision sha ids now p existing c db =
     bindE (replayed_result p existing c (decision_request_fingerprint sha c)) (\<lambda>result.
     bindE (require_some (case dc_decision c of Approve \<Rightarrow> ap_approved_by_user_id p
                            | Reject \<Rightarrow> ap_rejected_by_user_id p)
       (ActionProposalDecisionConflictError ''persisted proposal decision has no actor'')) (\<lambda>decision_actor.
     bindE (map_error DecisionMemoryError (append_action_proposal_decision_memory_event sha (fr_memory ids)
       now p decision_actor (Some (ev_id existing)) db)) (\<lambda>(m, db').
     Inr (result, db'))))"

text \<open>The checks of a new decision; the result is the version it is bound to.\<close>

definition decision_checks ::
  "sha \<Rightarrow> headquarters \<Rightarrow> uuid \<Rightarrow> uuid \<Rightarrow> uuid \<Rightarrow> decision_command \<Rightarrow> action_proposal \<Rightarrow>
     'z action_db_scheme \<Rightarrow> (decision_error, string) result" where
  "decision_checks sha hq workspace_id proposal_id actor c p db =
     bindE (require (ap_status p = Proposed)
       (ActionProposalDecisionConflictError ''action proposal is not in proposed status'')) (\<lambda>_.
     bindE (require_some (action_proposal_version sha p) DecisionVersionError) (\<lambda>current_version.
     bindE (require (current_version = dc_proposal_version c)
       (ActionProposalDecisionConflictError ''action proposal version changed'')) (\<lambda>_.
     bindE (case dc_decision c of Reject \<Rightarrow> Inr () | Approve \<Rightarrow>
         bindE (map_error ActionProposalDecisionConflictError
           (validate_action_proposal_evidence workspace_id p db)) (\<lambda>_.
         require (\<not> (ap_created_by p \<in> {''ai'', ''system''} \<and> dc_expected_snapshot_id c = None))
           (ActionProposalDecisionConflictError
              ''AI and system proposals require an exact headquarters snapshot''))) (\<lambda>_.
     bindE (validate_expected_headquarters_context hq workspace_id proposal_id actor
       (dc_expected_snapshot_id c) current_version) (\<lambda>_.
     Inr current_version)))))"

text \<open>The transition of the row with its audit event and its memory event.\<close>

definition record_decision ::
  "sha \<Rightarrow> fresh_ids \<Rightarrow> time \<Rightarrow> uuid \<Rightarrow> string \<Rightarrow> decision_command \<Rightarrow> action_proposal \<Rightarrow>
     'z action_db_scheme \<Rightarrow> (decision_error, decision_result \<times> 'z action_db_scheme) result" where
  "record_decision sha ids now actor audit_key c p db =
     (let (p', db1) = store_proposal now (apply_decision (dc_decision c) actor now (dc_reason c) p) db in
      bindE (map_error DecisionAuditError (append_execution_event (decision_event_args (fr_event ids) now
        actor p' c audit_key (decision_request_fingerprint sha c)) db1 db1)) (\<lambda>(event, db2).
      bindE (map_error DecisionMemoryError (append_action_proposal_decision_memory_event sha (fr_memory ids)
        now p' actor (Some (ev_id event)) db2)) (\<lambda>(m, db3).
      Inr (\<lparr> dr_proposal = p', dr_event = event, dr_decision = dc_decision c, dr_replayed = False,
             dr_proposal_version = dc_proposal_version c \<rparr>, db3))))"

definition decide_action_proposal ::
  "sha \<Rightarrow> headquarters \<Rightarrow> fresh_ids \<Rightarrow> time \<Rightarrow> uuid \<Rightarrow> uuid \<Rightarrow> uuid \<Rightarrow> decision_command \<Rightarrow>
     'z action_db_scheme \<Rightarrow> (decision_error, decision_result \<times> 'z action_db_scheme) result" where
  "decide_action_proposal sha hq ids now workspace_id proposal_id actor c db =
     bindE (require_current_admin workspace_id actor db) (\<lambda>_.
     bindE (require_some (get_action_proposal workspace_id proposal_id db)
       (ActionProposalDecisionNotFoundError ''action proposal not found'')) (\<lambda>p.
     (let audit_key = local_decision_event_idempotency_key sha workspace_id proposal_id (dc_idempotency_key c) in
      case get_execution_event_by_idempotency_key audit_key db of
        Some existing \<Rightarrow> replay_decision sha ids now p existing c db
      | None \<Rightarrow> bindE (decision_checks sha hq workspace_id proposal_id actor c p db) (\<lambda>_.
          record_decision sha ids now actor audit_key c p db))))"

section \<open>What the parts do\<close>

lemma decision_memory_frame:
  assumes "append_action_proposal_decision_memory_event sha i now p actor ev db = Inr (m, db')"
  shows "\<exists>streams events. db' = db\<lparr>memory_streams := streams, memory_events := events\<rparr>"
  using assms append_memory_frame
  by (auto simp: append_action_proposal_decision_memory_event_def result_iffs split: proposal_status.splits)

lemma created_memory_frame:
  assumes "append_action_proposal_created_memory_event sha i now p db = Inr (m, db')"
  shows "\<exists>streams events. db' = db\<lparr>memory_streams := streams, memory_events := events\<rparr>"
  using assms append_memory_frame by (auto simp: append_action_proposal_created_memory_event_def)

lemma decision_memory_inv:
  "append_action_proposal_decision_memory_event sha i now p actor ev db = Inr (m, db') \<Longrightarrow> memory_inv db \<Longrightarrow> memory_inv db'"
  by (auto simp: append_action_proposal_decision_memory_event_def result_iffs
      intro: memory_inv_append split: proposal_status.splits)

text \<open>The same decision of the same row, later and with any identifiers, finds its memory event.\<close>

lemma decision_memory_replay:
  assumes "append_action_proposal_decision_memory_event sha i now p actor ev db = Inr (m, db')" "memory_inv db"
  shows "append_action_proposal_decision_memory_event sha i' now' p actor ev db' = Inr (m, db')"
proof -
  from assms(1) obtain a where a: "append_company_memory_event sha a db db = Inr (m, db')"
    and same: "append_action_proposal_decision_memory_event sha i' now' p actor ev db'
        = append_company_memory_event sha (a\<lparr>ma_new_id := i', ma_observed_at := now'\<rparr>) db' db'"
    by (auto simp: append_action_proposal_decision_memory_event_def result_iffs split: proposal_status.splits)
  let ?b = "a\<lparr>ma_new_id := i', ma_observed_at := now'\<rparr>"
  have valid: "valid_memory_args sha a" using a by (cases rule: append_memory_cases) auto
  then have b: "valid_memory_args sha ?b" "memory_args_key sha ?b = memory_args_key sha a"
    "memory_fingerprint sha ?b = memory_fingerprint sha a"
    by (auto simp: valid_memory_args_def memory_args_key_def memory_idempotency_key_def memory_fingerprint_def
        prepared_event_def bindE_def fingerprint_material_def is_ok_def split: sum.splits)
  have "me_payload_fingerprint m = memory_fingerprint sha ?b"
    using memory_ledger.append_key [OF a valid] b(3) by simp
  from memory_ledger.replay_same [OF a valid _ memory_ledger.appended_refl b(1,2) this] assms(2)
  show ?thesis unfolding same by (simp add: memory_inv_def)
qed

lemma audit_key_regular:
  assumes "sha256_hex sha"
  shows "safe_text [] 500 (Some (local_decision_event_idempotency_key sha w i k)) = local_decision_event_idempotency_key sha w i k"
proof -
  let ?k = "local_decision_event_idempotency_key sha w i k"
  have "\<forall>c\<in>set ?k. \<not> is_space c"
    using sha256_hexD(2) [OF assms] in_set_takeD
    by (fastforce simp: local_decision_event_idempotency_key_def stable_digest_def is_space_def)
  then have "strip ?k = ?k" by (rule strip_id)
  moreover have "?k \<noteq> []" "length ?k \<le> 500"
    by (auto simp: local_decision_event_idempotency_key_def stable_digest_def)
  ultimately show ?thesis by (simp add: safe_text_def optional_text_limit_def Let_def)
qed

definition decision_metadata_keys :: "string list" where
  "decision_metadata_keys = [''bulk'', ''decision'', ''decision_contract'', ''expected_snapshot_id'',
     ''external_execution_enabled'', ''external_write_performed'', ''proposal_status'',
     ''proposal_version'', ''request_fingerprint'']"

lemma decision_metadata_keys_plain: "list_all plain_key decision_metadata_keys"
  by code_simp

lemma decision_event_metadata:
  "py_get (ev_event_metadata (new_execution_event (decision_event_args i now actor p c k rf))) key =
     (case map_of (ea_event_metadata (decision_event_args i now actor p c k rf)) key of
        None \<Rightarrow> PNone | Some v \<Rightarrow> sanitize v)"
proof -
  let ?d = "ea_event_metadata (decision_event_args i now actor p c k rf)"
  have "map fst ?d = decision_metadata_keys"
    by (simp add: decision_event_args_def decision_metadata_keys_def)
  then have "sanitize_items [] ?d = map (\<lambda>(k, v). (k, sanitize v)) ?d"
    using sanitize_items_plain [of ?d "[]"] decision_metadata_keys_plain
    by (simp add: decision_metadata_keys_def)
  then have "ev_event_metadata (new_execution_event (decision_event_args i now actor p c k rf))
      = map (\<lambda>(k, v). (k, sanitize v)) ?d"
    by (simp add: new_execution_event_def sanitize_metadata_def)
  then show ?thesis by (simp add: py_get_def map_of_map split: option.splits)
qed

section \<open>A decision taken\<close>

text \<open>The state invariant of the proposal tables.\<close>

definition proposals_inv :: "'z action_db_scheme \<Rightarrow> bool" where
  "proposals_inv db \<longleftrightarrow> distinct (map ap_id (action_proposals db)) \<and>
     distinct (map ev_idempotency_key (execution_events db)) \<and> memory_inv db"

lemma memory_inv_cong:
  "memory_streams a = memory_streams b \<Longrightarrow> memory_events a = memory_events b \<Longrightarrow> memory_inv a = memory_inv b"
  by (simp add: memory_inv_def workspace_numbers_def last_sequence_def)

lemma apply_decision_id [simp]:
  "ap_id (apply_decision d a n r p) = ap_id p" "ap_workspace_id (apply_decision d a n r p) = ap_workspace_id p"
  by (cases d; simp)+

lemma get_action_proposal_Some:
  "get_action_proposal w i db = Some p \<Longrightarrow> p \<in> set (action_proposals db) \<and> ap_workspace_id p = w \<and> ap_id p = i"
  by (auto simp: get_action_proposal_def dest: find_Some_mem find_Some_holds)

lemma get_action_proposal_unique:
  assumes "distinct (map ap_id (action_proposals db))" "p \<in> set (action_proposals db)"
  shows "get_action_proposal (ap_workspace_id p) (ap_id p) db = Some p"
proof -
  have "find (\<lambda>q. ap_workspace_id q = ap_workspace_id p \<and> ap_id q = ap_id p) (action_proposals db)
      = find (\<lambda>q. ap_id q = ap_id p) (action_proposals db)"
    by (rule find_cong_set) (use distinct_key_eq [OF assms(1)] assms(2) in blast)
  with find_key_unique [OF assms] show ?thesis by (simp add: get_action_proposal_def)
qed

lemma record_decision_Inr:
  assumes "record_decision sha ids now actor key c p db = Inr (r, db')"
    and "get_execution_event_by_idempotency_key key db = None"
  obtains p' event db1 streams events where
    "p' = (apply_decision (dc_decision c) actor now (dc_reason c) p)\<lparr>ap_updated_at := now\<rparr>"
    "event = new_execution_event (decision_event_args (fr_event ids) now actor p' c key (decision_request_fingerprint sha c))"
    "r = \<lparr> dr_proposal = p', dr_event = event, dr_decision = dc_decision c, dr_replayed = False,
             dr_proposal_version = dc_proposal_version c \<rparr>"
    "db1 = db\<lparr>action_proposals := update_where (\<lambda>q. ap_id q = ap_id p) (\<lambda>_. p') (action_proposals db),
               execution_events := execution_events db @ [event]\<rparr>"
    "\<exists>m. append_action_proposal_decision_memory_event sha (fr_memory ids) now p' actor (Some (ev_id event)) db1 = Inr (m, db')"
    "db' = db1\<lparr>memory_streams := streams, memory_events := events\<rparr>"
    "ev_idempotency_key event \<notin> ev_idempotency_key ` set (execution_events db)"
proof -
  let ?p = "(apply_decision (dc_decision c) actor now (dc_reason c) p)\<lparr>ap_updated_at := now\<rparr>"
  let ?db = "db\<lparr>action_proposals := update_where (\<lambda>q. ap_id q = ap_id p) (\<lambda>_. ?p) (action_proposals db)\<rparr>"
  let ?a = "decision_event_args (fr_event ids) now actor ?p c key (decision_request_fingerprint sha c)"
  from assms(1) obtain event db2 m where
    ev: "append_execution_event ?a ?db ?db = Inr (event, db2)"
    and mem: "append_action_proposal_decision_memory_event sha (fr_memory ids) now ?p actor (Some (ev_id event)) db2 = Inr (m, db')"
    and r: "r = \<lparr> dr_proposal = ?p, dr_event = event, dr_decision = dc_decision c, dr_replayed = False,
             dr_proposal_version = dc_proposal_version c \<rparr>"
    by (auto simp: record_decision_def store_proposal_def Let_def result_iffs)
  have none: "key \<notin> ev_idempotency_key ` set (execution_events db)"
    using assms(2) find_key_None [of ev_idempotency_key key "execution_events db"]
    by (simp add: get_execution_event_by_idempotency_key_def)
  have "event = new_execution_event ?a \<and> db2 = ?db\<lparr>execution_events := execution_events db @ [event]\<rparr>
      \<and> ev_idempotency_key event \<notin> ev_idempotency_key ` set (execution_events db)"
    using append_execution_event_cases [OF ev] none by (auto simp: decision_event_args_def)
  moreover obtain streams events where "db' = db2\<lparr>memory_streams := streams, memory_events := events\<rparr>"
    using decision_memory_frame [OF mem] by blast
  ultimately show thesis using that [OF refl _ r refl] mem by auto
qed

text \<open>A decision that is not a replay went through the checks and the transition.\<close>

lemma decide_new_Inr:
  assumes "decide_action_proposal sha hq ids now w i actor c db = Inr (r, db')" "\<not> dr_replayed r"
  obtains p where "require_current_admin w actor db = Inr ()" "get_action_proposal w i db = Some p"
    "get_execution_event_by_idempotency_key (local_decision_event_idempotency_key sha w i (dc_idempotency_key c)) db = None"
    "decision_checks sha hq w i actor c p db = Inr (dc_proposal_version c)"
    "record_decision sha ids now actor (local_decision_event_idempotency_key sha w i (dc_idempotency_key c)) c p db = Inr (r, db')"
proof -
  from assms(1) obtain p where p: "require_current_admin w actor db = Inr ()" "get_action_proposal w i db = Some p"
    by (auto simp: decide_action_proposal_def result_iffs require_some_Inr_iff)
  show thesis
  proof (cases "get_execution_event_by_idempotency_key
      (local_decision_event_idempotency_key sha w i (dc_idempotency_key c)) db")
    case (Some e)
    with assms p show thesis
      by (auto simp: decide_action_proposal_def replay_decision_def replayed_result_def Let_def result_iffs)
  next
    case None
    with assms(1) p obtain v where v: "decision_checks sha hq w i actor c p db = Inr v"
      "record_decision sha ids now actor (local_decision_event_idempotency_key sha w i (dc_idempotency_key c)) c p db = Inr (r, db')"
      by (auto simp: decide_action_proposal_def Let_def result_iffs)
    then have "v = dc_proposal_version c" by (auto simp: decision_checks_def result_iffs require_some_Inr_iff)
    with that [OF p None] v show thesis by simp
  qed
qed

lemma require_current_admin_Inr:
  "require_current_admin w actor db = Inr u \<longleftrightarrow> (\<exists>m us. get_membership w actor db = Some m \<and>
     get_user actor db = Some us \<and> u_status us = UserActive \<and> role_allows (m_role m) MEMBERSHIP_ROLE_ADMIN)"
  by (auto simp: require_current_admin_def result_iffs split: option.splits)

text \<open>The stored receipt of a decision answers the same command.\<close>

lemma version_length:
  "sha256_hex sha \<Longrightarrow> action_proposal_version sha p = Some v \<Longrightarrow> length v = 68"
  by (auto simp: action_proposal_version_def dest: sha256_hexD(1))

lemma fingerprint_length: "length (decision_request_fingerprint sha c) \<le> 32"
  by (simp add: decision_request_fingerprint_def stable_digest_def)

lemma stored_receipt:
  assumes "sha256_hex sha" "action_proposal_version sha p = Some (dc_proposal_version c)"
    and "q = (apply_decision (dc_decision c) actor now (dc_reason c) p)\<lparr>ap_updated_at := now\<rparr>"
    and "event = new_execution_event (decision_event_args i now actor q c
           (local_decision_event_idempotency_key sha w (ap_id p) k) (decision_request_fingerprint sha c))"
  shows "py_get (ev_event_metadata event) ''request_fingerprint'' = PStr (decision_request_fingerprint sha c)"
    and "py_get (ev_event_metadata event) ''decision'' = PStr (decision_text (dc_decision c))"
    and "py_get (ev_event_metadata event) ''proposal_version'' = PStr (dc_proposal_version c)"
    and "ev_idempotency_key event = local_decision_event_idempotency_key sha w (ap_id p) k"
    and "ev_event_type event = decision_event_type (dc_decision c)"
    and "ev_workspace_id event = ap_workspace_id p" "ev_action_proposal_id event = ap_id p"
proof -
  have "length (decision_request_fingerprint sha c) \<le> 500" using fingerprint_length [of sha c] by simp
  moreover have "length (dc_proposal_version c) \<le> 500" using version_length [OF assms(1,2)] by simp
  ultimately show "py_get (ev_event_metadata event) ''request_fingerprint'' = PStr (decision_request_fingerprint sha c)"
    "py_get (ev_event_metadata event) ''proposal_version'' = PStr (dc_proposal_version c)"
    unfolding assms(4) decision_event_metadata by (simp_all add: decision_event_args_def)
  show "py_get (ev_event_metadata event) ''decision'' = PStr (decision_text (dc_decision c))"
    unfolding assms(4) decision_event_metadata by (cases "dc_decision c") (simp_all add: decision_event_args_def)
  show "ev_idempotency_key event = local_decision_event_idempotency_key sha w (ap_id p) k"
    using audit_key_regular [OF assms(1)] by (simp add: assms(4) new_execution_event_def decision_event_args_def)
qed (simp_all add: assms(3,4) new_execution_event_def decision_event_args_def)

text \<open>The state after a decision: the row, the event under its key, and the memory event.\<close>

lemma decided_state:
  assumes "sha256_hex sha" "proposals_inv db"
    and "decide_action_proposal sha hq ids now w i actor c db = Inr (r, db')" "\<not> dr_replayed r"
  obtains p q m where "q = (apply_decision (dc_decision c) actor now (dc_reason c) p)\<lparr>ap_updated_at := now\<rparr>"
    "ap_id p = i" "ap_workspace_id p = w"
    "r\<lparr>dr_replayed := True\<rparr> = \<lparr> dr_proposal = q, dr_event = dr_event r, dr_decision = dc_decision c,
             dr_replayed = True, dr_proposal_version = dc_proposal_version c \<rparr>"
    "q \<in> set (action_proposals db')" "proposals_inv db'"
    "require_current_admin w actor db' = Inr ()"
    "get_execution_event_by_idempotency_key
       (local_decision_event_idempotency_key sha w i (dc_idempotency_key c)) db' = Some (dr_event r)"
    "py_get (ev_event_metadata (dr_event r)) ''request_fingerprint'' = PStr (decision_request_fingerprint sha c)"
    "py_get (ev_event_metadata (dr_event r)) ''decision'' = PStr (decision_text (dc_decision c))"
    "py_get (ev_event_metadata (dr_event r)) ''proposal_version'' = PStr (dc_proposal_version c)"
    "ev_event_type (dr_event r) = decision_event_type (dc_decision c)"
    "ev_workspace_id (dr_event r) = w" "ev_action_proposal_id (dr_event r) = i"
    "\<And>j t. append_action_proposal_decision_memory_event sha j t q actor (Some (ev_id (dr_event r))) db' = Inr (m, db')"
  using assms(3,4)
proof (cases rule: decide_new_Inr)
  case (1 p)
  note pid = get_action_proposal_Some [OF 1(2)]
  have version: "action_proposal_version sha p = Some (dc_proposal_version c)"
    using 1(4) by (auto simp: decision_checks_def result_iffs require_some_Inr_iff)
  from 1(5,3) show thesis
  proof (cases rule: record_decision_Inr)
    case inner: (1 q event db1 streams events)
    note stored = stored_receipt [OF assms(1) version inner(1), of event "fr_event ids" w "dc_idempotency_key c"]
    have ev: "event = new_execution_event (decision_event_args (fr_event ids) now actor q c
           (local_decision_event_idempotency_key sha w (ap_id p) (dc_idempotency_key c)) (decision_request_fingerprint sha c))"
      using inner(2) pid by simp
    note stored = stored [OF ev]
    obtain m where m: "append_action_proposal_decision_memory_event sha (fr_memory ids) now q actor (Some (ev_id event)) db1 = Inr (m, db')"
      using inner(5) by blast
    have mem1: "memory_inv db1"
      using assms(2) memory_inv_cong [of db1 db] by (simp add: inner(4) proposals_inv_def)
    have qid: "ap_id q = ap_id p" by (simp add: inner(1))
    have "distinct (map ap_id (action_proposals db'))"
    proof -
      have "map ap_id (action_proposals db') = map ap_id (action_proposals db)"
        unfolding inner(4,6) by simp (rule map_update_where_on, simp add: qid)
      then show ?thesis using assms(2) by (simp add: proposals_inv_def)
    qed
    moreover have "distinct (map ev_idempotency_key (execution_events db'))"
      using assms(2) inner(7) by (simp add: inner(4,6) proposals_inv_def)
    ultimately have inv': "proposals_inv db'"
      using decision_memory_inv [OF m mem1] by (simp add: proposals_inv_def)
    have q: "q \<in> set (action_proposals db')"
      using pid by (auto simp: inner(4,6) in_update_where)
    have look: "get_execution_event_by_idempotency_key
       (local_decision_event_idempotency_key sha w i (dc_idempotency_key c)) db' = Some event"
      using 1(3) stored(4) pid by (simp add: get_execution_event_by_idempotency_key_def inner(4,6) find_append)
    have admin: "require_current_admin w actor db' = Inr ()"
      using 1(1) by (simp add: require_current_admin_def get_membership_def get_user_def inner(4,6))
    show thesis
      by (rule that [OF inner(1)])
        (use pid inner(3) q inv' admin look stored decision_memory_replay [OF m mem1] in simp_all)
  qed
qed

section \<open>Properties\<close>

text \<open>C3. A decision is only recorded for what the actor reviewed and may decide. When a
  decision command succeeds and is not a replay: the actor is an active user with at least
  the admin role in the proposal's workspace; the proposal is that workspace's, undecided,
  and its current version is the one in the command; an approval passed the evidence gate
  and, for an AI or system proposal, names a headquarters snapshot; a named snapshot is the
  current one. And the effect is exactly: the transition of that one row and one new audit
  event for it; no execution is created.\<close>

theorem decision_sound:
  assumes "decide_action_proposal sha hq ids now w i actor c db = Inr (r, db')" "\<not> dr_replayed r"
  shows "\<exists>m u p. get_membership w actor db = Some m \<and> get_user actor db = Some u \<and> u_status u = UserActive
    \<and> role_allows (m_role m) MEMBERSHIP_ROLE_ADMIN
    \<and> get_action_proposal w i db = Some p \<and> ap_status p = Proposed
    \<and> action_proposal_version sha p = Some (dc_proposal_version c)
    \<and> (dc_decision c = Approve \<longrightarrow> is_ok (validate_action_proposal_evidence w p db)
         \<and> (ap_created_by p \<in> {''ai'', ''system''} \<longrightarrow> dc_expected_snapshot_id c \<noteq> None))
    \<and> (\<forall>s. dc_expected_snapshot_id c = Some s \<longrightarrow>
         (\<exists>h. hq w actor = Some h \<and> headquarters_snapshot_id h = PStr s))
    \<and> dr_proposal r = (apply_decision (dc_decision c) actor now (dc_reason c) p)\<lparr>ap_updated_at := now\<rparr>
    \<and> action_proposals db' = update_where (\<lambda>q. ap_id q = i) (\<lambda>_. dr_proposal r) (action_proposals db)
    \<and> execution_events db' = execution_events db @ [dr_event r] \<and> ev_action_proposal_id (dr_event r) = i
    \<and> action_executions db' = action_executions db"
  using assms
proof (cases rule: decide_new_Inr)
  case (1 p)
  note pid = get_action_proposal_Some [OF 1(2)]
  have checks: "ap_status p = Proposed" "action_proposal_version sha p = Some (dc_proposal_version c)"
    "dc_decision c = Approve \<longrightarrow> is_ok (validate_action_proposal_evidence w p db)
         \<and> (ap_created_by p \<in> {''ai'', ''system''} \<longrightarrow> dc_expected_snapshot_id c \<noteq> None)"
    "\<forall>s. dc_expected_snapshot_id c = Some s \<longrightarrow>
         (\<exists>h. hq w actor = Some h \<and> headquarters_snapshot_id h = PStr s)"
    using 1(4) by (auto simp: decision_checks_def validate_expected_headquarters_context_def
        result_iffs require_some_Inr_iff split: decision.splits)
  from 1(5,3) show ?thesis
  proof (cases rule: record_decision_Inr)
    case (1 p' event db1 streams events)
    then show ?thesis
      using checks pid \<open>require_current_admin w actor db = Inr ()\<close> \<open>get_action_proposal w i db = Some p\<close>
      by (auto simp: require_current_admin_Inr new_execution_event_def decision_event_args_def)
  qed
qed

text \<open>C8. A decision command is idempotent. Sent again under the same key with the same decision,
  snapshot, version and reason, it returns the first receipt marked as a replay and changes
  nothing, not even the state of the headquarters projection is asked; under the same key
  with another decision or version it is refused with the key conflict.\<close>

theorem decision_replay:
  assumes "sha256_hex sha" "proposals_inv db"
    and "decide_action_proposal sha hq ids now w i actor c db = Inr (r, db')" "\<not> dr_replayed r"
  shows "decide_action_proposal sha hq' ids' now' w i actor c db' = Inr (r\<lparr>dr_replayed := True\<rparr>, db')
    \<and> (\<forall>c2. dc_idempotency_key c2 = dc_idempotency_key c
           \<and> (dc_decision c2 \<noteq> dc_decision c \<or> dc_proposal_version c2 \<noteq> dc_proposal_version c)
         \<longrightarrow> decide_action_proposal sha hq' ids' now' w i actor c2 db' = Inl IDEMPOTENCY_CONFLICT)"
  using assms
proof (cases rule: decided_state)
  case (1 p q m)
  have q: "get_action_proposal w i db' = Some q"
    using get_action_proposal_unique [OF _ 1(5)] 1(1,2,3,6) by (simp add: proposals_inv_def)
  have same: "decide_action_proposal sha hq' ids' now' w i actor c db' = Inr (r\<lparr>dr_replayed := True\<rparr>, db')"
    using 1 q by (cases "dc_decision c")
      (auto simp: decide_action_proposal_def replay_decision_def replayed_result_def Let_def)
  have "decision_event_type d \<noteq> decision_event_type d'" if "d \<noteq> d'" for d d'
    using that by (cases d; cases d') auto
  then have "decide_action_proposal sha hq' ids' now' w i actor c2 db' = Inl IDEMPOTENCY_CONFLICT"
    if "dc_idempotency_key c2 = dc_idempotency_key c"
      "dc_decision c2 \<noteq> dc_decision c \<or> dc_proposal_version c2 \<noteq> dc_proposal_version c" for c2
    using 1(7-14) q that
    by (auto simp: decide_action_proposal_def replay_decision_def replayed_result_def Let_def bindE_def require_def
        split: if_splits)
  with same show ?thesis by blast
qed

text \<open>C34. The replay of an approval fails once its action was executed. The replay check admits
  an executed proposal, but the memory event that must be there is then looked up by the
  proposal's status, which is no longer a review decision: the command raises that error
  instead of returning its receipt.\<close>

theorem approval_replay_after_execution_raises:
  assumes "sha256_hex sha" "proposals_inv db"
    and "decide_action_proposal sha hq ids now w i actor c db = Inr (r, db')" "\<not> dr_replayed r"
    and "dc_decision c = Approve"
    and "db'' = db'\<lparr>action_proposals := update_where (\<lambda>q. ap_id q = i) (\<lambda>q. q\<lparr>ap_status := Executed\<rparr>) (action_proposals db')\<rparr>"
  shows "decide_action_proposal sha hq' ids' now' w i actor c db'' = Inl (DecisionMemoryError
      (MemoryValueError ''action proposal does not have a terminal review decision''))"
  using assms(1-4)
proof (cases rule: decided_state)
  case (1 p q m)
  let ?q = "q\<lparr>ap_status := Executed\<rparr>"
  have "distinct (map ap_id (action_proposals db''))"
    using 1(6) by (simp add: assms(6) proposals_inv_def map_update_where)
  moreover have "?q \<in> set (action_proposals db'')"
  proof -
    have "ap_id q = i" using 1(1,2) by simp
    with 1(5) show ?thesis unfolding assms(6) by (auto simp: in_update_where)
  qed
  ultimately have "get_action_proposal (ap_workspace_id ?q) (ap_id ?q) db'' = Some ?q"
    by (rule get_action_proposal_unique)
  then have q: "get_action_proposal w i db'' = Some ?q" using 1(1,2,3) by simp
  have other: "require_current_admin w actor db'' = Inr ()"
    "get_execution_event_by_idempotency_key
       (local_decision_event_idempotency_key sha w i (dc_idempotency_key c)) db'' = Some (dr_event r)"
    using 1(7,8) by (simp_all add: assms(6) require_current_admin_def get_membership_def get_user_def
        get_execution_event_by_idempotency_key_def)
  show ?thesis
    using 1(1,2,3,9-14) assms(5) q other
    by (simp add: decide_action_proposal_def replay_decision_def replayed_result_def Let_def
        append_action_proposal_decision_memory_event_def)
qed

section \<open>The lifecycle of proposals\<close>

text \<open>
  The proposals as a machine of committed transactions: creation, decision commands (new or
  replayed), the outcome an execution or its reconciliation writes back to a proposal, which
  moves it among approved, executed and failed, and everything else, which leaves the proposals
  alone. Outcomes and other transactions may change the executions in any way. The plain
  \<^verbatim>\<open>approve_action_proposal\<close> and \<^verbatim>\<open>reject_action_proposal\<close>, which no route calls and which
  take no row lock, are not steps.
\<close>

inductive proposal_step :: "sha \<Rightarrow> action_db \<Rightarrow> action_db \<Rightarrow> bool" for sha where
  create: "create_action_proposal sha i j now w u input db = Inr (p, db') \<Longrightarrow> proposal_step sha db db'"
| decide: "decide_action_proposal sha hq ids now w i actor c db = Inr (r, db') \<Longrightarrow> proposal_step sha db db'"
| outcome: "p \<in> set (action_proposals db) \<Longrightarrow> ap_status p \<in> {Approved, Executed, ProposalFailed} \<Longrightarrow>
    s \<in> {Approved, Executed, ProposalFailed} \<Longrightarrow>
    action_proposals db' = update_where (\<lambda>x. ap_id x = ap_id p) (\<lambda>x. x\<lparr>ap_status := s, ap_updated_at := now\<rparr>)
      (action_proposals db) \<Longrightarrow>
    distinct (map ev_idempotency_key (execution_events db')) \<Longrightarrow> memory_inv db' \<Longrightarrow> proposal_step sha db db'"
| other: "action_proposals db' = action_proposals db \<Longrightarrow>
    distinct (map ev_idempotency_key (execution_events db')) \<Longrightarrow> memory_inv db' \<Longrightarrow> proposal_step sha db db'"

text \<open>What a stored proposal looks like: valid content, and the decision fields its status has.\<close>

definition proposal_wf :: "action_proposal \<Rightarrow> bool" where
  "proposal_wf p \<longleftrightarrow>
     (ap_target_provider p, ap_action_type p) \<in> set VALID_PROVIDER_ACTION_PAIRS \<and>
     ap_title p \<noteq> [] \<and> strip (ap_title p) = ap_title p \<and> ap_created_by p \<in> set VALID_CREATED_BY \<and>
     first_secret_like_key (ap_payload p) = None \<and> length (ap_evidence_refs p) \<le> 50 \<and>
     (\<forall>r\<in>set (ap_evidence_refs p). \<exists>d. r = PDict d \<and> action_evidence_ref_matches_schema d) \<and>
     (case ap_status p of
        Proposed \<Rightarrow> ap_approved_by_user_id p = None \<and> ap_approved_at p = None
          \<and> ap_rejected_by_user_id p = None \<and> ap_rejected_at p = None
      | Rejected \<Rightarrow> ap_approved_by_user_id p = None \<and> ap_approved_at p = None
          \<and> ap_rejected_by_user_id p \<noteq> None \<and> ap_rejected_at p \<noteq> None
      | _ \<Rightarrow> ap_approved_by_user_id p \<noteq> None \<and> ap_approved_at p \<noteq> None
          \<and> ap_rejected_by_user_id p = None \<and> ap_rejected_at p = None)"

definition lifecycle_inv :: "'z action_db_scheme \<Rightarrow> bool" where
  "lifecycle_inv db \<longleftrightarrow> proposals_inv db \<and> (\<forall>p\<in>set (action_proposals db). proposal_wf p)"

text \<open>The part of a proposal no operation may change.\<close>

definition proposal_content :: "action_proposal \<Rightarrow> (uuid \<times> uuid) \<times> (string \<times> string \<times> string \<times> string option) \<times>
    (pydict \<times> pyval list) \<times> (string \<times> uuid option \<times> time)" where
  "proposal_content p = ((ap_id p, ap_workspace_id p),
     (ap_target_provider p, ap_action_type p, ap_title p, ap_description p),
     (ap_payload p, ap_evidence_refs p), (ap_created_by p, ap_created_by_user_id p, ap_created_at p))"

text \<open>
  What a decision leaves to later changes: a rejected proposal is final to the last column; an
  approved one keeps its approver, its time and everything else but the outcome of its execution.
\<close>

definition decision_kept :: "action_proposal \<Rightarrow> action_proposal \<Rightarrow> bool" where
  "decision_kept p p' \<longleftrightarrow> (case ap_status p of
       Proposed \<Rightarrow> True
     | Rejected \<Rightarrow> p' = p
     | _ \<Rightarrow> ap_status p' \<in> {Approved, Executed, ProposalFailed} \<and>
         p' = p\<lparr>ap_status := ap_status p', ap_updated_at := ap_updated_at p'\<rparr>)"

definition proposals_kept :: "'z action_db_scheme \<Rightarrow> 'z action_db_scheme \<Rightarrow> bool" where
  "proposals_kept db db' \<longleftrightarrow> (\<forall>p\<in>set (action_proposals db). \<exists>p'\<in>set (action_proposals db').
     proposal_content p' = proposal_content p \<and> decision_kept p p')"

lemma decision_kept_refl: "decision_kept p p"
  by (simp add: decision_kept_def split: proposal_status.split)

lemma decision_kept_trans: "decision_kept a b \<Longrightarrow> decision_kept b c \<Longrightarrow> decision_kept a c"
  by (cases "ap_status a"; cases a; cases b; cases c) (auto simp: decision_kept_def)

lemma proposals_kept_refl: "proposals_kept db db"
  by (auto simp: proposals_kept_def intro: decision_kept_refl)

lemma proposals_kept_trans: "proposals_kept a b \<Longrightarrow> proposals_kept b c \<Longrightarrow> proposals_kept a c"
  unfolding proposals_kept_def by (metis decision_kept_trans)

text \<open>Replacing an undecided row by its decided form.\<close>

lemma apply_decision_wf:
  "proposal_wf p \<Longrightarrow> ap_status p = Proposed \<Longrightarrow> proposal_wf ((apply_decision d actor now reason p)\<lparr>ap_updated_at := now\<rparr>)"
  by (cases d) (auto simp: proposal_wf_def)

lemma apply_decision_content:
  "proposal_content ((apply_decision d actor now reason p)\<lparr>ap_updated_at := now\<rparr>) = proposal_content p"
  by (cases d) (auto simp: proposal_content_def)

lemma decided_row_step:
  assumes "lifecycle_inv db" "p \<in> set (action_proposals db)" "ap_status p = Proposed"
    and "q = (apply_decision d actor now reason p)\<lparr>ap_updated_at := now\<rparr>"
    and "action_proposals db' = update_where (\<lambda>x. ap_id x = ap_id p) (\<lambda>_. q) (action_proposals db)"
    and "distinct (map ev_idempotency_key (execution_events db'))" "memory_inv db'"
  shows "lifecycle_inv db' \<and> proposals_kept db db'"
proof -
  have d: "distinct (map ap_id (action_proposals db))" using assms(1) by (simp add: lifecycle_inv_def proposals_inv_def)
  have only: "x = p" if "x \<in> set (action_proposals db)" "ap_id x = ap_id p" for x
    using distinct_key_eq [OF d that(1) assms(2)] that(2) by simp
  have "map ap_id (action_proposals db') = map ap_id (action_proposals db)"
    unfolding assms(5) by (rule map_update_where_on) (simp add: assms(4))
  then have "proposals_inv db'" using d assms(6,7) by (simp add: proposals_inv_def)
  moreover have "proposal_wf x" if "x \<in> set (action_proposals db')" for x
    using that assms(1,2,3) apply_decision_wf unfolding assms(4,5) in_update_where lifecycle_inv_def by blast
  moreover have "proposals_kept db db'"
    unfolding proposals_kept_def
  proof
    fix x assume x: "x \<in> set (action_proposals db)"
    show "\<exists>p'\<in>set (action_proposals db'). proposal_content p' = proposal_content x \<and> decision_kept x p'"
    proof (cases "ap_id x = ap_id p")
      case True
      then have x: "x = p" using only x by blast
      have "q \<in> set (action_proposals db')" using assms(2) unfolding assms(5) in_update_where by blast
      moreover have "decision_kept x q" using assms(3) by (simp add: x decision_kept_def)
      ultimately show ?thesis using apply_decision_content [where p = p] by (metis assms(4) x)
    next
      case False
      then have "x \<in> set (action_proposals db')" using x unfolding assms(5) in_update_where by blast
      then show ?thesis using decision_kept_refl by blast
    qed
  qed
  ultimately show ?thesis by (simp add: lifecycle_inv_def)
qed

lemma validate_input_Inr:
  assumes "validate_action_proposal_input p = Inr u"
  shows "(normalize_value (ci_target_provider p), normalize_value (ci_action_type p)) \<in> set VALID_PROVIDER_ACTION_PAIRS
    \<and> strip (ci_title p) \<noteq> [] \<and> length (ci_evidence_refs p) \<le> 50
    \<and> (\<forall>r\<in>set (ci_evidence_refs p). \<exists>d. r = PDict d \<and> action_evidence_ref_matches_schema d)
    \<and> normalize_value (ci_created_by p) \<in> set VALID_CREATED_BY \<and> first_secret_like_key (ci_payload p) = None"
proof -
  have "\<exists>d. r = PDict d \<and> action_evidence_ref_matches_schema d"
    if "as_dict r \<noteq> None" "action_evidence_ref_matches_schema (the (as_dict r))" for r
    using that by (cases r) (auto simp: as_dict_def)
  then show ?thesis using assms
    by (auto simp: validate_action_proposal_input_def Let_def result_iffs ACTION_PROPOSAL_EVIDENCE_REFS_MAX_ITEMS_def
        split: option.splits)
qed

lemma create_Inr:
  assumes "create_action_proposal sha i j now w u input db = Inr (p, db')"
  shows "p = new_action_proposal i now w u input \<and> proposal_row_ok p db \<and> validate_action_proposal_input input = Inr ()
    \<and> (\<exists>m. append_action_proposal_created_memory_event sha j now p
         (db\<lparr>action_proposals := action_proposals db @ [p]\<rparr>) = Inr (m, db'))"
  using assms by (auto simp: create_action_proposal_def Let_def result_iffs)

lemma create_step:
  fixes db db' :: action_db
  assumes "create_action_proposal sha i j now w u input db = Inr (p, db')" "lifecycle_inv db"
  shows "lifecycle_inv db' \<and> proposals_kept db db'"
proof -
  let ?db = "db\<lparr>action_proposals := action_proposals db @ [p]\<rparr>"
  from create_Inr [OF assms(1)] obtain m where p: "p = new_action_proposal i now w u input" "proposal_row_ok p db"
      "validate_action_proposal_input input = Inr ()"
    and mem: "append_action_proposal_created_memory_event sha j now p ?db = Inr (m, db')" by blast
  obtain st ev where db': "db' = ?db\<lparr>memory_streams := st, memory_events := ev\<rparr>"
    using created_memory_frame [OF mem] by blast
  have "memory_inv ?db" using assms(2) memory_inv_cong [of ?db db] by (simp add: lifecycle_inv_def proposals_inv_def)
  then have "memory_inv db'"
    using mem by (auto simp: append_action_proposal_created_memory_event_def intro: memory_inv_append)
  moreover have "proposal_wf p"
    using validate_input_Inr [OF p(3)] by (simp add: p(1) new_action_proposal_def Let_def proposal_wf_def)
  ultimately have "lifecycle_inv db'"
    using assms(2) p(2) by (auto simp: db' lifecycle_inv_def proposals_inv_def proposal_row_ok_def)
  moreover have "proposals_kept db db'" by (auto simp: db' proposals_kept_def intro: decision_kept_refl)
  ultimately show ?thesis by simp
qed

lemma decide_step:
  fixes db db' :: action_db
  assumes "decide_action_proposal sha hq ids now w i actor c db = Inr (r, db')" "lifecycle_inv db"
  shows "lifecycle_inv db' \<and> proposals_kept db db'"
proof (cases "dr_replayed r")
  case False
  from assms(1) False show ?thesis
  proof (cases rule: decide_new_Inr)
    case (1 p)
    have p: "p \<in> set (action_proposals db)" "ap_status p = Proposed"
      using get_action_proposal_Some [OF 1(2)] 1(4) by (auto simp: decision_checks_def result_iffs)
    from 1(5,3) show ?thesis
    proof (cases rule: record_decision_Inr)
      case (1 q event db1 st ev)
      then obtain m where m: "append_action_proposal_decision_memory_event sha (fr_memory ids) now q actor
          (Some (ev_id event)) db1 = Inr (m, db')" by blast
      have "memory_inv db1"
        using assms(2) memory_inv_cong [of db1 db] by (simp add: 1(4) lifecycle_inv_def proposals_inv_def)
      then have "memory_inv db'" using decision_memory_inv [OF m] by blast
      moreover have "distinct (map ev_idempotency_key (execution_events db'))"
        using assms(2) 1(7) by (simp add: 1(4,6) lifecycle_inv_def proposals_inv_def)
      ultimately show ?thesis
        using decided_row_step [OF assms(2) p 1(1)] by (simp add: 1(4,6))
    qed
  qed
next
  case True
  then obtain p a e m where m: "append_action_proposal_decision_memory_event sha (fr_memory ids) now p a e db = Inr (m, db')"
    using assms(1) by (auto simp: decide_action_proposal_def replay_decision_def record_decision_def Let_def
        result_iffs store_proposal_def split: option.splits)
  obtain st ev where db': "db' = db\<lparr>memory_streams := st, memory_events := ev\<rparr>"
    using decision_memory_frame [OF m] by blast
  have "memory_inv db'" using decision_memory_inv [OF m] assms(2) by (simp add: lifecycle_inv_def proposals_inv_def)
  then show ?thesis
    using assms(2) by (auto simp: db' lifecycle_inv_def proposals_inv_def proposals_kept_def intro: decision_kept_refl)
qed

lemma outcome_wf:
  "proposal_wf p \<Longrightarrow> ap_status p \<in> {Approved, Executed, ProposalFailed} \<Longrightarrow> s \<in> {Approved, Executed, ProposalFailed} \<Longrightarrow>
     proposal_wf (p\<lparr>ap_status := s, ap_updated_at := now\<rparr>)"
  by (auto simp: proposal_wf_def)

lemma outcome_kept:
  "ap_status p \<in> {Approved, Executed, ProposalFailed} \<Longrightarrow> s \<in> {Approved, Executed, ProposalFailed} \<Longrightarrow>
     decision_kept p (p\<lparr>ap_status := s, ap_updated_at := now\<rparr>)"
  by (auto simp: decision_kept_def)

lemma outcome_step:
  assumes "lifecycle_inv db" "p \<in> set (action_proposals db)" "ap_status p \<in> {Approved, Executed, ProposalFailed}"
    and "s \<in> {Approved, Executed, ProposalFailed}"
    and rows: "action_proposals db' = update_where (\<lambda>x. ap_id x = ap_id p)
      (\<lambda>x. x\<lparr>ap_status := s, ap_updated_at := now\<rparr>) (action_proposals db)"
    and "distinct (map ev_idempotency_key (execution_events db'))" "memory_inv db'"
  shows "lifecycle_inv db' \<and> proposals_kept db db'"
proof -
  have d: "distinct (map ap_id (action_proposals db))" using assms(1) by (simp add: lifecycle_inv_def proposals_inv_def)
  have only: "x = p" if "x \<in> set (action_proposals db)" "ap_id x = ap_id p" for x
    using distinct_key_eq [OF d that(1) assms(2)] that(2) by simp
  have "map ap_id (action_proposals db') = map ap_id (action_proposals db)"
    unfolding rows by (rule map_update_where_on) simp
  then have "proposals_inv db'" using d assms(6,7) by (simp add: proposals_inv_def)
  moreover have "proposal_wf x" if "x \<in> set (action_proposals db')" for x
    using that assms(1,3,4) only unfolding rows in_update_where lifecycle_inv_def by (auto intro!: outcome_wf)
  moreover have "proposals_kept db db'"
    unfolding proposals_kept_def
  proof
    fix x assume x: "x \<in> set (action_proposals db)"
    let ?x = "if ap_id x = ap_id p then x\<lparr>ap_status := s, ap_updated_at := now\<rparr> else x"
    have "?x \<in> set (action_proposals db')" using x unfolding rows in_update_where by auto
    moreover have "decision_kept x ?x" using only [OF x] assms(3,4) by (auto intro: outcome_kept decision_kept_refl)
    ultimately show "\<exists>p'\<in>set (action_proposals db'). proposal_content p' = proposal_content x \<and> decision_kept x p'"
      by (intro bexI [of _ ?x]) (auto simp: proposal_content_def)
  qed
  ultimately show ?thesis by (simp add: lifecycle_inv_def)
qed

lemma proposal_step_effect:
  assumes "proposal_step sha db db'" "lifecycle_inv db"
  shows "lifecycle_inv db' \<and> proposals_kept db db'"
  using assms(1)
proof cases
  case (create i j now w u input p)
  then show ?thesis by (rule create_step [OF _ assms(2)])
next
  case (decide hq ids now w i actor c r)
  then show ?thesis by (rule decide_step [OF _ assms(2)])
next
  case (outcome p s now)
  then show ?thesis by (intro outcome_step [OF assms(2)])
next
  case other
  then show ?thesis
    using assms(2) decision_kept_refl by (auto simp: lifecycle_inv_def proposals_inv_def proposals_kept_def)
qed

interpretation proposal_machine: invariant_machine "proposal_step sha" lifecycle_inv for sha
  by unfold_locales (blast dest: proposal_step_effect)

text \<open>C9. Proposals stay well formed and decisions stay. From a well-formed state, whatever
  proposals are created or decided, whatever outcomes executions write back and whatever else is
  committed, in any order: every stored proposal keeps valid content (a permitted provider and
  action, a stripped title, schema conforming evidence, no secret-like payload key) and has the
  decision fields of its status; no proposal is lost or has its content changed; a rejected
  proposal never changes again; and an approved one never becomes undecided or rejected and
  keeps its approver, the time of its approval and every column but its status and
  \<^verbatim>\<open>updated_at\<close>.\<close>

theorem proposal_lifecycle:
  assumes "run (proposal_step sha) db db'" "lifecycle_inv db"
  shows "lifecycle_inv db' \<and>
    (\<forall>p\<in>set (action_proposals db). \<exists>p'\<in>set (action_proposals db').
       proposal_content p' = proposal_content p \<and>
       (ap_status p = Rejected \<longrightarrow> p' = p) \<and>
       (ap_status p \<in> {Approved, Executed, ProposalFailed} \<longrightarrow> ap_status p' \<in> {Approved, Executed, ProposalFailed} \<and>
          p' = p\<lparr>ap_status := ap_status p', ap_updated_at := ap_updated_at p'\<rparr>))"
proof -
  have "proposals_kept db db'"
    by (rule proposal_machine.run_relation [where R = proposals_kept, OF assms])
      (auto intro: proposals_kept_refl proposals_kept_trans dest: proposal_step_effect)
  moreover have "(ap_status p = Rejected \<longrightarrow> p' = p) \<and>
       (ap_status p \<in> {Approved, Executed, ProposalFailed} \<longrightarrow> ap_status p' \<in> {Approved, Executed, ProposalFailed} \<and>
          p' = p\<lparr>ap_status := ap_status p', ap_updated_at := ap_updated_at p'\<rparr>)" if "decision_kept p p'" for p p'
    using that by (auto simp: decision_kept_def)
  ultimately show ?thesis using proposal_machine.inv_run [OF assms] unfolding proposals_kept_def by meson
qed

section \<open>Decisions at concrete tables\<close>

lemmas example_db_simps = example_db_def action_db.defs ledger_db.defs auth_db.defs example_ledger_def

definition zero_version :: string where "zero_version = ''ap1_'' @ replicate 64 CHR ''0''"

definition example_command :: decision_command where
  "example_command = \<lparr> dc_decision = Approve, dc_idempotency_key = ''k'', dc_proposal_version = zero_version,
     dc_expected_snapshot_id = None, dc_reason = None, dc_bulk = False \<rparr>"

definition example_ids :: fresh_ids where "example_ids = \<lparr> fr_event = 80, fr_memory = 90 \<rparr>"

lemma example_version: "action_proposal_version zero_sha example_proposal = Some zero_version"
proof -
  have "\<exists>ts. dumps_items version_json_opts (version_material example_proposal) = Some ts"
    by (simp add: version_material_def example_proposal_def version_json_opts_def example_ref_def opt_val_def)
  then show ?thesis by (auto simp: action_proposal_version_def zero_sha_def zero_version_def)
qed

lemma example_admin: "require_current_admin 2 1 example_db = Inr ()"
proof -
  have "role_allows MEMBERSHIP_ROLE_OWNER MEMBERSHIP_ROLE_ADMIN" by code_simp
  then show ?thesis
    by (simp add: require_current_admin_def get_membership_def get_user_def example_db_simps example_auth_def
        example_workspace_def identity_db.defs bindE_def require_def)
qed

lemma example_proposal_found: "get_action_proposal 2 7 example_db = Some example_proposal"
  by (simp add: get_action_proposal_def example_db_simps example_proposal_def)

lemma example_no_events: "get_execution_event_by_idempotency_key k example_db = None" "execution_events example_db = []"
  "memory_events example_db = []" "memory_streams example_db = []"
  by (simp_all add: get_execution_event_by_idempotency_key_def example_db_simps)

lemma example_checks: "decision_checks zero_sha hq 2 7 1 example_command example_proposal example_db = Inr zero_version"
  using example_validated [of example_proposal example_db]
  by (simp add: decision_checks_def bindE_def require_def require_some_def example_command_def example_version
      validate_expected_headquarters_context_def map_error_def example_world_def)
     (simp add: example_proposal_def)

lemma example_evidence2: "validated_evidence_refs [(''action_proposal'', i), (''action_execution_event'', k)]
   = Inr [(''action_proposal'', uuid_str i), (''action_execution_event'', uuid_str k)]"
  by (simp add: validated_evidence_refs_def bindE_def require_def COMPANY_MEMORY_EVENT_REFERENCE_TYPES_def
      COMPANY_MEMORY_EVENT_EVIDENCE_LIMIT_def)

lemma example_tables: "workspaces example_db = workspaces example_workspace" "users example_db = users example_workspace"
  by (simp_all add: example_db_simps example_auth_def identity_db.defs)

lemma example_recorded: "is_ok (record_decision zero_sha example_ids 10 1 key example_command example_proposal example_db)"
  by (simp add: record_decision_def store_proposal_def Let_def bindE_def map_error_def append_execution_event_def
     get_execution_event_by_idempotency_key_def example_no_events decision_event_args_def new_execution_event_def
     EXECUTION_EVENT_STATUSES_def example_command_def example_proposal_def append_action_proposal_decision_memory_event_def
     append_company_memory_event_def prepared_event_def EVENT_RULES_def require_def require_some_def
     COMPANY_MEMORY_EVENT_SOURCE_KEYS_def zero_memory_digest example_subject example_evidence2 memory_event_by_key_def
     next_workspace_sequence_def memory_row_ok_def example_tables example_workspace_def)

lemma example_decided: obtains r db' where
  "decide_action_proposal zero_sha hq example_ids 10 2 7 1 example_command example_db = Inr (r, db')" "\<not> dr_replayed r"
proof -
  let ?key = "local_decision_event_idempotency_key zero_sha 2 7 (dc_idempotency_key example_command)"
  have "is_ok (record_decision zero_sha example_ids 10 1 ?key example_command example_proposal example_db)"
    by (rule example_recorded)
  then obtain x where "record_decision zero_sha example_ids 10 1 ?key example_command example_proposal example_db = Inr x"
    unfolding is_ok_def by (auto split: sum.splits)
  then obtain r db' where rec: "record_decision zero_sha example_ids 10 1 ?key example_command example_proposal example_db
      = Inr (r, db')" by (cases x) simp
  have "\<not> dr_replayed r"
    by (rule record_decision_Inr [OF rec example_no_events(1)]) simp
  moreover have "decide_action_proposal zero_sha hq example_ids 10 2 7 1 example_command example_db = Inr (r, db')"
    using rec by (simp add: decide_action_proposal_def bindE_def require_some_def example_admin example_proposal_found
        example_no_events example_checks Let_def del: One_nat_def)
  ultimately show thesis using that by blast
qed

lemma example_proposals_inv: "proposals_inv example_db"
proof -
  have "map ap_id (action_proposals example_db) = [7]"
    by (simp add: example_db_simps example_proposal_def)
  then show ?thesis
    by (simp add: proposals_inv_def example_no_events memory_inv_def workspace_numbers_def last_sequence_def)
qed

lemma zero_sha_hex: "sha256_hex zero_sha"
  using sha256_hex_zero by (simp add: sha256_hex_def zero_sha_def)

theorem decision_sound_witness:
  "\<exists>r db'. decide_action_proposal zero_sha (\<lambda>_ _. None) example_ids 10 2 7 1 example_command example_db = Inr (r, db')
     \<and> ap_status (dr_proposal r) = Approved \<and> execution_events db' = [dr_event r]
     \<and> is_ok (validate_action_proposal_evidence 2 example_proposal example_db)"
proof -
  obtain r db' where d: "decide_action_proposal zero_sha (\<lambda>_ _. None) example_ids 10 2 7 1 example_command example_db = Inr (r, db')"
    "\<not> dr_replayed r" by (rule example_decided)
  show ?thesis using decision_sound [OF d] d(1)
    by (auto simp: example_proposal_found example_no_events example_command_def)
qed

theorem decision_replay_witness:
  "\<exists>r db'. decide_action_proposal zero_sha (\<lambda>_ _. None) example_ids 10 2 7 1 example_command example_db = Inr (r, db')
     \<and> decide_action_proposal zero_sha (\<lambda>_ _. None) example_ids 20 2 7 1 example_command db' = Inr (r\<lparr>dr_replayed := True\<rparr>, db')
     \<and> decide_action_proposal zero_sha (\<lambda>_ _. None) example_ids 20 2 7 1 (example_command\<lparr>dc_decision := Reject\<rparr>) db'
         = Inl IDEMPOTENCY_CONFLICT"
proof -
  obtain r db' where d: "decide_action_proposal zero_sha (\<lambda>_ _. None) example_ids 10 2 7 1 example_command example_db = Inr (r, db')"
    "\<not> dr_replayed r" by (rule example_decided)
  have "dc_decision (example_command\<lparr>dc_decision := Reject\<rparr>) \<noteq> dc_decision example_command"
    by (simp add: example_command_def)
  then show ?thesis
    using decision_replay [OF zero_sha_hex example_proposals_inv d, of "\<lambda>_ _. None" example_ids 20] d(1) by auto
qed

theorem approval_replay_after_execution_raises_witness:
  "\<exists>r db'. decide_action_proposal zero_sha (\<lambda>_ _. None) example_ids 10 2 7 1 example_command example_db = Inr (r, db')
     \<and> decide_action_proposal zero_sha (\<lambda>_ _. None) example_ids 20 2 7 1 example_command
         (db'\<lparr>action_proposals := update_where (\<lambda>q. ap_id q = 7) (\<lambda>q. q\<lparr>ap_status := Executed\<rparr>) (action_proposals db')\<rparr>)
       = Inl (DecisionMemoryError (MemoryValueError ''action proposal does not have a terminal review decision''))"
proof -
  obtain r db' where d: "decide_action_proposal zero_sha (\<lambda>_ _. None) example_ids 10 2 7 1 example_command example_db = Inr (r, db')"
    "\<not> dr_replayed r" by (rule example_decided)
  have a: "dc_decision example_command = Approve" by (simp add: example_command_def)
  show ?thesis
    using approval_replay_after_execution_raises [OF zero_sha_hex example_proposals_inv d a refl,
        of "\<lambda>_ _. None" example_ids 20] d(1) by blast
qed

lemma example_lifecycle_inv: "lifecycle_inv example_db"
proof -
  have r: "action_evidence_ref_matches_schema example_ref"
    using example_strict_refs by (auto simp: strict_evidence_refs_def evidence_ref_matches_schema_def Let_def as_dict_def
        split: if_splits)
  have "strip ''T'' = ''T''" by code_simp
  moreover have "first_secret_like_key (ap_payload example_proposal) = None" by code_simp
  ultimately have "proposal_wf example_proposal" using r
    by (simp add: proposal_wf_def VALID_PROVIDER_ACTION_PAIRS_def VALID_CREATED_BY_def) (simp add: example_proposal_def)
  moreover have "action_proposals example_db = [example_proposal]" by (simp add: example_db_simps)
  ultimately show ?thesis using example_proposals_inv by (simp add: lifecycle_inv_def)
qed

theorem proposal_lifecycle_witness:
  "\<exists>r db'. decide_action_proposal zero_sha (\<lambda>_ _. None) example_ids 10 2 7 1 example_command example_db = Inr (r, db')
     \<and> lifecycle_inv db' \<and> (\<exists>p'\<in>set (action_proposals db'). proposal_content p' = proposal_content example_proposal)"
proof -
  obtain r db' where d: "decide_action_proposal zero_sha (\<lambda>_ _. None) example_ids 10 2 7 1 example_command example_db = Inr (r, db')"
    by (rule example_decided)
  have "example_proposal \<in> set (action_proposals example_db)" by (simp add: example_db_simps)
  then show ?thesis
    using proposal_lifecycle [OF run_single [of "proposal_step zero_sha", OF proposal_step.decide [OF d]] example_lifecycle_inv] d
    by blast
qed

end
