(* ===== verification/Issue_Execution.thy ===== *)
theory Issue_Execution
  imports Proposal_Decisions
begin

text \<open>
  Execution of an approved proposal, \<^verbatim>\<open>app/services/github_issue_execution_service.py\<close>. The
  handler commits three times before its result, so it is modelled as its phases, each one
  transaction on the committed state: the claim, the start, the recheck that leads to the
  provider request, and the outcome. Between phases other requests run. The provider
  (\<^verbatim>\<open>create_issue\<close>) and the decryption of the connection's token (\<^verbatim>\<open>decrypt_secret\<close>, Fernet)
  are outside: the request is a value of the model, the response and \<open>decrypt\<close> are arguments.
  One clock value stands for the clock reads of a transaction.
\<close>

datatype execution_error =
    RealConnectorsDisabledError
  | GitHubIssueExecutionError string
  | GitHubIssueExecutionNotFoundError string
  | GitHubIssueExecutionConflictError string
  | GitHubIssueProviderExecutionError string
  | ExecutionAuditError audit_error
  | ExecutionIntegrityError string
  | ExecutionJsonError

section \<open>Constants\<close>

definition GITHUB_ISSUE_EXECUTION_CONFIRM_REQUIRED :: string where
  "GITHUB_ISSUE_EXECUTION_CONFIRM_REQUIRED = ''confirm_external_write must be true''"
definition GITHUB_ISSUE_EXECUTION_PROPOSAL_NOT_FOUND :: string where
  "GITHUB_ISSUE_EXECUTION_PROPOSAL_NOT_FOUND = ''action proposal not found''"
definition GITHUB_ISSUE_EXECUTION_PROPOSAL_NOT_APPROVED :: string where
  "GITHUB_ISSUE_EXECUTION_PROPOSAL_NOT_APPROVED = ''action proposal is not approved''"
definition GITHUB_ISSUE_EXECUTION_UNSUPPORTED_ACTION :: string where
  "GITHUB_ISSUE_EXECUTION_UNSUPPORTED_ACTION = ''unsupported action proposal''"
definition GITHUB_ISSUE_EXECUTION_CONNECTION_NOT_FOUND :: string where
  "GITHUB_ISSUE_EXECUTION_CONNECTION_NOT_FOUND = ''github connection not found''"
definition GITHUB_ISSUE_EXECUTION_CONNECTION_NOT_GITHUB :: string where
  "GITHUB_ISSUE_EXECUTION_CONNECTION_NOT_GITHUB = ''connection is not a GitHub connection''"
definition GITHUB_ISSUE_EXECUTION_CONNECTION_NOT_CONNECTED :: string where
  "GITHUB_ISSUE_EXECUTION_CONNECTION_NOT_CONNECTED = ''github connection is not connected''"
definition GITHUB_ISSUE_EXECUTION_TOKEN_MISSING :: string where
  "GITHUB_ISSUE_EXECUTION_TOKEN_MISSING = ''github connection has no encrypted access token''"
definition GITHUB_ISSUE_EXECUTION_TOKEN_UNAVAILABLE :: string where
  "GITHUB_ISSUE_EXECUTION_TOKEN_UNAVAILABLE = ''github token could not be decrypted''"
definition GITHUB_ISSUE_EXECUTION_EVIDENCE_REQUIRED :: string where
  "GITHUB_ISSUE_EXECUTION_EVIDENCE_REQUIRED = ''evidence_refs are required for live execution''"
definition GITHUB_ISSUE_EXECUTION_ALLOWED_REPOS_REQUIRED :: string where
  "GITHUB_ISSUE_EXECUTION_ALLOWED_REPOS_REQUIRED = ''github write allowed repos are not configured''"
definition GITHUB_ISSUE_EXECUTION_REPOSITORY_NOT_ALLOWED :: string where
  "GITHUB_ISSUE_EXECUTION_REPOSITORY_NOT_ALLOWED = ''github repository is not allowed for live execution''"
definition GITHUB_ISSUE_EXECUTION_DUPLICATE_RECEIPT :: string where
  "GITHUB_ISSUE_EXECUTION_DUPLICATE_RECEIPT =
     ''existing successful execution receipt returned; no external write occurred''"
definition GITHUB_ISSUE_EXECUTION_IDEMPOTENCY_REQUIRED :: string where
  "GITHUB_ISSUE_EXECUTION_IDEMPOTENCY_REQUIRED = ''idempotency_key is required for live execution''"
definition GITHUB_ISSUE_EXECUTION_IDEMPOTENCY_REUSED :: string where
  "GITHUB_ISSUE_EXECUTION_IDEMPOTENCY_REUSED =
     ''idempotency key was already used with different execution input''"
definition GITHUB_ISSUE_EXECUTION_IN_PROGRESS :: string where
  "GITHUB_ISSUE_EXECUTION_IN_PROGRESS = ''an execution claim already exists; reconcile it before retrying''"
definition GITHUB_ISSUE_EXECUTION_RETRY_KEY_REQUIRED :: string where
  "GITHUB_ISSUE_EXECUTION_RETRY_KEY_REQUIRED =
     ''the idempotency key already completed without success; use a new key''"
definition GITHUB_ISSUE_EXECUTION_OUTCOME_UNCERTAIN :: string where
  "GITHUB_ISSUE_EXECUTION_OUTCOME_UNCERTAIN = ''github issue outcome is uncertain; reconcile before retrying''"
definition GITHUB_ISSUE_EXECUTION_BODY_TOO_LARGE :: string where
  "GITHUB_ISSUE_EXECUTION_BODY_TOO_LARGE = ''github issue body is too large for the execution marker''"
definition GITHUB_ISSUE_BODY_MAX_BYTES :: nat where "GITHUB_ISSUE_BODY_MAX_BYTES = 65536"

fun error_detail :: "execution_error \<Rightarrow> string" where
  "error_detail (GitHubIssueExecutionError d) = d"
| "error_detail (GitHubIssueExecutionNotFoundError d) = d"
| "error_detail (GitHubIssueExecutionConflictError d) = d"
| "error_detail (GitHubIssueProviderExecutionError d) = d"
| "error_detail _ = []"

section \<open>Validation of the request\<close>

record execution_input =
  xi_connection_id :: uuid
  xi_confirm_external_write :: bool
  xi_requested_by_user_id :: uuid
  xi_idempotency_key :: string

record issue_payload =
  gp_repository_full_name :: string
  gp_title :: string
  gp_body :: "string option"
  gp_labels :: "string list"
  gp_assignees :: "string list"

definition required_idempotency_key :: "string \<Rightarrow> (execution_error, string) result" where
  "required_idempotency_key value =
     (case optional_text (Some value) of
        None \<Rightarrow> Inl (GitHubIssueExecutionError GITHUB_ISSUE_EXECUTION_IDEMPOTENCY_REQUIRED)
      | Some normalized \<Rightarrow>
          if length normalized < 8
          then Inl (GitHubIssueExecutionError GITHUB_ISSUE_EXECUTION_IDEMPOTENCY_REQUIRED)
          else Inr (take 255 normalized))"

definition required_text :: "pyval \<Rightarrow> string \<Rightarrow> (execution_error, string) result" where
  "required_text value message = (case value of
     PStr s \<Rightarrow> if strip s = [] then Inl (GitHubIssueExecutionError message) else Inr (strip s)
   | _ \<Rightarrow> Inl (GitHubIssueExecutionError message))"

definition optional_string_list :: "pyval \<Rightarrow> string \<Rightarrow> (execution_error, string list) result" where
  "optional_string_list value field_name = (case value of
     PNone \<Rightarrow> Inr []
   | PList items \<Rightarrow>
       if \<exists>x\<in>set items. as_str x = None
       then Inl (GitHubIssueExecutionError (field_name @ '' must be a list of strings''))
       else Inr (map (take 120) (filter (\<lambda>s. s \<noteq> []) (map (\<lambda>x. strip (the (as_str x))) items)))
   | _ \<Rightarrow> Inl (GitHubIssueExecutionError (field_name @ '' must be a list of strings'')))"

definition looks_like_repository_full_name :: "string \<Rightarrow> bool" where
  "looks_like_repository_full_name value =
     (let parts = split_char CHR ''/'' value in length parts = 2 \<and> (\<forall>p\<in>set parts. strip p \<noteq> []))"

definition normalize_repository_full_name :: "string \<Rightarrow> string" where
  "normalize_repository_full_name value = casefold (strip value)"

definition validate_github_issue_payload :: "pydict \<Rightarrow> (execution_error, issue_payload) result" where
  "validate_github_issue_payload payload =
     bindE (case first_secret_like_key payload of None \<Rightarrow> Inr ()
       | Some k \<Rightarrow> Inl (GitHubIssueExecutionError (''payload contains secret-like key: '' @ k))) (\<lambda>_.
     bindE (required_text (py_get payload ''repository_full_name'') ''repository_full_name is required'') (\<lambda>repo.
     bindE (require (looks_like_repository_full_name repo)
       (GitHubIssueExecutionError ''repository_full_name must look like owner/repo'')) (\<lambda>_.
     bindE (required_text (py_get payload ''title'') ''title is required'') (\<lambda>title.
     bindE (optional_string_list (py_get payload ''labels'') ''labels'') (\<lambda>labels.
     bindE (optional_string_list (py_get payload ''assignees'') ''assignees'') (\<lambda>assignees.
     Inr \<lparr> gp_repository_full_name = repo, gp_title = title,
           gp_body = optional_text (as_str (py_get payload ''body'')),
           gp_labels = labels, gp_assignees = assignees \<rparr>))))))"

text \<open>\<^verbatim>\<open>_github_write_allowed_repositories\<close> of the configured text.\<close>

definition github_write_allowed_repositories :: "string option \<Rightarrow> string list" where
  "github_write_allowed_repositories raw_value =
     (case raw_value of None \<Rightarrow> [] | Some raw \<Rightarrow>
      (let commas = map (\<lambda>c. if c = CHR '';'' \<or> (of_char c :: nat) = 10 then CHR '','' else c) raw;
           items = concat (map split_space (split_char CHR '','' commas)) in
       filter looks_like_repository_full_name (map normalize_repository_full_name items)))"

definition validate_repository_allowlist ::
  "string option \<Rightarrow> issue_payload \<Rightarrow> (execution_error, unit) result" where
  "validate_repository_allowlist allowed_repos p =
     (let allowed = github_write_allowed_repositories allowed_repos in
      bindE (require (allowed \<noteq> []) (GitHubIssueExecutionConflictError GITHUB_ISSUE_EXECUTION_ALLOWED_REPOS_REQUIRED)) (\<lambda>_.
      require (normalize_repository_full_name (gp_repository_full_name p) \<in> set allowed)
        (GitHubIssueExecutionConflictError GITHUB_ISSUE_EXECUTION_REPOSITORY_NOT_ALLOWED)))"

definition newline2 :: string where "newline2 = [char_of (10 :: nat), char_of (10 :: nat)]"

definition with_marker :: "string option \<Rightarrow> string \<Rightarrow> string" where
  "with_marker body marker = (case body of None \<Rightarrow> marker
     | Some b \<Rightarrow> if b = [] then marker else b @ newline2 @ marker)"

definition marker_text :: "string \<Rightarrow> string \<Rightarrow> string" where
  "marker_text execution_id request_hash =
     ''<!-- founderos-execution:'' @ execution_id @ '':'' @ request_hash @ '' -->''"

definition execution_request_marker :: "action_execution \<Rightarrow> string" where
  "execution_request_marker x = marker_text (uuid_str (ex_id x)) (ex_request_hash x)"

definition validate_body_marker_capacity :: "string option \<Rightarrow> (execution_error, unit) result" where
  "validate_body_marker_capacity body =
     require (length (utf8 (with_marker body (marker_text (uuid_str 0) (replicate 64 CHR ''0''))))
                \<le> GITHUB_ISSUE_BODY_MAX_BYTES)
       (GitHubIssueExecutionError GITHUB_ISSUE_EXECUTION_BODY_TOO_LARGE)"

definition body_with_execution_marker :: "string option \<Rightarrow> action_execution \<Rightarrow> string" where
  "body_with_execution_marker body x = with_marker body (execution_request_marker x)"

definition validate_proposal_for_execution :: "action_proposal \<Rightarrow> (execution_error, unit) result" where
  "validate_proposal_for_execution p =
     bindE (require (ap_status p = Approved)
       (GitHubIssueExecutionConflictError GITHUB_ISSUE_EXECUTION_PROPOSAL_NOT_APPROVED)) (\<lambda>_.
     require (ap_target_provider p = ''github'' \<and> ap_action_type p = ''create_github_issue'')
       (GitHubIssueExecutionError GITHUB_ISSUE_EXECUTION_UNSUPPORTED_ACTION))"

definition validate_evidence_for_live_execution ::
  "uuid \<Rightarrow> action_proposal \<Rightarrow> 'z action_db_scheme \<Rightarrow> (execution_error, unit) result" where
  "validate_evidence_for_live_execution workspace_id p db =
     bindE (require (ap_evidence_refs p \<noteq> [])
       (GitHubIssueExecutionConflictError GITHUB_ISSUE_EXECUTION_EVIDENCE_REQUIRED)) (\<lambda>_.
     bindE (map_error GitHubIssueExecutionConflictError (validate_action_proposal_evidence workspace_id p db))
       (\<lambda>_. Inr ()))"

definition get_connection_or_raise ::
  "uuid \<Rightarrow> uuid \<Rightarrow> 'z action_db_scheme \<Rightarrow> (execution_error, integration_connection) result" where
  "get_connection_or_raise workspace_id connection_id db =
     (case find (\<lambda>c. ic_id c = connection_id) (connections db) of
        None \<Rightarrow> Inl (GitHubIssueExecutionNotFoundError GITHUB_ISSUE_EXECUTION_CONNECTION_NOT_FOUND)
      | Some c \<Rightarrow>
          bindE (require (ic_workspace_id c = workspace_id)
            (GitHubIssueExecutionNotFoundError GITHUB_ISSUE_EXECUTION_CONNECTION_NOT_FOUND)) (\<lambda>_.
          bindE (require (ic_provider c = ''github'')
            (GitHubIssueExecutionError GITHUB_ISSUE_EXECUTION_CONNECTION_NOT_GITHUB)) (\<lambda>_.
          bindE (require (ic_status c = Connected)
            (GitHubIssueExecutionConflictError GITHUB_ISSUE_EXECUTION_CONNECTION_NOT_CONNECTED)) (\<lambda>_.
          bindE (require (ic_encrypted_access_token c \<notin> {None, Some []})
            (GitHubIssueExecutionConflictError GITHUB_ISSUE_EXECUTION_TOKEN_MISSING)) (\<lambda>_.
          Inr c)))))"

text \<open>The material of the request hash; \<^const>\<open>None\<close> where \<^verbatim>\<open>json.dumps\<close> raises.\<close>

definition request_json_opts :: json_opts where
  "request_json_opts = \<lparr> sort_keys = True, compact = True, ensure_ascii = True, allow_nan = True,
     default_text = (\<lambda>_. None) \<rparr>"

definition execution_request_hash ::
  "sha \<Rightarrow> action_proposal \<Rightarrow> uuid \<Rightarrow> uuid \<Rightarrow> uuid \<Rightarrow> string option" where
  "execution_request_hash sha p workspace_id connection_id requested_by_user_id =
     map_option (\<lambda>t. sha (utf8 t)) (dumps request_json_opts (PDict
       [(''workspace_id'', PStr (uuid_str workspace_id)), (''proposal_id'', PStr (uuid_str (ap_id p))),
        (''proposal_updated_at'', PStr (isoformat ''T'' (ap_updated_at p))),
        (''target_provider'', PStr (ap_target_provider p)), (''action_type'', PStr (ap_action_type p)),
        (''payload'', PDict (ap_payload p)), (''evidence_refs'', PList (ap_evidence_refs p)),
        (''connection_id'', PStr (uuid_str connection_id)),
        (''requested_by_user_id'', PStr (uuid_str requested_by_user_id))]))"

section \<open>Provider responses and receipts\<close>

definition ALLOWED_RESPONSE_KEYS :: "string list" where
  "ALLOWED_RESPONSE_KEYS = [''id'', ''node_id'', ''number'', ''state'', ''title'', ''html_url'', ''url'']"

definition sanitize_github_issue_response :: "pydict \<Rightarrow> pydict" where
  "sanitize_github_issue_response response = List.map_filter (\<lambda>k. case py_get response k of
       PStr s \<Rightarrow> Some (k, PStr (take 1000 s))
     | PBool b \<Rightarrow> Some (k, PBool b) | PInt i \<Rightarrow> Some (k, PInt i) | PFloat f \<Rightarrow> Some (k, PFloat f)
     | PNone \<Rightarrow> Some (k, PNone) | _ \<Rightarrow> None) ALLOWED_RESPONSE_KEYS"

text \<open>The first of some keys whose value is a text that is not blank, or a number.\<close>

fun first_identifier :: "pydict \<Rightarrow> string list \<Rightarrow> string option" where
  "first_identifier response [] = None"
| "first_identifier response (k # ks) = (case py_get response k of
     PStr s \<Rightarrow> if strip s \<noteq> [] then Some (take 255 (strip s)) else first_identifier response ks
   | v \<Rightarrow> (case str_of_int_like v of Some t \<Rightarrow> Some t | None \<Rightarrow> first_identifier response ks))"

definition external_id_from_response :: "pydict \<Rightarrow> string option" where
  "external_id_from_response response = first_identifier response [''html_url'', ''id'', ''number'', ''url'']"

definition external_result_id_from_response :: "pydict \<Rightarrow> string option" where
  "external_result_id_from_response response = first_identifier response [''number'', ''id'', ''node_id'']"

fun first_url :: "pydict \<Rightarrow> string list \<Rightarrow> string option" where
  "first_url response [] = (case py_get response ''external_id'' of
     PStr s \<Rightarrow> if is_prefix ''https://'' s then Some (take 1000 s) else None | _ \<Rightarrow> None)"
| "first_url response (k # ks) = (case py_get response k of
     PStr s \<Rightarrow> if strip s \<noteq> [] then Some (take 1000 (strip s)) else first_url response ks
   | _ \<Rightarrow> first_url response ks)"

definition external_result_url_from_response :: "pydict \<Rightarrow> string option" where
  "external_result_url_from_response response = first_url response [''html_url'', ''url'']"

definition execution_receipt :: "action_proposal \<Rightarrow> action_execution \<Rightarrow> pydict" where
  "execution_receipt p x =
     [(''provider'', PStr (ap_target_provider p)), (''action'', PStr (ap_action_type p)),
      (''status'', PStr (execution_status_text (ex_status x))),
      (''external_execution_enabled'', PBool True), (''confirmation_received'', PBool True),
      (''external_result_id'', opt_val PStr (external_result_id_from_response (ex_provider_response x))),
      (''external_result_url'', opt_val PStr (external_result_url_from_response (ex_provider_response x))),
      (''external_write_performed'', PBool (ex_status x = Succeeded)),
      (''provider_result'', PStr (if ex_status x = Succeeded then ''succeeded''
         else if ex_status x = Uncertain then ''uncertain'' else ''failed'')),
      (''error_code'', if ex_status x = Failed then PStr ''provider_execution_failed''
         else if ex_status x = Uncertain then PStr ''provider_outcome_uncertain'' else PNone),
      (''error_message'', opt_val PStr (ex_error_message x)),
      (''idempotency_key'', PStr (ex_client_idempotency_key x)),
      (''created_at'', PTime (ex_created_at x)), (''updated_at'', PTime (ex_updated_at x))]"

definition execution_result :: "action_proposal \<Rightarrow> action_execution \<Rightarrow> string list \<Rightarrow> pydict" where
  "execution_result p x warnings =
     [(''proposal'', PDict [(''id'', PUuid (ap_id p)), (''status'', PStr (proposal_status_text (ap_status p)))]),
      (''execution'', PDict
        [(''id'', PUuid (ex_id x)), (''status'', PStr (execution_status_text (ex_status x))),
         (''workspace_id'', PUuid (ex_workspace_id x)),
         (''requested_by_user_id'', opt_val PUuid (ex_requested_by_user_id x)),
         (''connection_id'', opt_val PUuid (ex_connection_id x)),
         (''client_idempotency_key'', PStr (ex_client_idempotency_key x)),
         (''request_hash'', PStr (ex_request_hash x)), (''external_id'', opt_val PStr (ex_external_id x)),
         (''provider_response'', PDict (ex_provider_response x)),
         (''error_message'', opt_val PStr (ex_error_message x)), (''claimed_at'', PTime (ex_claimed_at x)),
         (''started_at'', opt_val PTime (ex_started_at x)), (''finished_at'', opt_val PTime (ex_finished_at x)),
         (''reconciled_at'', opt_val PTime (ex_reconciled_at x))]),
      (''is_live'', PBool True), (''external_write_performed'', PBool (ex_status x = Succeeded)),
      (''provider'', PStr ''github''), (''receipt'', PDict (execution_receipt p x)),
      (''warnings'', PList (map PStr warnings))]"

section \<open>Audit events of an execution\<close>

text \<open>\<^verbatim>\<open>str.isalnum\<close> on code points below 256.\<close>

definition is_alnum :: "char \<Rightarrow> bool" where
  "is_alnum c = (let n = (of_char c :: nat) in
     (48 \<le> n \<and> n \<le> 57) \<or> (65 \<le> n \<and> n \<le> 90) \<or> (97 \<le> n \<and> n \<le> 122)
     \<or> n \<in> {170, 178, 179, 181, 185, 186, 188, 189, 190} \<or> (192 \<le> n \<and> n \<noteq> 215 \<and> n \<noteq> 247))"

definition error_code_from_detail :: "string \<Rightarrow> string" where
  "error_code_from_detail detail =
     (let safe = map (\<lambda>c. if is_alnum c then c else CHR ''_'') (casefold (strip detail));
          code = take 120 (join ''_'' (filter (\<lambda>p. p \<noteq> []) (split_char CHR ''_'' safe))) in
      if code = [] then ''blocked'' else code)"

definition repository_metadata :: "action_proposal \<Rightarrow> pydict" where
  "repository_metadata p = (case py_get (ap_payload p) ''repository_full_name'' of
     PStr s \<Rightarrow> if strip s = [] then [] else [(''repository_full_name'', PStr (take 255 (strip s)))]
   | _ \<Rightarrow> [])"

text \<open>
  The arguments of \<^verbatim>\<open>_append_execution_audit_event\<close> that every caller here gives, with
  confirmation received and external execution enabled; \<open>reason\<close> scopes the key.
\<close>

definition execution_event_args ::
  "sha \<Rightarrow> uuid \<Rightarrow> time \<Rightarrow> action_proposal \<Rightarrow> string \<Rightarrow> string \<Rightarrow> string \<Rightarrow> string \<Rightarrow> uuid \<Rightarrow> pydict \<Rightarrow> event_args" where
  "execution_event_args sha new_id now p event_type status message reason actor metadata =
     \<lparr> ea_new_id = new_id, ea_now = now, ea_workspace_id = ap_workspace_id p, ea_action_proposal_id = ap_id p,
       ea_event_type = event_type, ea_actor = ''user:'' @ uuid_str actor, ea_status = status,
       ea_message = message,
       ea_idempotency_key = execution_event_idempotency_key sha (ap_workspace_id p) (ap_id p) event_type
         True True None (Some reason),
       ea_provider = Some (ap_target_provider p), ea_action = Some (ap_action_type p),
       ea_external_execution_enabled = True, ea_confirmation_received = True,
       ea_event_metadata = metadata, ea_external_result_id = None, ea_external_result_url = None,
       ea_error_code = None, ea_error_message = None \<rparr>"

definition append_audit :: "event_args \<Rightarrow> 'z action_db_scheme \<Rightarrow> (execution_error, 'z action_db_scheme) result" where
  "append_audit a db = bindE (map_error ExecutionAuditError (append_execution_event a db db)) (\<lambda>(e, db'). Inr db')"

definition append_blocked_execution_event ::
  "sha \<Rightarrow> uuid \<Rightarrow> time \<Rightarrow> action_proposal \<Rightarrow> string \<Rightarrow> uuid \<Rightarrow> 'z action_db_scheme \<Rightarrow>
     (execution_error, 'z action_db_scheme) result" where
  "append_blocked_execution_event sha new_id now p detail actor db =
     append_audit ((execution_event_args sha new_id now p
         (if detail \<in> {GITHUB_ISSUE_EXECUTION_ALLOWED_REPOS_REQUIRED, GITHUB_ISSUE_EXECUTION_REPOSITORY_NOT_ALLOWED}
          then ''execution_repository_not_allowed'' else ''execution_blocked'')
         (if detail = GITHUB_ISSUE_EXECUTION_UNSUPPORTED_ACTION then ''unsupported'' else ''blocked'')
         (''Execution blocked: '' @ detail @ ''. No external write occurred.'')
         (error_code_from_detail detail) actor
         ((''proposal_status'', PStr (proposal_status_text (ap_status p))) # repository_metadata p))
       \<lparr>ea_error_code := Some (error_code_from_detail detail), ea_error_message := Some detail\<rparr>) db"

definition append_failed_execution_event ::
  "sha \<Rightarrow> uuid \<Rightarrow> time \<Rightarrow> action_proposal \<Rightarrow> uuid \<Rightarrow> string \<Rightarrow> string \<Rightarrow> uuid \<Rightarrow> 'z action_db_scheme \<Rightarrow>
     (execution_error, 'z action_db_scheme) result" where
  "append_failed_execution_event sha new_id now p execution_id message error_code actor db =
     append_audit ((execution_event_args sha new_id now p ''execution_failed'' ''recorded''
         (''GitHub issue execution failed: '' @ message @ ''.'') (uuid_str execution_id) actor
         [(''execution_id'', PStr (uuid_str execution_id))])
       \<lparr>ea_error_code := Some error_code, ea_error_message := Some message\<rparr>) db"

section \<open>Execution rows\<close>

definition ACTIVE_OR_SUCCESSFUL :: "execution_status list" where
  "ACTIVE_OR_SUCCESSFUL = [Claimed, Running, Succeeded, Uncertain]"

definition get_execution_by_idempotency_key ::
  "uuid \<Rightarrow> string \<Rightarrow> 'z action_db_scheme \<Rightarrow> action_execution option" where
  "get_execution_by_idempotency_key workspace_id key db =
     find (\<lambda>x. ex_workspace_id x = workspace_id \<and> ex_client_idempotency_key x = key) (action_executions db)"

definition get_active_or_successful_execution :: "uuid \<Rightarrow> 'z action_db_scheme \<Rightarrow> action_execution option" where
  "get_active_or_successful_execution proposal_id db =
     find (\<lambda>x. ex_action_proposal_id x = proposal_id \<and> ex_status x \<in> set ACTIVE_OR_SUCCESSFUL) (action_executions db)"

text \<open>
  The two unique indexes: a client key is used once per workspace, and a proposal has at most
  one execution that is active, uncertain or successful.
\<close>

definition active_rows :: "uuid \<Rightarrow> 'z action_db_scheme \<Rightarrow> action_execution list" where
  "active_rows proposal_id db =
     filter (\<lambda>x. ex_action_proposal_id x = proposal_id \<and> ex_status x \<in> set ACTIVE_OR_SUCCESSFUL) (action_executions db)"

definition executions_ok :: "'z action_db_scheme \<Rightarrow> bool" where
  "executions_ok db \<longleftrightarrow> distinct (map ex_id (action_executions db)) \<and>
     distinct (map (\<lambda>x. (ex_workspace_id x, ex_client_idempotency_key x)) (action_executions db)) \<and>
     distinct (map ex_action_proposal_id
       (filter (\<lambda>x. ex_status x \<in> set ACTIVE_OR_SUCCESSFUL) (action_executions db)))"

text \<open>An \<^verbatim>\<open>UPDATE\<close> of the changed columns of one execution, refused where an index is violated.\<close>

definition update_execution ::
  "uuid \<Rightarrow> (action_execution \<Rightarrow> action_execution) \<Rightarrow> time \<Rightarrow> 'z action_db_scheme \<Rightarrow>
     (execution_error, 'z action_db_scheme) result" where
  "update_execution execution_id f now db =
     (let db' = db\<lparr>action_executions := update_where (\<lambda>x. ex_id x = execution_id)
            (\<lambda>x. (f x)\<lparr>ex_updated_at := now\<rparr>) (action_executions db)\<rparr> in
      bindE (require (executions_ok db') (ExecutionIntegrityError ''action_executions'')) (\<lambda>_. Inr db'))"

definition resolve_existing_execution ::
  "sha \<Rightarrow> uuid \<Rightarrow> time \<Rightarrow> action_proposal \<Rightarrow> action_execution \<Rightarrow> string option \<Rightarrow> uuid \<Rightarrow>
     'z action_db_scheme \<Rightarrow> (execution_error, pydict \<times> 'z action_db_scheme) result" where
  "resolve_existing_execution sha new_id now p x request_hash actor db =
     bindE (require (ex_action_proposal_id x = ap_id p
         \<and> (case request_hash of None \<Rightarrow> True | Some h \<Rightarrow> ex_request_hash x = h))
       (GitHubIssueExecutionConflictError GITHUB_ISSUE_EXECUTION_IDEMPOTENCY_REUSED)) (\<lambda>_.
     if ex_status x = Succeeded
     then bindE (append_audit ((execution_event_args sha new_id now p
           ''execution_duplicate_returned_existing_receipt'' ''recorded'' GITHUB_ISSUE_EXECUTION_DUPLICATE_RECEIPT
           (uuid_str (ex_id x) @ '':'' @ uuid_str actor @ '':duplicate_successful_receipt'') actor
           [(''execution_id'', PStr (uuid_str (ex_id x))),
            (''proposal_status'', PStr (proposal_status_text (ap_status p)))])
         \<lparr>ea_external_result_id := external_result_id_from_response (ex_provider_response x),
          ea_external_result_url := external_result_url_from_response (ex_provider_response x)\<rparr>) db) (\<lambda>db'.
       Inr (execution_result p x [GITHUB_ISSUE_EXECUTION_DUPLICATE_RECEIPT], db'))
     else if ex_status x \<in> {Claimed, Running, Uncertain}
     then Inl (GitHubIssueExecutionConflictError GITHUB_ISSUE_EXECUTION_IN_PROGRESS)
     else Inl (GitHubIssueExecutionConflictError GITHUB_ISSUE_EXECUTION_RETRY_KEY_REQUIRED))"

section \<open>The phases of the handler\<close>

record execution_config =
  enable_real_connectors :: bool
  github_write_allowed_repos :: "string option"

text \<open>What the handler holds in memory after the claim was committed.\<close>

record exec_ctx =
  cx_proposal :: action_proposal
  cx_execution :: action_execution
  cx_connection :: integration_connection
  cx_payload :: issue_payload
  cx_key :: string
  cx_actor :: uuid

record phase_ids =
  pi_execution :: uuid
  pi_event :: uuid
  pi_event2 :: uuid

datatype claim_outcome = Replied pydict | ClaimTaken exec_ctx

text \<open>A phase answers an error or a value and leaves the committed state.\<close>

type_synonym ('a, 'z) phase_result = "(execution_error, 'a) result \<times> 'z action_db_scheme"

definition reply :: "'z action_db_scheme \<Rightarrow> (execution_error, 'a \<times> 'z action_db_scheme) result \<Rightarrow> ('a, 'z) phase_result" where
  "reply db r = (case r of Inl e \<Rightarrow> (Inl e, db) | Inr (v, db') \<Rightarrow> (Inr v, db'))"

definition claim_checks ::
  "execution_config \<Rightarrow> uuid \<Rightarrow> uuid \<Rightarrow> action_proposal \<Rightarrow> 'z action_db_scheme \<Rightarrow>
     (execution_error, issue_payload \<times> integration_connection) result" where
  "claim_checks cfg workspace_id connection_id p db =
     bindE (validate_proposal_for_execution p) (\<lambda>_.
     bindE (validate_github_issue_payload (ap_payload p)) (\<lambda>payload.
     bindE (validate_body_marker_capacity (gp_body payload)) (\<lambda>_.
     bindE (validate_evidence_for_live_execution workspace_id p db) (\<lambda>_.
     bindE (validate_repository_allowlist (github_write_allowed_repos cfg) payload) (\<lambda>_.
     bindE (get_connection_or_raise workspace_id connection_id db) (\<lambda>c.
     Inr (payload, c)))))))"

definition claimed_row ::
  "phase_ids \<Rightarrow> time \<Rightarrow> uuid \<Rightarrow> action_proposal \<Rightarrow> execution_input \<Rightarrow> uuid \<Rightarrow> string \<Rightarrow> string \<Rightarrow> action_execution" where
  "claimed_row ids now workspace_id p inp connection_id key request_hash =
     \<lparr> ex_id = pi_execution ids, ex_action_proposal_id = ap_id p, ex_workspace_id = workspace_id,
       ex_requested_by_user_id = Some (xi_requested_by_user_id inp), ex_connection_id = Some connection_id,
       ex_client_idempotency_key = key, ex_request_hash = request_hash, ex_status = Claimed,
       ex_provider_response = [], ex_external_id = None, ex_error_message = None, ex_claimed_at = now,
       ex_started_at = None, ex_finished_at = None, ex_reconciled_at = None, ex_created_at = now,
       ex_updated_at = now \<rparr>"

definition insert_claim ::
  "sha \<Rightarrow> phase_ids \<Rightarrow> time \<Rightarrow> uuid \<Rightarrow> action_proposal \<Rightarrow> execution_input \<Rightarrow> string \<Rightarrow> string \<Rightarrow>
     issue_payload \<Rightarrow> integration_connection \<Rightarrow> 'z action_db_scheme \<Rightarrow> (claim_outcome, 'z) phase_result" where
  "insert_claim sha ids now workspace_id p inp key request_hash payload c db =
     (let x = claimed_row ids now workspace_id p inp (ic_id c) key request_hash;
          actor = xi_requested_by_user_id inp;
          db1 = db\<lparr>action_executions := action_executions db @ [x]\<rparr> in
      if \<not> (executions_ok db1 \<and> actor \<in> u_id ` set (users db))
      then (case (get_execution_by_idempotency_key workspace_id key db, get_active_or_successful_execution (ap_id p) db) of
          (None, None) \<Rightarrow> (Inl (ExecutionIntegrityError ''action_executions''), db)
        | _ \<Rightarrow> (Inl (GitHubIssueExecutionConflictError GITHUB_ISSUE_EXECUTION_IN_PROGRESS), db))
      else reply db
        (bindE (append_audit (execution_event_args sha (pi_event ids) now p ''execution_confirmation_received''
            ''recorded'' ''Execution confirmation received for approved GitHub issue proposal.''
            (uuid_str (ex_id x) @ '':confirmation_received'') actor
            [(''execution_id'', PStr (uuid_str (ex_id x))),
             (''proposal_status'', PStr (proposal_status_text (ap_status p)))]) db1) (\<lambda>db2.
         bindE (append_audit (execution_event_args sha (pi_event2 ids) now p ''execution_claimed'' ''recorded''
            ''A durable execution claim was recorded before the provider request.'' (uuid_str (ex_id x)) actor
            [(''execution_id'', PStr (uuid_str (ex_id x))), (''claimed_at'', PStr (isoformat ''T'' now)),
             (''request_hash'', PStr request_hash)]) db2) (\<lambda>db3.
         Inr (ClaimTaken \<lparr> cx_proposal = p, cx_execution = x, cx_connection = c, cx_payload = payload,
                cx_key = key, cx_actor = actor \<rparr>, db3)))))"

definition claim_execution ::
  "sha \<Rightarrow> execution_config \<Rightarrow> phase_ids \<Rightarrow> time \<Rightarrow> uuid \<Rightarrow> uuid \<Rightarrow> execution_input \<Rightarrow>
     'z action_db_scheme \<Rightarrow> (claim_outcome, 'z) phase_result" where
  "claim_execution sha cfg ids now workspace_id proposal_id inp db =
     (let actor = xi_requested_by_user_id inp in
      if \<not> enable_real_connectors cfg then (Inl RealConnectorsDisabledError, db)
      else if \<not> xi_confirm_external_write inp
      then (Inl (GitHubIssueExecutionError GITHUB_ISSUE_EXECUTION_CONFIRM_REQUIRED), db)
      else case required_idempotency_key (xi_idempotency_key inp) of Inl e \<Rightarrow> (Inl e, db) | Inr key \<Rightarrow>
      (case get_action_proposal workspace_id proposal_id db of
        None \<Rightarrow> (Inl (GitHubIssueExecutionNotFoundError GITHUB_ISSUE_EXECUTION_PROPOSAL_NOT_FOUND), db)
      | Some p \<Rightarrow>
      (case execution_request_hash sha p workspace_id (xi_connection_id inp) actor of
        None \<Rightarrow> (Inl ExecutionJsonError, db)
      | Some request_hash \<Rightarrow>
      (case get_execution_by_idempotency_key workspace_id key db of
        Some x \<Rightarrow> reply db (bindE (resolve_existing_execution sha (pi_event ids) now p x (Some request_hash) actor db)
                   (\<lambda>(v, db'). Inr (Replied v, db')))
      | None \<Rightarrow>
      (case get_active_or_successful_execution (ap_id p) db of
        Some x \<Rightarrow> reply db (bindE (resolve_existing_execution sha (pi_event ids) now p x None actor db)
                   (\<lambda>(v, db'). Inr (Replied v, db')))
      | None \<Rightarrow>
      (case claim_checks cfg workspace_id (xi_connection_id inp) p db of
        Inl e \<Rightarrow> (case append_blocked_execution_event sha (pi_event ids) now p (error_detail e) actor db of
            Inl e' \<Rightarrow> (Inl e', db) | Inr db' \<Rightarrow> (Inl e, db'))
      | Inr (payload, c) \<Rightarrow> insert_claim sha ids now workspace_id p inp key request_hash payload c db))))))"

text \<open>
  \<^verbatim>\<open>_mark_pre_provider_failed\<close> with its event. The proposal in memory is approved already, so
  assigning that status again changes no row.
\<close>

definition fail_pre_provider ::
  "sha \<Rightarrow> uuid \<Rightarrow> time \<Rightarrow> exec_ctx \<Rightarrow> string \<Rightarrow> string \<Rightarrow> execution_error \<Rightarrow> 'z action_db_scheme \<Rightarrow> ('a, 'z) phase_result" where
  "fail_pre_provider sha new_id now cx message error_code err db =
     (case bindE (update_execution (ex_id (cx_execution cx)) (\<lambda>x. x\<lparr>ex_status := Failed,
             ex_error_message := Some message, ex_finished_at := Some now\<rparr>) now db)
           (append_failed_execution_event sha new_id now (cx_proposal cx) (ex_id (cx_execution cx)) message
             error_code (cx_actor cx)) of
        Inl e \<Rightarrow> (Inl e, db) | Inr db' \<Rightarrow> (Inl err, db'))"

text \<open>The second transaction: decrypt the token, mark the execution as running.\<close>

definition start_execution ::
  "sha \<Rightarrow> (string \<Rightarrow> string option) \<Rightarrow> uuid \<Rightarrow> time \<Rightarrow> exec_ctx \<Rightarrow> 'z action_db_scheme \<Rightarrow> (string, 'z) phase_result" where
  "start_execution sha decrypt new_id now cx db =
     (case decrypt (case ic_encrypted_access_token (cx_connection cx) of None \<Rightarrow> [] | Some t \<Rightarrow> t) of
        None \<Rightarrow> fail_pre_provider sha new_id now cx GITHUB_ISSUE_EXECUTION_TOKEN_UNAVAILABLE ''token_unavailable''
          (GitHubIssueProviderExecutionError GITHUB_ISSUE_EXECUTION_TOKEN_UNAVAILABLE) db
      | Some access_token \<Rightarrow> reply db
          (bindE (update_execution (ex_id (cx_execution cx)) (\<lambda>x. x\<lparr>ex_status := Running,
             ex_started_at := Some now\<rparr>) now db) (\<lambda>db1.
           bindE (append_audit (execution_event_args sha new_id now (cx_proposal cx) ''execution_started'' ''recorded''
             ''GitHub issue execution started after the durable claim was committed.''
             (uuid_str (ex_id (cx_execution cx))) (cx_actor cx)
             [(''execution_id'', PStr (uuid_str (ex_id (cx_execution cx)))),
              (''repository_full_name'', PStr (gp_repository_full_name (cx_payload cx)))]) db1) (\<lambda>db2.
           Inr (access_token, db2)))))"

record provider_request =
  pr_access_token :: string
  pr_repository_full_name :: string
  pr_title :: string
  pr_body :: string
  pr_labels :: "string list"
  pr_assignees :: "string list"

text \<open>The third: the evidence is checked again, and then the request is sent.\<close>

definition recheck_and_request ::
  "sha \<Rightarrow> uuid \<Rightarrow> time \<Rightarrow> exec_ctx \<Rightarrow> string \<Rightarrow> 'z action_db_scheme \<Rightarrow> (provider_request, 'z) phase_result" where
  "recheck_and_request sha new_id now cx access_token db =
     (case validate_evidence_for_live_execution (ap_workspace_id (cx_proposal cx)) (cx_proposal cx) db of
        Inl e \<Rightarrow> fail_pre_provider sha new_id now cx (error_detail e) ''proposal_evidence_invalid'' e db
      | Inr _ \<Rightarrow> (Inr \<lparr> pr_access_token = access_token,
            pr_repository_full_name = gp_repository_full_name (cx_payload cx), pr_title = gp_title (cx_payload cx),
            pr_body = body_with_execution_marker (gp_body (cx_payload cx)) (cx_execution cx),
            pr_labels = gp_labels (cx_payload cx), pr_assignees = gp_assignees (cx_payload cx) \<rparr>, db))"

text \<open>The last: the provider's response, or \<^const>\<open>None\<close> for any exception of the client.\<close>

definition mark_uncertain ::
  "sha \<Rightarrow> uuid \<Rightarrow> time \<Rightarrow> exec_ctx \<Rightarrow> 'z action_db_scheme \<Rightarrow> (execution_error, 'z action_db_scheme) result" where
  "mark_uncertain sha new_id now cx db =
     bindE (update_execution (ex_id (cx_execution cx)) (\<lambda>x. x\<lparr>ex_status := Uncertain,
       ex_error_message := Some GITHUB_ISSUE_EXECUTION_OUTCOME_UNCERTAIN, ex_finished_at := None\<rparr>) now db)
     (append_audit ((execution_event_args sha new_id now (cx_proposal cx) ''execution_outcome_uncertain'' ''recorded''
         ''The provider request may have completed, but no authoritative receipt was recorded. Reconciliation is required.''
         (uuid_str (ex_id (cx_execution cx))) (cx_actor cx)
         [(''execution_id'', PStr (uuid_str (ex_id (cx_execution cx)))),
          (''request_hash'', PStr (ex_request_hash (cx_execution cx)))])
       \<lparr>ea_error_code := Some ''provider_outcome_uncertain'',
        ea_error_message := Some GITHUB_ISSUE_EXECUTION_OUTCOME_UNCERTAIN\<rparr>))"

definition mark_succeeded ::
  "sha \<Rightarrow> uuid \<Rightarrow> time \<Rightarrow> exec_ctx \<Rightarrow> pydict \<Rightarrow> 'z action_db_scheme \<Rightarrow> (execution_error, 'z action_db_scheme) result" where
  "mark_succeeded sha new_id now cx sanitized db =
     bindE (update_execution (ex_id (cx_execution cx)) (\<lambda>x. x\<lparr>ex_status := Succeeded,
       ex_provider_response := sanitized, ex_external_id := external_id_from_response sanitized,
       ex_error_message := None, ex_finished_at := Some now\<rparr>) now db) (\<lambda>db1.
     (let db2 = db1\<lparr>action_proposals := update_where (\<lambda>p. ap_id p = ap_id (cx_proposal cx))
            (\<lambda>p. p\<lparr>ap_status := Executed, ap_updated_at := now\<rparr>) (action_proposals db1)\<rparr> in
      append_audit ((execution_event_args sha new_id now (cx_proposal cx) ''execution_succeeded'' ''recorded''
         ''GitHub issue execution succeeded and provider receipt was recorded.''
         (uuid_str (ex_id (cx_execution cx))) (cx_actor cx)
         [(''execution_id'', PStr (uuid_str (ex_id (cx_execution cx)))),
          (''issue_number'', py_get sanitized ''number''), (''provider_state'', py_get sanitized ''state'')])
       \<lparr>ea_external_result_id := external_result_id_from_response sanitized,
        ea_external_result_url := external_result_url_from_response sanitized\<rparr>) db2))"

definition finish_execution ::
  "sha \<Rightarrow> uuid \<Rightarrow> time \<Rightarrow> exec_ctx \<Rightarrow> pydict option \<Rightarrow> 'z action_db_scheme \<Rightarrow> (pydict, 'z) phase_result" where
  "finish_execution sha new_id now cx response db =
     (case response of
        None \<Rightarrow> (case mark_uncertain sha new_id now cx db of Inl e \<Rightarrow> (Inl e, db)
          | Inr db' \<Rightarrow> (Inl (GitHubIssueProviderExecutionError GITHUB_ISSUE_EXECUTION_OUTCOME_UNCERTAIN), db'))
      | Some raw \<Rightarrow>
         (let sanitized = dict_set ''idempotency_key'' (PStr (cx_key cx)) (sanitize_github_issue_response raw) in
          case mark_succeeded sha new_id now cx sanitized db of Inl e \<Rightarrow> (Inl e, db)
          | Inr db' \<Rightarrow>
             (case (find (\<lambda>p. ap_id p = ap_id (cx_proposal cx)) (action_proposals db'),
                    find (\<lambda>x. ex_id x = ex_id (cx_execution cx)) (action_executions db')) of
                (Some p, Some x) \<Rightarrow> (Inr (execution_result p x []), db')
              | _ \<Rightarrow> (Inl (ExecutionIntegrityError ''action_executions''), db'))))"

end
