(* ===== verification/Execution_Machine.thy ===== *)
theory Execution_Machine
  imports Issue_Execution
begin

text \<open>
  The executions of many requests interleaved: requests in flight (threads) at their phases,
  the committed state, and the log of the requests sent to the provider. Between phases any
  other request may run, a process may die, and other tables may change.
\<close>

section \<open>What each phase does to the execution rows\<close>

lemma executions_ok_cong: "action_executions a = action_executions b \<Longrightarrow> executions_ok a = executions_ok b"
  by (simp add: executions_ok_def)

text \<open>
  \<open>row_set i S db db'\<close>: execution \<open>i\<close> and no other was updated, to a status in \<open>S\<close>, keeping
  its identity and its request, and the indexes hold.
\<close>

definition row_set :: "uuid \<Rightarrow> execution_status set \<Rightarrow> 'z action_db_scheme \<Rightarrow> 'z action_db_scheme \<Rightarrow> bool" where
  "row_set i S db db' \<longleftrightarrow> executions_ok db' \<and>
     (\<exists>f. action_executions db' = update_where (\<lambda>x. ex_id x = i) f (action_executions db) \<and>
        (\<forall>x. ex_id (f x) = ex_id x \<and> ex_action_proposal_id (f x) = ex_action_proposal_id x
           \<and> ex_workspace_id (f x) = ex_workspace_id x \<and> ex_request_hash (f x) = ex_request_hash x
           \<and> ex_client_idempotency_key (f x) = ex_client_idempotency_key x \<and> ex_status (f x) \<in> S))"

lemma append_audit_frame: "append_audit a db = Inr db' \<Longrightarrow> \<exists>ev. db' = db\<lparr>execution_events := ev\<rparr>"
proof -
  assume "append_audit a db = Inr db'"
  then obtain e where "append_execution_event a db db = Inr (e, db')" by (auto simp: append_audit_def result_iffs)
  from append_execution_event_cases [OF this] show ?thesis
  proof
    assume "db' = db \<and> e \<in> set (execution_events db) \<and> ev_idempotency_key e = ea_idempotency_key a"
    then have "db' = db\<lparr>execution_events := execution_events db\<rparr>" by simp
    then show ?thesis by blast
  qed blast
qed

lemma append_audit_executions: "append_audit a db = Inr db' \<Longrightarrow> action_executions db' = action_executions db
    \<and> action_proposals db' = action_proposals db"
  using append_audit_frame by fastforce

lemma update_execution_row_set:
  assumes "update_execution i f now db = Inr db'"
    and "\<And>x. ex_id (f x) = ex_id x \<and> ex_action_proposal_id (f x) = ex_action_proposal_id x
           \<and> ex_workspace_id (f x) = ex_workspace_id x \<and> ex_request_hash (f x) = ex_request_hash x
           \<and> ex_client_idempotency_key (f x) = ex_client_idempotency_key x \<and> ex_status (f x) \<in> S"
  shows "row_set i S db db' \<and> action_proposals db' = action_proposals db"
  using assms unfolding update_execution_def row_set_def Let_def
  by (auto simp: result_iffs intro!: exI [of _ "\<lambda>x. (f x)\<lparr>ex_updated_at := now\<rparr>"])

lemma row_set_cong: "row_set i S db db1 \<Longrightarrow> action_executions db2 = action_executions db1 \<Longrightarrow> row_set i S db db2"
  unfolding row_set_def using executions_ok_cong [of db2 db1] by simp

lemma fail_pre_provider_effect:
  assumes "fail_pre_provider sha n now cx m c err db = (r, db')"
  shows "(\<exists>e. r = Inl e) \<and> (db' = db \<or> row_set (ex_id (cx_execution cx)) {Failed} db db')"
proof (cases "bindE (update_execution (ex_id (cx_execution cx)) (\<lambda>x. x\<lparr>ex_status := Failed,
             ex_error_message := Some m, ex_finished_at := Some now\<rparr>) now db)
           (append_failed_execution_event sha n now (cx_proposal cx) (ex_id (cx_execution cx)) m c (cx_actor cx))")
  case (Inl e)
  then show ?thesis using assms by (auto simp: fail_pre_provider_def)
next
  case (Inr db2)
  then obtain db1 where u: "update_execution (ex_id (cx_execution cx)) (\<lambda>x. x\<lparr>ex_status := Failed,
             ex_error_message := Some m, ex_finished_at := Some now\<rparr>) now db = Inr db1"
    and a: "append_failed_execution_event sha n now (cx_proposal cx) (ex_id (cx_execution cx)) m c (cx_actor cx) db1 = Inr db2"
    by (auto simp: result_iffs)
  have "row_set (ex_id (cx_execution cx)) {Failed} db db1" using update_execution_row_set [OF u, of "{Failed}"] by simp
  then have "row_set (ex_id (cx_execution cx)) {Failed} db db2"
    using row_set_cong append_audit_executions a unfolding append_failed_execution_event_def by blast
  then show ?thesis using assms Inr by (auto simp: fail_pre_provider_def)
qed

lemma start_execution_effect:
  assumes "start_execution sha decrypt n now cx db = (r, db')"
  shows "case r of Inl e \<Rightarrow> db' = db \<or> row_set (ex_id (cx_execution cx)) {Failed} db db'
    | Inr t \<Rightarrow> row_set (ex_id (cx_execution cx)) {Running} db db'"
proof (cases "decrypt (case ic_encrypted_access_token (cx_connection cx) of None \<Rightarrow> [] | Some t \<Rightarrow> t)")
  case None
  then show ?thesis using assms fail_pre_provider_effect by (fastforce simp: start_execution_def)
next
  case (Some t)
  show ?thesis
  proof (cases r)
    case (Inl e)
    then show ?thesis using assms Some by (auto simp: start_execution_def reply_def split: sum.splits)
  next
    case (Inr t')
    from assms Some Inr obtain db1 where
      u: "update_execution (ex_id (cx_execution cx)) (\<lambda>x. x\<lparr>ex_status := Running, ex_started_at := Some now\<rparr>) now db = Inr db1"
      and a: "\<exists>a. append_audit a db1 = Inr db'"
      by (fastforce simp: start_execution_def reply_def result_iffs split: sum.splits)
    have "row_set (ex_id (cx_execution cx)) {Running} db db1" using update_execution_row_set [OF u, of "{Running}"] by simp
    then show ?thesis using row_set_cong append_audit_executions a Inr by fastforce
  qed
qed

lemma recheck_effect:
  assumes "recheck_and_request sha n now cx t db = (r, db')"
  shows "case r of Inl e \<Rightarrow> db' = db \<or> row_set (ex_id (cx_execution cx)) {Failed} db db'
    | Inr rq \<Rightarrow> db' = db \<and> validate_evidence_for_live_execution (ap_workspace_id (cx_proposal cx)) (cx_proposal cx) db = Inr ()
        \<and> pr_repository_full_name rq = gp_repository_full_name (cx_payload cx)
        \<and> pr_body rq = body_with_execution_marker (gp_body (cx_payload cx)) (cx_execution cx)"
  using assms fail_pre_provider_effect
  by (fastforce simp: recheck_and_request_def split: sum.splits)

lemma finish_effect:
  assumes "finish_execution sha n now cx response db = (r, db')"
  shows "db' = db \<or> row_set (ex_id (cx_execution cx)) {Succeeded, Uncertain} db db'"
proof (cases response)
  case None
  show ?thesis
  proof (cases "mark_uncertain sha n now cx db")
    case (Inl e)
    then show ?thesis using assms None by (simp add: finish_execution_def)
  next
    case (Inr db2)
    then obtain f db1 a where u: "update_execution (ex_id (cx_execution cx)) f now db = Inr db1"
      "f = (\<lambda>x. x\<lparr>ex_status := Uncertain,
       ex_error_message := Some GITHUB_ISSUE_EXECUTION_OUTCOME_UNCERTAIN, ex_finished_at := None\<rparr>)"
      and a: "append_audit a db1 = Inr db2"
      by (auto simp: mark_uncertain_def result_iffs)
    have "row_set (ex_id (cx_execution cx)) {Succeeded, Uncertain} db db1"
      using update_execution_row_set [OF u(1), of "{Succeeded, Uncertain}"] by (simp add: u(2))
    then have "row_set (ex_id (cx_execution cx)) {Succeeded, Uncertain} db db2"
      using row_set_cong append_audit_executions [OF a] by blast
    then show ?thesis using assms None Inr by (auto simp: finish_execution_def)
  qed
next
  case (Some raw)
  let ?san = "dict_set ''idempotency_key'' (PStr (cx_key cx)) (sanitize_github_issue_response raw)"
  show ?thesis
  proof (cases "mark_succeeded sha n now cx ?san db")
    case (Inl e)
    then show ?thesis using assms Some by (simp add: finish_execution_def)
  next
    case (Inr db2)
    then obtain f db1 a ps where u: "update_execution (ex_id (cx_execution cx)) f now db = Inr db1"
      "f = (\<lambda>x. x\<lparr>ex_status := Succeeded, ex_provider_response := ?san,
         ex_external_id := external_id_from_response ?san, ex_error_message := None, ex_finished_at := Some now\<rparr>)"
      and a: "append_audit a (db1\<lparr>action_proposals := ps\<rparr>) = Inr db2"
      by (auto simp: mark_succeeded_def result_iffs Let_def)
    have "row_set (ex_id (cx_execution cx)) {Succeeded, Uncertain} db db1"
      using update_execution_row_set [OF u(1), of "{Succeeded, Uncertain}"] by (simp add: u(2))
    moreover have "db' = db2" using assms Some Inr by (auto simp: finish_execution_def Let_def split: option.splits)
    moreover have "action_executions db2 = action_executions db1" using append_audit_executions [OF a] by simp
    ultimately show ?thesis using row_set_cong by blast
  qed
qed

text \<open>The claim: either no row changed, or one new claimed row, checked, for this request.\<close>

definition ctx_ok :: "execution_config \<Rightarrow> exec_ctx \<Rightarrow> bool" where
  "ctx_ok cfg cx \<longleftrightarrow> enable_real_connectors cfg \<and> ap_status (cx_proposal cx) = Approved \<and>
     ap_target_provider (cx_proposal cx) = ''github'' \<and> ap_action_type (cx_proposal cx) = ''create_github_issue'' \<and>
     validate_github_issue_payload (ap_payload (cx_proposal cx)) = Inr (cx_payload cx) \<and>
     normalize_repository_full_name (gp_repository_full_name (cx_payload cx))
       \<in> set (github_write_allowed_repositories (github_write_allowed_repos cfg)) \<and>
     ic_workspace_id (cx_connection cx) = ap_workspace_id (cx_proposal cx) \<and>
     ic_provider (cx_connection cx) = ''github'' \<and> ic_status (cx_connection cx) = Connected \<and>
     ex_action_proposal_id (cx_execution cx) = ap_id (cx_proposal cx) \<and> ex_status (cx_execution cx) = Claimed"

lemma insert_claim_effect:
  assumes "insert_claim sha ids now w p inp key h payload c db = (r, db')"
  shows "(case r of Inr (ClaimTaken cx) \<Rightarrow> executions_ok db'
       \<and> action_executions db' = action_executions db @ [cx_execution cx]
       \<and> cx_execution cx = claimed_row ids now w p inp (ic_id c) key h
       \<and> cx_proposal cx = p \<and> cx_connection cx = c \<and> cx_payload cx = payload
     | _ \<Rightarrow> db' = db) \<and> action_proposals db' = action_proposals db"
proof -
  let ?x = "claimed_row ids now w p inp (ic_id c) key h"
  let ?db = "db\<lparr>action_executions := action_executions db @ [?x]\<rparr>"
  show ?thesis
  proof (cases "executions_ok ?db \<and> xi_requested_by_user_id inp \<in> u_id ` set (users db)")
    case False
    then show ?thesis using assms by (auto simp: insert_claim_def Let_def split: option.splits)
  next
    case True
    show ?thesis
    proof (cases r)
      case (Inl e)
      then show ?thesis using assms True by (auto simp: insert_claim_def Let_def reply_def split: sum.splits)
    next
      case (Inr v)
      with assms True obtain a b db2 cx where
        ab: "append_audit a ?db = Inr db2" "append_audit b db2 = Inr db'" and v: "v = ClaimTaken cx"
        "cx_execution cx = ?x" "cx_proposal cx = p" "cx_connection cx = c" "cx_payload cx = payload"
        by (fastforce simp: insert_claim_def Let_def reply_def result_iffs split: sum.splits)
      have "action_executions db' = action_executions ?db \<and> action_proposals db' = action_proposals ?db"
        using append_audit_executions [OF ab(1)] append_audit_executions [OF ab(2)] by simp
      moreover have "executions_ok db'" using True executions_ok_cong [of db' ?db] calculation by simp
      ultimately show ?thesis using v by (simp add: Inr)
    qed
  qed
qed

lemma claim_checks_Inr:
  "claim_checks cfg w cid p db = Inr (payload, c) \<Longrightarrow> ap_status p = Approved \<and> ap_target_provider p = ''github''
     \<and> ap_action_type p = ''create_github_issue'' \<and> validate_github_issue_payload (ap_payload p) = Inr payload
     \<and> validate_evidence_for_live_execution w p db = Inr ()
     \<and> normalize_repository_full_name (gp_repository_full_name payload)
          \<in> set (github_write_allowed_repositories (github_write_allowed_repos cfg))
     \<and> c \<in> set (connections db) \<and> ic_id c = cid \<and> ic_workspace_id c = w \<and> ic_provider c = ''github'' \<and> ic_status c = Connected"
  by (auto simp: claim_checks_def validate_proposal_for_execution_def validate_repository_allowlist_def
      get_connection_or_raise_def result_iffs Let_def dest: find_Some_mem find_Some_holds split: option.splits)

lemma resolve_effect:
  assumes "resolve_existing_execution sha n now p x h actor db = Inr (v, db')"
  shows "action_executions db' = action_executions db \<and> action_proposals db' = action_proposals db"
  using assms append_audit_executions by (auto simp: resolve_existing_execution_def result_iffs split: if_splits)

lemma claim_execution_effect:
  assumes "claim_execution sha cfg ids now w i inp db = (r, db')"
  shows "(case r of Inr (ClaimTaken cx) \<Rightarrow> executions_ok db' \<and> ctx_ok cfg cx
       \<and> action_executions db' = action_executions db @ [cx_execution cx]
       \<and> xi_confirm_external_write inp \<and> get_action_proposal w i db = Some (cx_proposal cx)
       \<and> get_active_or_successful_execution i db = None
     | _ \<Rightarrow> action_executions db' = action_executions db) \<and> action_proposals db' = action_proposals db"
proof (cases "(\<exists>cx. r = Inr (ClaimTaken cx))")
  case True
  then obtain cx where cx: "r = Inr (ClaimTaken cx)" by blast
  with assms obtain key p h payload c where k: "enable_real_connectors cfg" "xi_confirm_external_write inp"
      "get_action_proposal w i db = Some p" "get_active_or_successful_execution (ap_id p) db = None"
      "claim_checks cfg w (xi_connection_id inp) p db = Inr (payload, c)"
      "insert_claim sha ids now w p inp key h payload c db = (r, db')"
    by (auto simp: claim_execution_def Let_def reply_def result_iffs bindE_def
        split: sum.splits option.splits if_splits prod.splits)
  note p = get_action_proposal_Some [OF k(3)]
  show ?thesis
    using insert_claim_effect [OF k(6)] claim_checks_Inr [OF k(5)] k(1-4) p
    by (simp add: cx ctx_ok_def) (simp add: claimed_row_def)
next
  case False
  let ?same = "action_executions db' = action_executions db \<and> action_proposals db' = action_proposals db"
  let ?actor = "xi_requested_by_user_id inp"
  have res: ?same if "reply db (bindE (resolve_existing_execution sha (pi_event ids) now p x h ?actor db)
      (\<lambda>(v, d). Inr (Replied v, d))) = (r, db')" for p x h
    using that
    by (cases "resolve_existing_execution sha (pi_event ids) now p x h ?actor db")
       (auto simp: reply_def dest: resolve_effect)
  have ?same
  proof (cases "enable_real_connectors cfg \<and> xi_confirm_external_write inp")
    case gate: True
    show ?thesis
    proof (cases "required_idempotency_key (xi_idempotency_key inp)")
      case (Inl e)
      then show ?thesis using assms gate by (auto simp: claim_execution_def Let_def)
    next
      case key: (Inr key)
      show ?thesis
      proof (cases "get_action_proposal w i db")
        case None
        then show ?thesis using assms gate key by (auto simp: claim_execution_def Let_def)
      next
        case pp: (Some p)
        show ?thesis
        proof (cases "execution_request_hash sha p w (xi_connection_id inp) ?actor")
          case None
          then show ?thesis using assms gate key pp by (auto simp: claim_execution_def Let_def)
        next
          case hash: (Some h)
          note known = gate key pp hash
          show ?thesis
          proof (cases "get_execution_by_idempotency_key w key db")
            case (Some x)
            then show ?thesis using assms known res by (simp add: claim_execution_def Let_def)
          next
            case byk: None
            show ?thesis
            proof (cases "get_active_or_successful_execution (ap_id p) db")
              case (Some x)
              then show ?thesis using assms known byk res by (simp add: claim_execution_def Let_def)
            next
              case act: None
              show ?thesis
              proof (cases "claim_checks cfg w (xi_connection_id inp) p db")
                case (Inl e)
                let ?b = "append_blocked_execution_event sha (pi_event ids) now p (error_detail e) ?actor db"
                have "?same" if "?b = Inr d" "db' = d" for d
                  using that append_audit_executions unfolding append_blocked_execution_event_def by blast
                then show ?thesis using assms known byk act Inl
                  by (cases ?b) (auto simp: claim_execution_def Let_def)
              next
                case (Inr pc)
                obtain payload c where pc: "pc = (payload, c)" by (cases pc)
                have "insert_claim sha ids now w p inp key h payload c db = (r, db')"
                  using assms known byk act Inr pc by (simp add: claim_execution_def Let_def)
                from insert_claim_effect [OF this] False show ?thesis
                  by (cases r) (auto split: claim_outcome.splits)
              qed
            qed
          qed
        qed
      qed
    qed
  qed (use assms in \<open>auto simp: claim_execution_def Let_def split: if_splits\<close>)
  then show ?thesis using False by (cases r) (auto split: claim_outcome.splits)
qed

section \<open>The machine\<close>

datatype thread =
    ThClaimed exec_ctx
  | ThStarted exec_ctx string
  | ThCalled exec_ctx

fun th_ctx :: "thread \<Rightarrow> exec_ctx" where
  "th_ctx (ThClaimed cx) = cx"
| "th_ctx (ThStarted cx t) = cx"
| "th_ctx (ThCalled cx) = cx"

fun th_status :: "thread \<Rightarrow> execution_status" where
  "th_status (ThClaimed cx) = Claimed"
| "th_status (ThStarted cx t) = Running"
| "th_status (ThCalled cx) = Running"

definition exec_id :: "exec_ctx \<Rightarrow> uuid" where "exec_id cx = ex_id (cx_execution cx)"

record exec_state =
  xs_db :: action_db
  xs_threads :: "thread list"
  xs_calls :: "(exec_ctx \<times> provider_request) list"

text \<open>
  Changes of other tables: whatever is committed elsewhere without a change of the executions.
  Reconciliation, which does change them, is not a step of this machine: the machines
  \<open>recon_step\<close>, \<open>open_step\<close> and \<open>outcome_step\<close> extend it by that, and the properties about all runs are
  theirs.
\<close>

definition other_tables :: "action_db \<Rightarrow> action_db \<Rightarrow> bool" where
  "other_tables db db' \<longleftrightarrow> action_executions db' = action_executions db"

inductive exec_step :: "sha \<Rightarrow> execution_config \<Rightarrow> (string \<Rightarrow> string option) \<Rightarrow> exec_state \<Rightarrow> exec_state \<Rightarrow> bool"
  for sha cfg decrypt where
  claim: "claim_execution sha cfg ids now w i inp (xs_db s) = (r, db') \<Longrightarrow>
     exec_step sha cfg decrypt s (s\<lparr>xs_db := db',
       xs_threads := xs_threads s @ (case r of Inr (ClaimTaken cx) \<Rightarrow> [ThClaimed cx] | _ \<Rightarrow> [])\<rparr>)"
| start: "xs_threads s = a @ ThClaimed cx # b \<Longrightarrow> start_execution sha decrypt n now cx (xs_db s) = (r, db') \<Longrightarrow>
     exec_step sha cfg decrypt s (s\<lparr>xs_db := db',
       xs_threads := a @ (case r of Inr t \<Rightarrow> [ThStarted cx t] | Inl _ \<Rightarrow> []) @ b\<rparr>)"
| call: "xs_threads s = a @ ThStarted cx t # b \<Longrightarrow> recheck_and_request sha n now cx t (xs_db s) = (r, db') \<Longrightarrow>
     exec_step sha cfg decrypt s (s\<lparr>xs_db := db',
       xs_threads := a @ (case r of Inr rq \<Rightarrow> [ThCalled cx] | Inl _ \<Rightarrow> []) @ b,
       xs_calls := xs_calls s @ (case r of Inr rq \<Rightarrow> [(cx, rq)] | Inl _ \<Rightarrow> [])\<rparr>)"
| finish: "xs_threads s = a @ ThCalled cx # b \<Longrightarrow> finish_execution sha n now cx response (xs_db s) = (r, db') \<Longrightarrow>
     exec_step sha cfg decrypt s (s\<lparr>xs_db := db', xs_threads := a @ b\<rparr>)"
| crash: "xs_threads s = a @ th # b \<Longrightarrow> exec_step sha cfg decrypt s (s\<lparr>xs_threads := a @ b\<rparr>)"
| other: "other_tables (xs_db s) db' \<Longrightarrow> exec_step sha cfg decrypt s (s\<lparr>xs_db := db'\<rparr>)"

text \<open>
  The invariant: the indexes hold; every thread has an execution row of its own with the
  status of its phase; every request that was sent belongs to a row that is running,
  succeeded or uncertain, one request per row; and a thread that has not sent its request has
  none in the log.
\<close>

definition has_row :: "action_db \<Rightarrow> exec_ctx \<Rightarrow> execution_status set \<Rightarrow> bool" where
  "has_row db cx S \<longleftrightarrow> (\<exists>x\<in>set (action_executions db). ex_id x = exec_id cx
     \<and> ex_action_proposal_id x = ap_id (cx_proposal cx) \<and> ex_request_hash x = ex_request_hash (cx_execution cx)
     \<and> ex_status x \<in> S)"

fun not_sent :: "thread \<Rightarrow> bool" where
  "not_sent (ThCalled cx) = False"
| "not_sent _ = True"

definition called_ids :: "exec_state \<Rightarrow> uuid list" where
  "called_ids s = map (\<lambda>c. exec_id (fst c)) (xs_calls s)"

definition exec_inv :: "execution_config \<Rightarrow> exec_state \<Rightarrow> bool" where
  "exec_inv cfg s \<longleftrightarrow> executions_ok (xs_db s) \<and>
     distinct (map (exec_id \<circ> th_ctx) (xs_threads s)) \<and> distinct (called_ids s) \<and>
     (\<forall>th\<in>set (xs_threads s). ctx_ok cfg (th_ctx th) \<and> has_row (xs_db s) (th_ctx th) {th_status th}
        \<and> (not_sent th \<longrightarrow> exec_id (th_ctx th) \<notin> set (called_ids s))) \<and>
     (\<forall>c\<in>set (xs_calls s). ctx_ok cfg (fst c) \<and> has_row (xs_db s) (fst c) {Running, Succeeded, Uncertain}
        \<and> pr_repository_full_name (snd c) = gp_repository_full_name (cx_payload (fst c))
        \<and> pr_body (snd c) = body_with_execution_marker (gp_body (cx_payload (fst c))) (cx_execution (fst c)))"

text \<open>How rows of other executions, and of the updated one, survive an update.\<close>

lemma has_row_other:
  assumes "row_set i S db db'" "exec_id cx \<noteq> i" "has_row db cx T"
  shows "has_row db' cx T"
proof -
  from assms(1) obtain f where f: "action_executions db' = update_where (\<lambda>x. ex_id x = i) f (action_executions db)"
    by (auto simp: row_set_def)
  from assms(3) obtain x where x: "x \<in> set (action_executions db)" "ex_id x = exec_id cx"
    "ex_action_proposal_id x = ap_id (cx_proposal cx)" "ex_request_hash x = ex_request_hash (cx_execution cx)"
    "ex_status x \<in> T" by (auto simp: has_row_def)
  have "x \<in> set (action_executions db')" using x(1,2) assms(2) by (simp add: f in_update_where)
  with x show ?thesis by (auto simp: has_row_def)
qed

lemma has_row_set:
  assumes "row_set (exec_id cx) S db db'" "has_row db cx T"
  shows "has_row db' cx S"
proof -
  from assms(1) obtain f where f: "action_executions db' = update_where (\<lambda>x. ex_id x = exec_id cx) f (action_executions db)"
    and keep: "\<And>x. ex_id (f x) = ex_id x \<and> ex_action_proposal_id (f x) = ex_action_proposal_id x
       \<and> ex_request_hash (f x) = ex_request_hash x \<and> ex_status (f x) \<in> S" by (auto simp: row_set_def)
  from assms(2) obtain x where x: "x \<in> set (action_executions db)" "ex_id x = exec_id cx"
    "ex_action_proposal_id x = ap_id (cx_proposal cx)" "ex_request_hash x = ex_request_hash (cx_execution cx)"
    by (auto simp: has_row_def)
  have "f x \<in> set (action_executions db')" using x(1,2) by (auto simp: f in_update_where)
  with x keep [of x] show ?thesis by (auto simp: has_row_def)
qed

lemma has_row_same: "action_executions db' = action_executions db \<Longrightarrow> has_row db' cx T = has_row db cx T"
  by (simp add: has_row_def)

lemma has_row_mono: "has_row db cx T \<Longrightarrow> T \<subseteq> T' \<Longrightarrow> has_row db cx T'"
  by (auto simp: has_row_def)

lemma row_set_ok: "row_set i S db db' \<Longrightarrow> executions_ok db'"
  by (simp add: row_set_def)

lemma has_row_step:
  assumes "db' = db \<and> S = T \<or> row_set i S db db'" "has_row db cx T" "exec_id cx = i"
  shows "has_row db' cx S"
  using assms has_row_set by blast

lemma has_row_keep:
  assumes "db' = db \<or> row_set i S db db'" "has_row db cx T" "exec_id cx \<noteq> i"
  shows "has_row db' cx T"
  using assms has_row_other by blast

text \<open>A thread that moves one phase on (or leaves), with what it does to its own row and to the log.\<close>

lemma exec_inv_move:
  assumes I: "exec_inv cfg s" and th: "xs_threads s = a @ th # b"
    and db: "db' = xs_db s \<and> S = {th_status th} \<or> row_set (exec_id (th_ctx th)) S (xs_db s) db'"
    and sent: "not_sent th \<or> S \<subseteq> {Running, Succeeded, Uncertain}"
    and ths: "ths = [] \<or> (\<exists>th'. ths = [th'] \<and> th_ctx th' = th_ctx th \<and> S = {th_status th'}
       \<and> (not_sent th' \<longrightarrow> not_sent th \<and> cs = []))"
    and cs: "cs = [] \<or> (\<exists>rq. cs = [(th_ctx th, rq)] \<and> not_sent th \<and> S \<subseteq> {Running, Succeeded, Uncertain}
       \<and> pr_repository_full_name rq = gp_repository_full_name (cx_payload (th_ctx th))
       \<and> pr_body rq = body_with_execution_marker (gp_body (cx_payload (th_ctx th))) (cx_execution (th_ctx th)))"
  shows "exec_inv cfg (s\<lparr>xs_db := db', xs_threads := a @ ths @ b, xs_calls := xs_calls s @ cs\<rparr>)"
proof -
  let ?i = "exec_id (th_ctx th)"
  note I' = I [unfolded exec_inv_def th]
  have row: "has_row (xs_db s) (th_ctx th) {th_status th}" and ctx: "ctx_ok cfg (th_ctx th)" using I' by auto
  have own: "has_row db' (th_ctx th) S" using has_row_step [OF db row] by simp
  have db2: "db' = xs_db s \<or> row_set ?i S (xs_db s) db'" using db by blast
  have ok: "executions_ok db'" using db2 I' row_set_ok by auto
  have ids: "\<And>t. t \<in> set a \<union> set b \<Longrightarrow> exec_id (th_ctx t) \<noteq> ?i"
  proof -
    fix t assume t: "t \<in> set a \<union> set b"
    have "?i \<notin> (exec_id \<circ> th_ctx) ` (set a \<union> set b)" using I' by auto
    then show "exec_id (th_ctx t) \<noteq> ?i" using t by (metis comp_apply imageI)
  qed
  have old: "ctx_ok cfg (th_ctx t) \<and> has_row db' (th_ctx t) {th_status t}
      \<and> (not_sent t \<longrightarrow> exec_id (th_ctx t) \<notin> set (called_ids s))" if "t \<in> set a \<union> set b" for t
    using that I' ids [OF that] has_row_keep [OF db2] by auto
  have calls: "ctx_ok cfg (fst c) \<and> has_row db' (fst c) {Running, Succeeded, Uncertain}
        \<and> pr_repository_full_name (snd c) = gp_repository_full_name (cx_payload (fst c))
        \<and> pr_body (snd c) = body_with_execution_marker (gp_body (cx_payload (fst c))) (cx_execution (fst c))"
    if c: "c \<in> set (xs_calls s)" for c
  proof (cases "exec_id (fst c) = ?i")
    case True
    then have "?i \<in> set (called_ids s)" using c by (force simp: called_ids_def)
    then have "S \<subseteq> {Running, Succeeded, Uncertain}" using sent I' by auto
    moreover have h: "has_row (xs_db s) (fst c) {Running, Succeeded, Uncertain}" using I' c by blast
    have "has_row db' (fst c) {Running, Succeeded, Uncertain}"
    proof (cases "db' = xs_db s")
      case False
      then have "row_set (exec_id (fst c)) S (xs_db s) db'" using db True by simp
      from has_row_set [OF this h] calculation show ?thesis by (rule has_row_mono)
    qed (use h in simp)
    then show ?thesis using I' c by blast
  next
    case False
    then show ?thesis using I' c has_row_keep [OF db2] by blast
  qed
  have cs': "c = (th_ctx th, snd c) \<and> ctx_ok cfg (fst c) \<and> has_row db' (fst c) {Running, Succeeded, Uncertain}
        \<and> pr_repository_full_name (snd c) = gp_repository_full_name (cx_payload (fst c))
        \<and> pr_body (snd c) = body_with_execution_marker (gp_body (cx_payload (fst c))) (cx_execution (fst c))"
    if "c \<in> set cs" for c
    using that cs own ctx by (auto intro: has_row_mono)
  have new: "cs \<noteq> [] \<Longrightarrow> not_sent th" using cs by auto
  have called: "called_ids (s\<lparr>xs_db := db', xs_threads := a @ ths @ b, xs_calls := xs_calls s @ cs\<rparr>)
      = called_ids s @ (if cs = [] then [] else [?i])" using cs by (auto simp: called_ids_def)
  have fresh: "cs \<noteq> [] \<Longrightarrow> ?i \<notin> set (called_ids s)" using new I' by auto
  let ?m = "map (exec_id \<circ> th_ctx)"
  have "?m (a @ ths @ b) = ?m a @ (if ths = [] then [] else [?i]) @ ?m b" using ths by auto
  moreover have "distinct (?m a @ ?i # ?m b)" using I' by simp
  ultimately have d: "distinct (?m (a @ ths @ b))" by (simp split: if_splits)
  have t': "\<forall>t\<in>set (a @ ths @ b). ctx_ok cfg (th_ctx t) \<and> has_row db' (th_ctx t) {th_status t}
      \<and> (not_sent t \<longrightarrow> exec_id (th_ctx t) \<notin> set (called_ids s @ (if cs = [] then [] else [?i])))"
  proof
    fix t assume "t \<in> set (a @ ths @ b)"
    then consider "t \<in> set a \<union> set b" | "t \<in> set ths" by auto
    then show "ctx_ok cfg (th_ctx t) \<and> has_row db' (th_ctx t) {th_status t}
      \<and> (not_sent t \<longrightarrow> exec_id (th_ctx t) \<notin> set (called_ids s @ (if cs = [] then [] else [?i])))"
    proof cases
      case 1 then show ?thesis using old [OF 1] ids [OF 1] by auto
    next
      case 2 then show ?thesis using ths own ctx I' by auto
    qed
  qed
  show ?thesis unfolding exec_inv_def called using ok d fresh I' t' calls cs' by auto
qed

lemma exec_inv_same_rows:
  assumes "exec_inv cfg s" "action_executions db' = action_executions (xs_db s)"
  shows "exec_inv cfg (s\<lparr>xs_db := db'\<rparr>)"
  using assms executions_ok_cong [OF assms(2)] has_row_same [OF assms(2)]
  by (simp add: exec_inv_def called_ids_def)

lemma has_row_id: "has_row db cx T \<Longrightarrow> exec_id cx \<in> ex_id ` set (action_executions db)"
  by (force simp: has_row_def)

lemma exec_inv_claim:
  assumes I: "exec_inv cfg s" and ok: "executions_ok db'" "ctx_ok cfg cx"
    and rows: "action_executions db' = action_executions (xs_db s) @ [cx_execution cx]"
  shows "exec_inv cfg (s\<lparr>xs_db := db', xs_threads := xs_threads s @ [ThClaimed cx]\<rparr>)"
proof -
  have fresh: "exec_id cx \<notin> ex_id ` set (action_executions (xs_db s))"
    using ok(1) by (auto simp: executions_ok_def rows exec_id_def)
  have own: "has_row db' cx {Claimed}" using ok(2) by (auto simp: has_row_def rows exec_id_def ctx_ok_def)
  have keep: "has_row db' c T" if "has_row (xs_db s) c T" for c T using that by (auto simp: has_row_def rows)
  have t: "exec_id cx \<noteq> exec_id (th_ctx th)" if "th \<in> set (xs_threads s)" for th
    using that I fresh has_row_id by (force simp: exec_inv_def)
  have c: "exec_id cx \<notin> set (called_ids s)"
  proof
    assume "exec_id cx \<in> set (called_ids s)"
    then obtain k where "k \<in> set (xs_calls s)" "exec_id cx = exec_id (fst k)" by (auto simp: called_ids_def)
    with I fresh has_row_id [of "xs_db s" "fst k"] show False by (auto simp: exec_inv_def)
  qed
  have "called_ids (s\<lparr>xs_db := db', xs_threads := xs_threads s @ [ThClaimed cx]\<rparr>) = called_ids s"
    by (simp add: called_ids_def)
  moreover have "exec_id cx \<notin> (exec_id \<circ> th_ctx) ` set (xs_threads s)" using t by auto
  ultimately show ?thesis using I ok own keep c unfolding exec_inv_def by auto
qed

text \<open>A thread that leaves before its request was sent.\<close>

lemma exec_inv_leave:
  assumes "exec_inv cfg s" "xs_threads s = a @ th # b" "not_sent th"
    and "db' = xs_db s \<or> row_set (exec_id (th_ctx th)) {Failed} (xs_db s) db'"
  shows "exec_inv cfg (s\<lparr>xs_db := db', xs_threads := a @ b\<rparr>)"
  using assms(4)
proof
  assume "db' = xs_db s"
  then show ?thesis
    using exec_inv_move [OF assms(1,2), of db' "{th_status th}" "[]" "[]"] assms(3) by simp
next
  assume "row_set (exec_id (th_ctx th)) {Failed} (xs_db s) db'"
  then show ?thesis
    using exec_inv_move [OF assms(1,2), of db' "{Failed}" "[]" "[]"] assms(3) by simp
qed

lemma exec_step_inv:
  assumes "exec_step sha cfg decrypt s s'" "exec_inv cfg s"
  shows "exec_inv cfg s'"
  using assms(1)
proof cases
  case (claim ids now w i inp r db')
  note eff = claim_execution_effect [OF claim(2)]
  show ?thesis
  proof (cases "\<exists>cx. r = Inr (ClaimTaken cx)")
    case True
    then show ?thesis using eff exec_inv_claim [OF assms(2)] by (auto simp: claim(1))
  next
    case False
    then have "action_executions db' = action_executions (xs_db s)" "s' = s\<lparr>xs_db := db'\<rparr>"
      using eff by (auto simp: claim(1) split: sum.splits claim_outcome.splits)
    then show ?thesis using exec_inv_same_rows [OF assms(2)] by simp
  qed
next
  case (start a cx b n now r db')
  note eff = start_execution_effect [OF start(3), folded exec_id_def]
  show ?thesis
  proof (cases r)
    case (Inl e)
    then show ?thesis using exec_inv_leave [OF assms(2) start(2)] eff by (simp add: start(1))
  next
    case (Inr t)
    then show ?thesis
      using exec_inv_move [OF assms(2) start(2), of db' "{Running}" "[ThStarted cx t]" "[]"] eff
      by (simp add: start(1))
  qed
next
  case (call a cx t b n now r db')
  note eff = recheck_effect [OF call(3), folded exec_id_def]
  show ?thesis
  proof (cases r)
    case (Inl e)
    then show ?thesis using exec_inv_leave [OF assms(2) call(2)] eff by (simp add: call(1))
  next
    case (Inr rq)
    then show ?thesis
      using exec_inv_move [OF assms(2) call(2), of db' "{Running}" "[ThCalled cx]" "[(cx, rq)]"] eff
      by (simp add: call(1))
  qed
next
  case (finish a cx b n now response r db')
  note eff = finish_effect [OF finish(3), folded exec_id_def]
  then show ?thesis
    using exec_inv_move [OF assms(2) finish(2), of db' "{Succeeded, Uncertain}" "[]" "[]"]
      exec_inv_move [OF assms(2) finish(2), of db' "{Running}" "[]" "[]"]
    by (auto simp: finish(1))
next
  case (crash a th b)
  then show ?thesis
    using exec_inv_move [OF assms(2) crash(2), of "xs_db s" "{th_status th}" "[]" "[]"]
    by (cases th) auto
next
  case (other db')
  then show ?thesis using exec_inv_same_rows [OF assms(2)] by (simp add: other_tables_def)
qed

interpretation exec_machine: invariant_machine "exec_step sha cfg decrypt" "exec_inv cfg" for sha cfg decrypt
  by unfold_locales (rule exec_step_inv)

definition exec_init :: "action_db \<Rightarrow> exec_state" where
  "exec_init db = \<lparr>xs_db = db, xs_threads = [], xs_calls = []\<rparr>"

lemma exec_init_inv: "executions_ok db \<Longrightarrow> exec_inv cfg (exec_init db)"
  by (simp add: exec_init_def exec_inv_def called_ids_def)

text \<open>At most one provider write per proposal, as long as no reconciliation changes the executions.
  From a state without requests in flight, whatever execute requests for whatever proposals are
  interleaved phase by phase, whatever the provider answers, wherever processes die and whatever
  is committed in other tables: no two create-issue requests are sent for one proposal. With
  reconciliations, a proposal may get a second request after its first execution was given up.\<close>

theorem at_most_one_provider_write:
  assumes "run (exec_step sha cfg decrypt) (exec_init db) s" "executions_ok db"
  shows "distinct (map (\<lambda>c. ap_id (cx_proposal (fst c))) (xs_calls s))"
proof -
  have I: "exec_inv cfg s" by (rule exec_machine.inv_run [OF assms(1) exec_init_inv [OF assms(2)]])
  let ?act = "filter (\<lambda>x. ex_status x \<in> set ACTIVE_OR_SUCCESSFUL) (action_executions (xs_db s))"
  have uniq: "exec_id (fst c) = exec_id (fst d)"
    if cd: "c \<in> set (xs_calls s)" "d \<in> set (xs_calls s)" "ap_id (cx_proposal (fst c)) = ap_id (cx_proposal (fst d))" for c d
  proof -
    have "\<exists>x\<in>set ?act. ex_id x = exec_id (fst k) \<and> ex_action_proposal_id x = ap_id (cx_proposal (fst k))"
      if "k \<in> set (xs_calls s)" for k
    proof -
      have "has_row (xs_db s) (fst k) {Running, Succeeded, Uncertain}" using that I by (simp add: exec_inv_def)
      then show ?thesis unfolding has_row_def ACTIVE_OR_SUCCESSFUL_def by auto
    qed
    from this [OF cd(1)] this [OF cd(2)] obtain x y where
      "x \<in> set ?act" "y \<in> set ?act" "ex_action_proposal_id x = ex_action_proposal_id y"
      "ex_id x = exec_id (fst c)" "ex_id y = exec_id (fst d)" using cd(3) by auto
    moreover have "distinct (map ex_action_proposal_id ?act)" using I by (simp add: exec_inv_def executions_ok_def)
    ultimately show ?thesis by (metis distinct_map inj_onD)
  qed
  have "distinct (map (\<lambda>c. exec_id (fst c)) (xs_calls s))" using I by (simp add: exec_inv_def called_ids_def)
  then have d: "distinct (xs_calls s)" "inj_on (\<lambda>c. exec_id (fst c)) (set (xs_calls s))" by (simp_all add: distinct_map)
  have "inj_on (\<lambda>c. ap_id (cx_proposal (fst c))) (set (xs_calls s))"
    by (rule inj_onI) (use uniq d(2) in \<open>blast dest: inj_onD\<close>)
  then show ?thesis using d(1) by (simp add: distinct_map)
qed

inductive_cases exec_stepE: "exec_step sha cfg decrypt s s'"

text \<open>What a provider write rests on while no reconciliation intervenes. Whenever a step sends a create-issue request, for the
  execution \<open>x\<close> and the proposal it holds: real connectors are enabled; the proposal was an
  approved GitHub create-issue proposal whose payload validates; the repository is on the
  allow-list; the connection was a connected GitHub connection of the proposal's workspace; the
  evidence of the proposal is valid in the state in which the request is sent; the execution
  is durably recorded as running at that moment; and the issue body carries the marker of
  exactly that execution, for that repository.\<close>

theorem provider_write_authorized:
  assumes "run (exec_step sha cfg decrypt) (exec_init db) s" "executions_ok db"
    and "exec_step sha cfg decrypt s s'" "xs_calls s' \<noteq> xs_calls s"
  shows "\<exists>cx rq. xs_calls s' = xs_calls s @ [(cx, rq)] \<and> enable_real_connectors cfg
     \<and> ap_status (cx_proposal cx) = Approved \<and> ap_target_provider (cx_proposal cx) = ''github''
     \<and> ap_action_type (cx_proposal cx) = ''create_github_issue''
     \<and> validate_github_issue_payload (ap_payload (cx_proposal cx)) = Inr (cx_payload cx)
     \<and> normalize_repository_full_name (pr_repository_full_name rq)
         \<in> set (github_write_allowed_repositories (github_write_allowed_repos cfg))
     \<and> ic_workspace_id (cx_connection cx) = ap_workspace_id (cx_proposal cx)
     \<and> ic_provider (cx_connection cx) = ''github'' \<and> ic_status (cx_connection cx) = Connected
     \<and> validate_evidence_for_live_execution (ap_workspace_id (cx_proposal cx)) (cx_proposal cx) (xs_db s) = Inr ()
     \<and> (\<exists>x\<in>set (action_executions (xs_db s)). ex_id x = ex_id (cx_execution cx)
          \<and> ex_action_proposal_id x = ap_id (cx_proposal cx) \<and> ex_status x = Running)
     \<and> pr_repository_full_name rq = gp_repository_full_name (cx_payload cx)
     \<and> pr_body rq = body_with_execution_marker (gp_body (cx_payload cx)) (cx_execution cx)"
proof -
  have I: "exec_inv cfg s" by (rule exec_machine.inv_run [OF assms(1) exec_init_inv [OF assms(2)]])
  from assms(3,4) obtain a cx t b n now rq db' where
    c: "xs_threads s = a @ ThStarted cx t # b" "recheck_and_request sha n now cx t (xs_db s) = (Inr rq, db')"
       "xs_calls s' = xs_calls s @ [(cx, rq)]"
    by (elim exec_stepE) (auto split: sum.splits)
  have "ctx_ok cfg cx" "has_row (xs_db s) cx {Running}" using I c(1) by (auto simp: exec_inv_def)
  then show ?thesis using recheck_effect [OF c(2)] c(3)
    by (auto simp: ctx_ok_def has_row_def exec_id_def)
qed

section \<open>Outcomes are only recorded of requests that were sent\<close>

definition outcome_ids :: "action_db \<Rightarrow> uuid set" where
  "outcome_ids db = ex_id ` {x \<in> set (action_executions db). ex_status x \<in> {Succeeded, Uncertain}}"

definition sent_inv :: "uuid set \<Rightarrow> exec_state \<Rightarrow> bool" where
  "sent_inv base s \<longleftrightarrow> outcome_ids (xs_db s) \<subseteq> base \<union> set (called_ids s) \<and>
     (\<forall>th\<in>set (xs_threads s). not_sent th \<or> exec_id (th_ctx th) \<in> set (called_ids s))"

lemma outcome_ids_row_set:
  assumes "row_set i S db db'"
  shows "outcome_ids db' \<subseteq> outcome_ids db \<union> (if S \<inter> {Succeeded, Uncertain} = {} then {} else {i})"
  using assms by (fastforce simp: row_set_def outcome_ids_def in_update_where)

lemma outcome_ids_kept:
  "row_set i {Failed} db db' \<Longrightarrow> k \<in> outcome_ids db' \<Longrightarrow> k \<in> outcome_ids db"
  "row_set i {Running} db db' \<Longrightarrow> k \<in> outcome_ids db' \<Longrightarrow> k \<in> outcome_ids db"
  using outcome_ids_row_set [of i "{Failed}" db db'] outcome_ids_row_set [of i "{Running}" db db'] by auto

lemma exec_step_sent:
  assumes "exec_step sha cfg decrypt s s'" "sent_inv base s"
  shows "sent_inv base s'"
  using assms(1)
proof cases
  case (claim ids now w i inp r db')
  have "outcome_ids db' = outcome_ids (xs_db s)"
    using claim_execution_effect [OF claim(2)]
    by (auto simp: outcome_ids_def ctx_ok_def split: sum.splits claim_outcome.splits)
  then show ?thesis using assms(2)
    by (auto simp: claim(1) sent_inv_def called_ids_def split: sum.splits claim_outcome.splits)
next
  case (start a cx b n now r db')
  have "outcome_ids db' \<subseteq> outcome_ids (xs_db s)"
    using start_execution_effect [OF start(3)] by (auto dest: outcome_ids_kept split: sum.splits)
  then show ?thesis using assms(2) start(2)
    by (auto simp: start(1) sent_inv_def called_ids_def split: sum.splits)
next
  case (call a cx t b n now r db')
  have "outcome_ids db' \<subseteq> outcome_ids (xs_db s)"
    using recheck_effect [OF call(3)] by (auto dest: outcome_ids_kept split: sum.splits)
  then show ?thesis using assms(2) call(2)
    by (auto simp: call(1) sent_inv_def called_ids_def split: sum.splits)
next
  case (finish a cx b n now response r db')
  have "outcome_ids db' \<subseteq> outcome_ids (xs_db s) \<union> {exec_id cx}"
    using finish_effect [OF finish(3)] outcome_ids_row_set [of "exec_id cx" "{Succeeded, Uncertain}" "xs_db s" db']
    by (auto simp: exec_id_def)
  moreover have "exec_id cx \<in> set (called_ids s)" using assms(2) finish(2) by (simp add: sent_inv_def)
  ultimately show ?thesis using assms(2) finish(2)
    by (auto simp: finish(1) sent_inv_def called_ids_def)
next
  case (crash a th b)
  then show ?thesis using assms(2) by (auto simp: sent_inv_def called_ids_def)
next
  case (other db')
  then show ?thesis using assms(2) by (simp add: sent_inv_def called_ids_def other_tables_def outcome_ids_def)
qed

interpretation sent_machine: invariant_machine "exec_step sha cfg decrypt" "sent_inv base" for sha cfg decrypt base
  by unfold_locales (rule exec_step_sent)

text \<open>No outcome without a request, on the execute path alone. Every execution that is recorded as succeeded or uncertain
  after any run was so before it, or its create-issue request was sent during the run: a
  receipt is never recorded for a request that was refused, failed before the provider or was
  lost before sending.\<close>

theorem outcome_only_after_request:
  assumes "run (exec_step sha cfg decrypt) (exec_init db) s"
  shows "outcome_ids (xs_db s) \<subseteq> outcome_ids db \<union> (\<lambda>c. ex_id (cx_execution (fst c))) ` set (xs_calls s)"
proof -
  have "sent_inv (outcome_ids db) (exec_init db)" by (simp add: sent_inv_def exec_init_def)
  from sent_machine.inv_run [OF assms this] show ?thesis
    by (auto simp: sent_inv_def called_ids_def exec_id_def)
qed

section \<open>Retries\<close>

text \<open>C7. A retry never writes again. Once a proposal has an execution that is claimed, running,
  uncertain or succeeded, no execute request for it, whatever its key and input, takes a new
  claim: the executions are unchanged. And with the gates passed and a fresh key, a succeeded
  execution answers with its stored receipt and the duplicate warning (or the append of the
  audit event fails), while an unfinished or uncertain one is refused as in progress.\<close>

theorem retry_never_claims_again:
  assumes "claim_execution sha cfg ids now w i inp db = (r, db')"
    and "get_active_or_successful_execution i db = Some x"
  shows "action_executions db' = action_executions db \<and> (\<forall>cx. r \<noteq> Inr (ClaimTaken cx)) \<and>
    (enable_real_connectors cfg \<and> xi_confirm_external_write inp
       \<and> required_idempotency_key (xi_idempotency_key inp) = Inr key \<and> get_execution_by_idempotency_key w key db = None
       \<and> get_action_proposal w i db = Some p \<and> execution_request_hash sha p w (xi_connection_id inp) (xi_requested_by_user_id inp) = Some h
     \<longrightarrow> (if ex_status x = Succeeded
          then r = Inr (Replied (execution_result p x [GITHUB_ISSUE_EXECUTION_DUPLICATE_RECEIPT])) \<or> (\<exists>e. r = Inl (ExecutionAuditError e))
          else r = Inl (GitHubIssueExecutionConflictError GITHUB_ISSUE_EXECUTION_IN_PROGRESS)))"
proof -
  have x: "ex_action_proposal_id x = i" "ex_status x \<in> set ACTIVE_OR_SUCCESSFUL"
    using find_Some_holds [OF assms(2) [unfolded get_active_or_successful_execution_def]] by simp_all
  have no: "\<forall>cx. r \<noteq> Inr (ClaimTaken cx)"
    using claim_execution_effect [OF assms(1)] assms(2) by auto
  then have "action_executions db' = action_executions db"
    using claim_execution_effect [OF assms(1)] by (auto split: sum.splits claim_outcome.splits)
  moreover have "if ex_status x = Succeeded
          then r = Inr (Replied (execution_result p x [GITHUB_ISSUE_EXECUTION_DUPLICATE_RECEIPT])) \<or> (\<exists>e. r = Inl (ExecutionAuditError e))
          else r = Inl (GitHubIssueExecutionConflictError GITHUB_ISSUE_EXECUTION_IN_PROGRESS)"
    if k: "enable_real_connectors cfg" "xi_confirm_external_write inp"
       "required_idempotency_key (xi_idempotency_key inp) = Inr key" "get_execution_by_idempotency_key w key db = None"
       "get_action_proposal w i db = Some p" "execution_request_hash sha p w (xi_connection_id inp) (xi_requested_by_user_id inp) = Some h"
  proof -
    have p: "ap_id p = i" using get_action_proposal_Some [OF k(5)] by simp
    have "(r, db') = reply db (bindE (resolve_existing_execution sha (pi_event ids) now p x None (xi_requested_by_user_id inp) db)
                   (\<lambda>(v, db'). Inr (Replied v, db')))"
      using assms k p by (simp add: claim_execution_def)
    then show ?thesis using x p
      by (auto simp: reply_def resolve_existing_execution_def append_audit_def ACTIVE_OR_SUCCESSFUL_def
          bindE_def map_error_def require_def split: sum.splits prod.splits if_splits)
  qed
  ultimately show ?thesis using no by blast
qed

end
