(* ===== verification/Execution_Liveness.thy ===== *)
theory Execution_Liveness
  imports Execution_Machine "HOL-Library.Code_Target_Nat"
begin

text \<open>
  That an execution gets through when nothing stands in its way: the audit events of the
  execution service are always recorded, its updates violate no index, and so an approved
  proposal with valid evidence is claimed, started, sent and recorded as executed.
\<close>

section \<open>Audit events and updates always go through\<close>

text \<open>Appends of audit events with a regular key and a known status always succeed.\<close>

lemma append_audit_ok:
  assumes "regular_event a" "ea_status a \<in> set EXECUTION_EVENT_STATUSES"
  shows "\<exists>db'. append_audit a db = Inr db'"
proof (cases "get_execution_event_by_idempotency_key (ea_idempotency_key a) db")
  case None
  then have "ea_idempotency_key a \<notin> ev_idempotency_key ` set (execution_events db)"
    using find_key_None [of ev_idempotency_key "ea_idempotency_key a" "execution_events db"]
    by (simp add: get_execution_event_by_idempotency_key_def)
  moreover have "ev_idempotency_key (new_execution_event a) = ea_idempotency_key a" "ev_status (new_execution_event a) = ea_status a"
    using assms(1) by (simp_all add: regular_event_def new_execution_event_def)
  ultimately show ?thesis using assms(2) None
    by (simp add: append_audit_def append_execution_event_def Let_def bindE_def map_error_def)
next
  case (Some e)
  then show ?thesis by (simp add: append_audit_def append_execution_event_def bindE_def map_error_def)
qed

lemma execution_event_key_regular:
  assumes "sha256_hex sha" "\<forall>c\<in>set event_type. \<not> is_space c" "length event_type \<le> 400"
  shows "safe_text [] 500 (Some (execution_event_idempotency_key sha w i event_type b b' ph rs))
    = execution_event_idempotency_key sha w i event_type b b' ph rs"
proof -
  let ?k = "execution_event_idempotency_key sha w i event_type b b' ph rs"
  have digest: "\<not> is_space c" if "c \<in> set (stable_digest sha m)" for c m
    using that sha256_hexD(2) [OF assms(1)] by (auto simp: stable_digest_def dest: in_set_takeD)
  have prefix: "\<forall>c\<in>set ''action-execution-event:''. \<not> is_space c" "\<not> is_space CHR '':''" by code_simp+
  obtain m where k: "?k = ''action-execution-event:'' @ event_type @ [CHR '':''] @ stable_digest sha m"
    by (simp add: execution_event_idempotency_key_def Let_def)
  have "\<forall>c\<in>set ?k. \<not> is_space c"
    using assms(2) prefix digest [of _ m] unfolding k set_append ball_Un by auto
  then have "strip ?k = ?k" by (rule strip_id)
  moreover have "?k \<noteq> []" "length ?k \<le> 500"
    using assms(3) by (auto simp: execution_event_idempotency_key_def Let_def stable_digest_def)
  ultimately show ?thesis by (simp add: safe_text_def optional_text_limit_def Let_def)
qed

text \<open>So an execution's events are recorded: their types are short words.\<close>

definition plain_word :: "string \<Rightarrow> bool" where
  "plain_word t \<longleftrightarrow> (\<forall>c\<in>set t. \<not> is_space c) \<and> length t \<le> 400"

lemma execution_event_ok:
  assumes "sha256_hex sha" "plain_word event_type" "status \<in> set EXECUTION_EVENT_STATUSES"
    and "ea_idempotency_key a = ea_idempotency_key (execution_event_args sha n now p event_type status m rs actor md)"
    and "ea_status a = status"
  shows "\<exists>db'. append_audit a db = Inr db'"
  by (rule append_audit_ok)
     (use assms execution_event_key_regular in \<open>auto simp: regular_event_def execution_event_args_def plain_word_def\<close>)

lemma event_words: "plain_word ''execution_confirmation_received''" "plain_word ''execution_claimed''"
  "plain_word ''execution_started''" "plain_word ''execution_succeeded''" "plain_word ''execution_outcome_uncertain''"
  "plain_word ''execution_failed''" "''recorded'' \<in> set EXECUTION_EVENT_STATUSES"
  by (simp_all add: plain_word_def is_space_def EXECUTION_EVENT_STATUSES_def)

text \<open>Updates that keep an active execution active, and the insertion of a first one, violate no index.\<close>

lemma active_proposals_update:
  assumes "\<And>x. x \<in> set rows \<Longrightarrow> P x \<Longrightarrow> ex_action_proposal_id (f x) = ex_action_proposal_id x \<and>
     (ex_status (f x) \<in> set ACTIVE_OR_SUCCESSFUL) = (ex_status x \<in> set ACTIVE_OR_SUCCESSFUL)"
  shows "map ex_action_proposal_id (filter (\<lambda>x. ex_status x \<in> set ACTIVE_OR_SUCCESSFUL) (update_where P f rows))
    = map ex_action_proposal_id (filter (\<lambda>x. ex_status x \<in> set ACTIVE_OR_SUCCESSFUL) rows)"
  using assms by (induction rows) auto

lemma update_execution_ok:
  assumes "executions_ok db"
    and "\<And>x. ex_id (f x) = ex_id x \<and> ex_action_proposal_id (f x) = ex_action_proposal_id x
           \<and> ex_workspace_id (f x) = ex_workspace_id x \<and> ex_client_idempotency_key (f x) = ex_client_idempotency_key x
           \<and> ex_status (f x) \<in> set ACTIVE_OR_SUCCESSFUL"
    and "\<And>x. x \<in> set (action_executions db) \<Longrightarrow> ex_id x = i \<Longrightarrow> ex_status x \<in> set ACTIVE_OR_SUCCESSFUL"
  shows "update_execution i f now db = Inr (db\<lparr>action_executions := update_where (\<lambda>x. ex_id x = i)
            (\<lambda>x. (f x)\<lparr>ex_updated_at := now\<rparr>) (action_executions db)\<rparr>)"
proof -
  let ?g = "\<lambda>x. (f x)\<lparr>ex_updated_at := now\<rparr>"
  have "map ex_id (update_where (\<lambda>x. ex_id x = i) ?g (action_executions db)) = map ex_id (action_executions db)"
    by (rule map_update_where) (simp add: assms(2))
  moreover have "map (\<lambda>x. (ex_workspace_id x, ex_client_idempotency_key x)) (update_where (\<lambda>x. ex_id x = i) ?g (action_executions db))
     = map (\<lambda>x. (ex_workspace_id x, ex_client_idempotency_key x)) (action_executions db)"
    by (rule map_update_where) (simp add: assms(2))
  moreover have "map ex_action_proposal_id (filter (\<lambda>x. ex_status x \<in> set ACTIVE_OR_SUCCESSFUL) (update_where (\<lambda>x. ex_id x = i) ?g (action_executions db)))
    = map ex_action_proposal_id (filter (\<lambda>x. ex_status x \<in> set ACTIVE_OR_SUCCESSFUL) (action_executions db))"
    by (rule active_proposals_update) (use assms(2,3) in auto)
  ultimately show ?thesis using assms(1)
    by (simp add: update_execution_def executions_ok_def bindE_def require_def)
qed

lemma executions_ok_insert:
  assumes "executions_ok db" "ex_id x \<notin> ex_id ` set (action_executions db)"
    and "get_execution_by_idempotency_key (ex_workspace_id x) (ex_client_idempotency_key x) db = None"
    and "get_active_or_successful_execution (ex_action_proposal_id x) db = None"
  shows "executions_ok (db\<lparr>action_executions := action_executions db @ [x]\<rparr>)"
  using assms
  by (auto simp: executions_ok_def get_execution_by_idempotency_key_def get_active_or_successful_execution_def
      find_None_iff)

section \<open>The phases\<close>

lemma event_appended:
  assumes "sha256_hex sha" "plain_word event_type"
    and "ea_idempotency_key a = ea_idempotency_key (execution_event_args sha n now p event_type ''recorded'' m rs actor md)"
    and "ea_status a = ''recorded''"
  shows "\<exists>ev. append_audit a db = Inr (db\<lparr>execution_events := ev\<rparr>)"
  using execution_event_ok [OF assms(1,2) event_words(7) assms(3,4)] append_audit_frame by metis

lemma event_recorded:
  assumes "sha256_hex sha" "plain_word event_type"
  shows "\<exists>ev. append_audit (execution_event_args sha n now p event_type ''recorded'' m rs actor md) db
    = Inr (db\<lparr>execution_events := ev\<rparr>)"
  by (rule event_appended [OF assms refl]) (simp add: execution_event_args_def)

lemma claim_granted:
  assumes "sha256_hex sha" "executions_ok db" "enable_real_connectors cfg" "xi_confirm_external_write inp"
    and "required_idempotency_key (xi_idempotency_key inp) = Inr key" "get_action_proposal w i db = Some p"
    and "execution_request_hash sha p w (xi_connection_id inp) (xi_requested_by_user_id inp) = Some h"
    and "get_execution_by_idempotency_key w key db = None" "get_active_or_successful_execution i db = None"
    and "claim_checks cfg w (xi_connection_id inp) p db = Inr (payload, c)"
    and "pi_execution ids \<notin> ex_id ` set (action_executions db)" "xi_requested_by_user_id inp \<in> u_id ` set (users db)"
  shows "\<exists>ev. claim_execution sha cfg ids now w i inp db = (Inr (ClaimTaken
       \<lparr> cx_proposal = p, cx_execution = claimed_row ids now w p inp (ic_id c) key h, cx_connection = c,
         cx_payload = payload, cx_key = key, cx_actor = xi_requested_by_user_id inp \<rparr>),
     db\<lparr>action_executions := action_executions db @ [claimed_row ids now w p inp (ic_id c) key h], execution_events := ev\<rparr>)"
proof -
  let ?x = "claimed_row ids now w p inp (ic_id c) key h"
  let ?db1 = "db\<lparr>action_executions := action_executions db @ [?x]\<rparr>"
  let ?actor = "xi_requested_by_user_id inp"
  let ?a = "execution_event_args sha (pi_event ids) now p ''execution_confirmation_received''
            ''recorded'' ''Execution confirmation received for approved GitHub issue proposal.''
            (uuid_str (ex_id ?x) @ '':confirmation_received'') ?actor
            [(''execution_id'', PStr (uuid_str (ex_id ?x))),
             (''proposal_status'', PStr (proposal_status_text (ap_status p)))]"
  let ?b = "execution_event_args sha (pi_event2 ids) now p ''execution_claimed'' ''recorded''
            ''A durable execution claim was recorded before the provider request.'' (uuid_str (ex_id ?x)) ?actor
            [(''execution_id'', PStr (uuid_str (ex_id ?x))), (''claimed_at'', PStr (isoformat ''T'' now)),
             (''request_hash'', PStr h)]"
  have p: "ap_id p = i" using get_action_proposal_Some [OF assms(6)] by simp
  have ok: "executions_ok ?db1"
    by (rule executions_ok_insert) (use assms p in \<open>simp_all add: claimed_row_def\<close>)
  obtain ev1 where a: "append_audit ?a ?db1 = Inr (?db1\<lparr>execution_events := ev1\<rparr>)"
    using event_recorded [OF assms(1) event_words(1)] by blast
  obtain ev2 where b: "append_audit ?b (?db1\<lparr>execution_events := ev1\<rparr>) = Inr (?db1\<lparr>execution_events := ev1\<rparr>\<lparr>execution_events := ev2\<rparr>)"
    using event_recorded [OF assms(1) event_words(2)] by blast
  have "insert_claim sha ids now w p inp key h payload c db = (Inr (ClaimTaken
       \<lparr> cx_proposal = p, cx_execution = ?x, cx_connection = c, cx_payload = payload, cx_key = key, cx_actor = ?actor \<rparr>),
     ?db1\<lparr>execution_events := ev2\<rparr>)"
    using ok assms(12) a b by (simp add: insert_claim_def Let_def reply_def bindE_def)
  then show ?thesis using assms p by (auto simp: claim_execution_def Let_def)
qed

lemma execution_started:
  assumes "sha256_hex sha" "executions_ok db" "decrypt (case ic_encrypted_access_token (cx_connection cx) of None \<Rightarrow> [] | Some t \<Rightarrow> t) = Some token"
    and "\<And>x. x \<in> set (action_executions db) \<Longrightarrow> ex_id x = ex_id (cx_execution cx) \<Longrightarrow> ex_status x = Claimed"
  shows "\<exists>ev. start_execution sha decrypt n now cx db = (Inr token, db\<lparr>action_executions :=
     update_where (\<lambda>x. ex_id x = ex_id (cx_execution cx)) (\<lambda>x. x\<lparr>ex_status := Running, ex_started_at := Some now, ex_updated_at := now\<rparr>)
       (action_executions db), execution_events := ev\<rparr>)"
proof -
  let ?i = "ex_id (cx_execution cx)"
  let ?db1 = "db\<lparr>action_executions := update_where (\<lambda>x. ex_id x = ?i)
     (\<lambda>x. x\<lparr>ex_status := Running, ex_started_at := Some now, ex_updated_at := now\<rparr>) (action_executions db)\<rparr>"
  let ?a = "execution_event_args sha n now (cx_proposal cx) ''execution_started'' ''recorded''
             ''GitHub issue execution started after the durable claim was committed.'' (uuid_str ?i) (cx_actor cx)
             [(''execution_id'', PStr (uuid_str ?i)), (''repository_full_name'', PStr (gp_repository_full_name (cx_payload cx)))]"
  have u: "update_execution ?i (\<lambda>x. x\<lparr>ex_status := Running, ex_started_at := Some now\<rparr>) now db = Inr ?db1"
    by (subst update_execution_ok) (use assms in \<open>auto simp: ACTIVE_OR_SUCCESSFUL_def\<close>)
  obtain ev where "append_audit ?a ?db1 = Inr (?db1\<lparr>execution_events := ev\<rparr>)"
    using event_recorded [OF assms(1) event_words(3)] by blast
  then show ?thesis using u assms(3) by (auto simp: start_execution_def reply_def bindE_def)
qed

lemma execution_finished:
  assumes "sha256_hex sha" "executions_ok db"
    and "\<And>x. x \<in> set (action_executions db) \<Longrightarrow> ex_id x = ex_id (cx_execution cx) \<Longrightarrow> ex_status x = Running"
    and row: "ex_id (cx_execution cx) \<in> ex_id ` set (action_executions db)"
    and pr: "ap_id (cx_proposal cx) \<in> ap_id ` set (action_proposals db)"
  shows "\<exists>v db'. finish_execution sha n now cx (Some raw) db = (Inr v, db')
    \<and> (\<forall>x\<in>set (action_executions db'). ex_id x = ex_id (cx_execution cx) \<longrightarrow> ex_status x = Succeeded
         \<and> ex_provider_response x = dict_set ''idempotency_key'' (PStr (cx_key cx)) (sanitize_github_issue_response raw))
    \<and> map ex_id (action_executions db') = map ex_id (action_executions db)
    \<and> action_proposals db' = update_where (\<lambda>q. ap_id q = ap_id (cx_proposal cx))
         (\<lambda>q. q\<lparr>ap_status := Executed, ap_updated_at := now\<rparr>) (action_proposals db)"
proof -
  let ?i = "ex_id (cx_execution cx)" and ?s = "dict_set ''idempotency_key'' (PStr (cx_key cx)) (sanitize_github_issue_response raw)"
  let ?f = "\<lambda>x. x\<lparr>ex_status := Succeeded, ex_provider_response := ?s, ex_external_id := external_id_from_response ?s,
       ex_error_message := None, ex_finished_at := Some now\<rparr>"
  let ?rows = "update_where (\<lambda>x. ex_id x = ?i) (\<lambda>x. (?f x)\<lparr>ex_updated_at := now\<rparr>) (action_executions db)"
  let ?props = "update_where (\<lambda>q. ap_id q = ap_id (cx_proposal cx))
         (\<lambda>q. q\<lparr>ap_status := Executed, ap_updated_at := now\<rparr>) (action_proposals db)"
  let ?db2 = "db\<lparr>action_executions := ?rows, action_proposals := ?props\<rparr>"
  have u: "update_execution ?i ?f now db = Inr (db\<lparr>action_executions := ?rows\<rparr>)"
    by (rule update_execution_ok) (use assms(2,3) in \<open>auto simp: ACTIVE_OR_SUCCESSFUL_def\<close>)
  let ?a = "(execution_event_args sha n now (cx_proposal cx) ''execution_succeeded'' ''recorded''
         ''GitHub issue execution succeeded and provider receipt was recorded.'' (uuid_str ?i) (cx_actor cx)
         [(''execution_id'', PStr (uuid_str ?i)), (''issue_number'', py_get ?s ''number''), (''provider_state'', py_get ?s ''state'')])
       \<lparr>ea_external_result_id := external_result_id_from_response ?s,
        ea_external_result_url := external_result_url_from_response ?s\<rparr>"
  have "\<exists>ev. append_audit ?a ?db2 = Inr (?db2\<lparr>execution_events := ev\<rparr>)"
    by (rule event_appended [OF assms(1) event_words(4)]) (simp_all add: execution_event_args_def)
  then obtain ev where a: "append_audit ?a ?db2 = Inr (?db2\<lparr>execution_events := ev\<rparr>)" by blast
  have m: "mark_succeeded sha n now cx ?s db = Inr (?db2\<lparr>execution_events := ev\<rparr>)"
    using a by (simp add: mark_succeeded_def u bindE_def Let_def)
  have ids: "map ex_id ?rows = map ex_id (action_executions db)" by (rule map_update_where) simp
  have pids: "map ap_id ?props = map ap_id (action_proposals db)" by (rule map_update_where) simp
  have "find (\<lambda>x. ex_id x = ?i) ?rows \<noteq> None"
    using row ids find_key_None [of ex_id ?i ?rows] by (metis list.set_map)
  moreover have "find (\<lambda>q. ap_id q = ap_id (cx_proposal cx)) ?props \<noteq> None"
    using pr pids find_key_None [of ap_id "ap_id (cx_proposal cx)" ?props] by (metis list.set_map)
  ultimately obtain q x where "find (\<lambda>x. ex_id x = ?i) ?rows = Some x"
      "find (\<lambda>q. ap_id q = ap_id (cx_proposal cx)) ?props = Some q" by blast
  then have "finish_execution sha n now cx (Some raw) db = (Inr (execution_result q x []), ?db2\<lparr>execution_events := ev\<rparr>)"
    using m by (simp add: finish_execution_def Let_def)
  moreover have "\<forall>x\<in>set ?rows. ex_id x = ?i \<longrightarrow> ex_status x = Succeeded \<and> ex_provider_response x = ?s"
    by (auto simp: in_update_where)
  ultimately show ?thesis using ids by simp
qed

section \<open>An approved proposal can be executed\<close>

lemma evidence_cong:
  assumes "source_records db' = source_records db" "repositories db' = repositories db"
    "connections db' = connections db" "evidence_rows db' = evidence_rows db"
  shows "validate_evidence_for_live_execution w p db' = validate_evidence_for_live_execution w p db"
proof -
  have "build_direct_evidence_resolver w refs db' = build_direct_evidence_resolver w refs db" for refs
    using assms by (simp add: build_direct_evidence_resolver_def)
  then show ?thesis by (simp add: validate_evidence_for_live_execution_def validate_action_proposal_evidence_def)
qed

lemma request_sent:
  assumes "sha256_hex sha" "executions_ok db" "enable_real_connectors cfg" "xi_confirm_external_write inp"
    and "required_idempotency_key (xi_idempotency_key inp) = Inr key" "get_action_proposal w i db = Some p"
    and "execution_request_hash sha p w (xi_connection_id inp) (xi_requested_by_user_id inp) = Some h"
    and "get_execution_by_idempotency_key w key db = None" "get_active_or_successful_execution i db = None"
    and "claim_checks cfg w (xi_connection_id inp) p db = Inr (payload, c)"
    and "pi_execution ids \<notin> ex_id ` set (action_executions db)" "xi_requested_by_user_id inp \<in> u_id ` set (users db)"
    and "decrypt (case ic_encrypted_access_token c of None \<Rightarrow> [] | Some t \<Rightarrow> t) = Some token"
  shows "\<exists>cx db1 db2 rq.
    claim_execution sha cfg ids t0 w i inp db = (Inr (ClaimTaken cx), db1) \<and>
    start_execution sha decrypt n1 t1 cx db1 = (Inr token, db2) \<and>
    recheck_and_request sha n2 t2 cx token db2 = (Inr rq, db2) \<and>
    ap_id (cx_proposal cx) = i \<and> ex_id (cx_execution cx) = pi_execution ids \<and> executions_ok db2 \<and>
    (\<forall>x\<in>set (action_executions db2). ex_id x = ex_id (cx_execution cx) \<longrightarrow> ex_status x = Running) \<and>
    ex_id (cx_execution cx) \<in> ex_id ` set (action_executions db2) \<and>
    p \<in> set (action_proposals db2) \<and> ap_id p = i"
proof -
  let ?x = "claimed_row ids t0 w p inp (ic_id c) key h"
  let ?cx = "\<lparr> cx_proposal = p, cx_execution = ?x, cx_connection = c, cx_payload = payload, cx_key = key,
     cx_actor = xi_requested_by_user_id inp \<rparr>"
  have p: "p \<in> set (action_proposals db)" "ap_id p = i" "ap_workspace_id p = w"
    using get_action_proposal_Some [OF assms(6)] by simp_all
  have xid: "ex_id ?x = pi_execution ids" by (simp add: claimed_row_def)
  obtain ev1 where c1: "claim_execution sha cfg ids t0 w i inp db = (Inr (ClaimTaken ?cx),
      db\<lparr>action_executions := action_executions db @ [?x], execution_events := ev1\<rparr>)" (is "_ = (_, ?db1)")
    using claim_granted [OF assms(1-12)] by blast
  have ok1: "executions_ok ?db1" using claim_execution_effect [OF c1] by simp
  have mine: "x = ?x" if "x \<in> set (action_executions ?db1)" "ex_id x = ex_id (cx_execution ?cx)" for x
    using that assms(11) xid by force
  have claimed: "ex_status x = Claimed" if "x \<in> set (action_executions ?db1)" "ex_id x = ex_id (cx_execution ?cx)" for x
    using mine [OF that] by (simp add: claimed_row_def)
  have dec: "decrypt (case ic_encrypted_access_token (cx_connection ?cx) of None \<Rightarrow> [] | Some t \<Rightarrow> t) = Some token"
    using assms(13) by simp
  obtain ev2 where c2: "start_execution sha decrypt n1 t1 ?cx ?db1 = (Inr token, ?db1\<lparr>action_executions :=
     update_where (\<lambda>x. ex_id x = ex_id (cx_execution ?cx)) (\<lambda>x. x\<lparr>ex_status := Running, ex_started_at := Some t1, ex_updated_at := t1\<rparr>)
       (action_executions ?db1), execution_events := ev2\<rparr>)" (is "_ = (_, ?db2)")
    using execution_started [of sha ?db1 decrypt ?cx token, OF assms(1) ok1 dec claimed] by blast
  have ok2: "executions_ok ?db2" using start_execution_effect [OF c2] by (simp add: row_set_def)
  have "validate_evidence_for_live_execution w p ?db2 = Inr ()"
    using claim_checks_Inr [OF assms(10)] evidence_cong [of ?db2 db w p] by simp
  then have c3: "\<exists>rq. recheck_and_request sha n2 t2 ?cx token ?db2 = (Inr rq, ?db2)"
    using p by (simp add: recheck_and_request_def)
  have "ex_status x = Running" if "x \<in> set (action_executions ?db2)" "ex_id x = ex_id (cx_execution ?cx)" for x
    using that by (auto simp: in_update_where)
  moreover have "ex_id (cx_execution ?cx) \<in> ex_id ` set (action_executions ?db2)" "p \<in> set (action_proposals ?db2)"
    using p(1) by auto
  moreover have "ap_id (cx_proposal ?cx) = i" "ex_id (cx_execution ?cx) = pi_execution ids" using p xid by simp_all
  ultimately show ?thesis using c1 c2 c3 ok2 p(2) by blast
qed

text \<open>C5. An approved proposal with everything in place can be executed. If real connectors are
  enabled, the write is confirmed with a usable fresh key, the proposal has no active execution
  and passes the claim checks (approved, valid payload and evidence, allowed repository,
  connected token that decrypts), then the four phases, run one after the other, claim the
  execution, start it, send the request and, when the provider answers, return its receipt
  with the execution recorded as succeeded and the proposal as executed.\<close>

theorem approved_proposal_executes:
  assumes "sha256_hex sha" "executions_ok db" "enable_real_connectors cfg" "xi_confirm_external_write inp"
    and "required_idempotency_key (xi_idempotency_key inp) = Inr key" "get_action_proposal w i db = Some p"
    and "execution_request_hash sha p w (xi_connection_id inp) (xi_requested_by_user_id inp) = Some h"
    and "get_execution_by_idempotency_key w key db = None" "get_active_or_successful_execution i db = None"
    and "claim_checks cfg w (xi_connection_id inp) p db = Inr (payload, c)"
    and "pi_execution ids \<notin> ex_id ` set (action_executions db)" "xi_requested_by_user_id inp \<in> u_id ` set (users db)"
    and "decrypt (case ic_encrypted_access_token c of None \<Rightarrow> [] | Some t \<Rightarrow> t) = Some token"
  shows "\<exists>cx db1 db2 rq v db3.
    claim_execution sha cfg ids t0 w i inp db = (Inr (ClaimTaken cx), db1) \<and>
    start_execution sha decrypt n1 t1 cx db1 = (Inr token, db2) \<and>
    recheck_and_request sha n2 t2 cx token db2 = (Inr rq, db2) \<and>
    finish_execution sha n3 t3 cx (Some raw) db2 = (Inr v, db3) \<and>
    (\<exists>x\<in>set (action_executions db3). ex_id x = pi_execution ids \<and> ex_status x = Succeeded) \<and>
    (\<exists>q\<in>set (action_proposals db3). ap_id q = i \<and> ap_status q = Executed)"
proof -
  obtain cx db1 db2 rq where r: "claim_execution sha cfg ids t0 w i inp db = (Inr (ClaimTaken cx), db1)"
    "start_execution sha decrypt n1 t1 cx db1 = (Inr token, db2)"
    "recheck_and_request sha n2 t2 cx token db2 = (Inr rq, db2)"
    "ap_id (cx_proposal cx) = i" "ex_id (cx_execution cx) = pi_execution ids" "executions_ok db2"
    "\<forall>x\<in>set (action_executions db2). ex_id x = ex_id (cx_execution cx) \<longrightarrow> ex_status x = Running"
    "ex_id (cx_execution cx) \<in> ex_id ` set (action_executions db2)" "p \<in> set (action_proposals db2)" "ap_id p = i"
    using request_sent [of sha db cfg inp key w i p h payload c ids decrypt token t0 n1 t1 n2 t2, OF assms] by blast
  have "ap_id (cx_proposal cx) \<in> ap_id ` set (action_proposals db2)" using r(4,9,10) by (metis imageI)
  then obtain v db3 where c4: "finish_execution sha n3 t3 cx (Some raw) db2 = (Inr v, db3)"
    "\<forall>x\<in>set (action_executions db3). ex_id x = ex_id (cx_execution cx) \<longrightarrow> ex_status x = Succeeded"
    "map ex_id (action_executions db3) = map ex_id (action_executions db2)"
    "action_proposals db3 = update_where (\<lambda>q. ap_id q = ap_id (cx_proposal cx))
         (\<lambda>q. q\<lparr>ap_status := Executed, ap_updated_at := t3\<rparr>) (action_proposals db2)"
    using execution_finished [of sha db2 cx, OF assms(1) r(6) _ r(8)] r(7) by blast
  have "ex_id (cx_execution cx) \<in> ex_id ` set (action_executions db3)"
    using r(8) c4(3) by (metis list.set_map)
  then have s: "\<exists>x\<in>set (action_executions db3). ex_id x = pi_execution ids \<and> ex_status x = Succeeded"
    using c4(2) r(5) by fastforce
  have "\<exists>q\<in>set (action_proposals db3). ap_id q = i \<and> ap_status q = Executed"
  proof (rule bexI [of _ "p\<lparr>ap_status := Executed, ap_updated_at := t3\<rparr>"])
    show "p\<lparr>ap_status := Executed, ap_updated_at := t3\<rparr> \<in> set (action_proposals db3)"
      unfolding c4(4) in_update_where using r(4,9,10) by auto
  qed (use r(10) in simp)
  with r(1-3) c4(1) s show ?thesis by blast
qed

section \<open>An execution at concrete tables\<close>

definition example_approved :: action_proposal where
  "example_approved = example_proposal\<lparr>ap_status := Approved, ap_approved_by_user_id := Some 1, ap_approved_at := Some 5\<rparr>"

definition example_exec_db :: action_db where
  "example_exec_db = example_db\<lparr>action_proposals := [example_approved]\<rparr>"

definition example_cfg :: execution_config where
  "example_cfg = \<lparr> enable_real_connectors = True, github_write_allowed_repos = Some ''a/b'' \<rparr>"

definition example_input :: execution_input where
  "example_input = \<lparr> xi_connection_id = 61, xi_confirm_external_write = True, xi_requested_by_user_id = 1,
     xi_idempotency_key = ''key-0001'' \<rparr>"

definition example_phase_ids :: phase_ids where
  "example_phase_ids = \<lparr> pi_execution = 100, pi_event = 101, pi_event2 = 102 \<rparr>"

definition example_issue :: issue_payload where
  "example_issue = \<lparr> gp_repository_full_name = ''a/b'', gp_title = ''T'', gp_body = Some ''B'', gp_labels = [], gp_assignees = [] \<rparr>"

definition zero_hash :: string where "zero_hash = replicate 64 CHR ''0''"

lemma example_key: "required_idempotency_key (xi_idempotency_key example_input) = Inr ''key-0001''"
  by code_simp

lemma example_hash:
  assumes "plain (PDict (ap_payload p))" "plain (PList (ap_evidence_refs p))"
  shows "execution_request_hash zero_sha p w c u = Some zero_hash"
proof -
  have "plain (PDict [(''workspace_id'', PStr (uuid_str w)), (''proposal_id'', PStr (uuid_str (ap_id p))),
        (''proposal_updated_at'', PStr (isoformat ''T'' (ap_updated_at p))),
        (''target_provider'', PStr (ap_target_provider p)), (''action_type'', PStr (ap_action_type p)),
        (''payload'', PDict (ap_payload p)), (''evidence_refs'', PList (ap_evidence_refs p)),
        (''connection_id'', PStr (uuid_str c)), (''requested_by_user_id'', PStr (uuid_str u))])"
    using assms by simp
  from dumps_plain(1) [OF this, of request_json_opts] show ?thesis
    unfolding execution_request_hash_def by (auto simp del: dumps.simps simp: zero_sha_def zero_hash_def)
qed

lemma example_payload_valid: "validate_github_issue_payload (ap_payload example_approved) = Inr example_issue"
  by code_simp

lemma length_utf8: "length (utf8 s) \<le> 2 * length s"
  by (induction s) (auto simp: utf8_def Let_def)

lemma example_capacity: "validate_body_marker_capacity (Some ''B'') = Inr ()"
proof -
  let ?t = "with_marker (Some ''B'') (marker_text (uuid_str 0) (replicate 64 CHR ''0''))"
  have "length ?t \<le> 1000" by (simp add: with_marker_def marker_text_def newline2_def uuid_str_length)
  then have "length (utf8 ?t) \<le> GITHUB_ISSUE_BODY_MAX_BYTES"
    using length_utf8 [of ?t] by (simp add: GITHUB_ISSUE_BODY_MAX_BYTES_def)
  then show ?thesis by (simp add: validate_body_marker_capacity_def require_def)
qed

lemma example_allowed: "validate_repository_allowlist (github_write_allowed_repos example_cfg) example_issue = Inr ()"
  by code_simp

lemma example_evidence_live: "example_world db \<Longrightarrow> validate_evidence_for_live_execution 2 example_approved db = Inr ()"
  using example_validated [of example_approved db]
  by (simp add: validate_evidence_for_live_execution_def bindE_def require_def map_error_def example_approved_def
      example_proposal_def)

lemma example_claim_checks: "claim_checks example_cfg 2 61 example_approved example_exec_db = Inr (example_issue, example_connection)"
proof -
  have "example_world example_exec_db" by (simp add: example_world_def example_exec_db_def)
  moreover have "get_connection_or_raise 2 61 example_exec_db = Inr example_connection"
    by (simp add: get_connection_or_raise_def example_exec_db_def example_db_simps example_connection_def bindE_def require_def)
  moreover have "validate_proposal_for_execution example_approved = Inr ()"
    by (simp add: validate_proposal_for_execution_def example_approved_def example_proposal_def bindE_def require_def)
  moreover have "gp_body example_issue = Some ''B''" by (simp add: example_issue_def)
  ultimately show ?thesis using example_evidence_live [of example_exec_db]
    by (simp add: claim_checks_def bindE_def example_payload_valid example_capacity example_allowed)
qed

lemma example_exec_state: "executions_ok example_exec_db" "action_executions example_exec_db = []"
  "get_action_proposal 2 7 example_exec_db = Some example_approved" "1 \<in> u_id ` set (users example_exec_db)"
  by (simp_all add: executions_ok_def example_exec_db_def example_db_simps get_action_proposal_def
      example_approved_def example_proposal_def example_auth_def example_workspace_def identity_db.defs)

lemma example_request_hash: "execution_request_hash zero_sha example_approved 2 (xi_connection_id example_input)
    (xi_requested_by_user_id example_input) = Some zero_hash"
  by (rule example_hash) (simp_all add: example_approved_def example_proposal_def example_ref_def)

lemma example_preconditions: "enable_real_connectors example_cfg" "xi_confirm_external_write example_input"
  "get_execution_by_idempotency_key 2 k example_exec_db = None" "get_active_or_successful_execution 7 example_exec_db = None"
  "claim_checks example_cfg 2 (xi_connection_id example_input) example_approved example_exec_db = Inr (example_issue, example_connection)"
  "pi_execution example_phase_ids \<notin> ex_id ` set (action_executions example_exec_db)"
  "xi_requested_by_user_id example_input \<in> u_id ` set (users example_exec_db)"
  "Some (case ic_encrypted_access_token example_connection of None \<Rightarrow> [] | Some t \<Rightarrow> t) = Some ''enc''"
  using example_exec_state example_claim_checks
  by (simp_all add: example_cfg_def example_input_def get_execution_by_idempotency_key_def
        get_active_or_successful_execution_def example_connection_def)

lemmas example_executable = zero_sha_hex example_exec_state(1) example_preconditions(1,2) example_key example_exec_state(3)
  example_request_hash example_preconditions(3-8)

theorem approved_proposal_executes_witness:
  "\<exists>cx db1 db2 rq v db3.
    claim_execution zero_sha example_cfg example_phase_ids 10 2 7 example_input example_exec_db = (Inr (ClaimTaken cx), db1) \<and>
    start_execution zero_sha Some 103 11 cx db1 = (Inr ''enc'', db2) \<and>
    recheck_and_request zero_sha 104 12 cx ''enc'' db2 = (Inr rq, db2) \<and>
    finish_execution zero_sha 105 13 cx (Some [(''number'', PInt 5)]) db2 = (Inr v, db3) \<and>
    (\<exists>q\<in>set (action_proposals db3). ap_id q = 7 \<and> ap_status q = Executed)"
  using approved_proposal_executes [where decrypt = Some, OF example_executable] by meson

lemma example_run:
  obtains cx rq s s' where "run (exec_step zero_sha example_cfg Some) (exec_init example_exec_db) s"
    "exec_step zero_sha example_cfg Some s s'" "xs_calls s = []" "xs_calls s' = [(cx, rq)]"
    "ap_id (cx_proposal cx) = 7"
proof -
  obtain cx db1 db2 rq where r: "claim_execution zero_sha example_cfg example_phase_ids 10 2 7 example_input example_exec_db = (Inr (ClaimTaken cx), db1)"
    "start_execution zero_sha Some 103 11 cx db1 = (Inr ''enc'', db2)"
    "recheck_and_request zero_sha 104 12 cx ''enc'' db2 = (Inr rq, db2)" "ap_id (cx_proposal cx) = 7"
    using request_sent [where decrypt = Some, OF example_executable] by blast
  let ?s0 = "exec_init example_exec_db"
  let ?s1 = "\<lparr>xs_db = db1, xs_threads = [ThClaimed cx], xs_calls = []\<rparr>"
  let ?s2 = "\<lparr>xs_db = db2, xs_threads = [ThStarted cx ''enc''], xs_calls = []\<rparr>"
  let ?s3 = "\<lparr>xs_db = db2, xs_threads = [ThCalled cx], xs_calls = [(cx, rq)]\<rparr>"
  have "exec_step zero_sha example_cfg Some ?s0 ?s1"
    using exec_step.claim [of zero_sha example_cfg example_phase_ids 10 2 7 example_input ?s0
        "Inr (ClaimTaken cx)" db1 Some] r(1) by (simp add: exec_init_def)
  moreover have "exec_step zero_sha example_cfg Some ?s1 ?s2"
    using exec_step.start [of ?s1 "[]" cx "[]" zero_sha Some 103 11 "Inr ''enc''" db2 example_cfg] r(2) by simp
  moreover have "exec_step zero_sha example_cfg Some ?s2 ?s3"
    using exec_step.call [of ?s2 "[]" cx "''enc''" "[]" zero_sha 104 12 "Inr rq" db2 example_cfg Some] r(3) by simp
  ultimately show thesis
    using that [of ?s2 ?s3 cx rq] r(4) run.intros [of "exec_step zero_sha example_cfg Some"] by simp blast
qed

theorem at_most_one_provider_write_witness:
  "\<exists>s c. run (exec_step zero_sha example_cfg Some) (exec_init example_exec_db) s \<and> xs_calls s = [c]
     \<and> distinct (map (\<lambda>c. ap_id (cx_proposal (fst c))) (xs_calls s))"
proof -
  obtain cx rq s s' where r: "run (exec_step zero_sha example_cfg Some) (exec_init example_exec_db) s"
    "exec_step zero_sha example_cfg Some s s'" "xs_calls s' = [(cx, rq)]" by (rule example_run)
  have "run (exec_step zero_sha example_cfg Some) (exec_init example_exec_db) s'" using r(1,2) by (rule run.run_step)
  from at_most_one_provider_write [OF this example_exec_state(1)] this r(3) show ?thesis by blast
qed

theorem provider_write_authorized_witness:
  "\<exists>s s' cx rq. exec_step zero_sha example_cfg Some s s' \<and> xs_calls s' = xs_calls s @ [(cx, rq)]
     \<and> ap_status (cx_proposal cx) = Approved \<and> pr_body rq = body_with_execution_marker (gp_body (cx_payload cx)) (cx_execution cx)"
proof -
  obtain cx rq s s' where r: "run (exec_step zero_sha example_cfg Some) (exec_init example_exec_db) s"
    "exec_step zero_sha example_cfg Some s s'" "xs_calls s = []" "xs_calls s' = [(cx, rq)]" by (rule example_run)
  then have "xs_calls s' \<noteq> xs_calls s" by simp
  from provider_write_authorized [OF r(1) example_exec_state(1) r(2) this] r(2) show ?thesis by blast
qed

theorem outcome_only_after_request_witness:
  "\<exists>s c. run (exec_step zero_sha example_cfg Some) (exec_init example_exec_db) s \<and> xs_calls s = [c]
     \<and> outcome_ids (xs_db s) \<subseteq> {ex_id (cx_execution (fst c))}"
proof -
  obtain cx rq s s' where r: "run (exec_step zero_sha example_cfg Some) (exec_init example_exec_db) s"
    "exec_step zero_sha example_cfg Some s s'" "xs_calls s' = [(cx, rq)]" by (rule example_run)
  have run: "run (exec_step zero_sha example_cfg Some) (exec_init example_exec_db) s'" using r(1,2) by (rule run.run_step)
  have "outcome_ids example_exec_db = {}" by (simp add: outcome_ids_def example_exec_state)
  with outcome_only_after_request [OF run] run r(3) show ?thesis by auto
qed

theorem retry_never_claims_again_witness:
  "\<exists>cx db1. claim_execution zero_sha example_cfg example_phase_ids 10 2 7 example_input example_exec_db = (Inr (ClaimTaken cx), db1)
     \<and> fst (claim_execution zero_sha example_cfg example_phase_ids 20 2 7 (example_input\<lparr>xi_idempotency_key := ''key-0002''\<rparr>) db1)
        = Inl (GitHubIssueExecutionConflictError GITHUB_ISSUE_EXECUTION_IN_PROGRESS)"
proof -
  let ?x = "claimed_row example_phase_ids 10 2 example_approved example_input (ic_id example_connection) ''key-0001'' zero_hash"
  let ?in = "example_input\<lparr>xi_idempotency_key := ''key-0002''\<rparr>"
  obtain cx db1 ev where c: "claim_execution zero_sha example_cfg example_phase_ids 10 2 7 example_input example_exec_db
      = (Inr (ClaimTaken cx), db1)"
    and db1: "db1 = example_exec_db\<lparr>action_executions := action_executions example_exec_db @ [?x], execution_events := ev\<rparr>"
    using claim_granted [where now = 10, OF zero_sha_hex example_exec_state(1) example_preconditions(1,2) example_key
        example_exec_state(3) example_request_hash example_preconditions(3-7)] by blast
  have rows: "action_executions db1 = [?x]" by (simp add: db1 example_exec_state)
  have k2: "required_idempotency_key (xi_idempotency_key ?in) = Inr ''key-0002''" by code_simp
  have act: "get_active_or_successful_execution 7 db1 = Some ?x"
    by (simp add: get_active_or_successful_execution_def rows claimed_row_def ACTIVE_OR_SUCCESSFUL_def
        example_approved_def example_proposal_def)
  have byk: "get_execution_by_idempotency_key 2 ''key-0002'' db1 = None"
    by (simp add: get_execution_by_idempotency_key_def rows claimed_row_def)
  have p: "get_action_proposal 2 7 db1 = Some example_approved"
    using example_exec_state(3) by (simp add: db1 get_action_proposal_def)
  have h: "execution_request_hash zero_sha example_approved 2 (xi_connection_id ?in) (xi_requested_by_user_id ?in) = Some zero_hash"
    using example_request_hash by simp
  have g: "enable_real_connectors example_cfg" "xi_confirm_external_write ?in" using example_preconditions by simp_all
  have "ex_status ?x \<noteq> Succeeded" by (simp add: claimed_row_def)
  then show ?thesis
    using retry_never_claims_again [OF surjective_pairing act, of zero_sha example_cfg example_phase_ids 20 2 ?in "''key-0002''" example_approved zero_hash]
      k2 byk p h g c by auto
qed

section \<open>The same key after the success\<close>

text \<open>A retry under the same key after success is refused instead of answered. The request hash
  covers the proposal's \<^verbatim>\<open>updated_at\<close>, which the success itself changes: the status becomes
  executed, and the flush of the row sets the time. The same request with the same key then
  has another hash than the one its execution stored, so it is reported as a key reused with
  a different request, although its receipt is stored and a retry under a fresh key gets it.\<close>

theorem same_key_retry_after_success_is_refused:
  assumes "enable_real_connectors cfg" "xi_confirm_external_write inp"
    and "required_idempotency_key (xi_idempotency_key inp) = Inr key"
    and "execution_request_hash sha p w (xi_connection_id inp) (xi_requested_by_user_id inp) = Some h"
    and "get_execution_by_idempotency_key w key db = Some x" "ex_request_hash x = h" "ex_status x = Succeeded"
    and "get_action_proposal w i db = Some (p\<lparr>ap_status := Executed, ap_updated_at := t\<rparr>)"
    and "execution_request_hash sha (p\<lparr>ap_updated_at := t\<rparr>) w (xi_connection_id inp) (xi_requested_by_user_id inp) = Some h'"
    and "h' \<noteq> h"
  shows "claim_execution sha cfg ids now w i inp db
    = (Inl (GitHubIssueExecutionConflictError GITHUB_ISSUE_EXECUTION_IDEMPOTENCY_REUSED), db)"
proof -
  have "execution_request_hash sha (p\<lparr>ap_status := Executed, ap_updated_at := t\<rparr>) w (xi_connection_id inp)
      (xi_requested_by_user_id inp) = Some h'"
    using assms(9) by (simp add: execution_request_hash_def)
  then show ?thesis using assms
    by (simp add: claim_execution_def Let_def resolve_existing_execution_def reply_def bindE_def require_def)
qed

definition example_bare :: action_proposal where
  "example_bare = example_approved\<lparr>ap_payload := [], ap_evidence_refs := []\<rparr>"

definition example_executed :: action_execution where
  "example_executed = (claimed_row example_phase_ids 10 2 example_bare example_input 61 ''key-0001''
     (the (execution_request_hash id example_bare 2 61 1)))\<lparr>ex_status := Succeeded\<rparr>"

lemma example_hash_changed: "execution_request_hash id (example_bare\<lparr>ap_updated_at := 13\<rparr>) 2 61 1
    \<noteq> execution_request_hash id example_bare 2 61 1"
  by code_simp

lemma example_bare_ids: "ap_id example_bare = 7" "ap_workspace_id example_bare = 2"
  by (simp_all add: example_bare_def example_approved_def example_proposal_def)

theorem same_key_retry_after_success_is_refused_witness:
  "claim_execution id example_cfg example_phase_ids 20 2 7 example_input
     (example_exec_db\<lparr>action_proposals := [example_bare\<lparr>ap_status := Executed, ap_updated_at := 13\<rparr>],
        action_executions := [example_executed]\<rparr>)
    = (Inl (GitHubIssueExecutionConflictError GITHUB_ISSUE_EXECUTION_IDEMPOTENCY_REUSED),
     example_exec_db\<lparr>action_proposals := [example_bare\<lparr>ap_status := Executed, ap_updated_at := 13\<rparr>],
        action_executions := [example_executed]\<rparr>)"
proof -
  have some: "execution_request_hash id (example_bare\<lparr>ap_updated_at := t\<rparr>) 2 61 1 \<noteq> None" for t
    using dumps_plain(3)
    by (simp add: execution_request_hash_def example_bare_def request_json_opts_def)
  obtain h' where h': "execution_request_hash id (example_bare\<lparr>ap_updated_at := 13\<rparr>) 2 61 1 = Some h'"
    using some [of 13] by blast
  obtain h where h: "execution_request_hash id example_bare 2 61 1 = Some h"
    using some [of "ap_updated_at example_bare"] by (auto simp: example_bare_def)
  show ?thesis
  proof (rule same_key_retry_after_success_is_refused [where x = example_executed, OF _ _ example_key])
    show "execution_request_hash id example_bare 2 (xi_connection_id example_input) (xi_requested_by_user_id example_input) = Some h"
      using h by (simp add: example_input_def)
    show "execution_request_hash id (example_bare\<lparr>ap_updated_at := 13\<rparr>) 2 (xi_connection_id example_input)
       (xi_requested_by_user_id example_input) = Some h'" using h' by (simp add: example_input_def)
    show "h' \<noteq> h" using example_hash_changed h h' by simp
  qed (simp_all add: example_cfg_def example_input_def get_execution_by_idempotency_key_def get_action_proposal_def
      example_executed_def claimed_row_def h [simplified] example_bare_ids)
qed

end
