(* ===== verification/Provider_Client.thy ===== *)
theory Provider_Client
  imports Stdlib_Text
begin

text \<open>
  The read and write requests to GitHub: \<^verbatim>\<open>app/services/github_issue_client.py\<close>,
  \<^verbatim>\<open>github_pull_request_client.py\<close>, \<^verbatim>\<open>github_repository_client.py\<close> and the error text of
  \<^verbatim>\<open>github_provider_error.py\<close>. What httpx and the network do is the argument \<open>http\<close>: the
  response to a request (with its query, its JSON or form body and its basic authentication), or
  \<^const>\<open>None\<close> for an \<^verbatim>\<open>httpx.HTTPError\<close>. A body that is not JSON makes
  \<^verbatim>\<open>response.json()\<close> raise a \<^verbatim>\<open>ValueError\<close>, which these clients do not catch.
\<close>

section \<open>Requests and responses\<close>

record http_request =
  rq_method :: string
  rq_url :: string
  rq_headers :: "(string \<times> string) list"
  rq_params :: "(string \<times> pyval) list"
  rq_json :: "pydict option"
  rq_form :: "(string \<times> string) list"
  rq_auth :: "(string \<times> string) option"

record http_response =
  rs_status :: int
  rs_json :: "pyval option"
  rs_header :: "string \<Rightarrow> string option"

datatype client_error = ClientError string | ClientJsonError

type_synonym transport = "http_request \<Rightarrow> http_response option"

definition GITHUB_API_BASE_URL :: string where "GITHUB_API_BASE_URL = ''https://api.github.com''"

definition github_headers :: "string \<Rightarrow> (string \<times> string) list" where
  "github_headers access_token =
     [(''Authorization'', ''Bearer '' @ access_token), (''Accept'', ''application/vnd.github+json''),
      (''User-Agent'', ''founderOS'')]"

definition get_request :: "string \<Rightarrow> string \<Rightarrow> (string \<times> pyval) list \<Rightarrow> http_request" where
  "get_request access_token url params = \<lparr> rq_method = ''GET'', rq_url = url,
     rq_headers = github_headers access_token, rq_params = params, rq_json = None,
     rq_form = [], rq_auth = None \<rparr>"

definition ok_status :: "http_response \<Rightarrow> bool" where
  "ok_status r \<longleftrightarrow> \<not> (rs_status r < 200 \<or> rs_status r \<ge> 300)"

section \<open>The error text\<close>

definition response_message :: "http_response \<Rightarrow> string option" where
  "response_message r = (case rs_json r of Some (PDict d) \<Rightarrow>
     (case py_get d ''message'' of
        PStr m \<Rightarrow> (let stripped = join '' '' (split_space (strip m)) in
          if stripped = [] then None else Some (take 300 stripped))
      | _ \<Rightarrow> None)
   | _ \<Rightarrow> None)"

definition safe_header :: "string option \<Rightarrow> string option" where
  "safe_header v = (case v of None \<Rightarrow> None
     | Some s \<Rightarrow> if strip s = [] then None else Some (take 80 (strip s)))"

definition part :: "string \<Rightarrow> string option \<Rightarrow> string list" where
  "part label v = (case v of None \<Rightarrow> [] | Some s \<Rightarrow> [label @ s])"

definition rate_limit_parts :: "http_response \<Rightarrow> string option \<Rightarrow> string list" where
  "rate_limit_parts r message =
     (let retry_after = safe_header (rs_header r ''retry-after'');
          remaining = safe_header (rs_header r ''x-ratelimit-remaining'');
          reset = safe_header (rs_header r ''x-ratelimit-reset'');
          resource = safe_header (rs_header r ''x-ratelimit-resource'');
          message_text = casefold (case message of None \<Rightarrow> [] | Some m \<Rightarrow> m);
          rate_limited = (rs_status r = 429 \<or> retry_after \<noteq> None \<or> remaining = Some ''0''
            \<or> is_infix ''rate limit'' message_text \<or> is_infix ''secondary rate limit'' message_text) in
      if \<not> rate_limited then []
      else ''rate_limited=true'' # part ''retry_after_seconds='' retry_after
        @ part ''rate_limit_reset_epoch='' reset @ part ''rate_limit_remaining='' remaining
        @ part ''rate_limit_resource='' resource)"

definition safe_github_response_detail :: "http_response \<Rightarrow> string \<Rightarrow> string" where
  "safe_github_response_detail r operation =
     (let message = response_message r in
      join ''; '' ([operation @ '' failed'', ''http_'' @ show_int (rs_status r)]
        @ part ''message='' message @ rate_limit_parts r message))"

text \<open>\<^verbatim>\<open>s.replace(old, new)\<close>.\<close>

function replace_all :: "string \<Rightarrow> string \<Rightarrow> string \<Rightarrow> string" where
  "replace_all x y [] = []"
| "replace_all x y (c # cs) = (if x \<noteq> [] \<and> is_prefix x (c # cs)
     then y @ replace_all x y (drop (length x) (c # cs)) else c # replace_all x y cs)"
  by pat_completeness auto
termination by (relation "measure (\<lambda>(_, _, s). length s)") auto

definition issue_detail :: "http_response \<Rightarrow> string" where
  "issue_detail r = safe_github_response_detail r ''github issue request''"

definition issue_read_detail :: "http_response \<Rightarrow> string" where
  "issue_read_detail r = replace_all ''github issue request'' ''github issue read request'' (issue_detail r)"

section \<open>Single issues\<close>

definition create_issue_payload :: "string \<Rightarrow> string option \<Rightarrow> string list \<Rightarrow> string list \<Rightarrow> pydict" where
  "create_issue_payload title body labels assignees =
     (''title'', PStr title) # (case body of None \<Rightarrow> [] | Some b \<Rightarrow> [(''body'', PStr b)])
       @ (if labels = [] then [] else [(''labels'', PList (map PStr labels))])
       @ (if assignees = [] then [] else [(''assignees'', PList (map PStr assignees))])"

definition json_object :: "http_response \<Rightarrow> string \<Rightarrow> (client_error, pydict) result" where
  "json_object r detail = (case rs_json r of None \<Rightarrow> Inl ClientJsonError
     | Some (PDict d) \<Rightarrow> Inr d | _ \<Rightarrow> Inl (ClientError detail))"

definition create_issue ::
  "transport \<Rightarrow> string \<Rightarrow> string \<Rightarrow> string \<Rightarrow> string option \<Rightarrow> string list \<Rightarrow> string list \<Rightarrow> (client_error, pydict) result" where
  "create_issue http access_token repository_full_name title body labels assignees =
     (case http \<lparr> rq_method = ''POST'',
             rq_url = GITHUB_API_BASE_URL @ ''/repos/'' @ repository_full_name @ ''/issues'',
             rq_headers = github_headers access_token, rq_params = [],
             rq_json = Some (create_issue_payload title body labels assignees), rq_form = [], rq_auth = None \<rparr> of
        None \<Rightarrow> Inl (ClientError ''github issue request failed'')
      | Some r \<Rightarrow> if \<not> ok_status r then Inl (ClientError (issue_detail r))
          else json_object r ''github issue response was not an object'')"

text \<open>The issue number is an int; a stored \<^verbatim>\<open>true\<close> counts as one in Python and prints as \<^verbatim>\<open>True\<close>.\<close>

definition int_text :: "pyval \<Rightarrow> string" where
  "int_text v = (case str_of_int_like v of Some t \<Rightarrow> t | None \<Rightarrow> ''None'')"

definition get_issue ::
  "transport \<Rightarrow> string \<Rightarrow> string \<Rightarrow> pyval \<Rightarrow> (client_error, pydict) result" where
  "get_issue http access_token repository_full_name issue_number =
     (case http (get_request access_token (GITHUB_API_BASE_URL @ ''/repos/'' @ repository_full_name @ ''/issues/''
             @ int_text issue_number) []) of
        None \<Rightarrow> Inl (ClientError ''github issue read request failed'')
      | Some r \<Rightarrow> if \<not> ok_status r then Inl (ClientError (issue_read_detail r))
          else json_object r ''github issue read response was not an object'')"

section \<open>Lists, page by page\<close>

text \<open>
  The shared loop: pages from \<open>page\<close> on, at most \<open>left\<close> of them, until one is shorter than
  \<open>per_page\<close>; \<open>items_of\<close> takes the list out of a page's JSON.
\<close>

fun read_pages ::
  "(nat \<Rightarrow> http_response option) \<Rightarrow> (pyval \<Rightarrow> (string, pyval list) result) \<Rightarrow> (http_response \<Rightarrow> string) \<Rightarrow>
     string \<Rightarrow> string \<Rightarrow> int \<Rightarrow> nat \<Rightarrow> nat \<Rightarrow> pydict list \<Rightarrow> (client_error, pydict list) result" where
  "read_pages get_page items_of detail failed limit_reached per_page page 0 acc = Inl (ClientError limit_reached)"
| "read_pages get_page items_of detail failed limit_reached per_page page (Suc left) acc =
     (case get_page page of None \<Rightarrow> Inl (ClientError failed)
      | Some r \<Rightarrow> if \<not> ok_status r then Inl (ClientError (detail r))
          else case rs_json r of None \<Rightarrow> Inl ClientJsonError
          | Some data \<Rightarrow> (case items_of data of Inl d \<Rightarrow> Inl (ClientError d)
            | Inr items \<Rightarrow>
               (let acc' = acc @ List.map_filter as_dict items in
                if int (length items) < per_page then Inr acc'
                else read_pages get_page items_of detail failed limit_reached per_page (Suc page) left acc')))"

definition list_items :: "string \<Rightarrow> pyval \<Rightarrow> (string, pyval list) result" where
  "list_items message data = (case data of PList xs \<Rightarrow> Inr xs | _ \<Rightarrow> Inl message)"

definition repository_items :: "pyval \<Rightarrow> (string, pyval list) result" where
  "repository_items data = (case data of
     PDict d \<Rightarrow> (case py_get d ''repositories'' of PList xs \<Rightarrow> Inr xs
       | _ \<Rightarrow> Inl ''github repository read response did not include repositories'')
   | _ \<Rightarrow> Inl ''github repository read response was not an object'')"

definition page_params :: "string \<Rightarrow> int \<Rightarrow> nat \<Rightarrow> (string \<times> pyval) list" where
  "page_params state per_page page =
     [(''state'', PStr state), (''per_page'', PInt per_page), (''page'', PInt (int page))]"

definition VALID_STATES :: "string list" where "VALID_STATES = [''open'', ''closed'', ''all'']"

definition list_issues ::
  "transport \<Rightarrow> string \<Rightarrow> string \<Rightarrow> string \<Rightarrow> int \<Rightarrow> int \<Rightarrow> (client_error, pydict list) result" where
  "list_issues http access_token repository_full_name state per_page max_pages =
     bindE (require (state \<in> set VALID_STATES) (ClientError ''github issue read request failed: invalid state'')) (\<lambda>_.
     bindE (require (\<not> (per_page < 1 \<or> per_page > 100)) (ClientError ''github issue read request failed: invalid page size'')) (\<lambda>_.
     bindE (require (\<not> max_pages < 1) (ClientError ''github issue read request failed: invalid page limit'')) (\<lambda>_.
     read_pages
       (\<lambda>page. http (get_request access_token (GITHUB_API_BASE_URL @ ''/repos/'' @ repository_full_name @ ''/issues'')
          (page_params state per_page page)))
       (list_items ''github issue read response was not a list'') issue_read_detail
       ''github issue read request failed'' ''github issue read request failed: pagination limit reached''
       per_page 1 (nat max_pages) [])))"

definition list_pull_requests ::
  "transport \<Rightarrow> string \<Rightarrow> string \<Rightarrow> string \<Rightarrow> int \<Rightarrow> int \<Rightarrow> (client_error, pydict list) result" where
  "list_pull_requests http access_token repository_full_name state per_page max_pages =
     bindE (require (state \<in> set VALID_STATES) (ClientError ''github pull request read request failed: invalid state'')) (\<lambda>_.
     bindE (require (\<not> (per_page < 1 \<or> per_page > 100)) (ClientError ''github pull request read request failed: invalid page size'')) (\<lambda>_.
     bindE (require (\<not> max_pages < 1) (ClientError ''github pull request read request failed: invalid page limit'')) (\<lambda>_.
     read_pages
       (\<lambda>page. http (get_request access_token (GITHUB_API_BASE_URL @ ''/repos/'' @ repository_full_name @ ''/pulls'')
          (page_params state per_page page)))
       (list_items ''github pull request read response was not a list'')
       (\<lambda>r. safe_github_response_detail r ''github pull request read request'')
       ''github pull request read request failed'' ''github pull request read request failed: pagination limit reached''
       per_page 1 (nat max_pages) [])))"

definition list_installation_repositories ::
  "transport \<Rightarrow> string \<Rightarrow> int \<Rightarrow> int \<Rightarrow> (client_error, pydict list) result" where
  "list_installation_repositories http access_token per_page max_pages =
     bindE (require (\<not> (per_page < 1 \<or> per_page > 100)) (ClientError ''github repository read request failed: invalid page size'')) (\<lambda>_.
     bindE (require (\<not> max_pages < 1) (ClientError ''github repository read request failed: invalid page limit'')) (\<lambda>_.
     read_pages
       (\<lambda>page. http (get_request access_token (GITHUB_API_BASE_URL @ ''/installation/repositories'')
          [(''per_page'', PInt per_page), (''page'', PInt (int page))]))
       repository_items (\<lambda>r. safe_github_response_detail r ''github repository read request'')
       ''github repository read request failed'' ''github repository read request failed: pagination limit reached''
       per_page 1 (nat max_pages) []))"

section \<open>A list is a complete snapshot or an error\<close>

text \<open>The list of page \<open>k\<close>, where the page was read and had one.\<close>

definition page_list :: "(nat \<Rightarrow> http_response option) \<Rightarrow> (pyval \<Rightarrow> (string, pyval list) result) \<Rightarrow> nat \<Rightarrow> pyval list option" where
  "page_list get_page items_of k = (case get_page k of None \<Rightarrow> None
     | Some r \<Rightarrow> if \<not> ok_status r then None
         else case rs_json r of None \<Rightarrow> None
         | Some data \<Rightarrow> (case items_of data of Inl _ \<Rightarrow> None | Inr items \<Rightarrow> Some items))"

definition complete_upto :: "(nat \<Rightarrow> pyval list option) \<Rightarrow> int \<Rightarrow> nat \<Rightarrow> nat \<Rightarrow> bool" where
  "complete_upto pages per_page first n \<longleftrightarrow> (\<exists>xs. pages n = Some xs \<and> int (length xs) < per_page) \<and>
     (\<forall>k. first \<le> k \<and> k < n \<longrightarrow> (\<exists>xs. pages k = Some xs \<and> per_page \<le> int (length xs)))"

definition page_dicts :: "(nat \<Rightarrow> pyval list option) \<Rightarrow> nat \<Rightarrow> pydict list" where
  "page_dicts pages k = (case pages k of None \<Rightarrow> [] | Some xs \<Rightarrow> List.map_filter as_dict xs)"

lemma read_pages_Inr:
  "read_pages g it det f lr pp page left acc = Inr items \<longleftrightarrow>
     (\<exists>n. page \<le> n \<and> n < page + left \<and> complete_upto (page_list g it) pp page n \<and>
        items = acc @ concat (map (page_dicts (page_list g it)) [page..<Suc n]))"
proof (induction left arbitrary: page acc)
  case 0
  then show ?case by simp
next
  case (Suc left)
  let ?P = "page_list g it"
  show ?case
  proof (cases "?P page")
    case None
    then have "\<not> (\<exists>items. read_pages g it det f lr pp page (Suc left) acc = Inr items)"
      by (auto simp: page_list_def split: option.splits if_splits sum.splits)
    moreover have "\<not> (page \<le> n \<and> complete_upto ?P pp page n)" for n
      using None by (cases "n = page") (auto simp: complete_upto_def)
    ultimately show ?thesis by blast
  next
    case (Some xs)
    then have step: "read_pages g it det f lr pp page (Suc left) acc =
       (if int (length xs) < pp then Inr (acc @ List.map_filter as_dict xs)
        else read_pages g it det f lr pp (Suc page) left (acc @ List.map_filter as_dict xs))"
      by (auto simp: page_list_def Let_def split: option.splits if_splits sum.splits)
    have dicts: "page_dicts ?P page = List.map_filter as_dict xs" by (simp add: page_dicts_def Some)
    show ?thesis
    proof (cases "int (length xs) < pp")
      case True
      have c: "complete_upto ?P pp page page" using Some True by (auto simp: complete_upto_def)
      have u: "n = page" if "page \<le> n" "complete_upto ?P pp page n" for n
        using that Some True by (cases "n = page") (auto simp: complete_upto_def)
      have one: "(\<exists>n. page \<le> n \<and> n < page + Suc left \<and> complete_upto ?P pp page n \<and>
          items = acc @ concat (map (page_dicts ?P) [page..<Suc n])) \<longleftrightarrow>
        items = acc @ concat (map (page_dicts ?P) [page..<Suc page])"
        by (intro iffI exI [of _ page]; (elim exE conjE, drule (1) u)?) (simp_all add: c del: upt_Suc)
      show ?thesis unfolding one step using True by (auto simp: dicts)
    next
      case False
      have comp: "complete_upto ?P pp page n \<longleftrightarrow> page \<noteq> n \<and> complete_upto ?P pp (Suc page) n" if "page \<le> n" for n
      proof (cases "n = page")
        case True
        then show ?thesis using Some False by (simp add: complete_upto_def)
      next
        case ne: False
        then show ?thesis using Some False that
          unfolding complete_upto_def by (metis Suc_leD le_antisym not_less not_less_eq_eq)
      qed
      have upt: "[page..<Suc n] = page # [Suc page..<Suc n]" if "page \<le> n" for n
        using that by (simp add: upt_conv_Cons)
      have "read_pages g it det f lr pp page (Suc left) acc = Inr items \<longleftrightarrow>
        (\<exists>n. Suc page \<le> n \<and> n < Suc page + left \<and> complete_upto ?P pp (Suc page) n \<and>
          items = (acc @ List.map_filter as_dict xs) @ concat (map (page_dicts ?P) [Suc page..<Suc n]))"
        unfolding step using False by (simp add: Suc.IH)
      also have "\<dots> \<longleftrightarrow> (\<exists>n. page \<le> n \<and> n < page + Suc left \<and> complete_upto ?P pp page n \<and>
        items = acc @ concat (map (page_dicts ?P) [page..<Suc n]))"
        by (rule ex_cong1) (use comp upt dicts in \<open>auto simp: Suc_le_eq simp del: upt_Suc\<close>)
      finally show ?thesis .
    qed
  qed
qed


definition issue_page :: "transport \<Rightarrow> string \<Rightarrow> string \<Rightarrow> string \<Rightarrow> int \<Rightarrow> nat \<Rightarrow> pyval list option" where
  "issue_page http access_token repository_full_name state per_page = page_list
     (\<lambda>page. http (get_request access_token (GITHUB_API_BASE_URL @ ''/repos/'' @ repository_full_name @ ''/issues'')
        (page_params state per_page page)))
     (list_items ''github issue read response was not a list'')"

text \<open>C40. A list of issues is a complete snapshot or an error. The client answers issues exactly when
  its arguments are in range and the pages it asked for, from the first, were all read as JSON
  lists, each but the last full and the last one short, within the page limit; the answer is
  then the JSON objects of those pages in order. So a list that was cut by the page limit, by
  an HTTP error or by a malformed page is never taken for the whole.\<close>

theorem list_issues_complete_snapshot:
  "list_issues http tok repo state per_page max_pages = Inr items \<longleftrightarrow>
     state \<in> set VALID_STATES \<and> 1 \<le> per_page \<and> per_page \<le> 100 \<and> 1 \<le> max_pages \<and>
     (\<exists>n. 1 \<le> n \<and> int n \<le> max_pages \<and> complete_upto (issue_page http tok repo state per_page) per_page 1 n \<and>
        items = concat (map (page_dicts (issue_page http tok repo state per_page)) [1..<Suc n]))"
proof -
  have n: "n < 1 + nat max_pages \<longleftrightarrow> int n \<le> max_pages" if "\<not> max_pages < 1" for n
    using that by linarith
  show ?thesis
  proof (cases "max_pages < 1")
    case False
    show ?thesis
      unfolding list_issues_def issue_page_def result_iffs read_pages_Inr using n [OF False] False
      by (auto simp: not_less simp del: upt_Suc)
  qed (auto simp: list_issues_def result_iffs)
qed

text \<open>A provider with one short page.\<close>

lemma list_issues_one_page:
  assumes "\<And>rq. rq_method rq = ''GET'' \<Longrightarrow> http rq = Some r" "rs_status r = 200" "rs_json r = Some (PList xs)"
    and "length xs < 100"
  shows "list_issues http tok repo ''all'' 100 10 = Inr (List.map_filter as_dict xs)"
proof -
  have ten: "nat 10 = Suc 9" by simp
  show ?thesis unfolding list_issues_def ten read_pages.simps(2) using assms
    by (simp add: VALID_STATES_def bindE_def require_def get_request_def ok_status_def list_items_def Let_def)
qed

section \<open>Reads only read\<close>

lemma read_pages_cong:
  assumes "\<And>k. g k = h k"
  shows "read_pages g it det f lr pp page left acc = read_pages h it det f lr pp page left acc"
proof -
  have "g = h" using assms by (rule ext)
  then show ?thesis by simp
qed

text \<open>Reads send only GET requests. Two worlds that answer every GET request alike give the same
  answers to the four read operations, whatever they would do on any other request: reading
  issues, pull requests and repositories cannot write to the provider.\<close>

theorem reads_send_only_get_requests:
  assumes "\<And>rq. rq_method rq = ''GET'' \<Longrightarrow> http rq = http' rq"
  shows "list_issues http tok repo state pp mp = list_issues http' tok repo state pp mp
     \<and> get_issue http tok repo i = get_issue http' tok repo i
     \<and> list_pull_requests http tok repo state pp mp = list_pull_requests http' tok repo state pp mp
     \<and> list_installation_repositories http tok pp mp = list_installation_repositories http' tok pp mp"
proof -
  have get: "http (get_request tok url ps) = http' (get_request tok url ps)" for url ps
    by (rule assms) (simp add: get_request_def)
  show ?thesis
    by (simp add: list_issues_def get_issue_def list_pull_requests_def list_installation_repositories_def get)
qed

definition example_page :: http_response where
  "example_page = \<lparr> rs_status = 200, rs_json = Some (PList [PDict [(''number'', PInt 7)], PNone]), rs_header = Map.empty \<rparr>"

definition example_created :: http_response where
  "example_created = \<lparr> rs_status = 201, rs_json = Some (PDict [(''number'', PInt 8)]), rs_header = Map.empty \<rparr>"

definition reading_http :: transport where "reading_http rq = (if rq_method rq = ''GET'' then Some example_page else None)"
definition writing_http :: transport where
  "writing_http rq = (if rq_method rq = ''GET'' then Some example_page else Some example_created)"

theorem reads_send_only_get_requests_witness:
  "list_issues reading_http ''t'' ''o/r'' ''all'' 100 10 = list_issues writing_http ''t'' ''o/r'' ''all'' 100 10
   \<and> list_issues writing_http ''t'' ''o/r'' ''all'' 100 10 = Inr [[(''number'', PInt 7)]]
   \<and> create_issue reading_http ''t'' ''o/r'' ''T'' None [] [] \<noteq> create_issue writing_http ''t'' ''o/r'' ''T'' None [] []"
proof (intro conjI)
  show "list_issues reading_http ''t'' ''o/r'' ''all'' 100 10 = list_issues writing_http ''t'' ''o/r'' ''all'' 100 10"
    using reads_send_only_get_requests [of reading_http writing_http] by (simp add: reading_http_def writing_http_def)
  show "list_issues writing_http ''t'' ''o/r'' ''all'' 100 10 = Inr [[(''number'', PInt 7)]]" by code_simp
  show "create_issue reading_http ''t'' ''o/r'' ''T'' None [] [] \<noteq> create_issue writing_http ''t'' ''o/r'' ''T'' None [] []"
    by code_simp
qed

end
