(* ===== verification/Result_Sync.thy ===== *)
theory Result_Sync
  imports Execution_Liveness Provider_Client
begin

text \<open>
  Reconciliation of an execution with what GitHub shows,
  \<^verbatim>\<open>app/services/github_execution_result_sync_service.py\<close>: an uncertain or interrupted write is
  looked up by the marker in the issue's body. The handler is one transaction but takes no row
  lock: what it loads at the start (\<open>sync_read\<close>) may be outdated when it writes (\<open>sync_apply\<close>),
  and an update writes the columns whose new value differs from the loaded one. It is modelled
  up to the row of the sync job it creates; the normalization of that job is not.
\<close>

datatype sync_error =
    SyncRealConnectorsDisabled
  | GitHubExecutionResultSyncError string
  | GitHubExecutionResultSyncNotFoundError string
  | GitHubExecutionResultSyncConflictError string
  | GitHubExecutionResultSyncProviderReadError string
  | SyncExecutionError execution_error
  | SyncValueError

section \<open>Constants\<close>

definition SYNC_PROPOSAL_NOT_FOUND :: string where "SYNC_PROPOSAL_NOT_FOUND = ''action proposal not found''"
definition SYNC_NOT_EXECUTED :: string where "SYNC_NOT_EXECUTED = ''action proposal is not executed''"
definition SYNC_UNSUPPORTED_ACTION :: string where "SYNC_UNSUPPORTED_ACTION = ''unsupported action proposal''"
definition SYNC_RECEIPT_REQUIRED :: string where
  "SYNC_RECEIPT_REQUIRED = ''successful execution receipt is required''"
definition SYNC_ISSUE_NUMBER_REQUIRED :: string where
  "SYNC_ISSUE_NUMBER_REQUIRED = ''successful execution receipt does not include an issue number''"
definition SYNC_CONNECTION_NOT_FOUND :: string where "SYNC_CONNECTION_NOT_FOUND = ''github connection not found''"
definition SYNC_CONNECTION_AMBIGUOUS :: string where
  "SYNC_CONNECTION_AMBIGUOUS = ''multiple connected GitHub connections found; connection_id is required''"
definition SYNC_CONNECTION_NOT_CONNECTED :: string where
  "SYNC_CONNECTION_NOT_CONNECTED = ''github connection is not connected''"
definition SYNC_TOKEN_MISSING :: string where
  "SYNC_TOKEN_MISSING = ''github connection has no encrypted access token''"
definition SYNC_TOKEN_UNAVAILABLE :: string where "SYNC_TOKEN_UNAVAILABLE = ''github token could not be decrypted''"
definition SYNC_PROVIDER_READ_FAILED :: string where "SYNC_PROVIDER_READ_FAILED = ''github issue read failed''"
definition SYNC_MARKER_AMBIGUOUS :: string where
  "SYNC_MARKER_AMBIGUOUS = ''multiple GitHub issues matched the execution marker''"
definition SYNC_WRITE_NOT_OBSERVED :: string where
  "SYNC_WRITE_NOT_OBSERVED = ''no GitHub issue matched the execution marker in a complete snapshot''"
definition SYNC_ABSENCE_GRACE_PERIOD :: int where "SYNC_ABSENCE_GRACE_PERIOD = seconds 60"

section \<open>Text and numbers of provider payloads\<close>

definition sync_safe_text :: "pyval \<Rightarrow> string option" where
  "sync_safe_text value = (case str_of_int_like value of Some t \<Rightarrow> Some t
     | None \<Rightarrow> (case value of PStr s \<Rightarrow> if strip s = [] then None else Some (take 1000 (strip s)) | _ \<Rightarrow> None))"

definition sync_safe_url :: "pyval \<Rightarrow> string option" where
  "sync_safe_url value = (case sync_safe_text value of None \<Rightarrow> None
     | Some t \<Rightarrow> if (is_prefix ''http://'' t \<or> is_prefix ''https://'' t) \<and> CHR ''@'' \<notin> set t then Some t else None)"

text \<open>
  \<^verbatim>\<open>str.isdigit\<close> on code points below 256 also accepts the superscripts 1, 2 and 3, for which
  \<^verbatim>\<open>int\<close> raises a \<^verbatim>\<open>ValueError\<close>, as it does beyond 4300 digits.
\<close>

definition isdigit :: "string \<Rightarrow> bool" where
  "isdigit s \<longleftrightarrow> s \<noteq> [] \<and> (\<forall>c\<in>set s. is_digit c \<or> (of_char c :: nat) \<in> {178, 179, 185})"

definition decimal_value :: "string \<Rightarrow> int option" where
  "decimal_value s = (if (\<forall>c\<in>set s. is_digit c) \<and> length s \<le> 4300
     then Some (foldl (\<lambda>a c. 10 * a + (int (of_char c) - 48)) 0 s) else None)"

definition int_of_text :: "string \<Rightarrow> (sync_error, int) result" where
  "int_of_text s = (case decimal_value s of None \<Rightarrow> Inl SyncValueError | Some n \<Rightarrow> Inr n)"

text \<open>\<open>rsplit_tail x s\<close>: the text after the last \<open>x\<close> in \<open>s\<close>.\<close>

fun rsplit_tail :: "string \<Rightarrow> string \<Rightarrow> string option" where
  "rsplit_tail x [] = (if x = [] then Some [] else None)"
| "rsplit_tail x (c # cs) = (case rsplit_tail x cs of Some t \<Rightarrow> Some t
     | None \<Rightarrow> if is_prefix x (c # cs) then Some (drop (length x) (c # cs)) else None)"

text \<open>An issue number is an int (a bool is one) or \<open>PNone\<close>.\<close>

definition issue_number_from_url :: "pyval \<Rightarrow> (sync_error, pyval) result" where
  "issue_number_from_url value = (case sync_safe_text value of None \<Rightarrow> Inr PNone
     | Some t \<Rightarrow> (case rsplit_tail ''/issues/'' t of None \<Rightarrow> Inr PNone
       | Some rest \<Rightarrow> (let tail = fst (partition_at CHR ''#'' (fst (partition_at CHR ''?'' rest))) in
           if isdigit tail then bindE (int_of_text tail) (\<lambda>n. Inr (PInt n)) else Inr PNone)))"

fun issue_number_from_urls :: "pydict \<Rightarrow> string list \<Rightarrow> (sync_error, pyval) result" where
  "issue_number_from_urls response [] = Inr PNone"
| "issue_number_from_urls response (k # ks) = bindE (issue_number_from_url (py_get response k))
     (\<lambda>v. if v \<noteq> PNone then Inr v else issue_number_from_urls response ks)"

definition positive_int_value :: "pyval \<Rightarrow> bool" where
  "positive_int_value value = (case as_int value of Some n \<Rightarrow> n > 0 | None \<Rightarrow> False)"

definition issue_number_from_receipt :: "pydict \<Rightarrow> (sync_error, pyval) result" where
  "issue_number_from_receipt response = (let value = py_get response ''number'';
       urls = issue_number_from_urls response [''html_url'', ''url'', ''external_id''] in
     if positive_int_value value then Inr value
     else case value of PStr s \<Rightarrow>
         if isdigit (strip s) then bindE (int_of_text (strip s)) (\<lambda>n. Inr (PInt n)) else urls
       | _ \<Rightarrow> urls)"

definition positive_int :: "pyval \<Rightarrow> (sync_error, pyval) result" where
  "positive_int value = (if positive_int_value value then Inr value
     else case value of PStr s \<Rightarrow>
         if isdigit (strip s) then bindE (int_of_text (strip s)) (\<lambda>n. Inr (if n > 0 then PInt n else PNone)) else Inr PNone
       | _ \<Rightarrow> Inr PNone)"

definition issues_matching_execution_marker :: "pydict list \<Rightarrow> action_execution \<Rightarrow> pydict list" where
  "issues_matching_execution_marker candidates x =
     filter (\<lambda>c. py_get c ''pull_request'' = PNone \<and>
       (case py_get c ''body'' of PStr body \<Rightarrow> is_infix (execution_request_marker x) body | _ \<Rightarrow> False)) candidates"

definition execution_external_id :: "pydict \<Rightarrow> string option" where
  "execution_external_id response = first_identifier response [''html_url'', ''id'', ''number'', ''url'']"

definition issue_record_from_github_response :: "pydict \<Rightarrow> string \<Rightarrow> pyval \<Rightarrow> (sync_error, pydict) result" where
  "issue_record_from_github_response response repository_full_name fallback_number =
     (let number = (if positive_int_value (py_get response ''number'') then py_get response ''number'' else fallback_number) in
      bindE (require (py_get response ''pull_request'' = PNone)
        (GitHubExecutionResultSyncConflictError ''github issue read returned a pull request'')) (\<lambda>_.
      Inr [(''id'', PStr (case sync_safe_text (py_get response ''id'') of Some t \<Rightarrow> t
              | None \<Rightarrow> repository_full_name @ ''#issue/'' @ int_text number)),
           (''number'', number),
           (''title'', PStr (case sync_safe_text (py_get response ''title'') of Some t \<Rightarrow> t
              | None \<Rightarrow> ''GitHub issue '' @ int_text number)),
           (''state'', PStr (case sync_safe_text (py_get response ''state'') of Some t \<Rightarrow> t | None \<Rightarrow> ''open'')),
           (''source_url'', opt_val PStr (sync_safe_url (py_get response ''html_url''))),
           (''url'', opt_val PStr (sync_safe_url (py_get response ''url''))),
           (''repository_full_name'', PStr repository_full_name),
           (''created_at'', opt_val PStr (sync_safe_text (py_get response ''created_at''))),
           (''updated_at'', opt_val PStr (sync_safe_text (py_get response ''updated_at''))),
           (''metadata'', PDict [(''source'', PStr ''post_execution_sync''),
              (''synced_from_execution_result'', PBool True)])]))"

section \<open>What the handler loads\<close>

record sync_ctx =
  sc_proposal :: action_proposal
  sc_execution :: action_execution
  sc_connection :: integration_connection
  sc_payload :: issue_payload
  sc_issue_number :: pyval
  sc_actor :: uuid

definition validate_github_issue_proposal :: "action_proposal \<Rightarrow> (sync_error, issue_payload) result" where
  "validate_github_issue_proposal p =
     bindE (require (ap_target_provider p = ''github'' \<and> ap_action_type p = ''create_github_issue'')
       (GitHubExecutionResultSyncError SYNC_UNSUPPORTED_ACTION)) (\<lambda>_.
     map_error (\<lambda>e. GitHubExecutionResultSyncError (error_detail e)) (validate_github_issue_payload (ap_payload p)))"

definition get_reconcilable_execution_or_raise ::
  "action_proposal \<Rightarrow> 'z action_db_scheme \<Rightarrow> (sync_error, action_execution) result" where
  "get_reconcilable_execution_or_raise p db =
     (case sort_key (\<lambda>x. (ex_created_at x, ex_id x)) (filter (\<lambda>x. ex_action_proposal_id x = ap_id p
           \<and> ex_status x \<in> {Claimed, Running, Succeeded, Uncertain}) (action_executions db)) of
        x # _ \<Rightarrow> Inr x
      | [] \<Rightarrow> if ap_status p \<noteq> Executed then Inl (GitHubExecutionResultSyncConflictError SYNC_NOT_EXECUTED)
          else Inl (GitHubExecutionResultSyncConflictError SYNC_RECEIPT_REQUIRED))"

definition validate_connection :: "integration_connection \<Rightarrow> (sync_error, integration_connection) result" where
  "validate_connection c =
     bindE (require (ic_status c = Connected)
       (GitHubExecutionResultSyncConflictError SYNC_CONNECTION_NOT_CONNECTED)) (\<lambda>_.
     bindE (require (ic_encrypted_access_token c \<notin> {None, Some []})
       (GitHubExecutionResultSyncConflictError SYNC_TOKEN_MISSING)) (\<lambda>_. Inr c))"

definition sync_get_connection_or_raise ::
  "uuid \<Rightarrow> uuid option \<Rightarrow> 'z action_db_scheme \<Rightarrow> (sync_error, integration_connection) result" where
  "sync_get_connection_or_raise workspace_id connection_id db =
     (case connection_id of
        Some i \<Rightarrow> bindE (require_some (find (\<lambda>c. ic_workspace_id c = workspace_id \<and> ic_provider c = ''github''
            \<and> ic_id c = i) (connections db)) (GitHubExecutionResultSyncNotFoundError SYNC_CONNECTION_NOT_FOUND))
          validate_connection
      | None \<Rightarrow> (case filter (\<lambda>c. ic_workspace_id c = workspace_id \<and> ic_provider c = ''github''
            \<and> ic_status c = Connected) (connections db) of
          [] \<Rightarrow> Inl (GitHubExecutionResultSyncNotFoundError SYNC_CONNECTION_NOT_FOUND)
        | [c] \<Rightarrow> validate_connection c
        | _ \<Rightarrow> Inl (GitHubExecutionResultSyncConflictError SYNC_CONNECTION_AMBIGUOUS)))"

definition sync_read ::
  "execution_config \<Rightarrow> uuid \<Rightarrow> uuid \<Rightarrow> uuid \<Rightarrow> uuid option \<Rightarrow> 'z action_db_scheme \<Rightarrow> (sync_error, sync_ctx) result" where
  "sync_read cfg workspace_id proposal_id actor connection_id db =
     bindE (require (enable_real_connectors cfg) SyncRealConnectorsDisabled) (\<lambda>_.
     bindE (require_some (get_action_proposal workspace_id proposal_id db)
       (GitHubExecutionResultSyncNotFoundError SYNC_PROPOSAL_NOT_FOUND)) (\<lambda>p.
     bindE (validate_github_issue_proposal p) (\<lambda>payload.
     bindE (get_reconcilable_execution_or_raise p db) (\<lambda>x.
     bindE (sync_get_connection_or_raise workspace_id
       (case connection_id of Some i \<Rightarrow> Some i | None \<Rightarrow> ex_connection_id x) db) (\<lambda>c.
     bindE (if ex_status x = Succeeded then issue_number_from_receipt (ex_provider_response x) else Inr PNone) (\<lambda>n.
     Inr \<lparr> sc_proposal = p, sc_execution = x, sc_connection = c, sc_payload = payload, sc_issue_number = n,
           sc_actor = actor \<rparr>))))))"


section \<open>Events of the handler\<close>

definition sync_event_args ::
  "sha \<Rightarrow> uuid \<Rightarrow> time \<Rightarrow> sync_ctx \<Rightarrow> string \<Rightarrow> string \<Rightarrow> string \<Rightarrow> string \<Rightarrow> pydict \<Rightarrow> event_args" where
  "sync_event_args sha new_id now cx event_type status message reason metadata =
     (let p = sc_proposal cx in
      \<lparr> ea_new_id = new_id, ea_now = now, ea_workspace_id = ap_workspace_id p, ea_action_proposal_id = ap_id p,
        ea_event_type = event_type, ea_actor = ''user:'' @ uuid_str (sc_actor cx), ea_status = status,
        ea_message = message,
        ea_idempotency_key = execution_event_idempotency_key sha (ap_workspace_id p) (ap_id p) event_type
          False True None (Some reason),
        ea_provider = Some (ap_target_provider p), ea_action = Some (ap_action_type p),
        ea_external_execution_enabled = False, ea_confirmation_received = True,
        ea_event_metadata = metadata, ea_external_result_id = None, ea_external_result_url = None,
        ea_error_code = None, ea_error_message = None \<rparr>)"

definition append_sync_event :: "event_args \<Rightarrow> 'z action_db_scheme \<Rightarrow> (sync_error, 'z action_db_scheme) result" where
  "append_sync_event a db = map_error SyncExecutionError (append_audit a db)"

definition execution_text :: "sync_ctx \<Rightarrow> string" where
  "execution_text cx = uuid_str (ex_id (sc_execution cx))"

definition append_sync_started ::
  "sha \<Rightarrow> uuid \<Rightarrow> time \<Rightarrow> sync_ctx \<Rightarrow> 'z action_db_scheme \<Rightarrow> (sync_error, 'z action_db_scheme) result" where
  "append_sync_started sha new_id now cx =
     append_sync_event (sync_event_args sha new_id now cx ''execution_result_sync_started'' ''recorded''
       ''Post-execution GitHub issue result sync started. No external write occurred.''
       (execution_text cx @ '':'' @ (if truthy (sc_issue_number cx) then int_text (sc_issue_number cx) else ''marker'') @ '':started'')
       [(''execution_id'', PStr (execution_text cx)),
        (''repository_full_name'', PStr (gp_repository_full_name (sc_payload cx))),
        (''issue_number'', sc_issue_number cx)])"

definition append_sync_failure_event ::
  "sha \<Rightarrow> uuid \<Rightarrow> time \<Rightarrow> sync_ctx \<Rightarrow> string \<Rightarrow> string \<Rightarrow> 'z action_db_scheme \<Rightarrow> (sync_error, 'z action_db_scheme) result" where
  "append_sync_failure_event sha new_id now cx detail error_code =
     append_sync_event ((sync_event_args sha new_id now cx ''execution_result_sync_failed'' ''blocked''
         (''Post-execution GitHub issue result sync failed: '' @ detail @ ''. No external write occurred.'')
         (execution_text cx @ '':'' @ int_text (sc_issue_number cx) @ '':'' @ error_code)
         [(''execution_id'', PStr (execution_text cx)),
          (''repository_full_name'', PStr (gp_repository_full_name (sc_payload cx))),
          (''issue_number'', sc_issue_number cx)])
       \<lparr>ea_error_code := Some error_code, ea_error_message := Some detail\<rparr>)"

section \<open>What the handler writes\<close>

text \<open>A column is written where its new value is not the one that was loaded.\<close>

definition put :: "'a \<Rightarrow> 'a \<Rightarrow> 'a \<Rightarrow> 'a" where
  "put loaded new current = (if new = loaded then current else new)"

lemma put_loaded [simp]: "put a b a = b"
  by (simp add: put_def)

definition put_proposal_status ::
  "action_proposal \<Rightarrow> proposal_status \<Rightarrow> time \<Rightarrow> 'z action_db_scheme \<Rightarrow> 'z action_db_scheme" where
  "put_proposal_status loaded status now db =
     (if ap_status loaded = status then db
      else db\<lparr>action_proposals := update_where (\<lambda>p. ap_id p = ap_id loaded)
        (\<lambda>p. p\<lparr>ap_status := status, ap_updated_at := now\<rparr>) (action_proposals db)\<rparr>)"

datatype sync_outcome =
    ReconciliationPending time
  | WriteNotObserved
  | ResultRead pydict

type_synonym 'z sync_reply = "(sync_error, sync_outcome) result \<times> 'z action_db_scheme"

definition record_reconciled_success ::
  "sync_ctx \<Rightarrow> pydict \<Rightarrow> time \<Rightarrow> 'z action_db_scheme \<Rightarrow> (sync_error, 'z action_db_scheme) result" where
  "record_reconciled_success cx raw now db =
     (let seen = sc_execution cx;
          sanitized = dict_set ''idempotency_key'' (PStr (ex_client_idempotency_key seen)) (sanitize_github_issue_response raw) in
      bindE (map_error SyncExecutionError (update_execution (ex_id seen) (\<lambda>x. x
        \<lparr>ex_status := put (ex_status seen) Succeeded (ex_status x),
         ex_provider_response := put (ex_provider_response seen) sanitized (ex_provider_response x),
         ex_external_id := put (ex_external_id seen) (execution_external_id sanitized) (ex_external_id x),
         ex_error_message := put (ex_error_message seen) None (ex_error_message x),
         ex_finished_at := put (ex_finished_at seen) (Some now) (ex_finished_at x),
         ex_reconciled_at := put (ex_reconciled_at seen) (Some now) (ex_reconciled_at x)\<rparr>) now db)) (\<lambda>db1.
      Inr (put_proposal_status (sc_proposal cx) Executed now db1)))"

definition write_not_observed_message :: "bool \<Rightarrow> string" where
  "write_not_observed_message not_started =
     (if not_started then ''provider request did not start after the durable execution claim''
      else SYNC_WRITE_NOT_OBSERVED)"

definition record_write_not_observed ::
  "sha \<Rightarrow> uuid \<Rightarrow> time \<Rightarrow> sync_ctx \<Rightarrow> string \<Rightarrow> 'z action_db_scheme \<Rightarrow> (sync_error, 'z sync_reply) result" where
  "record_write_not_observed sha new_id now cx reason db =
     (let seen = sc_execution cx; not_started = (reason = ''provider_request_not_started'');
          message = write_not_observed_message not_started in
      bindE (map_error SyncExecutionError (update_execution (ex_id seen) (\<lambda>x. x
        \<lparr>ex_status := put (ex_status seen) Failed (ex_status x),
         ex_error_message := put (ex_error_message seen) (Some message) (ex_error_message x),
         ex_finished_at := put (ex_finished_at seen) (Some now) (ex_finished_at x),
         ex_reconciled_at := put (ex_reconciled_at seen) (Some now) (ex_reconciled_at x)\<rparr>) now db)) (\<lambda>db1.
      bindE (append_sync_event ((sync_event_args sha new_id now cx ''execution_write_not_observed'' ''recorded''
          (if not_started
           then ''The durable claim was recorded, but the provider request did not start. A retry must use a new idempotency key.''
           else ''A complete provider check found no GitHub issue with the exact execution marker. A later retry must use a new idempotency key.'')
          (execution_text cx @ '':'' @ reason @ '':not_observed'')
          [(''execution_id'', PStr (execution_text cx)),
           (''repository_full_name'', PStr (gp_repository_full_name (sc_payload cx))),
           (''request_hash'', PStr (ex_request_hash seen)), (''reconciliation_basis'', PStr reason)])
        \<lparr>ea_error_code := Some ''provider_write_not_observed'', ea_error_message := Some message\<rparr>)
        (put_proposal_status (sc_proposal cx) Approved now db1)) (\<lambda>db2.
      Inr (Inr WriteNotObserved, db2))))"

definition absence_reconciliation_eligible_at :: "action_execution \<Rightarrow> time" where
  "absence_reconciliation_eligible_at x =
     (case ex_started_at x of Some t \<Rightarrow> t | None \<Rightarrow> ex_claimed_at x) + SYNC_ABSENCE_GRACE_PERIOD"

definition record_reconciliation_pending ::
  "sha \<Rightarrow> uuid \<Rightarrow> time \<Rightarrow> sync_ctx \<Rightarrow> time \<Rightarrow> 'z action_db_scheme \<Rightarrow> (sync_error, 'z sync_reply) result" where
  "record_reconciliation_pending sha new_id now cx retry_after db =
     bindE (append_sync_event (sync_event_args sha new_id now cx ''execution_reconciliation_pending'' ''recorded''
         ''No exact execution marker is visible yet, but the provider consistency grace period has not elapsed. The write remains uncertain.''
         (execution_text cx @ '':absence_grace_period'')
         [(''execution_id'', PStr (execution_text cx)),
          (''repository_full_name'', PStr (gp_repository_full_name (sc_payload cx))),
          (''request_hash'', PStr (ex_request_hash (sc_execution cx))),
          (''retry_after'', PStr (isoformat ''T'' retry_after))]) db) (\<lambda>db1.
     Inr (Inr (ReconciliationPending retry_after), db1))"

definition create_execution_result_sync_job ::
  "uuid \<Rightarrow> time \<Rightarrow> sync_ctx \<Rightarrow> pydict \<Rightarrow> 'z action_db_scheme \<Rightarrow> 'z action_db_scheme" where
  "create_execution_result_sync_job new_id now cx issue_record db =
     db\<lparr>sync_jobs := sync_jobs db @ [\<lparr> sj_id = new_id, sj_workspace_id = ap_workspace_id (sc_proposal cx),
        sj_connection_id = ic_id (sc_connection cx), sj_provider = ''github'', sj_status = Queued,
        sj_sync_type = ''manual'', sj_started_at = None, sj_finished_at = None,
        sj_cursor_before = Some
          [(''local_github'', PDict [(''issues'', PList [PDict issue_record]), (''pull_requests'', PList [])]),
           (''post_execution_sync'', PDict [(''action'', PStr ''create_github_issue''),
              (''execution_id'', PStr (execution_text cx)), (''proposal_id'', PStr (uuid_str (ap_id (sc_proposal cx)))),
              (''source'', PStr ''github_issue_read_api'')])],
        sj_cursor_after = None, sj_records_seen = 0, sj_records_created = 0, sj_records_updated = 0,
        sj_error_message = None,
        sj_logs = Some [PDict [(''requested_by'', PStr ''post_execution_sync''), (''execution_started'', PBool False),
          (''note'', PStr ''read-only sync of executed GitHub issue result'')]],
        sj_attempt_count = 0, sj_max_attempts = 3, sj_next_attempt_at = now, sj_lease_owner = None,
        sj_lease_expires_at = None, sj_cancel_requested_at = None, sj_created_at = now, sj_updated_at = now \<rparr>]\<rparr>"

text \<open>What follows a read issue: an error here is answered, with what was written before it kept.\<close>

definition issue_read ::
  "uuid \<Rightarrow> time \<Rightarrow> sync_ctx \<Rightarrow> pydict \<Rightarrow> pyval \<Rightarrow> 'z action_db_scheme \<Rightarrow> 'z sync_reply" where
  "issue_read new_id now cx raw issue_number db =
     (case issue_record_from_github_response raw (gp_repository_full_name (sc_payload cx)) issue_number of
        Inl e \<Rightarrow> (Inl e, db)
      | Inr rec \<Rightarrow> (Inr (ResultRead rec), create_execution_result_sync_job new_id now cx rec db))"

record sync_ids =
  si_started :: uuid
  si_event :: uuid
  si_job :: uuid

definition read_failed ::
  "sha \<Rightarrow> uuid \<Rightarrow> time \<Rightarrow> sync_ctx \<Rightarrow> 'z action_db_scheme \<Rightarrow> (sync_error, 'z sync_reply) result" where
  "read_failed sha new_id now cx db =
     bindE (append_sync_failure_event sha new_id now cx SYNC_PROVIDER_READ_FAILED ''provider_read_failed'' db) (\<lambda>db1.
     Inr (Inl (GitHubExecutionResultSyncProviderReadError SYNC_PROVIDER_READ_FAILED), db1))"

definition sync_succeeded ::
  "sha \<Rightarrow> transport \<Rightarrow> sync_ids \<Rightarrow> time \<Rightarrow> sync_ctx \<Rightarrow> string \<Rightarrow> 'z action_db_scheme \<Rightarrow> (sync_error, 'z sync_reply) result" where
  "sync_succeeded sha http ids now cx access_token db =
     (if sc_issue_number cx = PNone
      then Inr (Inl (GitHubExecutionResultSyncConflictError SYNC_ISSUE_NUMBER_REQUIRED), db)
      else case get_issue http access_token (gp_repository_full_name (sc_payload cx)) (sc_issue_number cx) of
        Inl ClientJsonError \<Rightarrow> Inl SyncValueError
      | Inl (ClientError _) \<Rightarrow> read_failed sha (si_event ids) now cx db
      | Inr raw \<Rightarrow> Inr (issue_read (si_job ids) now cx raw (sc_issue_number cx) db))"

definition record_match ::
  "sha \<Rightarrow> sync_ids \<Rightarrow> time \<Rightarrow> sync_ctx \<Rightarrow> pydict \<Rightarrow> 'z action_db_scheme \<Rightarrow> (sync_error, 'z sync_reply) result" where
  "record_match sha ids now cx raw db =
     bindE (positive_int (py_get raw ''number'')) (\<lambda>n.
     if n = PNone then Inr (Inl (GitHubExecutionResultSyncProviderReadError SYNC_PROVIDER_READ_FAILED), db)
     else bindE (record_reconciled_success cx raw now db) (\<lambda>db1.
     bindE (append_sync_event ((sync_event_args sha (si_event ids) now cx ''execution_outcome_reconciled'' ''recorded''
         ''The uncertain GitHub write was matched by its exact execution marker and recorded as succeeded.''
         (execution_text cx @ '':'' @ int_text n @ '':reconciled'')
         [(''execution_id'', PStr (execution_text cx)),
          (''repository_full_name'', PStr (gp_repository_full_name (sc_payload cx))),
          (''issue_number'', n), (''request_hash'', PStr (ex_request_hash (sc_execution cx)))])
       \<lparr>ea_external_result_id := Some (int_text n),
        ea_external_result_url := sync_safe_url (py_get raw ''html_url'')\<rparr>) db1) (\<lambda>db2.
     Inr (issue_read (si_job ids) now cx raw n db2))))"

definition sync_uncertain ::
  "sha \<Rightarrow> transport \<Rightarrow> sync_ids \<Rightarrow> time \<Rightarrow> sync_ctx \<Rightarrow> string \<Rightarrow> 'z action_db_scheme \<Rightarrow> (sync_error, 'z sync_reply) result" where
  "sync_uncertain sha http ids now cx access_token db =
     (case list_issues http access_token (gp_repository_full_name (sc_payload cx)) ''all'' 100 10 of
        Inl ClientJsonError \<Rightarrow> Inl SyncValueError
      | Inl (ClientError _) \<Rightarrow> read_failed sha (si_event ids) now cx db
      | Inr candidates \<Rightarrow>
         (case issues_matching_execution_marker candidates (sc_execution cx) of
            [] \<Rightarrow> (let retry_after = absence_reconciliation_eligible_at (sc_execution cx) in
               if now < retry_after then record_reconciliation_pending sha (si_event ids) now cx retry_after db
               else record_write_not_observed sha (si_event ids) now cx ''complete_provider_snapshot'' db)
          | [raw] \<Rightarrow> record_match sha ids now cx raw db
          | _ \<Rightarrow> Inr (Inl (GitHubExecutionResultSyncConflictError SYNC_MARKER_AMBIGUOUS), db)))"

text \<open>
  The rest of the handler on the committed state. An outer error is not one the route answers:
  the transaction is rolled back.
\<close>

definition sync_body ::
  "sha \<Rightarrow> (string \<Rightarrow> string option) \<Rightarrow> transport \<Rightarrow> sync_ids \<Rightarrow> time \<Rightarrow> sync_ctx \<Rightarrow> 'z action_db_scheme \<Rightarrow>
     (sync_error, 'z sync_reply) result" where
  "sync_body sha decrypt http ids now cx db =
     bindE (append_sync_started sha (si_started ids) now cx db) (\<lambda>db1.
     (case decrypt (case ic_encrypted_access_token (sc_connection cx) of None \<Rightarrow> [] | Some t \<Rightarrow> t) of
        None \<Rightarrow> bindE (append_sync_failure_event sha (si_event ids) now cx SYNC_TOKEN_UNAVAILABLE ''token_unavailable'' db1)
          (\<lambda>db2. Inr (Inl (GitHubExecutionResultSyncConflictError SYNC_TOKEN_UNAVAILABLE), db2))
      | Some access_token \<Rightarrow>
          if ex_status (sc_execution cx) = Succeeded then sync_succeeded sha http ids now cx access_token db1
          else if ex_status (sc_execution cx) = Claimed
          then record_write_not_observed sha (si_event ids) now cx ''provider_request_not_started'' db1
          else sync_uncertain sha http ids now cx access_token db1))"

definition sync_apply ::
  "sha \<Rightarrow> (string \<Rightarrow> string option) \<Rightarrow> transport \<Rightarrow> sync_ids \<Rightarrow> time \<Rightarrow> sync_ctx \<Rightarrow> 'z action_db_scheme \<Rightarrow> 'z sync_reply" where
  "sync_apply sha decrypt http ids now cx db =
     (case sync_body sha decrypt http ids now cx db of Inl e \<Rightarrow> (Inl e, db) | Inr r \<Rightarrow> r)"

text \<open>The whole handler, where what it loads was \<open>seen\<close>.\<close>

definition sync_github_issue_execution_result ::
  "sha \<Rightarrow> execution_config \<Rightarrow> (string \<Rightarrow> string option) \<Rightarrow> transport \<Rightarrow> sync_ids \<Rightarrow> time \<Rightarrow> uuid \<Rightarrow> uuid \<Rightarrow> uuid \<Rightarrow>
     uuid option \<Rightarrow> 'z action_db_scheme \<Rightarrow> 'z action_db_scheme \<Rightarrow> 'z sync_reply" where
  "sync_github_issue_execution_result sha cfg decrypt http ids now workspace_id proposal_id actor connection_id seen db =
     (case sync_read cfg workspace_id proposal_id actor connection_id seen of
        Inl e \<Rightarrow> (Inl e, db) | Inr cx \<Rightarrow> sync_apply sha decrypt http ids now cx db)"

section \<open>What a reconciliation may change\<close>

lemma append_sync_event_frame:
  "append_sync_event a db = Inr db' \<Longrightarrow> \<exists>ev. db' = db\<lparr>execution_events := ev\<rparr>"
  using append_audit_frame by (auto simp: append_sync_event_def result_iffs)

text \<open>\<open>same_rows db db'\<close>: executions and proposals are untouched.\<close>

definition same_rows :: "'z action_db_scheme \<Rightarrow> 'z action_db_scheme \<Rightarrow> bool" where
  "same_rows db db' \<longleftrightarrow> action_executions db' = action_executions db \<and> action_proposals db' = action_proposals db"

lemma same_rows_refl: "same_rows db db" and same_rows_trans: "same_rows a b \<Longrightarrow> same_rows b c \<Longrightarrow> same_rows a c"
  by (simp_all add: same_rows_def)

lemma same_rows_event: "append_sync_event a db = Inr db' \<Longrightarrow> same_rows db db'"
  using append_sync_event_frame by (fastforce simp: same_rows_def)

text \<open>
  \<open>settled cx st db db'\<close>: the loaded execution, and no other, got the status \<open>st\<close> with its start
  and claim times kept, and only the status of its proposal may have changed.
\<close>

definition settled ::
  "sync_ctx \<Rightarrow> execution_status \<Rightarrow> proposal_status \<Rightarrow> 'z action_db_scheme \<Rightarrow> 'z action_db_scheme \<Rightarrow> bool" where
  "settled cx st pst db db' \<longleftrightarrow> executions_ok db' \<and>
     (\<exists>f. action_executions db' = update_where (\<lambda>x. ex_id x = ex_id (sc_execution cx)) f (action_executions db) \<and>
        (\<forall>x. ex_id (f x) = ex_id x \<and> ex_action_proposal_id (f x) = ex_action_proposal_id x
           \<and> ex_workspace_id (f x) = ex_workspace_id x \<and> ex_request_hash (f x) = ex_request_hash x
           \<and> ex_client_idempotency_key (f x) = ex_client_idempotency_key x \<and> ex_claimed_at (f x) = ex_claimed_at x
           \<and> ex_started_at (f x) = ex_started_at x \<and> ex_status (f x) = st)) \<and>
     (\<exists>now. action_proposals db' = (if ap_status (sc_proposal cx) = pst then action_proposals db
        else update_where (\<lambda>p. ap_id p = ap_id (sc_proposal cx))
          (\<lambda>p. p\<lparr>ap_status := pst, ap_updated_at := now\<rparr>) (action_proposals db)))"

lemma settled_trans:
  "same_rows a b \<Longrightarrow> settled cx st pst b c \<Longrightarrow> same_rows c d \<Longrightarrow> settled cx st pst a d"
  by (auto simp: settled_def same_rows_def executions_ok_def split: if_splits)

lemma update_execution_frame:
  "update_execution i f now db = Inr db' \<Longrightarrow> executions_ok db' \<and> db' = db\<lparr>action_executions :=
     update_where (\<lambda>x. ex_id x = i) (\<lambda>x. (f x)\<lparr>ex_updated_at := now\<rparr>) (action_executions db)\<rparr>"
  by (auto simp: update_execution_def result_iffs Let_def)

lemma put_proposal_status_rows:
  "action_executions (put_proposal_status p st now db) = action_executions db"
  "action_proposals (put_proposal_status p st now db) = (if ap_status p = st then action_proposals db
     else update_where (\<lambda>q. ap_id q = ap_id p) (\<lambda>q. q\<lparr>ap_status := st, ap_updated_at := now\<rparr>) (action_proposals db))"
  by (simp_all add: put_proposal_status_def)

lemma record_reconciled_success_settled:
  assumes "record_reconciled_success cx raw now db = Inr db'" "ex_status (sc_execution cx) \<noteq> Succeeded"
  shows "settled cx Succeeded Executed db db'"
proof -
  obtain db1 f where u: "update_execution (ex_id (sc_execution cx)) f now db = Inr db1"
    and f: "\<And>x. ex_id (f x) = ex_id x \<and> ex_action_proposal_id (f x) = ex_action_proposal_id x
           \<and> ex_workspace_id (f x) = ex_workspace_id x \<and> ex_request_hash (f x) = ex_request_hash x
           \<and> ex_client_idempotency_key (f x) = ex_client_idempotency_key x \<and> ex_claimed_at (f x) = ex_claimed_at x
           \<and> ex_started_at (f x) = ex_started_at x \<and> ex_status (f x) = Succeeded"
    and d: "db' = put_proposal_status (sc_proposal cx) Executed now db1"
    using assms by (auto simp: record_reconciled_success_def result_iffs Let_def put_def)
  from update_execution_frame [OF u] f show ?thesis
    by (auto simp: settled_def d put_proposal_status_rows executions_ok_def
        intro!: exI [of _ "\<lambda>x. (f x)\<lparr>ex_updated_at := now\<rparr>"] exI [of _ now])
qed

lemma record_write_not_observed_settled:
  assumes "record_write_not_observed sha n now cx reason db = Inr (r, db')" "ex_status (sc_execution cx) \<noteq> Failed"
  shows "r = Inr WriteNotObserved \<and> settled cx Failed Approved db db'"
proof -
  obtain db1 f a where u: "update_execution (ex_id (sc_execution cx)) f now db = Inr db1"
    and f: "\<And>x. ex_id (f x) = ex_id x \<and> ex_action_proposal_id (f x) = ex_action_proposal_id x
           \<and> ex_workspace_id (f x) = ex_workspace_id x \<and> ex_request_hash (f x) = ex_request_hash x
           \<and> ex_client_idempotency_key (f x) = ex_client_idempotency_key x \<and> ex_claimed_at (f x) = ex_claimed_at x
           \<and> ex_started_at (f x) = ex_started_at x \<and> ex_status (f x) = Failed"
    and d: "append_sync_event a (put_proposal_status (sc_proposal cx) Approved now db1) = Inr db'"
    and r: "r = Inr WriteNotObserved"
    using assms by (auto simp: record_write_not_observed_def result_iffs Let_def put_def)
  have "settled cx Failed Approved db (put_proposal_status (sc_proposal cx) Approved now db1)"
    using update_execution_frame [OF u] f
    by (auto simp: settled_def put_proposal_status_rows executions_ok_def
        intro!: exI [of _ "\<lambda>x. (f x)\<lparr>ex_updated_at := now\<rparr>"] exI [of _ now])
  from settled_trans [OF same_rows_refl this same_rows_event [OF d]] r show ?thesis by simp
qed

lemma issue_read_rows: "same_rows db (snd (issue_read n now cx raw k db))"
  by (auto simp: issue_read_def create_execution_result_sync_job_def same_rows_def split: sum.splits)

lemma read_failed_rows: "read_failed sha n now cx db = Inr (r, db') \<Longrightarrow> same_rows db db'"
  by (auto simp: read_failed_def append_sync_failure_event_def result_iffs dest: same_rows_event)

lemma sync_succeeded_rows:
  assumes "sync_succeeded sha http ids now cx tok db = Inr (r, db')"
  shows "same_rows db db'"
proof (cases "get_issue http tok (gp_repository_full_name (sc_payload cx)) (sc_issue_number cx)")
  case (Inl e)
  then show ?thesis using assms
    by (cases e) (auto simp: sync_succeeded_def same_rows_refl split: if_splits dest: read_failed_rows)
next
  case (Inr raw)
  then have "db' = db \<or> db' = snd (issue_read (si_job ids) now cx raw (sc_issue_number cx) db)"
    using assms by (auto simp: sync_succeeded_def split: if_splits)
  then show ?thesis using issue_read_rows same_rows_refl by metis
qed

lemma record_match_effect:
  assumes "record_match sha ids now cx raw db = Inr (r, db')" "ex_status (sc_execution cx) \<noteq> Succeeded"
  shows "same_rows db db' \<or> settled cx Succeeded Executed db db'"
proof (cases "positive_int (py_get raw ''number'')")
  case (Inr n)
  show ?thesis
  proof (cases "n = PNone")
    case False
    with assms(1) Inr obtain db1 a db2 where
      r1: "record_reconciled_success cx raw now db = Inr db1" and e: "append_sync_event a db1 = Inr db2"
      and i: "issue_read (si_job ids) now cx raw n db2 = (r, db')"
      by (auto simp: record_match_def result_iffs)
    have "same_rows db1 db'" using same_rows_event [OF e] issue_read_rows [of db2 "si_job ids" now cx raw n] i
      by (simp add: same_rows_def)
    from settled_trans [OF same_rows_refl record_reconciled_success_settled [OF r1 assms(2)] this] show ?thesis by simp
  qed (use assms Inr in \<open>auto simp: record_match_def same_rows_refl\<close>)
qed (use assms in \<open>simp add: record_match_def\<close>)

text \<open>
  \<open>absent\<close> and \<open>found\<close>: what a complete list of the repository's issues shows of the execution.
\<close>

definition listed_matches :: "transport \<Rightarrow> string \<Rightarrow> sync_ctx \<Rightarrow> pydict list option" where
  "listed_matches http access_token cx =
     (case list_issues http access_token (gp_repository_full_name (sc_payload cx)) ''all'' 100 10 of
        Inl _ \<Rightarrow> None | Inr items \<Rightarrow> Some (issues_matching_execution_marker items (sc_execution cx)))"

lemma sync_uncertain_effect:
  assumes "sync_uncertain sha http ids now cx tok db = Inr (r, db')" "ex_status (sc_execution cx) \<in> {Running, Uncertain}"
  shows "same_rows db db' \<or>
    settled cx Failed Approved db db' \<and> listed_matches http tok cx = Some [] \<and>
      absence_reconciliation_eligible_at (sc_execution cx) \<le> now \<or>
    settled cx Succeeded Executed db db' \<and> (\<exists>raw. listed_matches http tok cx = Some [raw])"
proof -
  let ?L = "list_issues http tok (gp_repository_full_name (sc_payload cx)) ''all'' 100 10"
  show ?thesis
  proof (cases ?L)
    case (Inl e)
    then show ?thesis using assms(1) by (cases e) (auto simp: sync_uncertain_def dest: read_failed_rows)
  next
    case (Inr items)
    let ?M = "issues_matching_execution_marker items (sc_execution cx)"
    have L: "listed_matches http tok cx = Some ?M" by (simp add: listed_matches_def Inr)
    consider "?M = []" | raw where "?M = [raw]" | a b c where "?M = a # b # c" by (metis list.exhaust)
    then show ?thesis
    proof cases
      case 1
      show ?thesis
      proof (cases "now < absence_reconciliation_eligible_at (sc_execution cx)")
        case True
        then have "same_rows db db'" using assms(1) Inr 1
          by (auto simp: sync_uncertain_def record_reconciliation_pending_def result_iffs Let_def dest: same_rows_event)
        then show ?thesis ..
      next
        case False
        then have "record_write_not_observed sha (si_event ids) now cx ''complete_provider_snapshot'' db = Inr (r, db')"
          using assms(1) Inr 1 by (simp add: sync_uncertain_def Let_def)
        from record_write_not_observed_settled [OF this] show ?thesis using assms(2) False L 1 by auto
      qed
    next
      case (2 raw)
      then have "record_match sha ids now cx raw db = Inr (r, db')" using assms(1) Inr by (simp add: sync_uncertain_def)
      from record_match_effect [OF this] show ?thesis using assms(2) L 2 by auto
    next
      case 3
      then show ?thesis using assms(1) Inr by (auto simp: sync_uncertain_def same_rows_refl)
    qed
  qed
qed

text \<open>
  The possible effects of the handler on executions and proposals, with what each rests on.
\<close>

definition reconciled ::
  "(string \<Rightarrow> string option) \<Rightarrow> transport \<Rightarrow> time \<Rightarrow> sync_ctx \<Rightarrow> 'z action_db_scheme \<Rightarrow> 'z action_db_scheme \<Rightarrow> bool" where
  "reconciled decrypt http now cx db db' \<longleftrightarrow>
     settled cx Failed Approved db db' \<and> ex_status (sc_execution cx) = Claimed \<or>
     (\<exists>tok. decrypt (case ic_encrypted_access_token (sc_connection cx) of None \<Rightarrow> [] | Some t \<Rightarrow> t) = Some tok \<and>
        ex_status (sc_execution cx) \<in> {Running, Uncertain} \<and>
        (settled cx Failed Approved db db' \<and> listed_matches http tok cx = Some [] \<and>
           absence_reconciliation_eligible_at (sc_execution cx) \<le> now \<or>
         settled cx Succeeded Executed db db' \<and> (\<exists>raw. listed_matches http tok cx = Some [raw])))"

lemma sync_read_status:
  assumes "sync_read cfg w i actor cid db = Inr cx"
  shows "sc_execution cx \<in> set (action_executions db)" "ex_action_proposal_id (sc_execution cx) = i"
    "ex_status (sc_execution cx) \<in> {Claimed, Running, Succeeded, Uncertain}"
    "get_action_proposal w i db = Some (sc_proposal cx)" "enable_real_connectors cfg"
    "validate_github_issue_payload (ap_payload (sc_proposal cx)) = Inr (sc_payload cx)"
proof -
  from assms obtain p x where p: "get_action_proposal w i db = Some p" "get_reconcilable_execution_or_raise p db = Inr x"
    "sc_proposal cx = p" "sc_execution cx = x" "enable_real_connectors cfg" "validate_github_issue_proposal p = Inr (sc_payload cx)"
    by (auto simp: sync_read_def result_iffs require_some_def split: option.splits)
  let ?R = "filter (\<lambda>x. ex_action_proposal_id x = ap_id p \<and> ex_status x \<in> {Claimed, Running, Succeeded, Uncertain}) (action_executions db)"
  obtain ys where "sort_key (\<lambda>x. (ex_created_at x, ex_id x)) ?R = x # ys"
    using p(2) unfolding get_reconcilable_execution_or_raise_def by (simp split: list.splits if_splits)
  then have "x \<in> set (sort_key (\<lambda>x. (ex_created_at x, ex_id x)) ?R)" by (metis list.set_intros(1))
  then have "x \<in> set ?R" by (simp only: set_sort)
  then show "sc_execution cx \<in> set (action_executions db)" "ex_action_proposal_id (sc_execution cx) = i"
    "ex_status (sc_execution cx) \<in> {Claimed, Running, Succeeded, Uncertain}"
    using p get_action_proposal_Some [OF p(1)] by auto
  show "get_action_proposal w i db = Some (sc_proposal cx)" "enable_real_connectors cfg"
    "validate_github_issue_payload (ap_payload (sc_proposal cx)) = Inr (sc_payload cx)"
    using p by (auto simp: validate_github_issue_proposal_def result_iffs)
qed

lemma sync_apply_effect:
  assumes "sync_apply sha decrypt http ids now cx db = (r, db')"
    and "ex_status (sc_execution cx) \<in> {Claimed, Running, Succeeded, Uncertain}"
  shows "same_rows db db' \<or> reconciled decrypt http now cx db db'"
proof (cases "sync_body sha decrypt http ids now cx db")
  case (Inl e)
  then show ?thesis using assms by (simp add: sync_apply_def same_rows_refl)
next
  case (Inr rr)
  then have body: "sync_body sha decrypt http ids now cx db = Inr (r, db')" using assms(1) by (simp add: sync_apply_def)
  then obtain db1 where s: "append_sync_started sha (si_started ids) now cx db = Inr db1"
    by (auto simp: sync_body_def result_iffs)
  then have e: "same_rows db db1" using same_rows_event by (auto simp: append_sync_started_def)
  have keep: ?thesis if "same_rows db1 db'" using same_rows_trans [OF e that] ..
  let ?t = "case ic_encrypted_access_token (sc_connection cx) of None \<Rightarrow> [] | Some t \<Rightarrow> t"
  show ?thesis
  proof (cases "decrypt ?t")
    case None
    then have "same_rows db1 db'" using body s
      by (auto simp: sync_body_def result_iffs append_sync_failure_event_def dest: same_rows_event)
    then show ?thesis by (rule keep)
  next
    case (Some tok)
    have up: "settled cx st pst db db'" if "settled cx st pst db1 db'" for st pst
      by (rule settled_trans [OF e that same_rows_refl])
    from assms(2) consider "ex_status (sc_execution cx) = Succeeded" | "ex_status (sc_execution cx) = Claimed"
      | "ex_status (sc_execution cx) \<in> {Running, Uncertain}" by blast
    then show ?thesis
    proof cases
      case 1
      then have "sync_succeeded sha http ids now cx tok db1 = Inr (r, db')" using body s Some by (simp add: sync_body_def)
      then have "same_rows db1 db'" by (rule sync_succeeded_rows)
      then show ?thesis by (rule keep)
    next
      case 2
      then have "record_write_not_observed sha (si_event ids) now cx ''provider_request_not_started'' db1 = Inr (r, db')"
        using body s Some by (simp add: sync_body_def)
      from record_write_not_observed_settled [OF this] show ?thesis using 2 up by (simp add: reconciled_def)
    next
      case 3
      then have "sync_uncertain sha http ids now cx tok db1 = Inr (r, db')" using body s Some by (auto simp: sync_body_def)
      from sync_uncertain_effect [OF this 3] show ?thesis using 3 up Some keep by (auto simp: reconciled_def)
    qed
  qed
qed

text \<open>C37. Reconciliation is sound for what it loaded. If it changes an execution or a proposal at
  all, then it is the execution it loaded and its proposal, and no other. The execution becomes
  failed, and the proposal approved again, only if the handler loaded it as claimed, or as running
  or uncertain with the grace period over and no issue with its marker in a complete list of the
  repository. It becomes succeeded, and the proposal executed, only if it was loaded as running
  or uncertain and exactly one issue carries its marker. Its identity, its request, its key and
  its claim and start times stay. The handler loads the row without a lock, so these
  conditions are on the row it read and not on the stored row it then changes.\<close>

theorem reconciliation_sound:
  assumes "sync_github_issue_execution_result sha cfg decrypt http ids now w i actor cid seen db = (r, db')"
    and "\<not> same_rows db db'"
  shows "\<exists>cx. sync_read cfg w i actor cid seen = Inr cx \<and> sc_execution cx \<in> set (action_executions seen)
     \<and> ex_action_proposal_id (sc_execution cx) = i \<and> reconciled decrypt http now cx db db'"
proof (cases "sync_read cfg w i actor cid seen")
  case (Inl e)
  then show ?thesis using assms by (simp add: sync_github_issue_execution_result_def same_rows_refl)
next
  case (Inr cx)
  then have "sync_apply sha decrypt http ids now cx db = (r, db')"
    using assms(1) by (simp add: sync_github_issue_execution_result_def)
  from sync_apply_effect [OF this sync_read_status(3) [OF Inr]] assms(2) sync_read_status(1,2) [OF Inr] Inr
  show ?thesis by blast
qed

section \<open>A write that happened is recovered\<close>

lemma marker_in_body: "is_infix (execution_request_marker x) (body_with_execution_marker body x)"
proof -
  have "is_infix (execution_request_marker x) (a @ execution_request_marker x)" for a
    using is_infix_append [of "execution_request_marker x" a "[]"] by simp
  from this [of "[]"] this [of "_ @ newline2"] show ?thesis
    by (auto simp: body_with_execution_marker_def with_marker_def split: option.splits)
qed

lemma sync_event_recorded:
  assumes "sha256_hex sha" "plain_word event_type" "status \<in> set EXECUTION_EVENT_STATUSES"
    and "\<And>a. ea_idempotency_key (g a) = ea_idempotency_key a \<and> ea_status (g a) = ea_status a"
  shows "\<exists>ev. append_sync_event (g (sync_event_args sha n now cx event_type status m rs md)) db = Inr (db\<lparr>execution_events := ev\<rparr>)"
proof -
  let ?a = "g (sync_event_args sha n now cx event_type status m rs md)"
  have "\<exists>db'. append_audit ?a db = Inr db'"
    by (rule append_audit_ok)
       (use assms execution_event_key_regular in \<open>auto simp: regular_event_def sync_event_args_def plain_word_def Let_def\<close>)
  then obtain db' where db': "append_audit ?a db = Inr db'" by blast
  then show ?thesis using append_audit_frame [OF db'] by (auto simp: append_sync_event_def)
qed

lemma sync_words: "plain_word ''execution_result_sync_started''" "plain_word ''execution_outcome_reconciled''"
  "plain_word ''execution_write_not_observed''" "''recorded'' \<in> set EXECUTION_EVENT_STATUSES"
  by (simp_all add: plain_word_def is_space_def EXECUTION_EVENT_STATUSES_def)

lemma sync_started_ok:
  assumes "sha256_hex sha"
  shows "\<exists>ev. append_sync_started sha n now cx db = Inr (db\<lparr>execution_events := ev\<rparr>)"
  unfolding append_sync_started_def
  by (rule sync_event_recorded [where g = "\<lambda>a. a", OF assms sync_words(1,4)]) simp

lemma loaded_row_active:
  assumes "sync_read cfg w i actor cid db = Inr cx" "executions_ok db"
    and "x \<in> set (action_executions db)" "ex_id x = ex_id (sc_execution cx)"
  shows "x = sc_execution cx" "ex_status x \<in> set ACTIVE_OR_SUCCESSFUL"
proof -
  show x: "x = sc_execution cx"
    using assms sync_read_status(1) [OF assms(1)] by (auto simp: executions_ok_def distinct_map dest: inj_onD)
  show "ex_status x \<in> set ACTIVE_OR_SUCCESSFUL"
    using sync_read_status(3) [OF assms(1)] by (auto simp: x ACTIVE_OR_SUCCESSFUL_def)
qed

lemma map_of_map_filter:
  assumes "distinct ks" "k \<in> set ks" "\<And>j l v. g j = Some (l, v) \<Longrightarrow> l = j"
  shows "map_of (List.map_filter g ks) k = (case g k of None \<Rightarrow> None | Some (l, v) \<Rightarrow> Some v)"
  using assms(1,2)
proof (induction ks)
  case (Cons j ks)
  have no: "map_of (List.map_filter g ks) j = None" if "j \<notin> set ks"
  proof -
    have "j \<notin> fst ` set (List.map_filter g ks)"
      using that assms(3) by (force simp: List.map_filter_def)
    then show ?thesis by (simp add: map_of_eq_None_iff)
  qed
  show ?case
  proof (cases "g j")
    case None
    then show ?thesis using Cons no by (cases "k = j") (auto simp: List.map_filter_simps)
  next
    case (Some lv)
    then obtain v where "g j = Some (j, v)" using assms(3) by (cases lv) auto
    then show ?thesis using Cons by (auto simp: List.map_filter_simps)
  qed
qed simp

lemma sanitized_number:
  assumes "py_get raw ''number'' = PInt n"
  shows "py_get (sanitize_github_issue_response raw) ''number'' = PInt n"
proof -
  have "map_of (sanitize_github_issue_response raw) ''number'' = Some (PInt n)"
    unfolding sanitize_github_issue_response_def
    by (subst map_of_map_filter) (auto simp: ALLOWED_RESPONSE_KEYS_def assms split: pyval.splits)
  then show ?thesis by (simp add: py_get_def)
qed

lemma issue_recovered:
  assumes "sha256_hex sha" "executions_ok db" "sync_read cfg w i actor cid db = Inr cx"
    and "ex_status (sc_execution cx) \<in> {Running, Uncertain}"
    and "decrypt (case ic_encrypted_access_token (sc_connection cx) of None \<Rightarrow> [] | Some t \<Rightarrow> t) = Some tok"
    and "list_issues http tok (gp_repository_full_name (sc_payload cx)) ''all'' 100 10 = Inr (as @ raw # bs)"
    and "issues_matching_execution_marker (as @ bs) (sc_execution cx) = []"
    and "py_get raw ''body'' = PStr (body_with_execution_marker body (sc_execution cx))"
    and "py_get raw ''pull_request'' = PNone" "py_get raw ''number'' = PInt n" "n > 0"
    and "ap_status (sc_proposal cx) \<noteq> Executed"
  shows "\<exists>rec db'. sync_github_issue_execution_result sha cfg decrypt http ids now w i actor cid db db = (Inr (ResultRead rec), db')
     \<and> (\<exists>x\<in>set (action_executions db'). ex_id x = ex_id (sc_execution cx) \<and> ex_status x = Succeeded
          \<and> ex_reconciled_at x = Some now
          \<and> py_get (ex_provider_response x) ''number'' = PInt n)
     \<and> (\<exists>p\<in>set (action_proposals db'). ap_id p = i \<and> ap_status p = Executed)"
proof -
  let ?x = "sc_execution cx" and ?p = "sc_proposal cx"
  let ?san = "dict_set ''idempotency_key'' (PStr (ex_client_idempotency_key ?x)) (sanitize_github_issue_response raw)"
  let ?f = "\<lambda>x. x\<lparr>ex_status := put (ex_status ?x) Succeeded (ex_status x),
         ex_provider_response := put (ex_provider_response ?x) ?san (ex_provider_response x),
         ex_external_id := put (ex_external_id ?x) (execution_external_id ?san) (ex_external_id x),
         ex_error_message := put (ex_error_message ?x) None (ex_error_message x),
         ex_finished_at := put (ex_finished_at ?x) (Some now) (ex_finished_at x),
         ex_reconciled_at := put (ex_reconciled_at ?x) (Some now) (ex_reconciled_at x)\<rparr>"
  have st: "ex_status ?x \<noteq> Succeeded" "ex_status ?x \<noteq> Claimed" using assms(4) by auto
  obtain ev1 where s: "append_sync_started sha (si_started ids) now cx db = Inr (db\<lparr>execution_events := ev1\<rparr>)" (is "_ = Inr ?db1")
    using sync_started_ok [OF assms(1)] by blast
  have "issues_matching_execution_marker (as @ raw # bs) ?x = [raw]"
    using assms(7-9) marker_in_body [of ?x body]
    by (auto simp: issues_matching_execution_marker_def filter_empty_conv)
  then have m: "sync_uncertain sha http ids now cx tok ?db1 = record_match sha ids now cx raw ?db1"
    using assms(6) by (simp add: sync_uncertain_def)
  have ok1: "executions_ok ?db1" using assms(2) by (simp add: executions_ok_def)
  have "update_execution (ex_id ?x) ?f now ?db1 = Inr (?db1\<lparr>action_executions := update_where (\<lambda>x. ex_id x = ex_id ?x)
            (\<lambda>x. (?f x)\<lparr>ex_updated_at := now\<rparr>) (action_executions ?db1)\<rparr>)" (is "_ = Inr ?db2")
    by (rule update_execution_ok [OF ok1])
       (use st loaded_row_active(2) [OF assms(3,2)] in \<open>auto simp: put_def ACTIVE_OR_SUCCESSFUL_def\<close>)
  then have r: "record_reconciled_success cx raw now ?db1 = Inr (put_proposal_status ?p Executed now ?db2)"
    by (simp add: record_reconciled_success_def Let_def)
  have n: "positive_int (PInt n) = Inr (PInt n)" using assms(11) by (simp add: positive_int_def positive_int_value_def as_int_def)
  let ?a = "(sync_event_args sha (si_event ids) now cx ''execution_outcome_reconciled'' ''recorded''
         ''The uncertain GitHub write was matched by its exact execution marker and recorded as succeeded.''
         (execution_text cx @ '':'' @ int_text (PInt n) @ '':reconciled'')
         [(''execution_id'', PStr (execution_text cx)),
          (''repository_full_name'', PStr (gp_repository_full_name (sc_payload cx))),
          (''issue_number'', PInt n), (''request_hash'', PStr (ex_request_hash ?x))])
       \<lparr>ea_external_result_id := Some (int_text (PInt n)),
        ea_external_result_url := sync_safe_url (py_get raw ''html_url'')\<rparr>"
  have "\<exists>ev. append_sync_event ?a (put_proposal_status ?p Executed now ?db2)
      = Inr ((put_proposal_status ?p Executed now ?db2)\<lparr>execution_events := ev\<rparr>)"
    by (rule sync_event_recorded [where g = "\<lambda>a. a\<lparr>ea_external_result_id := Some (int_text (PInt n)),
        ea_external_result_url := sync_safe_url (py_get raw ''html_url'')\<rparr>", OF assms(1) sync_words(2,4)]) simp
  then obtain ev2 where e: "append_sync_event ?a (put_proposal_status ?p Executed now ?db2)
      = Inr ((put_proposal_status ?p Executed now ?db2)\<lparr>execution_events := ev2\<rparr>)" (is "_ = Inr ?db3")
    by blast
  obtain rec where i: "issue_read (si_job ids) now cx raw (PInt n) ?db3
      = (Inr (ResultRead rec), create_execution_result_sync_job (si_job ids) now cx rec ?db3)"
    using assms(9) by (auto simp: issue_read_def issue_record_from_github_response_def Let_def)
  let ?db4 = "create_execution_result_sync_job (si_job ids) now cx rec ?db3"
  have rows: "action_executions ?db4 = update_where (\<lambda>x. ex_id x = ex_id ?x) (\<lambda>x. (?f x)\<lparr>ex_updated_at := now\<rparr>) (action_executions db)"
    "action_proposals ?db4 = update_where (\<lambda>q. ap_id q = ap_id ?p) (\<lambda>q. q\<lparr>ap_status := Executed, ap_updated_at := now\<rparr>) (action_proposals db)"
    using assms(12) by (simp_all add: create_execution_result_sync_job_def put_proposal_status_def)
  have "record_match sha ids now cx raw ?db1 = Inr (Inr (ResultRead rec), ?db4)"
    using assms(10) n r e i by (simp add: record_match_def)
  then have "sync_github_issue_execution_result sha cfg decrypt http ids now w i actor cid db db = (Inr (ResultRead rec), ?db4)"
    using assms(3,5) s m st by (simp add: sync_github_issue_execution_result_def sync_apply_def sync_body_def)
  moreover have "\<exists>x\<in>set (action_executions ?db4). ex_id x = ex_id ?x \<and> ex_status x = Succeeded
      \<and> ex_reconciled_at x = Some now \<and> py_get (ex_provider_response x) ''number'' = PInt n"
  proof (rule bexI [of _ "(?f ?x)\<lparr>ex_updated_at := now\<rparr>"])
    have "py_get ?san ''number'' = PInt n"
      using sanitized_number [OF assms(10)] by (simp add: py_get_dict_set)
    then show "ex_id ((?f ?x)\<lparr>ex_updated_at := now\<rparr>) = ex_id ?x \<and> ex_status ((?f ?x)\<lparr>ex_updated_at := now\<rparr>) = Succeeded
      \<and> ex_reconciled_at ((?f ?x)\<lparr>ex_updated_at := now\<rparr>) = Some now
      \<and> py_get (ex_provider_response ((?f ?x)\<lparr>ex_updated_at := now\<rparr>)) ''number'' = PInt n" by simp
    show "(?f ?x)\<lparr>ex_updated_at := now\<rparr> \<in> set (action_executions ?db4)"
      unfolding rows in_update_where using sync_read_status(1) [OF assms(3)] by blast
  qed
  moreover have "\<exists>p\<in>set (action_proposals ?db4). ap_id p = i \<and> ap_status p = Executed"
  proof (rule bexI [of _ "?p\<lparr>ap_status := Executed, ap_updated_at := now\<rparr>"])
    note p = get_action_proposal_Some [OF sync_read_status(4) [OF assms(3)]]
    show "ap_id (?p\<lparr>ap_status := Executed, ap_updated_at := now\<rparr>) = i
      \<and> ap_status (?p\<lparr>ap_status := Executed, ap_updated_at := now\<rparr>) = Executed" using p by simp
    show "?p\<lparr>ap_status := Executed, ap_updated_at := now\<rparr> \<in> set (action_proposals ?db4)"
      unfolding rows in_update_where using p by blast
  qed
  ultimately show ?thesis by blast
qed

text \<open>C38. A write that happened is recovered. Suppose the execution of a proposal is running or
  uncertain, and a complete list of the repository shows exactly one issue with its marker, with
  a positive number: the issue whose body is that of the request. Then reconciliation answers
  the issue, the execution is recorded as succeeded with that number in its receipt, and the
  proposal as executed.\<close>

theorem written_issue_recovered:
  assumes "sha256_hex sha" "executions_ok db" "sync_read cfg w i actor cid db = Inr cx"
    and "ex_status (sc_execution cx) \<in> {Running, Uncertain}"
    and "decrypt (case ic_encrypted_access_token (sc_connection cx) of None \<Rightarrow> [] | Some t \<Rightarrow> t) = Some tok"
    and "list_issues http tok (gp_repository_full_name (sc_payload cx)) ''all'' 100 10 = Inr (as @ raw # bs)"
    and "issues_matching_execution_marker (as @ bs) (sc_execution cx) = []"
    and "py_get raw ''body'' = PStr (body_with_execution_marker body (sc_execution cx))"
    and "py_get raw ''pull_request'' = PNone" "py_get raw ''number'' = PInt n" "n > 0"
    and "ap_status (sc_proposal cx) \<noteq> Executed"
  shows "\<exists>rec db'. sync_github_issue_execution_result sha cfg decrypt http ids now w i actor cid db db = (Inr (ResultRead rec), db')
     \<and> (\<exists>x\<in>set (action_executions db'). ex_id x = ex_id (sc_execution cx) \<and> ex_status x = Succeeded
          \<and> ex_reconciled_at x = Some now
          \<and> py_get (ex_provider_response x) ''number'' = PInt n)
     \<and> (\<exists>p\<in>set (action_proposals db'). ap_id p = i \<and> ap_status p = Executed)"
  using assms by (rule issue_recovered)

section \<open>A reconciliation at concrete tables\<close>

definition example_uncertain :: action_execution where
  "example_uncertain = (claimed_row example_phase_ids 10 2 example_approved example_input 61 ''key-0001'' zero_hash)
     \<lparr>ex_status := Uncertain, ex_started_at := Some 11\<rparr>"

definition example_uncertain_db :: action_db where
  "example_uncertain_db = example_exec_db\<lparr>action_executions := [example_uncertain]\<rparr>"

definition example_found :: pydict where
  "example_found = [(''number'', PInt 5), (''body'', PStr (body_with_execution_marker (Some ''B'') example_uncertain))]"

definition found_page :: http_response where
  "found_page = \<lparr> rs_status = 200, rs_json = Some (PList [PDict example_found]), rs_header = Map.empty \<rparr>"

definition found_http :: transport where
  "found_http rq = (if rq_method rq = ''GET'' then Some found_page else None)"

definition example_sync_ids :: sync_ids where
  "example_sync_ids = \<lparr> si_started = 201, si_event = 202, si_job = 203 \<rparr>"

definition example_sync_ctx :: sync_ctx where
  "example_sync_ctx = \<lparr> sc_proposal = example_approved, sc_execution = example_uncertain,
     sc_connection = example_connection, sc_payload = example_issue, sc_issue_number = PNone, sc_actor = 1 \<rparr>"

lemma example_sync_read: "sync_read example_cfg 2 7 1 None example_uncertain_db = Inr example_sync_ctx"
proof -
  have p: "get_action_proposal 2 7 example_uncertain_db = Some example_approved"
    using example_exec_state(3) by (simp add: example_uncertain_db_def get_action_proposal_def)
  have v: "validate_github_issue_proposal example_approved = Inr example_issue"
    by (simp add: validate_github_issue_proposal_def example_payload_valid)
       (simp add: example_approved_def example_proposal_def)
  have x: "get_reconcilable_execution_or_raise example_approved example_uncertain_db = Inr example_uncertain"
    by (simp add: get_reconcilable_execution_or_raise_def example_uncertain_db_def example_uncertain_def claimed_row_def)
  have c: "sync_get_connection_or_raise 2 (Some 61) example_uncertain_db = Inr example_connection"
    by (simp add: sync_get_connection_or_raise_def example_uncertain_db_def example_exec_db_def example_db_simps
        require_some_def validate_connection_def example_connection_def)
  have "ex_connection_id example_uncertain = Some 61" "ex_status example_uncertain = Uncertain" "enable_real_connectors example_cfg"
    by (simp_all add: example_uncertain_def claimed_row_def example_cfg_def)
  then show ?thesis using p v x c by (simp add: sync_read_def require_some_def example_sync_ctx_def)
qed

lemma example_uncertain_ok: "executions_ok example_uncertain_db"
  by (simp add: executions_ok_def example_uncertain_db_def)

lemma example_listed: "list_issues found_http ''enc'' repo ''all'' 100 10 = Inr [example_found]"
  by (subst list_issues_one_page [where r = found_page and xs = "[PDict example_found]"])
     (simp_all add: found_http_def found_page_def as_dict_def List.map_filter_simps)

lemma example_found_simps: "py_get example_found ''number'' = PInt 5" "py_get example_found ''pull_request'' = PNone"
  "py_get example_found ''body'' = PStr (body_with_execution_marker (Some ''B'') example_uncertain)"
  by (simp_all add: example_found_def py_get_def)

lemma example_sync_ctx_simps: "ex_status (sc_execution example_sync_ctx) = Uncertain"
  "Some (case ic_encrypted_access_token (sc_connection example_sync_ctx) of None \<Rightarrow> [] | Some t \<Rightarrow> t) = Some ''enc''"
  "ap_status (sc_proposal example_sync_ctx) \<noteq> Executed" "sc_execution example_sync_ctx = example_uncertain"
  by (simp_all add: example_sync_ctx_def example_uncertain_def claimed_row_def example_connection_def example_approved_def)

theorem written_issue_recovered_witness:
  "\<exists>rec db'. sync_github_issue_execution_result zero_sha example_cfg Some found_http example_sync_ids 20 2 7 1 None
       example_uncertain_db example_uncertain_db = (Inr (ResultRead rec), db')
     \<and> (\<exists>x\<in>set (action_executions db'). ex_id x = ex_id (sc_execution example_sync_ctx) \<and> ex_status x = Succeeded
          \<and> ex_reconciled_at x = Some 20 \<and> py_get (ex_provider_response x) ''number'' = PInt 5)
     \<and> (\<exists>p\<in>set (action_proposals db'). ap_id p = 7 \<and> ap_status p = Executed)"
  by (rule written_issue_recovered [where db = example_uncertain_db and cx = example_sync_ctx and as = "[]" and bs = "[]" and raw = example_found and body = "Some ''B''" and tok = "''enc''",
        OF zero_sha_hex example_uncertain_ok example_sync_read])
     (use example_sync_ctx_simps example_listed example_found_simps in \<open>simp_all add: issues_matching_execution_marker_def\<close>)

lemma example_recovered:
  obtains rec db' where "sync_github_issue_execution_result zero_sha example_cfg Some found_http example_sync_ids 20 2 7 1 None
       example_uncertain_db example_uncertain_db = (Inr (ResultRead rec), db')" "\<not> same_rows example_uncertain_db db'"
proof -
  have "\<exists>rec db'. sync_github_issue_execution_result zero_sha example_cfg Some found_http example_sync_ids 20 2 7 1 None
       example_uncertain_db example_uncertain_db = (Inr (ResultRead rec), db')
     \<and> (\<exists>x\<in>set (action_executions db'). ex_id x = ex_id (sc_execution example_sync_ctx) \<and> ex_status x = Succeeded
          \<and> ex_reconciled_at x = Some 20 \<and> py_get (ex_provider_response x) ''number'' = PInt 5)
     \<and> (\<exists>p\<in>set (action_proposals db'). ap_id p = 7 \<and> ap_status p = Executed)"
    by (rule issue_recovered [where db = example_uncertain_db and cx = example_sync_ctx and as = "[]" and bs = "[]" and raw = example_found and body = "Some ''B''" and tok = "''enc''",
          OF zero_sha_hex example_uncertain_ok example_sync_read])
       (use example_sync_ctx_simps example_listed example_found_simps in \<open>simp_all add: issues_matching_execution_marker_def\<close>)
  then obtain rec db' x where r: "sync_github_issue_execution_result zero_sha example_cfg Some found_http example_sync_ids 20 2 7 1 None
       example_uncertain_db example_uncertain_db = (Inr (ResultRead rec), db')"
    "x \<in> set (action_executions db')" "ex_status x = Succeeded" by blast
  have "\<not> same_rows example_uncertain_db db'"
  proof
    assume "same_rows example_uncertain_db db'"
    then have "x = example_uncertain" using r(2) by (simp add: same_rows_def example_uncertain_db_def)
    then show False using r(3) by (simp add: example_uncertain_def)
  qed
  then show thesis using that r(1) by blast
qed

theorem reconciliation_sound_witness:
  "\<exists>db'. \<not> same_rows example_uncertain_db db' \<and> reconciled Some found_http 20 example_sync_ctx example_uncertain_db db'"
proof (rule example_recovered)
  fix rec db'
  assume r: "sync_github_issue_execution_result zero_sha example_cfg Some found_http example_sync_ids 20 2 7 1 None
       example_uncertain_db example_uncertain_db = (Inr (ResultRead rec), db')" "\<not> same_rows example_uncertain_db db'"
  from reconciliation_sound [OF r] r(2) show ?thesis by (auto simp: example_sync_read simp del: One_nat_def)
qed

end
