(* ===== verification/Recovery_Machine.thy ===== *)
theory Recovery_Machine
  imports Result_Sync
begin

text \<open>
  Executions and reconciliations interleaved, with the provider: a request that was sent may
  become an issue at any later time, or never. \<open>recon_step timely\<close> extends \<^const>\<open>exec_step\<close> by the
  creation of an issue, by whole reconciliations that load and write in one step, and by the
  passing of time. With \<open>timely\<close> an issue is created only before the grace period of its
  execution is over, which is what reconciliation relies on.
\<close>

section \<open>The machine\<close>

record recon_state =
  rs_exec :: exec_state
  rs_created :: "(exec_ctx \<times> provider_request) list"
  rs_now :: time

text \<open>A complete list of a repository shows the issues that were created in it.\<close>

definition shows_created :: "transport \<Rightarrow> (exec_ctx \<times> provider_request) list \<Rightarrow> bool" where
  "shows_created http created \<longleftrightarrow> (\<forall>(cx, rq)\<in>set created. \<forall>tok items.
     list_issues http tok (pr_repository_full_name rq) ''all'' 100 10 = Inr items \<longrightarrow>
       issues_matching_execution_marker items (cx_execution cx) \<noteq> [])"

text \<open>
  What every transaction keeps: proposals have distinct identifiers and their payloads never
  change, and a proposal that is added has no executions yet.
\<close>

definition payloads_kept :: "action_db \<Rightarrow> action_db \<Rightarrow> bool" where
  "payloads_kept db db' \<longleftrightarrow> distinct (map ap_id (action_proposals db')) \<and>
     (\<forall>q\<in>set (action_proposals db').
        (\<exists>p\<in>set (action_proposals db). ap_id p = ap_id q \<and> ap_payload p = ap_payload q) \<or>
        ap_id q \<notin> ex_action_proposal_id ` set (action_executions db))"

inductive recon_step ::
  "bool \<Rightarrow> sha \<Rightarrow> execution_config \<Rightarrow> (string \<Rightarrow> string option) \<Rightarrow> recon_state \<Rightarrow> recon_state \<Rightarrow> bool"
  for timely sha cfg decrypt where
  phase: "exec_step sha cfg decrypt (rs_exec s) e \<Longrightarrow> payloads_kept (xs_db (rs_exec s)) (xs_db e) \<Longrightarrow>
     recon_step timely sha cfg decrypt s (s\<lparr>rs_exec := e\<rparr>)"
| create: "c \<in> set (xs_calls (rs_exec s)) \<Longrightarrow> c \<notin> set (rs_created s) \<Longrightarrow>
     \<not> timely \<or> (\<exists>x\<in>set (action_executions (xs_db (rs_exec s))). ex_id x = exec_id (fst c)
        \<and> rs_now s < absence_reconciliation_eligible_at x) \<Longrightarrow>
     recon_step timely sha cfg decrypt s (s\<lparr>rs_created := rs_created s @ [c]\<rparr>)"
| sync: "sync_github_issue_execution_result sha cfg decrypt http ids (rs_now s) w i actor cid
       (xs_db (rs_exec s)) (xs_db (rs_exec s)) = (r, db') \<Longrightarrow> shows_created http (rs_created s) \<Longrightarrow>
     recon_step timely sha cfg decrypt s (s\<lparr>rs_exec := (rs_exec s)\<lparr>xs_db := db'\<rparr>\<rparr>)"
| tick: "rs_now s \<le> t \<Longrightarrow> recon_step timely sha cfg decrypt s (s\<lparr>rs_now := t\<rparr>)"

section \<open>Rows\<close>

definition row_with :: "action_db \<Rightarrow> exec_ctx \<Rightarrow> (action_execution \<Rightarrow> bool) \<Rightarrow> bool" where
  "row_with db cx P \<longleftrightarrow> (\<exists>x\<in>set (action_executions db). ex_id x = exec_id cx
     \<and> ex_action_proposal_id x = ap_id (cx_proposal cx) \<and> ex_request_hash x = ex_request_hash (cx_execution cx) \<and> P x)"

definition updated :: "uuid \<Rightarrow> (action_execution \<Rightarrow> action_execution \<Rightarrow> bool) \<Rightarrow> action_db \<Rightarrow> action_db \<Rightarrow> bool" where
  "updated i Q db db' \<longleftrightarrow> executions_ok db' \<and>
     (\<exists>f. action_executions db' = update_where (\<lambda>x. ex_id x = i) f (action_executions db) \<and>
        (\<forall>x. ex_id (f x) = ex_id x \<and> ex_action_proposal_id (f x) = ex_action_proposal_id x
           \<and> ex_request_hash (f x) = ex_request_hash x \<and> Q x (f x)))"

lemma updated_row_set: "row_set i S db db' \<Longrightarrow> updated i (\<lambda>_ y. ex_status y \<in> S) db db'"
  unfolding row_set_def updated_def by blast

lemma phase_update:
  assumes "db' = db \<or> row_set i S db db'" "executions_ok db"
  shows "action_executions db' = action_executions db \<or> updated i (\<lambda>_ y. ex_status y \<in> S) db db'" "executions_ok db'"
  using assms updated_row_set row_set_ok by blast+

lemma updated_settled:
  assumes "settled cx st pst db db'"
  shows "updated (ex_id (sc_execution cx)) (\<lambda>x y. ex_status y = st \<and>
     absence_reconciliation_eligible_at y = absence_reconciliation_eligible_at x) db db'"
  using assms unfolding settled_def updated_def
  by (elim conjE exE) (intro conjI exI, assumption+, auto simp: absence_reconciliation_eligible_at_def split: option.splits)

lemma row_with_other:
  assumes "updated i Q db db'" "row_with db cx P" "exec_id cx \<noteq> i"
  shows "row_with db' cx P"
proof -
  from assms(1) obtain f where f: "action_executions db' = update_where (\<lambda>x. ex_id x = i) f (action_executions db)"
    by (auto simp: updated_def)
  from assms(2) obtain x where x: "x \<in> set (action_executions db)" "ex_id x = exec_id cx"
    "ex_action_proposal_id x = ap_id (cx_proposal cx)" "ex_request_hash x = ex_request_hash (cx_execution cx)" "P x"
    by (auto simp: row_with_def)
  have "x \<in> set (action_executions db')" using x(1,2) assms(3) by (simp add: f in_update_where)
  with x show ?thesis by (auto simp: row_with_def)
qed

lemma row_with_updated:
  assumes "updated (exec_id cx) Q db db'" "row_with db cx P" "\<And>x y. P x \<Longrightarrow> Q x y \<Longrightarrow> P' y"
  shows "row_with db' cx P'"
proof -
  from assms(1) obtain f where f: "action_executions db' = update_where (\<lambda>x. ex_id x = exec_id cx) f (action_executions db)"
    and keep: "\<And>x. ex_id (f x) = ex_id x \<and> ex_action_proposal_id (f x) = ex_action_proposal_id x
       \<and> ex_request_hash (f x) = ex_request_hash x \<and> Q x (f x)" by (auto simp: updated_def)
  from assms(2) obtain x where x: "x \<in> set (action_executions db)" "ex_id x = exec_id cx"
    "ex_action_proposal_id x = ap_id (cx_proposal cx)" "ex_request_hash x = ex_request_hash (cx_execution cx)" "P x"
    by (auto simp: row_with_def)
  have "f x \<in> set (action_executions db')" using x(1,2) by (auto simp: f in_update_where)
  moreover have "P' (f x)" using assms(3) keep [of x] x(5) by blast
  ultimately show ?thesis using x keep [of x] by (auto simp: row_with_def)
qed

lemma row_with_mono: "row_with db cx P \<Longrightarrow> (\<And>x. P x \<Longrightarrow> P' x) \<Longrightarrow> row_with db cx P'"
  by (auto simp: row_with_def)

lemma row_with_append: "row_with db cx P \<Longrightarrow> set (action_executions db) \<subseteq> set (action_executions db') \<Longrightarrow> row_with db' cx P"
  by (auto simp: row_with_def)

text \<open>The row of an identifier is unique, so what is known of it combines.\<close>

lemma execution_unique:
  "executions_ok db \<Longrightarrow> x \<in> set (action_executions db) \<Longrightarrow> y \<in> set (action_executions db) \<Longrightarrow> ex_id x = ex_id y \<Longrightarrow> x = y"
  unfolding executions_ok_def distinct_map by (metis inj_onD)

lemma row_with_unique:
  assumes "executions_ok db" "row_with db cx P" "y \<in> set (action_executions db)" "ex_id y = exec_id cx"
  shows "P y" "ex_action_proposal_id y = ap_id (cx_proposal cx)" "ex_request_hash y = ex_request_hash (cx_execution cx)"
proof -
  from assms(2) obtain x where x: "x \<in> set (action_executions db)" "ex_id x = exec_id cx"
    "ex_action_proposal_id x = ap_id (cx_proposal cx)" "ex_request_hash x = ex_request_hash (cx_execution cx)" "P x"
    by (auto simp: row_with_def)
  have "x = y" using execution_unique assms(1,3,4) x(1,2) by metis
  with x show "P y" "ex_action_proposal_id y = ap_id (cx_proposal cx)" "ex_request_hash y = ex_request_hash (cx_execution cx)" by auto
qed

section \<open>The invariant\<close>

definition unsettled :: "execution_status set" where "unsettled = {Running, Succeeded, Uncertain}"

text \<open>
  \<open>live now x\<close>: the row of a started execution is unsettled or succeeded, or it was given up
  after its grace period.
\<close>

definition live :: "time \<Rightarrow> action_execution \<Rightarrow> bool" where
  "live now x \<longleftrightarrow> ex_status x \<in> unsettled \<or> ex_status x = Failed \<and> absence_reconciliation_eligible_at x \<le> now"

definition payload_of :: "action_db \<Rightarrow> exec_ctx \<Rightarrow> bool" where
  "payload_of db cx \<longleftrightarrow> (\<forall>p\<in>set (action_proposals db). ap_id p = ap_id (cx_proposal cx) \<longrightarrow>
     ap_payload p = ap_payload (cx_proposal cx))"

fun thread_row :: "time \<Rightarrow> thread \<Rightarrow> action_execution \<Rightarrow> bool" where
  "thread_row now (ThClaimed cx) x = (ex_status x \<in> {Claimed, Failed})"
| "thread_row now (ThStarted cx t) x = live now x"
| "thread_row now (ThCalled cx) x = live now x"

lemma thread_row_started [simp]: "thread_row now (ThStarted cx t) = live now" "thread_row now (ThCalled cx) = live now"
  by (rule ext, simp)+

definition thread_ok :: "execution_config \<Rightarrow> time \<Rightarrow> action_db \<Rightarrow> uuid set \<Rightarrow> thread \<Rightarrow> bool" where
  "thread_ok cfg now db called th \<longleftrightarrow> ctx_ok cfg (th_ctx th) \<and> payload_of db (th_ctx th) \<and>
     row_with db (th_ctx th) (thread_row now th) \<and> (not_sent th \<longrightarrow> exec_id (th_ctx th) \<notin> called)"

definition call_ok :: "execution_config \<Rightarrow> time \<Rightarrow> action_db \<Rightarrow> exec_ctx \<times> provider_request \<Rightarrow> bool" where
  "call_ok cfg now db c \<longleftrightarrow> ctx_ok cfg (fst c) \<and> payload_of db (fst c) \<and> row_with db (fst c) (live now) \<and>
     pr_repository_full_name (snd c) = gp_repository_full_name (cx_payload (fst c))"

definition created_ok :: "action_db \<Rightarrow> exec_ctx \<times> provider_request \<Rightarrow> bool" where
  "created_ok db c \<longleftrightarrow> row_with db (fst c) (\<lambda>x. ex_status x \<in> unsettled)"

definition recon_inv :: "execution_config \<Rightarrow> recon_state \<Rightarrow> bool" where
  "recon_inv cfg s \<longleftrightarrow> (let e = rs_exec s; db = xs_db e in
     executions_ok db \<and> distinct (map ap_id (action_proposals db)) \<and>
     distinct (map (exec_id \<circ> th_ctx) (xs_threads e)) \<and> distinct (called_ids e) \<and>
     (\<forall>th\<in>set (xs_threads e). thread_ok cfg (rs_now s) db (set (called_ids e)) th) \<and>
     (\<forall>c\<in>set (xs_calls e). call_ok cfg (rs_now s) db c) \<and>
     distinct (rs_created s) \<and> set (rs_created s) \<subseteq> set (xs_calls e) \<and>
     (\<forall>c\<in>set (rs_created s). created_ok db c))"

lemma live_mono: "live now x \<Longrightarrow> now \<le> t \<Longrightarrow> live t x"
  by (auto simp: live_def)

lemma thread_row_mono: "thread_row now th x \<Longrightarrow> now \<le> t \<Longrightarrow> thread_row t th x"
  by (cases th) (auto intro: live_mono)

lemma payload_of_kept:
  assumes "payload_of db cx" "payloads_kept db db'" "row_with db cx P"
  shows "payload_of db' cx"
proof -
  have "ap_id (cx_proposal cx) \<in> ex_action_proposal_id ` set (action_executions db)"
    using assms(3) by (force simp: row_with_def)
  then show ?thesis using assms(1,2) unfolding payload_of_def payloads_kept_def by metis
qed

lemma exec_id_known: "row_with db cx P \<Longrightarrow> exec_id cx \<in> ex_id ` set (action_executions db)"
  by (force simp: row_with_def)

text \<open>
  A step that updates execution \<open>i\<close> as \<open>Q\<close> says and keeps payloads: the facts on other executions
  survive; those on \<open>i\<close> have to be shown.
\<close>

lemma thread_ok_other:
  assumes "thread_ok cfg now db called th"
    and "updated i Q db db' \<and> exec_id (th_ctx th) \<noteq> i \<or> set (action_executions db) \<subseteq> set (action_executions db')"
    and "payloads_kept db db'" "exec_id (th_ctx th) \<notin> called' - called"
  shows "thread_ok cfg now db' called' th"
  using assms row_with_other row_with_append payload_of_kept unfolding thread_ok_def by blast

lemma call_ok_other:
  assumes "call_ok cfg now db c"
    and "updated i Q db db' \<and> exec_id (fst c) \<noteq> i \<or> set (action_executions db) \<subseteq> set (action_executions db')"
    and "payloads_kept db db'"
  shows "call_ok cfg now db' c"
  using assms row_with_other row_with_append payload_of_kept unfolding call_ok_def by blast

lemma created_ok_other:
  assumes "created_ok db c"
    and "updated i Q db db' \<and> exec_id (fst c) \<noteq> i \<or> set (action_executions db) \<subseteq> set (action_executions db')"
  shows "created_ok db' c"
  using assms row_with_other row_with_append unfolding created_ok_def by blast

lemma recon_inv_thread:
  assumes I: "recon_inv cfg s" and th: "xs_threads (rs_exec s) = a @ th # b"
    and db: "executions_ok db'" "payloads_kept (xs_db (rs_exec s)) db'"
      "action_executions db' = action_executions (xs_db (rs_exec s)) \<or> updated (exec_id (th_ctx th)) Q (xs_db (rs_exec s)) db'"
    and new: "new = [] \<or> (\<exists>n. new = [n] \<and> th_ctx n = th_ctx th
        \<and> row_with db' (th_ctx th) (thread_row (rs_now s) n) \<and> (not_sent n \<longrightarrow> not_sent th \<and> cs = []))"
    and cs: "cs = [] \<or> (\<exists>rq. cs = [(th_ctx th, rq)] \<and> not_sent th \<and> row_with db' (th_ctx th) (live (rs_now s))
        \<and> pr_repository_full_name rq = gp_repository_full_name (cx_payload (th_ctx th)))"
    and sent: "not_sent th \<or> (\<exists>S\<subseteq>unsettled. Q = (\<lambda>_ y. ex_status y \<in> S))"
  shows "recon_inv cfg (s\<lparr>rs_exec := (rs_exec s)\<lparr>xs_db := db', xs_threads := a @ new @ b,
     xs_calls := xs_calls (rs_exec s) @ cs\<rparr>\<rparr>)"
proof -
  let ?e = "rs_exec s" let ?db = "xs_db ?e" and ?i = "exec_id (th_ctx th)" and ?called = "set (called_ids ?e)"
  have inv: "distinct (map (exec_id \<circ> th_ctx) (xs_threads ?e))" "distinct (called_ids ?e)"
    "\<And>t. t \<in> set (xs_threads ?e) \<Longrightarrow> thread_ok cfg (rs_now s) ?db ?called t"
    "\<And>c. c \<in> set (xs_calls ?e) \<Longrightarrow> call_ok cfg (rs_now s) ?db c"
    "distinct (rs_created s)" "set (rs_created s) \<subseteq> set (xs_calls ?e)"
    "\<And>c. c \<in> set (rs_created s) \<Longrightarrow> created_ok ?db c"
    using I by (simp_all add: recon_inv_def Let_def)
  have T: "thread_ok cfg (rs_now s) ?db ?called th" using inv(3) th by simp
  have tk: "row_with ?db (th_ctx th) (thread_row (rs_now s) th)" "payload_of ?db (th_ctx th)" "ctx_ok cfg (th_ctx th)"
    using T by (simp_all add: thread_ok_def)
  have pay: "payload_of db' (th_ctx th)" by (rule payload_of_kept [OF tk(2) db(2) tk(1)])
  have unsent: "?i \<notin> ?called" if "not_sent th" using T that by (simp add: thread_ok_def)
  let ?called' = "set (called_ids (?e\<lparr>xs_db := db', xs_threads := a @ new @ b, xs_calls := xs_calls ?e @ cs\<rparr>))"
  have called': "?called' = ?called \<union> (if cs = [] then {} else {?i})" using cs by (auto simp: called_ids_def)
  have upd: "updated ?i Q ?db db' \<and> j \<noteq> ?i \<or> set (action_executions ?db) \<subseteq> set (action_executions db')" if "j \<noteq> ?i" for j
    using db(3) that by auto
  have "?i \<notin> (exec_id \<circ> th_ctx) ` set (a @ b)" using inv(1) by (auto simp: th)
  then have other: "exec_id (th_ctx t) \<noteq> ?i" if "t \<in> set (a @ b)" for t using that by (metis comp_apply image_eqI)
  have old_threads: "thread_ok cfg (rs_now s) db' ?called' t" if "t \<in> set (a @ b)" for t
    by (rule thread_ok_other [OF _ upd [OF other [OF that]] db(2)]) (use inv(3) [of t] that th other [OF that] called' in auto)
  have new_threads: "thread_ok cfg (rs_now s) db' ?called' t" if "t \<in> set new" for t
    using new that pay tk(3) unsent called' by (auto simp: thread_ok_def)
  have calls: "call_ok cfg (rs_now s) db' c" if "c \<in> set (xs_calls ?e)" for c
  proof (cases "exec_id (fst c) = ?i")
    case False
    then show ?thesis using call_ok_other [OF inv(4) [OF that] upd db(2)] by blast
  next
    case True
    then have "\<not> not_sent th" using unsent that by (force simp: called_ids_def)
    then obtain S where S: "S \<subseteq> unsettled" "Q = (\<lambda>_ y. ex_status y \<in> S)" using sent by blast
    have c: "row_with ?db (fst c) (live (rs_now s))" "payload_of ?db (fst c)" using inv(4) [OF that] by (simp_all add: call_ok_def)
    have "row_with db' (fst c) (live (rs_now s))"
      using db(3)
    proof
      assume "updated ?i Q ?db db'"
      then show ?thesis using row_with_updated [of "fst c" Q ?db db' "live (rs_now s)" "live (rs_now s)"] True c(1) S
        by (auto simp: live_def)
    qed (use c(1) in \<open>simp add: row_with_def\<close>)
    then show ?thesis using inv(4) [OF that] payload_of_kept [OF c(2) db(2) c(1)] by (simp add: call_ok_def)
  qed
  have created: "created_ok db' c" if "c \<in> set (rs_created s)" for c
  proof (cases "exec_id (fst c) = ?i")
    case False
    then show ?thesis using created_ok_other [OF inv(7) [OF that] upd] by blast
  next
    case True
    then have "\<not> not_sent th" using unsent that inv(6) by (force simp: called_ids_def)
    then obtain S where S: "S \<subseteq> unsettled" "Q = (\<lambda>_ y. ex_status y \<in> S)" using sent by blast
    have c: "row_with ?db (fst c) (\<lambda>x. ex_status x \<in> unsettled)" using inv(7) [OF that] by (simp add: created_ok_def)
    show ?thesis using db(3)
    proof
      assume "updated ?i Q ?db db'"
      then have "updated (exec_id (fst c)) Q ?db db'" by (simp add: True)
      from row_with_updated [OF this c, of "\<lambda>x. ex_status x \<in> unsettled"] S show ?thesis
        unfolding created_ok_def by blast
    qed (use c in \<open>simp add: created_ok_def row_with_def\<close>)
  qed
  have new_calls: "call_ok cfg (rs_now s) db' c" if "c \<in> set cs" for c
    using cs that pay tk(3) by (auto simp: call_ok_def)
  have "map (exec_id \<circ> th_ctx) new = [] \<or> map (exec_id \<circ> th_ctx) new = [?i]" using new by auto
  then have "distinct (map (exec_id \<circ> th_ctx) (a @ new @ b))" using inv(1) unfolding th map_append by (elim disjE) simp_all
  moreover have "distinct (called_ids (?e\<lparr>xs_db := db', xs_threads := a @ new @ b, xs_calls := xs_calls ?e @ cs\<rparr>))"
  proof -
    have "called_ids (?e\<lparr>xs_db := db', xs_threads := a @ new @ b, xs_calls := xs_calls ?e @ cs\<rparr>)
      = called_ids ?e @ map (exec_id \<circ> fst) cs" by (simp add: called_ids_def)
    moreover have "cs = [] \<or> map (exec_id \<circ> fst) cs = [?i] \<and> not_sent th" using cs by auto
    ultimately show ?thesis using inv(2) unsent by auto
  qed
  moreover have "distinct (map ap_id (action_proposals db'))" using db(2) by (simp add: payloads_kept_def)
  ultimately show ?thesis
    using db(1) old_threads new_threads calls new_calls inv(5,6) created
    by (auto simp: recon_inv_def Let_def)
qed

lemma recon_inv_rows:
  assumes I: "recon_inv cfg s" and db: "action_executions db' = action_executions (xs_db (rs_exec s))"
      "payloads_kept (xs_db (rs_exec s)) db'"
  shows "recon_inv cfg (s\<lparr>rs_exec := (rs_exec s)\<lparr>xs_db := db'\<rparr>\<rparr>)"
proof -
  let ?db = "xs_db (rs_exec s)"
  have k: "set (action_executions ?db) \<subseteq> set (action_executions db')" "executions_ok db' = executions_ok ?db"
    using db(1) executions_ok_cong by auto
  have "thread_ok cfg n db' c th" if "thread_ok cfg n ?db c th" for n c th
    using thread_ok_other [OF that _ db(2)] k(1) by blast
  moreover have "call_ok cfg n db' c" if "call_ok cfg n ?db c" for n c
    using call_ok_other [OF that _ db(2)] k(1) by blast
  moreover have "created_ok db' c" if "created_ok ?db c" for c
    using created_ok_other [OF that] k(1) by blast
  moreover have "distinct (map ap_id (action_proposals db'))" using db(2) by (simp add: payloads_kept_def)
  ultimately show ?thesis using I k(2) by (simp add: recon_inv_def Let_def called_ids_def)
qed

lemma recon_inv_claim:
  assumes I: "recon_inv cfg s" and db: "executions_ok db'"
      "action_executions db' = action_executions (xs_db (rs_exec s)) @ [cx_execution cx]"
      "payloads_kept (xs_db (rs_exec s)) db'" "ctx_ok cfg cx" "payload_of db' cx"
  shows "recon_inv cfg (s\<lparr>rs_exec := (rs_exec s)\<lparr>xs_db := db', xs_threads := xs_threads (rs_exec s) @ [ThClaimed cx]\<rparr>\<rparr>)"
proof -
  let ?e = "rs_exec s" let ?db = "xs_db ?e"
  have k: "set (action_executions ?db) \<subseteq> set (action_executions db')" using db(2) by auto
  have fresh: "exec_id cx \<noteq> exec_id cx'" if "row_with ?db cx' P" for cx' P
    using exec_id_known [OF that] db(1,2) by (auto simp: executions_ok_def exec_id_def)
  have inv: "distinct (map (exec_id \<circ> th_ctx) (xs_threads ?e))" "distinct (called_ids ?e)"
    "\<And>t. t \<in> set (xs_threads ?e) \<Longrightarrow> thread_ok cfg (rs_now s) ?db (set (called_ids ?e)) t"
    "\<And>c. c \<in> set (xs_calls ?e) \<Longrightarrow> call_ok cfg (rs_now s) ?db c"
    "distinct (rs_created s)" "set (rs_created s) \<subseteq> set (xs_calls ?e)"
    "\<And>c. c \<in> set (rs_created s) \<Longrightarrow> created_ok ?db c"
    using I by (simp_all add: recon_inv_def Let_def)
  have f1: "exec_id cx \<noteq> exec_id (th_ctx t)" if "t \<in> set (xs_threads ?e)" for t
    using inv(3) [OF that] fresh unfolding thread_ok_def by blast
  have f2: "exec_id cx \<notin> set (called_ids ?e)"
    using inv(4) fresh by (force simp: called_ids_def call_ok_def)
  have new: "thread_ok cfg (rs_now s) db' (set (called_ids ?e)) (ThClaimed cx)"
    using db(2,4,5) f2 by (auto simp: thread_ok_def row_with_def exec_id_def ctx_ok_def)
  have "thread_ok cfg (rs_now s) db' (set (called_ids ?e)) t" if "t \<in> set (xs_threads ?e)" for t
    using thread_ok_other [OF inv(3) [OF that] _ db(3)] k by blast
  moreover have "call_ok cfg (rs_now s) db' c" if "c \<in> set (xs_calls ?e)" for c
    using call_ok_other [OF inv(4) [OF that] _ db(3)] k by blast
  moreover have "created_ok db' c" if "c \<in> set (rs_created s)" for c
    using created_ok_other [OF inv(7) [OF that]] k by blast
  moreover have "distinct (map ap_id (action_proposals db'))" using db(3) by (simp add: payloads_kept_def)
  moreover have "distinct (map (exec_id \<circ> th_ctx) (xs_threads ?e @ [ThClaimed cx]))" using inv(1) f1 by force
  ultimately show ?thesis using db(1) new inv(2,5,6) by (auto simp: recon_inv_def Let_def called_ids_def)
qed

lemma recon_inv_phase:
  assumes "exec_step sha cfg decrypt (rs_exec s) e" "payloads_kept (xs_db (rs_exec s)) (xs_db e)" "recon_inv cfg s"
  shows "recon_inv cfg (s\<lparr>rs_exec := e\<rparr>)"
proof -
  let ?e = "rs_exec s" let ?db = "xs_db ?e"
  have ok: "executions_ok ?db" and pids: "distinct (map ap_id (action_proposals ?db))"
    and inv: "\<And>t. t \<in> set (xs_threads ?e) \<Longrightarrow> thread_ok cfg (rs_now s) ?db (set (called_ids ?e)) t"
    using assms(3) by (simp_all add: recon_inv_def Let_def)
  from assms(1) show ?thesis
  proof cases
    case (claim ids now w i inp r db')
    note eff = claim_execution_effect [OF claim(2)]
    have kept: "payloads_kept ?db db'" using assms(2) by (simp add: claim(1))
    show ?thesis
    proof (cases "\<exists>cx. r = Inr (ClaimTaken cx)")
      case True
      then obtain cx where cx: "r = Inr (ClaimTaken cx)" by blast
      then have c: "executions_ok db'" "ctx_ok cfg cx" "action_executions db' = action_executions ?db @ [cx_execution cx]"
        "get_action_proposal w i ?db = Some (cx_proposal cx)" "action_proposals db' = action_proposals ?db" using eff by auto
      have "payload_of db' cx"
        unfolding payload_of_def c(5)
        using pids get_action_proposal_Some [OF c(4)] by (auto simp: distinct_map dest: inj_onD)
      from recon_inv_claim [OF assms(3) c(1,3) kept c(2) this] show ?thesis by (simp add: claim(1) cx)
    next
      case False
      then have "action_executions db' = action_executions ?db" "e = ?e\<lparr>xs_db := db'\<rparr>"
        using eff by (auto simp: claim(1) split: sum.splits claim_outcome.splits)
      with recon_inv_rows [OF assms(3) _ kept] show ?thesis by simp
    qed
  next
    case (start a cx b n now r db')
    note eff = start_execution_effect [OF start(3), folded exec_id_def]
    have kept: "payloads_kept ?db db'" using assms(2) by (simp add: start(1))
    have row: "row_with ?db cx (\<lambda>_. True)" using inv [of "ThClaimed cx"] start(2) by (auto simp: thread_ok_def intro: row_with_mono)
    show ?thesis
    proof (cases r)
      case (Inl x)
      with eff have "db' = ?db \<or> row_set (exec_id cx) {Failed} ?db db'" by simp
      note u = phase_update [OF this ok]
      from recon_inv_thread [OF assms(3) start(2) u(2) kept, of _ "[]" "[]"] u(1) show ?thesis
        by (simp add: start(1) Inl)
    next
      case (Inr t)
      with eff have "row_set (exec_id cx) {Running} ?db db'" by simp
      then have u: "updated (exec_id cx) (\<lambda>_ y. ex_status y \<in> {Running}) ?db db'" "executions_ok db'"
        by (rule updated_row_set, rule row_set_ok)
      have "row_with db' cx (live (rs_now s))"
        by (rule row_with_updated [OF u(1) row]) (simp add: live_def unsettled_def)
      with recon_inv_thread [OF assms(3) start(2) u(2) kept, of "\<lambda>_ y. ex_status y \<in> {Running}" "[ThStarted cx t]" "[]"] u(1) show ?thesis
        by (simp add: start(1) Inr)
    qed
  next
    case (call a cx t b n now r db')
    note eff = recheck_effect [OF call(3), folded exec_id_def]
    have kept: "payloads_kept ?db db'" using assms(2) by (simp add: call(1))
    show ?thesis
    proof (cases r)
      case (Inl x)
      with eff have "db' = ?db \<or> row_set (exec_id cx) {Failed} ?db db'" by simp
      note u = phase_update [OF this ok]
      from recon_inv_thread [OF assms(3) call(2) u(2) kept, of _ "[]" "[]"] u(1) show ?thesis
        by (simp add: call(1) Inl)
    next
      case (Inr rq)
      then have d: "db' = ?db" "pr_repository_full_name rq = gp_repository_full_name (cx_payload cx)" using eff by simp_all
      have "row_with ?db cx (live (rs_now s))" using inv [of "ThStarted cx t"] call(2) by (auto simp: thread_ok_def intro: row_with_mono)
      with recon_inv_thread [OF assms(3) call(2) _ kept, of _ "[ThCalled cx]" "[(cx, rq)]"] d ok show ?thesis
        by (auto simp: call(1) Inr intro: row_with_mono)
    qed
  next
    case (finish a cx b n now response r db')
    note eff = finish_effect [OF finish(3), folded exec_id_def]
    have kept: "payloads_kept ?db db'" using assms(2) by (simp add: finish(1))
    note phase_update [OF eff ok]
    moreover have "\<exists>S\<subseteq>unsettled. (\<lambda>_ y. ex_status y \<in> {Succeeded, Uncertain}) = (\<lambda>(_ :: action_execution) y. ex_status y \<in> S)"
      by (rule exI [of _ "{Succeeded, Uncertain}"]) (simp add: unsettled_def)
    ultimately show ?thesis
      using recon_inv_thread [OF assms(3) finish(2) _ kept, of "\<lambda>_ y. ex_status y \<in> {Succeeded, Uncertain}" "[]" "[]"]
      by (simp add: finish(1))
  next
    case (crash a th b)
    have kept: "payloads_kept ?db ?db" using assms(2) by (simp add: crash(1))
    from recon_inv_thread [OF assms(3) crash(2) ok kept, of "\<lambda>_ y. ex_status y \<in> {}" "[]" "[]"] show ?thesis
      by (auto simp: crash(1))
  next
    case (other db')
    then show ?thesis using recon_inv_rows [OF assms(3)] assms(2) by (simp add: other_tables_def)
  qed
qed

section \<open>Reconciliation keeps the invariant\<close>

lemma same_rows_kept:
  assumes "same_rows db db'" "distinct (map ap_id (action_proposals db))"
  shows "payloads_kept db db'"
  using assms by (auto simp: payloads_kept_def same_rows_def)

lemma settled_kept:
  assumes "settled cx st pst db db'" "distinct (map ap_id (action_proposals db))"
  shows "payloads_kept db db'"
proof -
  let ?set = "\<lambda>now. update_where (\<lambda>p. ap_id p = ap_id (sc_proposal cx))
          (\<lambda>p. p\<lparr>ap_status := pst, ap_updated_at := now\<rparr>) (action_proposals db)"
  from assms(1) obtain now where n: "action_proposals db' = (if ap_status (sc_proposal cx) = pst then action_proposals db else ?set now)"
    by (auto simp: settled_def)
  have "map ap_id (?set now) = map ap_id (action_proposals db)" by (rule map_update_where) simp
  moreover have "\<exists>p\<in>set (action_proposals db). ap_id p = ap_id q \<and> ap_payload p = ap_payload q" if "q \<in> set (?set now)" for q
    using that by (auto simp: in_update_where)
  ultimately show ?thesis using assms(2) n by (auto simp: payloads_kept_def)
qed

text \<open>
  What is known of the loaded execution carries over when it is settled, for threads, sent
  requests and created issues of that execution.
\<close>

lemma recon_inv_settled:
  assumes I: "recon_inv cfg s" and st: "settled cx st pst (xs_db (rs_exec s)) db'"
    and x: "sc_execution cx \<in> set (action_executions (xs_db (rs_exec s)))"
    and claimed: "st = Failed \<and> ex_status (sc_execution cx) \<in> {Claimed, Failed} \<or> ex_status (sc_execution cx) \<in> unsettled"
    and keep: "ex_status (sc_execution cx) \<in> unsettled \<Longrightarrow>
       st \<in> unsettled \<or> st = Failed \<and> absence_reconciliation_eligible_at (sc_execution cx) \<le> rs_now s"
    and not_created: "\<And>c. c \<in> set (rs_created s) \<Longrightarrow> exec_id (fst c) = ex_id (sc_execution cx) \<Longrightarrow> st \<in> unsettled"
    and active: "ex_status (sc_execution cx) \<noteq> Failed"
  shows "recon_inv cfg (s\<lparr>rs_exec := (rs_exec s)\<lparr>xs_db := db'\<rparr>\<rparr>)"
proof -
  let ?e = "rs_exec s" let ?db = "xs_db ?e" and ?x = "sc_execution cx"
  let ?Q = "\<lambda>x y. ex_status y = st \<and> absence_reconciliation_eligible_at y = absence_reconciliation_eligible_at x"
  have u: "updated (ex_id ?x) ?Q ?db db'" by (rule updated_settled [OF st])
  have inv: "executions_ok ?db" "distinct (map ap_id (action_proposals ?db))"
    "\<And>t. t \<in> set (xs_threads ?e) \<Longrightarrow> thread_ok cfg (rs_now s) ?db (set (called_ids ?e)) t"
    "\<And>c. c \<in> set (xs_calls ?e) \<Longrightarrow> call_ok cfg (rs_now s) ?db c"
    "\<And>c. c \<in> set (rs_created s) \<Longrightarrow> created_ok ?db c"
    using I by (simp_all add: recon_inv_def Let_def)
  have kept: "payloads_kept ?db db'" by (rule settled_kept [OF st inv(2)])
  have live: "row_with db' c (live (rs_now s))" if "row_with ?db c (live (rs_now s))" "exec_id c = ex_id ?x" for c
  proof -
    have "live (rs_now s) ?x" using row_with_unique(1) [OF inv(1) that(1) x] that(2) by simp
    then have un: "ex_status ?x \<in> unsettled" using active by (auto simp: live_def)
    have "row_with ?db c (\<lambda>z. z = ?x)"
      using that x row_with_unique(2,3) [OF inv(1) that(1) x] by (auto simp: row_with_def)
    from row_with_updated [OF _ this, of ?Q db' "live (rs_now s)"] u that(2) keep [OF un] show ?thesis
      by (auto simp: live_def)
  qed
  have threads: "thread_ok cfg (rs_now s) db' (set (called_ids ?e)) t" if "t \<in> set (xs_threads ?e)" for t
  proof (cases "exec_id (th_ctx t) = ex_id ?x")
    case False
    then show ?thesis using thread_ok_other [OF inv(3) [OF that] _ kept] u by blast
  next
    case True
    note T = inv(3) [OF that, unfolded thread_ok_def]
    have "row_with db' (th_ctx t) (thread_row (rs_now s) t)"
    proof (cases t)
      case (ThClaimed c)
      then have r: "row_with ?db c (thread_row (rs_now s) t)" "exec_id c = ex_id ?x" using T True by simp_all
      have "st = Failed" using row_with_unique(1) [OF inv(1) r(1) x] r(2) claimed by (auto simp: ThClaimed unsettled_def)
      then show ?thesis using row_with_updated [of c ?Q ?db db' "thread_row (rs_now s) t" "thread_row (rs_now s) t"] r u
        by (simp add: ThClaimed)
    qed (use T True live in auto)
    then show ?thesis using T payload_of_kept [OF _ kept] by (auto simp: thread_ok_def)
  qed
  have calls: "call_ok cfg (rs_now s) db' c" if "c \<in> set (xs_calls ?e)" for c
  proof (cases "exec_id (fst c) = ex_id ?x")
    case False
    then show ?thesis using call_ok_other [OF inv(4) [OF that] _ kept] u by blast
  next
    case True
    then show ?thesis using inv(4) [OF that] live payload_of_kept [OF _ kept] by (auto simp: call_ok_def)
  qed
  have created: "created_ok db' c" if "c \<in> set (rs_created s)" for c
  proof (cases "exec_id (fst c) = ex_id ?x")
    case False
    then show ?thesis using created_ok_other [OF inv(5) [OF that]] u by blast
  next
    case True
    from row_with_updated [of "fst c" ?Q ?db db' _ "\<lambda>z. ex_status z \<in> unsettled"] u True inv(5) [OF that] not_created [OF that True]
    show ?thesis unfolding created_ok_def by auto
  qed
  have "executions_ok db'" "distinct (map ap_id (action_proposals db'))"
    using u kept by (simp_all add: updated_def payloads_kept_def)
  then show ?thesis using I threads calls created by (simp add: recon_inv_def Let_def called_ids_def)
qed

lemma recon_inv_sync:
  assumes I: "recon_inv cfg s"
    and sy: "sync_github_issue_execution_result sha cfg decrypt http ids (rs_now s) w i actor cid
       (xs_db (rs_exec s)) (xs_db (rs_exec s)) = (r, db')"
    and shown: "shows_created http (rs_created s)"
  shows "recon_inv cfg (s\<lparr>rs_exec := (rs_exec s)\<lparr>xs_db := db'\<rparr>\<rparr>)"
proof -
  let ?e = "rs_exec s" let ?db = "xs_db ?e"
  have inv: "executions_ok ?db" "distinct (map ap_id (action_proposals ?db))"
    "set (rs_created s) \<subseteq> set (xs_calls ?e)" "\<And>c. c \<in> set (xs_calls ?e) \<Longrightarrow> call_ok cfg (rs_now s) ?db c"
    "\<And>c. c \<in> set (rs_created s) \<Longrightarrow> created_ok ?db c"
    using I by (simp_all add: recon_inv_def Let_def)
  have same: ?thesis if "same_rows ?db db'"
    using recon_inv_rows [OF I _ same_rows_kept [OF that inv(2)]] that by (simp add: same_rows_def)
  show ?thesis
  proof (cases "sync_read cfg w i actor cid ?db")
    case (Inl e)
    then have "db' = ?db" using sy by (simp add: sync_github_issue_execution_result_def)
    then show ?thesis by (intro same) (simp add: same_rows_refl)
  next
    case (Inr cx)
    let ?x = "sc_execution cx"
    note rd = sync_read_status [OF Inr]
    have "sync_apply sha decrypt http ids (rs_now s) cx ?db = (r, db')"
      using sy Inr by (simp add: sync_github_issue_execution_result_def)
    from sync_apply_effect [OF this rd(3)] show ?thesis
    proof
      assume R: "reconciled decrypt http (rs_now s) cx ?db db'"
      have created_status: "ex_status ?x \<in> unsettled" if "c \<in> set (rs_created s)" "exec_id (fst c) = ex_id ?x" for c
        using row_with_unique(1) [OF inv(1) inv(5) [OF that(1), unfolded created_ok_def] rd(1)] that(2) by simp
      text \<open>A created issue of the loaded execution shows in the list that was read.\<close>
      have seen: "listed_matches http tok cx \<noteq> Some []" if c: "c \<in> set (rs_created s)" "exec_id (fst c) = ex_id ?x" for c tok
      proof -
        have C: "call_ok cfg (rs_now s) ?db c" using inv(3,4) c(1) by blast
        have row: "row_with ?db (fst c) (live (rs_now s))" using C by (simp add: call_ok_def)
        have x: "ex_action_proposal_id ?x = ap_id (cx_proposal (fst c))" "ex_request_hash ?x = ex_request_hash (cx_execution (fst c))"
          using row_with_unique(2,3) [OF inv(1) row rd(1)] c(2) by simp_all
        have p: "sc_proposal cx \<in> set (action_proposals ?db)" "ap_id (sc_proposal cx) = ap_id (cx_proposal (fst c))"
          using get_action_proposal_Some [OF rd(4)] rd(2) x(1) by simp_all
        have "ap_payload (sc_proposal cx) = ap_payload (cx_proposal (fst c))"
          using C p by (simp add: call_ok_def payload_of_def)
        then have repo: "gp_repository_full_name (sc_payload cx) = pr_repository_full_name (snd c)"
          using C rd(6) by (simp add: call_ok_def ctx_ok_def)
        have m: "execution_request_marker ?x = execution_request_marker (cx_execution (fst c))"
          using x(2) c(2) by (simp add: execution_request_marker_def exec_id_def)
        have "issues_matching_execution_marker items ?x = issues_matching_execution_marker items (cx_execution (fst c))" for items
          unfolding issues_matching_execution_marker_def m ..
        then show ?thesis using shown c(1) repo
          by (cases c) (fastforce simp: listed_matches_def shows_created_def split: sum.splits)
      qed
      from R consider
          "settled cx Failed Approved ?db db'" "ex_status ?x = Claimed"
        | tok where "settled cx Failed Approved ?db db'" "ex_status ?x \<in> unsettled" "ex_status ?x \<noteq> Claimed"
            "listed_matches http tok cx = Some []" "absence_reconciliation_eligible_at ?x \<le> rs_now s"
        | "settled cx Succeeded Executed ?db db'" "ex_status ?x \<in> unsettled"
        unfolding reconciled_def unsettled_def by fastforce
      then show ?thesis
      proof cases
        case 1
        show ?thesis by (rule recon_inv_settled [OF I 1(1) rd(1)]) (use 1(2) created_status in \<open>auto simp: unsettled_def\<close>)
      next
        case 2
        show ?thesis by (rule recon_inv_settled [OF I 2(1) rd(1)]) (use 2 seen in \<open>auto simp: unsettled_def\<close>)
      next
        case 3
        show ?thesis by (rule recon_inv_settled [OF I 3(1) rd(1)]) (use 3 in \<open>auto simp: unsettled_def\<close>)
      qed
    qed (rule same)
  qed
qed

section \<open>At most one issue per proposal\<close>

lemma recon_step_inv:
  assumes "recon_step True sha cfg decrypt s s'" "recon_inv cfg s"
  shows "recon_inv cfg s'"
  using assms(1)
proof cases
  case (phase e)
  then show ?thesis using recon_inv_phase assms(2) by simp
next
  case (create c)
  let ?db = "xs_db (rs_exec s)"
  from create(4) obtain x where x: "x \<in> set (action_executions ?db)" "ex_id x = exec_id (fst c)"
    "rs_now s < absence_reconciliation_eligible_at x" by auto
  have ok: "executions_ok ?db" and row: "row_with ?db (fst c) (live (rs_now s))"
    using assms(2) create(2) by (auto simp: recon_inv_def Let_def call_ok_def)
  note u = row_with_unique [OF ok row x(1,2)]
  have "ex_status x \<in> unsettled" using u(1) x(3) by (auto simp: live_def)
  then have "created_ok ?db c" using u x by (auto simp: created_ok_def row_with_def)
  then show ?thesis using assms(2) create by (auto simp: recon_inv_def Let_def)
next
  case (sync http ids w i actor cid r db')
  then show ?thesis using recon_inv_sync assms(2) by simp
next
  case (tick t)
  have "thread_ok cfg t db called th" if "thread_ok cfg (rs_now s) db called th" for db called th
    using that tick(2) by (auto simp: thread_ok_def intro: row_with_mono thread_row_mono)
  moreover have "call_ok cfg t db c" if "call_ok cfg (rs_now s) db c" for db c
    using that tick(2) by (auto simp: call_ok_def intro: row_with_mono live_mono)
  ultimately show ?thesis using assms(2) by (simp add: tick(1) recon_inv_def Let_def)
qed

interpretation recon_machine: invariant_machine "recon_step True sha cfg decrypt" "recon_inv cfg" for sha cfg decrypt
  by unfold_locales (rule recon_step_inv)

definition recon_init :: "action_db \<Rightarrow> time \<Rightarrow> recon_state" where
  "recon_init db now = \<lparr>rs_exec = exec_init db, rs_created = [], rs_now = now\<rparr>"

lemma recon_init_inv:
  "executions_ok db \<Longrightarrow> distinct (map ap_id (action_proposals db)) \<Longrightarrow> recon_inv cfg (recon_init db now)"
  by (simp add: recon_init_def exec_init_def recon_inv_def called_ids_def)

text \<open>C36. At most one issue per proposal, reconciliation included. Interleave execute requests
  phase by phase with crashes, with reconciliations and with the provider turning requests that
  were sent into issues, in any order. If the complete lists that reconciliation reads show the
  issues that exist, if a reconciliation loads and writes in one step, and if no request
  becomes an issue after the grace period of its execution, then no two issues are ever
  created for one proposal, although a retry under a new key is allowed after a write was not
  observed.\<close>

theorem at_most_one_issue_per_proposal:
  assumes "run (recon_step True sha cfg decrypt) (recon_init db now) s"
    and "executions_ok db" "distinct (map ap_id (action_proposals db))"
  shows "distinct (map (\<lambda>c. ap_id (cx_proposal (fst c))) (rs_created s))"
proof -
  have I: "recon_inv cfg s" by (rule recon_machine.inv_run [OF assms(1) recon_init_inv [OF assms(2,3)]])
  let ?e = "rs_exec s" let ?act = "filter (\<lambda>x. ex_status x \<in> set ACTIVE_OR_SUCCESSFUL) (action_executions (xs_db ?e))"
  have inv: "executions_ok (xs_db ?e)" "distinct (called_ids ?e)" "distinct (rs_created s)"
    "set (rs_created s) \<subseteq> set (xs_calls ?e)" "\<And>c. c \<in> set (rs_created s) \<Longrightarrow> created_ok (xs_db ?e) c"
    using I by (simp_all add: recon_inv_def Let_def)
  have row: "\<exists>x\<in>set ?act. ex_id x = exec_id (fst c) \<and> ex_action_proposal_id x = ap_id (cx_proposal (fst c))"
    if "c \<in> set (rs_created s)" for c
    using inv(5) [OF that] by (auto simp: created_ok_def row_with_def unsettled_def ACTIVE_OR_SUCCESSFUL_def)
  have "c = d" if cd: "c \<in> set (rs_created s)" "d \<in> set (rs_created s)"
    "ap_id (cx_proposal (fst c)) = ap_id (cx_proposal (fst d))" for c d
  proof -
    from row [OF cd(1)] row [OF cd(2)] obtain x y where
      "x \<in> set ?act" "y \<in> set ?act" "ex_action_proposal_id x = ex_action_proposal_id y"
      "ex_id x = exec_id (fst c)" "ex_id y = exec_id (fst d)" using cd(3) by auto
    moreover have "distinct (map ex_action_proposal_id ?act)" using inv(1) by (simp add: executions_ok_def)
    ultimately have "exec_id (fst c) = exec_id (fst d)" by (metis distinct_map inj_onD)
    moreover have "inj_on (\<lambda>c. exec_id (fst c)) (set (xs_calls ?e))" using inv(2) by (simp add: called_ids_def distinct_map)
    ultimately show ?thesis using cd(1,2) inv(4) by (meson inj_onD subsetD)
  qed
  then have "inj_on (\<lambda>c. ap_id (cx_proposal (fst c))) (set (rs_created s))" by (intro inj_onI)
  then show ?thesis using inv(3) by (simp add: distinct_map)
qed

end
