(* ===== verification/Late_Write.thy ===== *)
theory Late_Write
  imports Recovery_Machine
begin

text \<open>
  Runs of executions and reconciliations at concrete tables: that one issue is created, and
  that a request which is sent after the grace period, because its process was held up between
  the start and the request, lets two issues be created for one proposal. No phase of the
  handler looks at the status of its execution again before the request.
\<close>

section \<open>Tables with some executions and events\<close>

definition exdb :: "action_execution list \<Rightarrow> execution_event list \<Rightarrow> action_db" where
  "exdb rows ev = example_exec_db\<lparr>action_executions := rows, execution_events := ev\<rparr>"

lemma exdb_rows [simp]: "action_executions (exdb rows ev) = rows" "action_proposals (exdb rows ev) = [example_approved]"
  by (simp_all add: exdb_def example_exec_db_def)

lemma exdb_update [simp]: "(exdb rows ev)\<lparr>action_executions := rows', execution_events := ev'\<rparr> = exdb rows' ev'"
  "(exdb rows ev)\<lparr>action_executions := rows'\<rparr> = exdb rows' ev" "(exdb rows ev)\<lparr>execution_events := ev'\<rparr> = exdb rows ev'"
  by (simp_all add: exdb_def)

lemma exdb_init: "example_exec_db = exdb [] (execution_events example_exec_db)"
  using example_exec_state(2) by (simp add: exdb_def)

lemma exdb_facts: "get_action_proposal 2 7 (exdb rows ev) = Some example_approved"
  "1 \<in> u_id ` set (users (exdb rows ev))" "example_world (exdb rows ev)" "connections (exdb rows ev) = [example_connection]"
  using example_exec_state(3,4)
  by (simp_all add: exdb_def get_action_proposal_def example_world_def example_exec_db_def example_db_simps)

lemma exdb_evidence: "validate_evidence_for_live_execution 2 example_approved (exdb rows ev) = Inr ()"
  by (rule example_evidence_live [OF exdb_facts(3)])

lemma exdb_claim_checks: "claim_checks example_cfg 2 61 example_approved (exdb rows ev) = Inr (example_issue, example_connection)"
proof -
  have "get_connection_or_raise 2 61 (exdb rows ev) = Inr example_connection"
    by (simp add: get_connection_or_raise_def exdb_facts example_connection_def)
  moreover have "validate_evidence_for_live_execution 2 example_approved example_exec_db = Inr ()"
    using exdb_evidence exdb_init by metis
  moreover have "get_connection_or_raise 2 61 example_exec_db = Inr example_connection"
    by (simp add: get_connection_or_raise_def example_exec_db_def example_db_simps example_connection_def)
  ultimately show ?thesis using example_claim_checks exdb_evidence [of rows ev]
    by (simp add: claim_checks_def)
qed

lemma exdb_kept [simp]: "payloads_kept (exdb rows ev) (exdb rows' ev')"
  by (simp add: payloads_kept_def)

section \<open>The phases there\<close>

definition late_input :: "string \<Rightarrow> execution_input" where
  "late_input key = \<lparr> xi_connection_id = 61, xi_confirm_external_write = True, xi_requested_by_user_id = 1,
     xi_idempotency_key = key \<rparr>"

definition late_ids :: "uuid \<Rightarrow> phase_ids" where
  "late_ids i = \<lparr> pi_execution = i, pi_event = i + 1, pi_event2 = i + 2 \<rparr>"

definition late_row :: "uuid \<Rightarrow> string \<Rightarrow> time \<Rightarrow> action_execution" where
  "late_row i key now = claimed_row (late_ids i) now 2 example_approved (late_input key) 61 key zero_hash"

definition late_ctx :: "uuid \<Rightarrow> string \<Rightarrow> time \<Rightarrow> exec_ctx" where
  "late_ctx i key now = \<lparr> cx_proposal = example_approved, cx_execution = late_row i key now, cx_connection = example_connection,
     cx_payload = example_issue, cx_key = key, cx_actor = 1 \<rparr>"

definition started :: "time \<Rightarrow> action_execution \<Rightarrow> action_execution" where
  "started now x = x\<lparr>ex_status := Running, ex_started_at := Some now, ex_updated_at := now\<rparr>"

lemma late_row_simps [simp]: "ex_id (late_row i key now) = i" "ex_status (late_row i key now) = Claimed"
  "ex_workspace_id (late_row i key now) = 2" "ex_client_idempotency_key (late_row i key now) = key"
  "ex_action_proposal_id (late_row i key now) = 7" "ex_connection_id (late_row i key now) = Some 61"
  "ex_id (started t x) = ex_id x" "ex_status (started t x) = Running" "ex_workspace_id (started t x) = ex_workspace_id x"
  "ex_client_idempotency_key (started t x) = ex_client_idempotency_key x"
  "ex_action_proposal_id (started t x) = ex_action_proposal_id x" "ex_started_at (started t x) = Some t"
  "ex_connection_id (started t x) = ex_connection_id x"
  by (simp_all add: late_row_def claimed_row_def late_ids_def started_def example_approved_def example_proposal_def)

lemma late_ctx_simps [simp]: "cx_execution (late_ctx i key now) = late_row i key now" "cx_proposal (late_ctx i key now) = example_approved"
  "exec_id (late_ctx i key now) = i"
  by (simp_all add: late_ctx_def exec_id_def)

lemma late_claim:
  assumes "executions_ok (exdb rows ev)" "required_idempotency_key key = Inr key" "i \<notin> ex_id ` set rows"
    and "get_execution_by_idempotency_key 2 key (exdb rows ev) = None" "get_active_or_successful_execution 7 (exdb rows ev) = None"
  shows "\<exists>ev'. claim_execution zero_sha example_cfg (late_ids i) now 2 7 (late_input key) (exdb rows ev)
    = (Inr (ClaimTaken (late_ctx i key now)), exdb (rows @ [late_row i key now]) ev')"
proof -
  have h: "execution_request_hash zero_sha example_approved 2 (xi_connection_id (late_input key))
      (xi_requested_by_user_id (late_input key)) = Some zero_hash"
    using example_request_hash by (simp add: late_input_def example_input_def)
  have p: "xi_confirm_external_write (late_input key)" "required_idempotency_key (xi_idempotency_key (late_input key)) = Inr key"
    "claim_checks example_cfg 2 (xi_connection_id (late_input key)) example_approved (exdb rows ev) = Inr (example_issue, example_connection)"
    "pi_execution (late_ids i) \<notin> ex_id ` set (action_executions (exdb rows ev))"
    "xi_requested_by_user_id (late_input key) \<in> u_id ` set (users (exdb rows ev))" "ic_id example_connection = 61"
    using assms(2,3) exdb_claim_checks exdb_facts(2) by (simp_all add: late_input_def late_ids_def example_connection_def)
  from claim_granted [where now = now, OF zero_sha_hex assms(1) example_preconditions(1) p(1,2) exdb_facts(1) h assms(4,5) p(3-5)]
  show ?thesis using p(6) by (auto simp: late_ctx_def late_row_def late_input_def)
qed

lemma late_start:
  assumes "executions_ok (exdb (rows @ [late_row i key t]) ev)" "i \<notin> ex_id ` set rows"
  shows "\<exists>ev'. start_execution zero_sha Some n now (late_ctx i key t) (exdb (rows @ [late_row i key t]) ev)
    = (Inr ''enc'', exdb (rows @ [started now (late_row i key t)]) ev')"
proof -
  have dec: "Some (case ic_encrypted_access_token (cx_connection (late_ctx i key t)) of None \<Rightarrow> [] | Some t \<Rightarrow> t) = Some ''enc''"
    by (simp add: late_ctx_def example_connection_def)
  have cl: "ex_status x = Claimed" if "x \<in> set (action_executions (exdb (rows @ [late_row i key t]) ev))"
    "ex_id x = ex_id (cx_execution (late_ctx i key t))" for x
  proof -
    have "x = late_row i key t" using that assms(2) by auto
    then show ?thesis by simp
  qed
  have "update_where (\<lambda>x. ex_id x = i) f rows = rows" for f
    using assms(2) by (induction rows) auto
  then have "update_where (\<lambda>x. ex_id x = i) (\<lambda>x. x\<lparr>ex_status := Running, ex_started_at := Some now, ex_updated_at := now\<rparr>)
      (rows @ [late_row i key t]) = rows @ [started now (late_row i key t)]"
    by (simp add: update_where_def started_def)
  then show ?thesis
    using execution_started [where n = n and now = now and decrypt = Some, OF zero_sha_hex assms(1) dec cl] by simp
qed

lemma late_call:
  "recheck_and_request zero_sha n now (late_ctx i key t) ''enc'' (exdb rows ev) =
     (Inr \<lparr> pr_access_token = ''enc'', pr_repository_full_name = gp_repository_full_name example_issue,
        pr_title = gp_title example_issue,
        pr_body = body_with_execution_marker (gp_body example_issue) (late_row i key t),
        pr_labels = gp_labels example_issue, pr_assignees = gp_assignees example_issue \<rparr>, exdb rows ev)"
  using exdb_evidence [of rows ev]
  by (simp add: recheck_and_request_def late_ctx_def example_approved_def example_proposal_def)

section \<open>One issue\<close>

definition late_request :: "uuid \<Rightarrow> string \<Rightarrow> time \<Rightarrow> provider_request" where
  "late_request i key t = \<lparr> pr_access_token = ''enc'', pr_repository_full_name = gp_repository_full_name example_issue,
        pr_title = gp_title example_issue, pr_body = body_with_execution_marker (gp_body example_issue) (late_row i key t),
        pr_labels = gp_labels example_issue, pr_assignees = gp_assignees example_issue \<rparr>"

abbreviation late_step :: "bool \<Rightarrow> recon_state \<Rightarrow> recon_state \<Rightarrow> bool" where
  "late_step timely \<equiv> recon_step timely zero_sha example_cfg Some"

definition late_state ::
  "action_execution list \<Rightarrow> execution_event list \<Rightarrow> thread list \<Rightarrow> (exec_ctx \<times> provider_request) list \<Rightarrow>
     (exec_ctx \<times> provider_request) list \<Rightarrow> time \<Rightarrow> recon_state" where
  "late_state rows ev ths calls created now =
     \<lparr> rs_exec = \<lparr> xs_db = exdb rows ev, xs_threads = ths, xs_calls = calls \<rparr>, rs_created = created, rs_now = now \<rparr>"

lemma late_claim_step:
  assumes "executions_ok (exdb rows ev)" "required_idempotency_key key = Inr key" "i \<notin> ex_id ` set rows"
    and "get_execution_by_idempotency_key 2 key (exdb rows ev) = None" "get_active_or_successful_execution 7 (exdb rows ev) = None"
  shows "\<exists>ev'. late_step timely (late_state rows ev ths calls created t)
    (late_state (rows @ [late_row i key now]) ev' (ths @ [ThClaimed (late_ctx i key now)]) calls created t)"
proof -
  let ?s = "late_state rows ev ths calls created t"
  obtain ev' where c: "claim_execution zero_sha example_cfg (late_ids i) now 2 7 (late_input key) (exdb rows ev)
    = (Inr (ClaimTaken (late_ctx i key now)), exdb (rows @ [late_row i key now]) ev')" using late_claim [OF assms] by blast
  have "exec_step zero_sha example_cfg Some (rs_exec ?s) \<lparr> xs_db = exdb (rows @ [late_row i key now]) ev',
      xs_threads = ths @ [ThClaimed (late_ctx i key now)], xs_calls = calls \<rparr>" (is "exec_step _ _ _ _ ?e")
    using exec_step.claim [of zero_sha example_cfg "late_ids i" now 2 7 "late_input key" "rs_exec ?s"
        "Inr (ClaimTaken (late_ctx i key now))" "exdb (rows @ [late_row i key now]) ev'" Some] c by (simp add: late_state_def)
  from recon_step.phase [where timely = timely and s = ?s, OF this] show ?thesis by (auto simp: late_state_def)
qed

lemma late_start_step:
  assumes "executions_ok (exdb (rows @ [late_row i key t]) ev)" "i \<notin> ex_id ` set rows"
  shows "\<exists>ev'. late_step timely (late_state (rows @ [late_row i key t]) ev (ths @ [ThClaimed (late_ctx i key t)]) calls created u)
    (late_state (rows @ [started now (late_row i key t)]) ev' (ths @ [ThStarted (late_ctx i key t) ''enc'']) calls created u)"
proof -
  let ?s = "late_state (rows @ [late_row i key t]) ev (ths @ [ThClaimed (late_ctx i key t)]) calls created u"
  obtain ev' where c: "start_execution zero_sha Some 300 now (late_ctx i key t) (exdb (rows @ [late_row i key t]) ev)
    = (Inr ''enc'', exdb (rows @ [started now (late_row i key t)]) ev')" using late_start [OF assms] by blast
  have "exec_step zero_sha example_cfg Some (rs_exec ?s) \<lparr> xs_db = exdb (rows @ [started now (late_row i key t)]) ev',
      xs_threads = ths @ [ThStarted (late_ctx i key t) ''enc''], xs_calls = calls \<rparr>" (is "exec_step _ _ _ _ ?e")
    using exec_step.start [of "rs_exec ?s" ths "late_ctx i key t" "[]" zero_sha Some 300 now "Inr ''enc''"
        "exdb (rows @ [started now (late_row i key t)]) ev'" example_cfg] c by (simp add: late_state_def)
  from recon_step.phase [where timely = timely and s = ?s, OF this] show ?thesis by (auto simp: late_state_def)
qed

lemma late_call_step:
  "late_step timely (late_state rows ev (a @ ThStarted (late_ctx i key t) ''enc'' # b) calls created u)
    (late_state rows ev (a @ ThCalled (late_ctx i key t) # b) (calls @ [(late_ctx i key t, late_request i key t)]) created u)"
proof -
  let ?s = "late_state rows ev (a @ ThStarted (late_ctx i key t) ''enc'' # b) calls created u"
  have "exec_step zero_sha example_cfg Some (rs_exec ?s) \<lparr> xs_db = exdb rows ev,
      xs_threads = a @ ThCalled (late_ctx i key t) # b, xs_calls = calls @ [(late_ctx i key t, late_request i key t)] \<rparr>"
    using exec_step.call [of "rs_exec ?s" a "late_ctx i key t" "''enc''" b zero_sha 301 0 "Inr (late_request i key t)"
        "exdb rows ev" example_cfg Some] late_call [of 301 0 i key t rows ev] by (simp add: late_state_def late_request_def)
  from recon_step.phase [where timely = timely and s = ?s, OF this] show ?thesis by (auto simp: late_state_def)
qed

lemma late_create_step:
  assumes "c \<in> set calls" "c \<notin> set created"
    and "\<not> timely \<or> (\<exists>x\<in>set rows. ex_id x = exec_id (fst c) \<and> u < absence_reconciliation_eligible_at x)"
  shows "late_step timely (late_state rows ev ths calls created u) (late_state rows ev ths calls (created @ [c]) u)"
  using recon_step.create [of c "late_state rows ev ths calls created u" timely] assms by (simp add: late_state_def)

lemma late_init: "recon_init example_exec_db now = late_state [] (execution_events example_exec_db) [] [] [] now"
  using exdb_init by (simp add: recon_init_def exec_init_def late_state_def)

lemma late_key: "required_idempotency_key ''key-0001'' = Inr ''key-0001''" "required_idempotency_key ''key-0002'' = Inr ''key-0002''"
  by code_simp+

text \<open>The first execution up to its start.\<close>

lemma late_started:
  "\<exists>ev. run (late_step timely) (recon_init example_exec_db 0)
     (late_state [started 11 (late_row 100 ''key-0001'' 10)] ev [ThStarted (late_ctx 100 ''key-0001'' 10) ''enc''] [] [] 0)"
proof -
  have e: "executions_ok (exdb [] ev)" "executions_ok (exdb [late_row 100 ''key-0001'' 10] ev)" for ev
    by (simp_all add: executions_ok_def)
  obtain ev1 where "late_step timely (recon_init example_exec_db 0)
      (late_state [late_row 100 ''key-0001'' 10] ev1 [ThClaimed (late_ctx 100 ''key-0001'' 10)] [] [] 0)"
    using late_claim_step [OF e(1) late_key(1), of 100 "execution_events example_exec_db" timely "[]" "[]" "[]" 0 10]
    by (auto simp: late_init get_execution_by_idempotency_key_def get_active_or_successful_execution_def)
  moreover obtain ev2 where "late_step timely (late_state [late_row 100 ''key-0001'' 10] ev1 [ThClaimed (late_ctx 100 ''key-0001'' 10)] [] [] 0)
      (late_state [started 11 (late_row 100 ''key-0001'' 10)] ev2 [ThStarted (late_ctx 100 ''key-0001'' 10) ''enc''] [] [] 0)"
    using late_start_step [of "[]" 100 "''key-0001''" 10 ev1 timely "[]" "[]" "[]" 0 11] e(2) by auto
  ultimately show ?thesis by (blast intro: run.intros)
qed

theorem at_most_one_issue_per_proposal_witness:
  "\<exists>s. run (late_step True) (recon_init example_exec_db 0) s
     \<and> rs_created s = [(late_ctx 100 ''key-0001'' 10, late_request 100 ''key-0001'' 10)]
     \<and> distinct (map (\<lambda>c. ap_id (cx_proposal (fst c))) (rs_created s))"
proof -
  let ?c = "(late_ctx 100 ''key-0001'' 10, late_request 100 ''key-0001'' 10)"
  let ?row = "started 11 (late_row 100 ''key-0001'' 10)"
  obtain ev where r: "run (late_step True) (recon_init example_exec_db 0)
     (late_state [?row] ev [ThStarted (late_ctx 100 ''key-0001'' 10) ''enc''] [] [] 0)" using late_started by blast
  have "late_step True (late_state [?row] ev [ThStarted (late_ctx 100 ''key-0001'' 10) ''enc''] [] [] 0)
    (late_state [?row] ev [ThCalled (late_ctx 100 ''key-0001'' 10)] [?c] [] 0)"
    using late_call_step [of True "[?row]" ev "[]" 100 "''key-0001''" 10 "[]" "[]" "[]" 0] by simp
  moreover have "late_step True (late_state [?row] ev [ThCalled (late_ctx 100 ''key-0001'' 10)] [?c] [] 0)
    (late_state [?row] ev [ThCalled (late_ctx 100 ''key-0001'' 10)] [?c] [?c] 0)"
    using late_create_step [of ?c "[?c]" "[]" True "[?row]" 0 ev]
    by (simp add: absence_reconciliation_eligible_at_def SYNC_ABSENCE_GRACE_PERIOD_def seconds_def)
  ultimately have run: "run (late_step True) (recon_init example_exec_db 0)
    (late_state [?row] ev [ThCalled (late_ctx 100 ''key-0001'' 10)] [?c] [?c] 0)" (is "run _ _ ?s")
    using r by (blast intro: run.intros)
  have "distinct (map (\<lambda>c. ap_id (cx_proposal (fst c))) (rs_created ?s))"
    by (rule at_most_one_issue_per_proposal [OF run example_exec_state(1)]) (simp add: example_exec_db_def)
  then show ?thesis using run by (intro exI [of _ ?s]) (simp add: late_state_def)
qed

section \<open>Two issues\<close>

definition empty_page :: http_response where
  "empty_page = \<lparr> rs_status = 200, rs_json = Some (PList []), rs_header = Map.empty \<rparr>"

definition empty_http :: transport where
  "empty_http rq = (if rq_method rq = ''GET'' then Some empty_page else None)"

definition given_up :: "time \<Rightarrow> action_execution \<Rightarrow> action_execution" where
  "given_up now x = x\<lparr>ex_status := Failed, ex_error_message := Some SYNC_WRITE_NOT_OBSERVED, ex_finished_at := Some now,
     ex_reconciled_at := Some now, ex_updated_at := now\<rparr>"

lemma given_up_simps [simp]: "ex_id (given_up now x) = ex_id x" "ex_status (given_up now x) = Failed"
  "ex_workspace_id (given_up now x) = ex_workspace_id x" "ex_client_idempotency_key (given_up now x) = ex_client_idempotency_key x"
  "ex_action_proposal_id (given_up now x) = ex_action_proposal_id x"
  by (simp_all add: given_up_def)

lemma empty_listed: "list_issues empty_http tok repo ''all'' 100 10 = Inr []"
  by (subst list_issues_one_page [where r = empty_page and xs = "[]"])
     (simp_all add: empty_http_def empty_page_def List.map_filter_simps)

lemma late_sync_read:
  assumes "ex_action_proposal_id x = 7" "ex_status x = Running" "ex_connection_id x = Some 61"
  shows "sync_read example_cfg 2 7 1 None (exdb [x] ev) = Inr (example_sync_ctx\<lparr>sc_execution := x\<rparr>)"
proof -
  have v: "validate_github_issue_proposal example_approved = Inr example_issue"
    by (simp add: validate_github_issue_proposal_def example_payload_valid)
       (simp add: example_approved_def example_proposal_def)
  have p: "ap_id example_approved = 7" by (simp add: example_approved_def example_proposal_def)
  have x: "get_reconcilable_execution_or_raise example_approved (exdb [x] ev) = Inr x"
    using assms by (simp add: get_reconcilable_execution_or_raise_def p)
  have c: "sync_get_connection_or_raise 2 (Some 61) (exdb [x] ev) = Inr example_connection"
    by (simp add: sync_get_connection_or_raise_def exdb_facts require_some_def validate_connection_def example_connection_def)
  have "enable_real_connectors example_cfg" by (simp add: example_cfg_def)
  then show ?thesis using v x c assms exdb_facts(1) by (simp add: sync_read_def require_some_def example_sync_ctx_def)
qed

lemma late_sync:
  assumes "ex_action_proposal_id x = 7" "ex_status x = Running" "ex_connection_id x = Some 61"
    and "absence_reconciliation_eligible_at x \<le> now"
  shows "\<exists>r ev'. sync_github_issue_execution_result zero_sha example_cfg Some empty_http example_sync_ids now 2 7 1 None
     (exdb [x] ev) (exdb [x] ev) = (r, exdb [given_up now x] ev')"
proof -
  let ?cx = "example_sync_ctx\<lparr>sc_execution := x\<rparr>"
  obtain ev1 where s: "append_sync_started zero_sha (si_started example_sync_ids) now ?cx (exdb [x] ev) = Inr (exdb [x] ev1)"
    using sync_started_ok [OF zero_sha_hex] by (metis exdb_update(3))
  have u: "update_execution (ex_id x) (\<lambda>y. y
        \<lparr>ex_status := put (ex_status x) Failed (ex_status y),
         ex_error_message := put (ex_error_message x) (Some SYNC_WRITE_NOT_OBSERVED) (ex_error_message y),
         ex_finished_at := put (ex_finished_at x) (Some now) (ex_finished_at y),
         ex_reconciled_at := put (ex_reconciled_at x) (Some now) (ex_reconciled_at y)\<rparr>) now (exdb [x] ev1)
     = Inr (exdb [given_up now x] ev1)"
    by (simp add: update_execution_def executions_ok_def given_up_def)
  have p: "put_proposal_status (sc_proposal ?cx) Approved now db = db" for db :: action_db
    by (simp add: put_proposal_status_def example_sync_ctx_def example_approved_def)
  let ?a = "(sync_event_args zero_sha (si_event example_sync_ids) now ?cx ''execution_write_not_observed'' ''recorded''
          ''A complete provider check found no GitHub issue with the exact execution marker. A later retry must use a new idempotency key.''
          (execution_text ?cx @ '':'' @ ''complete_provider_snapshot'' @ '':not_observed'')
          [(''execution_id'', PStr (execution_text ?cx)),
           (''repository_full_name'', PStr (gp_repository_full_name (sc_payload ?cx))),
           (''request_hash'', PStr (ex_request_hash x)), (''reconciliation_basis'', PStr ''complete_provider_snapshot'')])
        \<lparr>ea_error_code := Some ''provider_write_not_observed'', ea_error_message := Some SYNC_WRITE_NOT_OBSERVED\<rparr>"
  have "\<exists>ev2. append_sync_event ?a (exdb [given_up now x] ev1) = Inr ((exdb [given_up now x] ev1)\<lparr>execution_events := ev2\<rparr>)"
    by (rule sync_event_recorded [where g = "\<lambda>a. a\<lparr>ea_error_code := Some ''provider_write_not_observed'',
          ea_error_message := Some SYNC_WRITE_NOT_OBSERVED\<rparr>", OF zero_sha_hex sync_words(3,4)]) simp
  then obtain ev2 where e: "append_sync_event ?a (exdb [given_up now x] ev1) = Inr (exdb [given_up now x] ev2)"
    by (metis exdb_update(3))
  have "ex_id (sc_execution ?cx) = ex_id x" by simp
  then have w: "record_write_not_observed zero_sha (si_event example_sync_ids) now ?cx ''complete_provider_snapshot'' (exdb [x] ev1)
     = Inr (Inr WriteNotObserved, exdb [given_up now x] ev2)"
    unfolding record_write_not_observed_def Let_def using u p e
    by (simp add: write_not_observed_message_def)
  have "sync_uncertain zero_sha empty_http example_sync_ids now ?cx ''enc'' (exdb [x] ev1) = Inr (Inr WriteNotObserved, exdb [given_up now x] ev2)"
    using w assms(4) by (simp add: sync_uncertain_def empty_listed issues_matching_execution_marker_def)
  moreover have "Some (case ic_encrypted_access_token (sc_connection ?cx) of None \<Rightarrow> [] | Some t \<Rightarrow> t) = Some ''enc''"
    by (simp add: example_sync_ctx_def example_connection_def)
  ultimately have "sync_github_issue_execution_result zero_sha example_cfg Some empty_http example_sync_ids now 2 7 1 None
     (exdb [x] ev) (exdb [x] ev) = (Inr WriteNotObserved, exdb [given_up now x] ev2)"
    using s assms(2) late_sync_read [OF assms(1-3)]
    by (simp add: sync_github_issue_execution_result_def sync_apply_def sync_body_def)
  then show ?thesis by blast
qed

text \<open>The first execution is started, its process is held up, and a reconciliation gives it up.\<close>

lemma late_given_up:
  "\<exists>ev. run (late_step False) (recon_init example_exec_db 0)
     (late_state [given_up (11 + SYNC_ABSENCE_GRACE_PERIOD) (started 11 (late_row 100 ''key-0001'' 10))] ev
        [ThStarted (late_ctx 100 ''key-0001'' 10) ''enc''] [] [] (11 + SYNC_ABSENCE_GRACE_PERIOD))"
proof -
  let ?late = "11 + SYNC_ABSENCE_GRACE_PERIOD"
  let ?A = "late_ctx 100 ''key-0001'' 10"
  let ?rowA = "started 11 (late_row 100 ''key-0001'' 10)"
  let ?up = "given_up ?late ?rowA" and ?run = "run (late_step False) (recon_init example_exec_db 0)"
  obtain ev where r1: "?run (late_state [?rowA] ev [ThStarted ?A ''enc''] [] [] 0)" using late_started by blast
  have "late_step False (late_state [?rowA] ev [ThStarted ?A ''enc''] [] [] 0) (late_state [?rowA] ev [ThStarted ?A ''enc''] [] [] ?late)"
    using recon_step.tick [of "late_state [?rowA] ev [ThStarted ?A ''enc''] [] [] 0" ?late False zero_sha example_cfg Some]
    by (simp add: late_state_def SYNC_ABSENCE_GRACE_PERIOD_def seconds_def)
  with r1 have r2: "?run (late_state [?rowA] ev [ThStarted ?A ''enc''] [] [] ?late)" by (rule run.run_step)
  obtain r ev1 where sy: "sync_github_issue_execution_result zero_sha example_cfg Some empty_http example_sync_ids ?late 2 7 1 None
     (exdb [?rowA] ev) (exdb [?rowA] ev) = (r, exdb [?up] ev1)"
    using late_sync [of ?rowA ?late ev] by (auto simp: absence_reconciliation_eligible_at_def)
  have "late_step False (late_state [?rowA] ev [ThStarted ?A ''enc''] [] [] ?late) (late_state [?up] ev1 [ThStarted ?A ''enc''] [] [] ?late)"
    using recon_step.sync [of zero_sha example_cfg Some empty_http example_sync_ids "late_state [?rowA] ev [ThStarted ?A ''enc''] [] [] ?late"
        2 7 1 None r "exdb [?up] ev1" False] sy by (simp add: late_state_def shows_created_def)
  with r2 have r3: "?run (late_state [?up] ev1 [ThStarted ?A ''enc''] [] [] ?late)" by (rule run.run_step)
  then show ?thesis by blast
qed

lemma late_two_issues:
  "\<exists>ev. run (late_step False) (recon_init example_exec_db 0)
     (late_state [given_up (11 + SYNC_ABSENCE_GRACE_PERIOD) (started 11 (late_row 100 ''key-0001'' 10)),
          started 21 (late_row 200 ''key-0002'' 20)] ev
        [ThCalled (late_ctx 100 ''key-0001'' 10), ThCalled (late_ctx 200 ''key-0002'' 20)]
        [(late_ctx 200 ''key-0002'' 20, late_request 200 ''key-0002'' 20), (late_ctx 100 ''key-0001'' 10, late_request 100 ''key-0001'' 10)]
        [(late_ctx 200 ''key-0002'' 20, late_request 200 ''key-0002'' 20), (late_ctx 100 ''key-0001'' 10, late_request 100 ''key-0001'' 10)]
        (11 + SYNC_ABSENCE_GRACE_PERIOD))"
proof -
  let ?late = "11 + SYNC_ABSENCE_GRACE_PERIOD"
  let ?A = "late_ctx 100 ''key-0001'' 10" and ?B = "late_ctx 200 ''key-0002'' 20"
  let ?a = "(?A, late_request 100 ''key-0001'' 10)" and ?b = "(?B, late_request 200 ''key-0002'' 20)"
  let ?rowA = "started 11 (late_row 100 ''key-0001'' 10)" and ?rowB = "late_row 200 ''key-0002'' 20"
  let ?up = "given_up ?late ?rowA" and ?run = "run (late_step False) (recon_init example_exec_db 0)"
  obtain ev1 where r3: "?run (late_state [?up] ev1 [ThStarted ?A ''enc''] [] [] ?late)" using late_given_up by blast
  have ok: "executions_ok (exdb [?up] v)" "executions_ok (exdb ([?up] @ [?rowB]) v)" for v
    by (simp_all add: executions_ok_def ACTIVE_OR_SUCCESSFUL_def)
  obtain ev2 where "late_step False (late_state [?up] ev1 [ThStarted ?A ''enc''] [] [] ?late)
      (late_state ([?up] @ [?rowB]) ev2 ([ThStarted ?A ''enc''] @ [ThClaimed ?B]) [] [] ?late)"
    using late_claim_step [OF ok(1) late_key(2), of 200 ev1 False "[ThStarted ?A ''enc'']" "[]" "[]" ?late 20]
    by (auto simp: get_execution_by_idempotency_key_def get_active_or_successful_execution_def ACTIVE_OR_SUCCESSFUL_def)
  with r3 have r4: "?run (late_state ([?up] @ [?rowB]) ev2 ([ThStarted ?A ''enc''] @ [ThClaimed ?B]) [] [] ?late)" by (rule run.run_step)
  let ?rows = "[?up] @ [started 21 ?rowB]"
  obtain ev3 where "late_step False (late_state ([?up] @ [?rowB]) ev2 ([ThStarted ?A ''enc''] @ [ThClaimed ?B]) [] [] ?late)
      (late_state ?rows ev3 ([ThStarted ?A ''enc''] @ [ThStarted ?B ''enc'']) [] [] ?late)"
    using late_start_step [of "[?up]" 200 "''key-0002''" 20 ev2 False "[ThStarted ?A ''enc'']" "[]" "[]" ?late 21] ok(2) by auto
  with r4 have r5: "?run (late_state ?rows ev3 ([ThStarted ?A ''enc''] @ [ThStarted ?B ''enc'']) [] [] ?late)" by (rule run.run_step)
  have "late_step False (late_state ?rows ev3 ([ThStarted ?A ''enc''] @ [ThStarted ?B ''enc'']) [] [] ?late)
      (late_state ?rows ev3 ([ThStarted ?A ''enc''] @ [ThCalled ?B]) [?b] [] ?late)"
    using late_call_step [of False ?rows ev3 "[ThStarted ?A ''enc'']" 200 "''key-0002''" 20 "[]" "[]" "[]" ?late] by simp
  with r5 have r6: "?run (late_state ?rows ev3 ([ThStarted ?A ''enc''] @ [ThCalled ?B]) [?b] [] ?late)" by (rule run.run_step)
  have "late_step False (late_state ?rows ev3 ([ThStarted ?A ''enc''] @ [ThCalled ?B]) [?b] [] ?late)
      (late_state ?rows ev3 ([ThStarted ?A ''enc''] @ [ThCalled ?B]) [?b] [?b] ?late)"
    using late_create_step [of ?b "[?b]" "[]" False ?rows ?late ev3] by simp
  with r6 have r7: "?run (late_state ?rows ev3 ([ThStarted ?A ''enc''] @ [ThCalled ?B]) [?b] [?b] ?late)" by (rule run.run_step)
  have "late_step False (late_state ?rows ev3 ([ThStarted ?A ''enc''] @ [ThCalled ?B]) [?b] [?b] ?late)
      (late_state ?rows ev3 [ThCalled ?A, ThCalled ?B] [?b, ?a] [?b] ?late)"
    using late_call_step [of False ?rows ev3 "[]" 100 "''key-0001''" 10 "[ThCalled ?B]" "[?b]" "[?b]" ?late] by simp
  with r7 have r8: "?run (late_state ?rows ev3 [ThCalled ?A, ThCalled ?B] [?b, ?a] [?b] ?late)" by (rule run.run_step)
  have "exec_id ?A \<noteq> exec_id ?B" by simp
  then have "?a \<noteq> ?b" by (metis fst_conv)
  then have "late_step False (late_state ?rows ev3 [ThCalled ?A, ThCalled ?B] [?b, ?a] [?b] ?late)
      (late_state ?rows ev3 [ThCalled ?A, ThCalled ?B] [?b, ?a] [?b, ?a] ?late)"
    using late_create_step [of ?a "[?b, ?a]" "[?b]" False ?rows ?late ev3] by simp
  with r8 have r9: "?run (late_state ?rows ev3 [ThCalled ?A, ThCalled ?B] [?b, ?a] [?b, ?a] ?late)" by (rule run.run_step)
  then show ?thesis by auto
qed

text \<open>A late request creates a second issue. The assumption that no request becomes an issue
  after the grace period is needed: there is a run, from tables with one approved proposal, in
  which the first execution is started, its process is held up for the grace period before it
  sends the request, a reconciliation that reads a complete list gives it up, a second
  execution under a new key sends its request, and then the first process sends its own. The
  evidence is checked again before the request but not the status of the execution. Two issues
  exist for the proposal.\<close>

theorem late_request_creates_second_issue:
  "\<exists>s. run (recon_step False zero_sha example_cfg Some) (recon_init example_exec_db 0) s
     \<and> map (\<lambda>c. ap_id (cx_proposal (fst c))) (rs_created s) = [7, 7]"
proof -
  have p: "ap_id example_approved = 7" by (simp add: example_approved_def example_proposal_def)
  show ?thesis using late_two_issues by (elim exE) (rule exI, rule conjI, assumption, simp add: late_state_def p)
qed

end
