(* ===== verification/Open_Executions.thy ===== *)
theory Open_Executions
  imports Late_Write
begin

text \<open>
  Execute requests interleaved with anything else that is committed, reconciliations and their
  races included: an execution keeps its identity, but its status may change under the process that
  holds it. The machine \<open>open_step\<close> has the phases of \<^const>\<open>exec_step\<close> and arbitrary such changes, and
  every run with reconciliations is a run of it.
\<close>

section \<open>The machine\<close>

definition executions_kept :: "action_db \<Rightarrow> action_db \<Rightarrow> bool" where
  "executions_kept db db' \<longleftrightarrow> (\<forall>x\<in>set (action_executions db). \<exists>y\<in>set (action_executions db').
     ex_id y = ex_id x \<and> ex_action_proposal_id y = ex_action_proposal_id x)"

inductive open_step :: "sha \<Rightarrow> execution_config \<Rightarrow> (string \<Rightarrow> string option) \<Rightarrow> exec_state \<Rightarrow> exec_state \<Rightarrow> bool"
  for sha cfg decrypt where
  phase: "exec_step sha cfg decrypt s s' \<Longrightarrow> open_step sha cfg decrypt s s'"
| commit: "executions_kept (xs_db s) db' \<Longrightarrow> executions_ok db' \<Longrightarrow> open_step sha cfg decrypt s (s\<lparr>xs_db := db'\<rparr>)"

lemma executions_kept_same: "action_executions db' = action_executions db \<Longrightarrow> executions_kept db db'"
  by (auto simp: executions_kept_def)

lemma executions_kept_subset:
  "set (action_executions db) \<subseteq> set (action_executions db') \<Longrightarrow> executions_kept db db'"
  by (auto simp: executions_kept_def)

lemma executions_kept_updated: "updated i Q db db' \<Longrightarrow> executions_kept db db'"
proof -
  assume "updated i Q db db'"
  then obtain f where f: "action_executions db' = update_where (\<lambda>x. ex_id x = i) f (action_executions db)"
    and keep: "\<And>x. ex_id (f x) = ex_id x \<and> ex_action_proposal_id (f x) = ex_action_proposal_id x"
    unfolding updated_def by blast
  show ?thesis
    unfolding executions_kept_def
  proof
    fix x assume x: "x \<in> set (action_executions db)"
    let ?y = "if ex_id x = i then f x else x"
    have "?y \<in> set (action_executions db')" unfolding f in_update_where using x by auto
    then show "\<exists>y\<in>set (action_executions db'). ex_id y = ex_id x \<and> ex_action_proposal_id y = ex_action_proposal_id x"
      using keep [of x] by (intro bexI [of _ ?y]) auto
  qed
qed

lemma executions_kept_row_set: "row_set i S db db' \<Longrightarrow> executions_kept db db'"
  by (rule executions_kept_updated [OF updated_row_set])

text \<open>A run with reconciliations, timely issues or not, is an open run.\<close>

lemma recon_step_open:
  assumes "recon_step timely sha cfg decrypt s s'" "executions_ok (xs_db (rs_exec s))"
  shows "rs_exec s' = rs_exec s \<or> open_step sha cfg decrypt (rs_exec s) (rs_exec s')"
  using assms(1)
proof cases
  case (phase e)
  then show ?thesis by (auto intro: open_step.phase)
next
  case (sync http ids w i actor cid r db')
  have "same_rows (xs_db (rs_exec s)) db' \<or> (\<exists>cx st pst. settled cx st pst (xs_db (rs_exec s)) db')"
  proof (cases "sync_read cfg w i actor cid (xs_db (rs_exec s))")
    case (Inl e)
    then show ?thesis using sync(2) by (simp add: sync_github_issue_execution_result_def same_rows_refl)
  next
    case (Inr cx)
    then have "sync_apply sha decrypt http ids (rs_now s) cx (xs_db (rs_exec s)) = (r, db')"
      using sync(2) by (simp add: sync_github_issue_execution_result_def)
    from sync_apply_effect [OF this sync_read_status(3) [OF Inr]] show ?thesis unfolding reconciled_def by blast
  qed
  then have "executions_kept (xs_db (rs_exec s)) db' \<and> executions_ok db'"
  proof (elim disjE exE)
    assume "same_rows (xs_db (rs_exec s)) db'"
    then show ?thesis using assms(2) executions_ok_cong by (auto simp: same_rows_def intro: executions_kept_same)
  next
    fix cx st pst
    assume st: "settled cx st pst (xs_db (rs_exec s)) db'"
    from executions_kept_updated [OF updated_settled [OF st]] st show ?thesis by (simp add: settled_def)
  qed
  then show ?thesis using open_step.commit [of "rs_exec s" db'] sync(1) by auto
qed auto

section \<open>The invariant\<close>

definition known_execution :: "action_db \<Rightarrow> exec_ctx \<Rightarrow> bool" where
  "known_execution db cx \<longleftrightarrow> (\<exists>x\<in>set (action_executions db). ex_id x = exec_id cx
     \<and> ex_action_proposal_id x = ap_id (cx_proposal cx))"

lemma known_execution_kept: "known_execution db cx \<Longrightarrow> executions_kept db db' \<Longrightarrow> known_execution db' cx"
  unfolding known_execution_def executions_kept_def by metis

definition open_inv :: "execution_config \<Rightarrow> exec_state \<Rightarrow> bool" where
  "open_inv cfg s \<longleftrightarrow> executions_ok (xs_db s) \<and> distinct (map (exec_id \<circ> th_ctx) (xs_threads s)) \<and> distinct (called_ids s) \<and>
     (\<forall>th\<in>set (xs_threads s). ctx_ok cfg (th_ctx th) \<and> known_execution (xs_db s) (th_ctx th)
        \<and> (not_sent th \<longrightarrow> exec_id (th_ctx th) \<notin> set (called_ids s))) \<and>
     (\<forall>c\<in>set (xs_calls s). known_execution (xs_db s) (fst c)
        \<and> pr_body (snd c) = body_with_execution_marker (gp_body (cx_payload (fst c))) (cx_execution (fst c)))"

lemma open_inv_db:
  assumes "open_inv cfg s" "executions_kept (xs_db s) db'" "executions_ok db'"
  shows "open_inv cfg (s\<lparr>xs_db := db'\<rparr>)"
  using assms known_execution_kept unfolding open_inv_def by (auto simp: called_ids_def)

lemma open_inv_same:
  assumes "open_inv cfg s" "action_executions db' = action_executions (xs_db s)"
  shows "open_inv cfg (s\<lparr>xs_db := db'\<rparr>)"
  using open_inv_db [OF assms(1) executions_kept_same [OF assms(2)]] executions_ok_cong [OF assms(2)] assms(1)
  by (simp add: open_inv_def)

lemma open_inv_row_set:
  assumes "open_inv cfg s" "db' = xs_db s \<or> row_set i S (xs_db s) db'"
  shows "open_inv cfg (s\<lparr>xs_db := db'\<rparr>)"
  using assms(2)
proof
  assume "db' = xs_db s"
  then show ?thesis using assms(1) by simp
next
  assume r: "row_set i S (xs_db s) db'"
  show ?thesis by (rule open_inv_db [OF assms(1) executions_kept_row_set [OF r] row_set_ok [OF r]])
qed

text \<open>A thread moves on, with at most one request sent.\<close>

lemma open_inv_thread:
  assumes I: "open_inv cfg s" and th: "xs_threads s = a @ th # b"
    and new: "new = [] \<or> (\<exists>n. new = [n] \<and> th_ctx n = th_ctx th \<and> (not_sent n \<longrightarrow> not_sent th \<and> cs = []))"
    and cs: "cs = [] \<or> (\<exists>rq. cs = [(th_ctx th, rq)] \<and> not_sent th
        \<and> pr_body rq = body_with_execution_marker (gp_body (cx_payload (th_ctx th))) (cx_execution (th_ctx th)))"
  shows "open_inv cfg (s\<lparr>xs_threads := a @ new @ b, xs_calls := xs_calls s @ cs\<rparr>)"
proof -
  have d: "distinct (map (exec_id \<circ> th_ctx) (a @ th # b))" using I th by (simp add: open_inv_def)
  have ids: "distinct (called_ids s)" using I by (simp add: open_inv_def)
  have "\<forall>x\<in>set (xs_threads s). ctx_ok cfg (th_ctx x) \<and> known_execution (xs_db s) (th_ctx x)
      \<and> (not_sent x \<longrightarrow> exec_id (th_ctx x) \<notin> set (called_ids s))"
    using I by (simp add: open_inv_def)
  then have at: "x \<in> set (a @ th # b) \<Longrightarrow> ctx_ok cfg (th_ctx x) \<and> known_execution (xs_db s) (th_ctx x)
      \<and> (not_sent x \<longrightarrow> exec_id (th_ctx x) \<notin> set (called_ids s))" for x
    unfolding th by blast
  have fresh: "exec_id (th_ctx x) \<noteq> exec_id (th_ctx th)" if "x \<in> set a \<union> set b" for x
    using d that by (auto simp: image_iff)
  have "map (exec_id \<circ> th_ctx) new \<in> {[], [exec_id (th_ctx th)]}" using new by auto
  then have "distinct (map (exec_id \<circ> th_ctx) (a @ new @ b))" using d by (auto simp: image_iff)
  moreover have "distinct (called_ids (s\<lparr>xs_calls := xs_calls s @ cs\<rparr>))"
    using ids cs at [of th] by (auto simp: called_ids_def) (metis fst_conv image_eqI)
  moreover have "\<forall>x\<in>set (a @ new @ b). ctx_ok cfg (th_ctx x) \<and> known_execution (xs_db s) (th_ctx x)
      \<and> (not_sent x \<longrightarrow> exec_id (th_ctx x) \<notin> set (called_ids s) \<union> (exec_id \<circ> fst) ` set cs)"
    using at new cs fresh by fastforce
  moreover have "executions_ok (xs_db s)" "\<forall>c\<in>set (xs_calls s @ cs). known_execution (xs_db s) (fst c)
        \<and> pr_body (snd c) = body_with_execution_marker (gp_body (cx_payload (fst c))) (cx_execution (fst c))"
    using I cs at [of th] by (auto simp: open_inv_def)
  ultimately show ?thesis by (simp add: open_inv_def called_ids_def image_comp comp_def)
qed

lemma open_inv_claim:
  assumes I: "open_inv cfg s" and new: "executions_ok db'" "ctx_ok cfg cx"
    "action_executions db' = action_executions (xs_db s) @ [cx_execution cx]"
  shows "open_inv cfg (s\<lparr>xs_db := db', xs_threads := xs_threads s @ [ThClaimed cx]\<rparr>)"
proof -
  have kept: "executions_kept (xs_db s) db'" using new(3) by (intro executions_kept_subset) auto
  have J: "open_inv cfg (s\<lparr>xs_db := db'\<rparr>)" by (rule open_inv_db [OF I kept new(1)])
  have fresh: "exec_id cx \<notin> ex_id ` set (action_executions (xs_db s))"
    using new(1,3) by (auto simp: executions_ok_def exec_id_def)
  have old: "exec_id c \<noteq> exec_id cx" if "known_execution (xs_db s) c" for c
    using that fresh unfolding known_execution_def by (metis imageI)
  have "known_execution db' cx" using new(2,3) by (auto simp: known_execution_def exec_id_def ctx_ok_def)
  moreover have "exec_id (th_ctx th) \<noteq> exec_id cx" if "th \<in> set (xs_threads s)" for th
    using I old that by (simp add: open_inv_def)
  moreover have "exec_id (fst c) \<noteq> exec_id cx" if "c \<in> set (xs_calls s)" for c
    using I old that by (simp add: open_inv_def)
  ultimately show ?thesis using J new(2) by (force simp: open_inv_def called_ids_def)
qed

lemma exec_step_open_inv:
  assumes "exec_step sha cfg decrypt s s'" "open_inv cfg s"
  shows "open_inv cfg s'"
  using assms(1)
proof cases
  case (claim ids now w i inp r db')
  note eff = claim_execution_effect [OF claim(2)]
  show ?thesis
  proof (cases "\<exists>cx. r = Inr (ClaimTaken cx)")
    case True
    then show ?thesis using eff open_inv_claim [OF assms(2)] by (auto simp: claim(1))
  next
    case False
    then have "action_executions db' = action_executions (xs_db s)" "s' = s\<lparr>xs_db := db'\<rparr>"
      using eff by (auto simp: claim(1) split: sum.splits claim_outcome.splits)
    then show ?thesis using open_inv_same [OF assms(2)] by simp
  qed
next
  case (start a cx b n now r db')
  have "db' = xs_db s \<or> (\<exists>S. row_set (ex_id (cx_execution cx)) S (xs_db s) db')"
    using start_execution_effect [OF start(3)] by (auto split: sum.splits)
  then have "open_inv cfg (s\<lparr>xs_db := db'\<rparr>)" using open_inv_row_set [OF assms(2)] by blast
  from open_inv_thread [OF this, of a "ThClaimed cx" b "case r of Inr t \<Rightarrow> [ThStarted cx t] | Inl _ \<Rightarrow> []" "[]"]
  show ?thesis using start(1,2) by (simp split: sum.split)
next
  case (call a cx t b n now r db')
  have "db' = xs_db s \<or> (\<exists>S. row_set (ex_id (cx_execution cx)) S (xs_db s) db')"
    using recheck_effect [OF call(3)] by (auto split: sum.splits)
  then have "open_inv cfg (s\<lparr>xs_db := db'\<rparr>)" using open_inv_row_set [OF assms(2)] by blast
  from open_inv_thread [OF this, of a "ThStarted cx t" b "case r of Inr rq \<Rightarrow> [ThCalled cx] | Inl _ \<Rightarrow> []"
      "case r of Inr rq \<Rightarrow> [(cx, rq)] | Inl _ \<Rightarrow> []"]
  show ?thesis using call(1,2) recheck_effect [OF call(3)] by (auto split: sum.splits)
next
  case (finish a cx b n now response r db')
  have "open_inv cfg (s\<lparr>xs_db := db'\<rparr>)" using finish_effect [OF finish(3)] open_inv_row_set [OF assms(2)] by blast
  from open_inv_thread [OF this, of a "ThCalled cx" b "[]" "[]"] show ?thesis using finish(1,2) by simp
next
  case (crash a th b)
  then show ?thesis using open_inv_thread [OF assms(2) crash(2), of "[]" "[]"] by simp
next
  case (other db')
  then show ?thesis using open_inv_same [OF assms(2)] by (simp add: other_tables_def)
qed

lemma open_step_inv:
  assumes "open_step sha cfg decrypt s s'" "open_inv cfg s"
  shows "open_inv cfg s'"
  using assms by cases (auto intro: exec_step_open_inv open_inv_db)

interpretation open_machine: invariant_machine "open_step sha cfg decrypt" "open_inv cfg" for sha cfg decrypt
  by unfold_locales (rule open_step_inv)

lemma open_init_inv: "executions_ok db \<Longrightarrow> open_inv cfg (exec_init db)"
  by (simp add: exec_init_def open_inv_def called_ids_def)

section \<open>One request per execution\<close>

text \<open>C1. An execution sends at most one request, and a proposal gets a second request only beside an
  execution that was given up. However execute requests are interleaved phase by phase, wherever
  processes die, and whatever is committed between the phases (reconciliations included, at whatever
  moment they overtake a process that holds an execution): no two create-issue requests belong to one
  execution; and of two requests for one proposal, the execution of at least one is recorded as
  failed. The second part rests on the index of active executions.\<close>

theorem one_request_per_execution:
  assumes "run (open_step sha cfg decrypt) (exec_init db) s" "executions_ok db"
  shows "distinct (map (\<lambda>c. ex_id (cx_execution (fst c))) (xs_calls s)) \<and>
    (\<forall>c\<in>set (xs_calls s). \<exists>x\<in>set (action_executions (xs_db s)). ex_id x = ex_id (cx_execution (fst c))
       \<and> ex_action_proposal_id x = ap_id (cx_proposal (fst c))) \<and>
    (\<forall>c\<in>set (xs_calls s). \<forall>d\<in>set (xs_calls s). c \<noteq> d \<longrightarrow> ap_id (cx_proposal (fst c)) = ap_id (cx_proposal (fst d)) \<longrightarrow>
       (\<exists>x\<in>set (action_executions (xs_db s)). ex_id x \<in> {ex_id (cx_execution (fst c)), ex_id (cx_execution (fst d))}
          \<and> ex_status x = Failed))"
proof -
  have I: "open_inv cfg s" by (rule open_machine.inv_run [OF assms(1) open_init_inv [OF assms(2)]])
  have d: "distinct (map (\<lambda>c. exec_id (fst c)) (xs_calls s))" using I by (simp add: open_inv_def called_ids_def)
  have known: "known_execution (xs_db s) (fst c)" if "c \<in> set (xs_calls s)" for c
    using I that by (simp add: open_inv_def)
  have failed: "\<exists>x\<in>set (action_executions (xs_db s)). ex_id x \<in> {exec_id (fst c), exec_id (fst d)} \<and> ex_status x = Failed"
    if cd: "c \<in> set (xs_calls s)" "d \<in> set (xs_calls s)" "c \<noteq> d"
      "ap_id (cx_proposal (fst c)) = ap_id (cx_proposal (fst d))" for c d
  proof (rule ccontr)
    assume none: "\<not> ?thesis"
    let ?act = "filter (\<lambda>x. ex_status x \<in> set ACTIVE_OR_SUCCESSFUL) (action_executions (xs_db s))"
    obtain x y where x: "x \<in> set (action_executions (xs_db s))" "ex_id x = exec_id (fst c)"
        "ex_action_proposal_id x = ap_id (cx_proposal (fst c))"
      and y: "y \<in> set (action_executions (xs_db s))" "ex_id y = exec_id (fst d)"
        "ex_action_proposal_id y = ap_id (cx_proposal (fst d))"
      using known [OF cd(1)] known [OF cd(2)] by (auto simp: known_execution_def)
    have "ex_status x \<noteq> Failed" "ex_status y \<noteq> Failed" using none x y by auto
    then have "x \<in> set ?act" "y \<in> set ?act"
      using x y by (cases "ex_status x"; cases "ex_status y"; simp add: ACTIVE_OR_SUCCESSFUL_def)+
    moreover have "distinct (map ex_action_proposal_id ?act)" using I by (simp add: open_inv_def executions_ok_def)
    ultimately have "x = y" using distinct_key_eq x(3) y(3) cd(4) by metis
    then have "exec_id (fst c) = exec_id (fst d)" using x(2) y(2) by simp
    then show False using distinct_key_eq [OF d cd(1,2)] cd(3) by blast
  qed
  show ?thesis
    using d known failed unfolding known_execution_def exec_id_def by blast
qed

section \<open>What a request rests on\<close>

lemma claim_execution_connection:
  assumes "claim_execution sha cfg ids now w i inp db = (Inr (ClaimTaken cx), db')"
  shows "cx_connection cx \<in> set (connections db)"
proof -
  obtain key p h payload c where
    "claim_checks cfg w (xi_connection_id inp) p db = Inr (payload, c)"
    and ins: "insert_claim sha ids now w p inp key h payload c db = (Inr (ClaimTaken cx), db')"
    using assms by (auto simp: claim_execution_def Let_def reply_def result_iffs bindE_def
        split: sum.splits option.splits if_splits prod.splits)
  then show ?thesis using insert_claim_effect [OF ins] claim_checks_Inr by fastforce
qed

text \<open>\<open>taken_from init s cx\<close>: the proposal and the connection of \<open>cx\<close> were rows of an earlier state.\<close>

definition taken_from :: "(exec_state \<Rightarrow> exec_state \<Rightarrow> bool) \<Rightarrow> exec_state \<Rightarrow> exec_state \<Rightarrow> exec_ctx \<Rightarrow> bool" where
  "taken_from R init s cx \<longleftrightarrow> (\<exists>s0. run R init s0 \<and> run R s0 s \<and> cx_proposal cx \<in> set (action_proposals (xs_db s0))
     \<and> cx_connection cx \<in> set (connections (xs_db s0)))"

definition ran_before :: "(exec_state \<Rightarrow> exec_state \<Rightarrow> bool) \<Rightarrow> exec_state \<Rightarrow> exec_state \<Rightarrow> exec_ctx \<Rightarrow> bool" where
  "ran_before R init s cx \<longleftrightarrow> (\<exists>s1. run R init s1 \<and> run R s1 s \<and> (\<exists>x\<in>set (action_executions (xs_db s1)).
     ex_id x = ex_id (cx_execution cx) \<and> ex_status x = Running))"

fun thread_history :: "(exec_state \<Rightarrow> exec_state \<Rightarrow> bool) \<Rightarrow> exec_state \<Rightarrow> exec_state \<Rightarrow> thread \<Rightarrow> bool" where
  "thread_history R init s (ThStarted cx t) = (taken_from R init s cx \<and> ran_before R init s cx)"
| "thread_history R init s th = taken_from R init s (th_ctx th)"

lemma history_step:
  assumes "R s u" "thread_history R init s th"
  shows "thread_history R init u th"
proof -
  have "run R s' u" if "run R s' s" for s' using that assms(1) by (rule run.run_step)
  then show ?thesis using assms(2) by (cases th) (auto simp: taken_from_def ran_before_def)
qed

lemma start_recorded:
  assumes "start_execution sha decrypt n now cx db = (Inr t, db')" "known_execution db cx"
  shows "\<exists>x\<in>set (action_executions db'). ex_id x = ex_id (cx_execution cx) \<and> ex_status x = Running"
proof -
  have "row_set (ex_id (cx_execution cx)) {Running} db db'" using start_execution_effect [OF assms(1)] by simp
  then obtain f where f: "action_executions db' = update_where (\<lambda>x. ex_id x = ex_id (cx_execution cx)) f (action_executions db)"
    "\<And>x. ex_id (f x) = ex_id x \<and> ex_status (f x) \<in> {Running}" by (auto simp: row_set_def)
  obtain x where x: "x \<in> set (action_executions db)" "ex_id x = ex_id (cx_execution cx)"
    using assms(2) by (auto simp: known_execution_def exec_id_def)
  have "f x \<in> set (action_executions db')" unfolding f(1) in_update_where using x by auto
  then show ?thesis using f(2) [of x] x(2) by auto
qed

lemma exec_step_history:
  assumes step: "exec_step sha cfg decrypt s u" and R: "run R init u" "R s u"
    and I: "open_inv cfg s" "run R init s" and H: "\<forall>th\<in>set (xs_threads s). thread_history R init s th"
  shows "\<forall>th\<in>set (xs_threads u). thread_history R init u th"
proof -
  have kept: "thread_history R init u th" if "th \<in> set (xs_threads s)" for th
    using H that history_step [of R, OF R(2)] by blast
  show ?thesis using step
  proof cases
    case (claim ids now w i inp r db')
    have "thread_history R init u (ThClaimed cx)" if cx: "r = Inr (ClaimTaken cx)" for cx
    proof -
      have "cx_proposal cx \<in> set (action_proposals (xs_db s))"
        using claim_execution_effect [OF claim(2)] cx get_action_proposal_Some by auto
      moreover have "cx_connection cx \<in> set (connections (xs_db s))"
        using claim_execution_connection claim(2) cx by blast
      ultimately show ?thesis using I(2) run_single [of R, OF R(2)] by (auto simp: taken_from_def)
    qed
    then show ?thesis using kept by (auto simp: claim(1) split: sum.splits claim_outcome.splits)
  next
    case (start a cx b n now r db')
    have "thread_history R init u (ThStarted cx t)" if t: "r = Inr t" for t
    proof -
      have "known_execution (xs_db s) cx" using I(1) start(2) by (auto simp: open_inv_def)
      from start_recorded [OF start(3) [unfolded t] this] have "ran_before R init u cx"
        using R(1) by (auto simp: ran_before_def start(1) intro!: exI [of _ u] run.run_refl)
      moreover have "taken_from R init u cx" using kept [of "ThClaimed cx"] start(2) by simp
      ultimately show ?thesis by simp
    qed
    then show ?thesis using kept start(2) by (auto simp: start(1) split: sum.splits)
  next
    case (call a cx t b n now r db')
    then show ?thesis using kept [of "ThStarted cx t"] kept by (auto simp: call(1) split: sum.splits)
  qed (use kept in auto)
qed

lemma open_history:
  assumes "run (open_step sha cfg decrypt) (exec_init db) s" "executions_ok db"
  shows "\<forall>th\<in>set (xs_threads s). thread_history (open_step sha cfg decrypt) (exec_init db) s th"
  using assms(1)
proof (induction "exec_init db" s rule: run.induct)
  case run_refl
  then show ?case by (simp add: exec_init_def)
next
  case (run_step s u)
  let ?R = "open_step sha cfg decrypt"
  have u: "run ?R (exec_init db) u" by (rule run.run_step [OF run_step.hyps(1,3)])
  have I: "open_inv cfg s" by (rule open_machine.inv_run [OF run_step.hyps(1) open_init_inv [OF assms(2)]])
  from run_step.hyps(3) show ?case
  proof cases
    case phase
    then show ?thesis by (rule exec_step_history [OF _ u run_step.hyps(3) I run_step.hyps(1,2)])
  next
    case (commit db')
    then show ?thesis using run_step.hyps(2) history_step [of ?R, OF run_step.hyps(3)] by auto
  qed
qed

inductive_cases open_stepE: "open_step sha cfg decrypt s s'"

text \<open>C2. What a provider write rests on. Whenever a step sends a create-issue request, whatever was
  committed meanwhile: real connectors are enabled; the request carries the marker of its execution
  and goes to a repository of the allow-list; the evidence of the proposal is valid in the state in
  which it is sent; the execution was durably recorded as running by an earlier committed state; and
  the proposal and the connection it was made from were rows of an earlier committed state, the
  proposal an approved GitHub create-issue proposal with a valid payload and the connection a
  connected GitHub connection of its workspace. (That they still are, or that the execution still
  runs, is not checked again.)\<close>

theorem provider_write_rests_on:
  assumes "run (open_step sha cfg decrypt) (exec_init db) s" "executions_ok db"
    and "open_step sha cfg decrypt s s'" "xs_calls s' \<noteq> xs_calls s"
  shows "\<exists>cx rq. xs_calls s' = xs_calls s @ [(cx, rq)] \<and> enable_real_connectors cfg
     \<and> pr_repository_full_name rq = gp_repository_full_name (cx_payload cx)
     \<and> normalize_repository_full_name (pr_repository_full_name rq)
         \<in> set (github_write_allowed_repositories (github_write_allowed_repos cfg))
     \<and> pr_body rq = body_with_execution_marker (gp_body (cx_payload cx)) (cx_execution cx)
     \<and> validate_evidence_for_live_execution (ap_workspace_id (cx_proposal cx)) (cx_proposal cx) (xs_db s) = Inr ()
     \<and> (\<exists>s1. run (open_step sha cfg decrypt) (exec_init db) s1 \<and> run (open_step sha cfg decrypt) s1 s \<and>
          (\<exists>x\<in>set (action_executions (xs_db s1)). ex_id x = ex_id (cx_execution cx) \<and> ex_status x = Running))
     \<and> (\<exists>s0. run (open_step sha cfg decrypt) (exec_init db) s0 \<and> run (open_step sha cfg decrypt) s0 s \<and>
          cx_proposal cx \<in> set (action_proposals (xs_db s0)) \<and> cx_connection cx \<in> set (connections (xs_db s0)))
     \<and> ap_status (cx_proposal cx) = Approved \<and> ap_target_provider (cx_proposal cx) = ''github''
     \<and> ap_action_type (cx_proposal cx) = ''create_github_issue''
     \<and> validate_github_issue_payload (ap_payload (cx_proposal cx)) = Inr (cx_payload cx)
     \<and> ic_workspace_id (cx_connection cx) = ap_workspace_id (cx_proposal cx)
     \<and> ic_provider (cx_connection cx) = ''github'' \<and> ic_status (cx_connection cx) = Connected"
proof -
  have I: "open_inv cfg s" by (rule open_machine.inv_run [OF assms(1) open_init_inv [OF assms(2)]])
  have "exec_step sha cfg decrypt s s'" using assms(3,4) by (elim open_stepE) auto
  with assms(4) obtain a cx t b n now rq db' where
    c: "xs_threads s = a @ ThStarted cx t # b" "recheck_and_request sha n now cx t (xs_db s) = (Inr rq, db')"
       "xs_calls s' = xs_calls s @ [(cx, rq)]"
    by (elim exec_stepE) (auto split: sum.splits)
  have "ctx_ok cfg cx" using I c(1) by (auto simp: open_inv_def)
  moreover have "thread_history (open_step sha cfg decrypt) (exec_init db) s (ThStarted cx t)"
    using open_history [OF assms(1,2)] c(1) by simp
  ultimately show ?thesis using recheck_effect [OF c(2)] c(3)
    by (intro exI [of _ cx] exI [of _ rq]) (simp add: ctx_ok_def taken_from_def ran_before_def)
qed

section \<open>Outcomes rest on requests\<close>

text \<open>
  Execute requests interleaved with reconciliations that may have loaded their rows at any earlier
  time. The lists that reconciliation reads are taken to show the marker of an execution only where
  its request was sent, in the run or before it (\<open>sent\<close>): the marker holds the identifier of the
  execution and the hash of its request, and only the request carries it.
\<close>

definition shows_only_sent :: "transport \<Rightarrow> uuid set \<Rightarrow> bool" where
  "shows_only_sent http ids \<longleftrightarrow> (\<forall>tok repo items x. list_issues http tok repo ''all'' 100 10 = Inr items \<longrightarrow>
     issues_matching_execution_marker items x \<noteq> [] \<longrightarrow> ex_id x \<in> ids)"

inductive outcome_step :: "uuid set \<Rightarrow> sha \<Rightarrow> execution_config \<Rightarrow> (string \<Rightarrow> string option) \<Rightarrow> exec_state \<Rightarrow> exec_state \<Rightarrow> bool"
  for sent sha cfg decrypt where
  execute: "exec_step sha cfg decrypt s s' \<Longrightarrow> outcome_step sent sha cfg decrypt s s'"
| reconcile: "sync_github_issue_execution_result sha cfg decrypt http ids now w i actor cid seen (xs_db s) = (r, db') \<Longrightarrow>
    shows_only_sent http (sent \<union> set (called_ids s)) \<Longrightarrow> outcome_step sent sha cfg decrypt s (s\<lparr>xs_db := db'\<rparr>)"

lemma outcome_ids_settled:
  assumes "settled cx st pst db db'"
  shows "outcome_ids db' \<subseteq> outcome_ids db \<union> (if st \<in> {Succeeded, Uncertain} then {ex_id (sc_execution cx)} else {})"
proof -
  obtain f where "action_executions db' = update_where (\<lambda>x. ex_id x = ex_id (sc_execution cx)) f (action_executions db)"
    and "\<And>x. ex_id (f x) = ex_id x \<and> ex_status (f x) = st"
    using assms unfolding settled_def by blast
  then show ?thesis by (auto simp: outcome_ids_def in_update_where)
qed

lemma reconcile_sent:
  assumes "sync_github_issue_execution_result sha cfg decrypt http ids now w i actor cid seen db = (r, db')"
    and "shows_only_sent http S"
  shows "outcome_ids db' \<subseteq> outcome_ids db \<union> S"
proof (cases "sync_read cfg w i actor cid seen")
  case (Inl e)
  then show ?thesis using assms(1) by (simp add: sync_github_issue_execution_result_def)
next
  case (Inr cx)
  then have "sync_apply sha decrypt http ids now cx db = (r, db')"
    using assms(1) by (simp add: sync_github_issue_execution_result_def)
  from sync_apply_effect [OF this sync_read_status(3) [OF Inr]]
  have "same_rows db db' \<or> settled cx Failed Approved db db' \<or>
      (\<exists>tok raw. settled cx Succeeded Executed db db' \<and> listed_matches http tok cx = Some [raw])"
    unfolding reconciled_def by blast
  then show ?thesis
  proof (elim disjE exE conjE)
    assume "same_rows db db'"
    then show ?thesis by (simp add: same_rows_def outcome_ids_def)
  next
    assume "settled cx Failed Approved db db'"
    from outcome_ids_settled [OF this] show ?thesis by auto
  next
    fix tok raw
    assume s: "settled cx Succeeded Executed db db'" and "listed_matches http tok cx = Some [raw]"
    then have "ex_id (sc_execution cx) \<in> S"
      using assms(2) by (auto simp: listed_matches_def shows_only_sent_def split: sum.splits)
    then show ?thesis using outcome_ids_settled [OF s] by auto
  qed
qed

lemma outcome_step_sent:
  assumes "outcome_step sent sha cfg decrypt s s'" "sent_inv (base \<union> sent) s"
  shows "sent_inv (base \<union> sent) s'"
  using assms(1)
proof cases
  case execute
  then show ?thesis using assms(2) by (rule exec_step_sent)
next
  case (reconcile http ids now w i actor cid seen r db')
  from reconcile_sent [OF reconcile(2,3)] show ?thesis
    using assms(2) by (auto simp: reconcile(1) sent_inv_def called_ids_def)
qed

interpretation outcome_machine: invariant_machine "outcome_step sent sha cfg decrypt" "sent_inv (base \<union> sent)"
  for sent sha cfg decrypt base
  by unfold_locales (rule outcome_step_sent)


section \<open>A process that is held up\<close>

text \<open>C39. A process that was held up sends its request although its execution has been given up. In
  any state in which a process holds a started execution and the evidence of its proposal is valid,
  the next step of that process sends the create-issue request and changes no table, also when the
  execution has meanwhile been recorded as failed and a retry under a new key is allowed: between the
  start and the request only the evidence is checked again.\<close>

theorem held_up_request_is_sent:
  assumes "xs_threads s = a @ ThStarted cx t # b"
    and "x \<in> set (action_executions (xs_db s))" "ex_id x = ex_id (cx_execution cx)" "ex_status x = Failed"
    and "validate_evidence_for_live_execution (ap_workspace_id (cx_proposal cx)) (cx_proposal cx) (xs_db s) = Inr ()"
  shows "\<exists>rq. exec_step sha cfg decrypt s (s\<lparr>xs_threads := a @ ThCalled cx # b, xs_calls := xs_calls s @ [(cx, rq)]\<rparr>)
    \<and> pr_body rq = body_with_execution_marker (gp_body (cx_payload cx)) (cx_execution cx)"
proof -
  obtain rq where rq: "recheck_and_request sha n now cx t (xs_db s) = (Inr rq, xs_db s)"
    "pr_body rq = body_with_execution_marker (gp_body (cx_payload cx)) (cx_execution cx)" for n now
    using assms(5) by (simp add: recheck_and_request_def)
  show ?thesis using exec_step.call [OF assms(1) rq(1), of cfg decrypt] rq(2) by auto
qed

section \<open>Runs at concrete tables\<close>

lemma recon_run_open:
  assumes "run (recon_step timely sha cfg decrypt) (recon_init db now) s" "executions_ok db"
  shows "run (open_step sha cfg decrypt) (exec_init db) (rs_exec s)"
  using assms(1)
proof (induction "recon_init db now" s rule: run.induct)
  case run_refl
  then show ?case by (simp add: recon_init_def run.run_refl)
next
  case (run_step s u)
  have "open_inv cfg (rs_exec s)" by (rule open_machine.inv_run [OF run_step.hyps(2) open_init_inv [OF assms(2)]])
  then have "executions_ok (xs_db (rs_exec s))" by (simp add: open_inv_def)
  from recon_step_open [OF run_step.hyps(3) this] show ?case using run_step.hyps(2) run.run_step by metis
qed

lemma example_open_init: "executions_ok example_exec_db"
  by (rule example_exec_state(1))

theorem one_request_per_execution_witness:
  "\<exists>s. run (open_step zero_sha example_cfg Some) (exec_init example_exec_db) s
     \<and> map (\<lambda>c. ap_id (cx_proposal (fst c))) (xs_calls s) = [7, 7]
     \<and> distinct (map (\<lambda>c. ex_id (cx_execution (fst c))) (xs_calls s))"
proof -
  obtain ev where r: "run (late_step False) (recon_init example_exec_db 0)
     (late_state [given_up (11 + SYNC_ABSENCE_GRACE_PERIOD) (started 11 (late_row 100 ''key-0001'' 10)),
          started 21 (late_row 200 ''key-0002'' 20)] ev
        [ThCalled (late_ctx 100 ''key-0001'' 10), ThCalled (late_ctx 200 ''key-0002'' 20)]
        [(late_ctx 200 ''key-0002'' 20, late_request 200 ''key-0002'' 20), (late_ctx 100 ''key-0001'' 10, late_request 100 ''key-0001'' 10)]
        [(late_ctx 200 ''key-0002'' 20, late_request 200 ''key-0002'' 20), (late_ctx 100 ''key-0001'' 10, late_request 100 ''key-0001'' 10)]
        (11 + SYNC_ABSENCE_GRACE_PERIOD))" (is "run _ _ ?s")
    using late_two_issues by blast
  note run = recon_run_open [OF r example_open_init]
  have "distinct (map (\<lambda>c. ex_id (cx_execution (fst c))) (xs_calls (rs_exec ?s)))"
    by (rule conjunct1 [OF one_request_per_execution [OF run example_open_init]])
  moreover have "map (\<lambda>c. ap_id (cx_proposal (fst c))) (xs_calls (rs_exec ?s)) = [7, 7]"
    by (simp add: late_state_def example_approved_def example_proposal_def)
  ultimately show ?thesis using run by (intro exI [of _ "rs_exec ?s"] conjI)
qed

lemma late_call_open:
  "open_step zero_sha example_cfg Some
    (rs_exec (late_state rows ev [ThStarted (late_ctx i key t) ''enc''] calls created u))
    (rs_exec (late_state rows ev [ThCalled (late_ctx i key t)] (calls @ [(late_ctx i key t, late_request i key t)]) created u))"
proof -
  have "exec_step zero_sha example_cfg Some
    (rs_exec (late_state rows ev [ThStarted (late_ctx i key t) ''enc''] calls created u))
    (rs_exec (late_state rows ev [ThCalled (late_ctx i key t)] (calls @ [(late_ctx i key t, late_request i key t)]) created u))"
    using exec_step.call [of "rs_exec (late_state rows ev [ThStarted (late_ctx i key t) ''enc''] calls created u)" "[]"
        "late_ctx i key t" "''enc''" "[]" zero_sha 301 0 "Inr (late_request i key t)" "exdb rows ev" example_cfg Some]
      late_call [of 301 0 i key t rows ev] by (simp add: late_state_def late_request_def)
  then show ?thesis by (rule open_step.phase)
qed

theorem provider_write_rests_on_witness:
  "\<exists>s s'. run (open_step zero_sha example_cfg Some) (exec_init example_exec_db) s
     \<and> open_step zero_sha example_cfg Some s s' \<and> length (xs_calls s') = 1
     \<and> (\<exists>cx :: exec_ctx. ap_status (cx_proposal cx) = Approved \<and> enable_real_connectors example_cfg)"
proof -
  obtain ev where r: "run (late_step False) (recon_init example_exec_db 0)
     (late_state [started 11 (late_row 100 ''key-0001'' 10)] ev [ThStarted (late_ctx 100 ''key-0001'' 10) ''enc''] [] [] 0)"
     (is "run _ _ ?s") using late_started by blast
  let ?s' = "late_state [started 11 (late_row 100 ''key-0001'' 10)] ev [ThCalled (late_ctx 100 ''key-0001'' 10)]
    ([] @ [(late_ctx 100 ''key-0001'' 10, late_request 100 ''key-0001'' 10)]) [] 0"
  note run = recon_run_open [OF r example_open_init]
  have step: "open_step zero_sha example_cfg Some (rs_exec ?s) (rs_exec ?s')" by (rule late_call_open)
  have "xs_calls (rs_exec ?s') \<noteq> xs_calls (rs_exec ?s)" by (simp add: late_state_def)
  from provider_write_rests_on [OF run example_open_init step this]
  have "\<exists>cx :: exec_ctx. ap_status (cx_proposal cx) = Approved \<and> enable_real_connectors example_cfg"
    by (elim exE conjE) (rule exI, rule conjI, assumption+)
  moreover have "length (xs_calls (rs_exec ?s')) = 1" by (simp add: late_state_def)
  ultimately show ?thesis using run step by blast
qed

lemma outcome_run: "run (exec_step sha cfg decrypt) a s \<Longrightarrow> run (outcome_step sent sha cfg decrypt) a s"
  by (induction rule: run.induct) (auto intro: run.intros outcome_step.execute)


theorem held_up_request_is_sent_witness:
  "\<exists>s s'. run (open_step zero_sha example_cfg Some) (exec_init example_exec_db) s
     \<and> (\<forall>x\<in>set (action_executions (xs_db s)). ex_status x = Failed)
     \<and> exec_step zero_sha example_cfg Some s s' \<and> length (xs_calls s') = length (xs_calls s) + 1"
proof -
  let ?up = "given_up (11 + SYNC_ABSENCE_GRACE_PERIOD) (started 11 (late_row 100 ''key-0001'' 10))"
  obtain ev where r: "run (late_step False) (recon_init example_exec_db 0)
     (late_state [?up] ev [ThStarted (late_ctx 100 ''key-0001'' 10) ''enc''] [] [] (11 + SYNC_ABSENCE_GRACE_PERIOD))"
     (is "run _ _ ?s") using late_given_up by blast
  note run = recon_run_open [OF r example_open_init]
  have th: "xs_threads (rs_exec ?s) = [] @ ThStarted (late_ctx 100 ''key-0001'' 10) ''enc'' # []" by (simp add: late_state_def)
  have x: "?up \<in> set (action_executions (xs_db (rs_exec ?s)))" "ex_id ?up = ex_id (cx_execution (late_ctx 100 ''key-0001'' 10))"
    by (simp_all add: late_state_def)
  have "ap_workspace_id example_approved = 2" by (simp add: example_approved_def example_proposal_def)
  then have v: "validate_evidence_for_live_execution (ap_workspace_id (cx_proposal (late_ctx 100 ''key-0001'' 10)))
      (cx_proposal (late_ctx 100 ''key-0001'' 10)) (xs_db (rs_exec ?s)) = Inr ()"
    using exdb_evidence by (simp add: late_state_def)
  obtain rq where "exec_step zero_sha example_cfg Some (rs_exec ?s) ((rs_exec ?s)\<lparr>xs_threads := [] @ ThCalled (late_ctx 100 ''key-0001'' 10) # [],
      xs_calls := xs_calls (rs_exec ?s) @ [(late_ctx 100 ''key-0001'' 10, rq)]\<rparr>)" (is "exec_step _ _ _ _ ?s'")
    using held_up_request_is_sent [OF th x _ v, of zero_sha example_cfg Some] by auto
  moreover have "length (xs_calls ?s') = length (xs_calls (rs_exec ?s)) + 1" by simp
  moreover have "\<forall>x\<in>set (action_executions (xs_db (rs_exec ?s))). ex_status x = Failed" by (simp add: late_state_def)
  ultimately show ?thesis using run by blast
qed

end
