(* ===== verification/GitHub_App.thy ===== *)
theory GitHub_App
  imports Provider_Client Issue_Execution
begin

text \<open>
  The GitHub App of a workspace: its encrypted credential
  (\<^verbatim>\<open>app/services/github_app_credential_service.py\<close>), its installation row
  (\<^verbatim>\<open>app/db/integration_models.py\<close>), the installation token
  (\<^verbatim>\<open>github_app_token_service.py\<close>) and the guard of \<^verbatim>\<open>real_connector_guard.py\<close>. The encryption
  library and the RSA signature are arguments.
\<close>

section \<open>Rows\<close>

datatype credential_status = CredentialActive | CredentialError | CredentialRevoked
datatype installation_status = InstallationActive | InstallationSuspended | InstallationRevoked

record github_app_credential =
  gc_id :: uuid
  gc_workspace_id :: uuid
  gc_app_id :: string
  gc_app_slug :: string
  gc_app_name :: string
  gc_client_id :: string
  gc_encrypted_private_key :: string
  gc_encrypted_client_secret :: string
  gc_encrypted_webhook_secret :: "string option"
  gc_owner_login :: "string option"
  gc_owner_id :: "string option"
  gc_owner_type :: "string option"
  gc_permissions :: "(string \<times> string) list"
  gc_html_url :: "string option"
  gc_callback_url :: string
  gc_source :: string
  gc_status :: credential_status
  gc_created_by_user_id :: "uuid option"
  gc_last_verified_at :: "time option"
  gc_last_error :: "string option"
  gc_created_at :: time
  gc_updated_at :: time

record github_app_installation =
  gi_id :: uuid
  gi_workspace_id :: uuid
  gi_credential_id :: uuid
  gi_connection_id :: uuid
  gi_installation_id :: string
  gi_account_login :: string
  gi_account_id :: "string option"
  gi_account_type :: "string option"
  gi_repository_selection :: string
  gi_permissions :: "(string \<times> string) list"
  gi_installation_settings_url :: "string option"
  gi_verified_by_user_id :: "uuid option"
  gi_verified_at :: time
  gi_repository_count :: int
  gi_status :: installation_status

record app_db = action_db +
  app_credentials :: "github_app_credential list"
  app_installations :: "github_app_installation list"

section \<open>Secrets in and out\<close>

text \<open>\<open>None\<close> where the encryption library raises \<^verbatim>\<open>SecretEncryptionError\<close>.\<close>

record secret_box =
  sb_encrypt :: "string \<Rightarrow> string option"
  sb_decrypt :: "string \<Rightarrow> string option"

datatype credential_error = CredentialServiceError string | SecretEncryptionError | CredentialIntegrityError

definition encrypt_secret :: "secret_box \<Rightarrow> string \<Rightarrow> (credential_error, string) result" where
  "encrypt_secret box v = require_some (sb_encrypt box v) SecretEncryptionError"

definition decrypt_secret :: "secret_box \<Rightarrow> string \<Rightarrow> (credential_error, string) result" where
  "decrypt_secret box v = require_some (sb_decrypt box v) SecretEncryptionError"

record signing_credential =
  sg_app_id :: string
  sg_private_key_pem :: string

record oauth_credential =
  oc_app_id :: string
  oc_app_slug :: string
  oc_client_id :: string
  oc_client_secret :: string
  oc_private_key_pem :: string
  oc_callback_url :: string

definition verify_github_app_secret_storage_ready :: "secret_box \<Rightarrow> (credential_error, unit) result" where
  "verify_github_app_secret_storage_ready box =
     (let probe = ''github-app-setup-preflight'' in
      bindE (encrypt_secret box probe) (\<lambda>encrypted. bindE (decrypt_secret box encrypted) (\<lambda>plain.
      require (plain = probe) (CredentialServiceError ''github_app_secret_storage_unavailable''))))"

definition get_active_github_app_credential :: "uuid \<Rightarrow> 'z app_db_scheme \<Rightarrow> github_app_credential option" where
  "get_active_github_app_credential workspace_id db =
     find (\<lambda>c. gc_workspace_id c = workspace_id \<and> gc_status c = CredentialActive) (app_credentials db)"

definition get_github_app_signing_credential ::
  "secret_box \<Rightarrow> uuid \<Rightarrow> 'z app_db_scheme \<Rightarrow> (credential_error, signing_credential option) result" where
  "get_github_app_signing_credential box workspace_id db =
     (case get_active_github_app_credential workspace_id db of None \<Rightarrow> Inr None
      | Some c \<Rightarrow> bindE (decrypt_secret box (gc_encrypted_private_key c)) (\<lambda>pem.
          Inr (Some \<lparr> sg_app_id = gc_app_id c, sg_private_key_pem = pem \<rparr>)))"

definition get_github_app_oauth_credential ::
  "secret_box \<Rightarrow> uuid \<Rightarrow> 'z app_db_scheme \<Rightarrow> (credential_error, oauth_credential option) result" where
  "get_github_app_oauth_credential box workspace_id db =
     (case get_active_github_app_credential workspace_id db of None \<Rightarrow> Inr None
      | Some c \<Rightarrow> bindE (decrypt_secret box (gc_encrypted_client_secret c)) (\<lambda>client_secret.
          bindE (decrypt_secret box (gc_encrypted_private_key c)) (\<lambda>pem.
          Inr (Some \<lparr> oc_app_id = gc_app_id c, oc_app_slug = gc_app_slug c, oc_client_id = gc_client_id c,
            oc_client_secret = client_secret, oc_private_key_pem = pem, oc_callback_url = gc_callback_url c \<rparr>))))"

section \<open>Fields of a manifest\<close>

definition credential_required_text :: "nat \<Rightarrow> string \<Rightarrow> (credential_error, string) result" where
  "credential_required_text max_length value = (let normalized = strip value in
     bindE (require (normalized \<noteq> [] \<and> length normalized \<le> max_length)
       (CredentialServiceError ''github_app_credential_invalid'')) (\<lambda>_. Inr normalized))"

definition credential_required_url :: "string \<Rightarrow> (credential_error, string) result" where
  "credential_required_url value = (case optional_text_limit 1000 (Some value) of
     Some normalized \<Rightarrow> if is_prefix ''http://'' normalized \<or> is_prefix ''https://'' normalized
       then Inr normalized else Inl (CredentialServiceError ''github_app_callback_url_invalid'')
   | None \<Rightarrow> Inl (CredentialServiceError ''github_app_callback_url_invalid''))"

text \<open>The full match of the slug's regular expression.\<close>

definition github_app_slug_matches :: "string \<Rightarrow> bool" where
  "github_app_slug_matches s =
     (let ascii_alnum = (\<lambda>c. is_ascii_letter c \<or> is_digit c) in
      s \<noteq> [] \<and> length s \<le> 120 \<and> ascii_alnum (hd s) \<and> ascii_alnum (List.last s)
      \<and> (\<forall>c\<in>set s. ascii_alnum c \<or> c = CHR ''-''))"

definition safe_github_url :: "string option \<Rightarrow> string option \<Rightarrow> string option" where
  "safe_github_url url expected_slug =
     (case url of None \<Rightarrow> None
      | Some value \<Rightarrow>
         if value = [] \<or> length value > 1000 \<or> CHR ''?'' \<in> set value \<or> CHR ''#'' \<in> set value
           \<or> char_of (92 :: nat) \<in> set value
           \<or> (\<exists>c\<in>set value. is_space c \<or> (of_char c :: nat) < 32 \<or> (of_char c :: nat) = 127) then None
         else (case urlsplit_port value of None \<Rightarrow> None
           | Some (scheme, netloc) \<Rightarrow>
              (let path = drop (2 + length netloc) (snd (split_scheme value)); parts = split_char CHR ''/'' path in
               if scheme = ''https'' \<and> netloc = ''github.com'' \<and> length parts = 3 \<and> take 2 parts = [[], ''apps'']
                 \<and> github_app_slug_matches (parts ! 2)
                 \<and> (case expected_slug of None \<Rightarrow> True
                    | Some e \<Rightarrow> github_app_slug_matches e \<and> casefold (parts ! 2) = casefold e)
               then Some value else None)))"

definition safe_permissions :: "pydict \<Rightarrow> (string \<times> string) list" where
  "safe_permissions value = foldl (\<lambda>acc (k, v). case v of
     PStr raw \<Rightarrow> AList.update (take 100 k) (take 20 raw) acc | _ \<Rightarrow> acc) [] value"

section \<open>Storing a credential\<close>

record manifest_input =
  mi_app_id :: string
  mi_app_slug :: string
  mi_app_name :: string
  mi_client_id :: string
  mi_private_key_pem :: string
  mi_client_secret :: string
  mi_webhook_secret :: "string option"
  mi_callback_url :: string
  mi_owner_login :: "string option"
  mi_owner_id :: "string option"
  mi_owner_type :: "string option"
  mi_permissions :: "pydict option"
  mi_html_url :: "string option"

text \<open>The columns the manifest sets, on the workspace's row or on a new one.\<close>

definition credential_of_manifest ::
  "secret_box \<Rightarrow> time \<Rightarrow> uuid \<Rightarrow> manifest_input \<Rightarrow> github_app_credential \<Rightarrow> (credential_error, github_app_credential) result" where
  "credential_of_manifest box now created_by_user_id p c =
     bindE (credential_required_text 100 (mi_app_id p)) (\<lambda>app_id.
     bindE (credential_required_text 120 (mi_app_slug p)) (\<lambda>app_slug.
     bindE (credential_required_text 255 (mi_app_name p)) (\<lambda>app_name.
     bindE (credential_required_text 255 (mi_client_id p)) (\<lambda>client_id.
     bindE (encrypt_secret box (mi_private_key_pem p)) (\<lambda>encrypted_private_key.
     bindE (encrypt_secret box (mi_client_secret p)) (\<lambda>encrypted_client_secret.
     bindE (case mi_webhook_secret p of None \<Rightarrow> Inr None
        | Some w \<Rightarrow> if w = [] then Inr None else bindE (encrypt_secret box w) (\<lambda>e. Inr (Some e))) (\<lambda>encrypted_webhook_secret.
     bindE (credential_required_url (mi_callback_url p)) (\<lambda>callback_url.
     Inr (c\<lparr>gc_app_id := app_id, gc_app_slug := app_slug, gc_app_name := app_name, gc_client_id := client_id,
       gc_encrypted_private_key := encrypted_private_key, gc_encrypted_client_secret := encrypted_client_secret,
       gc_encrypted_webhook_secret := encrypted_webhook_secret,
       gc_owner_login := optional_text_limit 255 (mi_owner_login p), gc_owner_id := optional_text_limit 100 (mi_owner_id p),
       gc_owner_type := optional_text_limit 40 (mi_owner_type p),
       gc_permissions := safe_permissions (case mi_permissions p of None \<Rightarrow> [] | Some d \<Rightarrow> d),
       gc_html_url := safe_github_url (mi_html_url p) (Some app_slug), gc_callback_url := callback_url,
       gc_source := ''manifest'', gc_status := CredentialActive, gc_created_by_user_id := Some created_by_user_id,
       gc_last_verified_at := Some now, gc_last_error := None, gc_updated_at := now\<rparr>)))))))))"

definition blank_credential :: "uuid \<Rightarrow> time \<Rightarrow> uuid \<Rightarrow> github_app_credential" where
  "blank_credential new_id now workspace_id = \<lparr> gc_id = new_id, gc_workspace_id = workspace_id, gc_app_id = [],
     gc_app_slug = [], gc_app_name = [], gc_client_id = [], gc_encrypted_private_key = [],
     gc_encrypted_client_secret = [], gc_encrypted_webhook_secret = None, gc_owner_login = None, gc_owner_id = None,
     gc_owner_type = None, gc_permissions = [], gc_html_url = None, gc_callback_url = [], gc_source = ''manifest'',
     gc_status = CredentialActive, gc_created_by_user_id = None, gc_last_verified_at = None, gc_last_error = None,
     gc_created_at = now, gc_updated_at = now \<rparr>"

definition store_manifest_github_app_credential ::
  "secret_box \<Rightarrow> uuid \<Rightarrow> time \<Rightarrow> uuid \<Rightarrow> uuid \<Rightarrow> manifest_input \<Rightarrow> 'z app_db_scheme \<Rightarrow>
     (credential_error, github_app_credential \<times> 'z app_db_scheme) result" where
  "store_manifest_github_app_credential box new_id now workspace_id created_by_user_id p db =
     bindE (require (find (\<lambda>c. gc_app_id c = mi_app_id p \<and> gc_workspace_id c \<noteq> workspace_id) (app_credentials db) = None)
       (CredentialServiceError ''github_app_already_bound'')) (\<lambda>_.
     (let row = find (\<lambda>c. gc_workspace_id c = workspace_id) (app_credentials db) in
      bindE (credential_of_manifest box now created_by_user_id p
        (case row of None \<Rightarrow> blank_credential new_id now workspace_id | Some c \<Rightarrow> c)) (\<lambda>c.
      bindE (require (\<forall>r\<in>set (app_credentials db). gc_id r \<noteq> gc_id c \<longrightarrow> gc_app_id r \<noteq> gc_app_id c)
        CredentialIntegrityError) (\<lambda>_.
      Inr (c, db\<lparr>app_credentials := (case row of None \<Rightarrow> app_credentials db @ [c]
        | Some r \<Rightarrow> update_where (\<lambda>x. gc_id x = gc_id r) (\<lambda>_. c) (app_credentials db))\<rparr>)))))"

definition redact_github_app_credential :: "github_app_credential option \<Rightarrow> pydict" where
  "redact_github_app_credential credential = (case credential of
     None \<Rightarrow> [(''configured'', PBool False), (''credential_source'', PStr ''none''), (''app_id_configured'', PBool False),
       (''app_slug'', PNone), (''app_name'', PNone), (''private_key_configured'', PBool False),
       (''webhook_secret_configured'', PBool False), (''callback_url'', PNone)]
   | Some c \<Rightarrow> [(''configured'', PBool (gc_status c = CredentialActive)), (''credential_source'', PStr ''managed''),
       (''app_id_configured'', PBool True), (''app_slug'', PStr (gc_app_slug c)), (''app_name'', PStr (gc_app_name c)),
       (''private_key_configured'', PBool (gc_encrypted_private_key c \<noteq> [])),
       (''webhook_secret_configured'', PBool (case gc_encrypted_webhook_secret c of None \<Rightarrow> False | Some w \<Rightarrow> w \<noteq> [])),
       (''callback_url'', PStr (gc_callback_url c))])"

section \<open>The installation token\<close>

datatype token_error = TokenError string | TokenJsonError

definition GITHUB_API_VERSION :: string where "GITHUB_API_VERSION = ''2022-11-28''"
definition GITHUB_APP_JWT_LIFETIME_SECONDS :: int where "GITHUB_APP_JWT_LIFETIME_SECONDS = 540"
definition GITHUB_APP_JWT_BACKDATE_SECONDS :: int where "GITHUB_APP_JWT_BACKDATE_SECONDS = 60"

record installation_access_token =
  it_token :: string
  it_expires_at :: "string option"

definition base64_char :: "nat \<Rightarrow> char" where
  "base64_char n = char_of (if n < 26 then 65 + n else if n < 52 then 71 + n else if n < 62 then n - 4
     else if n = 62 then 45 else 95 :: nat)"

text \<open>\<^verbatim>\<open>urlsafe_b64encode(value).rstrip(b"=")\<close>.\<close>

fun base64url_bytes :: "string \<Rightarrow> string" where
  "base64url_bytes (a # b # c # rest) =
     (let n = of_char a * 65536 + of_char b * 256 + (of_char c :: nat) in
      map base64_char [n div 262144, n div 4096 mod 64, n div 64 mod 64, n mod 64] @ base64url_bytes rest)"
| "base64url_bytes [a, b] = (let n = of_char a * 256 + (of_char b :: nat) in
     map base64_char [n div 1024, n div 16 mod 64, n mod 16 * 4])"
| "base64url_bytes [a] = (let n = (of_char a :: nat) in map base64_char [n div 4, n mod 4 * 16])"
| "base64url_bytes [] = []"

definition base64url_json :: "pydict \<Rightarrow> string" where
  "base64url_json value = base64url_bytes (utf8 (case dumps request_json_opts (PDict value) of Some s \<Rightarrow> s | None \<Rightarrow> []))"

text \<open>\<^verbatim>\<open>int(\<dots>.timestamp())\<close> cuts towards zero.\<close>

definition unix_seconds :: "time \<Rightarrow> int" where
  "unix_seconds t = (if t \<ge> 0 then t div 1000000 else - ((- t) div 1000000))"

definition safe_app_id :: "string \<Rightarrow> (token_error, string) result" where
  "safe_app_id value = (case optional_text_limit 100 (Some value) of Some t \<Rightarrow> Inr t
     | None \<Rightarrow> Inl (TokenError ''github app signing credential is unavailable''))"

definition safe_installation_id :: "string \<Rightarrow> (token_error, string) result" where
  "safe_installation_id value = (case optional_text_limit 100 (Some value) of Some t \<Rightarrow> Inr t
     | None \<Rightarrow> Inl (TokenError ''github app installation_id is required''))"

text \<open>\<open>sign pem input\<close> is the RS256 signature, or \<open>None\<close> where the key is not read.\<close>

definition build_github_app_jwt ::
  "(string \<Rightarrow> string \<Rightarrow> string option) \<Rightarrow> time \<Rightarrow> signing_credential \<Rightarrow> (token_error, string) result" where
  "build_github_app_jwt sign now credential =
     bindE (safe_app_id (sg_app_id credential)) (\<lambda>app_id.
     (let pem = strip (sg_private_key_pem credential);
          issued_at = unix_seconds (now - seconds GITHUB_APP_JWT_BACKDATE_SECONDS);
          expires_at = issued_at + GITHUB_APP_JWT_LIFETIME_SECONDS;
          signing_input = base64url_json [(''alg'', PStr ''RS256''), (''typ'', PStr ''JWT'')] @ ''.''
            @ base64url_json [(''iat'', PInt issued_at), (''exp'', PInt expires_at), (''iss'', PStr app_id)] in
      bindE (require (pem \<noteq> []) (TokenError ''github app signing credential is unavailable'')) (\<lambda>_.
      bindE (require_some (sign pem signing_input) (TokenError ''github app private key is invalid'')) (\<lambda>signature.
      Inr (signing_input @ ''.'' @ base64url_bytes signature)))))"

definition token_response_detail :: "http_response \<Rightarrow> string" where
  "token_response_detail r = (case rs_json r of
     Some (PDict d) \<Rightarrow> (case py_get d ''message'' of
         PStr m \<Rightarrow> if strip m \<noteq> [] then ''github app token request failed: '' @ take 300 (strip m)
           else ''github app token request failed: http_'' @ show_int (rs_status r)
       | _ \<Rightarrow> ''github app token request failed: http_'' @ show_int (rs_status r))
   | _ \<Rightarrow> ''github app token request failed: http_'' @ show_int (rs_status r))"

definition token_request :: "string \<Rightarrow> string \<Rightarrow> http_request" where
  "token_request installation_id app_jwt = \<lparr> rq_method = ''POST'',
     rq_url = GITHUB_API_BASE_URL @ ''/app/installations/'' @ installation_id @ ''/access_tokens'',
     rq_headers = [(''Authorization'', ''Bearer '' @ app_jwt), (''Accept'', ''application/vnd.github+json''),
       (''X-GitHub-Api-Version'', GITHUB_API_VERSION), (''User-Agent'', ''founderOS'')],
     rq_params = [], rq_json = None, rq_form = [], rq_auth = None \<rparr>"

definition token_of_response :: "http_response \<Rightarrow> (token_error, installation_access_token) result" where
  "token_of_response r =
     bindE (require (ok_status r) (TokenError (token_response_detail r))) (\<lambda>_.
     bindE (require_some (rs_json r) TokenJsonError) (\<lambda>data.
     bindE (require_some (as_dict data) (TokenError ''github app token response was not an object'')) (\<lambda>d.
     (case py_get d ''token'' of
        PStr token \<Rightarrow> if strip token = [] then Inl (TokenError ''github app token response did not include a token'')
          else Inr \<lparr> it_token = strip token, it_expires_at = (case py_get d ''expires_at'' of
              PStr e \<Rightarrow> Some (take 100 (strip e)) | _ \<Rightarrow> None) \<rparr>
      | _ \<Rightarrow> Inl (TokenError ''github app token response did not include a token'')))))"

definition mint_installation_access_token ::
  "transport \<Rightarrow> (string \<Rightarrow> string \<Rightarrow> string option) \<Rightarrow> time \<Rightarrow> string \<Rightarrow> signing_credential \<Rightarrow>
     (token_error, installation_access_token) result" where
  "mint_installation_access_token http sign now installation_id credential =
     bindE (safe_installation_id installation_id) (\<lambda>iid.
     bindE (build_github_app_jwt sign now credential) (\<lambda>app_jwt.
     bindE (require_some (http (token_request iid app_jwt)) (TokenError ''github app token request failed'')) token_of_response))"

section \<open>The guard\<close>

definition REAL_CONNECTORS_DISABLED_DETAIL :: string where
  "REAL_CONNECTORS_DISABLED_DETAIL = ''real provider connectors are disabled''"

end
