(* ===== verification/Sync_Jobs.thy ===== *)
theory Sync_Jobs
  imports Action_Tables
begin

text \<open>
  The records of synchronisation jobs, \<^verbatim>\<open>app/services/github_sync_job_service.py\<close>: creation by
  hand, reading, cancellation and the form in which a job is answered.
\<close>

datatype sync_job_error = GitHubSyncJobError string

definition GITHUB_SYNC_JOB_NO_EXECUTION_WARNING :: string where
  "GITHUB_SYNC_JOB_NO_EXECUTION_WARNING =
     ''SyncJob record was created, but no GitHub sync execution was started in this step.''"
definition GITHUB_SYNC_JOB_CONNECTION_NOT_FOUND :: string where
  "GITHUB_SYNC_JOB_CONNECTION_NOT_FOUND = ''github connection not found''"
definition GITHUB_SYNC_JOB_CONNECTION_NOT_CONNECTED :: string where
  "GITHUB_SYNC_JOB_CONNECTION_NOT_CONNECTED = ''github connection must be connected''"
definition GITHUB_SYNC_JOB_NOT_FOUND :: string where "GITHUB_SYNC_JOB_NOT_FOUND = ''github sync job not found''"
definition GITHUB_SYNC_JOB_ALREADY_FINISHED :: string where
  "GITHUB_SYNC_JOB_ALREADY_FINISHED = ''github sync job is already finished''"

record manual_sync_input =
  ms_cursor_before :: "pydict option"
  ms_notes :: "string option"
  ms_requested_by :: string

section \<open>Reading\<close>

definition live_sync_request :: "pydict option \<Rightarrow> pydict option" where
  "live_sync_request value = (case value of None \<Rightarrow> None
     | Some d \<Rightarrow> as_dict (py_get d ''github_app_live_sync''))"

definition job_progress :: "pydict option \<Rightarrow> pydict option" where
  "job_progress value = (case value of None \<Rightarrow> None
     | Some d \<Rightarrow> as_dict (py_get d ''github_app_live_sync_progress''))"

definition serialize_logs :: "pyval list option \<Rightarrow> pyval" where
  "serialize_logs value = (case value of None \<Rightarrow> PNone | Some xs \<Rightarrow> PDict [(''events'', PList xs)])"

definition serialize_github_sync_job :: "sync_job \<Rightarrow> pydict" where
  "serialize_github_sync_job j =
     (let request = live_sync_request (sj_cursor_before j); execution_started = sj_attempt_count j > 0 in
      [(''id'', PUuid (sj_id j)), (''workspace_id'', PUuid (sj_workspace_id j)),
       (''connection_id'', PUuid (sj_connection_id j)), (''provider'', PStr (sj_provider j)),
       (''status'', PStr (sync_status_text (sj_status j))), (''sync_type'', PStr (sj_sync_type j)),
       (''started_at'', opt_val PTime (sj_started_at j)), (''finished_at'', opt_val PTime (sj_finished_at j)),
       (''cursor_before'', opt_val PDict (sj_cursor_before j)), (''cursor_after'', opt_val PDict (sj_cursor_after j)),
       (''records_seen'', PInt (sj_records_seen j)), (''records_created'', PInt (sj_records_created j)),
       (''records_updated'', PInt (sj_records_updated j)), (''error_message'', opt_val PStr (sj_error_message j)),
       (''logs'', serialize_logs (sj_logs j)), (''attempt_count'', PInt (sj_attempt_count j)),
       (''max_attempts'', PInt (sj_max_attempts j)), (''next_attempt_at'', PTime (sj_next_attempt_at j)),
       (''cancel_requested_at'', opt_val PTime (sj_cancel_requested_at j)),
       (''progress'', opt_val PDict (job_progress (sj_cursor_after j))),
       (''created_at'', PTime (sj_created_at j)), (''updated_at'', PTime (sj_updated_at j)),
       (''is_live'', PBool (request \<noteq> None \<and> execution_started)),
       (''execution_started'', PBool execution_started),
       (''warnings'', PList (if request \<noteq> None then [] else [PStr GITHUB_SYNC_JOB_NO_EXECUTION_WARNING]))])"

definition find_github_sync_job :: "uuid \<Rightarrow> uuid \<Rightarrow> 'z action_db_scheme \<Rightarrow> sync_job option" where
  "find_github_sync_job workspace_id sync_job_id db =
     find (\<lambda>j. sj_workspace_id j = workspace_id \<and> sj_provider j = ''github'' \<and> sj_id j = sync_job_id) (sync_jobs db)"

definition get_github_sync_job :: "uuid \<Rightarrow> uuid \<Rightarrow> 'z action_db_scheme \<Rightarrow> pydict option" where
  "get_github_sync_job workspace_id sync_job_id db =
     map_option serialize_github_sync_job (find_github_sync_job workspace_id sync_job_id db)"

definition list_github_sync_jobs :: "uuid \<Rightarrow> 'z action_db_scheme \<Rightarrow> pydict list" where
  "list_github_sync_jobs workspace_id db = map serialize_github_sync_job
     (rev (sort_key (\<lambda>j. (sj_created_at j, sj_id j))
        (filter (\<lambda>j. sj_workspace_id j = workspace_id \<and> sj_provider j = ''github'') (sync_jobs db))))"

section \<open>Writing\<close>

definition get_connected_github_connection ::
  "uuid \<Rightarrow> uuid \<Rightarrow> 'z action_db_scheme \<Rightarrow> (sync_job_error, integration_connection) result" where
  "get_connected_github_connection workspace_id connection_id db =
     bindE (require_some (find (\<lambda>c. ic_workspace_id c = workspace_id \<and> ic_provider c = ''github''
         \<and> ic_id c = connection_id) (connections db)) (GitHubSyncJobError GITHUB_SYNC_JOB_CONNECTION_NOT_FOUND)) (\<lambda>c.
     bindE (require (ic_status c = Connected) (GitHubSyncJobError GITHUB_SYNC_JOB_CONNECTION_NOT_CONNECTED)) (\<lambda>_.
     Inr c))"

definition queued_job :: "uuid \<Rightarrow> time \<Rightarrow> uuid \<Rightarrow> uuid \<Rightarrow> pydict option \<Rightarrow> sync_job" where
  "queued_job new_id now workspace_id connection_id cursor_before =
     \<lparr> sj_id = new_id, sj_workspace_id = workspace_id, sj_connection_id = connection_id, sj_provider = ''github'',
       sj_status = Queued, sj_sync_type = ''manual'', sj_started_at = None, sj_finished_at = None,
       sj_cursor_before = cursor_before, sj_cursor_after = None, sj_records_seen = 0, sj_records_created = 0,
       sj_records_updated = 0, sj_error_message = None, sj_logs = None, sj_attempt_count = 0, sj_max_attempts = 3,
       sj_next_attempt_at = now, sj_lease_owner = None, sj_lease_expires_at = None, sj_cancel_requested_at = None,
       sj_created_at = now, sj_updated_at = now \<rparr>"

definition create_manual_github_sync_job ::
  "uuid \<Rightarrow> time \<Rightarrow> uuid \<Rightarrow> uuid \<Rightarrow> manual_sync_input \<Rightarrow> 'z action_db_scheme \<Rightarrow>
     (sync_job_error, pydict \<times> 'z action_db_scheme) result" where
  "create_manual_github_sync_job new_id now workspace_id connection_id inp db =
     bindE (get_connected_github_connection workspace_id connection_id db) (\<lambda>c.
     (let entry = [(''requested_by'', PStr (ms_requested_by inp)), (''execution_started'', PBool False),
            (''note'', PStr ''manual sync job record only'')]
            @ (case ms_notes inp of None \<Rightarrow> [] | Some n \<Rightarrow> if n = [] then [] else [(''notes'', PStr n)]);
          j = (queued_job new_id now workspace_id (ic_id c) (ms_cursor_before inp))\<lparr>sj_logs := Some [PDict entry]\<rparr> in
      Inr (serialize_github_sync_job j, db\<lparr>sync_jobs := sync_jobs db @ [j]\<rparr>)))"

definition FINISHED_STATUSES :: "sync_status list" where
  "FINISHED_STATUSES = [SyncSucceeded, SyncFailed, Partial, Cancelled]"

definition log_more :: "pyval list option \<Rightarrow> pydict \<Rightarrow> pyval list option" where
  "log_more logs entry = Some ((case logs of None \<Rightarrow> [] | Some xs \<Rightarrow> xs) @ [PDict entry])"

definition cancelled_by_request :: "string \<Rightarrow> time \<Rightarrow> sync_job \<Rightarrow> sync_job" where
  "cancelled_by_request requested_by now j = j\<lparr>sj_cancel_requested_at := Some now,
     sj_logs := log_more (sj_logs j) [(''event'', PStr ''cancellation_requested''), (''requested_by'', PStr requested_by),
       (''at'', PStr (isoformat ''T'' now))],
     sj_status := Cancelled, sj_finished_at := Some now, sj_lease_owner := None, sj_lease_expires_at := None,
     sj_error_message := None, sj_updated_at := now\<rparr>"

definition put_job :: "sync_job \<Rightarrow> 'z action_db_scheme \<Rightarrow> 'z action_db_scheme" where
  "put_job j db = db\<lparr>sync_jobs := update_where (\<lambda>r. sj_id r = sj_id j) (\<lambda>_. j) (sync_jobs db)\<rparr>"

definition request_github_sync_job_cancellation ::
  "uuid \<Rightarrow> uuid \<Rightarrow> string \<Rightarrow> time \<Rightarrow> 'z action_db_scheme \<Rightarrow> (sync_job_error, pydict \<times> 'z action_db_scheme) result" where
  "request_github_sync_job_cancellation workspace_id sync_job_id requested_by now db =
     bindE (require_some (find_github_sync_job workspace_id sync_job_id db) (GitHubSyncJobError GITHUB_SYNC_JOB_NOT_FOUND)) (\<lambda>j.
     bindE (require (sj_status j \<notin> set FINISHED_STATUSES) (GitHubSyncJobError GITHUB_SYNC_JOB_ALREADY_FINISHED)) (\<lambda>_.
     (let j' = cancelled_by_request requested_by now j in Inr (serialize_github_sync_job j', put_job j' db))))"

end
