(* ===== verification/Live_Sync.thy ===== *)
theory Live_Sync
  imports GitHub_App Result_Sync Sync_Jobs
begin

text \<open>
  Reading repositories through the workspace's GitHub App,
  \<^verbatim>\<open>app/services/github_app_live_sync_service.py\<close>: which read is authorised, the queued job that
  asks for it, the provider context and the batch of records of one repository.
\<close>

section \<open>Errors and values\<close>

datatype live_error =
    LiveSyncError string
  | LiveSyncConflictError string
  | LiveSyncNotFoundError string
  | LiveSyncProviderReadError string
  | LiveConnectorsDisabledError string
  | LiveSyncUnexpected

definition LIVE_CONNECTION_NOT_FOUND :: string where "LIVE_CONNECTION_NOT_FOUND = ''github connection not found''"
definition LIVE_CONNECTION_NOT_CONNECTED :: string where
  "LIVE_CONNECTION_NOT_CONNECTED = ''github connection is not connected''"
definition LIVE_NOT_APP_INSTALLATION :: string where
  "LIVE_NOT_APP_INSTALLATION = ''github app installation connection required''"
definition LIVE_NOT_VERIFIED :: string where "LIVE_NOT_VERIFIED = ''github app installation is not provider-verified''"
definition LIVE_TOKEN_UNAVAILABLE :: string where "LIVE_TOKEN_UNAVAILABLE = ''github app installation token unavailable''"
definition LIVE_PROVIDER_READ_FAILED :: string where "LIVE_PROVIDER_READ_FAILED = ''github app live read failed''"
definition LIVE_REPOSITORY_NOT_INSTALLED :: string where
  "LIVE_REPOSITORY_NOT_INSTALLED = ''github repository is not part of the app installation''"
definition LIVE_INVALID_REPOSITORY :: string where "LIVE_INVALID_REPOSITORY = ''invalid github repository full name''"
definition LIVE_INVALID_ISSUE_STATE :: string where "LIVE_INVALID_ISSUE_STATE = ''invalid github issue state''"
definition LIVE_INVALID_PULL_REQUEST_STATE :: string where
  "LIVE_INVALID_PULL_REQUEST_STATE = ''invalid github pull request state''"

definition ISSUE_STATES :: "string list" where "ISSUE_STATES = [''open'', ''closed'']"
definition PR_STATES :: "string list" where "PR_STATES = [''open'', ''closed'', ''merged'']"

record live_input =
  lv_connection_id :: uuid
  lv_repositories :: "string list"
  lv_include_issues :: bool
  lv_include_pull_requests :: bool
  lv_issue_states :: "string list"
  lv_pull_request_states :: "string list"

record live_authorization =
  la_installation_id :: string
  la_credential :: signing_credential
  la_selected :: "string list"

record live_prepared =
  pp_workspace_id :: uuid
  pp_connection_id :: uuid
  pp_installation_id :: string
  pp_repositories :: "string list"
  pp_include_issues :: bool
  pp_include_pull_requests :: bool
  pp_issue_states :: "string list"
  pp_pull_request_states :: "string list"
  pp_credential :: signing_credential

record provider_context =
  pc_access_token :: string
  pc_expires_at :: "string option"
  pc_installed :: "(string \<times> pydict) list"

record repository_batch =
  rb_full_name :: string
  rb_observed_at :: time
  rb_repository :: pydict
  rb_issues :: "pydict list"
  rb_pull_requests :: "pydict list"
  rb_skipped_pull_requests :: int

definition batch_summary :: "repository_batch \<Rightarrow> pydict" where
  "batch_summary b = [(''full_name'', PStr (rb_full_name b)), (''synced_issues'', PInt (int (length (rb_issues b)))),
     (''synced_pull_requests'', PInt (int (length (rb_pull_requests b)))),
     (''skipped_pull_requests'', PInt (rb_skipped_pull_requests b))]"

section \<open>Names and states\<close>

definition live_repo_part :: "string \<Rightarrow> string option" where
  "live_repo_part value = (let part = strip value in
     if part = [] \<or> hd part = CHR ''.'' \<or> List.last part = CHR ''.'' \<or> is_infix ''..'' part
       \<or> (\<exists>c\<in>set part. is_space c) then None
     else if \<not> (\<forall>c\<in>set part. is_alnum c \<or> c \<in> {CHR ''.'', CHR ''_'', CHR ''-''}) then None
     else Some (take 100 part))"

definition live_full_name :: "string \<Rightarrow> string option" where
  "live_full_name value = (let (raw_owner, separator, raw_name) = partition_at CHR ''/'' (strip value) in
     if \<not> separator then None
     else case (live_repo_part raw_owner, live_repo_part raw_name) of
       (Some owner, Some name) \<Rightarrow> Some (owner @ ''/'' @ name) | _ \<Rightarrow> None)"

fun normalize_repositories_from :: "string list \<Rightarrow> string list \<Rightarrow> (live_error, string list) result" where
  "normalize_repositories_from normalized [] = Inr normalized"
| "normalize_repositories_from normalized (raw # raws) =
     (case live_full_name raw of None \<Rightarrow> Inl (LiveSyncError LIVE_INVALID_REPOSITORY)
      | Some repository \<Rightarrow> normalize_repositories_from
          (if casefold repository \<in> casefold ` set normalized then normalized else normalized @ [repository]) raws)"

definition normalize_repositories :: "string list \<Rightarrow> (live_error, string list) result" where
  "normalize_repositories repos = bindE (normalize_repositories_from [] repos) (\<lambda>normalized.
     bindE (require (normalized \<noteq> []) (LiveSyncError LIVE_INVALID_REPOSITORY)) (\<lambda>_. Inr normalized))"

fun normalize_states_from ::
  "string list \<Rightarrow> string \<Rightarrow> string list \<Rightarrow> string list \<Rightarrow> (live_error, string list) result" where
  "normalize_states_from known message normalized [] = Inr normalized"
| "normalize_states_from known message normalized (raw # raws) =
     (let state = casefold (strip raw) in
      if state \<notin> set known \<and> state \<noteq> ''all'' then Inl (LiveSyncError message)
      else if state = ''all'' then Inr [''all'']
      else normalize_states_from known message
        (if state \<in> set normalized then normalized else normalized @ [state]) raws)"

definition normalize_states :: "string list \<Rightarrow> string \<Rightarrow> string list \<Rightarrow> (live_error, string list) result" where
  "normalize_states known message states =
     bindE (normalize_states_from known message [] (if states = [] then known else states)) (\<lambda>normalized.
     Inr (if normalized = [] then known else normalized))"

definition normalize_issue_states :: "string list \<Rightarrow> (live_error, string list) result" where
  "normalize_issue_states = normalize_states ISSUE_STATES LIVE_INVALID_ISSUE_STATE"

definition normalize_pull_request_states :: "string list \<Rightarrow> (live_error, string list) result" where
  "normalize_pull_request_states = normalize_states PR_STATES LIVE_INVALID_PULL_REQUEST_STATE"

text \<open>The state asked of the provider; \<^verbatim>\<open>states[0]\<close> of an empty list would raise.\<close>

definition github_issue_read_state :: "string list \<Rightarrow> string" where
  "github_issue_read_state states =
     (if ''all'' \<in> set states \<or> {''open'', ''closed''} \<subseteq> set states then ''all'' else hd states)"

definition github_pull_request_read_state :: "string list \<Rightarrow> string" where
  "github_pull_request_read_state states =
     (if ''all'' \<in> set states then ''all''
      else if ''open'' \<in> set states \<and> (''closed'' \<in> set states \<or> ''merged'' \<in> set states) then ''all''
      else if set states \<subseteq> {''closed'', ''merged''} then ''closed'' else ''open'')"

section \<open>Authorisation\<close>

definition GITHUB_APP_CONNECTION_METHOD :: string where "GITHUB_APP_CONNECTION_METHOD = ''github_app_installation''"

definition get_app_installation_connection_or_raise ::
  "uuid \<Rightarrow> uuid \<Rightarrow> 'z action_db_scheme \<Rightarrow> (live_error, integration_connection) result" where
  "get_app_installation_connection_or_raise workspace_id connection_id db =
     bindE (require_some (find (\<lambda>c. ic_workspace_id c = workspace_id \<and> ic_provider c = ''github''
         \<and> ic_id c = connection_id) (connections db)) (LiveSyncNotFoundError LIVE_CONNECTION_NOT_FOUND)) (\<lambda>c.
     bindE (require (ic_status c = Connected) (LiveSyncConflictError LIVE_CONNECTION_NOT_CONNECTED)) (\<lambda>_.
     bindE (require (py_get (ic_provider_metadata c) ''connection_method'' = PStr GITHUB_APP_CONNECTION_METHOD)
       (LiveSyncConflictError LIVE_NOT_APP_INSTALLATION)) (\<lambda>_. Inr c)))"

text \<open>\<^verbatim>\<open>str(value)\<close>, for values other than lists and dictionaries.\<close>

definition scalar_text :: "pyval \<Rightarrow> string option" where
  "scalar_text v = (case v of PStr s \<Rightarrow> Some s | PNone \<Rightarrow> Some ''None'' | PFloat s \<Rightarrow> Some s
     | _ \<Rightarrow> str_of_int_like v)"

definition metadata_installation_id :: "pydict \<Rightarrow> string option" where
  "metadata_installation_id metadata = (case map_of metadata ''installation_id'' of None \<Rightarrow> Some []
     | Some v \<Rightarrow> map_option strip (scalar_text v))"

definition selected_repository_name :: "pyval \<Rightarrow> string option" where
  "selected_repository_name item = (case (case item of PDict d \<Rightarrow> py_get d ''full_name'' | v \<Rightarrow> v) of
     PStr s \<Rightarrow> map_option casefold (live_full_name s) | _ \<Rightarrow> None)"

definition selected_repository_names :: "pydict \<Rightarrow> string list" where
  "selected_repository_names metadata = (case py_get metadata ''selected_repositories'' of
     PList xs \<Rightarrow> List.map_filter selected_repository_name xs | _ \<Rightarrow> [])"

definition installation_verified ::
  "github_app_credential \<Rightarrow> github_app_installation \<Rightarrow> pydict \<Rightarrow> bool" where
  "installation_verified credential installation metadata \<longleftrightarrow>
     gc_status credential = CredentialActive \<and> gi_credential_id installation = gc_id credential
     \<and> py_get metadata ''installation_verified'' = PBool True
     \<and> py_get metadata ''provider_reads_enabled'' = PBool True
     \<and> metadata_installation_id metadata = Some (gi_installation_id installation)"

definition resolve_live_read_authorization ::
  "secret_box \<Rightarrow> uuid \<Rightarrow> integration_connection \<Rightarrow> 'z app_db_scheme \<Rightarrow> (live_error, live_authorization) result" where
  "resolve_live_read_authorization box workspace_id connection db =
     (let metadata = ic_provider_metadata connection; not_verified = LiveSyncConflictError LIVE_NOT_VERIFIED in
      bindE (require_some (find (\<lambda>c. gc_workspace_id c = workspace_id) (app_credentials db)) not_verified) (\<lambda>managed.
      bindE (require_some (find (\<lambda>i. gi_workspace_id i = workspace_id \<and> gi_connection_id i = ic_id connection
          \<and> gi_status i = InstallationActive) (app_installations db)) not_verified) (\<lambda>installation.
      bindE (require (installation_verified managed installation metadata) not_verified) (\<lambda>_.
      bindE (map_error (\<lambda>_. LiveSyncConflictError LIVE_TOKEN_UNAVAILABLE)
        (get_github_app_signing_credential box workspace_id db)) (\<lambda>found.
      bindE (require_some found (LiveSyncConflictError LIVE_TOKEN_UNAVAILABLE)) (\<lambda>credential.
      bindE (require (selected_repository_names metadata \<noteq> []) not_verified) (\<lambda>_.
      Inr \<lparr> la_installation_id = gi_installation_id installation, la_credential = credential,
        la_selected = selected_repository_names metadata \<rparr>)))))))"

definition require_real_connectors_enabled :: "bool \<Rightarrow> (live_error, unit) result" where
  "require_real_connectors_enabled enabled =
     require enabled (LiveConnectorsDisabledError REAL_CONNECTORS_DISABLED_DETAIL)"

text \<open>A connection that is not there is reported only where the connectors are enabled.\<close>

definition connection_or_guard ::
  "bool \<Rightarrow> uuid \<Rightarrow> uuid \<Rightarrow> 'z action_db_scheme \<Rightarrow> (live_error, integration_connection) result" where
  "connection_or_guard real_connectors workspace_id connection_id db =
     (case get_app_installation_connection_or_raise workspace_id connection_id db of
        Inr c \<Rightarrow> Inr c
      | Inl e \<Rightarrow> (case e of LiveSyncNotFoundError _ \<Rightarrow> bindE (require_real_connectors_enabled real_connectors) (\<lambda>_. Inl e)
          | _ \<Rightarrow> Inl e))"

definition prepare_github_app_live_sync ::
  "bool \<Rightarrow> secret_box \<Rightarrow> uuid \<Rightarrow> live_input \<Rightarrow> string \<Rightarrow> 'z app_db_scheme \<Rightarrow> (live_error, live_prepared) result" where
  "prepare_github_app_live_sync real_connectors box workspace_id inp requested_by db =
     bindE (normalize_repositories (lv_repositories inp)) (\<lambda>repos.
     bindE (normalize_issue_states (lv_issue_states inp)) (\<lambda>issue_states.
     bindE (normalize_pull_request_states (lv_pull_request_states inp)) (\<lambda>pull_request_states.
     bindE (connection_or_guard real_connectors workspace_id (lv_connection_id inp) db) (\<lambda>connection.
     bindE (resolve_live_read_authorization box workspace_id connection db) (\<lambda>authorization.
     bindE (if requested_by = ''session'' then Inr () else require_real_connectors_enabled real_connectors) (\<lambda>_.
     bindE (require (\<forall>r\<in>set repos. casefold r \<in> set (la_selected authorization))
       (LiveSyncConflictError LIVE_REPOSITORY_NOT_INSTALLED)) (\<lambda>_.
     Inr \<lparr> pp_workspace_id = workspace_id, pp_connection_id = ic_id connection,
       pp_installation_id = la_installation_id authorization, pp_repositories = repos,
       pp_include_issues = lv_include_issues inp, pp_include_pull_requests = lv_include_pull_requests inp,
       pp_issue_states = issue_states, pp_pull_request_states = pull_request_states,
       pp_credential = la_credential authorization \<rparr>)))))))"

section \<open>The queued job\<close>

definition live_request :: "live_prepared \<Rightarrow> string \<Rightarrow> pydict" where
  "live_request p requested_by =
     [(''connection_id'', PStr (uuid_str (pp_connection_id p))), (''installation_id'', PStr (pp_installation_id p)),
      (''repositories'', PList (map PStr (pp_repositories p))), (''include_issues'', PBool (pp_include_issues p)),
      (''include_pull_requests'', PBool (pp_include_pull_requests p)),
      (''issue_states'', PList (map PStr (pp_issue_states p))),
      (''pull_request_states'', PList (map PStr (pp_pull_request_states p))),
      (''requested_by'', PStr requested_by), (''external_writes'', PBool False),
      (''installation_access_token_persisted'', PBool False)]"

definition zero_counts :: pydict where
  "zero_counts = [(''repositories'', PInt 0), (''issues'', PInt 0), (''pull_requests'', PInt 0),
     (''skipped_pull_requests'', PInt 0)]"

definition live_sync_job :: "int \<Rightarrow> uuid \<Rightarrow> time \<Rightarrow> live_prepared \<Rightarrow> string \<Rightarrow> sync_job" where
  "live_sync_job max_attempts new_id now p requested_by =
     (queued_job new_id now (pp_workspace_id p) (pp_connection_id p)
        (Some [(''github_app_live_sync'', PDict (live_request p requested_by))]))
     \<lparr>sj_max_attempts := max_attempts,
      sj_cursor_after := Some [(''github_app_live_sync_progress'', PDict [(''phase'', PStr ''queued''),
        (''completed_repositories'', PList []), (''total_repositories'', PInt (int (length (pp_repositories p)))),
        (''repositories'', PList []), (''counts'', PDict zero_counts),
        (''updated_at'', PStr (isoformat ''T'' now))])],
      sj_logs := Some [PDict [(''event'', PStr ''queued''), (''requested_by'', PStr requested_by),
        (''repository_count'', PInt (int (length (pp_repositories p)))), (''external_writes'', PBool False),
        (''at'', PStr (isoformat ''T'' now))]]\<rparr>"

definition enqueue_reply :: "live_prepared \<Rightarrow> sync_job \<Rightarrow> pydict" where
  "enqueue_reply p j =
     [(''workspace_id'', PUuid (pp_workspace_id p)), (''connection_id'', PUuid (pp_connection_id p)),
      (''installation_id'', PStr (pp_installation_id p)),
      (''repositories'', PList (map (\<lambda>r. PDict [(''full_name'', PStr r), (''synced_issues'', PInt 0),
         (''synced_pull_requests'', PInt 0), (''skipped_pull_requests'', PInt 0)]) (pp_repositories p))),
      (''totals'', PDict zero_counts), (''sync_job'', PDict (serialize_github_sync_job j)),
      (''counts'', PDict [(''repositories'', PInt 0), (''issues'', PInt 0), (''pull_requests'', PInt 0)]),
      (''capabilities'', PDict [(''read_only_sync'', PBool True), (''external_writes'', PBool False),
         (''installation_access_token_persisted'', PBool False)]),
      (''is_live'', PBool False), (''provider_sync_started'', PBool False),
      (''local_normalization_performed'', PBool False), (''external_write_performed'', PBool False),
      (''persistence_mode'', PStr ''queued''),
      (''warnings'', PList [PStr ''GitHub read was queued; no provider request ran in the API transaction.''])]"

definition enqueue_github_app_installation_sync ::
  "bool \<Rightarrow> secret_box \<Rightarrow> int \<Rightarrow> uuid \<Rightarrow> time \<Rightarrow> uuid \<Rightarrow> live_input \<Rightarrow> string \<Rightarrow> 'z app_db_scheme \<Rightarrow>
     (live_error, pydict \<times> 'z app_db_scheme) result" where
  "enqueue_github_app_installation_sync real_connectors box max_attempts new_id now workspace_id inp requested_by db =
     bindE (prepare_github_app_live_sync real_connectors box workspace_id inp requested_by db) (\<lambda>p.
     (let j = live_sync_job max_attempts new_id now p requested_by in
      Inr (enqueue_reply p j, db\<lparr>sync_jobs := sync_jobs db @ [j]\<rparr>)))"

section \<open>The provider context\<close>

definition installation_repository_map :: "pydict list \<Rightarrow> (string \<times> pydict) list" where
  "installation_repository_map repos = foldl (\<lambda>mapped repository.
     case py_get repository ''full_name'' of
       PStr s \<Rightarrow> (case live_full_name s of Some n \<Rightarrow> AList.update (casefold n) repository mapped | None \<Rightarrow> mapped)
     | _ \<Rightarrow> mapped) [] repos"

definition provider_read_error_detail :: "string \<Rightarrow> string" where
  "provider_read_error_detail detail = (if strip detail = [] then LIVE_PROVIDER_READ_FAILED
     else LIVE_PROVIDER_READ_FAILED @ '': '' @ take 500 (join '' '' (split_space (strip detail))))"

fun live_client_error :: "client_error \<Rightarrow> live_error" where
  "live_client_error (ClientError d) = LiveSyncProviderReadError (provider_read_error_detail d)"
| "live_client_error ClientJsonError = LiveSyncUnexpected"

fun live_token_error :: "token_error \<Rightarrow> live_error" where
  "live_token_error (TokenError _) = LiveSyncConflictError LIVE_TOKEN_UNAVAILABLE"
| "live_token_error TokenJsonError = LiveSyncUnexpected"

definition open_github_app_provider_context ::
  "transport \<Rightarrow> (string \<Rightarrow> string \<Rightarrow> string option) \<Rightarrow> time \<Rightarrow> live_prepared \<Rightarrow> (live_error, provider_context) result" where
  "open_github_app_provider_context http sign now p =
     bindE (map_error live_token_error (mint_installation_access_token http sign now (pp_installation_id p) (pp_credential p))) (\<lambda>tok.
     bindE (map_error live_client_error (list_installation_repositories http (it_token tok) 100 10)) (\<lambda>repos.
     (let installed = installation_repository_map repos in
      bindE (require (\<forall>r\<in>set (pp_repositories p). map_of installed (casefold r) \<noteq> None)
        (LiveSyncConflictError LIVE_REPOSITORY_NOT_INSTALLED)) (\<lambda>_.
      Inr \<lparr> pc_access_token = it_token tok, pc_expires_at = it_expires_at tok, pc_installed = installed \<rparr>))))"

section \<open>The records of a batch\<close>

definition live_safe_text :: "nat \<Rightarrow> pyval \<Rightarrow> string option" where
  "live_safe_text limit value = optional_text_limit limit
     (case value of PStr s \<Rightarrow> Some s | _ \<Rightarrow> str_of_int_like value)"

definition live_safe_url :: "pyval \<Rightarrow> string option" where
  "live_safe_url value = (case value of PStr s \<Rightarrow>
       if is_prefix ''https://'' (strip s) \<or> is_prefix ''http://'' (strip s) then Some (take 500 (strip s)) else None
   | _ \<Rightarrow> None)"

text \<open>An int (a bool is one), or \<open>PNone\<close>; \<^verbatim>\<open>int\<close> of a text of digits may raise \<^verbatim>\<open>ValueError\<close>.\<close>

definition live_safe_int :: "pyval \<Rightarrow> (live_error, pyval) result" where
  "live_safe_int value = (case as_int value of Some _ \<Rightarrow> Inr value
   | None \<Rightarrow> (case value of
       PStr s \<Rightarrow> if isdigit s then (case decimal_value s of Some n \<Rightarrow> Inr (PInt n) | None \<Rightarrow> Inl LiveSyncUnexpected)
         else Inr PNone
     | _ \<Rightarrow> Inr PNone))"

definition number_or :: "pyval \<Rightarrow> string \<Rightarrow> string" where
  "number_or number other = (if truthy number then int_text number else other)"

definition safe_issue_state :: "pyval \<Rightarrow> string option" where
  "safe_issue_state value = (case value of
     PStr s \<Rightarrow> if casefold (strip s) \<in> set ISSUE_STATES then Some (casefold (strip s)) else None | _ \<Rightarrow> None)"

definition live_pull_request_state :: "pydict \<Rightarrow> string option" where
  "live_pull_request_state raw = (let raw_state = live_safe_text 1000 (py_get raw ''state'') in
     if raw_state = Some ''closed'' \<and> truthy (py_get raw ''merged_at'') then Some ''merged''
     else if raw_state = Some ''open'' \<or> raw_state = Some ''closed'' then raw_state else None)"

definition evidence_entry :: "string \<Rightarrow> string \<Rightarrow> pyval \<Rightarrow> pyval" where
  "evidence_entry kind ref url = PDict [(''kind'', PStr kind), (''source'', PStr ''github''), (''ref'', PStr ref),
     (''url'', url)]"

definition live_issue_record :: "pydict \<Rightarrow> string \<Rightarrow> (live_error, pydict) result" where
  "live_issue_record raw repository_full_name =
     bindE (live_safe_int (py_get raw ''number'')) (\<lambda>number.
     (let source_url = opt_val PStr (live_safe_url (py_get raw ''html_url''));
          external_id = (case live_safe_text 255 (py_get raw ''id'') of Some t \<Rightarrow> t
            | None \<Rightarrow> repository_full_name @ ''#issue/'' @ number_or number ''unknown'');
          state = opt_val PStr (safe_issue_state (py_get raw ''state'')) in
      Inr [(''id'', PStr external_id), (''external_id'', PStr external_id), (''number'', number),
        (''title'', PStr (case live_safe_text 500 (py_get raw ''title'') of Some t \<Rightarrow> t
           | None \<Rightarrow> ''GitHub issue '' @ number_or number external_id)),
        (''state'', state), (''html_url'', source_url), (''repository_full_name'', PStr repository_full_name),
        (''created_at'', opt_val PStr (live_safe_text 1000 (py_get raw ''created_at''))),
        (''updated_at'', opt_val PStr (live_safe_text 1000 (py_get raw ''updated_at''))),
        (''evidence_refs'', PList [evidence_entry ''github_issue'' external_id source_url]),
        (''metadata'', PDict [(''source'', PStr ''github_app_live_sync''),
           (''repository_full_name'', PStr repository_full_name), (''number'', number), (''state'', state)])]))"

definition live_pull_request_record :: "pydict \<Rightarrow> string \<Rightarrow> (live_error, pydict) result" where
  "live_pull_request_record raw repository_full_name =
     bindE (live_safe_int (py_get raw ''number'')) (\<lambda>number.
     (let source_url = opt_val PStr (live_safe_url (py_get raw ''html_url''));
          provider_id = live_safe_text 255 (py_get raw ''id'');
          external_id = (if number \<noteq> PNone then repository_full_name @ ''#pull/'' @ int_text number
            else case provider_id of Some t \<Rightarrow> t | None \<Rightarrow> repository_full_name @ ''#pull/unknown'');
          state = opt_val PStr (live_pull_request_state raw) in
      Inr [(''id'', PStr external_id), (''external_id'', PStr external_id), (''number'', number),
        (''title'', PStr (case live_safe_text 500 (py_get raw ''title'') of Some t \<Rightarrow> t
           | None \<Rightarrow> ''GitHub PR '' @ number_or number external_id)),
        (''state'', state), (''html_url'', source_url), (''repository_full_name'', PStr repository_full_name),
        (''created_at'', opt_val PStr (live_safe_text 1000 (py_get raw ''created_at''))),
        (''updated_at'', opt_val PStr (live_safe_text 1000 (py_get raw ''updated_at''))),
        (''merged_at'', opt_val PStr (live_safe_text 1000 (py_get raw ''merged_at''))),
        (''evidence_refs'', PList [evidence_entry ''github_pull_request'' external_id source_url]),
        (''metadata'', PDict [(''source'', PStr ''github_app_live_sync''),
           (''repository_full_name'', PStr repository_full_name), (''number'', number), (''state'', state),
           (''provider_id'', opt_val PStr provider_id), (''draft'', PBool (truthy (py_get raw ''draft'')))])]))"

definition latest_repository_timestamp :: "pydict \<Rightarrow> pydict list \<Rightarrow> pydict list \<Rightarrow> string option" where
  "latest_repository_timestamp raw issues pull_requests =
     (case List.map_filter (live_safe_text 1000)
        ([py_get raw ''pushed_at'', py_get raw ''updated_at''] @ map (\<lambda>i. py_get i ''updated_at'') issues
          @ map (\<lambda>p. py_get p ''updated_at'') pull_requests) of
        [] \<Rightarrow> None | v # vs \<Rightarrow> Some (foldl max v vs))"

definition repository_visibility :: "pydict \<Rightarrow> string" where
  "repository_visibility raw =
     (case py_get raw ''visibility'' of
        PStr s \<Rightarrow> if s \<in> {''public'', ''private'', ''internal''} then s
          else if py_get raw ''private'' = PBool True then ''private''
          else if py_get raw ''private'' = PBool False then ''public'' else ''unknown''
      | _ \<Rightarrow> if py_get raw ''private'' = PBool True then ''private''
          else if py_get raw ''private'' = PBool False then ''public'' else ''unknown'')"

definition live_repository_record ::
  "pydict \<Rightarrow> string \<Rightarrow> string \<Rightarrow> pydict list \<Rightarrow> pydict list \<Rightarrow> string \<Rightarrow> pydict" where
  "live_repository_record raw repository_full_name observed_at issues pull_requests installation_id =
     (let source_url = (case live_safe_url (py_get raw ''html_url'') of Some u \<Rightarrow> u
            | None \<Rightarrow> ''https://github.com/'' @ repository_full_name);
          ident = (case live_safe_text 255 (py_get raw ''id'') of Some t \<Rightarrow> t | None \<Rightarrow> repository_full_name) in
      [(''id'', PStr ident), (''external_id'', PStr ident),
       (''name'', PStr (case live_safe_text 255 (py_get raw ''name'') of Some t \<Rightarrow> t
          | None \<Rightarrow> after_last CHR ''/'' repository_full_name)),
       (''full_name'', PStr repository_full_name),
       (''default_branch'', opt_val PStr (live_safe_text 255 (py_get raw ''default_branch''))),
       (''visibility'', PStr (repository_visibility raw)), (''archived'', PBool (truthy (py_get raw ''archived''))),
       (''source_url'', PStr source_url),
       (''last_activity_at'', PStr (case latest_repository_timestamp raw issues pull_requests of Some t \<Rightarrow> t
          | None \<Rightarrow> observed_at)),
       (''source'', PStr ''github_app_live_sync''),
       (''evidence_refs'', PList [evidence_entry ''github_repository'' repository_full_name (PStr source_url)]),
       (''metadata'', PDict [(''source'', PStr ''github_app_live_sync''), (''installation_id'', PStr installation_id),
          (''issues_observed'', PInt (int (length issues))),
          (''pull_requests_observed'', PInt (int (length pull_requests)))])])"

section \<open>A batch\<close>

text \<open>A record is kept when its state is known and was asked for.\<close>

definition state_wanted :: "string list \<Rightarrow> string list \<Rightarrow> pydict \<Rightarrow> bool" where
  "state_wanted known wanted record = (case py_get record ''state'' of
     PStr s \<Rightarrow> s \<in> set known \<and> (''all'' \<in> set wanted \<or> s \<in> set wanted) | _ \<Rightarrow> False)"

fun collect_issues :: "string list \<Rightarrow> string \<Rightarrow> pydict list \<Rightarrow> (live_error, pydict list \<times> int) result" where
  "collect_issues wanted repository_full_name [] = Inr ([], 0)"
| "collect_issues wanted repository_full_name (raw # raws) =
     (if py_get raw ''pull_request'' \<noteq> PNone
      then bindE (collect_issues wanted repository_full_name raws) (\<lambda>(issues, skipped). Inr (issues, skipped + 1))
      else bindE (live_issue_record raw repository_full_name) (\<lambda>issue.
        bindE (collect_issues wanted repository_full_name raws) (\<lambda>(issues, skipped).
        Inr (if state_wanted ISSUE_STATES wanted issue then issue # issues else issues, skipped))))"

fun collect_pull_requests :: "string list \<Rightarrow> string \<Rightarrow> pydict list \<Rightarrow> (live_error, pydict list) result" where
  "collect_pull_requests wanted repository_full_name [] = Inr []"
| "collect_pull_requests wanted repository_full_name (raw # raws) =
     bindE (live_pull_request_record raw repository_full_name) (\<lambda>pull_request.
     bindE (collect_pull_requests wanted repository_full_name raws) (\<lambda>pull_requests.
     Inr (if state_wanted PR_STATES wanted pull_request then pull_request # pull_requests else pull_requests)))"

definition read_batch_issues ::
  "transport \<Rightarrow> live_prepared \<Rightarrow> provider_context \<Rightarrow> string \<Rightarrow> (live_error, pydict list \<times> int) result" where
  "read_batch_issues http p context repository_full_name =
     (if pp_include_issues p
      then bindE (map_error live_client_error (list_issues http (pc_access_token context) repository_full_name
          (github_issue_read_state (pp_issue_states p)) 100 10)) (collect_issues (pp_issue_states p) repository_full_name)
      else Inr ([], 0))"

definition read_batch_pull_requests ::
  "transport \<Rightarrow> live_prepared \<Rightarrow> provider_context \<Rightarrow> string \<Rightarrow> (live_error, pydict list) result" where
  "read_batch_pull_requests http p context repository_full_name =
     (if pp_include_pull_requests p
      then bindE (map_error live_client_error (list_pull_requests http (pc_access_token context) repository_full_name
          (github_pull_request_read_state (pp_pull_request_states p)) 100 10))
        (collect_pull_requests (pp_pull_request_states p) repository_full_name)
      else Inr [])"

definition read_github_app_repository_batch ::
  "transport \<Rightarrow> time \<Rightarrow> live_prepared \<Rightarrow> provider_context \<Rightarrow> string \<Rightarrow> (live_error, repository_batch) result" where
  "read_github_app_repository_batch http now p context repository_full_name =
     bindE (require_some (map_of (pc_installed context) (casefold repository_full_name)) LiveSyncUnexpected) (\<lambda>raw.
     bindE (read_batch_issues http p context repository_full_name) (\<lambda>(issues, skipped).
     bindE (read_batch_pull_requests http p context repository_full_name) (\<lambda>pull_requests.
     Inr \<lparr> rb_full_name = repository_full_name, rb_observed_at = now,
       rb_repository = live_repository_record raw repository_full_name (isoformat ''T'' now) issues pull_requests
         (pp_installation_id p),
       rb_issues = issues, rb_pull_requests = pull_requests, rb_skipped_pull_requests = skipped \<rparr>)))"

section \<open>Only selected and installed repositories are read\<close>

lemma connection_or_guard_Inr:
  "connection_or_guard rc ws cid db = Inr c \<longleftrightarrow> get_app_installation_connection_or_raise ws cid db = Inr c"
  unfolding connection_or_guard_def
  by (cases "get_app_installation_connection_or_raise ws cid db") (auto simp: bindE_Inr_iff split: live_error.split)

lemma prepare_Inr:
  assumes "prepare_github_app_live_sync rc box ws inp rb db = Inr p"
  obtains c a where "get_app_installation_connection_or_raise ws (lv_connection_id inp) db = Inr c"
    "resolve_live_read_authorization box ws c db = Inr a" "rb = ''session'' \<or> rc"
    "pp_connection_id p = ic_id c" "\<forall>r\<in>set (pp_repositories p). casefold r \<in> set (la_selected a)"
    "pp_installation_id p = la_installation_id a" "pp_credential p = la_credential a"
  using assms unfolding prepare_github_app_live_sync_def
  by (auto simp: bindE_Inr_iff connection_or_guard_Inr require_Inr_iff require_real_connectors_enabled_def split: if_splits)

text \<open>The installation \<open>i\<close> of the credential \<open>k\<close> that a read through the connection \<open>c\<close> of a workspace rests on.\<close>

definition read_authorized ::
  "uuid \<Rightarrow> integration_connection \<Rightarrow> github_app_credential \<Rightarrow> github_app_installation \<Rightarrow> 'z app_db_scheme \<Rightarrow> bool" where
  "read_authorized ws c k i db \<longleftrightarrow>
     c \<in> set (connections db) \<and> ic_workspace_id c = ws \<and> ic_provider c = ''github'' \<and> ic_status c = Connected \<and>
     k \<in> set (app_credentials db) \<and> gc_workspace_id k = ws \<and>
     i \<in> set (app_installations db) \<and> gi_workspace_id i = ws \<and> gi_connection_id i = ic_id c \<and>
     gi_status i = InstallationActive \<and> installation_verified k i (ic_provider_metadata c)"

lemma connection_Inr:
  "get_app_installation_connection_or_raise ws cid db = Inr c \<Longrightarrow>
     c \<in> set (connections db) \<and> ic_workspace_id c = ws \<and> ic_provider c = ''github'' \<and> ic_status c = Connected"
  unfolding get_app_installation_connection_or_raise_def
  by (auto simp: bindE_Inr_iff require_Inr_iff require_some_Inr_iff dest: find_Some_mem find_Some_holds)

lemma find_conj_same: "find P xs = Some x \<Longrightarrow> Q x \<Longrightarrow> find (\<lambda>x. P x \<and> Q x) xs = Some x"
  by (induction xs) (auto split: if_splits)

lemma signing_credential_Inr:
  assumes "find (\<lambda>k. gc_workspace_id k = ws) (app_credentials db) = Some k" "gc_status k = CredentialActive"
    and "get_github_app_signing_credential box ws db = Inr (Some s)"
  shows "\<exists>pem. sb_decrypt box (gc_encrypted_private_key k) = Some pem \<and>
    s = \<lparr> sg_app_id = gc_app_id k, sg_private_key_pem = pem \<rparr>"
  using assms(3) find_conj_same [OF assms(1), of "\<lambda>k. gc_status k = CredentialActive"] assms(2)
  by (auto simp: get_github_app_signing_credential_def get_active_github_app_credential_def decrypt_secret_def
      bindE_Inr_iff require_some_Inr_iff)

lemma authorization_Inr:
  assumes "resolve_live_read_authorization box ws c db = Inr a"
    and "c \<in> set (connections db) \<and> ic_workspace_id c = ws \<and> ic_provider c = ''github'' \<and> ic_status c = Connected"
  obtains k i pem where "read_authorized ws c k i db" "sb_decrypt box (gc_encrypted_private_key k) = Some pem"
    "la_installation_id a = gi_installation_id i"
    "la_credential a = \<lparr> sg_app_id = gc_app_id k, sg_private_key_pem = pem \<rparr>"
    "la_selected a = selected_repository_names (ic_provider_metadata c)"
proof -
  let ?inst = "\<lambda>i. gi_workspace_id i = ws \<and> gi_connection_id i = ic_id c \<and> gi_status i = InstallationActive"
  obtain k i s where k: "find (\<lambda>k. gc_workspace_id k = ws) (app_credentials db) = Some k"
    and i: "find ?inst (app_installations db) = Some i" and v: "installation_verified k i (ic_provider_metadata c)"
    and s: "get_github_app_signing_credential box ws db = Inr (Some s)"
    and a: "a = \<lparr> la_installation_id = gi_installation_id i, la_credential = s,
        la_selected = selected_repository_names (ic_provider_metadata c) \<rparr>"
    using assms(1) unfolding resolve_live_read_authorization_def Let_def
    by (auto simp: bindE_Inr_iff map_error_Inr_iff require_Inr_iff require_some_Inr_iff)
  have act: "gc_status k = CredentialActive" using v by (simp add: installation_verified_def)
  obtain pem where pem: "sb_decrypt box (gc_encrypted_private_key k) = Some pem"
    "s = \<lparr> sg_app_id = gc_app_id k, sg_private_key_pem = pem \<rparr>"
    using signing_credential_Inr [OF k act s] by blast
  have "read_authorized ws c k i db"
    unfolding read_authorized_def
    using find_Some_mem [OF k] find_Some_holds [OF k] find_Some_mem [OF i] find_Some_holds [OF i] v assms(2) by blast
  then show thesis by (rule that) (use pem in \<open>simp_all add: a\<close>)
qed

text \<open>An installed repository is one of the list the provider answered, by its own name.\<close>

lemma installation_repository_map_member:
  "map_of (installation_repository_map repos) n = Some d \<Longrightarrow>
     d \<in> set repos \<and> (\<exists>s m. py_get d ''full_name'' = PStr s \<and> live_full_name s = Some m \<and> casefold m = n)"
proof (induction repos rule: rev_induct)
  case (snoc x xs)
  then show ?case
    by (auto simp: installation_repository_map_def update_conv split: pyval.splits option.splits if_splits)
qed (simp add: installation_repository_map_def)

lemma open_context_Inr:
  assumes "open_github_app_provider_context http sign t p = Inr cx"
  obtains tok repos where
    "mint_installation_access_token http sign t (pp_installation_id p) (pp_credential p) = Inr tok"
    "list_installation_repositories http (it_token tok) 100 10 = Inr repos"
    "pc_access_token cx = it_token tok" "pc_installed cx = installation_repository_map repos"
  using assms unfolding open_github_app_provider_context_def
  by (auto simp: bindE_Inr_iff map_error_Inr_iff Let_def)

text \<open>A batch depends on the provider only through requests that bear the token of its context.\<close>

lemma read_batch_bears_token:
  assumes "\<And>url ps. http'' (get_request (pc_access_token cx) url ps) = http' (get_request (pc_access_token cx) url ps)"
  shows "read_github_app_repository_batch http'' t p cx r = read_github_app_repository_batch http' t p cx r"
  unfolding read_github_app_repository_batch_def read_batch_issues_def read_batch_pull_requests_def
    list_issues_def list_pull_requests_def by (simp only: assms)


section \<open>A read at concrete tables\<close>

definition example_box :: secret_box where "example_box = \<lparr> sb_encrypt = Some, sb_decrypt = Some \<rparr>"

definition example_credential :: github_app_credential where
  "example_credential = (blank_credential 70 0 2)\<lparr>gc_app_id := ''9'', gc_encrypted_private_key := ''pem''\<rparr>"

definition example_installation :: github_app_installation where
  "example_installation = \<lparr> gi_id = 71, gi_workspace_id = 2, gi_credential_id = 70, gi_connection_id = 61,
     gi_installation_id = ''5'', gi_account_login = ''a'', gi_account_id = None, gi_account_type = None,
     gi_repository_selection = ''selected'', gi_permissions = [], gi_installation_settings_url = None,
     gi_verified_by_user_id = None, gi_verified_at = 0, gi_repository_count = 1, gi_status = InstallationActive \<rparr>"

definition example_app_connection :: integration_connection where
  "example_app_connection = example_connection\<lparr>ic_provider_metadata :=
     [(''connection_method'', PStr ''github_app_installation''), (''installation_verified'', PBool True),
      (''provider_reads_enabled'', PBool True), (''installation_id'', PStr ''5''),
      (''selected_repositories'', PList [PStr ''a/b''])]\<rparr>"

definition example_app_db :: app_db where
  "example_app_db = action_db.extend (example_db\<lparr>connections := [example_app_connection]\<rparr>)
     (app_db.fields [example_credential] [example_installation])"

definition example_live_input :: live_input where
  "example_live_input = \<lparr> lv_connection_id = 61, lv_repositories = [''a/b''], lv_include_issues = False,
     lv_include_pull_requests = False, lv_issue_states = [], lv_pull_request_states = [] \<rparr>"

definition example_prepared :: live_prepared where
  "example_prepared = \<lparr> pp_workspace_id = 2, pp_connection_id = 61, pp_installation_id = ''5'',
     pp_repositories = [''a/b''], pp_include_issues = False, pp_include_pull_requests = False,
     pp_issue_states = ISSUE_STATES, pp_pull_request_states = PR_STATES,
     pp_credential = \<lparr> sg_app_id = ''9'', sg_private_key_pem = ''pem'' \<rparr> \<rparr>"

lemma example_names: "live_full_name ''a/b'' = Some ''a/b''" "casefold ''a/b'' = ''a/b''" "strip ''5'' = ''5''"
  by code_simp+

lemma example_states: "normalize_issue_states [] = Inr ISSUE_STATES" "normalize_pull_request_states [] = Inr PR_STATES"
  by code_simp+

lemma example_app_tables:
  "connections example_app_db = [example_app_connection]" "app_credentials example_app_db = [example_credential]"
  "app_installations example_app_db = [example_installation]"
  by (simp_all add: example_app_db_def action_db.defs app_db.defs)

text \<open>The request is allowed in a session, and otherwise with the real connectors switched on.\<close>

lemma example_prepare_on:
  assumes "connections db = [example_app_connection]" "app_credentials db = [example_credential]"
    "app_installations db = [example_installation]"
  shows "prepare_github_app_live_sync rc example_box 2 example_live_input rb db =
    (if rb = ''session'' \<or> rc then Inr example_prepared
     else Inl (LiveConnectorsDisabledError REAL_CONNECTORS_DISABLED_DETAIL))"
proof -
  have c: "get_app_installation_connection_or_raise 2 61 db = Inr example_app_connection"
    by (simp add: get_app_installation_connection_or_raise_def assms example_app_connection_def
        example_connection_def py_get_def GITHUB_APP_CONNECTION_METHOD_def)
  have sel: "selected_repository_names (ic_provider_metadata example_app_connection) = [''a/b'']"
    by (simp add: selected_repository_names_def selected_repository_name_def example_app_connection_def py_get_def
        example_names List.map_filter_def)
  have v: "installation_verified example_credential example_installation (ic_provider_metadata example_app_connection)"
    by (simp add: installation_verified_def example_credential_def blank_credential_def example_installation_def
        example_app_connection_def py_get_def metadata_installation_id_def scalar_text_def example_names)
  have a: "resolve_live_read_authorization example_box 2 example_app_connection db
      = Inr \<lparr> la_installation_id = ''5'', la_credential = \<lparr> sg_app_id = ''9'', sg_private_key_pem = ''pem'' \<rparr>,
          la_selected = [''a/b''] \<rparr>"
    unfolding resolve_live_read_authorization_def Let_def sel assms
    by (simp add: v get_github_app_signing_credential_def get_active_github_app_credential_def assms
        decrypt_secret_def example_box_def)
       (simp add: example_credential_def blank_credential_def example_installation_def example_app_connection_def
        example_connection_def)
  have n: "normalize_repositories [''a/b''] = Inr [''a/b'']"
    by (simp add: normalize_repositories_def example_names)
  show ?thesis unfolding prepare_github_app_live_sync_def
    by (simp add: example_live_input_def n example_states connection_or_guard_def c a example_names example_prepared_def)
       (simp add: example_app_connection_def example_connection_def require_real_connectors_enabled_def require_def)
qed

lemma example_prepare: "prepare_github_app_live_sync False example_box 2 example_live_input ''session'' example_app_db
   = Inr example_prepared"
  using example_prepare_on [of example_app_db False "''session''"] example_app_tables by simp

definition example_live_http :: transport where
  "example_live_http rq = Some \<lparr> rs_status = 200, rs_json = Some (PDict (if rq_method rq = ''POST''
     then [(''token'', PStr ''t'')] else [(''repositories'', PList [PDict [(''full_name'', PStr ''a/b'')]])])),
     rs_header = Map.empty \<rparr>"

definition example_sign :: "string \<Rightarrow> string \<Rightarrow> string option" where "example_sign pem text = Some ''sig''"

definition example_context :: provider_context where
  "example_context = \<lparr> pc_access_token = ''t'', pc_expires_at = None,
     pc_installed = [(''a/b'', [(''full_name'', PStr ''a/b'')])] \<rparr>"

lemma example_open: "open_github_app_provider_context example_live_http example_sign 10 example_prepared = Inr example_context"
proof -
  have st: "strip ''5'' = ''5''" "strip ''9'' = ''9''" "strip ''pem'' = ''pem''" "strip ''t'' = ''t''" by code_simp+
  obtain jwt where jwt: "build_github_app_jwt example_sign 10 \<lparr> sg_app_id = ''9'', sg_private_key_pem = ''pem'' \<rparr> = Inr jwt"
    unfolding build_github_app_jwt_def Let_def example_sign_def
    by (simp add: safe_app_id_def optional_text_limit_def st)
  have mint: "mint_installation_access_token example_live_http example_sign 10 ''5''
      \<lparr> sg_app_id = ''9'', sg_private_key_pem = ''pem'' \<rparr> = Inr \<lparr> it_token = ''t'', it_expires_at = None \<rparr>"
    unfolding mint_installation_access_token_def jwt
    by (simp add: safe_installation_id_def optional_text_limit_def st example_live_http_def token_request_def
        token_of_response_def ok_status_def as_dict_def py_get_def)
  have ten: "nat 10 = Suc 9" by simp
  have repos: "list_installation_repositories example_live_http ''t'' 100 10 = Inr [[(''full_name'', PStr ''a/b'')]]"
    unfolding list_installation_repositories_def ten read_pages.simps(2)
    by (simp add: example_live_http_def get_request_def ok_status_def repository_items_def py_get_def
        List.map_filter_def as_dict_def)
  have m: "installation_repository_map [[(''full_name'', PStr ''a/b'')]] = [(''a/b'', [(''full_name'', PStr ''a/b'')])]"
    by (simp add: installation_repository_map_def py_get_def example_names)
  show ?thesis unfolding open_github_app_provider_context_def
    by (simp add: example_prepared_def mint repos m Let_def example_names example_context_def)
qed

lemma example_batch:
  "\<exists>b. read_github_app_repository_batch example_live_http 20 example_prepared example_context ''a/b'' = Inr b"
  by (simp add: read_github_app_repository_batch_def example_context_def example_names read_batch_issues_def
      read_batch_pull_requests_def example_prepared_def)


end
