(* ===== verification/Sync_Worker.thy ===== *)
theory Sync_Worker
  imports Live_Sync
begin

text \<open>
  The durable worker of the synchronisation queue, \<^verbatim>\<open>app/services/github_sync_worker_service.py\<close>:
  leases on queued jobs, one transaction per repository, retries and cancellation. Each function
  below with a database in its type is one transaction; row locks make it one step. The
  normalisation of a batch is the argument \<open>norm\<close>.
\<close>

section \<open>Values\<close>

record sync_settings =
  st_lease_seconds :: int
  st_retry_base_seconds :: int

record job_claim =
  cl_id :: uuid
  cl_workspace_id :: uuid
  cl_lease_owner :: string
  cl_input :: live_input
  cl_requested_by :: string

text \<open>What ends a run: the two exceptions of the module, an error of the live read, any other exception.\<close>

datatype worker_stop = LostLease | WorkerCancelled | LiveStop live_error | UnexpectedStop

definition RETRYABLE_ERROR_CODE :: string where "RETRYABLE_ERROR_CODE = ''github_provider_read_failed''"
definition TERMINAL_ERROR_CODE :: string where "TERMINAL_ERROR_CODE = ''github_sync_configuration_invalid''"
definition UNEXPECTED_ERROR_CODE :: string where "UNEXPECTED_ERROR_CODE = ''github_sync_unexpected_failure''"

section \<open>Requests and progress\<close>

definition invalid_request :: live_error where
  "invalid_request = LiveSyncError ''invalid queued github sync request''"

definition request_mapping :: "pydict option \<Rightarrow> (live_error, pydict) result" where
  "request_mapping value = require_some (live_sync_request value) invalid_request"

definition text_items :: "pyval \<Rightarrow> string list \<Rightarrow> string list" where
  "text_items value fallback = (case value of PList xs \<Rightarrow> List.map_filter as_str xs | _ \<Rightarrow> fallback)"

definition parse_job_request :: "sync_job \<Rightarrow> (live_error, live_input \<times> string) result" where
  "parse_job_request j =
     bindE (request_mapping (sj_cursor_before j)) (\<lambda>request.
     bindE (require_some (as_str (py_get request ''connection_id'')) invalid_request) (\<lambda>connection_id.
     bindE (require (case py_get request ''repositories'' of PList _ \<Rightarrow> True | _ \<Rightarrow> False) invalid_request) (\<lambda>_.
     bindE (require_some (parse_uuid connection_id) invalid_request) (\<lambda>parsed_connection_id.
     Inr (\<lparr> lv_connection_id = parsed_connection_id,
        lv_repositories = text_items (py_get request ''repositories'') [],
        lv_include_issues = (py_get request ''include_issues'' \<noteq> PBool False),
        lv_include_pull_requests = (py_get request ''include_pull_requests'' \<noteq> PBool False),
        lv_issue_states = text_items (py_get request ''issue_states'') ISSUE_STATES,
        lv_pull_request_states = text_items (py_get request ''pull_request_states'') PR_STATES \<rparr>,
       case py_get request ''requested_by'' of PStr s \<Rightarrow> s | _ \<Rightarrow> ''operator_api_key'')))))"

definition progress_of :: "pydict option \<Rightarrow> pydict" where
  "progress_of value = (case job_progress value of None \<Rightarrow> [] | Some d \<Rightarrow> d)"

definition with_progress_phase :: "pydict option \<Rightarrow> string \<Rightarrow> time \<Rightarrow> pydict option" where
  "with_progress_phase value phase now = Some [(''github_app_live_sync_progress'',
     PDict (dict_set ''updated_at'' (PStr (isoformat ''T'' now)) (dict_set ''phase'' (PStr phase) (progress_of value))))]"

record job_counts =
  ct_repositories :: int
  ct_issues :: int
  ct_pull_requests :: int
  ct_skipped_pull_requests :: int

definition count_of :: "pydict \<Rightarrow> string \<Rightarrow> int" where
  "count_of source key = (case map_of source key of None \<Rightarrow> 0
     | Some v \<Rightarrow> (case as_int v of Some n \<Rightarrow> n | None \<Rightarrow> 0))"

definition counts_of :: "pyval \<Rightarrow> job_counts" where
  "counts_of value = (let source = (case value of PDict d \<Rightarrow> d | _ \<Rightarrow> []) in
     \<lparr> ct_repositories = count_of source ''repositories'', ct_issues = count_of source ''issues'',
       ct_pull_requests = count_of source ''pull_requests'',
       ct_skipped_pull_requests = count_of source ''skipped_pull_requests'' \<rparr>)"

definition counts_dict :: "job_counts \<Rightarrow> pydict" where
  "counts_dict c = [(''repositories'', PInt (ct_repositories c)), (''issues'', PInt (ct_issues c)),
     (''pull_requests'', PInt (ct_pull_requests c)), (''skipped_pull_requests'', PInt (ct_skipped_pull_requests c))]"

definition string_list :: "pyval \<Rightarrow> string list" where
  "string_list value = (case value of
     PList xs \<Rightarrow> filter (\<lambda>s. strip s \<noteq> []) (List.map_filter as_str xs) | _ \<Rightarrow> [])"

definition summary_list :: "pyval \<Rightarrow> pyval list" where
  "summary_list value = (case value of PList xs \<Rightarrow> map PDict (List.map_filter as_dict xs) | _ \<Rightarrow> [])"

definition complete_issue_scope :: "string list \<Rightarrow> bool" where
  "complete_issue_scope states \<longleftrightarrow> ''all'' \<in> set states \<or> {''open'', ''closed''} \<subseteq> set states"

definition complete_pull_request_scope :: "string list \<Rightarrow> bool" where
  "complete_pull_request_scope states \<longleftrightarrow>
     ''all'' \<in> set states \<or> {''open'', ''closed'', ''merged''} \<subseteq> set states"

definition completed_of :: "sync_job \<Rightarrow> string list" where
  "completed_of j = string_list (py_get (progress_of (sj_cursor_after j)) ''completed_repositories'')"

section \<open>Claiming\<close>

definition lease_expired :: "time \<Rightarrow> sync_job \<Rightarrow> bool" where
  "lease_expired now j \<longleftrightarrow> (case sj_lease_expires_at j of None \<Rightarrow> False | Some t \<Rightarrow> t \<le> now)"

definition lease_exhausted :: "time \<Rightarrow> sync_job \<Rightarrow> bool" where
  "lease_exhausted now j \<longleftrightarrow> sj_provider j = ''github'' \<and> sj_status j = SyncRunning \<and> lease_expired now j
     \<and> sj_max_attempts j \<le> sj_attempt_count j"

definition exhausted :: "time \<Rightarrow> sync_job \<Rightarrow> sync_job" where
  "exhausted now j = j\<lparr>sj_status := SyncFailed, sj_finished_at := Some now,
     sj_error_message := Some ''github sync failed'', sj_lease_owner := None, sj_lease_expires_at := None,
     sj_updated_at := now\<rparr>"

definition expire_exhausted_leases :: "time \<Rightarrow> 'z action_db_scheme \<Rightarrow> 'z action_db_scheme" where
  "expire_exhausted_leases now db = db\<lparr>sync_jobs := update_where (lease_exhausted now) (exhausted now) (sync_jobs db)\<rparr>"

definition claimable :: "time \<Rightarrow> sync_job \<Rightarrow> bool" where
  "claimable now j \<longleftrightarrow> sj_provider j = ''github''
     \<and> (case sj_cursor_before j of None \<Rightarrow> False | Some d \<Rightarrow> map_of d ''github_app_live_sync'' \<noteq> None)
     \<and> sj_cancel_requested_at j = None \<and> sj_attempt_count j < sj_max_attempts j
     \<and> (sj_status j = Queued \<and> sj_next_attempt_at j \<le> now \<or> sj_status j = SyncRunning \<and> lease_expired now j)"

definition unparsable :: "time \<Rightarrow> sync_job \<Rightarrow> sync_job" where
  "unparsable now j = j\<lparr>sj_status := SyncFailed, sj_finished_at := Some now,
     sj_error_message := Some ''github sync failed'', sj_lease_owner := None, sj_lease_expires_at := None,
     sj_cursor_after := with_progress_phase (sj_cursor_after j) ''failed'' now,
     sj_logs := log_more (sj_logs j) [(''event'', PStr ''failed''), (''error_code'', PStr TERMINAL_ERROR_CODE),
       (''at'', PStr (isoformat ''T'' now))],
     sj_updated_at := now\<rparr>"

definition claimed_by :: "sync_settings \<Rightarrow> string \<Rightarrow> time \<Rightarrow> sync_job \<Rightarrow> sync_job" where
  "claimed_by st owner now j = j\<lparr>sj_status := SyncRunning,
     sj_started_at := (case sj_started_at j of None \<Rightarrow> Some now | s \<Rightarrow> s), sj_finished_at := None,
     sj_attempt_count := sj_attempt_count j + 1, sj_lease_owner := Some owner,
     sj_lease_expires_at := Some (now + seconds (st_lease_seconds st)), sj_error_message := None,
     sj_cursor_after := with_progress_phase (sj_cursor_after j) ''running'' now,
     sj_logs := log_more (sj_logs j) [(''event'', PStr ''claimed''), (''attempt'', PInt (sj_attempt_count j + 1)),
       (''at'', PStr (isoformat ''T'' now))],
     sj_updated_at := now\<rparr>"

text \<open>\<open>locked\<close> are the rows other transactions hold, which \<^verbatim>\<open>skip_locked\<close> passes over.\<close>

definition next_claimable :: "uuid list \<Rightarrow> time \<Rightarrow> 'z action_db_scheme \<Rightarrow> sync_job option" where
  "next_claimable locked now db =
     (case sort_key (\<lambda>j. (sj_next_attempt_at j, sj_created_at j))
        (filter (\<lambda>j. claimable now j \<and> sj_id j \<notin> set locked) (sync_jobs db)) of
        [] \<Rightarrow> None | j # _ \<Rightarrow> Some j)"

definition lease_owner_of :: "string \<Rightarrow> uuid \<Rightarrow> string" where
  "lease_owner_of worker_id token = worker_id @ '':'' @ uuid_hex token"

definition claim_next_github_sync_job ::
  "sync_settings \<Rightarrow> string \<Rightarrow> uuid \<Rightarrow> uuid list \<Rightarrow> time \<Rightarrow> 'z action_db_scheme \<Rightarrow> job_claim option \<times> 'z action_db_scheme" where
  "claim_next_github_sync_job st worker_id token locked now db =
     (let db1 = expire_exhausted_leases now db; owner = lease_owner_of worker_id token in
      case next_claimable locked now db1 of None \<Rightarrow> (None, db1)
      | Some j \<Rightarrow> (case parse_job_request j of
          Inl _ \<Rightarrow> (None, put_job (unparsable now j) db1)
        | Inr (inp, requested_by) \<Rightarrow>
            (Some \<lparr> cl_id = sj_id j, cl_workspace_id = sj_workspace_id j, cl_lease_owner = owner, cl_input = inp,
               cl_requested_by = requested_by \<rparr>,
             put_job (claimed_by st owner now j) db1)))"

section \<open>Holding a claim\<close>

definition claim_job :: "job_claim \<Rightarrow> 'z action_db_scheme \<Rightarrow> sync_job option" where
  "claim_job claim db = find (\<lambda>j. sj_id j = cl_id claim \<and> sj_workspace_id j = cl_workspace_id claim) (sync_jobs db)"

definition locked_claim_job :: "job_claim \<Rightarrow> 'z action_db_scheme \<Rightarrow> (worker_stop, sync_job) result" where
  "locked_claim_job claim db = (case claim_job claim db of None \<Rightarrow> Inl LostLease
     | Some j \<Rightarrow> if sj_status j \<noteq> SyncRunning \<or> sj_lease_owner j \<noteq> Some (cl_lease_owner claim) then Inl LostLease
         else Inr j)"

definition mark_cancelled :: "time \<Rightarrow> sync_job \<Rightarrow> sync_job" where
  "mark_cancelled now j = j\<lparr>sj_status := Cancelled, sj_finished_at := Some now, sj_error_message := None,
     sj_lease_owner := None, sj_lease_expires_at := None,
     sj_cursor_after := with_progress_phase (sj_cursor_after j) ''cancelled'' now,
     sj_logs := log_more (sj_logs j) [(''event'', PStr ''cancelled''), (''at'', PStr (isoformat ''T'' now))],
     sj_updated_at := now\<rparr>"

text \<open>
  The result of a transaction: what it raises or returns and the database it commits. A
  transaction that raises inside \<^verbatim>\<open>session.begin()\<close> commits nothing.
\<close>

type_synonym ('a, 'z) transaction = "(worker_stop, 'a) result \<times> 'z app_db_scheme"

definition with_lease :: "job_claim \<Rightarrow> (sync_job \<Rightarrow> ('a, 'z) transaction) \<Rightarrow> 'z app_db_scheme \<Rightarrow> ('a, 'z) transaction" where
  "with_lease claim body db = (case locked_claim_job claim db of Inl e \<Rightarrow> (Inl e, db) | Inr j \<Rightarrow> body j)"

definition renew_or_cancel ::
  "sync_settings \<Rightarrow> time \<Rightarrow> job_claim \<Rightarrow> 'z app_db_scheme \<Rightarrow> (unit, 'z) transaction" where
  "renew_or_cancel st now claim db = with_lease claim (\<lambda>j.
     if sj_cancel_requested_at j \<noteq> None then (Inl WorkerCancelled, put_job (mark_cancelled now j) db)
     else (Inr (), put_job (j\<lparr>sj_lease_expires_at := Some (now + seconds (st_lease_seconds st)), sj_updated_at := now\<rparr>) db)) db"

definition completed_repositories :: "job_claim \<Rightarrow> 'z action_db_scheme \<Rightarrow> (worker_stop, string set) result" where
  "completed_repositories claim db = (case claim_job claim db of None \<Rightarrow> Inl LostLease
     | Some j \<Rightarrow> if sj_lease_owner j \<noteq> Some (cl_lease_owner claim) then Inl LostLease
         else Inr (casefold ` set (completed_of j)))"

section \<open>One repository\<close>

record normalization_options =
  nz_include_issues :: bool
  nz_include_pull_requests :: bool
  nz_snapshot_observed_at :: time
  nz_issue_repositories :: "string list"
  nz_pull_request_repositories :: "string list"

record normalization_result =
  nr_status :: sync_status
  nr_records_created :: int
  nr_records_updated :: int
  nr_log :: pyval

text \<open>
  The normalisation of a queued job in the running transaction: \<open>None\<close> when it raises, else
  its answer, the log entry it appends to the job and the database. What it sets in the job
  itself is overwritten by the worker, but for the log.
\<close>

type_synonym 'z normalizer =
  "normalization_options \<Rightarrow> sync_job \<Rightarrow> 'z app_db_scheme \<Rightarrow> (normalization_result \<times> 'z app_db_scheme) option"

definition batch_options :: "live_prepared \<Rightarrow> repository_batch \<Rightarrow> normalization_options" where
  "batch_options p b = \<lparr> nz_include_issues = pp_include_issues p, nz_include_pull_requests = pp_include_pull_requests p,
     nz_snapshot_observed_at = rb_observed_at b,
     nz_issue_repositories = (if pp_include_issues p \<and> complete_issue_scope (pp_issue_states p) then [rb_full_name b] else []),
     nz_pull_request_repositories = (if pp_include_pull_requests p \<and> complete_pull_request_scope (pp_pull_request_states p)
       then [rb_full_name b] else []) \<rparr>"

definition batch_job :: "pydict \<Rightarrow> repository_batch \<Rightarrow> sync_job \<Rightarrow> sync_job" where
  "batch_job request b j = j\<lparr>sj_status := Queued, sj_cursor_before := Some [(''github_app_live_sync'', PDict request),
     (''local_github'', PDict [(''repositories'', PList [PDict (rb_repository b)]),
        (''issues'', PList (map PDict (rb_issues b))), (''pull_requests'', PList (map PDict (rb_pull_requests b)))])]\<rparr>"

definition counts_after :: "job_counts \<Rightarrow> repository_batch \<Rightarrow> job_counts" where
  "counts_after c b = \<lparr> ct_repositories = ct_repositories c + 1, ct_issues = ct_issues c + int (length (rb_issues b)),
     ct_pull_requests = ct_pull_requests c + int (length (rb_pull_requests b)),
     ct_skipped_pull_requests = ct_skipped_pull_requests c + rb_skipped_pull_requests b \<rparr>"

definition progress_after ::
  "time \<Rightarrow> int \<Rightarrow> bool \<Rightarrow> bool \<Rightarrow> string list \<Rightarrow> pyval list \<Rightarrow> job_counts \<Rightarrow> pydict" where
  "progress_after now repository_count is_last partial completed summaries counts =
     [(''phase'', PStr (if is_last \<and> partial then ''partial'' else if is_last then ''succeeded'' else ''running'')),
      (''completed_repositories'', PList (map PStr completed)), (''total_repositories'', PInt repository_count),
      (''repositories'', PList summaries), (''counts'', PDict (counts_dict counts)), (''partial'', PBool partial),
      (''updated_at'', PStr (isoformat ''T'' now))]"

text \<open>The job after a repository, and whether it was the last one.\<close>

definition batch_is_last :: "live_prepared \<Rightarrow> sync_job \<Rightarrow> bool" where
  "batch_is_last p j \<longleftrightarrow> length (pp_repositories p) \<le> length (completed_of j) + 1"

definition persisted_job ::
  "sync_settings \<Rightarrow> time \<Rightarrow> live_prepared \<Rightarrow> repository_batch \<Rightarrow> pydict \<Rightarrow> normalization_result \<Rightarrow> sync_job \<Rightarrow> sync_job" where
  "persisted_job st now p b request nr j =
     (let progress_before = progress_of (sj_cursor_after j);
          completed = completed_of j @ [rb_full_name b];
          counts = counts_after (counts_of (py_get progress_before ''counts'')) b;
          summaries = summary_list (py_get progress_before ''repositories'') @ [PDict (batch_summary b)];
          repository_count = int (length (pp_repositories p));
          is_last = batch_is_last p j;
          partial = (truthy (py_get progress_before ''partial'') \<or> nr_status nr = Partial);
          logs = log_more (Some ((case sj_logs j of None \<Rightarrow> [] | Some xs \<Rightarrow> xs) @ [nr_log nr]))
            [(''event'', PStr ''repository_completed''), (''repository_index'', PInt (int (length completed))),
             (''repository_count'', PInt repository_count),
             (''counts'', PDict [(''issues'', PInt (int (length (rb_issues b)))),
                (''pull_requests'', PInt (int (length (rb_pull_requests b))))]),
             (''at'', PStr (isoformat ''T'' now))] in
      j\<lparr>sj_cursor_before := Some [(''github_app_live_sync'', PDict request)],
        sj_cursor_after := Some [(''github_app_live_sync_progress'',
          PDict (progress_after now repository_count is_last partial completed summaries counts))],
        sj_records_seen := ct_repositories counts + ct_issues counts + ct_pull_requests counts,
        sj_records_created := sj_records_created j + nr_records_created nr,
        sj_records_updated := sj_records_updated j + nr_records_updated nr,
        sj_error_message := None,
        sj_status := (if is_last then if partial then Partial else SyncSucceeded else SyncRunning),
        sj_finished_at := (if is_last then Some now else None),
        sj_lease_owner := (if is_last then None else sj_lease_owner j),
        sj_lease_expires_at := (if is_last then None else Some (now + seconds (st_lease_seconds st))),
        sj_logs := logs, sj_updated_at := now\<rparr>)"

definition connection_synced :: "time \<Rightarrow> sync_job \<Rightarrow> 'z action_db_scheme \<Rightarrow> 'z action_db_scheme" where
  "connection_synced now j db = db\<lparr>connections := update_where
     (\<lambda>c. ic_id c = sj_connection_id j \<and> ic_workspace_id c = sj_workspace_id j)
     (\<lambda>c. c\<lparr>ic_last_sync_at := Some now, ic_last_error := None\<rparr>) (connections db)\<rparr>"

definition persist_repository_batch ::
  "sync_settings \<Rightarrow> 'z normalizer \<Rightarrow> time \<Rightarrow> job_claim \<Rightarrow> live_prepared \<Rightarrow> repository_batch \<Rightarrow> 'z app_db_scheme \<Rightarrow>
     (unit, 'z) transaction" where
  "persist_repository_batch st norm now claim p b db = with_lease claim (\<lambda>j.
     if sj_cancel_requested_at j \<noteq> None then (Inr (), put_job (mark_cancelled now j) db)
     else case request_mapping (sj_cursor_before j) of Inl e \<Rightarrow> (Inl (LiveStop e), db)
     | Inr request \<Rightarrow>
         if casefold (rb_full_name b) \<in> casefold ` set (completed_of j) then (Inr (), db)
         else case norm (batch_options p b) (batch_job request b j) db of None \<Rightarrow> (Inl UnexpectedStop, db)
         | Some (nr, db1) \<Rightarrow>
             (let db2 = put_job (persisted_job st now p b request nr j) (db1\<lparr>sync_jobs := sync_jobs db\<rparr>) in
              (Inr (), if batch_is_last p j then connection_synced now j db2 else db2))) db"

section \<open>The end of a run\<close>

definition finish_resumed_job :: "time \<Rightarrow> job_claim \<Rightarrow> 'z app_db_scheme \<Rightarrow> (unit, 'z) transaction" where
  "finish_resumed_job now claim db = with_lease claim (\<lambda>j.
     if sj_cancel_requested_at j \<noteq> None then (Inl WorkerCancelled, put_job (mark_cancelled now j) db)
     else (let status = (if truthy (py_get (progress_of (sj_cursor_after j)) ''partial'') then Partial else SyncSucceeded) in
       (Inr (), put_job (j\<lparr>sj_status := status, sj_finished_at := Some now, sj_lease_owner := None,
          sj_lease_expires_at := None,
          sj_cursor_after := with_progress_phase (sj_cursor_after j) (sync_status_text status) now,
          sj_updated_at := now\<rparr>) db))) db"

definition retry_delay_seconds :: "sync_settings \<Rightarrow> int \<Rightarrow> int" where
  "retry_delay_seconds st attempt = min 300 (st_retry_base_seconds st * 2 ^ nat (max 0 (attempt - 1)))"

definition retried :: "sync_settings \<Rightarrow> time \<Rightarrow> sync_job \<Rightarrow> sync_job" where
  "retried st now j = j\<lparr>sj_status := Queued,
     sj_next_attempt_at := now + seconds (retry_delay_seconds st (sj_attempt_count j)), sj_finished_at := None,
     sj_error_message := Some ''github sync will retry''\<rparr>"

definition failed_for_good :: "time \<Rightarrow> sync_job \<Rightarrow> sync_job" where
  "failed_for_good now j = j\<lparr>sj_status := SyncFailed, sj_finished_at := Some now,
     sj_error_message := Some ''github sync failed''\<rparr>"

definition lease_dropped :: "time \<Rightarrow> string \<Rightarrow> string \<Rightarrow> sync_job \<Rightarrow> sync_job" where
  "lease_dropped now phase error_code j = j\<lparr>sj_lease_owner := None, sj_lease_expires_at := None,
     sj_cursor_after := with_progress_phase (sj_cursor_after j) phase now,
     sj_logs := log_more (sj_logs j) [(''event'', PStr phase), (''attempt'', PInt (sj_attempt_count j)),
       (''error_code'', PStr error_code), (''at'', PStr (isoformat ''T'' now))],
     sj_updated_at := now\<rparr>"

definition retry_or_fail ::
  "sync_settings \<Rightarrow> time \<Rightarrow> job_claim \<Rightarrow> bool \<Rightarrow> string \<Rightarrow> 'z app_db_scheme \<Rightarrow> 'z app_db_scheme" where
  "retry_or_fail st now claim retryable error_code db = (case locked_claim_job claim db of
     Inl _ \<Rightarrow> db
   | Inr j \<Rightarrow> put_job (if sj_cancel_requested_at j \<noteq> None then mark_cancelled now j
       else if retryable \<and> sj_attempt_count j < sj_max_attempts j
         then lease_dropped now ''retry_scheduled'' error_code (retried st now j)
       else lease_dropped now ''failed'' error_code (failed_for_good now j)) db)"

section \<open>What was enqueued is what is prepared\<close>

lemma as_str_texts [simp]: "text_items (PList (map PStr xs)) fb = xs"
  unfolding text_items_def by (induction xs) (simp_all add: List.map_filter_def as_str_def)

lemma normalize_repositories_from_result:
  "normalize_repositories_from acc rs = Inr repos \<Longrightarrow> distinct (map casefold acc) \<Longrightarrow> distinct (map casefold repos)"
proof (induction acc rs arbitrary: repos rule: normalize_repositories_from.induct)
  case (2 acc raw raws)
  then show ?case by (fastforce split: option.splits if_splits)
qed simp

lemma normalize_repositories_from_again:
  "distinct (map casefold (acc @ rs)) \<Longrightarrow> \<forall>r\<in>set rs. live_full_name r = Some r \<Longrightarrow>
     normalize_repositories_from acc rs = Inr (acc @ rs)"
proof (induction rs arbitrary: acc)
  case (Cons r rs)
  then have "casefold r \<notin> casefold ` set acc" "distinct (map casefold ((acc @ [r]) @ rs))" by auto
  with Cons show ?case by simp
qed simp

lemma normalize_repositories_again:
  assumes "normalize_repositories raw = Inr repos" "\<forall>r\<in>set repos. live_full_name r = Some r"
  shows "normalize_repositories repos = Inr repos"
proof -
  have n: "normalize_repositories_from [] raw = Inr repos" "repos \<noteq> []"
    using assms(1) by (auto simp: normalize_repositories_def result_iffs)
  show ?thesis using n(2) normalize_repositories_from_again [of "[]" repos]
      normalize_repositories_from_result [OF n(1)] assms(2) by (simp add: normalize_repositories_def)
qed

definition clean_states :: "string list \<Rightarrow> string list \<Rightarrow> bool" where
  "clean_states known xs \<longleftrightarrow> xs = [''all''] \<or> (distinct xs \<and> set xs \<subseteq> set known)"

lemma normalize_states_from_clean:
  "normalize_states_from known message acc raws = Inr xs \<Longrightarrow> distinct acc \<Longrightarrow> set acc \<subseteq> set known \<Longrightarrow> clean_states known xs"
proof (induction known message acc raws arbitrary: xs rule: normalize_states_from.induct)
  case (2 known message acc raw raws)
  then show ?case by (simp add: Let_def clean_states_def split: if_splits)
qed (simp add: clean_states_def)

lemma normalize_states_from_again:
  "distinct (acc @ xs) \<Longrightarrow> \<forall>x\<in>set xs. x \<in> set known \<and> x \<noteq> ''all'' \<and> casefold (strip x) = x \<Longrightarrow>
     normalize_states_from known message acc xs = Inr (acc @ xs)"
proof (induction xs arbitrary: acc)
  case (Cons x xs)
  then have "distinct ((acc @ [x]) @ xs)" by simp
  with Cons show ?case by (simp add: Let_def)
qed simp

lemma state_constants: "casefold (strip ''all'') = ''all''"
  "x \<in> set ISSUE_STATES \<Longrightarrow> casefold (strip x) = x \<and> x \<noteq> ''all''"
  "x \<in> set PR_STATES \<Longrightarrow> casefold (strip x) = x \<and> x \<noteq> ''all''"
proof -
  have "list_all (\<lambda>x. casefold (strip x) = x \<and> x \<noteq> ''all'') PR_STATES" "set ISSUE_STATES \<subseteq> set PR_STATES"
    "casefold (strip ''all'') = ''all''" by code_simp+
  then show "casefold (strip ''all'') = ''all''"
    "x \<in> set ISSUE_STATES \<Longrightarrow> casefold (strip x) = x \<and> x \<noteq> ''all''"
    "x \<in> set PR_STATES \<Longrightarrow> casefold (strip x) = x \<and> x \<noteq> ''all''" by (auto simp: list_all_iff)
qed

lemma normalize_states_again:
  assumes n: "normalize_states known message raw = Inr xs"
    and known: "known \<noteq> []" "distinct known" "\<And>x. x \<in> set known \<Longrightarrow> casefold (strip x) = x \<and> x \<noteq> ''all''"
  shows "normalize_states known message xs = Inr xs"
proof -
  obtain ys where ys: "normalize_states_from known message [] (if raw = [] then known else raw) = Inr ys"
    "xs = (if ys = [] then known else ys)"
    using n by (auto simp: normalize_states_def bindE_Inr_iff)
  have c: "clean_states known xs"
    using normalize_states_from_clean [OF ys(1)] ys(2) known(2) by (auto simp: clean_states_def)
  moreover have "xs \<noteq> []" using ys(2) known(1) by auto
  moreover have "normalize_states_from known message [] xs = Inr xs"
  proof (cases "xs = [''all'']")
    case True
    then show ?thesis by (simp add: state_constants Let_def)
  next
    case False
    then have "distinct xs" "set xs \<subseteq> set known" using c by (auto simp: clean_states_def)
    then show ?thesis using normalize_states_from_again [of "[]" xs known message] known(3) by auto
  qed
  ultimately show ?thesis by (simp add: normalize_states_def)
qed

lemma live_request_fields:
  "py_get (live_request p rb) ''connection_id'' = PStr (uuid_str (pp_connection_id p))"
  "py_get (live_request p rb) ''repositories'' = PList (map PStr (pp_repositories p))"
  "py_get (live_request p rb) ''include_issues'' = PBool (pp_include_issues p)"
  "py_get (live_request p rb) ''include_pull_requests'' = PBool (pp_include_pull_requests p)"
  "py_get (live_request p rb) ''issue_states'' = PList (map PStr (pp_issue_states p))"
  "py_get (live_request p rb) ''pull_request_states'' = PList (map PStr (pp_pull_request_states p))"
  "py_get (live_request p rb) ''requested_by'' = PStr rb"
  by (simp_all add: live_request_def py_get_def)

definition input_of :: "live_prepared \<Rightarrow> live_input" where
  "input_of p = \<lparr> lv_connection_id = pp_connection_id p, lv_repositories = pp_repositories p,
     lv_include_issues = pp_include_issues p, lv_include_pull_requests = pp_include_pull_requests p,
     lv_issue_states = pp_issue_states p, lv_pull_request_states = pp_pull_request_states p \<rparr>"

lemma parse_live_sync_job:
  "pp_connection_id p < 2 ^ 128 \<Longrightarrow> parse_job_request (live_sync_job m i now p rb) = Inr (input_of p, rb)"
proof -
  assume u: "pp_connection_id p < 2 ^ 128"
  have "live_sync_request (sj_cursor_before (live_sync_job m i now p rb)) = Some (live_request p rb)"
    by (simp add: live_sync_job_def queued_job_def live_sync_request_def py_get_def as_dict_def)
  then show ?thesis
    unfolding parse_job_request_def request_mapping_def
    by (simp add: live_request_fields as_str_def parse_uuid_str [OF u] input_of_def)
qed

text \<open>The queue hands the worker the request that was enqueued. When a live read is enqueued,
  the worker that claims the job reads back the prepared request and its requester, and as long
  as the connection still allows it prepares the very same read: the same repositories, states,
  switches, installation and credential.\<close>

theorem enqueued_request_is_read_back:
  assumes p: "prepare_github_app_live_sync rc box ws inp rb db = Inr p"
    and "pp_connection_id p < 2 ^ 128" and names: "\<forall>r\<in>set (pp_repositories p). live_full_name r = Some r"
  shows "parse_job_request (live_sync_job m i now p rb) = Inr (input_of p, rb) \<and>
    prepare_github_app_live_sync rc box ws (input_of p) rb db = Inr p"
proof -
  obtain c where c: "connection_or_guard rc ws (lv_connection_id inp) db = Inr c" "pp_connection_id p = ic_id c"
    "normalize_repositories (lv_repositories inp) = Inr (pp_repositories p)"
    "normalize_issue_states (lv_issue_states inp) = Inr (pp_issue_states p)"
    "normalize_pull_request_states (lv_pull_request_states inp) = Inr (pp_pull_request_states p)"
    "pp_include_issues p = lv_include_issues inp" "pp_include_pull_requests p = lv_include_pull_requests inp"
    using p unfolding prepare_github_app_live_sync_def by (auto simp: bindE_Inr_iff require_Inr_iff)
  have id: "pp_connection_id p = lv_connection_id inp"
    using c(1,2) by (auto simp: connection_or_guard_Inr get_app_installation_connection_or_raise_def bindE_Inr_iff
        require_some_Inr_iff dest: find_Some_holds)
  have s: "normalize_issue_states (pp_issue_states p) = Inr (pp_issue_states p)"
    "normalize_pull_request_states (pp_pull_request_states p) = Inr (pp_pull_request_states p)"
    using c(4,5) unfolding normalize_issue_states_def normalize_pull_request_states_def
    by (auto intro!: normalize_states_again simp: state_constants)
       (simp_all add: ISSUE_STATES_def PR_STATES_def)
  have "prepare_github_app_live_sync rc box ws (input_of p) rb db = prepare_github_app_live_sync rc box ws inp rb db"
    unfolding prepare_github_app_live_sync_def
    by (simp add: input_of_def s c normalize_repositories_again [OF c(3) names] flip: id)
  then show ?thesis using parse_live_sync_job [OF assms(2)] p by simp
qed

theorem enqueued_request_witness:
  "parse_job_request (live_sync_job 3 80 0 example_prepared ''session'') = Inr (input_of example_prepared, ''session'') \<and>
   prepare_github_app_live_sync False example_box 2 (input_of example_prepared) ''session'' example_app_db = Inr example_prepared"
  by (rule enqueued_request_is_read_back [OF example_prepare]) (simp_all add: example_prepared_def example_names)

end
