(* ===== verification/Job_Lifecycle.thy ===== *)
theory Job_Lifecycle
  imports Sync_Worker
begin

text \<open>
  The contract of a queued job: an abstract life cycle (waiting, held by a lease, ended) with
  the attempts used and the repositories done, and the proof that every transaction of the
  worker, of the operator and of the queue moves each job along it. A row that satisfies
  \<open>sync_job_ok\<close> still does afterwards.
\<close>

section \<open>The abstract life of a job\<close>

datatype job_phase = Waiting | Held string | Ended sync_status

record life =
  lf_phase :: job_phase
  lf_attempts :: int
  lf_max :: int
  lf_completed :: "string list"

fun phase_of :: "sync_status \<Rightarrow> string option \<Rightarrow> job_phase" where
  "phase_of Queued owner = Waiting"
| "phase_of SyncRunning owner = Held (case owner of Some w \<Rightarrow> w | None \<Rightarrow> [])"
| "phase_of status owner = Ended status"

definition life_of :: "sync_job \<Rightarrow> life" where
  "life_of j = \<lparr> lf_phase = phase_of (sj_status j) (sj_lease_owner j), lf_attempts = sj_attempt_count j,
     lf_max = sj_max_attempts j, lf_completed = completed_of j \<rparr>"

definition ended :: "job_phase \<Rightarrow> bool" where
  "ended p \<longleftrightarrow> (case p of Ended _ \<Rightarrow> True | _ \<Rightarrow> False)"

text \<open>
  The label is the owner a claim writes; every other step has no label. A waiting job may also
  be normalised locally, from the records in its cursor and without a claim.
\<close>

inductive life_step :: "string option \<Rightarrow> life \<Rightarrow> life \<Rightarrow> bool" where
  stay: "life_step None a a"
| claim: "\<not> ended (lf_phase a) \<Longrightarrow> lf_attempts a < lf_max a \<Longrightarrow>
    life_step (Some w) a (a\<lparr>lf_phase := Held w, lf_attempts := lf_attempts a + 1\<rparr>)"
| progress: "lf_phase a = Held w \<Longrightarrow> casefold r \<notin> casefold ` set (lf_completed a) \<Longrightarrow>
    life_step None a (a\<lparr>lf_completed := lf_completed a @ [r]\<rparr>)"
| complete: "lf_phase a = Held w \<Longrightarrow> casefold r \<notin> casefold ` set (lf_completed a) \<Longrightarrow>
    s \<in> {SyncSucceeded, Partial} \<Longrightarrow> life_step None a (a\<lparr>lf_completed := lf_completed a @ [r], lf_phase := Ended s\<rparr>)"
| resume: "lf_phase a = Held w \<Longrightarrow> s \<in> {SyncSucceeded, Partial} \<Longrightarrow> life_step None a (a\<lparr>lf_phase := Ended s\<rparr>)"
| retry: "lf_phase a = Held w \<Longrightarrow> lf_attempts a < lf_max a \<Longrightarrow> life_step None a (a\<lparr>lf_phase := Waiting\<rparr>)"
| locally: "lf_phase a = Waiting \<Longrightarrow> s \<in> {SyncSucceeded, Partial} \<Longrightarrow>
    life_step None a (a\<lparr>lf_phase := Ended s, lf_completed := []\<rparr>)"
| fail: "\<not> ended (lf_phase a) \<Longrightarrow> life_step None a (a\<lparr>lf_phase := Ended SyncFailed\<rparr>)"
| cancel: "\<not> ended (lf_phase a) \<Longrightarrow> life_step None a (a\<lparr>lf_phase := Ended Cancelled\<rparr>)"

inductive_cases life_claimE: "life_step (Some w) a b"
inductive_cases life_quietE: "life_step None a b"

lemma life_ended_stays: "life_step l a b \<Longrightarrow> ended (lf_phase a) \<Longrightarrow> b = a"
  by (induction rule: life_step.induct) (auto simp: ended_def)

lemma life_step_attempts:
  "life_step l a b \<Longrightarrow> lf_attempts b = lf_attempts a + (if l = None then 0 else 1) \<and> lf_max b = lf_max a"
  by (induction rule: life_step.induct) auto

lemma life_step_held:
  "life_step l a b \<Longrightarrow> lf_phase b = Held w \<Longrightarrow> l = Some w \<or> l = None \<and> lf_phase a = Held w"
  by (induction rule: life_step.induct) auto

section \<open>The row\<close>

definition sync_job_ok :: "sync_job \<Rightarrow> bool" where
  "sync_job_ok j \<longleftrightarrow>
     (sj_status j = SyncRunning \<longleftrightarrow> sj_lease_owner j \<noteq> None) \<and>
     (sj_lease_owner j = None \<longleftrightarrow> sj_lease_expires_at j = None) \<and>
     (sj_status j \<in> set FINISHED_STATUSES \<longleftrightarrow> sj_finished_at j \<noteq> None) \<and>
     (sj_cancel_requested_at j \<noteq> None \<longrightarrow> sj_status j = Cancelled) \<and>
     (sj_status j = SyncRunning \<longrightarrow> sj_started_at j \<noteq> None \<and> 0 < sj_attempt_count j) \<and>
     0 \<le> sj_attempt_count j \<and> sj_attempt_count j \<le> sj_max_attempts j \<and>
     distinct (map casefold (completed_of j))"

text \<open>What a transaction may do to a row.\<close>

definition job_moves :: "string option \<Rightarrow> sync_job \<Rightarrow> sync_job \<Rightarrow> bool" where
  "job_moves l j j' \<longleftrightarrow> sj_id j' = sj_id j \<and> sj_workspace_id j' = sj_workspace_id j \<and>
     (sync_job_ok j \<longrightarrow> sync_job_ok j' \<and> life_step l (life_of j) (life_of j'))"

lemma job_moves_refl: "job_moves None j j"
  by (simp add: job_moves_def life_step.stay)

section \<open>What progress keeps\<close>

lemma progress_of_phase:
  "progress_of (with_progress_phase c phase now) =
     dict_set ''updated_at'' (PStr (isoformat ''T'' now)) (dict_set ''phase'' (PStr phase) (progress_of c))"
  by (simp add: progress_of_def with_progress_phase_def job_progress_def py_get_def as_dict_def)

lemma completed_phase:
  "string_list (py_get (progress_of (with_progress_phase c phase now)) ''completed_repositories'') =
   string_list (py_get (progress_of c) ''completed_repositories'')"
  by (simp add: progress_of_phase py_get_dict_set)

lemma map_filter_as_str: "List.map_filter as_str (map PStr xs) = xs"
  by (induction xs) (simp_all add: List.map_filter_def as_str_def)

lemma completed_progress_after:
  "string_list (py_get (progress_of (Some [(''github_app_live_sync_progress'',
      PDict (progress_after now n l p xs ys c))])) ''completed_repositories'') = filter (\<lambda>s. strip s \<noteq> []) xs"
  by (simp add: progress_of_def job_progress_def py_get_def as_dict_def progress_after_def string_list_def
      map_filter_as_str)

lemma completed_nonblank: "s \<in> set (completed_of j) \<Longrightarrow> strip s \<noteq> []"
  by (auto simp: completed_of_def string_list_def split: pyval.splits)

lemma filter_completed [simp]: "filter (\<lambda>s. strip s \<noteq> []) (completed_of j) = completed_of j"
  using completed_nonblank by (simp add: filter_id_conv)

section \<open>The operations on a row\<close>

lemma claimed_moves: "claimable now j \<Longrightarrow> job_moves (Some w) j (claimed_by st w now j)"
proof -
  assume c: "claimable now j"
  have "sync_job_ok (claimed_by st w now j)" if "sync_job_ok j"
    using that c by (auto simp: sync_job_ok_def claimed_by_def claimable_def completed_of_def completed_phase
        FINISHED_STATUSES_def split: option.splits)
  moreover have "life_step (Some w) (life_of j) (life_of (claimed_by st w now j))"
  proof -
    have "life_of (claimed_by st w now j) = (life_of j)\<lparr>lf_phase := Held w, lf_attempts := lf_attempts (life_of j) + 1\<rparr>"
      by (simp add: life_of_def claimed_by_def completed_of_def completed_phase)
    moreover have "\<not> ended (lf_phase (life_of j))" "lf_attempts (life_of j) < lf_max (life_of j)"
      using c by (auto simp: claimable_def life_of_def ended_def)
    ultimately show ?thesis using life_step.claim by metis
  qed
  ultimately show ?thesis by (simp add: job_moves_def claimed_by_def)
qed

definition live_status :: "sync_job \<Rightarrow> bool" where
  "live_status j \<longleftrightarrow> sj_status j = Queued \<or> sj_status j = SyncRunning"

lemma live_not_ended: "live_status j \<Longrightarrow> \<not> ended (lf_phase (life_of j))"
  by (auto simp: live_status_def life_of_def ended_def)

lemma failing_moves:
  assumes "live_status j" "sj_id j' = sj_id j" "sj_workspace_id j' = sj_workspace_id j" "sj_status j' = SyncFailed"
    and "sj_lease_owner j' = None" "sj_lease_expires_at j' = None" "sj_finished_at j' \<noteq> None"
    and "sj_attempt_count j' = sj_attempt_count j" "sj_max_attempts j' = sj_max_attempts j"
    and "sj_cancel_requested_at j' = sj_cancel_requested_at j" "completed_of j' = completed_of j"
  shows "job_moves None j j'"
proof -
  have "life_of j' = (life_of j)\<lparr>lf_phase := Ended SyncFailed\<rparr>" using assms by (simp add: life_of_def)
  then have "life_step None (life_of j) (life_of j')" using life_step.fail [OF live_not_ended [OF assms(1)]] by simp
  moreover have "sync_job_ok j'" if "sync_job_ok j"
    using that assms by (auto simp: sync_job_ok_def FINISHED_STATUSES_def live_status_def)
  ultimately show ?thesis using assms by (simp add: job_moves_def)
qed

lemma cancelling_moves:
  assumes "live_status j" "sj_id j' = sj_id j" "sj_workspace_id j' = sj_workspace_id j" "sj_status j' = Cancelled"
    and "sj_lease_owner j' = None" "sj_lease_expires_at j' = None" "sj_finished_at j' \<noteq> None"
    and "sj_attempt_count j' = sj_attempt_count j" "sj_max_attempts j' = sj_max_attempts j"
    and "completed_of j' = completed_of j"
  shows "job_moves None j j'"
proof -
  have "life_of j' = (life_of j)\<lparr>lf_phase := Ended Cancelled\<rparr>" using assms by (simp add: life_of_def)
  then have "life_step None (life_of j) (life_of j')" using life_step.cancel [OF live_not_ended [OF assms(1)]] by simp
  moreover have "sync_job_ok j'" if "sync_job_ok j"
    using that assms by (auto simp: sync_job_ok_def FINISHED_STATUSES_def)
  ultimately show ?thesis using assms by (simp add: job_moves_def)
qed

lemma exhausted_moves: "lease_exhausted now j \<Longrightarrow> job_moves None j (exhausted now j)"
  by (rule failing_moves) (auto simp: lease_exhausted_def live_status_def exhausted_def completed_of_def)

lemma unparsable_moves: "claimable now j \<Longrightarrow> job_moves None j (unparsable now j)"
  by (rule failing_moves) (auto simp: claimable_def live_status_def unparsable_def completed_of_def completed_phase)

lemma failed_for_good_moves:
  "live_status j \<Longrightarrow> job_moves None j (lease_dropped now phase code (failed_for_good now j))"
  by (rule failing_moves) (auto simp: lease_dropped_def failed_for_good_def completed_of_def completed_phase)

lemma mark_cancelled_moves: "live_status j \<Longrightarrow> job_moves None j (mark_cancelled now j)"
  by (rule cancelling_moves) (auto simp: mark_cancelled_def completed_of_def completed_phase)

lemma cancelled_by_request_moves: "live_status j \<Longrightarrow> job_moves None j (cancelled_by_request rb now j)"
  by (rule cancelling_moves) (auto simp: cancelled_by_request_def completed_of_def)

lemma retried_moves:
  assumes "sj_status j = SyncRunning" "sj_attempt_count j < sj_max_attempts j"
  shows "job_moves None j (lease_dropped now phase code (retried st now j))" (is "job_moves None j ?j")
proof -
  have "life_of ?j = (life_of j)\<lparr>lf_phase := Waiting\<rparr>"
    by (simp add: life_of_def lease_dropped_def retried_def completed_of_def completed_phase)
  moreover have "lf_phase (life_of j) = Held (case sj_lease_owner j of Some w \<Rightarrow> w | None \<Rightarrow> [])"
    "lf_attempts (life_of j) < lf_max (life_of j)" using assms by (simp_all add: life_of_def)
  ultimately have "life_step None (life_of j) (life_of ?j)" using life_step.retry by metis
  moreover have "sync_job_ok ?j" if "sync_job_ok j"
    using that assms by (auto simp: sync_job_ok_def FINISHED_STATUSES_def lease_dropped_def retried_def completed_of_def
        completed_phase)
  ultimately show ?thesis by (simp add: job_moves_def lease_dropped_def retried_def)
qed

lemma renewed_moves:
  assumes "sj_status j = SyncRunning"
  shows "job_moves None j (j\<lparr>sj_lease_expires_at := Some t, sj_updated_at := now\<rparr>)"
  using assms by (auto simp: job_moves_def sync_job_ok_def life_of_def completed_of_def life_step.stay)

lemma resumed_moves:
  assumes "sj_status j = SyncRunning" "status \<in> {SyncSucceeded, Partial}"
  shows "job_moves None j (j\<lparr>sj_status := status, sj_finished_at := Some now, sj_lease_owner := None,
     sj_lease_expires_at := None, sj_cursor_after := with_progress_phase (sj_cursor_after j) phase now,
     sj_updated_at := now\<rparr>)" (is "job_moves None j ?j")
proof -
  have "life_of ?j = (life_of j)\<lparr>lf_phase := Ended status\<rparr>"
    using assms(2) by (auto simp: life_of_def completed_of_def completed_phase)
  moreover have "lf_phase (life_of j) = Held (case sj_lease_owner j of Some w \<Rightarrow> w | None \<Rightarrow> [])"
    using assms by (simp add: life_of_def)
  ultimately have "life_step None (life_of j) (life_of ?j)" using life_step.resume assms(2) by metis
  moreover have "sync_job_ok ?j" if "sync_job_ok j"
    using that assms by (auto simp: sync_job_ok_def FINISHED_STATUSES_def completed_of_def completed_phase)
  ultimately show ?thesis by (simp add: job_moves_def)
qed

lemma filter_string_list [simp]: "filter (\<lambda>s. strip s \<noteq> []) (string_list v) = string_list v"
  by (cases v) (simp_all add: string_list_def)

lemma completed_persisted:
  "completed_of (persisted_job st now p b request nr j) =
     completed_of j @ filter (\<lambda>s. strip s \<noteq> []) [rb_full_name b]"
proof -
  have "sj_cursor_after (persisted_job st now p b request nr j) = Some [(''github_app_live_sync_progress'',
      PDict (progress_after now (int (length (pp_repositories p))) (batch_is_last p j)
        (truthy (py_get (progress_of (sj_cursor_after j)) ''partial'') \<or> nr_status nr = Partial)
        (completed_of j @ [rb_full_name b])
        (summary_list (py_get (progress_of (sj_cursor_after j)) ''repositories'') @ [PDict (batch_summary b)])
        (counts_after (counts_of (py_get (progress_of (sj_cursor_after j)) ''counts'')) b)))]"
    by (simp add: persisted_job_def Let_def)
  then show ?thesis
    unfolding completed_of_def [of "persisted_job st now p b request nr j"]
    by (simp add: completed_progress_after del: filter.simps)
qed

lemma persisted_fields:
  "sj_status (persisted_job st now p b request nr j) \<in>
     (if batch_is_last p j then {SyncSucceeded, Partial} else {SyncRunning})"
  "sj_id (persisted_job st now p b request nr j) = sj_id j"
  "sj_workspace_id (persisted_job st now p b request nr j) = sj_workspace_id j"
  "sj_attempt_count (persisted_job st now p b request nr j) = sj_attempt_count j"
  "sj_max_attempts (persisted_job st now p b request nr j) = sj_max_attempts j"
  "sj_cancel_requested_at (persisted_job st now p b request nr j) = sj_cancel_requested_at j"
  "sj_started_at (persisted_job st now p b request nr j) = sj_started_at j"
  "sj_finished_at (persisted_job st now p b request nr j) = (if batch_is_last p j then Some now else None)"
  "sj_lease_owner (persisted_job st now p b request nr j) = (if batch_is_last p j then None else sj_lease_owner j)"
  "sj_lease_expires_at (persisted_job st now p b request nr j) =
     (if batch_is_last p j then None else Some (now + seconds (st_lease_seconds st)))"
  by (simp_all add: persisted_job_def Let_def)

lemma persisted_ok:
  assumes "sync_job_ok j" "sj_status j = SyncRunning"
    and "completed_of j' = completed_of j @ [r]" "casefold r \<notin> casefold ` set (completed_of j)"
    and "sj_status j' \<in> (if fin then {SyncSucceeded, Partial} else {SyncRunning})"
    and "sj_attempt_count j' = sj_attempt_count j" "sj_max_attempts j' = sj_max_attempts j"
    and "sj_cancel_requested_at j' = sj_cancel_requested_at j" "sj_started_at j' = sj_started_at j"
    and "sj_finished_at j' = (if fin then Some now else None)"
    and "sj_lease_owner j' = (if fin then None else sj_lease_owner j)"
    and "sj_lease_expires_at j' = (if fin then None else Some t)"
  shows "sync_job_ok j'"
proof -
  have "sj_lease_owner j \<noteq> None" "sj_cancel_requested_at j = None" "sj_started_at j \<noteq> None"
    using assms(1,2) by (auto simp: sync_job_ok_def)
  then show ?thesis using assms unfolding sync_job_ok_def
    by (cases fin) (auto simp: FINISHED_STATUSES_def)
qed

lemma persisted_moves:
  assumes "sj_status j = SyncRunning" "strip (rb_full_name b) \<noteq> []"
    and new: "casefold (rb_full_name b) \<notin> casefold ` set (completed_of j)"
  shows "job_moves None j (persisted_job st now p b request nr j)" (is "job_moves None j ?j")
proof -
  note f = persisted_fields [of st now p b request nr j]
  have comp: "completed_of ?j = completed_of j @ [rb_full_name b]" using completed_persisted assms(2) by simp
  have held: "lf_phase (life_of j) = Held (case sj_lease_owner j of Some w \<Rightarrow> w | None \<Rightarrow> [])"
    "casefold (rb_full_name b) \<notin> casefold ` set (lf_completed (life_of j))"
    using assms by (simp_all add: life_of_def)
  have "life_step None (life_of j) (life_of ?j)"
  proof (cases "batch_is_last p j")
    case True
    then have s: "sj_status ?j \<in> {SyncSucceeded, Partial}" using f(1) by simp
    then have "phase_of (sj_status ?j) (sj_lease_owner ?j) = Ended (sj_status ?j)" by auto
    then have "life_of ?j = (life_of j)\<lparr>lf_completed := lf_completed (life_of j) @ [rb_full_name b],
        lf_phase := Ended (sj_status ?j)\<rparr>"
      by (simp add: life_of_def comp f)
    then show ?thesis using life_step.complete [OF held s] by simp
  next
    case False
    then have "sj_status ?j = SyncRunning" using f(1) by simp
    then have "life_of ?j = (life_of j)\<lparr>lf_completed := lf_completed (life_of j) @ [rb_full_name b]\<rparr>"
      by (simp add: life_of_def comp f False assms(1))
    then show ?thesis using life_step.progress [OF held] by simp
  qed
  moreover have "sync_job_ok ?j" if "sync_job_ok j"
    by (rule persisted_ok [OF that assms(1) comp new f(1) f(4-10)])
  ultimately show ?thesis using f by (simp add: job_moves_def)
qed

end
