(* ===== verification/Worker_Machine.thy ===== *)
theory Worker_Machine
  imports Job_Lifecycle
begin

text \<open>
  \<^verbatim>\<open>process_one_github_sync_job\<close> of \<^verbatim>\<open>app/services/github_sync_worker_service.py\<close> as a program
  whose steps are its transactions and provider calls, and the queue with any number of such
  workers, interleaved with each other, with operators that enqueue and cancel and with
  processes that die.
\<close>

section \<open>The program of a worker\<close>

datatype worker =
    Idle
  | Preparing job_claim
  | Renewing job_claim live_prepared
  | Opening job_claim live_prepared
  | Resuming job_claim live_prepared provider_context
  | Finishing job_claim
  | Looping job_claim live_prepared provider_context "string list"
  | Reading job_claim live_prepared provider_context string "string list"
  | Persisting job_claim live_prepared provider_context repository_batch "string list"
  | Failing job_claim bool string

text \<open>
  What a step meets: the clock, the token of \<^verbatim>\<open>uuid4\<close>, the rows locked elsewhere, the provider,
  the signature, the encryption, the switch of the connectors and the normalisation.
\<close>

record worker_io =
  io_now :: time
  io_token :: uuid
  io_locked :: "uuid list"
  io_http :: transport
  io_sign :: "string \<Rightarrow> string \<Rightarrow> string option"
  io_box :: secret_box
  io_real_connectors :: bool
  io_normalize :: "unit normalizer"

text \<open>The \<^verbatim>\<open>except\<close> clauses.\<close>

fun stopped :: "job_claim \<Rightarrow> worker_stop \<Rightarrow> worker" where
  "stopped claim LostLease = Idle"
| "stopped claim WorkerCancelled = Idle"
| "stopped claim (LiveStop (LiveSyncProviderReadError _)) = Failing claim True RETRYABLE_ERROR_CODE"
| "stopped claim (LiveStop LiveSyncUnexpected) = Failing claim True UNEXPECTED_ERROR_CODE"
| "stopped claim (LiveStop _) = Failing claim False TERMINAL_ERROR_CODE"
| "stopped claim UnexpectedStop = Failing claim True UNEXPECTED_ERROR_CODE"

definition carry_on :: "job_claim \<Rightarrow> (worker_stop, 'a) result \<Rightarrow> ('a \<Rightarrow> worker) \<Rightarrow> worker" where
  "carry_on claim r k = (case r of Inl e \<Rightarrow> stopped claim e | Inr x \<Rightarrow> k x)"

fun worker_step :: "sync_settings \<Rightarrow> string \<Rightarrow> worker_io \<Rightarrow> worker \<Rightarrow> app_db \<Rightarrow> worker \<times> app_db" where
  "worker_step st worker_id io Idle db =
     (let (claim, db') = claim_next_github_sync_job st worker_id (io_token io) (io_locked io) (io_now io) db in
      (case claim of None \<Rightarrow> Idle | Some c \<Rightarrow> Preparing c, db'))"
| "worker_step st worker_id io (Preparing c) db =
     (carry_on c (map_error LiveStop (prepare_github_app_live_sync (io_real_connectors io) (io_box io)
        (cl_workspace_id c) (cl_input c) (cl_requested_by c) db)) (Renewing c), db)"
| "worker_step st worker_id io (Renewing c p) db =
     (let (r, db') = renew_or_cancel st (io_now io) c db in (carry_on c r (\<lambda>_. Opening c p), db'))"
| "worker_step st worker_id io (Opening c p) db =
     (carry_on c (map_error LiveStop (open_github_app_provider_context (io_http io) (io_sign io) (io_now io) p))
        (Resuming c p), db)"
| "worker_step st worker_id io (Resuming c p context) db =
     (carry_on c (completed_repositories c db) (\<lambda>completed.
        let remaining = filter (\<lambda>r. casefold r \<notin> completed) (pp_repositories p) in
        if remaining = [] then Finishing c else Looping c p context remaining), db)"
| "worker_step st worker_id io (Finishing c) db =
     (let (r, db') = finish_resumed_job (io_now io) c db in (carry_on c r (\<lambda>_. Idle), db'))"
| "worker_step st worker_id io (Looping c p context []) db = (Idle, db)"
| "worker_step st worker_id io (Looping c p context (repository # rest)) db =
     (let (r, db') = renew_or_cancel st (io_now io) c db in
      (carry_on c r (\<lambda>_. Reading c p context repository rest), db'))"
| "worker_step st worker_id io (Reading c p context repository rest) db =
     (carry_on c (map_error LiveStop (read_github_app_repository_batch (io_http io) (io_now io) p context repository))
        (\<lambda>batch. Persisting c p context batch rest), db)"
| "worker_step st worker_id io (Persisting c p context batch rest) db =
     (let (r, db') = persist_repository_batch st (io_normalize io) (io_now io) c p batch db in
      (carry_on c r (\<lambda>_. Looping c p context rest), db'))"
| "worker_step st worker_id io (Failing c retryable code) db =
     (Idle, retry_or_fail st (io_now io) c retryable code db)"

fun worker_claim :: "worker \<Rightarrow> job_claim option" where
  "worker_claim Idle = None"
| "worker_claim (Preparing c) = Some c"
| "worker_claim (Renewing c p) = Some c"
| "worker_claim (Opening c p) = Some c"
| "worker_claim (Resuming c p context) = Some c"
| "worker_claim (Finishing c) = Some c"
| "worker_claim (Looping c p context rs) = Some c"
| "worker_claim (Reading c p context r rs) = Some c"
| "worker_claim (Persisting c p context b rs) = Some c"
| "worker_claim (Failing c retryable code) = Some c"

section \<open>A run of the worker ends\<close>

fun work_left :: "worker \<Rightarrow> nat" where
  "work_left Idle = 0"
| "work_left (Failing c retryable code) = 1"
| "work_left (Finishing c) = 2"
| "work_left (Looping c p context rs) = 3 * length rs + 2"
| "work_left (Persisting c p context b rs) = 3 * length rs + 3"
| "work_left (Reading c p context r rs) = 3 * length rs + 4"
| "work_left (Resuming c p context) = 3 * length (pp_repositories p) + 3"
| "work_left (Opening c p) = 3 * length (pp_repositories p) + 4"
| "work_left (Renewing c p) = 3 * length (pp_repositories p) + 5"
| "work_left (Preparing c) = 3 * length (lv_repositories (cl_input c)) + 6"

lemma normalize_repositories_from_length:
  "normalize_repositories_from acc rs = Inr repos \<Longrightarrow> length repos \<le> length acc + length rs"
  by (induction acc rs arbitrary: repos rule: normalize_repositories_from.induct)
     (force split: option.splits if_splits)+

lemma prepared_repositories:
  assumes "prepare_github_app_live_sync real box w inp rb db = Inr p"
  shows "normalize_repositories (lv_repositories inp) = Inr (pp_repositories p)"
  using assms unfolding prepare_github_app_live_sync_def by (auto simp: result_iffs split: sum.splits)

lemma prepared_length:
  "prepare_github_app_live_sync real box w inp rb db = Inr p \<Longrightarrow>
     length (pp_repositories p) \<le> length (lv_repositories inp)"
  using prepared_repositories [of real box w inp rb db p]
    normalize_repositories_from_length [of "[]" "lv_repositories inp" "pp_repositories p"]
  by (auto simp: normalize_repositories_def result_iffs)

lemma work_left_stopped: "work_left (stopped c e) \<le> 1"
  by (induction c e rule: stopped.induct) auto

lemma work_left_carry_on:
  "(\<And>x. r = Inr x \<Longrightarrow> work_left (k x) < n) \<Longrightarrow> 1 < n \<Longrightarrow> work_left (carry_on c r k) < n"
  using work_left_stopped [of c] by (auto simp: carry_on_def split: sum.split intro: le_less_trans)

lemma worker_step_decreases:
  "w \<noteq> Idle \<Longrightarrow> work_left (fst (worker_step st worker_id io w db)) < work_left w"
proof (induction st worker_id io w db rule: worker_step.induct)
  case (2 st worker_id io c db)
  then show ?case
    by (simp, intro work_left_carry_on) (auto simp: map_error_Inr_iff dest!: prepared_length)
next
  case (5 st worker_id io c p ctx db)
  then show ?case
    by (simp, intro work_left_carry_on) (auto simp: Let_def le_imp_less_Suc intro: le_less_trans [OF mult_le_mono2])
qed (auto simp: Let_def split: prod.split intro!: work_left_carry_on)

text \<open>The states of a worker under any sequence of databases and circumstances.\<close>

primrec worker_trace :: "sync_settings \<Rightarrow> string \<Rightarrow> (nat \<Rightarrow> worker_io) \<Rightarrow> (nat \<Rightarrow> app_db) \<Rightarrow> worker \<Rightarrow> nat \<Rightarrow> worker" where
  "worker_trace st worker_id io db w 0 = w"
| "worker_trace st worker_id io db w (Suc n) =
     fst (worker_step st worker_id (io n) (worker_trace st worker_id io db w n) (db n))"

lemma worker_trace_left:
  "(\<exists>k\<le>n. worker_trace st worker_id io db w k = Idle) \<or>
     work_left (worker_trace st worker_id io db w n) + n \<le> work_left w"
proof (induction n)
  case (Suc n)
  let ?w = "worker_trace st worker_id io db w n"
  consider "\<exists>k\<le>n. worker_trace st worker_id io db w k = Idle"
    | "?w \<noteq> Idle" "work_left ?w + n \<le> work_left w"
    using Suc by blast
  then show ?case
  proof cases
    case 1
    then show ?thesis by (blast intro: le_SucI)
  next
    case 2
    then show ?thesis using worker_step_decreases [of ?w st worker_id "io n" "db n"] by simp
  qed
qed simp

lemma worker_trace_ends: "\<exists>k\<le>work_left w. worker_trace st worker_id io db w k = Idle"
proof -
  have z: "work_left x = 0 \<Longrightarrow> x = Idle" for x by (cases x) auto
  have "work_left (worker_trace st worker_id io db w (work_left w)) + work_left w \<le> work_left w
      \<Longrightarrow> worker_trace st worker_id io db w (work_left w) = Idle"
    by (rule z) simp
  then show ?thesis using worker_trace_left [where n = "work_left w"] by blast
qed

text \<open>C14. Processing a claim ends. Whatever the provider answers, whatever the other workers and
  the operators do to the database between the steps, and however often the lease is lost, a
  worker that has taken a claim is back at the queue after at most three steps per requested
  repository and six more.\<close>

theorem process_one_terminates:
  "\<exists>n\<le>3 * length (lv_repositories (cl_input claim)) + 6.
     worker_trace st worker_id io db (Preparing claim) n = Idle"
  using worker_trace_ends [of "Preparing claim"] by simp

end
