(* ===== verification/Iso_Datetime.thy ===== *)
theory Iso_Datetime
  imports Live_Sync
begin

text \<open>
  \<^verbatim>\<open>datetime.fromisoformat\<close> of Python 3.12, as \<^verbatim>\<open>_parse_optional_datetime\<close> of
  \<^verbatim>\<open>app/services/github_normalization_service.py\<close> uses it: calendar dates and week dates, in the
  extended and the basic format, any separator, a clock time with an optional fraction and an
  optional offset. The text has no \<^verbatim>\<open>Z\<close> any more when it is parsed. The oddities of the C
  parser are part of the definition: a character before the offset may be ignored, and an offset
  below a second counts as none.
\<close>

section \<open>Dates as day numbers\<close>

definition is_leap :: "int \<Rightarrow> bool" where
  "is_leap y \<longleftrightarrow> y mod 4 = 0 \<and> (y mod 100 \<noteq> 0 \<or> y mod 400 = 0)"

definition days_in_month :: "int \<Rightarrow> int \<Rightarrow> int" where
  "days_in_month y m = (if m = 2 then if is_leap y then 29 else 28
     else if m \<in> {4, 6, 9, 11} then 30 else 31)"

text \<open>Days since 1 January 1970, a Thursday; the weekday counts from Monday, 0.\<close>

definition day_number :: "int \<Rightarrow> int \<Rightarrow> int \<Rightarrow> int" where
  "day_number y m d = (let y' = (if m \<le> 2 then y - 1 else y); era = y' div 400; yoe = y' - era * 400;
       doy = (153 * (if m > 2 then m - 3 else m + 9) + 2) div 5 + d - 1;
       doe = yoe * 365 + yoe div 4 - yoe div 100 + doy in
     era * 146097 + doe - 719468)"

definition weekday :: "int \<Rightarrow> int" where
  "weekday day = (day + 3) mod 7"

definition valid_date :: "int \<Rightarrow> int \<Rightarrow> int \<Rightarrow> bool" where
  "valid_date y m d \<longleftrightarrow> 1 \<le> y \<and> y \<le> 9999 \<and> 1 \<le> m \<and> m \<le> 12 \<and> 1 \<le> d \<and> d \<le> days_in_month y m"

definition week_date :: "int \<Rightarrow> int \<Rightarrow> int \<Rightarrow> int option" where
  "week_date y week wd = (let first = weekday (day_number y 1 1) in
     if 1 \<le> y \<and> y \<le> 9999 \<and> 1 \<le> wd \<and> wd \<le> 7
         \<and> (1 \<le> week \<and> week \<le> 52 \<or> week = 53 \<and> (first = 3 \<or> first = 2 \<and> is_leap y))
     then (let day = day_number y 1 1 - first + (if first > 3 then 7 else 0) + (week - 1) * 7 + wd - 1 in
       if day_number 1 1 1 \<le> day \<and> day \<le> day_number 9999 12 31 then Some day else None)
     else None)"

section \<open>Texts\<close>

fun parse_digits :: "nat \<Rightarrow> int \<Rightarrow> string \<Rightarrow> (int \<times> string) option" where
  "parse_digits 0 acc s = Some (acc, s)"
| "parse_digits (Suc n) acc s = (case s of [] \<Rightarrow> None
     | c # r \<Rightarrow> if is_digit c then parse_digits n (10 * acc + int (of_char c) - 48) r else None)"

definition char_at :: "string \<Rightarrow> nat \<Rightarrow> char" where
  "char_at s i = (if i < length s then s ! i else char_of (0 :: nat))"

text \<open>\<open>date_end s\<close> is the place of the separator between date and time.\<close>

definition date_end :: "string \<Rightarrow> nat option" where
  "date_end s = (let n = length s; digits = length (takeWhile is_digit (drop 7 s)) + 7 in
     if n < 7 then None else if n = 7 then Some 7
     else if char_at s 4 = CHR ''-'' then
       (if char_at s 5 = CHR ''W'' then
          (if char_at s 8 = CHR ''-'' then
             (if n = 9 then None else if is_digit (char_at s 10) then Some 8 else Some 10)
           else Some 8)
        else Some 10)
     else if char_at s 4 = CHR ''W'' then
       (if digits < 9 then Some digits else if digits mod 2 = 0 then Some 7 else Some 8)
     else Some 8)"

definition parse_date :: "string \<Rightarrow> int option" where
  "parse_date s = (case parse_digits 4 0 s of None \<Rightarrow> None
     | Some (y, r) \<Rightarrow>
       (let sep = (r \<noteq> [] \<and> hd r = CHR ''-''); r1 = (if sep then tl r else r) in
        if r1 \<noteq> [] \<and> hd r1 = CHR ''W'' then
          (case parse_digits 2 0 (tl r1) of None \<Rightarrow> None
           | Some (week, r2) \<Rightarrow>
              if r2 = [] then week_date y week 1
              else if sep \<and> hd r2 \<noteq> CHR ''-'' then None
              else (case parse_digits 1 0 (if sep then tl r2 else r2) of None \<Rightarrow> None
                | Some (wd, _) \<Rightarrow> week_date y week wd))
        else (case parse_digits 2 0 r1 of None \<Rightarrow> None
          | Some (m, r2) \<Rightarrow>
             if sep \<and> (r2 = [] \<or> hd r2 \<noteq> CHR ''-'') then None
             else (case parse_digits 2 0 (if sep then tl r2 else r2) of None \<Rightarrow> None
               | Some (d, r3) \<Rightarrow> if r3 = [] \<and> valid_date y m d then Some (day_number y m d) else None))))"

text \<open>
  A clock time: hours, minutes, seconds, microseconds, and whether a character is left. The
  fraction has up to six digits that count.
\<close>

definition clock_fraction :: "int list \<Rightarrow> string \<Rightarrow> (int list \<times> int \<times> bool) option" where
  "clock_fraction vs s = (let k = min 6 (length s) in
     case parse_digits k 0 s of None \<Rightarrow> None
     | Some (us, r) \<Rightarrow> Some (vs, us * 10 ^ (6 - k), dropWhile is_digit r \<noteq> []))"

fun clock_parts :: "nat \<Rightarrow> bool \<Rightarrow> int list \<Rightarrow> string \<Rightarrow> (int list \<times> int \<times> bool) option" where
  "clock_parts 0 sep vs s = clock_fraction vs s"
| "clock_parts (Suc n) sep vs s = (case parse_digits 2 0 s of None \<Rightarrow> None
     | Some (v, r) \<Rightarrow>
       (let sep' = (if vs = [] then r \<noteq> [] \<and> hd r = CHR '':'' else sep) in
        if length r \<le> 1 then Some (vs @ [v], 0, r \<noteq> [])
        else if sep' \<and> hd r = CHR '':'' then clock_parts n sep' (vs @ [v]) (tl r)
        else if hd r = CHR ''.'' \<or> hd r = CHR '','' then clock_fraction (vs @ [v]) (tl r)
        else if \<not> sep' then clock_parts n sep' (vs @ [v]) r
        else None))"

definition seconds_of :: "int list \<Rightarrow> int" where
  "seconds_of vs = (case vs @ [0, 0, 0] of h # m # s # _ \<Rightarrow> h * 3600 + m * 60 + s | _ \<Rightarrow> 0)"

definition valid_clock :: "int list \<Rightarrow> bool" where
  "valid_clock vs \<longleftrightarrow> (case vs @ [0, 0, 0] of h # m # s # _ \<Rightarrow> h < 24 \<and> m < 60 \<and> s < 60 | _ \<Rightarrow> False)"

definition parse_offset :: "string \<Rightarrow> time option" where
  "parse_offset z = (case clock_parts 3 True [] (tl z) of None \<Rightarrow> None
     | Some (vs, us, rest) \<Rightarrow>
       (let offset = (if seconds_of vs = 0 then 0 else seconds (seconds_of vs) + us) in
        if rest \<or> offset \<ge> days 1 then None else Some (if hd z = CHR ''-'' then - offset else offset)))"

text \<open>The microseconds of the day and the offset, if there is one.\<close>

definition parse_clock :: "string \<Rightarrow> (time \<times> time option) option" where
  "parse_clock s = (let sign = (\<lambda>c. c = CHR ''+'' \<or> c = CHR ''-''); z = dropWhile (\<lambda>c. \<not> sign c) s in
     case clock_parts 3 True [] (takeWhile (\<lambda>c. \<not> sign c) s) of None \<Rightarrow> None
     | Some (vs, us, rest) \<Rightarrow>
        if \<not> valid_clock vs then None
        else if z = [] then (if rest then None else Some (seconds (seconds_of vs) + us, None))
        else map_option (\<lambda>o'. (seconds (seconds_of vs) + us, Some o')) (parse_offset z))"

text \<open>A time without offset is \<open>Naive\<close>; one with an offset is its UTC time.\<close>

datatype iso_time = Naive time | Aware time

definition fromisoformat :: "string \<Rightarrow> iso_time option" where
  "fromisoformat s = (case date_end s of None \<Rightarrow> None
     | Some n \<Rightarrow> (case parse_date (take n s) of None \<Rightarrow> None
       | Some day \<Rightarrow>
         (if length s \<le> n then Some (Naive (days day))
          else (case parse_clock (drop (n + 1) s) of None \<Rightarrow> None
            | Some (t, None) \<Rightarrow> Some (Naive (days day + t))
            | Some (t, Some offset) \<Rightarrow> Some (Aware (days day + t - offset))))))"

end
