(* ===== verification/GitHub_Records.thy ===== *)
theory GitHub_Records
  imports Iso_Datetime Sync_Worker
begin

text \<open>
  The pure half of \<^verbatim>\<open>app/services/github_normalization_service.py\<close>: from the records of a batch
  to normalised repositories, issues and pull requests, their metadata, payloads and hashes.
  Where the service's helpers have the names of another service's, they start with \<open>norm_\<close>.
\<close>

section \<open>Errors\<close>

text \<open>
  What normalisation raises: its own exception, the \<^verbatim>\<open>ValueError\<close> of the reconciliation or of
  \<^verbatim>\<open>int\<close>, an error of the memory ledger, a value or row the database refuses.
\<close>

datatype norm_error =
    GitHubNormalizationError string
  | NormValueError string
  | NormMemoryError memory_error
  | NormDatabaseError

section \<open>Texts\<close>

definition dict_update :: "pydict \<Rightarrow> pydict \<Rightarrow> pydict" where
  "dict_update d kvs = foldl (\<lambda>d (k, v). dict_set k v d) d kvs"

definition removesuffix :: "string \<Rightarrow> string \<Rightarrow> string" where
  "removesuffix suffix s = (let n = length s - length suffix in if length suffix \<le> length s \<and> drop n s = suffix then take n s else s)"

definition norm_text :: "nat \<Rightarrow> pyval \<Rightarrow> string option" where
  "norm_text limit value = optional_text_limit limit (as_str value)"

definition or_text :: "string option \<Rightarrow> string \<Rightarrow> string" where
  "or_text x other = (case x of Some t \<Rightarrow> t | None \<Rightarrow> other)"

definition norm_title :: "pyval \<Rightarrow> string \<Rightarrow> string" where
  "norm_title value fallback = take 500 (or_text (norm_text 500 value) fallback)"

definition norm_visibility :: "pyval \<Rightarrow> string" where
  "norm_visibility value = (case norm_text 1000 value of
     Some t \<Rightarrow> if t \<in> {''public'', ''private'', ''internal'', ''unknown''} then t else ''unknown'' | None \<Rightarrow> ''unknown'')"

definition norm_source :: "pyval \<Rightarrow> string" where
  "norm_source value = (case norm_text 1000 value of
     Some t \<Rightarrow> if t \<in> {''repo_audit'', ''repository_inventory'', ''source_control'', ''github_connector'',
         ''selected_repository_issue_sync'', ''selected_repository_pr_sync''} then t else ''unknown''
   | None \<Rightarrow> ''unknown'')"

definition norm_url :: "pyval \<Rightarrow> string option" where
  "norm_url value = (case norm_text 1000 value of
     Some t \<Rightarrow> if CHR ''@'' \<notin> set t then Some (take 1000 t) else None | None \<Rightarrow> None)"

text \<open>\<^verbatim>\<open>int\<close> of a text of digits may raise \<^verbatim>\<open>ValueError\<close>.\<close>

definition norm_int :: "pyval \<Rightarrow> (norm_error, int option) result" where
  "norm_int value = (case value of
     PInt i \<Rightarrow> Inr (Some i)
   | PStr s \<Rightarrow> if isdigit (strip s)
       then (case decimal_value (strip s) of Some n \<Rightarrow> Inr (Some n) | None \<Rightarrow> Inl (NormValueError ''int''))
       else Inr None
   | _ \<Rightarrow> Inr None)"

text \<open>A naive time is what the driver makes of it in the zone of the process, \<open>local_zone\<close>.\<close>

definition parse_optional_datetime :: "(time \<Rightarrow> time) \<Rightarrow> pyval \<Rightarrow> time option" where
  "parse_optional_datetime local_zone value = (case norm_text 1000 value of None \<Rightarrow> None
     | Some t \<Rightarrow> (case fromisoformat (replace_all ''Z'' ''+00:00'' t) of None \<Rightarrow> None
         | Some (Naive u) \<Rightarrow> Some (local_zone u) | Some (Aware u) \<Rightarrow> Some u))"

section \<open>Payloads\<close>

definition metadata_key_is_sensitive :: "string \<Rightarrow> bool" where
  "metadata_key_is_sensitive key \<longleftrightarrow> (let normalized = map (\<lambda>c. if c = CHR ''-'' then CHR ''_'' else c) (casefold key) in
     \<exists>marker\<in>set [''api_key'', ''auth_header'', ''authorization'', ''credential'', ''password'', ''private_key'',
       ''secret'', ''token'', ''webhook'']. is_infix marker normalized)"

definition str_of_other :: "pyval \<Rightarrow> string" where
  "str_of_other v = or_text (str_default v) []"

fun sanitize_payload :: "pyval \<Rightarrow> pyval"
  and sanitize_payload_list :: "pyval list \<Rightarrow> pyval list"
  and sanitize_payload_items :: "pydict \<Rightarrow> pydict"
where
  "sanitize_payload (PDict kvs) = PDict (sanitize_payload_items kvs)"
| "sanitize_payload (PList xs) = PList (take 100 (sanitize_payload_list xs))"
| "sanitize_payload (PStr s) = PStr (take 1000 s)"
| "sanitize_payload PNone = PNone"
| "sanitize_payload (PBool b) = PBool b"
| "sanitize_payload (PInt i) = PInt i"
| "sanitize_payload (PFloat f) = PFloat f"
| "sanitize_payload (PUuid u) = PStr (take 1000 (str_of_other (PUuid u)))"
| "sanitize_payload (PTime t) = PStr (take 1000 (str_of_other (PTime t)))"
| "sanitize_payload_list [] = []"
| "sanitize_payload_list (x # xs) = sanitize_payload x # sanitize_payload_list xs"
| "sanitize_payload_items [] = []"
| "sanitize_payload_items ((k, v) # kvs) =
     (if metadata_key_is_sensitive k then sanitize_payload_items kvs
      else (k, sanitize_payload v) # sanitize_payload_items kvs)"

fun norm_metadata :: "pydict \<Rightarrow> pydict"
  and norm_metadata_value :: "pyval \<Rightarrow> pyval"
where
  "norm_metadata [] = []"
| "norm_metadata ((k, v) # kvs) =
     (if metadata_key_is_sensitive k then norm_metadata kvs else (k, norm_metadata_value v) # norm_metadata kvs)"
| "norm_metadata_value (PStr s) = PStr (take 500 s)"
| "norm_metadata_value PNone = PNone"
| "norm_metadata_value (PBool b) = PBool b"
| "norm_metadata_value (PInt i) = PInt i"
| "norm_metadata_value (PFloat f) = PFloat f"
| "norm_metadata_value (PList xs) = PList (take 20 xs)"
| "norm_metadata_value (PDict d) = PDict (norm_metadata d)"
| "norm_metadata_value (PUuid u) = PStr (take 500 (str_of_other (PUuid u)))"
| "norm_metadata_value (PTime t) = PStr (take 500 (str_of_other (PTime t)))"

definition metadata_of :: "pyval \<Rightarrow> pydict" where
  "metadata_of value = (case value of PDict d \<Rightarrow> norm_metadata d | _ \<Rightarrow> [])"

definition or_list :: "pyval \<Rightarrow> pyval" where
  "or_list v = (if truthy v then v else PList [])"

definition or_dict :: "pyval \<Rightarrow> pyval" where
  "or_dict v = (if truthy v then v else PDict [])"

definition sanitized_dict :: "pydict \<Rightarrow> pydict" where
  "sanitized_dict d = sanitize_payload_items d"

definition payload_json_opts :: json_opts where
  "payload_json_opts = \<lparr> sort_keys = True, compact = True, ensure_ascii = True, allow_nan = True,
     default_text = str_default \<rparr>"

definition stable_payload_hash :: "sha \<Rightarrow> pydict \<Rightarrow> string" where
  "stable_payload_hash sha payload = sha (utf8 (or_text (dumps payload_json_opts (PDict payload)) []))"

definition source_record_payload :: "string \<Rightarrow> string \<Rightarrow> pydict \<Rightarrow> pydict" where
  "source_record_payload record_type normalized_key record =
     sanitized_dict [(''record_type'', PStr record_type), (normalized_key, PDict record),
       (''evidence_refs'', or_list (py_get record ''evidence_refs''))]"

section \<open>Names of repositories\<close>

text \<open>\<^verbatim>\<open>^[A-Za-z0-9_.-]+$\<close>; the dollar also matches before a final newline.\<close>

definition safe_repo_part_re :: "string \<Rightarrow> bool" where
  "safe_repo_part_re t = (let u = (if t \<noteq> [] \<and> List.last t = char_of (10 :: nat) then butlast t else t) in
     u \<noteq> [] \<and> (\<forall>c\<in>set u. is_ascii_letter c \<or> is_digit c \<or> c \<in> {CHR ''_'', CHR ''.'', CHR ''-''}))"

definition norm_repo_part :: "string \<Rightarrow> string option" where
  "norm_repo_part value = (case norm_text 1000 (PStr value) of None \<Rightarrow> None
     | Some t \<Rightarrow> (let u = removesuffix ''.git'' t in
         if CHR ''/'' \<in> set u \<or> \<not> safe_repo_part_re u then None else Some u))"

definition owner_and_name :: "string \<Rightarrow> string \<Rightarrow> string option" where
  "owner_and_name a b = (case (norm_repo_part a, norm_repo_part b) of
     (Some owner, Some repo) \<Rightarrow> Some (owner @ ''/'' @ repo) | _ \<Rightarrow> None)"

definition norm_full_name :: "pyval \<Rightarrow> string option" where
  "norm_full_name value = (case norm_text 1000 value of None \<Rightarrow> None
     | Some t \<Rightarrow> (case split_char CHR ''/'' (removesuffix ''.git'' t) of [a, b] \<Rightarrow> owner_and_name a b | _ \<Rightarrow> None))"

fun after_infix :: "string \<Rightarrow> string \<Rightarrow> string option" where
  "after_infix x [] = (if x = [] then Some [] else None)"
| "after_infix x (c # cs) = (if is_prefix x (c # cs) then Some (drop (length x) (c # cs)) else after_infix x cs)"

definition strip_slashes :: "string \<Rightarrow> string" where
  "strip_slashes s = (let slash = (\<lambda>c. c = CHR ''/'') in rev (dropWhile slash (rev (dropWhile slash s))))"

definition github_full_name_from_url :: "pyval \<Rightarrow> string option" where
  "github_full_name_from_url value = (case norm_text 1000 value of None \<Rightarrow> None
     | Some t \<Rightarrow> (case after_infix ''github.com/'' t of None \<Rightarrow> None
       | Some rest \<Rightarrow>
         (case split_char CHR ''/'' (strip_slashes (takeWhile (\<lambda>c. c \<noteq> CHR ''#'') (takeWhile (\<lambda>c. c \<noteq> CHR ''?'') rest))) of
            a # b # _ \<Rightarrow> owner_and_name a b | _ \<Rightarrow> None)))"

definition repository_url_from_full_name :: "string \<Rightarrow> string option" where
  "repository_url_from_full_name full_name =
     map_option (\<lambda>safe. ''https://github.com/'' @ safe) (norm_full_name (PStr full_name))"

definition repository_candidates :: "pydict \<Rightarrow> pyval list" where
  "repository_candidates record =
     map (py_get record) [''repository_full_name'', ''full_name'', ''repository_name'', ''source_url'', ''html_url'',
       ''web_url'', ''url'']
     @ (case py_get record ''repository'' of
          PDict r \<Rightarrow> map (py_get r) [''full_name'', ''name_with_owner'', ''html_url'', ''url''] | _ \<Rightarrow> [])"

definition candidate_full_name :: "pyval \<Rightarrow> string option" where
  "candidate_full_name v = (case norm_full_name v of Some t \<Rightarrow> Some t | None \<Rightarrow> github_full_name_from_url v)"

fun first_some :: "('a \<Rightarrow> 'b option) \<Rightarrow> 'a list \<Rightarrow> 'b option" where
  "first_some f [] = None"
| "first_some f (x # xs) = (case f x of Some y \<Rightarrow> Some y | None \<Rightarrow> first_some f xs)"

definition record_repository_full_name :: "pydict \<Rightarrow> string option" where
  "record_repository_full_name record = first_some candidate_full_name (repository_candidates record)"

section \<open>Work items\<close>

definition work_item_source_url :: "pydict \<Rightarrow> string option" where
  "work_item_source_url record =
     first_some (\<lambda>k. norm_url (py_get record k)) [''source_url'', ''html_url'', ''web_url'', ''url'']"

definition work_item_external_id ::
  "pydict \<Rightarrow> string option \<Rightarrow> string \<Rightarrow> int option \<Rightarrow> string option \<Rightarrow> string" where
  "work_item_external_id record repository_full_name kind number source_url =
     (case first_some (\<lambda>k. norm_text 255 (py_get record k)) [''external_id'', ''id''] of
        Some explicit \<Rightarrow> if explicit \<noteq> ''unknown'' then explicit else
          (case (repository_full_name, number) of
             (Some name, Some n) \<Rightarrow> take 255 (name @ ''#'' @ kind @ ''/'' @ show_int n)
           | _ \<Rightarrow> take 255 (or_text source_url (''unknown-github-'' @ kind)))
      | None \<Rightarrow>
          (case (repository_full_name, number) of
             (Some name, Some n) \<Rightarrow> take 255 (name @ ''#'' @ kind @ ''/'' @ show_int n)
           | _ \<Rightarrow> take 255 (or_text source_url (''unknown-github-'' @ kind))))"

definition external_id_from_normalized :: "pydict \<Rightarrow> string" where
  "external_id_from_normalized record = or_text (norm_text 255 (py_get record ''external_id'')) ''unknown''"

definition object_metadata :: "pydict \<Rightarrow> string \<Rightarrow> string option \<Rightarrow> pyval \<Rightarrow> pydict" where
  "object_metadata metadata kind repository_full_name number =
     dict_update metadata [(''github_object_type'', PStr kind),
       (''repository_full_name'', opt_val PStr repository_full_name),
       (''repository_external_id'', opt_val PStr repository_full_name), (''number'', number)]"

definition work_item_metadata :: "pydict \<Rightarrow> string \<Rightarrow> string option \<Rightarrow> int option \<Rightarrow> pydict" where
  "work_item_metadata record kind repository_full_name number =
     sanitized_dict (object_metadata (metadata_of (py_get record ''metadata'')) kind repository_full_name
       (opt_val PInt number))"

definition stored_metadata :: "string \<Rightarrow> pydict \<Rightarrow> pydict" where
  "stored_metadata kind item =
     sanitized_dict (dict_set ''evidence_refs'' (or_list (py_get item ''evidence_refs''))
       (object_metadata (metadata_of (py_get item ''metadata'')) kind
         (norm_text 1000 (py_get item ''repository_full_name''))
         (if as_int (py_get item ''number'') = None then PNone else py_get item ''number'')))"

definition task_metadata :: "pydict \<Rightarrow> pydict" where
  "task_metadata issue = stored_metadata ''issue'' issue"

definition pull_request_metadata :: "pydict \<Rightarrow> pydict" where
  "pull_request_metadata pull_request = stored_metadata ''pull_request'' pull_request"

definition norm_evidence_ref :: "pyval \<Rightarrow> pyval option" where
  "norm_evidence_ref item = (case item of
     PDict d \<Rightarrow> (case norm_text 1000 (py_get d ''ref'') of None \<Rightarrow> None
       | Some ref \<Rightarrow> Some (PDict [(''kind'', PStr (or_text (norm_text 1000 (py_get d ''kind'')) ''source_event'')),
           (''source'', PStr (or_text (norm_text 1000 (py_get d ''source'')) ''unknown'')),
           (''ref'', PStr ref), (''url'', opt_val PStr (norm_url (py_get d ''url'')))]))
   | _ \<Rightarrow> None)"

definition norm_evidence_refs :: "pyval \<Rightarrow> pyval list" where
  "norm_evidence_refs value = (case value of PList xs \<Rightarrow> List.map_filter norm_evidence_ref (take 20 xs) | _ \<Rightarrow> [])"

definition work_item_evidence_refs :: "pydict \<Rightarrow> string \<Rightarrow> string \<Rightarrow> string option \<Rightarrow> pyval list" where
  "work_item_evidence_refs record kind external_id source_url =
     (let refs = norm_evidence_refs (py_get record ''evidence_refs'') in
      if refs \<noteq> [] then refs else [evidence_entry kind external_id (opt_val PStr source_url)])"

definition source_datetime_text :: "pydict \<Rightarrow> string \<Rightarrow> string option" where
  "source_datetime_text record prefix =
     first_some (\<lambda>suffix. norm_text 1000 (py_get record (prefix @ suffix))) [''_at_source'', ''_at'', ''At'']"

definition norm_issue_state :: "pyval \<Rightarrow> string option" where
  "norm_issue_state value = (case norm_text 1000 value of None \<Rightarrow> None
     | Some t \<Rightarrow> if casefold t \<in> {''open'', ''closed''} then Some (casefold t) else None)"

definition norm_pull_request_state :: "pydict \<Rightarrow> string" where
  "norm_pull_request_state record =
     (if norm_text 1000 (py_get record ''merged_at_source'') \<noteq> None \<or> norm_text 1000 (py_get record ''merged_at'') \<noteq> None
         \<or> py_get record ''merged'' = PBool True then ''merged''
      else case norm_text 1000 (py_get record ''state'') of None \<Rightarrow> ''open''
        | Some t \<Rightarrow> if casefold t \<in> {''open'', ''closed'', ''merged''} then casefold t else ''open'')"

definition title_fallback :: "string \<Rightarrow> int option \<Rightarrow> string \<Rightarrow> string" where
  "title_fallback what number external_id =
     what @ '' '' @ (case number of Some n \<Rightarrow> if n \<noteq> 0 then show_int n else external_id | None \<Rightarrow> external_id)"

section \<open>Normalised records\<close>

definition build_normalized_repository :: "pydict \<Rightarrow> pydict" where
  "build_normalized_repository repo =
     (let full_name = or_text (first_some (\<lambda>k. norm_text 1000 (py_get repo k)) [''full_name'', ''name'']) ''unknown'';
          name = or_text (norm_text 1000 (py_get repo ''name'')) (after_last CHR ''/'' full_name) in
      [(''entity_type'', PStr ''repository''), (''provider'', PStr ''github''),
       (''external_id'', PStr (or_text (norm_text 1000 (py_get repo ''id'')) full_name)),
       (''name'', PStr name), (''full_name'', PStr full_name),
       (''default_branch'', opt_val PStr (norm_text 1000 (py_get repo ''default_branch''))),
       (''visibility'', PStr (norm_visibility (py_get repo ''visibility''))),
       (''archived'', PBool (truthy (py_get repo ''archived''))),
       (''source_url'', opt_val PStr (norm_url (py_get repo ''source_url''))),
       (''last_activity_at'', opt_val PStr (norm_text 1000 (py_get repo ''last_activity_at''))),
       (''source'', PStr (norm_source (py_get repo ''source''))),
       (''evidence_refs'', PList (norm_evidence_refs (py_get repo ''evidence_refs''))),
       (''metadata'', PDict (metadata_of (py_get repo ''metadata'')))])"

definition build_normalized_issue :: "pydict \<Rightarrow> (norm_error, pydict) result" where
  "build_normalized_issue record =
     bindE (norm_int (py_get record ''number'')) (\<lambda>number.
     (let repository_full_name = record_repository_full_name record;
          source_url = work_item_source_url record;
          external_id = work_item_external_id record repository_full_name ''issue'' number source_url in
      Inr [(''entity_type'', PStr ''task''), (''provider'', PStr ''github''), (''external_id'', PStr external_id),
        (''number'', opt_val PInt number),
        (''title'', PStr (norm_title (py_get record ''title'') (title_fallback ''GitHub issue'' number external_id))),
        (''state'', opt_val PStr (norm_issue_state (py_get record ''state''))),
        (''source_url'', opt_val PStr source_url),
        (''repository_full_name'', opt_val PStr repository_full_name),
        (''created_at_source'', opt_val PStr (source_datetime_text record ''created'')),
        (''updated_at_source'', opt_val PStr (source_datetime_text record ''updated'')),
        (''evidence_refs'', PList (work_item_evidence_refs record ''github_issue'' external_id source_url)),
        (''metadata'', PDict (work_item_metadata record ''issue'' repository_full_name number))]))"

definition build_normalized_pull_request :: "pydict \<Rightarrow> (norm_error, pydict) result" where
  "build_normalized_pull_request record =
     bindE (norm_int (py_get record ''number'')) (\<lambda>number.
     (let repository_full_name = record_repository_full_name record;
          source_url = work_item_source_url record;
          external_id = work_item_external_id record repository_full_name ''pull'' number source_url in
      Inr [(''entity_type'', PStr ''pull_request''), (''provider'', PStr ''github''), (''external_id'', PStr external_id),
        (''number'', opt_val PInt number),
        (''title'', PStr (norm_title (py_get record ''title'') (title_fallback ''GitHub PR'' number external_id))),
        (''state'', PStr (norm_pull_request_state record)),
        (''source_url'', opt_val PStr source_url),
        (''repository_full_name'', opt_val PStr repository_full_name),
        (''created_at_source'', opt_val PStr (source_datetime_text record ''created'')),
        (''updated_at_source'', opt_val PStr (source_datetime_text record ''updated'')),
        (''merged_at_source'', opt_val PStr (source_datetime_text record ''merged'')),
        (''evidence_refs'', PList (work_item_evidence_refs record ''github_pull_request'' external_id source_url)),
        (''metadata'', PDict (work_item_metadata record ''pull_request'' repository_full_name number))]))"

text \<open>The first list found under one of the keys, its dictionaries only.\<close>

definition record_list :: "pydict list \<Rightarrow> string list \<Rightarrow> pydict list" where
  "record_list candidates keys =
     (case first_some (\<lambda>v. case v of PList xs \<Rightarrow> Some xs | _ \<Rightarrow> None)
        (concat (map (\<lambda>d. map (py_get d) keys) candidates)) of
        None \<Rightarrow> [] | Some xs \<Rightarrow> List.map_filter as_dict xs)"

definition mapping_of :: "pyval \<Rightarrow> pydict" where
  "mapping_of v = (case v of PDict d \<Rightarrow> d | _ \<Rightarrow> [])"

record local_records =
  lr_repositories :: "pydict list"
  lr_issues :: "pydict list"
  lr_pull_requests :: "pydict list"

definition local_github_records :: "sync_job \<Rightarrow> local_records" where
  "local_github_records j =
     (let cursor = (case sj_cursor_before j of None \<Rightarrow> [] | Some d \<Rightarrow> d);
          candidates = [mapping_of (py_get cursor ''local_github''), mapping_of (py_get cursor ''github''), cursor] in
      \<lparr> lr_repositories = record_list candidates [''repositories'', ''github_repositories''],
        lr_issues = record_list candidates [''issues'', ''github_issues''],
        lr_pull_requests = record_list candidates [''pull_requests'', ''prs'', ''github_pull_requests''] \<rparr>)"

definition is_issue_record :: "pydict \<Rightarrow> bool" where
  "is_issue_record record \<longleftrightarrow> py_get record ''pull_request'' = PNone
     \<and> norm_text 1000 (py_get record ''entity_type'') \<noteq> Some ''pull_request''"

end
