(* ===== verification/Canonical_Store.thy ===== *)
theory Canonical_Store
  imports GitHub_Records
begin

text \<open>
  The canonical tables the normalisation writes (\<^verbatim>\<open>app/db/canonical_models.py\<close>) and the upserts of
  \<^verbatim>\<open>app/services/github_normalization_service.py\<close>. A transaction is one step, so the row found by
  the first lookup is the row an \<^verbatim>\<open>ON CONFLICT\<close> clause meets. A row the database refuses, for a
  unique index or a value that does not fit its column, is \<^const>\<open>NormDatabaseError\<close>.
\<close>

section \<open>Tables\<close>

record task =
  tk_id :: uuid
  tk_workspace_id :: uuid
  tk_source_provider :: string
  tk_source_record_id :: "uuid option"
  tk_external_id :: "string option"
  tk_title :: string
  tk_description :: "string option"
  tk_status :: "string option"
  tk_source_url :: "string option"
  tk_metadata :: pydict
  tk_created_at :: time
  tk_updated_at :: time
  tk_source_updated_at :: "time option"

record pull_request =
  pl_id :: uuid
  pl_workspace_id :: uuid
  pl_repository_id :: uuid
  pl_external_id :: string
  pl_source_record_id :: "uuid option"
  pl_number :: int
  pl_title :: string
  pl_state :: string
  pl_source_url :: "string option"
  pl_created_at_source :: "time option"
  pl_updated_at_source :: "time option"
  pl_merged_at_source :: "time option"
  pl_metadata :: pydict
  pl_created_at :: time

record canonical_db = app_db +
  tasks :: "task list"
  pull_requests :: "pull_request list"

text \<open>
  What a run of the service does not compute: hashing, the zone of the process, the clock, and
  new identifiers, by the key of the row they are for.
\<close>

record norm_env =
  ne_sha :: sha
  ne_local_zone :: "time \<Rightarrow> time"
  ne_now :: time
  ne_source_id :: "string \<Rightarrow> uuid"
  ne_repository_id :: "string \<Rightarrow> uuid"
  ne_task_id :: "string \<Rightarrow> uuid"
  ne_pull_request_id :: "string \<Rightarrow> uuid"
  ne_event_id :: "string \<Rightarrow> uuid \<Rightarrow> uuid"

section \<open>Source records\<close>

record source_args =
  sa_external_id :: string
  sa_record_type :: string
  sa_payload :: pydict
  sa_source_url :: "string option"
  sa_source_updated_at :: "time option"
  sa_observed_at :: time
  sa_allow_restore :: bool

definition is_source :: "uuid \<Rightarrow> string \<Rightarrow> source_record \<Rightarrow> bool" where
  "is_source workspace_id external_id r \<longleftrightarrow>
     sr_workspace_id r = workspace_id \<and> sr_provider r = ''github'' \<and> sr_external_id r = external_id"

text \<open>The columns an upsert sets.\<close>

definition observed_source :: "sha \<Rightarrow> sync_job \<Rightarrow> source_args \<Rightarrow> source_record \<Rightarrow> source_record" where
  "observed_source sha j a r = r\<lparr>sr_connection_id := Some (sj_connection_id j), sr_record_type := sa_record_type a,
     sr_source_url := sa_source_url a, sr_payload := sa_payload a,
     sr_payload_hash := stable_payload_hash sha (sa_payload a), sr_observed_at := sa_observed_at a,
     sr_source_updated_at := sa_source_updated_at a, sr_sync_job_id := Some (sj_id j), sr_is_deleted := False,
     sr_tombstoned_at := None, sr_tombstone_observed_at := None, sr_tombstone_sync_job_id := None,
     sr_tombstone_reason := None\<rparr>"

definition blank_source :: "time \<Rightarrow> uuid \<Rightarrow> uuid \<Rightarrow> string \<Rightarrow> source_record" where
  "blank_source now new_id workspace_id external_id = \<lparr> sr_id = new_id, sr_workspace_id = workspace_id,
     sr_provider = ''github'', sr_connection_id = None, sr_external_id = external_id, sr_record_type = [],
     sr_source_url = None, sr_payload = [], sr_payload_hash = [], sr_observed_at = 0, sr_source_updated_at = None,
     sr_sync_job_id = None, sr_is_deleted = False, sr_tombstoned_at = None, sr_tombstone_observed_at = None,
     sr_tombstone_sync_job_id = None, sr_tombstone_reason = None,
     sr_created_at = now \<rparr>"

text \<open>The \<^verbatim>\<open>where\<close> clause of the upsert: the row is not newer than the snapshot.\<close>

definition not_newer :: "time \<Rightarrow> source_record \<Rightarrow> bool" where
  "not_newer observed_at r \<longleftrightarrow> sr_observed_at r \<le> observed_at
     \<and> (case sr_tombstone_observed_at r of None \<Rightarrow> True | Some t \<Rightarrow> t \<le> observed_at)"

record upserted_source =
  us_record :: source_record
  us_created :: bool
  us_restored :: bool
  us_accepted :: bool

definition skipped_source :: "source_record \<Rightarrow> upserted_source" where
  "skipped_source r = \<lparr> us_record = r, us_created = False, us_restored = False, us_accepted = False \<rparr>"

definition lifecycle_event ::
  "norm_env \<Rightarrow> source_record \<Rightarrow> uuid \<Rightarrow> string \<Rightarrow> time \<Rightarrow> 'z ledger_db_scheme \<Rightarrow> (norm_error, 'z ledger_db_scheme) result" where
  "lifecycle_event e r sync_job_id event_type occurred_at db =
     bindE (map_error NormMemoryError (append_source_record_lifecycle_memory_event (ne_sha e)
         (ne_event_id e event_type (sr_id r)) (ne_now e) r sync_job_id event_type occurred_at db)) (\<lambda>(_, db'). Inr db')"

definition upsert_source_record ::
  "norm_env \<Rightarrow> sync_job \<Rightarrow> source_args \<Rightarrow> 'z ledger_db_scheme \<Rightarrow> (norm_error, upserted_source \<times> 'z ledger_db_scheme) result" where
  "upsert_source_record e j a db =
     (case find (is_source (sj_workspace_id j) (sa_external_id a)) (source_records db) of
        None \<Rightarrow>
          (let r = observed_source (ne_sha e) j a
                 (blank_source (ne_now e) (ne_source_id e (sa_external_id a)) (sj_workspace_id j) (sa_external_id a)) in
           Inr (\<lparr> us_record = r, us_created = True, us_restored = False, us_accepted = True \<rparr>,
             db\<lparr>source_records := source_records db @ [r]\<rparr>))
      | Some existing \<Rightarrow>
          if sr_is_deleted existing \<and> \<not> sa_allow_restore a then Inr (skipped_source existing, db)
          else if \<not> not_newer (sa_observed_at a) existing then Inr (skipped_source existing, db)
          else (let r = observed_source (ne_sha e) j a existing; restored = sr_is_deleted existing;
                    db1 = db\<lparr>source_records := update_where (is_source (sj_workspace_id j) (sa_external_id a))
                      (observed_source (ne_sha e) j a) (source_records db)\<rparr> in
                bindE (if restored then lifecycle_event e r (sj_id j) ''source_record_restored'' (sa_observed_at a) db1
                       else Inr db1) (\<lambda>db2.
                Inr (\<lparr> us_record = r, us_created = False, us_restored = restored, us_accepted = True \<rparr>, db2))))"

section \<open>Repositories\<close>

definition stored_full_name :: "pydict \<Rightarrow> string" where
  "stored_full_name repo =
     or_text (first_some (\<lambda>k. norm_text 1000 (py_get repo k)) [''full_name'', ''name'']) ''unknown''"

definition stored_repository_name :: "pydict \<Rightarrow> string" where
  "stored_repository_name repo = (case norm_text 1000 (py_get repo ''name'') of Some t \<Rightarrow> t
     | None \<Rightarrow> (case after_last CHR ''/'' (stored_full_name repo) of [] \<Rightarrow> ''unknown'' | t \<Rightarrow> t))"

definition repository_external_id :: "pydict \<Rightarrow> string" where
  "repository_external_id repo =
     or_text (first_some (\<lambda>k. norm_text 255 (py_get repo k)) [''external_id'', ''full_name'', ''name'']) ''unknown''"

definition stored_visibility :: "pyval \<Rightarrow> string option" where
  "stored_visibility value = (case norm_text 1000 value of
     Some t \<Rightarrow> if t \<in> {''public'', ''private'', ''internal''} then Some t else None | None \<Rightarrow> None)"

definition repository_metadata :: "pydict \<Rightarrow> pydict" where
  "repository_metadata repo = sanitized_dict [(''source'', py_get repo ''source''),
     (''evidence_refs'', or_list (py_get repo ''evidence_refs'')), (''metadata'', or_dict (py_get repo ''metadata''))]"

text \<open>The columns an upsert sets; the external id apart.\<close>

definition written_repository :: "norm_env \<Rightarrow> pydict \<Rightarrow> repository \<Rightarrow> repository" where
  "written_repository e repo r = r\<lparr>rp_provider := ''github'', rp_name := stored_repository_name repo,
     rp_full_name := stored_full_name repo, rp_default_branch := norm_text 1000 (py_get repo ''default_branch''),
     rp_visibility := stored_visibility (py_get repo ''visibility''), rp_archived := truthy (py_get repo ''archived''),
     rp_source_url := norm_url (py_get repo ''source_url''),
     rp_last_activity_at := parse_optional_datetime (ne_local_zone e) (py_get repo ''last_activity_at''),
     rp_metadata := repository_metadata repo, rp_updated_at := ne_now e\<rparr>"

definition blank_repository :: "uuid \<Rightarrow> uuid \<Rightarrow> string \<Rightarrow> time \<Rightarrow> repository" where
  "blank_repository new_id workspace_id external_id now = \<lparr> rp_id = new_id, rp_workspace_id = workspace_id,
     rp_provider = ''github'', rp_external_id = external_id, rp_name = [], rp_full_name = [], rp_archived = False,
     rp_default_branch = None, rp_visibility = None, rp_source_url = None, rp_metadata = [],
     rp_last_activity_at = None, rp_created_at = now, rp_updated_at = now \<rparr>"

text \<open>The lengths of the columns.\<close>

definition repository_fits :: "repository \<Rightarrow> bool" where
  "repository_fits r \<longleftrightarrow> length (rp_external_id r) \<le> 255 \<and> length (rp_name r) \<le> 255 \<and> length (rp_full_name r) \<le> 500
     \<and> (case rp_default_branch r of None \<Rightarrow> True | Some t \<Rightarrow> length t \<le> 255)"

definition same_external_id :: "repository \<Rightarrow> repository \<Rightarrow> bool" where
  "same_external_id r r' \<longleftrightarrow> rp_workspace_id r' = rp_workspace_id r \<and> rp_external_id r' = rp_external_id r"

definition same_full_name :: "repository \<Rightarrow> repository \<Rightarrow> bool" where
  "same_full_name r r' \<longleftrightarrow> rp_workspace_id r' = rp_workspace_id r \<and> rp_provider r' = rp_provider r
     \<and> rp_full_name r' = rp_full_name r"

text \<open>
  An insert that meets neither unique index, or an update of the row found by either identity,
  the full name first (the order of the query; each identity has at most one row). The update
  may itself violate the index of the external id.
\<close>

definition upsert_repository ::
  "norm_env \<Rightarrow> sync_job \<Rightarrow> pydict \<Rightarrow> string \<Rightarrow> 'z action_db_scheme \<Rightarrow>
     (norm_error, (repository \<times> bool) \<times> 'z action_db_scheme) result" where
  "upsert_repository e j repo external_id db =
     (let new = written_repository e repo
            (blank_repository (ne_repository_id e external_id) (sj_workspace_id j) external_id (ne_now e)) in
      bindE (require (repository_fits new) NormDatabaseError) (\<lambda>_.
      case (find (same_full_name new) (repositories db), find (same_external_id new) (repositories db)) of
        (None, None) \<Rightarrow> Inr ((new, True), db\<lparr>repositories := repositories db @ [new]\<rparr>)
      | (by_name, by_id) \<Rightarrow>
          (let existing = (case by_name of Some r \<Rightarrow> r | None \<Rightarrow> the by_id);
               r = written_repository e repo (existing\<lparr>rp_external_id :=
                     (if external_id = stored_full_name repo then rp_external_id existing else external_id)\<rparr>) in
           bindE (require (\<forall>x\<in>set (repositories db). rp_id x = rp_id existing \<or> \<not> same_external_id r x)
             NormDatabaseError) (\<lambda>_.
           Inr ((r, False), db\<lparr>repositories := update_where (\<lambda>x. rp_id x = rp_id existing) (\<lambda>_. r) (repositories db)\<rparr>)))))"

definition work_item_repository :: "string \<Rightarrow> pydict" where
  "work_item_repository full_name = [(''external_id'', PStr full_name), (''name'', PStr (after_last CHR ''/'' full_name)),
     (''full_name'', PStr full_name), (''visibility'', PStr ''private''),
     (''source_url'', opt_val PStr (repository_url_from_full_name full_name)),
     (''metadata'', PDict [(''source'', PStr ''github_normalization_work_item''), (''created_from_work_item'', PBool True)])]"

definition ensure_repository_for_work_item ::
  "norm_env \<Rightarrow> sync_job \<Rightarrow> pydict \<Rightarrow> 'z action_db_scheme \<Rightarrow> (norm_error, (repository \<times> bool) \<times> 'z action_db_scheme) result" where
  "ensure_repository_for_work_item e j record db =
     (let full_name = or_text (norm_text 1000 (py_get record ''repository_full_name'')) ''unknown'' in
      case find (\<lambda>r. rp_workspace_id r = sj_workspace_id j \<and> rp_full_name r = full_name) (repositories db) of
        Some r \<Rightarrow> Inr ((r, False), db)
      | None \<Rightarrow> upsert_repository e j (work_item_repository full_name) full_name db)"

section \<open>Tasks and pull requests\<close>

definition is_task :: "uuid \<Rightarrow> string \<Rightarrow> task \<Rightarrow> bool" where
  "is_task workspace_id external_id k \<longleftrightarrow> tk_workspace_id k = workspace_id \<and> tk_source_provider k = ''github''
     \<and> tk_external_id k = Some external_id"

definition written_task :: "norm_env \<Rightarrow> pydict \<Rightarrow> uuid \<Rightarrow> time option \<Rightarrow> task \<Rightarrow> task" where
  "written_task e issue source_record_id source_updated_at k = k\<lparr>tk_source_record_id := Some source_record_id,
     tk_title := norm_title (py_get issue ''title'') (''GitHub issue '' @ external_id_from_normalized issue),
     tk_description := norm_text 1000 (py_get issue ''description''),
     tk_status := norm_issue_state (py_get issue ''state''), tk_source_url := norm_url (py_get issue ''source_url''),
     tk_source_updated_at := source_updated_at, tk_metadata := task_metadata issue, tk_updated_at := ne_now e\<rparr>"

definition blank_task :: "uuid \<Rightarrow> uuid \<Rightarrow> string \<Rightarrow> time \<Rightarrow> task" where
  "blank_task new_id workspace_id external_id now = \<lparr> tk_id = new_id, tk_workspace_id = workspace_id,
     tk_source_provider = ''github'', tk_source_record_id = None, tk_external_id = Some external_id, tk_title = [],
     tk_description = None, tk_status = None, tk_source_url = None, tk_metadata = [], tk_created_at = now,
     tk_updated_at = now, tk_source_updated_at = None \<rparr>"

definition upsert_github_issue_task ::
  "norm_env \<Rightarrow> sync_job \<Rightarrow> pydict \<Rightarrow> source_record \<Rightarrow> time option \<Rightarrow> 'z canonical_db_scheme \<Rightarrow> bool \<times> 'z canonical_db_scheme" where
  "upsert_github_issue_task e j issue source_record source_updated_at db =
     (let external_id = external_id_from_normalized issue;
          write = written_task e issue (sr_id source_record) source_updated_at in
      if \<exists>k\<in>set (tasks db). is_task (sj_workspace_id j) external_id k
      then (False, db\<lparr>tasks := update_where (is_task (sj_workspace_id j) external_id) write (tasks db)\<rparr>)
      else (True, db\<lparr>tasks := tasks db
        @ [write (blank_task (ne_task_id e external_id) (sj_workspace_id j) external_id (ne_now e))]\<rparr>))"

definition is_pull_request :: "uuid \<Rightarrow> string \<Rightarrow> pull_request \<Rightarrow> bool" where
  "is_pull_request workspace_id external_id p \<longleftrightarrow> pl_workspace_id p = workspace_id \<and> pl_external_id p = external_id"

definition pull_request_number :: "pydict \<Rightarrow> int" where
  "pull_request_number item = (case as_int (py_get item ''number'') of Some n \<Rightarrow> n | None \<Rightarrow> 0)"

definition written_pull_request :: "norm_env \<Rightarrow> pydict \<Rightarrow> uuid \<Rightarrow> uuid \<Rightarrow> pull_request \<Rightarrow> pull_request" where
  "written_pull_request e item repository_id source_record_id p = p\<lparr>pl_repository_id := repository_id,
     pl_source_record_id := Some source_record_id, pl_number := pull_request_number item,
     pl_title := norm_title (py_get item ''title'') (''GitHub PR '' @ external_id_from_normalized item),
     pl_state := norm_pull_request_state item, pl_source_url := norm_url (py_get item ''source_url''),
     pl_created_at_source := parse_optional_datetime (ne_local_zone e) (py_get item ''created_at_source''),
     pl_updated_at_source := parse_optional_datetime (ne_local_zone e) (py_get item ''updated_at_source''),
     pl_merged_at_source := parse_optional_datetime (ne_local_zone e) (py_get item ''merged_at_source''),
     pl_metadata := pull_request_metadata item\<rparr>"

definition blank_pull_request :: "uuid \<Rightarrow> uuid \<Rightarrow> string \<Rightarrow> time \<Rightarrow> pull_request" where
  "blank_pull_request new_id workspace_id external_id now = \<lparr> pl_id = new_id, pl_workspace_id = workspace_id,
     pl_repository_id = 0, pl_external_id = external_id, pl_source_record_id = None, pl_number = 0, pl_title = [],
     pl_state = [], pl_source_url = None, pl_created_at_source = None, pl_updated_at_source = None,
     pl_merged_at_source = None, pl_metadata = [], pl_created_at = now \<rparr>"

text \<open>The number is a 32-bit column.\<close>

definition upsert_pull_request ::
  "norm_env \<Rightarrow> sync_job \<Rightarrow> pydict \<Rightarrow> repository \<Rightarrow> source_record \<Rightarrow> 'z canonical_db_scheme \<Rightarrow>
     (norm_error, bool \<times> 'z canonical_db_scheme) result" where
  "upsert_pull_request e j item repository source_record db =
     (let external_id = external_id_from_normalized item;
          write = written_pull_request e item (rp_id repository) (sr_id source_record) in
      bindE (require (- (2 ^ 31) \<le> pull_request_number item \<and> pull_request_number item < 2 ^ 31) NormDatabaseError) (\<lambda>_.
      if \<exists>p\<in>set (pull_requests db). is_pull_request (sj_workspace_id j) external_id p
      then Inr (False, db\<lparr>pull_requests :=
        update_where (is_pull_request (sj_workspace_id j) external_id) write (pull_requests db)\<rparr>)
      else Inr (True, db\<lparr>pull_requests := pull_requests db
        @ [write (blank_pull_request (ne_pull_request_id e external_id) (sj_workspace_id j) external_id (ne_now e))]\<rparr>)))"

section \<open>Counting\<close>

record persistence_counts =
  pc_source_created :: int
  pc_source_updated :: int
  pc_source_restored :: int
  pc_source_tombstoned :: int
  pc_source_stale_skipped :: int
  pc_repositories_created :: int
  pc_repositories_updated :: int
  pc_tasks_created :: int
  pc_tasks_updated :: int
  pc_pull_requests_created :: int
  pc_pull_requests_updated :: int

definition no_counts :: persistence_counts where
  "no_counts = \<lparr> pc_source_created = 0, pc_source_updated = 0, pc_source_restored = 0, pc_source_tombstoned = 0,
     pc_source_stale_skipped = 0, pc_repositories_created = 0, pc_repositories_updated = 0, pc_tasks_created = 0,
     pc_tasks_updated = 0, pc_pull_requests_created = 0, pc_pull_requests_updated = 0 \<rparr>"

definition tally_source :: "upserted_source \<Rightarrow> persistence_counts \<Rightarrow> persistence_counts" where
  "tally_source u c = (if us_created u then c\<lparr>pc_source_created := pc_source_created c + 1\<rparr>
       else c\<lparr>pc_source_updated := pc_source_updated c + 1\<rparr>)
     \<lparr>pc_source_restored := pc_source_restored c + (if us_restored u then 1 else 0)\<rparr>"

definition tally_skipped :: "persistence_counts \<Rightarrow> persistence_counts" where
  "tally_skipped c = c\<lparr>pc_source_stale_skipped := pc_source_stale_skipped c + 1\<rparr>"

definition records_created :: "persistence_counts \<Rightarrow> int" where
  "records_created c = pc_repositories_created c + pc_tasks_created c + pc_pull_requests_created c"

definition records_updated :: "persistence_counts \<Rightarrow> int" where
  "records_updated c = pc_repositories_updated c + pc_tasks_updated c + pc_pull_requests_updated c + pc_source_tombstoned c"

section \<open>Persisting a batch\<close>

type_synonym 'z persisting = "persistence_counts \<times> 'z canonical_db_scheme"

definition source_args_of :: "norm_env \<Rightarrow> time \<Rightarrow> bool \<Rightarrow> string \<Rightarrow> string \<Rightarrow> string \<Rightarrow> string \<Rightarrow> pydict \<Rightarrow> source_args" where
  "source_args_of e observed_at allow_restore record_type normalized_key updated_key external_id record =
     \<lparr> sa_external_id = external_id, sa_record_type = record_type,
       sa_payload = source_record_payload record_type normalized_key record,
       sa_source_url = norm_url (py_get record ''source_url''),
       sa_source_updated_at = parse_optional_datetime (ne_local_zone e) (py_get record updated_key),
       sa_observed_at = observed_at, sa_allow_restore = allow_restore \<rparr>"

definition repository_args :: "norm_env \<Rightarrow> time \<Rightarrow> bool \<Rightarrow> pydict \<Rightarrow> source_args" where
  "repository_args e observed_at allow_restore repo = source_args_of e observed_at allow_restore
     ''repository'' ''normalized_repository'' ''last_activity_at'' (repository_external_id repo) repo"

definition issue_args :: "norm_env \<Rightarrow> time \<Rightarrow> bool \<Rightarrow> pydict \<Rightarrow> source_args" where
  "issue_args e observed_at allow_restore issue = source_args_of e observed_at allow_restore
     ''issue'' ''normalized_issue'' ''updated_at_source'' (external_id_from_normalized issue) issue"

definition pull_request_args :: "norm_env \<Rightarrow> time \<Rightarrow> bool \<Rightarrow> pydict \<Rightarrow> source_args" where
  "pull_request_args e observed_at allow_restore item = source_args_of e observed_at allow_restore
     ''pull_request'' ''normalized_pull_request'' ''updated_at_source'' (external_id_from_normalized item) item"

text \<open>An upsert of the source record, and what follows if it was accepted.\<close>

definition persist_source ::
  "norm_env \<Rightarrow> sync_job \<Rightarrow> source_args \<Rightarrow> (source_record \<Rightarrow> 'z persisting \<Rightarrow> (norm_error, 'z persisting) result) \<Rightarrow>
     'z persisting \<Rightarrow> (norm_error, 'z persisting) result" where
  "persist_source e j a rest = (\<lambda>(c, db).
     bindE (upsert_source_record e j a db) (\<lambda>(u, db1).
     if us_accepted u then rest (us_record u) (tally_source u c, db1) else Inr (tally_skipped c, db1)))"

definition persist_repository :: "norm_env \<Rightarrow> sync_job \<Rightarrow> time \<Rightarrow> bool \<Rightarrow> pydict \<Rightarrow> 'z persisting \<Rightarrow> (norm_error, 'z persisting) result" where
  "persist_repository e j observed_at allow_restore repo =
     persist_source e j (repository_args e observed_at allow_restore repo) (\<lambda>_ (c, db).
       bindE (upsert_repository e j repo (repository_external_id repo) db) (\<lambda>((_, created), db1).
       Inr (if created then c\<lparr>pc_repositories_created := pc_repositories_created c + 1\<rparr>
            else c\<lparr>pc_repositories_updated := pc_repositories_updated c + 1\<rparr>, db1)))"

definition persist_issue :: "norm_env \<Rightarrow> sync_job \<Rightarrow> time \<Rightarrow> bool \<Rightarrow> pydict \<Rightarrow> 'z persisting \<Rightarrow> (norm_error, 'z persisting) result" where
  "persist_issue e j observed_at allow_restore issue =
     persist_source e j (issue_args e observed_at allow_restore issue) (\<lambda>r (c, db).
       (let (created, db1) = upsert_github_issue_task e j issue r
              (parse_optional_datetime (ne_local_zone e) (py_get issue ''updated_at_source'')) db in
        Inr (if created then c\<lparr>pc_tasks_created := pc_tasks_created c + 1\<rparr>
             else c\<lparr>pc_tasks_updated := pc_tasks_updated c + 1\<rparr>, db1)))"

definition persist_pull_request :: "norm_env \<Rightarrow> sync_job \<Rightarrow> time \<Rightarrow> bool \<Rightarrow> pydict \<Rightarrow> 'z persisting \<Rightarrow> (norm_error, 'z persisting) result" where
  "persist_pull_request e j observed_at allow_restore item =
     persist_source e j (pull_request_args e observed_at allow_restore item) (\<lambda>r (c, db).
       bindE (ensure_repository_for_work_item e j item db) (\<lambda>((repository, repository_created), db1).
       (let c1 = (if repository_created then c\<lparr>pc_repositories_created := pc_repositories_created c + 1\<rparr> else c) in
        bindE (upsert_pull_request e j item repository r db1) (\<lambda>(created, db2).
        Inr (if created then c1\<lparr>pc_pull_requests_created := pc_pull_requests_created c1 + 1\<rparr>
             else c1\<lparr>pc_pull_requests_updated := pc_pull_requests_updated c1 + 1\<rparr>, db2)))))"

fun fold_result :: "('a \<Rightarrow> 's \<Rightarrow> ('e, 's) result) \<Rightarrow> 'a list \<Rightarrow> 's \<Rightarrow> ('e, 's) result" where
  "fold_result f [] s = Inr s"
| "fold_result f (x # xs) s = bindE (f x s) (fold_result f xs)"

definition persist_canonical_github_records ::
  "norm_env \<Rightarrow> sync_job \<Rightarrow> pydict list \<Rightarrow> pydict list \<Rightarrow> pydict list \<Rightarrow> time \<Rightarrow> bool \<Rightarrow> 'z canonical_db_scheme \<Rightarrow>
     (norm_error, 'z persisting) result" where
  "persist_canonical_github_records e j repos issues items observed_at allow_restore db =
     bindE (fold_result (persist_repository e j observed_at allow_restore) repos (no_counts, db)) (\<lambda>s1.
     bindE (fold_result (persist_issue e j observed_at allow_restore) issues s1) (\<lambda>s2.
     fold_result (persist_pull_request e j observed_at allow_restore) items s2))"

end
