(* ===== verification/Normalization.thy ===== *)
theory Normalization
  imports Source_Reconciliation
begin

text \<open>
  The handler \<^verbatim>\<open>normalize_github_sync_job_local\<close> of
  \<^verbatim>\<open>app/services/github_normalization_service.py\<close>, and its use by the worker: \<open>github_normalizer\<close> is
  an argument for \<open>norm\<close> in \<^const>\<open>persist_repository_batch\<close>. The list of repositories that a job
  without local records falls back to comes from a read model and is the argument \<open>inventory\<close>.
\<close>

section \<open>Messages\<close>

definition GITHUB_NORMALIZATION_PROJECTION_WARNING :: string where
  "GITHUB_NORMALIZATION_PROJECTION_WARNING =
     ''GitHub data normalized through compatibility projection; persistent graph upsert is deferred.''"
definition GITHUB_NORMALIZATION_ISSUES_UNAVAILABLE_WARNING :: string where
  "GITHUB_NORMALIZATION_ISSUES_UNAVAILABLE_WARNING =
     ''GitHub issues were not available in local source; returned empty issues array.''"
definition GITHUB_NORMALIZATION_PULL_REQUESTS_UNAVAILABLE_WARNING :: string where
  "GITHUB_NORMALIZATION_PULL_REQUESTS_UNAVAILABLE_WARNING =
     ''GitHub pull requests were not available in local source; returned empty pull_requests array.''"
definition GITHUB_NORMALIZATION_NO_LOCAL_REPOSITORIES_WARNING :: string where
  "GITHUB_NORMALIZATION_NO_LOCAL_REPOSITORIES_WARNING =
     ''No local GitHub repository inventory found for normalization.''"
definition GITHUB_NORMALIZATION_CANONICAL_WARNING :: string where
  "GITHUB_NORMALIZATION_CANONICAL_WARNING =
     ''GitHub normalization persisted supported records to canonical tables.''"
definition GITHUB_NORMALIZATION_JOB_NOT_FOUND :: string where
  "GITHUB_NORMALIZATION_JOB_NOT_FOUND = ''github sync job not found''"
definition GITHUB_NORMALIZATION_JOB_NOT_GITHUB :: string where
  "GITHUB_NORMALIZATION_JOB_NOT_GITHUB = ''github manual sync job required''"
definition GITHUB_NORMALIZATION_JOB_NOT_MANUAL :: string where
  "GITHUB_NORMALIZATION_JOB_NOT_MANUAL = ''github manual sync job required''"
definition GITHUB_NORMALIZATION_JOB_NOT_QUEUED :: string where
  "GITHUB_NORMALIZATION_JOB_NOT_QUEUED = ''github sync job must be queued''"
definition AUTHORITATIVE_READ_REQUIRED :: string where
  "AUTHORITATIVE_READ_REQUIRED =
     ''authoritative reconciliation requires a complete provider-attested persisted read''"

section \<open>Options\<close>

record github_options =
  go_include_repositories :: bool
  go_include_issues :: bool
  go_include_pull_requests :: bool
  go_persist_if_supported :: bool
  go_snapshot_observed_at :: "time option"
  go_provider_attested :: bool
  go_issue_repositories :: "string list"
  go_pull_request_repositories :: "string list"

definition authoritative :: "github_options \<Rightarrow> bool" where
  "authoritative opts \<longleftrightarrow> go_issue_repositories opts \<noteq> [] \<or> go_pull_request_repositories opts \<noteq> []"

definition authoritative_allowed :: "github_options \<Rightarrow> bool" where
  "authoritative_allowed opts \<longleftrightarrow> go_provider_attested opts \<and> go_snapshot_observed_at opts \<noteq> None
     \<and> go_persist_if_supported opts
     \<and> (go_issue_repositories opts = [] \<or> go_include_issues opts)
     \<and> (go_pull_request_repositories opts = [] \<or> go_include_pull_requests opts)"

definition persistence_mode :: "github_options \<Rightarrow> string" where
  "persistence_mode opts = (if go_persist_if_supported opts then ''canonical'' else ''projection'')"

definition dedupe_warnings :: "string list \<Rightarrow> string list" where
  "dedupe_warnings warnings = foldl (\<lambda>ws w. if w \<noteq> [] \<and> w \<notin> set ws then ws @ [w] else ws) [] warnings"

section \<open>The records of a job\<close>

record normalized_records =
  nm_repositories :: "pydict list"
  nm_issues :: "pydict list"
  nm_pull_requests :: "pydict list"
  nm_warnings :: "string list"

fun map_result :: "('a \<Rightarrow> ('e, 'b) result) \<Rightarrow> 'a list \<Rightarrow> ('e, 'b list) result" where
  "map_result f [] = Inr []"
| "map_result f (x # xs) = bindE (f x) (\<lambda>y. bindE (map_result f xs) (\<lambda>ys. Inr (y # ys)))"

definition normalized_repository_list ::
  "(uuid \<Rightarrow> pydict list \<times> string list) \<Rightarrow> uuid \<Rightarrow> github_options \<Rightarrow> pydict list \<Rightarrow> pydict list \<times> string list" where
  "normalized_repository_list inventory workspace_id opts local_repositories =
     (if \<not> go_include_repositories opts then ([], [])
      else let (repos, warnings) = (if local_repositories \<noteq> [] then (local_repositories, []) else inventory workspace_id);
               repos' = map build_normalized_repository repos in
        (repos', warnings @ (if repos' = [] then [GITHUB_NORMALIZATION_NO_LOCAL_REPOSITORIES_WARNING] else [])))"

definition normalized_issue_list :: "github_options \<Rightarrow> pydict list \<Rightarrow> (norm_error, pydict list \<times> string list) result" where
  "normalized_issue_list opts local_issues =
     (if \<not> go_include_issues opts then Inr ([], [])
      else bindE (map_result build_normalized_issue (filter is_issue_record local_issues)) (\<lambda>issues.
        Inr (issues, if issues = [] \<and> go_issue_repositories opts = []
          then [GITHUB_NORMALIZATION_ISSUES_UNAVAILABLE_WARNING] else [])))"

definition normalized_pull_request_list :: "github_options \<Rightarrow> pydict list \<Rightarrow> (norm_error, pydict list \<times> string list) result" where
  "normalized_pull_request_list opts local_items =
     (if \<not> go_include_pull_requests opts then Inr ([], [])
      else bindE (map_result build_normalized_pull_request local_items) (\<lambda>items.
        Inr (items, if items = [] \<and> go_pull_request_repositories opts = []
          then [GITHUB_NORMALIZATION_PULL_REQUESTS_UNAVAILABLE_WARNING] else [])))"

definition normalized_records_of ::
  "(uuid \<Rightarrow> pydict list \<times> string list) \<Rightarrow> uuid \<Rightarrow> github_options \<Rightarrow> sync_job \<Rightarrow> (norm_error, normalized_records) result" where
  "normalized_records_of inventory workspace_id opts j =
     (let local = local_github_records j;
          (repos, w1) = normalized_repository_list inventory workspace_id opts (lr_repositories local) in
      bindE (normalized_issue_list opts (lr_issues local)) (\<lambda>(issues, w2).
      bindE (normalized_pull_request_list opts (lr_pull_requests local)) (\<lambda>(items, w3).
      Inr \<lparr> nm_repositories = repos, nm_issues = issues, nm_pull_requests = items,
        nm_warnings = (if go_persist_if_supported opts then GITHUB_NORMALIZATION_CANONICAL_WARNING
          else GITHUB_NORMALIZATION_PROJECTION_WARNING) # w1 @ w2 @ w3 \<rparr>)))"

definition missing_requested_data :: "github_options \<Rightarrow> normalized_records \<Rightarrow> bool" where
  "missing_requested_data opts n \<longleftrightarrow> go_include_repositories opts \<and> nm_repositories n = []
     \<or> go_include_issues opts \<and> nm_issues n = [] \<and> go_issue_repositories opts = []
     \<or> go_include_pull_requests opts \<and> nm_pull_requests n = [] \<and> go_pull_request_repositories opts = []"

section \<open>Persisting and reconciling\<close>

definition reconcile_if ::
  "norm_env \<Rightarrow> sync_job \<Rightarrow> string \<Rightarrow> string list \<Rightarrow> pydict list \<Rightarrow> time \<Rightarrow>
     reconciliation_result list \<times> 'z ledger_db_scheme \<Rightarrow> (norm_error, reconciliation_result list \<times> 'z ledger_db_scheme) result" where
  "reconcile_if e j record_type names observed snapshot_time = (\<lambda>(results, db).
     if names = [] then Inr (results, db)
     else bindE (reconcile_authoritative_github_records e j record_type names observed snapshot_time db) (\<lambda>(r, db').
       Inr (results @ [r], db')))"

definition persist_and_reconcile ::
  "norm_env \<Rightarrow> sync_job \<Rightarrow> github_options \<Rightarrow> time \<Rightarrow> normalized_records \<Rightarrow> 'z canonical_db_scheme \<Rightarrow>
     (norm_error, persistence_counts \<times> reconciliation_result list \<times> 'z canonical_db_scheme) result" where
  "persist_and_reconcile e j opts snapshot_time n db =
     (if \<not> go_persist_if_supported opts then Inr (no_counts, [], db)
      else bindE (persist_canonical_github_records e j (nm_repositories n) (nm_issues n) (nm_pull_requests n)
            snapshot_time (go_provider_attested opts) db) (\<lambda>(c, db1).
        bindE (reconcile_if e j ''issue'' (go_issue_repositories opts) (nm_issues n) snapshot_time ([], db1)) (\<lambda>s.
        bindE (reconcile_if e j ''pull_request'' (go_pull_request_repositories opts) (nm_pull_requests n) snapshot_time s)
          (\<lambda>(results, db2).
        Inr (c\<lparr>pc_source_tombstoned := sum_list (map rr_records_tombstoned results)\<rparr>, results, db2)))))"

section \<open>The handler\<close>

definition record_counts :: "normalized_records \<Rightarrow> pydict" where
  "record_counts n = [(''repositories'', PInt (int (length (nm_repositories n)))),
     (''issues'', PInt (int (length (nm_issues n)))), (''pull_requests'', PInt (int (length (nm_pull_requests n))))]"

definition persistence_counts_payload :: "persistence_counts \<Rightarrow> pydict" where
  "persistence_counts_payload c = [(''source_records_created'', PInt (pc_source_created c)),
     (''source_records_updated'', PInt (pc_source_updated c)),
     (''repositories_created'', PInt (pc_repositories_created c)), (''repositories_updated'', PInt (pc_repositories_updated c)),
     (''tasks_created'', PInt (pc_tasks_created c)), (''tasks_updated'', PInt (pc_tasks_updated c)),
     (''pull_requests_created'', PInt (pc_pull_requests_created c)),
     (''pull_requests_updated'', PInt (pc_pull_requests_updated c))]"

definition source_lifecycle_counts_payload :: "persistence_counts \<Rightarrow> pydict" where
  "source_lifecycle_counts_payload c = [(''source_records_restored'', PInt (pc_source_restored c)),
     (''source_records_tombstoned'', PInt (pc_source_tombstoned c)),
     (''source_records_stale_skipped'', PInt (pc_source_stale_skipped c))]"

definition normalization_log :: "github_options \<Rightarrow> normalized_records \<Rightarrow> persistence_counts \<Rightarrow> pyval" where
  "normalization_log opts n c = PDict [(''local_normalization'', PDict (
     [(''performed'', PBool True), (''provider_sync_started'', PBool (go_provider_attested opts)),
      (''persistence_mode'', PStr (persistence_mode opts)), (''counts'', PDict (record_counts n))]
     @ persistence_counts_payload c
     @ [(''source_lifecycle'', PDict (source_lifecycle_counts_payload c)),
      (''warnings'', PList (map PStr (dedupe_warnings (nm_warnings n)))),
      (''include_repositories'', PBool (go_include_repositories opts)),
      (''include_issues'', PBool (go_include_issues opts)),
      (''include_pull_requests'', PBool (go_include_pull_requests opts))]))]"

definition validate_sync_job :: "sync_job \<Rightarrow> (norm_error, unit) result" where
  "validate_sync_job j =
     bindE (require (sj_provider j = ''github'') (GitHubNormalizationError GITHUB_NORMALIZATION_JOB_NOT_GITHUB)) (\<lambda>_.
     bindE (require (sj_sync_type j = ''manual'') (GitHubNormalizationError GITHUB_NORMALIZATION_JOB_NOT_MANUAL)) (\<lambda>_.
     require (sj_status j = Queued) (GitHubNormalizationError GITHUB_NORMALIZATION_JOB_NOT_QUEUED)))"

definition normalizing_job :: "time \<Rightarrow> sync_job \<Rightarrow> sync_job" where
  "normalizing_job now j = j\<lparr>sj_status := SyncRunning, sj_started_at := Some now, sj_error_message := None,
     sj_updated_at := now\<rparr>"

definition normalized_job ::
  "time \<Rightarrow> github_options \<Rightarrow> normalized_records \<Rightarrow> persistence_counts \<Rightarrow> reconciliation_result list \<Rightarrow> sync_job \<Rightarrow> sync_job" where
  "normalized_job now opts n c results j = j\<lparr>
     sj_status := (if missing_requested_data opts n then Partial else SyncSucceeded), sj_finished_at := Some now,
     sj_records_seen := int (length (nm_repositories n) + length (nm_issues n) + length (nm_pull_requests n)),
     sj_records_created := records_created c, sj_records_updated := records_updated c,
     sj_cursor_after := Some [(''local_normalization_performed'', PBool True),
       (''provider_sync_started'', PBool (go_provider_attested opts)), (''persistence_mode'', PStr (persistence_mode opts)),
       (''counts'', PDict (record_counts n)), (''canonical_persistence'', PDict (persistence_counts_payload c)),
       (''source_lifecycle'', PDict (source_lifecycle_counts_payload c)),
       (''reconciliation'', PList (map (PDict \<circ> reconciliation_payload) results))],
     sj_logs := Some ((case sj_logs j of None \<Rightarrow> [] | Some xs \<Rightarrow> xs) @ [normalization_log opts n c]),
     sj_updated_at := now\<rparr>"

text \<open>
  The two flushes write the columns whose values are not those loaded (\<^const>\<open>put\<close>). The second
  one compares with what the first one left in the object.
\<close>

definition write_normalizing :: "time \<Rightarrow> sync_job \<Rightarrow> sync_job \<Rightarrow> sync_job" where
  "write_normalizing now j0 row = (let j = normalizing_job now j0 in row\<lparr>
     sj_status := put (sj_status j0) (sj_status j) (sj_status row),
     sj_started_at := put (sj_started_at j0) (sj_started_at j) (sj_started_at row),
     sj_error_message := put (sj_error_message j0) (sj_error_message j) (sj_error_message row),
     sj_updated_at := now\<rparr>)"

definition write_normalized ::
  "time \<Rightarrow> github_options \<Rightarrow> normalized_records \<Rightarrow> persistence_counts \<Rightarrow> reconciliation_result list \<Rightarrow> sync_job \<Rightarrow>
     sync_job \<Rightarrow> sync_job" where
  "write_normalized now opts n c results j row = (let j' = normalized_job now opts n c results j in row\<lparr>
     sj_status := put (sj_status j) (sj_status j') (sj_status row),
     sj_finished_at := put (sj_finished_at j) (sj_finished_at j') (sj_finished_at row),
     sj_records_seen := put (sj_records_seen j) (sj_records_seen j') (sj_records_seen row),
     sj_records_created := put (sj_records_created j) (sj_records_created j') (sj_records_created row),
     sj_records_updated := put (sj_records_updated j) (sj_records_updated j') (sj_records_updated row),
     sj_cursor_after := put (sj_cursor_after j) (sj_cursor_after j') (sj_cursor_after row),
     sj_logs := put (sj_logs j) (sj_logs j') (sj_logs row), sj_updated_at := now\<rparr>)"

lemma write_normalizing_loaded [simp]: "write_normalizing now j j = normalizing_job now j"
  by (simp add: write_normalizing_def normalizing_job_def)

lemma write_normalized_loaded [simp]: "write_normalized now opts n c results j j = normalized_job now opts n c results j"
  by (simp add: write_normalized_def normalized_job_def)

lemma write_normalizing_fields [simp]:
  "sj_id (write_normalizing now j0 row) = sj_id row" "sj_workspace_id (write_normalizing now j0 row) = sj_workspace_id row"
  by (simp_all add: write_normalizing_def Let_def)

lemma write_normalized_fields [simp]:
  "sj_id (write_normalized now opts n c results j row) = sj_id row"
  "sj_workspace_id (write_normalized now opts n c results j row) = sj_workspace_id row"
  by (simp_all add: write_normalized_def Let_def)

record normalization_answer =
  an_job :: sync_job
  an_normalized :: normalized_records
  an_counts :: persistence_counts
  an_reconciliation :: "reconciliation_result list"

text \<open>
  The job is read without a lock: \<open>seen\<close> is the table of jobs that the read saw, \<open>db\<close> the state in
  which the first flush takes the lock of the stored row, which is then held to the end of the
  transaction. The records are built from the loaded job; the answer is the refreshed row.
\<close>

definition normalize_github_sync_job_local ::
  "norm_env \<Rightarrow> ('z canonical_db_scheme \<Rightarrow> uuid \<Rightarrow> pydict list \<times> string list) \<Rightarrow> uuid \<Rightarrow> uuid \<Rightarrow> github_options \<Rightarrow>
     sync_job list \<Rightarrow> 'z canonical_db_scheme \<Rightarrow> (norm_error, normalization_answer \<times> 'z canonical_db_scheme) result" where
  "normalize_github_sync_job_local e inventory workspace_id sync_job_id opts seen db =
     bindE (require_some (find (\<lambda>j. sj_workspace_id j = workspace_id \<and> sj_id j = sync_job_id) seen)
       (GitHubNormalizationError GITHUB_NORMALIZATION_JOB_NOT_FOUND)) (\<lambda>j0.
     bindE (validate_sync_job j0) (\<lambda>_.
     bindE (require_some (find (\<lambda>j. sj_id j = sj_id j0) (sync_jobs db)) NormDatabaseError) (\<lambda>row0.
     (let j = normalizing_job (ne_now e) j0; row = write_normalizing (ne_now e) j0 row0; db0 = put_job row db in
      bindE (normalized_records_of (inventory db0) workspace_id opts j) (\<lambda>n.
      bindE (require (authoritative opts \<longrightarrow> authoritative_allowed opts) (GitHubNormalizationError AUTHORITATIVE_READ_REQUIRED)) (\<lambda>_.
      bindE (persist_and_reconcile e j opts
          (case go_snapshot_observed_at opts of Some t \<Rightarrow> t | None \<Rightarrow> ne_now e) n db0) (\<lambda>(c, results, db1).
      (let row' = write_normalized (ne_now e) opts n c results j row in
       Inr (\<lparr> an_job = row', an_normalized = n, an_counts = c, an_reconciliation = results \<rparr>, put_job row' db1)))))))))"

text \<open>
  Where no other transaction comes between the read and the first flush, the flushes store the
  objects themselves.
\<close>

definition normalize_unraced_job ::
  "norm_env \<Rightarrow> ('z canonical_db_scheme \<Rightarrow> uuid \<Rightarrow> pydict list \<times> string list) \<Rightarrow> uuid \<Rightarrow> uuid \<Rightarrow> github_options \<Rightarrow>
     'z canonical_db_scheme \<Rightarrow> (norm_error, normalization_answer \<times> 'z canonical_db_scheme) result" where
  "normalize_unraced_job e inventory workspace_id sync_job_id opts db =
     bindE (require_some (find (\<lambda>j. sj_workspace_id j = workspace_id \<and> sj_id j = sync_job_id) (sync_jobs db))
       (GitHubNormalizationError GITHUB_NORMALIZATION_JOB_NOT_FOUND)) (\<lambda>j0.
     bindE (validate_sync_job j0) (\<lambda>_.
     (let j = normalizing_job (ne_now e) j0; db0 = put_job j db in
      bindE (normalized_records_of (inventory db0) workspace_id opts j) (\<lambda>n.
      bindE (require (authoritative opts \<longrightarrow> authoritative_allowed opts) (GitHubNormalizationError AUTHORITATIVE_READ_REQUIRED)) (\<lambda>_.
      bindE (persist_and_reconcile e j opts
          (case go_snapshot_observed_at opts of Some t \<Rightarrow> t | None \<Rightarrow> ne_now e) n db0) (\<lambda>(c, results, db1).
      (let j' = normalized_job (ne_now e) opts n c results j in
       Inr (\<lparr> an_job = j', an_normalized = n, an_counts = c, an_reconciliation = results \<rparr>, put_job j' db1))))))))"

lemma find_by_key:
  assumes "distinct (map k xs)" "find P xs = Some x"
  shows "find (\<lambda>y. k y = k x) xs = Some x"
proof -
  have "find (\<lambda>y. k y = k x) xs = find (\<lambda>y. y = x) xs"
    using distinct_key_eq [OF assms(1) _ find_Some_mem [OF assms(2)]] by (intro find_cong_set) auto
  also have "\<dots> = Some x"
    using find_Some_mem [OF assms(2)] by (induction xs) auto
  finally show ?thesis .
qed

lemma normalize_unraced:
  assumes "distinct (map sj_id (sync_jobs db))"
  shows "normalize_github_sync_job_local e inventory w i opts (sync_jobs db) db = normalize_unraced_job e inventory w i opts db"
proof (cases "find (\<lambda>j. sj_workspace_id j = w \<and> sj_id j = i) (sync_jobs db)")
  case None
  then show ?thesis
    by (simp add: normalize_github_sync_job_local_def normalize_unraced_job_def require_some_def)
next
  case (Some j0)
  from find_by_key [OF assms this] Some show ?thesis
    by (simp add: normalize_github_sync_job_local_def normalize_unraced_job_def require_some_def Let_def)
qed

section \<open>In the worker\<close>

definition worker_github_options :: "normalization_options \<Rightarrow> github_options" where
  "worker_github_options o' = \<lparr> go_include_repositories = True, go_include_issues = nz_include_issues o',
     go_include_pull_requests = nz_include_pull_requests o', go_persist_if_supported = True,
     go_snapshot_observed_at = Some (nz_snapshot_observed_at o'), go_provider_attested = True,
     go_issue_repositories = nz_issue_repositories o', go_pull_request_repositories = nz_pull_request_repositories o' \<rparr>"

definition github_normalizer ::
  "norm_env \<Rightarrow> ('z canonical_db_scheme \<Rightarrow> uuid \<Rightarrow> pydict list \<times> string list) \<Rightarrow> ('z canonical_db_ext) normalizer" where
  "github_normalizer e inventory = (\<lambda>o' j db.
     case normalize_github_sync_job_local e inventory (sj_workspace_id j) (sj_id j) (worker_github_options o')
         (sync_jobs (put_job j db)) (put_job j db) of
       Inl _ \<Rightarrow> None
     | Inr (a, db') \<Rightarrow> Some (\<lparr> nr_status = sj_status (an_job a), nr_records_created = sj_records_created (an_job a),
         nr_records_updated = sj_records_updated (an_job a),
         nr_log = normalization_log (worker_github_options o') (an_normalized a) (an_counts a) \<rparr>, db'))"

end
