(* ===== verification/Source_Snapshots.thy ===== *)
theory Source_Snapshots
  imports Normalization
begin

text \<open>
  What normalisation does to the table of source records. The upserts and the reconciliation are
  functions of that table (\<open>upsert_rows\<close>, \<open>reconcile_rows\<close>); the other tables never matter for it.
\<close>

section \<open>The upserts as a function of the table\<close>

definition upsert_rows :: "norm_env \<Rightarrow> sync_job \<Rightarrow> source_args \<Rightarrow> source_record list \<Rightarrow> source_record list" where
  "upsert_rows e j a rows = (case find (is_source (sj_workspace_id j) (sa_external_id a)) rows of
     None \<Rightarrow> rows @ [observed_source (ne_sha e) j a
       (blank_source (ne_now e) (ne_source_id e (sa_external_id a)) (sj_workspace_id j) (sa_external_id a))]
   | Some x \<Rightarrow> if sr_is_deleted x \<and> \<not> sa_allow_restore a \<or> \<not> not_newer (sa_observed_at a) x then rows
       else update_where (is_source (sj_workspace_id j) (sa_external_id a)) (observed_source (ne_sha e) j a) rows)"

lemma lifecycle_event_rows:
  assumes "lifecycle_event e r i t occ db = Inr db'"
  shows "source_records db' = source_records db"
proof -
  obtain ev where "append_source_record_lifecycle_memory_event (ne_sha e) (ne_event_id e t (sr_id r)) (ne_now e) r i t occ db
      = Inr (ev, db')"
    using assms by (auto simp: lifecycle_event_def bindE_Inr_iff map_error_Inr_iff)
  then obtain a where "append_company_memory_event (ne_sha e) a db db = Inr (ev, db')"
    by (auto simp: append_source_record_lifecycle_memory_event_def bindE_Inr_iff)
  then show ?thesis by (rule append_memory_cases) auto
qed

lemma upsert_source_rows:
  assumes "upsert_source_record e j a db = Inr (u, db')"
  shows "source_records db' = upsert_rows e j a (source_records db)"
proof (cases "find (is_source (sj_workspace_id j) (sa_external_id a)) (source_records db)")
  case None
  then show ?thesis using assms by (auto simp: upsert_source_record_def upsert_rows_def Let_def)
next
  case (Some x)
  show ?thesis
  proof (cases "sr_is_deleted x \<and> \<not> sa_allow_restore a \<or> \<not> not_newer (sa_observed_at a) x")
    case True
    then show ?thesis using assms Some by (auto simp: upsert_source_record_def upsert_rows_def split: if_splits)
  next
    case False
    then show ?thesis using assms Some
      by (auto simp: upsert_source_record_def upsert_rows_def Let_def bindE_Inr_iff split: if_splits dest!: lifecycle_event_rows)
  qed
qed

lemma upsert_repository_rows:
  "upsert_repository e j repo x db = Inr (r, db') \<Longrightarrow> source_records db' = source_records db"
  by (auto simp: upsert_repository_def Let_def bindE_Inr_iff split: option.splits)

lemma ensure_repository_rows:
  "ensure_repository_for_work_item e j item db = Inr (r, db') \<Longrightarrow> source_records db' = source_records db"
  by (auto simp: ensure_repository_for_work_item_def Let_def upsert_repository_rows split: option.splits)

lemma upsert_task_rows:
  "source_records (snd (upsert_github_issue_task e j issue r t db)) = source_records db"
  by (simp add: upsert_github_issue_task_def Let_def)

lemma upsert_pull_request_rows:
  "upsert_pull_request e j item rp r db = Inr (b, db') \<Longrightarrow> source_records db' = source_records db"
  by (auto simp: upsert_pull_request_def Let_def bindE_Inr_iff split: if_splits)

lemma persist_source_rows:
  assumes "persist_source e j a rest s = Inr s'"
    and "\<And>r c db s'. rest r (c, db) = Inr s' \<Longrightarrow> source_records (snd s') = source_records db"
  shows "source_records (snd s') = upsert_rows e j a (source_records (snd s))"
proof -
  obtain c db where s: "s = (c, db)" by force
  obtain u db1 where u: "upsert_source_record e j a db = Inr (u, db1)"
    and k: "(if us_accepted u then rest (us_record u) (tally_source u c, db1) else Inr (tally_skipped c, db1)) = Inr s'"
    using assms(1) by (auto simp: s persist_source_def bindE_Inr_iff)
  from k assms(2) have "source_records (snd s') = source_records db1" by (auto split: if_splits)
  then show ?thesis by (simp add: s upsert_source_rows [OF u])
qed

lemma persist_repository_rows:
  assumes "persist_repository e j t b repo s = Inr s'"
  shows "source_records (snd s') = upsert_rows e j (repository_args e t b repo) (source_records (snd s))"
  using assms unfolding persist_repository_def
  by (rule persist_source_rows) (auto simp: bindE_Inr_iff dest: upsert_repository_rows)

lemma persist_issue_rows:
  assumes "persist_issue e j t b issue s = Inr s'"
  shows "source_records (snd s') = upsert_rows e j (issue_args e t b issue) (source_records (snd s))"
  using assms unfolding persist_issue_def
proof (rule persist_source_rows)
  fix r c db s'
  assume "(case (c, db) of (c, db) \<Rightarrow>
      let (created, db1) = upsert_github_issue_task e j issue r
            (parse_optional_datetime (ne_local_zone e) (py_get issue ''updated_at_source'')) db
      in Inr (if created then c\<lparr>pc_tasks_created := pc_tasks_created c + 1\<rparr>
              else c\<lparr>pc_tasks_updated := pc_tasks_updated c + 1\<rparr>, db1)) = Inr s'"
  then show "source_records (snd s') = source_records db"
    using upsert_task_rows [of e j issue r "parse_optional_datetime (ne_local_zone e) (py_get issue ''updated_at_source'')" db]
    by (auto simp: split_def Let_def)
qed

lemma persist_pull_request_rows:
  assumes "persist_pull_request e j t b item s = Inr s'"
  shows "source_records (snd s') = upsert_rows e j (pull_request_args e t b item) (source_records (snd s))"
  using assms unfolding persist_pull_request_def
  by (rule persist_source_rows)
     (auto simp: bindE_Inr_iff Let_def dest!: ensure_repository_rows upsert_pull_request_rows)

lemma fold_result_rows:
  assumes "\<And>x s s'. f x s = Inr s' \<Longrightarrow> view s' = g x (view s)" "fold_result f xs s = Inr s'"
  shows "view s' = fold g xs (view s)"
  using assms(2)
proof (induction xs arbitrary: s)
  case (Cons x xs)
  from Cons.prems obtain s1 where s1: "f x s = Inr s1" "fold_result f xs s1 = Inr s'" by (auto simp: bindE_Inr_iff)
  show ?case using Cons.IH [OF s1(2)] assms(1) [OF s1(1)] by simp
qed simp

text \<open>The upserts of a batch, in order.\<close>

definition batch_args :: "norm_env \<Rightarrow> time \<Rightarrow> bool \<Rightarrow> pydict list \<Rightarrow> pydict list \<Rightarrow> pydict list \<Rightarrow> source_args list" where
  "batch_args e t b repos issues items =
     map (repository_args e t b) repos @ map (issue_args e t b) issues @ map (pull_request_args e t b) items"

lemma persist_rows:
  assumes "persist_canonical_github_records e j repos issues items t b db = Inr (c, db')"
  shows "source_records db' = fold (upsert_rows e j) (batch_args e t b repos issues items) (source_records db)"
proof -
  let ?v = "\<lambda>s. source_records (snd s)"
  obtain s1 s2 where
    s1: "fold_result (persist_repository e j t b) repos (no_counts, db) = Inr s1" and
    s2: "fold_result (persist_issue e j t b) issues s1 = Inr s2" and
    s3: "fold_result (persist_pull_request e j t b) items s2 = Inr (c, db')"
    using assms by (auto simp: persist_canonical_github_records_def bindE_Inr_iff)
  have "?v s1 = fold (\<lambda>r. upsert_rows e j (repository_args e t b r)) repos (source_records db)"
    using fold_result_rows [where view = ?v and g = "\<lambda>r. upsert_rows e j (repository_args e t b r)", OF persist_repository_rows s1] by simp
  moreover have "?v s2 = fold (\<lambda>r. upsert_rows e j (issue_args e t b r)) issues (?v s1)"
    by (rule fold_result_rows [where view = ?v and g = "\<lambda>r. upsert_rows e j (issue_args e t b r)", OF persist_issue_rows s2])
  moreover have "source_records db' = fold (\<lambda>r. upsert_rows e j (pull_request_args e t b r)) items (?v s2)"
    using fold_result_rows [where view = ?v and g = "\<lambda>r. upsert_rows e j (pull_request_args e t b r)", OF persist_pull_request_rows s3] by simp
  ultimately show ?thesis by (simp add: batch_args_def fold_map comp_def)
qed

section \<open>The reconciliation as a function of the table\<close>

text \<open>A row the loop over the scopes tombstones.\<close>

definition missing :: "uuid \<Rightarrow> string \<Rightarrow> string \<Rightarrow> time \<Rightarrow> string set \<Rightarrow> (string \<Rightarrow> string set) \<Rightarrow> source_record \<Rightarrow> bool" where
  "missing w ty nk t keys observed r \<longleftrightarrow>
     (\<exists>key\<in>keys. scanned w ty nk t key r \<and> sr_external_id r \<notin> observed key)"

lemma scanned_key: "scanned w ty nk t key r \<Longrightarrow> map_option lower (source_repository nk r) = Some key"
  by (simp add: scanned_def in_scope_def)

lemma not_scanned_tombstoned [simp]: "\<not> scanned w ty nk t key (tombstoned_source at t' i r)"
  by (simp add: scanned_def tombstoned_source_def)

lemma tombstoned_simps [simp]:
  "sr_id (tombstoned_source at t i r) = sr_id r" "sr_external_id (tombstoned_source at t i r) = sr_external_id r"
  "sr_workspace_id (tombstoned_source at t i r) = sr_workspace_id r" "sr_provider (tombstoned_source at t i r) = sr_provider r"
  "sr_observed_at (tombstoned_source at t i r) = sr_observed_at r" "sr_is_deleted (tombstoned_source at t i r)"
  "sr_tombstone_observed_at (tombstoned_source at t i r) = Some t"
  "sr_record_type (tombstoned_source at t i r) = sr_record_type r" "sr_payload (tombstoned_source at t i r) = sr_payload r"
  by (simp_all add: tombstoned_source_def)

lemma update_where_members:
  "update_where (\<lambda>r. r \<in> set (filter P (sort_key sr_id (filter Q rows)))) f rows = update_where (\<lambda>r. Q r \<and> P r) f rows"
  by (auto simp: update_where_def)

lemma update_where_twice:
  "(\<And>r. \<not> Q (f r)) \<Longrightarrow> update_where Q f (update_where P f rows) = update_where (\<lambda>r. P r \<or> Q r) f rows"
  by (auto simp: update_where_def)

lemma filter_update_where_off:
  "(\<And>r. \<not> Q (f r)) \<Longrightarrow> (\<And>r. \<not> (P r \<and> Q r)) \<Longrightarrow> length (filter Q (update_where P f rows)) = length (filter Q rows)"
  by (induction rows) (auto simp: update_where_def)

lemma length_filter_or:
  "(\<And>r. \<not> (P r \<and> Q r)) \<Longrightarrow> length (filter P rows) + length (filter Q rows) = length (filter (\<lambda>r. P r \<or> Q r) rows)"
  by (induction rows) auto

lemma not_missing_tombstoned: "\<not> missing w ty nk t keys observed (tombstoned_source at t' i r)"
  by (simp add: missing_def)

lemma reconcile_scopes_rows:
  assumes "distinct keys"
    and "reconcile_scopes (tombstoned_source at t i) (scanned_rows w ty nk t) observed keys rows = (n, gone, rows')"
  shows "rows' = update_where (missing w ty nk t (set keys) observed) (tombstoned_source at t i) rows
    \<and> length gone = length (filter (missing w ty nk t (set keys) observed) rows)"
  using assms
proof (induction keys arbitrary: rows n gone rows')
  case Nil
  then show ?case by (simp add: missing_def update_where_def)
next
  case (Cons key keys)
  let ?f = "tombstoned_source at t i"
  let ?one = "\<lambda>r. scanned w ty nk t key r \<and> sr_external_id r \<notin> observed key"
  let ?rows = "update_where ?one ?f rows"
  have up: "update_where (\<lambda>r. r \<in> set (filter (\<lambda>r. sr_external_id r \<notin> observed key)
      (scanned_rows w ty nk t key rows))) ?f rows = ?rows"
    unfolding scanned_rows_def by (rule update_where_members)
  obtain n2 gone2 where rec: "reconcile_scopes ?f (scanned_rows w ty nk t) observed keys ?rows = (n2, gone2, rows')"
    and gone: "gone = map ?f (filter (\<lambda>r. sr_external_id r \<notin> observed key) (scanned_rows w ty nk t key rows)) @ gone2"
    using Cons.prems(2) by (auto simp del: set_filter simp: Let_def up split: prod.splits)
  note ih = Cons.IH [OF _ rec]
  have disj: "\<not> (?one r \<and> missing w ty nk t (set keys) observed r)" for r
    using Cons.prems(1) by (auto simp: missing_def dest!: scanned_key)
  have all: "missing w ty nk t (set (key # keys)) observed = (\<lambda>r. ?one r \<or> missing w ty nk t (set keys) observed r)"
    by (auto simp: missing_def fun_eq_iff)
  have "length (filter (\<lambda>r. sr_external_id r \<notin> observed key) (scanned_rows w ty nk t key rows)) = length (filter ?one rows)"
    unfolding scanned_rows_def by (simp add: filter_sort conj_commute)
  moreover have "length gone2 = length (filter (missing w ty nk t (set keys) observed) rows)"
    using ih Cons.prems(1) filter_update_where_off [where Q = "missing w ty nk t (set keys) observed" and P = ?one and f = ?f,
        OF not_missing_tombstoned disj] by simp
  ultimately have len: "length gone = length (filter (missing w ty nk t (set (key # keys)) observed) rows)"
    unfolding all gone using length_filter_or [where P = ?one and Q = "missing w ty nk t (set keys) observed", OF disj] by simp
  have "rows' = update_where (missing w ty nk t (set keys) observed) ?f ?rows" using ih Cons.prems(1) by simp
  then have "rows' = update_where (missing w ty nk t (set (key # keys)) observed) ?f rows"
    unfolding all by (simp only: update_where_twice [where Q = "missing w ty nk t (set keys) observed" and f = ?f, OF not_missing_tombstoned])
  with len show ?case by blast
qed


lemma scope_keys_set: "scope_keys vs = Inr ks \<Longrightarrow> set ks = (\<lambda>v. casefold (strip v)) ` set vs \<and> distinct ks"
  by (induction vs arbitrary: ks) (auto simp: bindE_Inr_iff split: if_splits)

lemma normalized_repositories_set:
  "normalized_repositories vs = Inr ks \<Longrightarrow> set ks = (\<lambda>v. casefold (strip v)) ` set vs \<and> distinct ks"
  by (auto simp: normalized_repositories_def bindE_Inr_iff dest: scope_keys_set)

lemma fold_disappeared_rows:
  assumes "fold_result (disappeared e i t) gone db = Inr db'"
  shows "source_records db' = source_records db"
  using assms by (induction gone arbitrary: db) (auto simp: bindE_Inr_iff disappeared_def dest!: lifecycle_event_rows)

text \<open>The keys of a list of repositories, and the reconciliation of one record type.\<close>

definition scope_of :: "string list \<Rightarrow> string set" where
  "scope_of names = (\<lambda>v. casefold (strip v)) ` set names"

lemma reconcile_rows:
  assumes "reconcile_authoritative_github_records e j ty names observed t db = Inr (res, db')"
  obtains nk where "normalized_payload_key ty = Some nk"
    "source_records db' = update_where (missing (sj_workspace_id j) ty nk t (scope_of names) (observed_external_ids observed))
       (tombstoned_source (ne_now e) t (sj_id j)) (source_records db)"
    "rr_records_tombstoned res = int (length (filter
       (missing (sj_workspace_id j) ty nk t (scope_of names) (observed_external_ids observed)) (source_records db)))"
proof -
  obtain nk keys where nk: "normalized_payload_key ty = Some nk" and keys: "normalized_repositories names = Inr keys"
    using assms by (auto simp: reconcile_authoritative_github_records_def bindE_Inr_iff require_some_Inr_iff)
  obtain n gone rows where r: "reconcile_scopes (tombstoned_source (ne_now e) t (sj_id j))
      (scanned_rows (sj_workspace_id j) ty nk t) (observed_external_ids observed) keys (source_records db) = (n, gone, rows)"
    by (metis surj_pair)
  have ev: "fold_result (disappeared e (sj_id j) t) gone (db\<lparr>source_records := rows\<rparr>) = Inr db'"
    and res: "rr_records_tombstoned res = int (length gone)"
    using assms by (auto simp: reconcile_authoritative_github_records_def bindE_Inr_iff nk keys r)
  have "set keys = scope_of names" "distinct keys"
    using normalized_repositories_set [OF keys] by (simp_all add: scope_of_def)
  then show thesis
    using reconcile_scopes_rows [OF _ r] fold_disappeared_rows [OF ev] res that [OF nk] by simp
qed

lemma reconcile_if_rows:
  assumes "reconcile_if e j ty names observed t (rs, db) = Inr (rs', db')" "normalized_payload_key ty = Some nk"
  shows "source_records db' = update_where (missing (sj_workspace_id j) ty nk t (scope_of names) (observed_external_ids observed))
       (tombstoned_source (ne_now e) t (sj_id j)) (source_records db)"
proof (cases "names = []")
  case True
  then show ?thesis using assms(1) by (simp add: reconcile_if_def scope_of_def missing_def update_where_def)
next
  case False
  then obtain res where "reconcile_authoritative_github_records e j ty names observed t db = Inr (res, db')"
    using assms(1) by (auto simp: reconcile_if_def bindE_Inr_iff)
  then show ?thesis using assms(2) by (auto elim!: reconcile_rows)
qed

lemma payload_keys: "normalized_payload_key ''issue'' = Some ''normalized_issue''"
    "normalized_payload_key ''pull_request'' = Some ''normalized_pull_request''"
  by (simp_all add: normalized_payload_key_def)

section \<open>A whole normalisation\<close>

definition persisted_rows :: "norm_env \<Rightarrow> sync_job \<Rightarrow> github_options \<Rightarrow> time \<Rightarrow> normalized_records \<Rightarrow>
     source_record list \<Rightarrow> source_record list" where
  "persisted_rows e j opts t n rows =
     fold (upsert_rows e j) (batch_args e t (go_provider_attested opts) (nm_repositories n) (nm_issues n) (nm_pull_requests n)) rows"

definition tombstone_rows :: "norm_env \<Rightarrow> sync_job \<Rightarrow> string \<Rightarrow> string \<Rightarrow> string list \<Rightarrow> pydict list \<Rightarrow> time \<Rightarrow>
     source_record list \<Rightarrow> source_record list" where
  "tombstone_rows e j ty nk names observed t =
     update_where (missing (sj_workspace_id j) ty nk t (scope_of names) (observed_external_ids observed))
       (tombstoned_source (ne_now e) t (sj_id j))"

definition normalized_rows :: "norm_env \<Rightarrow> sync_job \<Rightarrow> github_options \<Rightarrow> time \<Rightarrow> normalized_records \<Rightarrow>
     source_record list \<Rightarrow> source_record list" where
  "normalized_rows e j opts t n rows =
     (if \<not> go_persist_if_supported opts then rows
      else tombstone_rows e j ''pull_request'' ''normalized_pull_request'' (go_pull_request_repositories opts)
             (nm_pull_requests n) t
        (tombstone_rows e j ''issue'' ''normalized_issue'' (go_issue_repositories opts) (nm_issues n) t
          (persisted_rows e j opts t n rows)))"

lemma persist_and_reconcile_rows:
  assumes "persist_and_reconcile e j opts t n db = Inr (c, results, db')"
  shows "source_records db' = normalized_rows e j opts t n (source_records db)"
proof (cases "go_persist_if_supported opts")
  case False
  then show ?thesis using assms by (simp add: persist_and_reconcile_def normalized_rows_def)
next
  case True
  obtain c1 db1 r2 db2 where
    1: "persist_canonical_github_records e j (nm_repositories n) (nm_issues n) (nm_pull_requests n) t
      (go_provider_attested opts) db = Inr (c1, db1)" and
    2: "reconcile_if e j ''issue'' (go_issue_repositories opts) (nm_issues n) t ([], db1) = Inr (r2, db2)" and
    3: "reconcile_if e j ''pull_request'' (go_pull_request_repositories opts) (nm_pull_requests n) t (r2, db2)
      = Inr (results, db')"
    using assms True by (auto simp: persist_and_reconcile_def bindE_Inr_iff)
  show ?thesis
    using persist_rows [OF 1] reconcile_if_rows [OF 2 payload_keys(1)] reconcile_if_rows [OF 3 payload_keys(2)] True
    by (simp add: normalized_rows_def persisted_rows_def tombstone_rows_def)
qed

definition snapshot_time :: "norm_env \<Rightarrow> github_options \<Rightarrow> time" where
  "snapshot_time e opts = (case go_snapshot_observed_at opts of Some t \<Rightarrow> t | None \<Rightarrow> ne_now e)"

lemma source_records_put_job [simp]: "source_records (put_job j db) = source_records db"
  by (simp add: put_job_def)

lemma normalize_rows:
  assumes "normalize_github_sync_job_local e inventory w i opts seen db = Inr (a, db')"
  obtains j where "sj_workspace_id j = w" "sj_id j = i"
    "source_records db' = normalized_rows e j opts (snapshot_time e opts) (an_normalized a) (source_records db)"
proof -
  obtain j0 row n c results db1 where
    j0: "find (\<lambda>j. sj_workspace_id j = w \<and> sj_id j = i) seen = Some j0" and
    p: "persist_and_reconcile e (normalizing_job (ne_now e) j0) opts (snapshot_time e opts) n (put_job row db)
      = Inr (c, results, db1)" and
    a: "an_normalized a = n" "source_records db' = source_records db1"
    using assms by (auto simp: normalize_github_sync_job_local_def Let_def bindE_Inr_iff require_some_Inr_iff snapshot_time_def)
  have "sj_workspace_id (normalizing_job (ne_now e) j0) = w" "sj_id (normalizing_job (ne_now e) j0) = i"
    using find_Some_holds [OF j0] by (simp_all add: normalizing_job_def)
  then show thesis using that persist_and_reconcile_rows [OF p] a by simp
qed

end
