(* ===== verification/Normalization_Jobs.thy ===== *)
theory Normalization_Jobs
  imports Job_Lifecycle Source_Snapshots
begin

text \<open>
  What a local normalisation does to the table of jobs. Its writes to the canonical tables leave
  the jobs alone, so it replaces the row of its job and nothing else. Where the row is the one
  that was read, the job goes from waiting to its end; where it is not, the missing lock shows.
\<close>

section \<open>The canonical writes leave the jobs alone\<close>

lemma lifecycle_event_jobs:
  assumes "lifecycle_event e r i t occ db = Inr db'"
  shows "sync_jobs db' = sync_jobs db"
proof -
  obtain a ev where "append_company_memory_event (ne_sha e) a db db = Inr (ev, db')"
    using assms by (auto simp: lifecycle_event_def append_source_record_lifecycle_memory_event_def
        bindE_Inr_iff map_error_Inr_iff)
  then show ?thesis by (rule append_memory_cases) auto
qed

lemma upsert_source_jobs:
  "upsert_source_record e j a db = Inr (u, db') \<Longrightarrow> sync_jobs db' = sync_jobs db"
  by (auto simp: upsert_source_record_def Let_def bindE_Inr_iff dest!: lifecycle_event_jobs
      split: option.splits if_splits)

lemma upsert_repository_jobs:
  "upsert_repository e j repo x db = Inr (r, db') \<Longrightarrow> sync_jobs db' = sync_jobs db"
  by (auto simp: upsert_repository_def Let_def bindE_Inr_iff split: option.splits)

lemma ensure_repository_jobs:
  "ensure_repository_for_work_item e j item db = Inr (r, db') \<Longrightarrow> sync_jobs db' = sync_jobs db"
  by (auto simp: ensure_repository_for_work_item_def Let_def upsert_repository_jobs split: option.splits)

lemma upsert_task_jobs:
  "sync_jobs (snd (upsert_github_issue_task e j issue r t db)) = sync_jobs db"
  by (simp add: upsert_github_issue_task_def Let_def)

lemma upsert_pull_request_jobs:
  "upsert_pull_request e j item rp r db = Inr (b, db') \<Longrightarrow> sync_jobs db' = sync_jobs db"
  by (auto simp: upsert_pull_request_def Let_def bindE_Inr_iff split: if_splits)

lemma persist_source_jobs:
  assumes "persist_source e j a rest s = Inr s'"
    and "\<And>r c db s'. rest r (c, db) = Inr s' \<Longrightarrow> sync_jobs (snd s') = sync_jobs db"
  shows "sync_jobs (snd s') = sync_jobs (snd s)"
proof -
  obtain c db where s: "s = (c, db)" by force
  obtain u db1 where u: "upsert_source_record e j a db = Inr (u, db1)"
    and k: "(if us_accepted u then rest (us_record u) (tally_source u c, db1) else Inr (tally_skipped c, db1)) = Inr s'"
    using assms(1) by (auto simp: s persist_source_def bindE_Inr_iff)
  from k assms(2) have "sync_jobs (snd s') = sync_jobs db1" by (auto split: if_splits)
  then show ?thesis by (simp add: s upsert_source_jobs [OF u])
qed

lemma persist_repository_jobs:
  assumes "persist_repository e j t b repo s = Inr s'"
  shows "sync_jobs (snd s') = sync_jobs (snd s)"
  using assms unfolding persist_repository_def
  by (rule persist_source_jobs) (auto simp: bindE_Inr_iff dest: upsert_repository_jobs)

lemma persist_issue_jobs:
  assumes "persist_issue e j t b issue s = Inr s'"
  shows "sync_jobs (snd s') = sync_jobs (snd s)"
  using assms unfolding persist_issue_def
  by (rule persist_source_jobs)
     (auto simp: Let_def split_def upsert_task_jobs)

lemma persist_pull_request_jobs:
  assumes "persist_pull_request e j t b item s = Inr s'"
  shows "sync_jobs (snd s') = sync_jobs (snd s)"
  using assms unfolding persist_pull_request_def
  by (rule persist_source_jobs)
     (auto simp: bindE_Inr_iff Let_def dest!: ensure_repository_jobs upsert_pull_request_jobs)

lemma fold_result_jobs:
  assumes "\<And>x s s'. f x s = Inr s' \<Longrightarrow> view s' = view s" "fold_result f xs s = Inr s'"
  shows "view s' = view s"
  using fold_result_rows [where view = view and g = "\<lambda>_ v. v", OF assms] by (induction xs) simp_all

lemma persist_jobs:
  assumes "persist_canonical_github_records e j repos issues items t b db = Inr (c, db')"
  shows "sync_jobs db' = sync_jobs db"
proof -
  let ?v = "\<lambda>s. sync_jobs (snd s)"
  obtain s1 s2 where
    s1: "fold_result (persist_repository e j t b) repos (no_counts, db) = Inr s1" and
    s2: "fold_result (persist_issue e j t b) issues s1 = Inr s2" and
    s3: "fold_result (persist_pull_request e j t b) items s2 = Inr (c, db')"
    using assms by (auto simp: persist_canonical_github_records_def bindE_Inr_iff)
  show ?thesis
    using fold_result_jobs [where view = ?v, OF persist_repository_jobs s1]
      fold_result_jobs [where view = ?v, OF persist_issue_jobs s2]
      fold_result_jobs [where view = ?v, OF persist_pull_request_jobs s3] by simp
qed

lemma reconcile_jobs:
  assumes "reconcile_authoritative_github_records e j ty names observed t db = Inr (res, db')"
  shows "sync_jobs db' = sync_jobs db"
proof -
  obtain nk keys where nk: "normalized_payload_key ty = Some nk" and keys: "normalized_repositories names = Inr keys"
    using assms by (auto simp: reconcile_authoritative_github_records_def bindE_Inr_iff require_some_Inr_iff)
  obtain n gone rows where r: "reconcile_scopes (tombstoned_source (ne_now e) t (sj_id j))
      (scanned_rows (sj_workspace_id j) ty nk t) (observed_external_ids observed) keys (source_records db) = (n, gone, rows)"
    by (metis surj_pair)
  have ev: "fold_result (disappeared e (sj_id j) t) gone (db\<lparr>source_records := rows\<rparr>) = Inr db'"
    using assms by (auto simp: reconcile_authoritative_github_records_def bindE_Inr_iff nk keys r)
  have "sync_jobs db' = sync_jobs (db\<lparr>source_records := rows\<rparr>)"
    by (rule fold_result_jobs [OF _ ev]) (auto simp: disappeared_def dest: lifecycle_event_jobs)
  then show ?thesis by simp
qed

lemma reconcile_if_jobs:
  "reconcile_if e j ty names observed t (rs, db) = Inr (rs', db') \<Longrightarrow> sync_jobs db' = sync_jobs db"
  by (auto simp: reconcile_if_def bindE_Inr_iff dest: reconcile_jobs split: if_splits)

lemma persist_and_reconcile_jobs:
  assumes "persist_and_reconcile e j opts t n db = Inr (c, results, db')"
  shows "sync_jobs db' = sync_jobs db"
proof (cases "go_persist_if_supported opts")
  case False
  then show ?thesis using assms by (simp add: persist_and_reconcile_def)
next
  case True
  obtain c1 db1 r2 db2 where
    1: "persist_canonical_github_records e j (nm_repositories n) (nm_issues n) (nm_pull_requests n) t
      (go_provider_attested opts) db = Inr (c1, db1)" and
    2: "reconcile_if e j ''issue'' (go_issue_repositories opts) (nm_issues n) t ([], db1) = Inr (r2, db2)" and
    3: "reconcile_if e j ''pull_request'' (go_pull_request_repositories opts) (nm_pull_requests n) t (r2, db2)
      = Inr (results, db')"
    using assms True by (auto simp: persist_and_reconcile_def bindE_Inr_iff)
  show ?thesis using persist_jobs [OF 1] reconcile_if_jobs [OF 2] reconcile_if_jobs [OF 3] by simp
qed

section \<open>The row of the job\<close>

lemma normalize_jobs:
  assumes "normalize_github_sync_job_local e inventory w i opts seen db = Inr (a, db')"
  obtains j0 row n c results where
    "find (\<lambda>j. sj_workspace_id j = w \<and> sj_id j = i) seen = Some j0" "validate_sync_job j0 = Inr ()"
    "row \<in> set (sync_jobs db)" "sj_id row = i"
    "sync_jobs db' = update_where (\<lambda>r. sj_id r = i) (\<lambda>_. write_normalized (ne_now e) opts n c results
       (normalizing_job (ne_now e) j0) (write_normalizing (ne_now e) j0 row)) (sync_jobs db)"
proof -
  obtain j0 row n c results db1 where
    j0: "find (\<lambda>j. sj_workspace_id j = w \<and> sj_id j = i) seen = Some j0" "validate_sync_job j0 = Inr ()" and
    row: "find (\<lambda>j. sj_id j = sj_id j0) (sync_jobs db) = Some row" and
    p: "persist_and_reconcile e (normalizing_job (ne_now e) j0) opts
      (case go_snapshot_observed_at opts of Some t \<Rightarrow> t | None \<Rightarrow> ne_now e) n
      (put_job (write_normalizing (ne_now e) j0 row) db) = Inr (c, results, db1)" and
    db': "db' = put_job (write_normalized (ne_now e) opts n c results (normalizing_job (ne_now e) j0)
      (write_normalizing (ne_now e) j0 row)) db1"
    using assms by (auto simp: normalize_github_sync_job_local_def Let_def bindE_Inr_iff require_some_Inr_iff)
  have i: "sj_id j0 = i" "sj_id row = i" using find_Some_holds [OF j0(1)] find_Some_holds [OF row] by simp_all
  have "sync_jobs db1 = update_where (\<lambda>r. sj_id r = i) (\<lambda>_. write_normalizing (ne_now e) j0 row) (sync_jobs db)"
    using persist_and_reconcile_jobs [OF p] by (simp add: put_job_def i)
  then have "sync_jobs db' = update_where (\<lambda>r. sj_id r = i) (\<lambda>_. write_normalized (ne_now e) opts n c results
       (normalizing_job (ne_now e) j0) (write_normalizing (ne_now e) j0 row)) (sync_jobs db)"
    unfolding db' put_job_def by (auto simp: update_where_def i)
  then show thesis using that [OF j0 find_Some_mem [OF row] i(2)] by blast
qed

text \<open>A normalisation of a waiting job, as a move of its row.\<close>

lemma completed_normalized: "completed_of (normalized_job now opts n c results j) = []"
  by (simp add: normalized_job_def completed_of_def progress_of_def job_progress_def py_get_def as_dict_def
      string_list_def)

lemma normalized_moves:
  assumes "validate_sync_job j = Inr ()"
  shows "job_moves None j (normalized_job now opts n c results (normalizing_job now j))" (is "job_moves None j ?j")
proof -
  have q: "sj_status j = Queued" using assms by (simp add: validate_sync_job_def bindE_Inr_iff require_Inr_iff)
  have s: "sj_status ?j \<in> {SyncSucceeded, Partial}" by (simp add: normalized_job_def)
  then have "life_of ?j = (life_of j)\<lparr>lf_phase := Ended (sj_status ?j), lf_completed := []\<rparr>"
    unfolding life_of_def completed_normalized by (auto simp: normalized_job_def normalizing_job_def)
  moreover have "lf_phase (life_of j) = Waiting" using q by (simp add: life_of_def)
  ultimately have "life_step None (life_of j) (life_of ?j)" using life_step.locally s by metis
  moreover have "sync_job_ok ?j" if "sync_job_ok j"
    using that q unfolding sync_job_ok_def completed_normalized
    by (auto simp: FINISHED_STATUSES_def normalized_job_def normalizing_job_def)
  ultimately show ?thesis by (simp add: job_moves_def normalized_job_def normalizing_job_def)
qed


text \<open>
  A handler whose job was not changed between its read and its first write stores the ended
  form of the row it read.
\<close>

lemma unraced_normalization_put:
  assumes "normalize_github_sync_job_local e inventory w i opts seen db = Inr (a, db')"
    and "distinct (map sj_id (sync_jobs db))" "\<forall>j\<in>set seen. sj_id j = i \<longrightarrow> j \<in> set (sync_jobs db)"
  shows "\<exists>j\<in>set (sync_jobs db). \<exists>n c results. sj_workspace_id j = w \<and> sj_id j = i \<and> validate_sync_job j = Inr () \<and>
    sync_jobs db' = sync_jobs (put_job (normalized_job (ne_now e) opts n c results (normalizing_job (ne_now e) j)) db)"
  using assms(1)
proof (rule normalize_jobs)
  fix j row n c results
  assume j: "find (\<lambda>j. sj_workspace_id j = w \<and> sj_id j = i) seen = Some j" "validate_sync_job j = Inr ()"
    and row: "row \<in> set (sync_jobs db)" "sj_id row = i"
    and db': "sync_jobs db' = update_where (\<lambda>r. sj_id r = i) (\<lambda>_. write_normalized (ne_now e) opts n c results
       (normalizing_job (ne_now e) j) (write_normalizing (ne_now e) j row)) (sync_jobs db)"
  have i: "sj_workspace_id j = w" "sj_id j = i" "j \<in> set (sync_jobs db)"
    using find_Some_holds [OF j(1)] find_Some_mem [OF j(1)] assms(3) by simp_all
  then have "row = j" using distinct_key_eq [OF assms(2) row(1)] row(2) by simp
  then have "sync_jobs db' = sync_jobs (put_job (normalized_job (ne_now e) opts n c results (normalizing_job (ne_now e) j)) db)"
    unfolding db' put_job_def by (simp add: i normalized_job_def normalizing_job_def)
  then show ?thesis using i j(2) by blast
qed

end
