(* ===== verification/Sync_Queue.thy ===== *)
theory Sync_Queue
  imports Worker_Machine Normalization_Jobs
begin

text \<open>
  The queue with its workers. A step is a transaction or a provider call of one worker, the
  death of a worker, a job that is enqueued, recorded by hand, recorded for the result of an
  execution or cancelled, a local normalisation, or anything else that leaves the table of jobs
  alone. The theorems hold for every interleaving of these steps.
\<close>

section \<open>What a transaction does to the table\<close>

definition jobs_move :: "(uuid \<Rightarrow> string option) \<Rightarrow> sync_job list \<Rightarrow> sync_job list \<Rightarrow> bool" where
  "jobs_move l js js' \<longleftrightarrow> (\<exists>f. js' = map f js \<and> (\<forall>j\<in>set js. job_moves (l (sj_id j)) j (f j)))"

abbreviation quiet :: "uuid \<Rightarrow> string option" where "quiet \<equiv> \<lambda>_. None"

lemma jobs_move_refl: "jobs_move quiet js js"
  unfolding jobs_move_def by (intro exI [of _ id]) (simp add: job_moves_refl)

lemma jobs_move_put:
  assumes "distinct (map sj_id (sync_jobs db))" "j \<in> set (sync_jobs db)" "job_moves l j j'"
  shows "jobs_move (\<lambda>i. if i = sj_id j then l else None) (sync_jobs db) (sync_jobs (put_job j' db))"
proof -
  have id: "sj_id j' = sj_id j" using assms(3) by (simp add: job_moves_def)
  have eq: "r = j" if "r \<in> set (sync_jobs db)" "sj_id r = sj_id j" for r
    using distinct_key_eq [OF assms(1) that(1) assms(2) that(2)] .
  show ?thesis unfolding jobs_move_def
    by (intro exI [of _ "\<lambda>r. if sj_id r = sj_id j' then j' else r"])
       (use assms(3) eq in \<open>auto simp: put_job_def update_where_def id job_moves_refl\<close>)
qed

lemma jobs_move_put_quiet:
  assumes "distinct (map sj_id (sync_jobs db))" "j \<in> set (sync_jobs db)" "job_moves None j j'"
  shows "jobs_move quiet (sync_jobs db) (sync_jobs (put_job j' db))"
  using jobs_move_put [OF assms] by simp

lemma sync_jobs_connection_synced [simp]: "sync_jobs (connection_synced now j db) = sync_jobs db"
  by (simp add: connection_synced_def)

lemma sync_jobs_put_job: "sync_jobs (put_job j db) = update_where (\<lambda>r. sj_id r = sj_id j) (\<lambda>_. j) (sync_jobs db)"
  by (simp add: put_job_def)

section \<open>The transactions of a claim\<close>

lemma locked_claim_job_Inr:
  "locked_claim_job c db = Inr j \<Longrightarrow> j \<in> set (sync_jobs db) \<and> sj_id j = cl_id c \<and> sj_workspace_id j = cl_workspace_id c
     \<and> sj_status j = SyncRunning \<and> sj_lease_owner j = Some (cl_lease_owner c)"
  by (auto simp: locked_claim_job_def claim_job_def split: option.splits if_splits
      dest: find_Some_mem find_Some_holds)

lemma with_lease_quiet:
  assumes "\<And>j. j \<in> set (sync_jobs db) \<Longrightarrow> sj_status j = SyncRunning \<Longrightarrow>
      jobs_move quiet (sync_jobs db) (sync_jobs (snd (body j)))"
  shows "jobs_move quiet (sync_jobs db) (sync_jobs (snd (with_lease c body db)))"
  using assms locked_claim_job_Inr [of c db] jobs_move_refl
  by (auto simp: with_lease_def split: sum.split)

lemma running_live: "sj_status j = SyncRunning \<Longrightarrow> live_status j"
  by (simp add: live_status_def)

lemma renew_quiet:
  "distinct (map sj_id (sync_jobs db)) \<Longrightarrow>
     jobs_move quiet (sync_jobs db) (sync_jobs (snd (renew_or_cancel st now c db)))"
  unfolding renew_or_cancel_def
  by (rule with_lease_quiet)
     (auto intro!: jobs_move_put_quiet mark_cancelled_moves renewed_moves running_live)

lemma finish_quiet:
  "distinct (map sj_id (sync_jobs db)) \<Longrightarrow>
     jobs_move quiet (sync_jobs db) (sync_jobs (snd (finish_resumed_job now c db)))"
  unfolding finish_resumed_job_def Let_def
  by (rule with_lease_quiet)
     (auto intro!: jobs_move_put_quiet mark_cancelled_moves resumed_moves running_live)

lemma retry_quiet:
  assumes "distinct (map sj_id (sync_jobs db))"
  shows "jobs_move quiet (sync_jobs db) (sync_jobs (retry_or_fail st now c retryable code db))"
proof (cases "locked_claim_job c db")
  case (Inl e)
  then show ?thesis by (simp add: retry_or_fail_def jobs_move_refl)
next
  case (Inr j)
  note j = locked_claim_job_Inr [OF Inr]
  then show ?thesis unfolding retry_or_fail_def Inr
    by (auto intro!: jobs_move_put_quiet [OF assms] mark_cancelled_moves retried_moves failed_for_good_moves running_live)
qed

lemma persist_quiet:
  assumes "distinct (map sj_id (sync_jobs db))" "strip (rb_full_name b) \<noteq> []"
  shows "jobs_move quiet (sync_jobs db) (sync_jobs (snd (persist_repository_batch st norm now c p b db)))"
  unfolding persist_repository_batch_def
proof (rule with_lease_quiet)
  fix j assume j: "j \<in> set (sync_jobs db)" "sj_status j = SyncRunning"
  have put: "jobs_move quiet (sync_jobs db)
      (sync_jobs (put_job (persisted_job st now p b request nr j) (db1\<lparr>sync_jobs := sync_jobs db\<rparr>)))"
    if "casefold (rb_full_name b) \<notin> casefold ` set (completed_of j)" for request nr and db1 :: "'a app_db_scheme"
    using jobs_move_put_quiet [OF assms(1) j(1) persisted_moves [OF j(2) assms(2) that]] by (simp add: sync_jobs_put_job)
  show "jobs_move quiet (sync_jobs db) (sync_jobs (snd
     (if sj_cancel_requested_at j \<noteq> None then (Inr (), put_job (mark_cancelled now j) db)
     else case request_mapping (sj_cursor_before j) of Inl e \<Rightarrow> (Inl (LiveStop e), db)
     | Inr request \<Rightarrow>
         if casefold (rb_full_name b) \<in> casefold ` set (completed_of j) then (Inr (), db)
         else case norm (batch_options p b) (batch_job request b j) db of None \<Rightarrow> (Inl UnexpectedStop, db)
         | Some (nr, db1) \<Rightarrow>
             (let db2 = put_job (persisted_job st now p b request nr j) (db1\<lparr>sync_jobs := sync_jobs db\<rparr>) in
              (Inr (), if batch_is_last p j then connection_synced now j db2 else db2)))))"
    using put j jobs_move_refl jobs_move_put_quiet [OF assms(1) j(1) mark_cancelled_moves [OF running_live [OF j(2)]]]
    by (auto simp: Let_def split: sum.split option.split)
qed

section \<open>Claiming\<close>

lemma expire_quiet: "jobs_move quiet (sync_jobs db) (sync_jobs (expire_exhausted_leases now db))"
  unfolding jobs_move_def expire_exhausted_leases_def
  by (intro exI [of _ "\<lambda>j. if lease_exhausted now j then exhausted now j else j"])
     (auto simp: update_where_def job_moves_refl exhausted_moves)

lemma claimable_not_exhausted: "claimable now (exhausted now' j) = False"
  by (simp add: claimable_def exhausted_def)

lemma next_claimable_Some:
  "next_claimable locked now db = Some j \<Longrightarrow> j \<in> set (sync_jobs db) \<and> claimable now j \<and> sj_id j \<notin> set locked"
proof -
  assume "next_claimable locked now db = Some j"
  then obtain js where "sort_key (\<lambda>j. (sj_next_attempt_at j, sj_created_at j))
      (filter (\<lambda>j. claimable now j \<and> sj_id j \<notin> set locked) (sync_jobs db)) = j # js"
    by (auto simp: next_claimable_def split: list.splits)
  from arg_cong [OF this, of set] show ?thesis by auto
qed

text \<open>Expiry and one more move of a claimable job are one move of each job.\<close>

lemma expire_then_put:
  assumes d: "distinct (map sj_id (sync_jobs db))"
    and n: "next_claimable locked now (expire_exhausted_leases now db) = Some j" and m: "job_moves l j j'"
  shows "jobs_move (\<lambda>i. if i = sj_id j then l else None) (sync_jobs db)
     (sync_jobs (put_job j' (expire_exhausted_leases now db)))"
proof -
  let ?e = "\<lambda>j. if lease_exhausted now j then exhausted now j else j"
  have id: "sj_id j' = sj_id j" using m by (simp add: job_moves_def)
  have idx: "sj_id (?e r) = sj_id r" for r by (simp add: exhausted_def)
  have jin: "j \<in> ?e ` set (sync_jobs db)" "claimable now j"
    using next_claimable_Some [OF n] by (auto simp: expire_exhausted_leases_def update_where_def)
  then obtain r where r: "r \<in> set (sync_jobs db)" "j = ?e r" by blast
  then have "\<not> lease_exhausted now r" using jin(2) claimable_not_exhausted by auto
  then have j: "j \<in> set (sync_jobs db)" using r by simp
  have eq: "r = j" if "r \<in> set (sync_jobs db)" "sj_id r = sj_id j" for r
    using distinct_key_eq [OF d that(1) j that(2)] .
  show ?thesis unfolding jobs_move_def
    by (intro exI [of _ "\<lambda>r. if sj_id r = sj_id j then j' else ?e r"])
       (use m eq j idx exhausted_moves in
         \<open>auto simp: put_job_def expire_exhausted_leases_def update_where_def id job_moves_refl exhausted_def\<close>)
qed

text \<open>The owner a claim writes, at its job.\<close>

definition claim_label :: "job_claim option \<Rightarrow> uuid \<Rightarrow> string option" where
  "claim_label c i = (case c of None \<Rightarrow> None | Some c \<Rightarrow> if i = cl_id c then Some (cl_lease_owner c) else None)"

lemma claim_moves:
  assumes "distinct (map sj_id (sync_jobs db))"
  shows "jobs_move (claim_label (fst (claim_next_github_sync_job st wid token locked now db)))
     (sync_jobs db) (sync_jobs (snd (claim_next_github_sync_job st wid token locked now db)))"
proof (cases "next_claimable locked now (expire_exhausted_leases now db)")
  case None
  then show ?thesis using expire_quiet [of db now] by (simp add: claim_next_github_sync_job_def claim_label_def [abs_def])
next
  case (Some j)
  note c = next_claimable_Some [OF Some]
  show ?thesis
  proof (cases "parse_job_request j")
    case (Inl e)
    then show ?thesis using expire_then_put [OF assms Some unparsable_moves] c Some
      by (simp add: claim_next_github_sync_job_def claim_label_def [abs_def])
  next
    case (Inr a)
    then show ?thesis using expire_then_put [OF assms Some claimed_moves] c Some
      by (cases a) (simp add: claim_next_github_sync_job_def claim_label_def [abs_def] Let_def cong: if_cong)
  qed
qed

lemma claim_fields:
  "fst (claim_next_github_sync_job st wid token locked now db) = Some c \<Longrightarrow>
     cl_lease_owner c = lease_owner_of wid token \<and>
     (\<exists>j\<in>set (sync_jobs db). sj_id j = cl_id c \<and> sj_workspace_id j = cl_workspace_id c)"
  using next_claimable_Some [of locked now "expire_exhausted_leases now db"]
  by (auto simp: claim_next_github_sync_job_def Let_def expire_exhausted_leases_def in_update_where exhausted_def
      split: option.splits sum.splits prod.splits)

section \<open>The machine\<close>

record queue_state =
  qs_db :: app_db
  qs_workers :: "worker list"
  qs_tokens :: "uuid list"
  qs_claims :: "job_claim list"

text \<open>
  \<open>qs_tokens\<close> are the tokens \<^verbatim>\<open>uuid4\<close> has given and \<open>qs_claims\<close> the claims handed out; both only
  record history. A token and the identifier of a new row are taken to be fresh. The step
  \<open>normalized\<close> is a call of \<^verbatim>\<open>normalize_github_sync_job_local\<close> by a route or by result
  synchronisation, with whatever it writes to the other tables, where the job is still the row
  the handler read (\<open>unraced_normalization_put\<close>): the handler does not lock the row it reads,
  and what a race does is the theorem \<open>racing_normalization_overwrites\<close>.
\<close>

definition worker_name :: "nat \<Rightarrow> string" where "worker_name i = ''worker-'' @ show_nat (i + 1)"

definition new_claim :: "worker \<Rightarrow> worker \<Rightarrow> job_claim option" where
  "new_claim w w' = (case (w, w') of (Idle, Preparing c) \<Rightarrow> Some c | _ \<Rightarrow> None)"

definition noting :: "job_claim option \<Rightarrow> job_claim list \<Rightarrow> job_claim list" where
  "noting c cs = (case c of None \<Rightarrow> cs | Some c \<Rightarrow> c # cs)"

inductive queue_step :: "sync_settings \<Rightarrow> queue_state \<Rightarrow> queue_state \<Rightarrow> bool" for st where
  work: "i < length (qs_workers s) \<Longrightarrow> io_token io < 2 ^ 128 \<Longrightarrow> io_token io \<notin> set (qs_tokens s) \<Longrightarrow>
    worker_step st (worker_name i) io (qs_workers s ! i) (qs_db s) = (w, db) \<Longrightarrow>
    queue_step st s (s\<lparr>qs_db := db, qs_workers := (qs_workers s)[i := w], qs_tokens := io_token io # qs_tokens s,
      qs_claims := noting (new_claim (qs_workers s ! i) w) (qs_claims s)\<rparr>)"
| death: "i < length (qs_workers s) \<Longrightarrow> queue_step st s (s\<lparr>qs_workers := (qs_workers s)[i := Idle]\<rparr>)"
| enqueue: "new_id \<notin> sj_id ` set (sync_jobs (qs_db s)) \<Longrightarrow> 1 \<le> max_attempts \<Longrightarrow>
    enqueue_github_app_installation_sync real_connectors box max_attempts new_id now ws inp rb (qs_db s) = Inr (answer, db) \<Longrightarrow>
    queue_step st s (s\<lparr>qs_db := db\<rparr>)"
| manual: "new_id \<notin> sj_id ` set (sync_jobs (qs_db s)) \<Longrightarrow>
    create_manual_github_sync_job new_id now ws cid minp (qs_db s) = Inr (answer, db) \<Longrightarrow>
    queue_step st s (s\<lparr>qs_db := db\<rparr>)"
| cancel: "request_github_sync_job_cancellation ws jid rb now (qs_db s) = Inr (answer, db) \<Longrightarrow>
    queue_step st s (s\<lparr>qs_db := db\<rparr>)"
| result: "new_id \<notin> sj_id ` set (sync_jobs (qs_db s)) \<Longrightarrow>
    sync_jobs db = sync_jobs (create_execution_result_sync_job new_id now cx rec (qs_db s)) \<Longrightarrow>
    queue_step st s (s\<lparr>qs_db := db\<rparr>)"
| normalized: "j \<in> set (sync_jobs (qs_db s)) \<Longrightarrow> validate_sync_job j = Inr () \<Longrightarrow>
    sync_jobs db = sync_jobs (put_job (normalized_job now opts n c results (normalizing_job now j)) (qs_db s)) \<Longrightarrow>
    queue_step st s (s\<lparr>qs_db := db\<rparr>)"
| elsewhere: "sync_jobs db = sync_jobs (qs_db s) \<Longrightarrow> queue_step st s (s\<lparr>qs_db := db\<rparr>)"

text \<open>What a worker carries: the names of the repositories it works on are not blank.\<close>

definition nonblank :: "string list \<Rightarrow> bool" where "nonblank rs \<longleftrightarrow> (\<forall>r\<in>set rs. strip r \<noteq> [])"

fun worker_ok :: "worker \<Rightarrow> bool" where
  "worker_ok (Renewing c p) = nonblank (pp_repositories p)"
| "worker_ok (Opening c p) = nonblank (pp_repositories p)"
| "worker_ok (Resuming c p ctx) = nonblank (pp_repositories p)"
| "worker_ok (Looping c p ctx rs) = nonblank rs"
| "worker_ok (Reading c p ctx r rs) = (strip r \<noteq> [] \<and> nonblank rs)"
| "worker_ok (Persisting c p ctx b rs) = (strip (rb_full_name b) \<noteq> [] \<and> nonblank rs)"
| "worker_ok w = True"

lemma worker_ok_stopped: "worker_ok (stopped c e)"
  by (induction c e rule: stopped.induct) auto

lemma worker_ok_carry_on: "(\<And>x. r = Inr x \<Longrightarrow> worker_ok (k x)) \<Longrightarrow> worker_ok (carry_on c r k)"
  by (auto simp: carry_on_def worker_ok_stopped split: sum.split)

lemma strip_Nil_iff: "strip s = [] \<longleftrightarrow> (\<forall>c\<in>set s. is_space c)"
proof
  assume all: "\<forall>c\<in>set s. is_space c"
  then have "dropWhile is_space s = []" using dropWhile_eq_Nil_conv by blast
  then show "strip s = []" by (simp only: strip_def dropWhile.simps rev.simps)
next
  assume none: "strip s = []"
  have "\<forall>c\<in>set (rev (dropWhile is_space s)). is_space c"
    using none by (simp add: strip_def dropWhile_eq_Nil_conv)
  then have "dropWhile is_space s = []"
    using dropWhile_hd [of is_space s] by (cases "dropWhile is_space s") auto
  then show "\<forall>c\<in>set s. is_space c" by (simp add: dropWhile_eq_Nil_conv)
qed

lemma live_full_name_nonblank: "live_full_name s = Some t \<Longrightarrow> strip t \<noteq> []"
proof -
  assume "live_full_name s = Some t"
  then have "CHR ''/'' \<in> set t"
    by (auto simp: live_full_name_def Let_def split: prod.splits if_splits option.splits)
  moreover have "\<not> is_space (CHR ''/'')" by (simp add: is_space_def)
  ultimately show ?thesis using strip_Nil_iff by blast
qed

lemma normalize_repositories_from_nonblank:
  "normalize_repositories_from acc rs = Inr repos \<Longrightarrow> nonblank acc \<Longrightarrow> nonblank repos"
proof (induction acc rs arbitrary: repos rule: normalize_repositories_from.induct)
  case (2 acc raw raws)
  then show ?case
    using live_full_name_nonblank [of raw] by (auto simp: nonblank_def split: option.splits if_splits)
qed simp

lemma prepared_nonblank:
  "prepare_github_app_live_sync rc box ws inp rb db = Inr p \<Longrightarrow> nonblank (pp_repositories p)"
  using prepared_repositories [of rc box ws inp rb db p]
    normalize_repositories_from_nonblank [of "[]" "lv_repositories inp" "pp_repositories p"]
  by (auto simp: normalize_repositories_def result_iffs nonblank_def)

lemma batch_full_name:
  "read_github_app_repository_batch http now p ctx r = Inr b \<Longrightarrow> rb_full_name b = r"
  unfolding read_github_app_repository_batch_def by (auto simp: result_iffs split: prod.splits)

lemma worker_step_ok:
  "worker_ok w \<Longrightarrow> worker_ok (fst (worker_step st wid io w db))"
proof (induction st wid io w db rule: worker_step.induct)
  case (1 st wid io db)
  then show ?case by (simp split: prod.split option.split)
qed (auto simp: Let_def nonblank_def map_error_Inr_iff prepared_nonblank [unfolded nonblank_def]
    dest: batch_full_name split: prod.split intro!: worker_ok_carry_on)

lemma claim_stopped: "worker_claim (stopped c e) \<in> {None, Some c}"
  by (induction c e rule: stopped.induct) auto

lemma claim_carry_on:
  "(\<And>x. worker_claim (k x) \<in> {None, Some c}) \<Longrightarrow> worker_claim (carry_on c r k) \<in> {None, Some c}"
  using claim_stopped [of c] by (auto simp: carry_on_def split: sum.split)

lemma claim_carry_on_or:
  "(\<And>x. worker_claim (k x) = None \<or> worker_claim (k x) = Some c) \<Longrightarrow>
     worker_claim (carry_on c r k) = None \<or> worker_claim (carry_on c r k) = Some c"
  using claim_carry_on [of k c r] by simp

lemma carry_on_not_new: "w \<noteq> Idle \<Longrightarrow> new_claim w w' = None"
  by (simp add: new_claim_def split: worker.split)

lemma worker_step_claim:
  assumes "worker_step st wid io w db = (w', db')"
  shows "worker_claim w' \<in> {None, worker_claim w, new_claim w w'}"
proof (cases "w = Idle")
  case True
  then show ?thesis using assms by (auto simp: new_claim_def split: prod.splits option.splits)
next
  case False
  have "worker_claim (fst (worker_step st wid io w db)) \<in> {None, worker_claim w}" using False
  proof (induction st wid io w db rule: worker_step.induct)
    case (5 st wid io c p ctx db)
    show ?case unfolding worker_step.simps fst_conv Let_def worker_claim.simps by (rule claim_carry_on) simp
  qed (simp_all add: claim_carry_on_or split: prod.split)
  then show ?thesis using assms by auto
qed

lemma worker_step_moves:
  assumes "distinct (map sj_id (sync_jobs db))" "worker_ok w" "worker_step st wid io w db = (w', db')"
  shows "jobs_move (claim_label (new_claim w w')) (sync_jobs db) (sync_jobs db')"
proof (cases "w = Idle")
  case True
  have "new_claim Idle (case c of None \<Rightarrow> Idle | Some c \<Rightarrow> Preparing c) = c" for c
    by (cases c) (simp_all add: new_claim_def)
  then show ?thesis
    using claim_moves [OF assms(1), of st wid "io_token io" "io_locked io" "io_now io"] assms(3) True
    by (auto split: prod.splits)
next
  case False
  have l: "claim_label None = quiet" by (simp add: claim_label_def fun_eq_iff)
  have "jobs_move quiet (sync_jobs db) (sync_jobs (snd (worker_step st wid io w db)))"
    using False assms(1,2)
  proof (induction st wid io w db rule: worker_step.induct)
    case (3 st wid io c p db)
    then show ?case
      using renew_quiet [of db st "io_now io" c] by (cases "renew_or_cancel st (io_now io) c db") simp
  next
    case (6 st wid io c db)
    then show ?case
      using finish_quiet [of db "io_now io" c] by (cases "finish_resumed_job (io_now io) c db") simp
  next
    case (8 st wid io c p ctx r rs db)
    then show ?case
      using renew_quiet [of db st "io_now io" c] by (cases "renew_or_cancel st (io_now io) c db") simp
  next
    case (10 st wid io c p ctx b rs db)
    then show ?case
      using persist_quiet [of db b st "io_normalize io" "io_now io" c p]
      by (cases "persist_repository_batch st (io_normalize io) (io_now io) c p b db") simp
  next
    case (11 st wid io c retryable code db)
    then show ?case using retry_quiet by simp
  qed (simp_all add: jobs_move_refl)
  then show ?thesis using assms(3) carry_on_not_new [OF False] by (simp add: l)
qed

end
