(* ===== verification/Queue_Safety.thy ===== *)
theory Queue_Safety
  imports Sync_Queue
begin

text \<open>
  The invariant of the queue: the rows are well typed, the attempts of a job are its claims, a
  lease belongs to a claim that was handed out, owners are never used twice, and every claim a
  worker holds is its own.
\<close>

section \<open>The invariant of the table\<close>

definition claims_of :: "uuid \<Rightarrow> job_claim list \<Rightarrow> job_claim list" where
  "claims_of i cs = filter (\<lambda>c. cl_id c = i) cs"

definition jobs_inv :: "sync_job list \<Rightarrow> job_claim list \<Rightarrow> uuid list \<Rightarrow> bool" where
  "jobs_inv js cs ts \<longleftrightarrow>
     distinct (map sj_id js) \<and> (\<forall>j\<in>set js. sync_job_ok j) \<and>
     (\<forall>j\<in>set js. sj_attempt_count j = int (length (claims_of (sj_id j) cs))) \<and>
     (\<forall>j\<in>set js. \<forall>w. lf_phase (life_of j) = Held w \<longrightarrow> (\<exists>c\<in>set cs. cl_id c = sj_id j \<and> cl_lease_owner c = w)) \<and>
     (\<forall>c\<in>set cs. \<exists>j\<in>set js. sj_id j = cl_id c \<and> sj_workspace_id j = cl_workspace_id c) \<and>
     (\<forall>c\<in>set cs. \<exists>w. \<exists>t\<in>set ts. cl_lease_owner c = lease_owner_of w t) \<and>
     distinct (map cl_lease_owner cs) \<and> (\<forall>t\<in>set ts. t < 2 ^ 128)"

lemma uuid_hex_inject: "t < 2 ^ 128 \<Longrightarrow> u < 2 ^ 128 \<Longrightarrow> uuid_hex t = uuid_hex u \<Longrightarrow> t = u"
  using parse_uuid_str [of t] parse_uuid_str [of u] by (simp add: uuid_str_def)

lemma lease_owner_inject:
  assumes "t < 2 ^ 128" "u < 2 ^ 128" "lease_owner_of w t = lease_owner_of w' u"
  shows "t = u"
proof -
  have "length (uuid_hex t) = length (uuid_hex u)" by (simp add: uuid_hex_def)
  moreover have "(w @ '':'') @ uuid_hex t = (w' @ '':'') @ uuid_hex u" using assms(3) by (simp add: lease_owner_of_def)
  ultimately have "uuid_hex t = uuid_hex u"
    using append_eq_append_conv [of "w @ '':''" "w' @ '':''" "uuid_hex t" "uuid_hex u"] by blast
  then show ?thesis by (rule uuid_hex_inject [OF assms(1,2)])
qed

definition held_by :: "sync_job \<Rightarrow> job_claim \<Rightarrow> bool" where
  "held_by j c \<longleftrightarrow> lf_phase (life_of j) = Held (cl_lease_owner c)"

lemma life_step_label: "life_step (Some w) a b \<Longrightarrow> lf_phase b = Held w"
  by (auto elim: life_claimE)

text \<open>A move of the table with at most one claim keeps the invariant.\<close>

definition claim_fits :: "sync_job list \<Rightarrow> uuid \<Rightarrow> job_claim option \<Rightarrow> bool" where
  "claim_fits js t co \<longleftrightarrow> (\<forall>c. co = Some c \<longrightarrow> (\<exists>w. cl_lease_owner c = lease_owner_of w t) \<and>
     (\<exists>j\<in>set js. sj_id j = cl_id c \<and> sj_workspace_id j = cl_workspace_id c))"

lemma in_noting: "c \<in> set (noting co cs) \<longleftrightarrow> co = Some c \<or> c \<in> set cs"
  by (auto simp: noting_def split: option.split)

lemma owners_noting:
  assumes inv: "jobs_inv js cs ts" and new: "claim_fits js t co" and t: "t < 2 ^ 128" "t \<notin> set ts"
  shows "distinct (map cl_lease_owner (noting co cs)) \<and>
    (\<forall>c\<in>set (noting co cs). \<exists>w. \<exists>u\<in>set (t # ts). cl_lease_owner c = lease_owner_of w u)"
proof -
  have old: "\<exists>w. \<exists>u\<in>set ts. cl_lease_owner c = lease_owner_of w u" if "c \<in> set cs" for c
    using inv that unfolding jobs_inv_def by blast
  have ts: "u < 2 ^ 128" if "u \<in> set ts" for u using inv that unfolding jobs_inv_def by blast
  have "cl_lease_owner c \<noteq> cl_lease_owner d" if co: "co = Some c" and d: "d \<in> set cs" for c d
  proof
    assume eq: "cl_lease_owner c = cl_lease_owner d"
    obtain w u where u: "u \<in> set ts" "cl_lease_owner d = lease_owner_of w u" using old [OF d] by blast
    obtain w' where "cl_lease_owner c = lease_owner_of w' t" using new co by (auto simp: claim_fits_def)
    then have "lease_owner_of w' t = lease_owner_of w u" using eq u(2) by simp
    then have "t = u" by (rule lease_owner_inject [OF t(1) ts [OF u(1)]])
    then show False using t(2) u(1) by simp
  qed
  moreover have "distinct (map cl_lease_owner cs)" using inv by (simp add: jobs_inv_def)
  ultimately have "distinct (map cl_lease_owner (noting co cs))"
    by (auto simp: noting_def split: option.split)
  moreover have "\<exists>w. \<exists>u\<in>set (t # ts). cl_lease_owner c = lease_owner_of w u" if "c \<in> set (noting co cs)" for c
  proof (cases "co = Some c")
    case True
    then show ?thesis using new by (auto simp: claim_fits_def)
  next
    case False
    then have "c \<in> set cs" using that by (simp add: in_noting)
    then obtain w u where "u \<in> set ts" "cl_lease_owner c = lease_owner_of w u" using old by blast
    then show ?thesis by auto
  qed
  ultimately show ?thesis by blast
qed

lemma job_noting:
  assumes inv: "jobs_inv js cs ts" and j: "j \<in> set js" and m: "job_moves (claim_label co (sj_id j)) j j'"
  shows "sync_job_ok j' \<and> sj_attempt_count j' = int (length (claims_of (sj_id j') (noting co cs))) \<and>
    (\<forall>w. lf_phase (life_of j') = Held w \<longrightarrow> (\<exists>c\<in>set (noting co cs). cl_id c = sj_id j' \<and> cl_lease_owner c = w))"
proof -
  have ok: "sync_job_ok j" and n: "sj_attempt_count j = int (length (claims_of (sj_id j) cs))"
    and h: "\<And>w. lf_phase (life_of j) = Held w \<Longrightarrow> \<exists>c\<in>set cs. cl_id c = sj_id j \<and> cl_lease_owner c = w"
    using inv j unfolding jobs_inv_def by blast+
  have id: "sj_id j' = sj_id j" and step: "sync_job_ok j'" "life_step (claim_label co (sj_id j)) (life_of j) (life_of j')"
    using m ok by (auto simp: job_moves_def)
  have "sj_attempt_count j' = sj_attempt_count j + (if claim_label co (sj_id j) = None then 0 else 1)"
    using life_step_attempts [OF step(2)] by (simp add: life_of_def)
  then have "sj_attempt_count j' = int (length (claims_of (sj_id j') (noting co cs)))"
    using n id by (cases co) (simp_all add: claim_label_def noting_def claims_of_def)
  moreover have "\<exists>c\<in>set (noting co cs). cl_id c = sj_id j' \<and> cl_lease_owner c = w"
    if "lf_phase (life_of j') = Held w" for w
    using life_step_held [OF step(2) that]
  proof
    assume "claim_label co (sj_id j) = Some w"
    then show ?thesis using id by (auto simp: claim_label_def in_noting split: option.splits if_splits)
  next
    assume "claim_label co (sj_id j) = None \<and> lf_phase (life_of j) = Held w"
    then show ?thesis using h id by (auto simp: in_noting)
  qed
  ultimately show ?thesis using step(1) by blast
qed

lemma jobs_inv_move:
  assumes inv: "jobs_inv js cs ts" and move: "jobs_move (claim_label co) js js'"
    and new: "claim_fits js t co" and t: "t < 2 ^ 128" "t \<notin> set ts"
  shows "jobs_inv js' (noting co cs) (t # ts)"
proof -
  obtain f where js': "js' = map f js" and f: "\<And>j. j \<in> set js \<Longrightarrow> job_moves (claim_label co (sj_id j)) j (f j)"
    using move by (auto simp: jobs_move_def)
  have fid: "sj_id (f j) = sj_id j" "sj_workspace_id (f j) = sj_workspace_id j" if "j \<in> set js" for j
    using f [OF that] by (simp_all add: job_moves_def)
  have "map sj_id js' = map sj_id js" using fid by (simp add: js')
  then have "distinct (map sj_id js')" using inv by (simp add: jobs_inv_def)
  moreover have "\<exists>j\<in>set js'. sj_id j = cl_id c \<and> sj_workspace_id j = cl_workspace_id c" if "c \<in> set (noting co cs)" for c
  proof -
    have "\<exists>j\<in>set js. sj_id j = cl_id c \<and> sj_workspace_id j = cl_workspace_id c"
      using that new inv unfolding in_noting claim_fits_def jobs_inv_def by blast
    then show ?thesis using fid by (force simp: js')
  qed
  moreover have "\<forall>u\<in>set (t # ts). u < 2 ^ 128" using t(1) inv by (simp add: jobs_inv_def)
  ultimately show ?thesis
    using job_noting [OF inv _ f] owners_noting [OF inv new t] unfolding jobs_inv_def js' by auto
qed

lemma jobs_inv_quiet:
  assumes "jobs_inv js cs ts" "jobs_move quiet js js'"
  shows "jobs_inv js' cs ts"
proof -
  obtain f where js': "js' = map f js" and f: "\<And>j. j \<in> set js \<Longrightarrow> job_moves None j (f j)"
    using assms(2) by (auto simp: jobs_move_def)
  have fid: "sj_id (f j) = sj_id j" "sj_workspace_id (f j) = sj_workspace_id j" if "j \<in> set js" for j
    using f [OF that] by (simp_all add: job_moves_def)
  have "map sj_id js' = map sj_id js" using fid by (simp add: js')
  then have "distinct (map sj_id js')" using assms(1) by (simp add: jobs_inv_def)
  moreover have "\<exists>j\<in>set js'. sj_id j = cl_id c \<and> sj_workspace_id j = cl_workspace_id c" if "c \<in> set cs" for c
  proof -
    have "\<exists>j\<in>set js. sj_id j = cl_id c \<and> sj_workspace_id j = cl_workspace_id c"
      using that assms(1) unfolding jobs_inv_def by blast
    then show ?thesis using fid by (force simp: js')
  qed
  moreover have "noting None cs = cs" "claim_label None i = None" for i by (simp_all add: noting_def claim_label_def)
  ultimately show ?thesis
    using job_noting [OF assms(1), where co = None] f assms(1) unfolding jobs_inv_def js' by auto
qed

lemma jobs_inv_append:
  assumes inv: "jobs_inv js cs ts" and j: "sj_id j \<notin> sj_id ` set js" "sync_job_ok j" "sj_attempt_count j = 0"
    "sj_status j = Queued"
  shows "jobs_inv (js @ [j]) cs ts"
proof -
  have "claims_of (sj_id j) cs = []"
  proof -
    have "cl_id c \<noteq> sj_id j" if "c \<in> set cs" for c
      using that inv j(1) unfolding jobs_inv_def by (metis image_eqI)
    then show ?thesis by (simp add: claims_of_def filter_empty_conv)
  qed
  moreover have "lf_phase (life_of j) \<noteq> Held w" for w using j(4) by (simp add: life_of_def)
  ultimately show ?thesis using inv j unfolding jobs_inv_def by auto
qed

section \<open>The invariant of the machine\<close>

definition queue_ok :: "queue_state \<Rightarrow> bool" where
  "queue_ok s \<longleftrightarrow> jobs_inv (sync_jobs (qs_db s)) (qs_claims s) (qs_tokens s) \<and>
     (\<forall>i<length (qs_workers s). worker_ok (qs_workers s ! i) \<and>
        (\<forall>c. worker_claim (qs_workers s ! i) = Some c \<longrightarrow> c \<in> set (qs_claims s))) \<and>
     (\<forall>i<length (qs_workers s). \<forall>k<length (qs_workers s). \<forall>c. worker_claim (qs_workers s ! i) = Some c \<longrightarrow>
        worker_claim (qs_workers s ! k) = Some c \<longrightarrow> i = k)"

definition queue_start :: "queue_state \<Rightarrow> bool" where
  "queue_start s \<longleftrightarrow> sync_jobs (qs_db s) = [] \<and> qs_tokens s = [] \<and> qs_claims s = [] \<and>
     (\<forall>w\<in>set (qs_workers s). w = Idle)"

lemma queue_start_ok: "queue_start s \<Longrightarrow> queue_ok s"
  by (simp add: queue_start_def queue_ok_def jobs_inv_def all_set_conv_all_nth)

lemma new_claim_fits:
  assumes "worker_step st wid io w db = (w', db')"
  shows "claim_fits (sync_jobs db) (io_token io) (new_claim w w')"
proof (cases "w = Idle")
  case True
  show ?thesis
  proof (cases "fst (claim_next_github_sync_job st wid (io_token io) (io_locked io) (io_now io) db)")
    case None
    then show ?thesis using assms True by (auto simp: claim_fits_def new_claim_def split: prod.splits)
  next
    case (Some c)
    then have "w' = Preparing c" using assms True by (auto split: prod.splits)
    then show ?thesis using claim_fields [OF Some] True by (auto simp: claim_fits_def new_claim_def)
  qed
qed (simp add: claim_fits_def carry_on_not_new)

lemma new_claim_fresh:
  assumes inv: "jobs_inv js cs ts" and fits: "claim_fits js t (Some c)" and t: "t < 2 ^ 128" "t \<notin> set ts"
  shows "c \<notin> set cs"
  using owners_noting [OF inv fits t] by (auto simp: noting_def)

lemma queue_ok_work:
  assumes ok: "queue_ok s" and i: "i < length (qs_workers s)"
    and t: "io_token io < 2 ^ 128" "io_token io \<notin> set (qs_tokens s)"
    and step: "worker_step st (worker_name i) io (qs_workers s ! i) (qs_db s) = (w, db)"
  shows "queue_ok (s\<lparr>qs_db := db, qs_workers := (qs_workers s)[i := w], qs_tokens := io_token io # qs_tokens s,
      qs_claims := noting (new_claim (qs_workers s ! i) w) (qs_claims s)\<rparr>)"
proof -
  let ?co = "new_claim (qs_workers s ! i) w"
  have inv: "jobs_inv (sync_jobs (qs_db s)) (qs_claims s) (qs_tokens s)" using ok by (simp add: queue_ok_def)
  have wok: "worker_ok (qs_workers s ! k)" "worker_claim (qs_workers s ! k) = Some c \<Longrightarrow> c \<in> set (qs_claims s)"
    if "k < length (qs_workers s)" for k c using ok that by (auto simp: queue_ok_def)
  have uniq: "k = l" if "k < length (qs_workers s)" "l < length (qs_workers s)"
    "worker_claim (qs_workers s ! k) = Some c" "worker_claim (qs_workers s ! l) = Some c" for k l c
    using ok that by (auto simp: queue_ok_def)
  have ids: "distinct (map sj_id (sync_jobs (qs_db s)))" using inv by (simp add: jobs_inv_def)
  note fits = new_claim_fits [OF step]
  have "worker_ok w" using worker_step_ok [OF wok(1) [OF i], of st "worker_name i" io "qs_db s"] step by simp
  have from_old: "worker_claim w = Some c \<Longrightarrow> worker_claim (qs_workers s ! i) = Some c \<or> ?co = Some c" for c
    using worker_step_claim [OF step] by auto
  have fresh: "worker_claim (qs_workers s ! k) \<noteq> Some c" if "?co = Some c" "k < length (qs_workers s)" for k c
    using new_claim_fresh [OF inv _ t] fits that wok(2) by metis
  have claims: "worker_claim ((qs_workers s)[i := w] ! k) = Some c \<Longrightarrow> c \<in> set (noting ?co (qs_claims s))"
    if "k < length (qs_workers s)" for k c
    using that from_old wok(2) i by (cases "k = i") (auto simp: in_noting)
  have old: "worker_claim (qs_workers s ! k) = Some c \<or> k = i \<and> ?co = Some c"
    if "k < length (qs_workers s)" "worker_claim ((qs_workers s)[i := w] ! k) = Some c" for k c
    using that from_old i by (cases "k = i") auto
  have one: "k = l" if "k < length (qs_workers s)" "l < length (qs_workers s)"
    "worker_claim ((qs_workers s)[i := w] ! k) = Some c" "worker_claim ((qs_workers s)[i := w] ! l) = Some c" for k l c
    using old [OF that(1,3)] old [OF that(2,4)] uniq [OF that(1,2)] fresh that(1,2) by blast
  have "jobs_inv (sync_jobs db) (noting ?co (qs_claims s)) (io_token io # qs_tokens s)"
    by (rule jobs_inv_move [OF inv worker_step_moves [OF ids wok(1) [OF i] step] fits t])
  moreover have "worker_ok ((qs_workers s)[i := w] ! k)" if "k < length (qs_workers s)" for k
    using that wok(1) \<open>worker_ok w\<close> by (cases "k = i") auto
  ultimately show ?thesis using claims one unfolding queue_ok_def by auto
qed

lemma queue_ok_db:
  assumes "queue_ok s" "jobs_inv (sync_jobs db) (qs_claims s) (qs_tokens s)"
  shows "queue_ok (s\<lparr>qs_db := db\<rparr>)"
  using assms by (simp add: queue_ok_def)

lemma queued_job_fields:
  "sj_id (queued_job i now ws cid cb) = i" "sj_attempt_count (queued_job i now ws cid cb) = 0"
  "sj_status (queued_job i now ws cid cb) = Queued"
  by (simp_all add: queued_job_def)

lemma live_sync_job_fields:
  "sj_id (live_sync_job m i now p rb) = i" "sj_attempt_count (live_sync_job m i now p rb) = 0"
  "sj_status (live_sync_job m i now p rb) = Queued"
  by (simp_all add: live_sync_job_def queued_job_fields)

lemma live_sync_job_ok: "1 \<le> m \<Longrightarrow> sync_job_ok (live_sync_job m i now p rb)"
  by (simp add: sync_job_ok_def live_sync_job_def queued_job_def FINISHED_STATUSES_def completed_of_def progress_of_def
      job_progress_def py_get_def as_dict_def string_list_def List.map_filter_def)

lemma manual_job_ok: "sync_job_ok ((queued_job i now ws cid cb)\<lparr>sj_logs := l\<rparr>)"
  by (simp add: sync_job_ok_def queued_job_def FINISHED_STATUSES_def completed_of_def progress_of_def
      job_progress_def py_get_def string_list_def)

lemma result_job:
  obtains j where "sync_jobs (create_execution_result_sync_job new_id now cx rec db) = sync_jobs db @ [j]"
    "sj_id j = new_id" "sync_job_ok j" "sj_attempt_count j = 0" "sj_status j = Queued"
  unfolding create_execution_result_sync_job_def
  by (auto simp: sync_job_ok_def FINISHED_STATUSES_def completed_of_def progress_of_def
      job_progress_def py_get_def string_list_def)

text \<open>The operations that add a job.\<close>

definition adds_job :: "uuid \<Rightarrow> app_db \<Rightarrow> app_db \<Rightarrow> bool" where
  "adds_job new_id db db' \<longleftrightarrow> (\<exists>j. sync_jobs db' = sync_jobs db @ [j] \<and> sj_id j = new_id \<and> sync_job_ok j
     \<and> sj_attempt_count j = 0 \<and> sj_status j = Queued)"

lemma enqueue_adds:
  assumes "1 \<le> max_attempts"
    and e: "enqueue_github_app_installation_sync rc box max_attempts new_id now ws inp rb db = Inr (answer, db')"
  shows "adds_job new_id db db'"
proof -
  obtain p where "sync_jobs db' = sync_jobs db @ [live_sync_job max_attempts new_id now p rb]"
    using e unfolding enqueue_github_app_installation_sync_def Let_def by (auto simp: result_iffs)
  then show ?thesis using live_sync_job_ok [OF assms(1)] live_sync_job_fields unfolding adds_job_def by blast
qed

lemma manual_adds:
  assumes e: "create_manual_github_sync_job new_id now ws cid minp db = Inr (answer, db')"
  shows "adds_job new_id db db'"
  using e manual_job_ok unfolding create_manual_github_sync_job_def Let_def adds_job_def
  by (auto simp: result_iffs queued_job_fields)

lemma result_adds:
  "sync_jobs db' = sync_jobs (create_execution_result_sync_job new_id now cx rec db) \<Longrightarrow> adds_job new_id db db'"
  using result_job [of new_id now cx rec db] by (metis adds_job_def)

lemma queue_ok_adds:
  assumes "queue_ok s" "new_id \<notin> sj_id ` set (sync_jobs (qs_db s))" "adds_job new_id (qs_db s) db"
  shows "queue_ok (s\<lparr>qs_db := db\<rparr>)"
  using assms by (auto intro!: queue_ok_db jobs_inv_append simp: adds_job_def queue_ok_def)

lemma cancel_quiet:
  assumes "distinct (map sj_id (sync_jobs db))"
    and c: "request_github_sync_job_cancellation ws jid rb now db = Inr (answer, db')"
  shows "jobs_move quiet (sync_jobs db) (sync_jobs db')"
proof -
  obtain j where j: "find_github_sync_job ws jid db = Some j" "sj_status j \<notin> set FINISHED_STATUSES"
    "db' = put_job (cancelled_by_request rb now j) db"
    using c unfolding request_github_sync_job_cancellation_def Let_def
    by (auto simp: result_iffs require_some_Inr_iff)
  then have "j \<in> set (sync_jobs db)" by (auto simp: find_github_sync_job_def dest: find_Some_mem)
  moreover have "live_status j" using j(2) by (cases "sj_status j") (auto simp: FINISHED_STATUSES_def live_status_def)
  ultimately show ?thesis unfolding j(3)
    by (auto intro: jobs_move_put_quiet [OF assms(1)] cancelled_by_request_moves)
qed

lemma normalized_quiet:
  assumes "distinct (map sj_id (sync_jobs db))" "j \<in> set (sync_jobs db)" "validate_sync_job j = Inr ()"
    and "sync_jobs db' = sync_jobs (put_job (normalized_job now opts n c results (normalizing_job now j)) db)"
  shows "jobs_move quiet (sync_jobs db) (sync_jobs db')"
  unfolding assms(4) by (rule jobs_move_put_quiet [OF assms(1,2) normalized_moves [OF assms(3)]])

lemma queue_ok_quiet:
  assumes "queue_ok s" "jobs_move quiet (sync_jobs (qs_db s)) (sync_jobs db)"
  shows "queue_ok (s\<lparr>qs_db := db\<rparr>)"
  by (rule queue_ok_db [OF assms(1) jobs_inv_quiet [OF _ assms(2)]]) (use assms(1) in \<open>simp add: queue_ok_def\<close>)

lemma queue_ok_ids: "queue_ok s \<Longrightarrow> distinct (map sj_id (sync_jobs (qs_db s)))"
  by (simp add: queue_ok_def jobs_inv_def)

lemma queue_ok_step: "queue_step st s t \<Longrightarrow> queue_ok s \<Longrightarrow> queue_ok t"
proof (induction rule: queue_step.induct)
  case (work i s io w db)
  then show ?case by (intro queue_ok_work)
next
  case (death i s)
  then show ?case by (auto simp: queue_ok_def nth_list_update split: if_splits)
next
  case (enqueue new_id s max_attempts rc box now ws inp rb answer db)
  then show ?case by (intro queue_ok_adds enqueue_adds)
next
  case (manual new_id s now ws cid minp answer db)
  then show ?case by (intro queue_ok_adds manual_adds)
next
  case (cancel ws jid rb now s answer db)
  show ?case by (rule queue_ok_quiet [OF cancel.prems cancel_quiet [OF queue_ok_ids [OF cancel.prems] cancel.hyps]])
next
  case (result new_id s db now cx rec)
  then show ?case by (intro queue_ok_adds result_adds)
next
  case (normalized j s db now opts n c results)
  show ?case
    by (rule queue_ok_quiet [OF normalized.prems normalized_quiet [OF queue_ok_ids [OF normalized.prems] normalized.hyps]])
next
  case (elsewhere db s)
  then show ?case by (intro queue_ok_db) (simp_all add: queue_ok_def)
qed

interpretation queue_machine: invariant_machine "queue_step st" queue_ok for st
  by unfold_locales (rule queue_ok_step)

lemma queue_reachable: "queue_start s \<Longrightarrow> run (queue_step st) s t \<Longrightarrow> queue_ok t"
  using queue_machine.inv_run queue_start_ok by blast

end
