(* ===== verification/Queue_Properties.thy ===== *)
theory Queue_Properties
  imports Queue_Safety
begin

text \<open>
  What the queue guarantees in every interleaving: rows keep their type, every step is a step of
  the life cycle of each job, a job is claimed at most as often as it may be, one worker at a
  time holds a job, and a lost lease is lost for good; and what a local normalisation does that
  is overtaken between its read and its writes. The last sections run a small queue.
\<close>

section \<open>Rows keep their type\<close>

text \<open>C13. The rows of the queue are well typed in every reachable state: whatever workers, their
  deaths, operators, result synchronisations and local normalisations do, as long as no local
  normalisation overwrites a row that changed since it read it (what that does is C16). A job has a
  lease owner exactly while it runs and an expiry exactly with an owner; it has a finish time
  exactly when its status is final; a job with a cancellation request is cancelled, so no worker
  ever meets one; a running job has been started and attempted; the attempts never exceed the
  limit; and no repository is recorded as completed twice.\<close>

theorem reachable_jobs_typed:
  assumes "queue_start s" "run (queue_step st) s t" "j \<in> set (sync_jobs (qs_db t))"
  shows "sync_job_ok j"
  using queue_reachable [OF assms(1,2)] assms(3) by (auto simp: queue_ok_def jobs_inv_def)

section \<open>A bound on the claims\<close>

text \<open>C11. A job is claimed at most as often as its limit says. However the workers, their deaths,
  the operators and the expiry of leases interleave, the claims handed out for a job are as
  many as its attempt count, and that is at most its limit; so no job is worked on for ever.\<close>

theorem claims_bounded:
  assumes "queue_start s" "run (queue_step st) s t" "j \<in> set (sync_jobs (qs_db t))"
  shows "int (length (claims_of (sj_id j) (qs_claims t))) = sj_attempt_count j \<and>
    sj_attempt_count j \<le> sj_max_attempts j"
  using queue_reachable [OF assms(1,2)] assms(3) by (auto simp: queue_ok_def jobs_inv_def sync_job_ok_def)

section \<open>One worker at a time\<close>

lemma locked_held: "locked_claim_job c db = Inr j \<Longrightarrow> held_by j c \<and> sj_id j = cl_id c \<and> j \<in> set (sync_jobs db)"
  using locked_claim_job_Inr [of c db j] by (simp add: held_by_def life_of_def)

lemma owner_determines_claim:
  "queue_ok s \<Longrightarrow> c \<in> set (qs_claims s) \<Longrightarrow> d \<in> set (qs_claims s) \<Longrightarrow>
     cl_lease_owner c = cl_lease_owner d \<Longrightarrow> c = d"
  by (rule distinct_key_eq [of cl_lease_owner "qs_claims s"]) (simp_all add: queue_ok_def jobs_inv_def)

text \<open>At most one worker can write to a job. In every reachable state, two workers whose
  claims are on the same job and both pass the lease check are the same worker.\<close>

theorem one_worker_per_job:
  assumes "queue_start s" "run (queue_step st) s t"
    and "i < length (qs_workers t)" "worker_claim (qs_workers t ! i) = Some c" "locked_claim_job c (qs_db t) = Inr j"
    and "k < length (qs_workers t)" "worker_claim (qs_workers t ! k) = Some d" "locked_claim_job d (qs_db t) = Inr j'"
    and "cl_id c = cl_id d"
  shows "i = k"
proof -
  have ok: "queue_ok t" by (rule queue_reachable [OF assms(1,2)])
  then have "distinct (map sj_id (sync_jobs (qs_db t)))" by (simp add: queue_ok_def jobs_inv_def)
  then have "j = j'"
    by (rule distinct_key_eq) (use locked_held [OF assms(5)] locked_held [OF assms(8)] assms(9) in simp_all)
  then have "cl_lease_owner c = cl_lease_owner d"
    using locked_held [OF assms(5)] locked_held [OF assms(8)] by (simp add: held_by_def)
  moreover have "c \<in> set (qs_claims t)" "d \<in> set (qs_claims t)" using ok assms(3,4,6,7) by (auto simp: queue_ok_def)
  ultimately have "c = d" using owner_determines_claim [OF ok] by blast
  then show ?thesis using ok assms(3,4,6,7) by (auto simp: queue_ok_def)
qed

section \<open>A lost lease stays lost\<close>

definition lease_lost :: "job_claim \<Rightarrow> queue_state \<Rightarrow> bool" where
  "lease_lost c s \<longleftrightarrow> c \<in> set (qs_claims s) \<and> (\<forall>j\<in>set (sync_jobs (qs_db s)). sj_id j = cl_id c \<longrightarrow> \<not> held_by j c)"

lemma lost_iff:
  assumes "queue_ok s" "c \<in> set (qs_claims s)"
  shows "lease_lost c s \<longleftrightarrow> locked_claim_job c (qs_db s) = Inl LostLease"
proof -
  let ?js = "sync_jobs (qs_db s)"
  have inv: "jobs_inv ?js (qs_claims s) (qs_tokens s)" using assms(1) by (simp add: queue_ok_def)
  obtain j where j: "j \<in> set ?js" "sj_id j = cl_id c" "sj_workspace_id j = cl_workspace_id c"
    using inv assms(2) unfolding jobs_inv_def by blast
  have d: "distinct (map sj_id ?js)" and ok: "sync_job_ok j" using inv j(1) unfolding jobs_inv_def by blast+
  have same: "r = j" if "r \<in> set ?js" "sj_id r = cl_id c" for r
    using distinct_key_eq [OF d that(1) j(1)] that(2) j(2) by simp
  have "find (\<lambda>r. sj_id r = cl_id c \<and> sj_workspace_id r = cl_workspace_id c) ?js = find (\<lambda>r. sj_id r = cl_id c) ?js"
    by (rule find_cong_set) (use same j(3) in blast)
  also have "\<dots> = Some j" using find_key_unique [OF d j(1)] j(2) by simp
  finally have f: "claim_job c (qs_db s) = Some j" by (simp add: claim_job_def)
  have "lease_lost c s \<longleftrightarrow> \<not> held_by j c"
    unfolding lease_lost_def using assms(2) j(1,2) same by blast
  also have "\<dots> \<longleftrightarrow> locked_claim_job c (qs_db s) = Inl LostLease"
    using ok by (cases "sj_status j") (auto simp: locked_claim_job_def f held_by_def life_of_def sync_job_ok_def)
  finally show ?thesis .
qed

lemma lost_move:
  assumes move: "jobs_move l js js'" and inv: "\<forall>j\<in>set js. sync_job_ok j"
    and lost: "\<forall>j\<in>set js. sj_id j = cl_id c \<longrightarrow> \<not> held_by j c" and l: "l (cl_id c) \<noteq> Some (cl_lease_owner c)"
  shows "\<forall>j\<in>set js'. sj_id j = cl_id c \<longrightarrow> \<not> held_by j c"
proof -
  obtain f where js': "js' = map f js" and f: "\<And>j. j \<in> set js \<Longrightarrow> job_moves (l (sj_id j)) j (f j)"
    using move by (auto simp: jobs_move_def)
  have "\<not> held_by (f j) c" if "j \<in> set js" "sj_id (f j) = cl_id c" for j
  proof -
    have id: "sj_id j = cl_id c" and s: "life_step (l (sj_id j)) (life_of j) (life_of (f j))"
      using f [OF that(1)] that inv by (auto simp: job_moves_def)
    show ?thesis using life_step_held [OF s] lost l that(1) id by (auto simp: held_by_def)
  qed
  then show ?thesis by (simp add: js')
qed

lemma lost_adds: "adds_job new_id (qs_db s) db \<Longrightarrow> lease_lost c s \<Longrightarrow> lease_lost c (s\<lparr>qs_db := db\<rparr>)"
  by (auto simp: adds_job_def lease_lost_def held_by_def life_of_def)

lemma lost_quiet:
  assumes "queue_ok s" "lease_lost c s" "jobs_move quiet (sync_jobs (qs_db s)) (sync_jobs db)"
  shows "lease_lost c (s\<lparr>qs_db := db\<rparr>)"
proof -
  have "\<forall>j\<in>set (sync_jobs (qs_db s)). sync_job_ok j" using assms(1) by (simp add: queue_ok_def jobs_inv_def)
  then show ?thesis using lost_move [OF assms(3)] assms(2) by (auto simp: lease_lost_def)
qed

lemma lost_step:
  assumes "queue_step st s t" "queue_ok s" "lease_lost c s"
  shows "lease_lost c t"
  using assms
proof (induction rule: queue_step.induct)
  case (work i s io w db)
  let ?co = "new_claim (qs_workers s ! i) w"
  have inv: "jobs_inv (sync_jobs (qs_db s)) (qs_claims s) (qs_tokens s)" "worker_ok (qs_workers s ! i)"
    using work by (auto simp: queue_ok_def)
  then have ids: "distinct (map sj_id (sync_jobs (qs_db s)))" and ok: "\<forall>j\<in>set (sync_jobs (qs_db s)). sync_job_ok j"
    by (auto simp: jobs_inv_def)
  have "claim_label ?co (cl_id c) \<noteq> Some (cl_lease_owner c)"
  proof
    assume "claim_label ?co (cl_id c) = Some (cl_lease_owner c)"
    then obtain d where d: "?co = Some d" "cl_lease_owner d = cl_lease_owner c"
      by (auto simp: claim_label_def split: option.splits if_splits)
    then show False
      using owners_noting [OF inv(1) new_claim_fits [OF work.hyps(4)] work.hyps(2,3)] work.prems(2)
      by (auto simp: noting_def lease_lost_def)
  qed
  then show ?case
    using lost_move [OF worker_step_moves [OF ids inv(2) work.hyps(4)] ok] work.prems(2)
    by (auto simp: lease_lost_def in_noting)
next
  case (enqueue new_id s max_attempts rc box now ws inp rb answer db)
  then show ?case using lost_adds [OF enqueue_adds] by blast
next
  case (manual new_id s now ws cid minp answer db)
  then show ?case using lost_adds [OF manual_adds] by blast
next
  case (cancel ws jid rb now s answer db)
  show ?case
    by (rule lost_quiet [OF cancel.prems cancel_quiet [OF queue_ok_ids [OF cancel.prems(1)] cancel.hyps]])
next
  case (result new_id s db now cx rec)
  then show ?case using lost_adds [OF result_adds] by blast
next
  case (normalized j s db now opts n c results)
  show ?case
    by (rule lost_quiet [OF normalized.prems normalized_quiet [OF queue_ok_ids [OF normalized.prems(1)] normalized.hyps]])
qed (auto simp: lease_lost_def)

lemma lost_lease_frozen:
  "locked_claim_job c db = Inl LostLease \<Longrightarrow> worker_claim w = Some c \<Longrightarrow> snd (worker_step st wid io w db) = db"
proof (induction st wid io w db rule: worker_step.induct)
  case (8 st wid io d p ctx r rs db)
  then show ?case by (simp add: renew_or_cancel_def with_lease_def)
qed (simp_all add: renew_or_cancel_def finish_resumed_job_def persist_repository_batch_def retry_or_fail_def with_lease_def)

text \<open>C10. A worker that has lost its lease is fenced off. Once a claim that was handed out does not
  pass the lease check (the lease expired and went to another worker, the job was retried,
  cancelled or finished), it never passes it again, and in whatever step of its program the
  worker holding it is, that step leaves the database as it is.\<close>

theorem lost_lease_is_final:
  assumes "queue_start s0" "run (queue_step st) s0 s" "run (queue_step st) s t"
    and "c \<in> set (qs_claims s)" "locked_claim_job c (qs_db s) = Inl LostLease"
  shows "locked_claim_job c (qs_db t) = Inl LostLease \<and>
    (worker_claim w = Some c \<longrightarrow> snd (worker_step st wid io w (qs_db t)) = qs_db t)"
proof -
  have ok: "queue_ok s" by (rule queue_reachable [OF assms(1,2)])
  then have "lease_lost c s" using assms(4,5) lost_iff by blast
  then have "lease_lost c t"
    by (rule queue_machine.run_stable [OF assms(3) ok, where P = "lease_lost c"]) (rule lost_step)
  moreover have "queue_ok t" by (rule queue_machine.inv_run [OF assms(3) ok])
  ultimately have "locked_claim_job c (qs_db t) = Inl LostLease" using lost_iff by (auto simp: lease_lost_def)
  then show ?thesis using lost_lease_frozen by blast
qed

section \<open>Every step is a step of the life cycle\<close>

lemma life_moves:
  assumes "jobs_move l js js'" "\<forall>j\<in>set js. sync_job_ok j" "j \<in> set js"
  shows "\<exists>j'\<in>set js'. sj_id j' = sj_id j \<and> life_step (l (sj_id j)) (life_of j) (life_of j')"
  using assms by (auto simp: jobs_move_def job_moves_def)

lemma life_quiet:
  assumes "queue_ok s" "j \<in> set (sync_jobs (qs_db s))" "jobs_move quiet (sync_jobs (qs_db s)) (sync_jobs db)"
  shows "\<exists>j'\<in>set (sync_jobs (qs_db (s\<lparr>qs_db := db\<rparr>))). sj_id j' = sj_id j \<and> (\<exists>l. life_step l (life_of j) (life_of j') \<and>
    (\<forall>w. l = Some w \<longrightarrow> (\<exists>c\<in>set (qs_claims (s\<lparr>qs_db := db\<rparr>)) - set (qs_claims s). cl_id c = sj_id j \<and> cl_lease_owner c = w)))"
proof -
  have "\<forall>j\<in>set (sync_jobs (qs_db s)). sync_job_ok j" using assms(1) by (simp add: queue_ok_def jobs_inv_def)
  from life_moves [OF assms(3) this assms(2)] show ?thesis by fastforce
qed

lemma life_of_step:
  assumes "queue_step st s t" "queue_ok s" "j \<in> set (sync_jobs (qs_db s))"
  shows "\<exists>j'\<in>set (sync_jobs (qs_db t)). sj_id j' = sj_id j \<and> (\<exists>l. life_step l (life_of j) (life_of j') \<and>
    (\<forall>w. l = Some w \<longrightarrow> (\<exists>c\<in>set (qs_claims t) - set (qs_claims s). cl_id c = sj_id j \<and> cl_lease_owner c = w)))"
  using assms
proof (induction rule: queue_step.induct)
  case (work i s io w db)
  let ?co = "new_claim (qs_workers s ! i) w"
  have inv: "jobs_inv (sync_jobs (qs_db s)) (qs_claims s) (qs_tokens s)" "worker_ok (qs_workers s ! i)"
    using work by (auto simp: queue_ok_def)
  then have ids: "distinct (map sj_id (sync_jobs (qs_db s)))" and ok: "\<forall>j\<in>set (sync_jobs (qs_db s)). sync_job_ok j"
    by (auto simp: jobs_inv_def)
  have "\<exists>c\<in>set (noting ?co (qs_claims s)) - set (qs_claims s). cl_id c = sj_id j \<and> cl_lease_owner c = v"
    if label: "claim_label ?co (sj_id j) = Some v" for v
  proof -
    obtain c where c: "?co = Some c" "cl_id c = sj_id j" "cl_lease_owner c = v"
      using label by (auto simp: claim_label_def split: option.splits if_splits)
    then have "c \<notin> set (qs_claims s)"
      using new_claim_fresh [OF inv(1) _ work.hyps(2,3)] new_claim_fits [OF work.hyps(4)] by simp
    then show ?thesis using c by (auto simp: in_noting)
  qed
  then show ?case
    using life_moves [OF worker_step_moves [OF ids inv(2) work.hyps(4)] ok work.prems(2)] by auto
next
  case (enqueue new_id s max_attempts rc box now ws inp rb answer db)
  then show ?case using enqueue_adds [OF enqueue.hyps(2,3)] life_step.stay by (fastforce simp: adds_job_def)
next
  case (manual new_id s now ws cid minp answer db)
  then show ?case using manual_adds [OF manual.hyps(2)] life_step.stay by (fastforce simp: adds_job_def)
next
  case (cancel ws jid rb now s answer db)
  show ?case
    by (rule life_quiet [OF cancel.prems cancel_quiet [OF queue_ok_ids [OF cancel.prems(1)] cancel.hyps]])
next
  case (result new_id s db now cx rec)
  then show ?case using result_adds [OF result.hyps(2)] life_step.stay by (fastforce simp: adds_job_def)
next
  case (normalized j0 s db now opts n c results)
  show ?case
    by (rule life_quiet [OF normalized.prems normalized_quiet [OF queue_ok_ids [OF normalized.prems(1)] normalized.hyps]])
qed (use life_step.stay in auto)

text \<open>C12. The queue refines the life cycle of a job. Each step of the machine (of a worker, an
  operator, a result synchronisation, or a local normalisation whose job is still the row it
  read) takes every job to a job with the same identifier and one step of the abstract life
  cycle: it stays, or it is claimed by the owner of a claim handed out in this step, does one
  more repository, ends, goes back to waiting, is cancelled, or ends from waiting because it was
  normalised locally. In particular a job that has ended does not change its phase, attempts or
  completed repositories any more.\<close>

theorem queue_refines_life_cycle:
  assumes "queue_start s0" "run (queue_step st) s0 s" "queue_step st s t" "j \<in> set (sync_jobs (qs_db s))"
  shows "\<exists>j'\<in>set (sync_jobs (qs_db t)). sj_id j' = sj_id j \<and>
    (ended (lf_phase (life_of j)) \<longrightarrow> life_of j' = life_of j) \<and>
    (\<exists>l. life_step l (life_of j) (life_of j') \<and>
      (\<forall>w. l = Some w \<longrightarrow> (\<exists>c\<in>set (qs_claims t) - set (qs_claims s). cl_id c = sj_id j \<and> cl_lease_owner c = w)))"
  using life_of_step [OF assms(3) queue_reachable [OF assms(1,2)] assms(4)] life_ended_stays by blast

section \<open>A small queue\<close>

definition example_settings :: sync_settings where
  "example_settings = \<lparr> st_lease_seconds = 300, st_retry_base_seconds = 5 \<rparr>"

definition example_cursor :: pydict where
  "example_cursor = [(''github_app_live_sync'', PDict [(''connection_id'', PStr (uuid_str 61)),
     (''repositories'', PList [PStr ''a/b'']), (''include_issues'', PBool False),
     (''include_pull_requests'', PBool False), (''issue_states'', PList []), (''pull_request_states'', PList []),
     (''requested_by'', PStr ''session'')])]"

definition example_manual :: manual_sync_input where
  "example_manual = \<lparr> ms_cursor_before = Some example_cursor, ms_notes = None, ms_requested_by = ''operator_api_key'' \<rparr>"

definition example_job :: sync_job where
  "example_job = (queued_job 80 0 2 61 (Some example_cursor))\<lparr>sj_logs := Some [PDict
     [(''requested_by'', PStr ''operator_api_key''), (''execution_started'', PBool False),
      (''note'', PStr ''manual sync job record only'')]]\<rparr>"

definition example_queue_db :: "sync_job list \<Rightarrow> app_db" where
  "example_queue_db js = example_app_db\<lparr>sync_jobs := js\<rparr>"

definition example_io :: "time \<Rightarrow> uuid \<Rightarrow> worker_io" where
  "example_io now token = \<lparr> io_now = now, io_token = token, io_locked = [], io_http = example_live_http,
     io_sign = example_sign, io_box = example_box, io_real_connectors = False, io_normalize = (\<lambda>_ _ _. None) \<rparr>"

definition example_claim :: "nat \<Rightarrow> uuid \<Rightarrow> job_claim" where
  "example_claim i token = \<lparr> cl_id = 80, cl_workspace_id = 2, cl_lease_owner = lease_owner_of (worker_name i) token,
     cl_input = example_live_input, cl_requested_by = ''session'' \<rparr>"

definition example_held :: sync_job where
  "example_held = claimed_by example_settings (cl_lease_owner (example_claim 0 90)) 10 example_job"

definition example_taken :: sync_job where
  "example_taken = claimed_by example_settings (cl_lease_owner (example_claim 1 91)) (10 + seconds 300) example_held"

definition example_queue :: "sync_job list \<Rightarrow> worker list \<Rightarrow> uuid list \<Rightarrow> job_claim list \<Rightarrow> queue_state" where
  "example_queue js ws ts cs = \<lparr> qs_db = example_queue_db js, qs_workers = ws, qs_tokens = ts, qs_claims = cs \<rparr>"

lemma example_parse: "sj_cursor_before j = Some example_cursor \<Longrightarrow> parse_job_request j = Inr (example_live_input, ''session'')"
  by (simp add: parse_job_request_def request_mapping_def live_sync_request_def example_cursor_def py_get_def as_dict_def
      as_str_def parse_uuid_str text_items_def List.map_filter_def example_live_input_def)

lemma example_manual_step:
  "create_manual_github_sync_job 80 0 2 61 example_manual (example_queue_db []) =
     Inr (serialize_github_sync_job example_job, example_queue_db [example_job])"
  unfolding create_manual_github_sync_job_def Let_def
  by (simp add: get_connected_github_connection_def example_queue_db_def example_app_tables example_app_connection_def
      example_connection_def example_manual_def example_job_def)

lemma example_claim_step:
  assumes "\<not> lease_exhausted now j" "claimable now j" "sj_cursor_before j = Some example_cursor" "sj_id j = 80"
    "sj_workspace_id j = 2"
  shows "worker_step example_settings (worker_name i) (example_io now token) Idle (example_queue_db [j]) =
    (Preparing (example_claim i token),
     example_queue_db [claimed_by example_settings (cl_lease_owner (example_claim i token)) now j])"
proof -
  have e: "expire_exhausted_leases now (example_queue_db [j]) = example_queue_db [j]"
    using assms(1) by (simp add: expire_exhausted_leases_def example_queue_db_def)
  have n: "next_claimable [] now (example_queue_db [j]) = Some j"
    using assms(2) by (simp add: next_claimable_def example_queue_db_def)
  show ?thesis
    unfolding worker_step.simps claim_next_github_sync_job_def Let_def
    by (simp add: example_io_def e n example_parse [OF assms(3)] assms(4,5))
       (simp add: example_claim_def put_job_def example_queue_db_def claimed_by_def)
qed

lemma example_first_claim:
  "worker_step example_settings (worker_name 0) (example_io 10 90) Idle (example_queue_db [example_job]) =
     (Preparing (example_claim 0 90), example_queue_db [example_held])"
  unfolding example_held_def
  by (rule example_claim_step)
     (simp_all add: lease_exhausted_def claimable_def example_job_def queued_job_def example_cursor_def)

lemma example_second_claim:
  "worker_step example_settings (worker_name 1) (example_io (10 + seconds 300) 91) Idle (example_queue_db [example_held]) =
     (Preparing (example_claim 1 91), example_queue_db [example_taken])"
  unfolding example_taken_def
  by (rule example_claim_step)
     (simp_all add: lease_exhausted_def claimable_def example_held_def claimed_by_def example_job_def queued_job_def
       example_cursor_def lease_expired_def example_settings_def)

abbreviation "example_q0 \<equiv> example_queue [] [Idle, Idle] [] []"
abbreviation "example_q1 \<equiv> example_queue [example_job] [Idle, Idle] [] []"
abbreviation "example_q2 \<equiv> example_queue [example_held] [Preparing (example_claim 0 90), Idle] [90] [example_claim 0 90]"
abbreviation "example_q3 \<equiv> example_queue [example_taken] [Preparing (example_claim 0 90), Preparing (example_claim 1 91)]
   [91, 90] [example_claim 1 91, example_claim 0 90]"

lemma example_start: "queue_start example_q0"
  by (simp add: queue_start_def example_queue_def example_queue_db_def)

lemma example_queue_held: "example_held \<in> set (sync_jobs (qs_db example_q2))"
  by (simp add: example_queue_def example_queue_db_def)

lemma example_run1: "queue_step example_settings example_q0 example_q1"
proof -
  have "example_q1 = example_q0\<lparr>qs_db := example_queue_db [example_job]\<rparr>" by (simp add: example_queue_def)
  moreover have "queue_step example_settings example_q0 \<dots>"
    by (rule queue_step.manual [of 80 _ 0 2 61 example_manual "serialize_github_sync_job example_job"])
       (simp_all add: example_queue_def example_queue_db_def example_manual_step [unfolded example_queue_db_def])
  ultimately show ?thesis by simp
qed

lemma example_run2: "queue_step example_settings example_q1 example_q2"
  using queue_step.work [of 0 example_q1 "example_io 10 90" example_settings] example_first_claim
  by (simp add: example_queue_def example_io_def new_claim_def noting_def)

lemma example_run3: "queue_step example_settings example_q2 example_q3"
  using queue_step.work [of 1 example_q2 "example_io (10 + seconds 300) 91" example_settings] example_second_claim
  by (simp add: example_queue_def example_io_def new_claim_def noting_def)

lemma example_queue_run: "run (queue_step example_settings) example_q0 example_q3"
  using example_run1 example_run2 example_run3 by (meson run.intros)

section \<open>The theorems at the small queue\<close>

lemma example_jobs: "sync_jobs (qs_db example_q3) = [example_taken]"
  by (simp add: example_queue_def example_queue_db_def)

theorem reachable_jobs_typed_witness: "sync_job_ok example_taken \<and> sj_attempt_count example_taken = 2"
  using reachable_jobs_typed [OF example_start example_queue_run, of example_taken] example_jobs
  by (simp add: example_taken_def example_held_def claimed_by_def example_job_def queued_job_def)

theorem claims_bounded_witness:
  "length (claims_of 80 [example_claim 1 91, example_claim 0 90]) = 2 \<and> (2 :: int) \<le> sj_max_attempts example_taken"
  using claims_bounded [OF example_start example_queue_run, of example_taken] example_jobs
  by (simp add: example_taken_def example_held_def claimed_by_def example_job_def queued_job_def example_queue_def)

lemma example_locked: "locked_claim_job (example_claim 1 91) (qs_db example_q3) = Inr example_taken"
  by (simp add: locked_claim_job_def claim_job_def example_queue_def example_queue_db_def example_claim_def
      example_taken_def example_held_def claimed_by_def example_job_def queued_job_def)

lemma example_lost: "locked_claim_job (example_claim 0 90) (qs_db example_q3) = Inl LostLease"
proof -
  have "lease_owner_of (worker_name 1) 91 \<noteq> lease_owner_of (worker_name 0) 90"
    using lease_owner_inject [of 91 90 "worker_name 1" "worker_name 0"] by auto
  then show ?thesis
    by (simp add: locked_claim_job_def claim_job_def example_queue_def example_queue_db_def example_claim_def
        example_taken_def example_held_def claimed_by_def example_job_def queued_job_def)
qed

theorem one_worker_per_job_witness: "locked_claim_job (example_claim 1 91) (qs_db example_q3) = Inr example_taken \<and> (1 :: nat) = 1"
  using one_worker_per_job [OF example_start example_queue_run, of 1 "example_claim 1 91" example_taken 1 "example_claim 1 91" example_taken]
    example_locked by (simp add: example_queue_def)

theorem lost_lease_is_final_witness:
  "locked_claim_job (example_claim 0 90) (qs_db example_q3) = Inl LostLease \<and>
   snd (worker_step example_settings (worker_name 0) (example_io 20 92) (Finishing (example_claim 0 90)) (qs_db example_q3))
     = qs_db example_q3"
  using lost_lease_is_final [OF example_start example_queue_run run_refl, of "example_claim 0 90" "Finishing (example_claim 0 90)"
      "worker_name 0" "example_io 20 92"] example_lost
  by (simp add: example_queue_def del: worker_step.simps)

theorem queue_refines_life_cycle_witness: "\<exists>j'\<in>set (sync_jobs (qs_db example_q3)). sj_id j' = sj_id example_held \<and>
    (\<exists>l. life_step l (life_of example_held) (life_of j'))"
  using queue_refines_life_cycle [OF example_start _ example_run3, of example_held] example_run1 example_run2
  by (meson run.intros example_queue_held)

section \<open>A race with a local normalisation\<close>

text \<open>C16. A local normalisation overwrites what came in between. The handler checks the status of a job it
  reads without a lock. Whatever the stored row has become when its writes arrive, the job is
  then recorded as succeeded or partial, with the lease, the cancellation request and the
  attempts of the row it overwrote, and no other job changes. So a worker that had claimed the job
  in the meantime loses its claim for good, and a job that was claimed or cancelled in the meantime
  ends in a row that no sequence of locked steps reaches.\<close>

theorem racing_normalization_overwrites:
  assumes "normalize_github_sync_job_local e inventory w i opts seen db = Inr (a, db')"
    and "distinct (map sj_id (sync_jobs db))" "row \<in> set (sync_jobs db)" "sj_id row = i"
  shows "\<exists>row'. sync_jobs db' = update_where (\<lambda>r. sj_id r = i) (\<lambda>_. row') (sync_jobs db)
    \<and> sj_status row' \<in> {SyncSucceeded, Partial} \<and> sj_lease_owner row' = sj_lease_owner row
    \<and> sj_lease_expires_at row' = sj_lease_expires_at row \<and> sj_cancel_requested_at row' = sj_cancel_requested_at row
    \<and> sj_attempt_count row' = sj_attempt_count row
    \<and> (\<forall>c. locked_claim_job c db = Inr row \<longrightarrow> locked_claim_job c db' = Inl LostLease)
    \<and> (sj_lease_owner row \<noteq> None \<or> sj_cancel_requested_at row \<noteq> None \<longrightarrow> \<not> sync_job_ok row')"
  using assms(1)
proof (rule normalize_jobs)
  fix j row0 n cnt results
  assume row0: "row0 \<in> set (sync_jobs db)" "sj_id row0 = i"
    and db': "sync_jobs db' = update_where (\<lambda>r. sj_id r = i) (\<lambda>_. write_normalized (ne_now e) opts n cnt results
       (normalizing_job (ne_now e) j) (write_normalizing (ne_now e) j row0)) (sync_jobs db)"
  let ?row = "write_normalized (ne_now e) opts n cnt results (normalizing_job (ne_now e) j) (write_normalizing (ne_now e) j row)"
  have "row0 = row" using distinct_key_eq [OF assms(2) row0(1) assms(3)] row0(2) assms(4) by simp
  note db' = db' [unfolded this]
  have st: "sj_status ?row \<in> {SyncSucceeded, Partial}"
    by (simp add: write_normalized_def Let_def put_def normalized_job_def normalizing_job_def)
  have keep: "sj_lease_owner ?row = sj_lease_owner row" "sj_lease_expires_at ?row = sj_lease_expires_at row"
    "sj_cancel_requested_at ?row = sj_cancel_requested_at row" "sj_attempt_count ?row = sj_attempt_count row"
    by (simp_all add: write_normalized_def write_normalizing_def Let_def)
  have lost: "locked_claim_job c db' = Inl LostLease" if "locked_claim_job c db = Inr row" for c
  proof -
    have "cl_id c = i" using locked_held [OF that] assms(4) by simp
    then have "locked_claim_job c db' \<noteq> Inr r" for r
      using locked_claim_job_Inr [of c db' r] st by (auto simp: db' in_update_where)
    then show ?thesis by (cases "locked_claim_job c db'") (auto simp: locked_claim_job_def split: option.splits if_splits)
  qed
  have bad: "\<not> sync_job_ok ?row" if "sj_lease_owner row \<noteq> None \<or> sj_cancel_requested_at row \<noteq> None"
    using that st unfolding sync_job_ok_def keep by auto
  show ?thesis
    using db' st keep lost bad by blast
qed

definition example_local_env :: norm_env where
  "example_local_env = \<lparr> ne_sha = zero_sha, ne_local_zone = id, ne_now = 20, ne_source_id = length,
     ne_repository_id = length, ne_task_id = length, ne_pull_request_id = length, ne_event_id = (\<lambda>_ i. i) \<rparr>"

definition example_local_options :: github_options where
  "example_local_options = \<lparr> go_include_repositories = False, go_include_issues = False, go_include_pull_requests = False,
     go_persist_if_supported = False, go_snapshot_observed_at = None, go_provider_attested = False,
     go_issue_repositories = [], go_pull_request_repositories = [] \<rparr>"

definition example_raced_db :: canonical_db where
  "example_raced_db = app_db.extend (example_queue_db [example_held]) (canonical_db.fields [] [])"

lemma example_raced_jobs: "sync_jobs example_raced_db = [example_held]"
  by (simp add: example_raced_db_def example_queue_db_def app_db.defs)

lemma example_raced_ids: "sj_id example_held = 80" "sj_workspace_id example_job = 2" "sj_id example_job = 80"
  "validate_sync_job example_job = Inr ()"
  by (simp_all add: example_held_def claimed_by_def example_job_def queued_job_def validate_sync_job_def)

lemma example_raced:
  "\<exists>a db'. normalize_github_sync_job_local example_local_env (\<lambda>_ _. ([], [])) 2 80 example_local_options [example_job]
     example_raced_db = Inr (a, db')"
  unfolding normalize_github_sync_job_local_def Let_def
  by (simp add: example_raced_ids example_raced_jobs example_local_options_def normalized_records_of_def
      normalized_repository_list_def normalized_issue_list_def normalized_pull_request_list_def authoritative_def
      persist_and_reconcile_def)

theorem racing_normalization_witness:
  "\<exists>a db' row'. normalize_github_sync_job_local example_local_env (\<lambda>_ _. ([], [])) 2 80 example_local_options [example_job]
      example_raced_db = Inr (a, db') \<and> sync_jobs db' = [row'] \<and> sj_status row' \<in> {SyncSucceeded, Partial}
    \<and> sj_lease_owner row' = Some (cl_lease_owner (example_claim 0 90)) \<and> \<not> sync_job_ok row'"
proof -
  obtain a db' where n: "normalize_github_sync_job_local example_local_env (\<lambda>_ _. ([], [])) 2 80 example_local_options
      [example_job] example_raced_db = Inr (a, db')" using example_raced by blast
  have "sj_lease_owner example_held = Some (cl_lease_owner (example_claim 0 90))"
    by (simp add: example_held_def claimed_by_def)
  with racing_normalization_overwrites [OF n, of example_held] n show ?thesis
    by (auto simp: example_raced_jobs example_raced_ids)
qed

section \<open>A record made by hand is executed\<close>

text \<open>A job recorded by hand is not only a record. The operation that promises to record a job
  without executing it stores the cursor it is given; with a live request in it the worker
  claims the job, takes the name of the requester from it, and with the name \<^verbatim>\<open>session\<close> the read
  passes the switch of the real connectors that refuses the operator who recorded it.\<close>

theorem manual_record_runs_as_session:
  "ms_requested_by example_manual = ''operator_api_key'' \<and>
   create_manual_github_sync_job 80 0 2 61 example_manual (example_queue_db []) =
     Inr (serialize_github_sync_job example_job, example_queue_db [example_job]) \<and>
   worker_step example_settings (worker_name 0) (example_io 10 90) Idle (example_queue_db [example_job]) =
     (Preparing (example_claim 0 90), example_queue_db [example_held]) \<and>
   cl_requested_by (example_claim 0 90) = ''session'' \<and>
   prepare_github_app_live_sync False example_box 2 (cl_input (example_claim 0 90)) ''session''
     (example_queue_db [example_held]) = Inr example_prepared \<and>
   prepare_github_app_live_sync False example_box 2 (cl_input (example_claim 0 90)) ''operator_api_key''
     (example_queue_db [example_held]) = Inl (LiveConnectorsDisabledError REAL_CONNECTORS_DISABLED_DETAIL)"
proof -
  have t: "connections (example_queue_db js) = [example_app_connection]"
    "app_credentials (example_queue_db js) = [example_credential]"
    "app_installations (example_queue_db js) = [example_installation]" for js
    by (simp_all add: example_queue_db_def example_app_tables)
  have i: "cl_input (example_claim 0 90) = example_live_input" by (simp add: example_claim_def)
  show ?thesis unfolding example_manual_step example_first_claim i
    by (simp add: example_prepare_on [OF t]) (simp add: example_manual_def example_claim_def)
qed

end
