(* ===== verification/Snapshot_Order.thy ===== *)
theory Snapshot_Order
  imports Source_Snapshots
begin

text \<open>
  The order of snapshots. The time a row is established at is that of the latest snapshot that
  saw the object or found it missing. A run of the normalisation with an older snapshot leaves
  the row as it is.
\<close>

section \<open>The table of source records\<close>

definition source_identity :: "source_record \<Rightarrow> uuid \<times> string \<times> string" where
  "source_identity r = (sr_workspace_id r, sr_provider r, sr_external_id r)"

text \<open>The check constraint \<^verbatim>\<open>ck_source_records_tombstone_provenance\<close>.\<close>

definition provenance_ok :: "source_record \<Rightarrow> bool" where
  "provenance_ok r \<longleftrightarrow> (if sr_is_deleted r
     then sr_tombstoned_at r \<noteq> None \<and> sr_tombstone_observed_at r \<noteq> None \<and> sr_tombstone_reason r \<noteq> None
     else sr_tombstoned_at r = None \<and> sr_tombstone_observed_at r = None \<and> sr_tombstone_sync_job_id r = None
       \<and> sr_tombstone_reason r = None)"

definition sources_ok :: "source_record list \<Rightarrow> bool" where
  "sources_ok rows \<longleftrightarrow> distinct (map source_identity rows) \<and> (\<forall>r\<in>set rows. provenance_ok r)"

lemma is_source_key: "is_source w x r \<longleftrightarrow> source_identity r = (w, ''github'', x)"
  by (auto simp: is_source_def source_identity_def)

lemma observed_source_simps [simp]:
  "sr_id (observed_source sha j a r) = sr_id r" "source_identity (observed_source sha j a r) = source_identity r"
  "sr_workspace_id (observed_source sha j a r) = sr_workspace_id r" "sr_provider (observed_source sha j a r) = sr_provider r"
  "sr_external_id (observed_source sha j a r) = sr_external_id r" "provenance_ok (observed_source sha j a r)"
  "\<not> sr_is_deleted (observed_source sha j a r)" "sr_observed_at (observed_source sha j a r) = sa_observed_at a"
  "sr_tombstone_observed_at (observed_source sha j a r) = None"
  "sr_record_type (observed_source sha j a r) = sa_record_type a" "sr_payload (observed_source sha j a r) = sa_payload a"
  by (simp_all add: observed_source_def source_identity_def provenance_ok_def)

lemma source_identity_tombstoned [simp]: "source_identity (tombstoned_source at t i r) = source_identity r"
  by (simp add: source_identity_def)

lemma provenance_tombstoned [simp]: "provenance_ok (tombstoned_source at t i r)"
  by (simp add: provenance_ok_def tombstoned_source_def)

lemma source_identity_blank [simp]: "source_identity (blank_source t i w x) = (w, ''github'', x)"
  by (simp add: blank_source_def source_identity_def)

lemma sources_ok_update:
  "(\<And>r. source_identity (f r) = source_identity r) \<Longrightarrow> (\<And>r. provenance_ok (f r)) \<Longrightarrow> sources_ok rows \<Longrightarrow> sources_ok (update_where P f rows)"
  by (auto simp: sources_ok_def map_update_where in_update_where)

lemma sources_ok_upsert: "sources_ok rows \<Longrightarrow> sources_ok (upsert_rows e j a rows)"
proof (cases "find (is_source (sj_workspace_id j) (sa_external_id a)) rows")
  case None
  assume "sources_ok rows"
  moreover have "(sj_workspace_id j, ''github'', sa_external_id a) \<notin> source_identity ` set rows"
    using None by (auto simp: find_None_iff is_source_key)
  ultimately show ?thesis by (auto simp: upsert_rows_def None sources_ok_def)
next
  case (Some x)
  assume "sources_ok rows"
  then show ?thesis by (auto simp: upsert_rows_def Some intro!: sources_ok_update)
qed

lemma sources_ok_fold: "sources_ok rows \<Longrightarrow> sources_ok (fold (upsert_rows e j) as rows)"
  by (induction as arbitrary: rows) (auto intro: sources_ok_upsert)

lemma sources_ok_normalized: "sources_ok rows \<Longrightarrow> sources_ok (normalized_rows e j opts t n rows)"
  by (auto simp: normalized_rows_def tombstone_rows_def persisted_rows_def intro!: sources_ok_update sources_ok_fold)

section \<open>Established times\<close>

definition established :: "source_record \<Rightarrow> time" where
  "established r = (case sr_tombstone_observed_at r of None \<Rightarrow> sr_observed_at r | Some t \<Rightarrow> max (sr_observed_at r) t)"

lemma not_newer_established: "not_newer t r \<longleftrightarrow> established r \<le> t"
  by (auto simp: not_newer_def established_def split: option.splits)

lemma established_observed [simp]: "established (observed_source sha j a r) = sa_observed_at a"
  by (simp add: established_def)

definition settles :: "time \<Rightarrow> source_record \<Rightarrow> source_record \<Rightarrow> bool" where
  "settles t r r' \<longleftrightarrow> r' = r \<or> established r \<le> t \<and> established r' = t \<and> sr_id r' = sr_id r \<and> source_identity r' = source_identity r"

definition settled_rows :: "time \<Rightarrow> source_record list \<Rightarrow> source_record list \<Rightarrow> bool" where
  "settled_rows t rows rows' \<longleftrightarrow> (\<exists>f new. rows' = map f rows @ new \<and> (\<forall>r\<in>set rows. settles t r (f r))
     \<and> (\<forall>r\<in>set new. established r = t))"

lemma settles_trans: "settles t r r' \<Longrightarrow> settles t r' r'' \<Longrightarrow> settles t r r''"
  by (auto simp: settles_def)

lemma settles_at: "settles t r r' \<Longrightarrow> established r = t \<Longrightarrow> established r' = t"
  by (auto simp: settles_def)

lemma settled_rows_refl: "settled_rows t rows rows"
  by (auto simp: settled_rows_def settles_def intro: exI [of _ id] exI [of _ "[]"])

lemma settled_rows_trans:
  assumes "settled_rows t rows rows'" "settled_rows t rows' rows''"
  shows "settled_rows t rows rows''"
proof -
  obtain f new where f: "rows' = map f rows @ new" "\<forall>r\<in>set rows. settles t r (f r)" "\<forall>r\<in>set new. established r = t"
    using assms(1) unfolding settled_rows_def by blast
  obtain g new' where g: "rows'' = map g rows' @ new'" "\<forall>r\<in>set rows'. settles t r (g r)" "\<forall>r\<in>set new'. established r = t"
    using assms(2) unfolding settled_rows_def by blast
  show ?thesis unfolding settled_rows_def
    by (intro exI [of _ "g \<circ> f"] exI [of _ "map g new @ new'"]) (use f g in \<open>auto intro: settles_trans settles_at\<close>)
qed

lemma settled_rows_update:
  "(\<And>r. r \<in> set rows \<Longrightarrow> P r \<Longrightarrow> settles t r (f r)) \<Longrightarrow> settled_rows t rows (update_where P f rows)"
  unfolding settled_rows_def update_where_def
  by (intro exI [of _ "\<lambda>r. if P r then f r else r"] exI [of _ "[]"]) (auto simp: settles_def)

lemma settled_rows_upsert:
  assumes "sources_ok rows"
  shows "settled_rows (sa_observed_at a) rows (upsert_rows e j a rows)"
proof (cases "find (is_source (sj_workspace_id j) (sa_external_id a)) rows")
  case None
  then show ?thesis unfolding settled_rows_def upsert_rows_def
    by (auto intro!: exI [of _ id] simp: settles_def)
next
  case (Some x)
  have only: "r = x" if "r \<in> set rows" "is_source (sj_workspace_id j) (sa_external_id a) r" for r
    using distinct_key_eq [of source_identity rows r x] that find_Some_mem [OF Some] find_Some_holds [OF Some] assms
    by (simp add: sources_ok_def is_source_key)
  show ?thesis
    using settled_rows_refl
    by (auto simp: upsert_rows_def Some not_newer_established settles_def intro!: settled_rows_update dest!: only)
qed

lemma settled_rows_fold:
  "sources_ok rows \<Longrightarrow> (\<And>a. a \<in> set as \<Longrightarrow> sa_observed_at a = t) \<Longrightarrow> settled_rows t rows (fold (upsert_rows e j) as rows)"
proof (induction as arbitrary: rows)
  case (Cons a as)
  have "settled_rows t rows (upsert_rows e j a rows)" using settled_rows_upsert [OF Cons.prems(1)] Cons.prems(2) by fastforce
  then show ?case using Cons.IH [OF sources_ok_upsert [OF Cons.prems(1)]] Cons.prems(2)
    by (auto intro: settled_rows_trans)
qed (simp add: settled_rows_refl)

lemma batch_args_observed: "a \<in> set (batch_args e t b repos issues items) \<Longrightarrow> sa_observed_at a = t"
  by (auto simp: batch_args_def repository_args_def issue_args_def pull_request_args_def source_args_of_def)

lemma settled_tombstone_rows:
  assumes "sources_ok rows"
  shows "settled_rows t rows (tombstone_rows e j ty nk names observed t rows)"
  unfolding tombstone_rows_def
proof (rule settled_rows_update)
  fix r
  assume r: "r \<in> set rows" "missing (sj_workspace_id j) ty nk t (scope_of names) (observed_external_ids observed) r"
  then have "sr_observed_at r \<le> t" "\<not> sr_is_deleted r" by (auto simp: missing_def scanned_def)
  then have "established r \<le> t" "established (tombstoned_source (ne_now e) t (sj_id j) r) = t"
    using assms r(1) by (auto simp: sources_ok_def provenance_ok_def established_def)
  then show "settles t r (tombstoned_source (ne_now e) t (sj_id j) r)" by (simp add: settles_def)
qed

lemma settled_normalized:
  assumes "sources_ok rows"
  shows "settled_rows t rows (normalized_rows e j opts t n rows)"
proof (cases "go_persist_if_supported opts")
  case True
  let ?p = "persisted_rows e j opts t n rows"
  let ?i = "tombstone_rows e j ''issue'' ''normalized_issue'' (go_issue_repositories opts) (nm_issues n) t ?p"
  have p: "sources_ok ?p" "settled_rows t rows ?p"
    unfolding persisted_rows_def by (auto intro: sources_ok_fold settled_rows_fold assms batch_args_observed)
  have i: "sources_ok ?i" unfolding tombstone_rows_def by (auto intro: sources_ok_update p(1))
  show ?thesis unfolding normalized_rows_def if_not_P [OF not_not [THEN iffD2, OF True]] using True
    by (auto intro: settled_rows_trans [OF p(2)] settled_rows_trans [OF settled_tombstone_rows [OF p(1)]]
        settled_tombstone_rows [OF i])
qed (simp add: normalized_rows_def settled_rows_refl)

section \<open>Runs\<close>

text \<open>
  Normalisations by any jobs with any snapshots, and anything that leaves the source records
  alone in between. The list holds the snapshot times, the first one first.
\<close>

inductive normalization_run :: "time list \<Rightarrow> 'z canonical_db_scheme \<Rightarrow> 'z canonical_db_scheme \<Rightarrow> bool" where
  run_end: "normalization_run [] db db"
| run_snapshot: "normalize_github_sync_job_local e inventory w i opts seen db = Inr (a, db1) \<Longrightarrow>
    normalization_run ts db1 db2 \<Longrightarrow> normalization_run (snapshot_time e opts # ts) db db2"
| run_other: "source_records db1 = source_records db \<Longrightarrow> normalization_run ts db1 db2 \<Longrightarrow> normalization_run ts db db2"

lemma normalize_settles:
  assumes "normalize_github_sync_job_local e inventory w i opts seen db = Inr (a, db')" "sources_ok (source_records db)"
  shows "settled_rows (snapshot_time e opts) (source_records db) (source_records db') \<and> sources_ok (source_records db')"
  using assms by (elim normalize_rows) (simp add: settled_normalized sources_ok_normalized)

lemma settled_rowsE:
  assumes "settled_rows t rows rows'" "r \<in> set rows"
  obtains r' where "r' \<in> set rows'" "settles t r r'"
proof -
  obtain f new where "rows' = map f rows @ new" "settles t r (f r)" using assms by (auto simp: settled_rows_def)
  then show thesis using that [of "f r"] assms(2) by simp
qed

lemma run_row:
  assumes "normalization_run ts db db'" "sources_ok (source_records db)" "r \<in> set (source_records db)"
  shows "\<exists>r'\<in>set (source_records db'). r' = r \<or> sr_id r' = sr_id r \<and> source_identity r' = source_identity r
     \<and> established r \<le> established r' \<and> established r' \<in> set ts"
  using assms
proof (induction arbitrary: r rule: normalization_run.induct)
  case (run_end db)
  then show ?case by auto
next
  case (run_snapshot e inventory w i opts seen db a db1 ts db2)
  note s = normalize_settles [OF run_snapshot.hyps(1) run_snapshot.prems(1)]
  obtain r1 where r1: "r1 \<in> set (source_records db1)" "settles (snapshot_time e opts) r r1"
    using settled_rowsE [OF conjunct1 [OF s] run_snapshot.prems(2)] by blast
  obtain r2 where "r2 \<in> set (source_records db2)" "r2 = r1 \<or> sr_id r2 = sr_id r1 \<and> source_identity r2 = source_identity r1
     \<and> established r1 \<le> established r2 \<and> established r2 \<in> set ts"
    using run_snapshot.IH [OF conjunct2 [OF s] r1(1)] by blast
  then show ?case using r1(2) by (intro bexI [of _ r2]) (auto simp: settles_def)
next
  case (run_other db1 db ts db2)
  then show ?case by simp
qed

lemma run_sources_ok:
  "normalization_run ts db db' \<Longrightarrow> sources_ok (source_records db) \<Longrightarrow> sources_ok (source_records db')"
proof (induction rule: normalization_run.induct)
  case (run_snapshot e inventory w i opts seen db a db1 ts db2)
  then show ?case using normalize_settles [OF run_snapshot.hyps(1)] by blast
qed simp_all

text \<open>C18. Snapshot time orders the reads of a record. Along any run of normalisations, by any jobs
  and in any order of their snapshots, a source record stays or is replaced by what a snapshot of
  the run saw that is not older than what the record was established by. So a run of older
  snapshots neither overwrites nor tombstones nor restores it, and the table keeps its unique
  keys and its tombstone provenance.\<close>

theorem older_snapshot_changes_no_record:
  assumes "normalization_run ts db db'" "sources_ok (source_records db)" "r \<in> set (source_records db)"
    and "\<forall>t\<in>set ts. t < established r"
  shows "r \<in> set (source_records db') \<and> sources_ok (source_records db')
    \<and> (\<forall>r'\<in>set (source_records db'). source_identity r' = source_identity r \<longrightarrow> r' = r)"
proof -
  obtain r' where r': "r' \<in> set (source_records db')" "r' = r \<or> established r \<le> established r' \<and> established r' \<in> set ts"
    using run_row [OF assms(1-3)] by blast
  then have "r' = r" using assms(4) by auto
  moreover have ok: "sources_ok (source_records db')" by (rule run_sources_ok [OF assms(1,2)])
  ultimately show ?thesis using r'(1) distinct_key_eq [of source_identity "source_records db'"]
    by (auto simp: sources_ok_def)
qed

end
