(* ===== verification/Snapshot_Exact.thy ===== *)
theory Snapshot_Exact
  imports Snapshot_Order
begin

text \<open>
  A complete snapshot makes the table exact: after it, the live records of a repository are those
  the provider listed. And what the identity of a repository row cannot follow: a repository that
  takes the name of another one.
\<close>

section \<open>Rows by external id\<close>

definition source_at :: "uuid \<Rightarrow> string \<Rightarrow> source_record list \<Rightarrow> source_record option" where
  "source_at w x rows = find (is_source w x) rows"

lemma source_at_mem:
  assumes "sources_ok rows"
  shows "source_at w x rows = Some r \<longleftrightarrow> r \<in> set rows \<and> is_source w x r"
proof
  assume "source_at w x rows = Some r"
  then show "r \<in> set rows \<and> is_source w x r"
    using find_Some_mem find_Some_holds unfolding source_at_def by fast
next
  assume r: "r \<in> set rows \<and> is_source w x r"
  then obtain y where y: "find (is_source w x) rows = Some y"
    by (cases "find (is_source w x) rows") (auto simp: find_None_iff)
  then have "y = r"
    using distinct_key_eq [of source_identity rows y r] r find_Some_mem [OF y] find_Some_holds [OF y] assms
    by (simp add: sources_ok_def is_source_key)
  then show "source_at w x rows = Some r" using y by (simp add: source_at_def)
qed

lemma source_at_append: "source_at w x (rows @ rows') = (case source_at w x rows of None \<Rightarrow> source_at w x rows' | r \<Rightarrow> r)"
  by (cases "source_at w x rows") (simp_all add: source_at_def find_append)

lemma source_at_update:
  assumes "\<And>r. source_identity (f r) = source_identity r"
  shows "source_at w x (update_where P f rows) = map_option (\<lambda>r. if P r then f r else r) (source_at w x rows)"
  unfolding source_at_def
  by (rule find_update_where) (simp add: is_source_key assms)

lemma source_at_upsert_other:
  assumes "x \<noteq> sa_external_id a"
  shows "source_at w x (upsert_rows e j a rows) = source_at w x rows"
proof -
  have off: "\<not> is_source w x (observed_source (ne_sha e) j a (blank_source t i v (sa_external_id a)))" for t i v
    using assms by (simp add: is_source_key)
  have hit: "\<not> is_source v (sa_external_id a) r" if "source_at w x rows = Some r" for r v
    using find_Some_holds [OF that [unfolded source_at_def]] assms by (simp add: is_source_key)
  show ?thesis
    by (cases "source_at w x rows")
       (auto simp: upsert_rows_def source_at_append source_at_update off source_at_def [of w x "[_]"] hit
         split: option.splits)
qed

lemma source_at_upsert_same:
  assumes "sa_allow_restore a" "\<And>r. r \<in> set rows \<Longrightarrow> not_newer (sa_observed_at a) r"
  shows "\<exists>r. source_at (sj_workspace_id j) (sa_external_id a) (upsert_rows e j a rows)
    = Some (observed_source (ne_sha e) j a r)"
proof (cases "find (is_source (sj_workspace_id j) (sa_external_id a)) rows")
  case None
  then show ?thesis
    by (auto simp: upsert_rows_def source_at_def find_append is_source_key)
next
  case (Some y)
  then have "source_at (sj_workspace_id j) (sa_external_id a) (upsert_rows e j a rows)
      = Some (observed_source (ne_sha e) j a y)"
    using assms find_Some_mem [OF Some] find_Some_holds [OF Some]
    by (simp add: upsert_rows_def source_at_update source_at_def [of _ _ rows])
  then show ?thesis by blast
qed

lemma not_newer_upsert:
  assumes "\<forall>r\<in>set rows. not_newer (sa_observed_at a) r"
  shows "\<forall>r\<in>set (upsert_rows e j a rows). not_newer (sa_observed_at a) r"
  using assms by (auto simp: upsert_rows_def in_update_where not_newer_established split: option.splits if_splits)

lemma source_at_fold_other:
  "x \<notin> sa_external_id ` set as \<Longrightarrow> source_at w x (fold (upsert_rows e j) as rows) = source_at w x rows"
  by (induction as arbitrary: rows) (auto simp: source_at_upsert_other)

lemma source_at_fold:
  assumes "distinct (map sa_external_id as)" "a \<in> set as"
    and "\<forall>a\<in>set as. sa_allow_restore a \<and> sa_observed_at a = t" "\<forall>r\<in>set rows. not_newer t r"
  shows "\<exists>r. source_at (sj_workspace_id j) (sa_external_id a) (fold (upsert_rows e j) as rows)
    = Some (observed_source (ne_sha e) j a r)"
  using assms
proof (induction as arbitrary: rows)
  case (Cons b as)
  have nn: "\<forall>r\<in>set (upsert_rows e j b rows). not_newer t r"
    using not_newer_upsert [of rows b e j] Cons.prems(3,4) by auto
  show ?case
  proof (cases "a = b")
    case True
    then have "sa_external_id a \<notin> sa_external_id ` set as" using Cons.prems(1) by auto
    then show ?thesis using True source_at_upsert_same [of b rows j e] Cons.prems(3,4) by (simp add: source_at_fold_other)
  next
    case False
    then show ?thesis using Cons.IH [OF _ _ _ nn] Cons.prems by simp
  qed
qed simp

lemma not_newer_fold:
  assumes "\<forall>a\<in>set as. sa_observed_at a = t" "\<forall>r\<in>set rows. not_newer t r"
  shows "\<forall>r\<in>set (fold (upsert_rows e j) as rows). not_newer t r"
  using assms
proof (induction as arbitrary: rows)
  case (Cons a as)
  then show ?case using not_newer_upsert [of rows a e j] by simp
qed simp

text \<open>
  The identity of a source record does not include its type. An accepted upsert under the id of
  a record of another type, an issue numbered like a repository say, leaves no record of the
  old type.
\<close>

lemma identity_ignores_record_type:
  assumes "sa_allow_restore a" "\<forall>r\<in>set rows. not_newer (sa_observed_at a) r" "r \<in> set (upsert_rows e j a rows)"
    and "is_source (sj_workspace_id j) (sa_external_id a) r"
  shows "sr_record_type r = sa_record_type a"
  using assms find_Some_mem
  by (fastforce simp: upsert_rows_def in_update_where is_source_key find_None_iff split: option.splits)

section \<open>The payload of a written row\<close>

lemma py_get_sanitized:
  "\<not> metadata_key_is_sensitive k \<Longrightarrow> py_get (sanitize_payload_items d) k = sanitize_payload (py_get d k)"
proof (induction d)
  case (Cons kv d)
  obtain k' v where kv: "kv = (k', v)" by force
  show ?case using Cons by (auto simp: kv py_get_def)
qed (simp add: py_get_def)

lemma insensitive_keys: "\<not> metadata_key_is_sensitive ''normalized_issue''" "\<not> metadata_key_is_sensitive ''repository_full_name''"
    "\<not> metadata_key_is_sensitive ''normalized_pull_request''"
  by code_simp+

lemma source_repository_of_payload:
  assumes "py_get record ''repository_full_name'' = PStr n" "length n \<le> 1000"
  shows "sr_payload r = source_record_payload ''issue'' ''normalized_issue'' record \<Longrightarrow>
      source_repository ''normalized_issue'' r = Some n"
    and "sr_payload r = source_record_payload ''pull_request'' ''normalized_pull_request'' record \<Longrightarrow>
      source_repository ''normalized_pull_request'' r = Some n"
proof -
  have n: "py_get (sanitize_payload_items record) ''repository_full_name'' = PStr n"
    using assms by (simp add: py_get_sanitized insensitive_keys)
  show "sr_payload r = source_record_payload ''issue'' ''normalized_issue'' record \<Longrightarrow>
      source_repository ''normalized_issue'' r = Some n"
    by (simp add: source_repository_def source_record_payload_def sanitized_dict_def py_get_sanitized insensitive_keys)
       (simp add: py_get_def n [unfolded py_get_def] mapping_of_def json_text_def)
  show "sr_payload r = source_record_payload ''pull_request'' ''normalized_pull_request'' record \<Longrightarrow>
      source_repository ''normalized_pull_request'' r = Some n"
    by (simp add: source_repository_def source_record_payload_def sanitized_dict_def py_get_sanitized insensitive_keys)
       (simp add: py_get_def n [unfolded py_get_def] mapping_of_def json_text_def)
qed


section \<open>Exact snapshots\<close>

text \<open>
  A normalised record that can be found again: its repository and external id are texts, short
  enough, and lower case means the same to Python and to the database for its name.
\<close>

definition well_keyed :: "pydict \<Rightarrow> bool" where
  "well_keyed record \<longleftrightarrow> (case (py_get record ''repository_full_name'', py_get record ''external_id'') of
     (PStr n, PStr x) \<Rightarrow> length n \<le> 1000 \<and> lower n = casefold (strip n) \<and> norm_text 255 (PStr x) = Some x
   | _ \<Rightarrow> False)"

text \<open>The external ids of the live records of a type in a repository.\<close>

definition live_ids :: "uuid \<Rightarrow> string \<Rightarrow> string \<Rightarrow> string \<Rightarrow> source_record list \<Rightarrow> string set" where
  "live_ids w ty nk key rows = sr_external_id ` {r \<in> set rows. in_scope w ty nk key r \<and> \<not> sr_is_deleted r}"

lemma well_keyedE:
  assumes "well_keyed record"
  obtains n x where "py_get record ''repository_full_name'' = PStr n" "py_get record ''external_id'' = PStr x"
    "length n \<le> 1000" "lower n = casefold (strip n)" "external_id_from_normalized record = x" "x \<noteq> []"
proof -
  obtain n x where "py_get record ''repository_full_name'' = PStr n" "py_get record ''external_id'' = PStr x"
    "length n \<le> 1000" "lower n = casefold (strip n)" "norm_text 255 (PStr x) = Some x"
    using assms by (auto simp: well_keyed_def split: pyval.splits)
  moreover from this have "x \<noteq> []" by (auto simp: norm_text_def optional_text_limit_def as_str_def)
  ultimately show thesis using that by (simp add: external_id_from_normalized_def or_text_def)
qed

lemma set_map_filter_iff: "x \<in> set (List.map_filter f xs) \<longleftrightarrow> (\<exists>y\<in>set xs. f y = Some x)"
  by (induction xs) (auto simp: map_filter_simps split: option.splits)

lemma observed_external_ids_mem:
  "x \<in> observed_external_ids records key \<longleftrightarrow> (\<exists>record\<in>set records. \<exists>n. py_get record ''repository_full_name'' = PStr n
     \<and> py_get record ''external_id'' = PStr x \<and> casefold (strip n) = key \<and> x \<noteq> [])"
proof -
  have "(case (py_get item ''repository_full_name'', py_get item ''external_id'') of
       (PStr name, PStr external_id) \<Rightarrow>
         if casefold (strip name) = key \<and> external_id \<noteq> [] then Some external_id else None
     | _ \<Rightarrow> None) = Some x \<longleftrightarrow> (\<exists>n. py_get item ''repository_full_name'' = PStr n
     \<and> py_get item ''external_id'' = PStr x \<and> casefold (strip n) = key \<and> x \<noteq> [])" for item
    by (cases "py_get item ''repository_full_name''"; cases "py_get item ''external_id''") auto
  then show ?thesis by (simp add: observed_external_ids_def set_map_filter_iff)
qed

lemma live_ids_off:
  "ty \<noteq> ty' \<Longrightarrow> live_ids w ty nk key (tombstone_rows e j ty' nk' names obs t rows) = live_ids w ty nk key rows"
proof -
  assume ty: "ty \<noteq> ty'"
  have "{r \<in> set (tombstone_rows e j ty' nk' names obs t rows). in_scope w ty nk key r \<and> \<not> sr_is_deleted r}
      = {r \<in> set rows. in_scope w ty nk key r \<and> \<not> sr_is_deleted r}"
    using ty by (auto simp: tombstone_rows_def in_update_where missing_def scanned_def in_scope_def)
  then show ?thesis by (simp only: live_ids_def)
qed

lemma live_ids_tombstone:
  assumes "key \<in> scope_of names" "\<forall>r\<in>set rows. not_newer t r"
  shows "live_ids (sj_workspace_id j) ty nk key (tombstone_rows e j ty nk names obs t rows)
    = live_ids (sj_workspace_id j) ty nk key rows \<inter> observed_external_ids obs key"
proof -
  let ?w = "sj_workspace_id j"
  have miss: "missing ?w ty nk t (scope_of names) (observed_external_ids obs) r \<longleftrightarrow>
      sr_external_id r \<notin> observed_external_ids obs key"
    if "r \<in> set rows" "in_scope ?w ty nk key r" "\<not> sr_is_deleted r" for r
  proof -
    have "scanned ?w ty nk t key r" using that assms(2) by (simp add: scanned_def not_newer_def)
    moreover have "key' = key" if "scanned ?w ty nk t key' r" for key'
      using scanned_key [OF that] scanned_key [OF calculation] by simp
    ultimately show ?thesis using assms(1) unfolding missing_def by blast
  qed
  have "{r \<in> set (tombstone_rows e j ty nk names obs t rows). in_scope ?w ty nk key r \<and> \<not> sr_is_deleted r}
      = {r \<in> set rows. in_scope ?w ty nk key r \<and> \<not> sr_is_deleted r \<and> sr_external_id r \<in> observed_external_ids obs key}"
    using miss by (auto simp: tombstone_rows_def in_update_where)
  then show ?thesis by (auto simp: live_ids_def)
qed

definition batch_ids :: "norm_env \<Rightarrow> normalized_records \<Rightarrow> string list" where
  "batch_ids e n = map repository_external_id (nm_repositories n) @ map external_id_from_normalized (nm_issues n)
     @ map external_id_from_normalized (nm_pull_requests n)"

lemma batch_args_ids: "map sa_external_id (batch_args e t b (nm_repositories n) (nm_issues n) (nm_pull_requests n)) = batch_ids e n"
  by (simp add: batch_args_def batch_ids_def repository_args_def issue_args_def pull_request_args_def source_args_of_def comp_def)

text \<open>What a well-keyed record of the batch leaves in the table.\<close>

lemma persisted_live:
  assumes "go_provider_attested opts" "sources_ok rows" "\<forall>r\<in>set rows. not_newer t r" "distinct (batch_ids e n)"
    and "x \<in> observed_external_ids records key" "\<forall>record\<in>set records. well_keyed record"
    and "(ty, nk, records) = (''issue'', ''normalized_issue'', nm_issues n)
      \<or> (ty, nk, records) = (''pull_request'', ''normalized_pull_request'', nm_pull_requests n)"
  shows "x \<in> live_ids (sj_workspace_id j) ty nk key (persisted_rows e j opts t n rows)"
proof -
  let ?as = "batch_args e t True (nm_repositories n) (nm_issues n) (nm_pull_requests n)"
  obtain item m where item: "item \<in> set records" "py_get item ''repository_full_name'' = PStr m"
      "py_get item ''external_id'' = PStr x" "casefold (strip m) = key"
    using assms(5) by (auto simp: observed_external_ids_mem)
  have "well_keyed item" using item(1) assms(6) by blast
  then have k: "external_id_from_normalized item = x" "length m \<le> 1000" "lower m = key"
    using item(2-4) by (auto elim!: well_keyedE)
  let ?a = "if ty = ''issue'' then issue_args e t True item else pull_request_args e t True item"
  have a: "?a \<in> set ?as" "sa_external_id ?a = x" "sa_record_type ?a = ty"
    "sa_payload ?a = source_record_payload ty nk item"
    using assms(7) item(1) k(1)
    by (auto simp: batch_args_def issue_args_def pull_request_args_def source_args_of_def)
  have "distinct (map sa_external_id ?as)" using assms(4) by (simp add: batch_args_ids)
  moreover have "\<forall>a\<in>set ?as. sa_allow_restore a \<and> sa_observed_at a = t"
    by (auto simp: batch_args_def issue_args_def pull_request_args_def repository_args_def source_args_of_def)
  ultimately obtain r where r: "source_at (sj_workspace_id j) x (persisted_rows e j opts t n rows)
      = Some (observed_source (ne_sha e) j ?a r)"
    using source_at_fold [OF _ a(1) _ assms(3), of j e] a(2) assms(1) by (auto simp: persisted_rows_def)
  let ?r = "observed_source (ne_sha e) j ?a r"
  have mem: "?r \<in> set (persisted_rows e j opts t n rows)" "is_source (sj_workspace_id j) x ?r"
    using find_Some_mem find_Some_holds r unfolding source_at_def by fast+
  have "source_repository nk ?r = Some m"
    using assms(7) a(4) source_repository_of_payload [OF item(2) k(2), of ?r] by auto
  then have "in_scope (sj_workspace_id j) ty nk key ?r"
    using mem(2) k(3) by (simp add: in_scope_def is_source_def a(3))
  then show ?thesis using mem by (auto simp: live_ids_def is_source_def intro!: image_eqI [of _ _ ?r])
qed

lemma persisted_not_newer:
  "\<forall>r\<in>set rows. not_newer t r \<Longrightarrow> \<forall>r\<in>set (persisted_rows e j opts t n rows). not_newer t r"
  unfolding persisted_rows_def by (rule not_newer_fold) (auto simp: batch_args_observed)

lemma tombstone_not_newer:
  assumes "\<forall>r\<in>set rows. not_newer t r"
  shows "\<forall>r\<in>set (tombstone_rows e j ty nk names obs t rows). not_newer t r"
  using assms unfolding tombstone_rows_def not_newer_established
  by (auto simp: in_update_where established_def missing_def scanned_def)

text \<open>C17. A complete snapshot is exact. When a job is normalised with complete, attested reads of some
  repositories, nothing in the table is newer than the snapshot, the objects of the batch have
  different external ids and its work items are well keyed, then in each of those repositories the live
  issue records are exactly the issues read and the live pull request records exactly the pull requests
  read: all others are tombstoned, tombstoned ones that were read are restored.\<close>

theorem complete_snapshot_is_exact:
  assumes "normalize_github_sync_job_local e inventory w i opts seen db = Inr (a, db')"
    and "go_persist_if_supported opts" "go_provider_attested opts"
    and "sources_ok (source_records db)" "\<forall>r\<in>set (source_records db). not_newer (snapshot_time e opts) r"
    and "distinct (batch_ids e (an_normalized a))"
    and "\<forall>record\<in>set (nm_issues (an_normalized a)) \<union> set (nm_pull_requests (an_normalized a)). well_keyed record"
  shows "(\<forall>key\<in>scope_of (go_issue_repositories opts).
        live_ids w ''issue'' ''normalized_issue'' key (source_records db')
          = observed_external_ids (nm_issues (an_normalized a)) key)
    \<and> (\<forall>key\<in>scope_of (go_pull_request_repositories opts).
        live_ids w ''pull_request'' ''normalized_pull_request'' key (source_records db')
          = observed_external_ids (nm_pull_requests (an_normalized a)) key)"
proof -
  let ?t = "snapshot_time e opts" and ?n = "an_normalized a" and ?rows = "source_records db"
  obtain j where j: "sj_workspace_id j = w" and rows: "source_records db' = normalized_rows e j opts ?t ?n ?rows"
    using assms(1) by (rule normalize_rows)
  let ?p = "persisted_rows e j opts ?t ?n ?rows"
  let ?q = "tombstone_rows e j ''issue'' ''normalized_issue'' (go_issue_repositories opts) (nm_issues ?n) ?t ?p"
  have db': "source_records db' = tombstone_rows e j ''pull_request'' ''normalized_pull_request''
      (go_pull_request_repositories opts) (nm_pull_requests ?n) ?t ?q"
    using assms(2) rows by (simp add: normalized_rows_def)
  have nn: "\<forall>r\<in>set ?p. not_newer ?t r" "\<forall>r\<in>set ?q. not_newer ?t r"
    using persisted_not_newer [OF assms(5)] tombstone_not_newer by blast+
  have live: "observed_external_ids (nm_issues ?n) key \<subseteq> live_ids w ''issue'' ''normalized_issue'' key ?p"
    "observed_external_ids (nm_pull_requests ?n) key \<subseteq> live_ids w ''pull_request'' ''normalized_pull_request'' key ?p" for key
    using persisted_live [OF assms(3-6), of _ _ key] assms(7) j by blast+
  show ?thesis
    using live live_ids_tombstone [OF _ nn(1), of _ _ j] live_ids_tombstone [OF _ nn(2), of _ _ j] j
    by (auto simp: db' live_ids_off)
qed

end
