(* ===== verification/Snapshot_Properties.thy ===== *)
theory Snapshot_Properties
  imports Snapshot_Exact
begin

text \<open>
  Runs of the normalisation at concrete tables, the witnesses of the theorems on snapshots, and
  a case the code does not handle: a late snapshot of an object it has never stored.
\<close>

section \<open>Concrete snapshots\<close>

definition text_id :: "string \<Rightarrow> uuid" where
  "text_id x = foldl (\<lambda>n c. 256 * n + of_char c) 0 x"

definition example_norm_env :: "time \<Rightarrow> norm_env" where
  "example_norm_env now = \<lparr> ne_sha = zero_sha, ne_local_zone = id, ne_now = now, ne_source_id = text_id,
     ne_repository_id = text_id, ne_task_id = text_id, ne_pull_request_id = text_id, ne_event_id = (\<lambda>_ i. i) \<rparr>"

definition example_raw_repository :: pydict where
  "example_raw_repository = [(''id'', PStr ''r1''), (''full_name'', PStr ''a/b''), (''name'', PStr ''b'')]"

definition example_raw_issue :: pydict where
  "example_raw_issue = [(''external_id'', PStr ''i1''), (''number'', PInt 1), (''title'', PStr ''T''),
     (''state'', PStr ''open''), (''repository_full_name'', PStr ''a/b'')]"

definition example_snapshot_job :: "uuid \<Rightarrow> pydict list \<Rightarrow> sync_job" where
  "example_snapshot_job i issues = queued_job i 0 2 61
     (Some [(''local_github'', PDict [(''repositories'', PList [PDict example_raw_repository]),
       (''issues'', PList (map PDict issues))])])"

text \<open>Job 80 has read the issue, job 81 a list of issues without it.\<close>

definition example_snapshot_db :: canonical_db where
  "example_snapshot_db = app_db.extend (action_db.extend (example_db\<lparr>repositories := [],
       sync_jobs := [example_snapshot_job 80 [example_raw_issue], example_snapshot_job 81 []]\<rparr>)
     (app_db.fields [] [])) (canonical_db.fields [] [])"

definition example_snapshot_options :: "time \<Rightarrow> github_options" where
  "example_snapshot_options t = \<lparr> go_include_repositories = True, go_include_issues = True,
     go_include_pull_requests = False, go_persist_if_supported = True, go_snapshot_observed_at = Some t,
     go_provider_attested = True, go_issue_repositories = [''a/b''], go_pull_request_repositories = [] \<rparr>"

definition no_inventory :: "'z canonical_db_scheme \<Rightarrow> uuid \<Rightarrow> pydict list \<times> string list" where
  "no_inventory db w = ([], [])"

definition normalize_snapshot :: "uuid \<Rightarrow> time \<Rightarrow> time \<Rightarrow> canonical_db \<Rightarrow> (norm_error, normalization_answer \<times> canonical_db) result" where
  "normalize_snapshot i t now db =
     normalize_unraced_job (example_norm_env now) no_inventory 2 i (example_snapshot_options t) db"

definition db_after :: "uuid \<Rightarrow> time \<Rightarrow> time \<Rightarrow> canonical_db \<Rightarrow> canonical_db" where
  "db_after i t now db = (case normalize_snapshot i t now db of Inr (_, db') \<Rightarrow> db' | Inl _ \<Rightarrow> db)"

definition issues_live :: "canonical_db \<Rightarrow> string set" where
  "issues_live db = live_ids 2 ''issue'' ''normalized_issue'' ''a/b'' (source_records db)"

abbreviation newer_db :: canonical_db where "newer_db \<equiv> db_after 81 20 100 example_snapshot_db"
abbreviation late_db :: canonical_db where "late_db \<equiv> db_after 80 10 110 newer_db"

lemma example_newer: "is_ok (normalize_snapshot 81 20 100 example_snapshot_db) \<and> issues_live newer_db = {}"
  by code_simp

lemma example_late: "is_ok (normalize_snapshot 80 10 110 newer_db) \<and> issues_live late_db = {''i1''}"
  by code_simp

lemma example_job_ids: "map sj_id (sync_jobs example_snapshot_db) = [80, 81]" "map sj_id (sync_jobs newer_db) = [80, 81]"
  by code_simp+

lemmas unraced_first = normalize_unraced [of example_snapshot_db, unfolded example_job_ids]
lemmas unraced_late = normalize_unraced [of newer_db, unfolded example_job_ids]

lemma example_newer_rows: "map (\<lambda>r. (established r, sr_is_deleted r, sr_tombstoned_at r = None, sr_tombstone_observed_at r = None,
     sr_tombstone_sync_job_id r = None, sr_tombstone_reason r = None)) (source_records newer_db) = [(20, False, True, True, True, True)]"
  by code_simp

lemma db_after_ok: "is_ok (normalize_snapshot i t now db) \<Longrightarrow> \<exists>a. normalize_snapshot i t now db = Inr (a, db_after i t now db)"
  by (auto simp: db_after_def is_ok_def split: sum.splits)

theorem older_snapshot_witness:
  "\<exists>r\<in>set (source_records newer_db). established r = 20 \<and> r \<in> set (source_records late_db)"
proof -
  obtain r where rows: "source_records newer_db = [r]" and r: "established r = 20" "provenance_ok r"
    using example_newer_rows by (auto simp: provenance_ok_def)
  obtain a where a: "normalize_snapshot 80 10 110 newer_db = Inr (a, late_db)"
    using db_after_ok [OF conjunct1 [OF example_late]] ..
  have "normalization_run [snapshot_time (example_norm_env 110) (example_snapshot_options 10)] newer_db late_db"
    by (rule run_snapshot [OF a [unfolded normalize_snapshot_def, folded unraced_late [simplified]] run_end])
  moreover have "snapshot_time (example_norm_env 110) (example_snapshot_options 10) = 10"
    by (simp add: snapshot_time_def example_snapshot_options_def)
  ultimately have run: "normalization_run [10] newer_db late_db" by simp
  have "r \<in> set (source_records late_db)"
    using older_snapshot_changes_no_record [OF run, of r] rows r by (simp add: sources_ok_def)
  then show ?thesis using rows r(1) by simp
qed

section \<open>What a late snapshot revives\<close>

lemma source_at_fold_new:
  assumes "distinct (map sa_external_id as)" "a \<in> set as"
    and "source_at (sj_workspace_id j) (sa_external_id a) rows = None"
  shows "\<exists>r. source_at (sj_workspace_id j) (sa_external_id a) (fold (upsert_rows e j) as rows)
    = Some (observed_source (ne_sha e) j a r)"
  using assms
proof (induction as arbitrary: rows)
  case (Cons b as)
  show ?case
  proof (cases "a = b")
    case True
    have "source_at (sj_workspace_id j) (sa_external_id a) (upsert_rows e j a rows) = Some (observed_source (ne_sha e) j a
        (blank_source (ne_now e) (ne_source_id e (sa_external_id a)) (sj_workspace_id j) (sa_external_id a)))"
      using Cons.prems(3) by (simp add: upsert_rows_def source_at_def find_append is_source_key)
    moreover have "sa_external_id a \<notin> sa_external_id ` set as" using Cons.prems(1) True by auto
    ultimately have "source_at (sj_workspace_id j) (sa_external_id a) (fold (upsert_rows e j) (b # as) rows)
      = Some (observed_source (ne_sha e) j a
        (blank_source (ne_now e) (ne_source_id e (sa_external_id a)) (sj_workspace_id j) (sa_external_id a)))"
      using True by (simp add: source_at_fold_other)
    then show ?thesis by blast
  next
    case False
    then have a: "a \<in> set as" using Cons.prems(2) by simp
    then have "sa_external_id a \<noteq> sa_external_id b" using Cons.prems(1) by (metis distinct.simps(2) image_eqI list.set_map list.simps(9))
    then show ?thesis using Cons.IH [of "upsert_rows e j b rows"] Cons.prems(1,3) a by (simp add: source_at_upsert_other)
  qed
qed simp

lemma source_at_tombstone:
  "source_at w x (tombstone_rows e j ty nk names obs t rows) = None \<longleftrightarrow> source_at w x rows = None"
  unfolding tombstone_rows_def
  by (subst source_at_update) (auto simp: source_identity_def)

lemma source_at_normalized_none:
  assumes "source_at w x rows = None" "x \<notin> set (batch_ids e n)"
  shows "source_at w x (normalized_rows e j opts t n rows) = None"
proof -
  have "x \<notin> sa_external_id ` set (batch_args e t b (nm_repositories n) (nm_issues n) (nm_pull_requests n))" for b
    using assms(2) batch_args_ids [of e t b n] by (metis list.set_map)
  then show ?thesis using assms(1)
    by (simp add: normalized_rows_def source_at_tombstone persisted_rows_def source_at_fold_other)
qed

text \<open>C20. Absence is not remembered. An issue that was never stored, and that a normalisation does not
  list, is created as a live record by any later stored normalisation that lists it, whatever the
  times of the two snapshots are. In particular a complete snapshot that is newer and found the issue gone is
  overruled by one that was taken before it and is stored after it; the decision record says
  that an older snapshot cannot restore state established by a newer one.\<close>

theorem absence_is_not_remembered:
  assumes "normalize_github_sync_job_local e1 inventory1 w i1 opts1 seen1 db0 = Inr (a1, db1)"
    and "find (is_source w x) (source_records db0) = None" "x \<notin> set (batch_ids e1 (an_normalized a1))"
    and "normalize_github_sync_job_local e2 inventory2 w i2 opts2 seen2 db1 = Inr (a2, db2)"
    and "go_persist_if_supported opts2" "distinct (batch_ids e2 (an_normalized a2))"
    and "issue \<in> set (nm_issues (an_normalized a2))" "well_keyed issue" "py_get issue ''external_id'' = PStr x"
  shows "\<exists>r\<in>set (source_records db2). is_source w x r \<and> sr_record_type r = ''issue'' \<and> \<not> sr_is_deleted r
    \<and> sr_observed_at r = snapshot_time e2 opts2"
proof -
  let ?t = "snapshot_time e2 opts2" and ?n = "an_normalized a2"
  obtain j1 where "source_records db1 = normalized_rows e1 j1 opts1 (snapshot_time e1 opts1) (an_normalized a1) (source_records db0)"
    using assms(1) by (rule normalize_rows)
  then have none: "source_at w x (source_records db1) = None"
    using source_at_normalized_none assms(2,3) by (simp add: source_at_def)
  obtain j where j: "sj_workspace_id j = w"
    and rows: "source_records db2 = normalized_rows e2 j opts2 ?t ?n (source_records db1)"
    using assms(4) by (rule normalize_rows)
  obtain m where m: "py_get issue ''repository_full_name'' = PStr m" "length m \<le> 1000" "lower m = casefold (strip m)"
    "external_id_from_normalized issue = x" "x \<noteq> []"
    using assms(8,9) by (auto elim!: well_keyedE)
  let ?as = "batch_args e2 ?t (go_provider_attested opts2) (nm_repositories ?n) (nm_issues ?n) (nm_pull_requests ?n)"
  let ?a = "issue_args e2 ?t (go_provider_attested opts2) issue"
  have a: "?a \<in> set ?as" "sa_external_id ?a = x" using assms(7) m(4)
    by (auto simp: batch_args_def issue_args_def source_args_of_def)
  have "distinct (map sa_external_id ?as)" using assms(6) by (simp add: batch_args_ids)
  from source_at_fold_new [OF this a(1), of j "source_records db1" e2] none j a(2)
  obtain r0 where r0: "source_at w x (persisted_rows e2 j opts2 ?t ?n (source_records db1)) = Some (observed_source (ne_sha e2) j ?a r0)"
    by (auto simp: persisted_rows_def)
  let ?r = "observed_source (ne_sha e2) j ?a r0"
  from r0 have r: "?r \<in> set (persisted_rows e2 j opts2 ?t ?n (source_records db1))" "is_source w x ?r"
    using find_Some_mem find_Some_holds unfolding source_at_def by fast+
  have "source_repository ''normalized_issue'' ?r = Some m"
    by (rule source_repository_of_payload(1) [OF m(1,2)]) (simp add: issue_args_def source_args_of_def)
  then have key: "key = casefold (strip m)" if "scanned v ty ''normalized_issue'' ?t key ?r" for v ty key
    using scanned_key [OF that] m(3) by simp
  have ext: "sr_external_id ?r = x" and ty: "sr_record_type ?r = ''issue''" "\<not> sr_is_deleted ?r" "sr_observed_at ?r = ?t"
    using r(2) by (simp_all add: is_source_def issue_args_def source_args_of_def)
  have "x \<in> observed_external_ids (nm_issues ?n) (casefold (strip m))"
    using assms(7,9) m by (auto simp: observed_external_ids_mem)
  then have "\<not> missing (sj_workspace_id j) ''issue'' ''normalized_issue'' ?t ks (observed_external_ids (nm_issues ?n)) ?r" for ks
    using key ext by (auto simp: missing_def)
  moreover have "\<not> missing (sj_workspace_id j) ''pull_request'' ''normalized_pull_request'' ?t ks obs ?r" for ks obs
    using ty(1) by (auto simp: missing_def scanned_def in_scope_def)
  ultimately have "?r \<in> set (source_records db2)"
    using r(1) assms(5) by (simp add: rows normalized_rows_def tombstone_rows_def in_update_where)
  then show ?thesis using r(2) ty by blast
qed

section \<open>The witnesses\<close>

definition example_answer :: normalization_answer where
  "example_answer = (case normalize_snapshot 80 10 100 example_snapshot_db of Inr (a, _) \<Rightarrow> a | Inl _ \<Rightarrow> undefined)"

lemma example_first: "is_ok (normalize_snapshot 80 10 100 example_snapshot_db)"
  by code_simp

lemma example_batch_ids: "batch_ids (example_norm_env 100) (an_normalized example_answer) = [''r1'', ''i1'']"
  by code_simp

lemma example_well_keyed: "list_all well_keyed (nm_issues (an_normalized example_answer) @ nm_pull_requests (an_normalized example_answer))"
  by code_simp

lemma example_observed: "observed_external_ids (nm_issues (an_normalized example_answer)) ''a/b'' = {''i1''}"
  by code_simp

lemma example_scope: "scope_of [''a/b''] = {''a/b''}"
  by code_simp

theorem complete_snapshot_witness:
  "live_ids 2 ''issue'' ''normalized_issue'' ''a/b'' (source_records (db_after 80 10 100 example_snapshot_db)) = {''i1''}"
proof -
  obtain a where a: "normalize_snapshot 80 10 100 example_snapshot_db = Inr (a, db_after 80 10 100 example_snapshot_db)"
    using db_after_ok [OF example_first] ..
  then have [simp]: "a = example_answer" by (simp add: example_answer_def)
  have "source_records example_snapshot_db = []"
    by code_simp
  then have "\<forall>key\<in>scope_of (go_issue_repositories (example_snapshot_options 10)).
      live_ids 2 ''issue'' ''normalized_issue'' key (source_records (db_after 80 10 100 example_snapshot_db))
        = observed_external_ids (nm_issues (an_normalized a)) key"
    using example_well_keyed
    by (intro conjunct1 [OF complete_snapshot_is_exact [OF a [unfolded normalize_snapshot_def, folded unraced_first [simplified]]]])
       (auto simp: example_snapshot_options_def sources_ok_def example_batch_ids list_all_iff)
  then show ?thesis by (simp add: example_snapshot_options_def example_scope example_observed)
qed

definition answer_of :: "(norm_error, normalization_answer \<times> canonical_db) result \<Rightarrow> normalized_records" where
  "answer_of r = (case r of Inr (a, _) \<Rightarrow> an_normalized a
     | Inl _ \<Rightarrow> \<lparr> nm_repositories = [], nm_issues = [], nm_pull_requests = [], nm_warnings = [] \<rparr>)"

lemma example_newer_batch: "batch_ids (example_norm_env 100) (answer_of (normalize_snapshot 81 20 100 example_snapshot_db)) = [''r1'']"
  by code_simp

lemma example_late_batch: "batch_ids (example_norm_env 110) (answer_of (normalize_snapshot 80 10 110 newer_db)) = [''r1'', ''i1'']"
  by code_simp

lemma example_late_issues: "map (\<lambda>i. (well_keyed i, py_get i ''external_id''))
    (nm_issues (answer_of (normalize_snapshot 80 10 110 newer_db))) = [(True, PStr ''i1'')]"
  by code_simp

lemma example_no_rows: "source_records example_snapshot_db = []"
  by code_simp

theorem absence_is_not_remembered_witness:
  "\<exists>a1 a2. normalize_snapshot 81 20 100 example_snapshot_db = Inr (a1, newer_db) \<and>
    normalize_snapshot 80 10 110 newer_db = Inr (a2, late_db) \<and>
    (\<exists>r\<in>set (source_records late_db). is_source 2 ''i1'' r \<and> sr_record_type r = ''issue'' \<and> \<not> sr_is_deleted r
      \<and> sr_observed_at r = 10)"
proof -
  obtain a1 where a1: "normalize_snapshot 81 20 100 example_snapshot_db = Inr (a1, newer_db)"
    using db_after_ok [OF conjunct1 [OF example_newer]] ..
  obtain a2 where a2: "normalize_snapshot 80 10 110 newer_db = Inr (a2, late_db)"
    using db_after_ok [OF conjunct1 [OF example_late]] ..
  note n1 = a1 [unfolded normalize_snapshot_def, folded unraced_first [simplified]]
  note n2 = a2 [unfolded normalize_snapshot_def, folded unraced_late [simplified]]
  have b1: "batch_ids (example_norm_env 100) (an_normalized a1) = [''r1'']"
    using example_newer_batch unfolding a1 answer_of_def by simp
  have b2: "batch_ids (example_norm_env 110) (an_normalized a2) = [''r1'', ''i1'']"
    using example_late_batch unfolding a2 answer_of_def by simp
  have "map (\<lambda>i. (well_keyed i, py_get i ''external_id'')) (nm_issues (an_normalized a2)) = [(True, PStr ''i1'')]"
    using example_late_issues unfolding a2 answer_of_def by simp
  then obtain issue where i: "issue \<in> set (nm_issues (an_normalized a2))" "well_keyed issue"
    "py_get issue ''external_id'' = PStr ''i1''" by (cases "nm_issues (an_normalized a2)") auto
  have opts: "go_persist_if_supported (example_snapshot_options 10)" "snapshot_time (example_norm_env 110) (example_snapshot_options 10) = 10"
    by (simp_all add: example_snapshot_options_def snapshot_time_def)
  have "\<exists>r\<in>set (source_records late_db). is_source 2 ''i1'' r \<and> sr_record_type r = ''issue'' \<and> \<not> sr_is_deleted r
      \<and> sr_observed_at r = snapshot_time (example_norm_env 110) (example_snapshot_options 10)"
    by (rule absence_is_not_remembered [OF n1 _ _ n2 opts(1) _ i]) (simp_all add: example_no_rows b1 b2)
  with a1 a2 show ?thesis unfolding opts(2) by blast
qed

end
