(* ===== verification/Reconciliation_Exact.thy ===== *)
theory Reconciliation_Exact
  imports Snapshot_Exact "HOL-Library.Multiset"
begin

text \<open>
  The contract of the reconciliation: the loop over sorted scopes, with its lookups and flushes,
  is one pass over the table, and the memory ledger gets an event for the records that disappear.
\<close>

section \<open>The events of a reconciliation\<close>

text \<open>The memory event that says that a record disappeared, as the service asks for it.\<close>

definition disappearance_args :: "norm_env \<Rightarrow> uuid \<Rightarrow> time \<Rightarrow> source_record \<Rightarrow> memory_args" where
  "disappearance_args e i t r =
     \<lparr> ma_new_id = ne_event_id e ''source_record_disappeared'' (sr_id r), ma_observed_at = ne_now e,
       ma_workspace_id = sr_workspace_id r, ma_event_type = ''source_record_disappeared'',
       ma_subject_type = ''source_record'', ma_subject_key = uuid_str (sr_id r), ma_subject_id = sr_id r,
       ma_source_key = sr_provider r, ma_actor_user_id = None, ma_primary_source_record_id = Some (sr_id r),
       ma_evidence_refs = [(''source_record'', sr_id r), (''sync_job'', i)], ma_occurred_at = Some t,
       ma_idempotency_material = [(''event_type'', PStr ''source_record_disappeared''),
         (''source_record_id'', PUuid (sr_id r)), (''sync_job_id'', PUuid i),
         (''workspace_id'', PUuid (sr_workspace_id r))] \<rparr>"

definition disappearance_key :: "norm_env \<Rightarrow> uuid \<Rightarrow> time \<Rightarrow> source_record \<Rightarrow> uuid \<times> string" where
  "disappearance_key e i t r = memory_args_key (ne_sha e) (disappearance_args e i t r)"

text \<open>The events \<open>evs\<close> announce the disappearance of records among \<open>gone\<close>, of each at most once.\<close>

definition disappeared_events :: "time \<Rightarrow> source_record list \<Rightarrow> memory_event list \<Rightarrow> bool" where
  "disappeared_events t gone evs \<longleftrightarrow> mset (map me_subject_id evs) \<subseteq># mset (map sr_id gone) \<and>
     (\<forall>ev\<in>set evs. me_event_type ev = ''source_record_disappeared'' \<and> me_occurred_at ev = t)"

lemma prepared_event_subject:
  "prepared_event sha a = Inr e \<Longrightarrow> me_subject_id e = ma_subject_id a \<and> me_event_type e = ma_event_type a
     \<and> ma_occurred_at a = Some (me_occurred_at e)"
  by (auto simp: prepared_event_def result_iffs require_some_Inr_iff)

lemma disappeared_append:
  "disappeared e i t r db = Inr db' \<longleftrightarrow>
     (\<exists>ev. append_company_memory_event (ne_sha e) (disappearance_args e i t r) db db = Inr (ev, db'))"
  by (auto simp: disappeared_def lifecycle_event_def append_source_record_lifecycle_memory_event_def
      disappearance_args_def bindE_Inr_iff map_error_Inr_iff)

lemma disappeared_event:
  assumes "disappeared e i t r db = Inr db'"
  shows "\<exists>evs. memory_events db' = memory_events db @ evs \<and> disappeared_events t [r] evs
    \<and> disappearance_key e i t r \<in> memory_key ` set (memory_events db')"
proof -
  let ?a = "disappearance_args e i t r"
  obtain ev where ev: "append_company_memory_event (ne_sha e) ?a db db = Inr (ev, db')"
    using assms by (auto simp: disappeared_append)
  from ev show ?thesis
  proof (cases rule: append_memory_cases)
    case stored
    then have "disappearance_key e i t r \<in> memory_key ` set (memory_events db')"
      unfolding disappearance_key_def by (metis image_eqI)
    then show ?thesis using stored(1) by (simp add: disappeared_events_def)
  next
    case (fresh p)
    have "me_subject_id ev = sr_id r" "me_event_type ev = ''source_record_disappeared''" "me_occurred_at ev = t"
      using prepared_event_subject [OF fresh(1)] fresh(2) by (simp_all add: disappearance_args_def)
    moreover have "memory_events db' = memory_events db @ [ev]" using fresh(5) by simp
    ultimately show ?thesis using fresh(3) by (auto simp: disappeared_events_def disappearance_key_def)
  qed
qed

lemma disappeared_events_append:
  "disappeared_events t gone evs \<Longrightarrow> disappeared_events t gone' evs' \<Longrightarrow> disappeared_events t (gone @ gone') (evs @ evs')"
  by (auto simp: disappeared_events_def intro: subset_mset.add_mono)

lemma fold_disappeared_events:
  assumes "fold_result (disappeared e i t) gone db = Inr db'"
  shows "\<exists>evs. memory_events db' = memory_events db @ evs \<and> disappeared_events t gone evs
    \<and> disappearance_key e i t ` set gone \<subseteq> memory_key ` set (memory_events db')"
  using assms
proof (induction gone arbitrary: db)
  case Nil
  then show ?case by (simp add: disappeared_events_def)
next
  case (Cons r gone)
  obtain db1 where 1: "disappeared e i t r db = Inr db1" and 2: "fold_result (disappeared e i t) gone db1 = Inr db'"
    using Cons.prems by (auto simp: bindE_Inr_iff)
  obtain evs1 where e1: "memory_events db1 = memory_events db @ evs1" "disappeared_events t [r] evs1"
    "disappearance_key e i t r \<in> memory_key ` set (memory_events db1)"
    using disappeared_event [OF 1] by blast
  obtain evs2 where e2: "memory_events db' = memory_events db1 @ evs2" "disappeared_events t gone evs2"
    "disappearance_key e i t ` set gone \<subseteq> memory_key ` set (memory_events db')"
    using Cons.IH [OF 2] by blast
  have "disappeared_events t (r # gone) (evs1 @ evs2)" using disappeared_events_append [OF e1(2) e2(2)] by simp
  then show ?case using e1(1,3) e2(1,3) by (intro exI [of _ "evs1 @ evs2"]) auto
qed

text \<open>The rows the loop over the scopes tombstones are, each once, the missing rows of the table.\<close>

lemma filter_update_where_other:
  "(\<And>r. \<not> Q (f r)) \<Longrightarrow> (\<And>r. \<not> (P r \<and> Q r)) \<Longrightarrow> filter Q (update_where P f rows) = filter Q rows"
  by (induction rows) (auto simp: update_where_def)

lemma mset_filter_or:
  "(\<And>r. \<not> (P r \<and> Q r)) \<Longrightarrow> mset (filter P rows) + mset (filter Q rows) = mset (filter (\<lambda>r. P r \<or> Q r) rows)"
  by (induction rows) auto

lemma reconcile_scopes_gone:
  assumes "distinct keys"
    and "reconcile_scopes (tombstoned_source at t i) (scanned_rows w ty nk t) observed keys rows = (n, gone, rows')"
  shows "mset gone = mset (map (tombstoned_source at t i) (filter (missing w ty nk t (set keys) observed) rows))"
  using assms
proof (induction keys arbitrary: rows n gone rows')
  case Nil
  then show ?case by (simp add: missing_def)
next
  case (Cons key keys)
  let ?f = "tombstoned_source at t i" and ?rest = "missing w ty nk t (set keys) observed"
  let ?one = "\<lambda>r. scanned w ty nk t key r \<and> sr_external_id r \<notin> observed key"
  let ?g = "filter (\<lambda>r. sr_external_id r \<notin> observed key) (scanned_rows w ty nk t key rows)"
  have up: "update_where (\<lambda>r. r \<in> set ?g) ?f rows = update_where ?one ?f rows"
    unfolding scanned_rows_def by (rule update_where_members)
  obtain n2 gone2 where rec: "reconcile_scopes ?f (scanned_rows w ty nk t) observed keys (update_where ?one ?f rows)
      = (n2, gone2, rows')" and gone: "gone = map ?f ?g @ gone2"
    using Cons.prems(2) by (auto simp del: set_filter simp: Let_def up split: prod.splits)
  have disj: "\<not> (?one r \<and> ?rest r)" for r
    using Cons.prems(1) by (auto simp: missing_def dest!: scanned_key)
  have all: "missing w ty nk t (set (key # keys)) observed = (\<lambda>r. ?one r \<or> ?rest r)"
    by (auto simp: missing_def fun_eq_iff)
  have "mset ?g = mset (filter ?one rows)"
    unfolding scanned_rows_def by (simp add: filter_sort mset_filter filter_filter_mset conj_commute)
  moreover have "mset gone2 = mset (map ?f (filter ?rest rows))"
    using Cons.IH [OF _ rec] Cons.prems(1)
      filter_update_where_other [where Q = ?rest and P = ?one and f = ?f, OF not_missing_tombstoned disj] by simp
  ultimately have "mset gone = image_mset ?f (mset (filter ?one rows) + mset (filter ?rest rows))"
    by (simp add: gone)
  also have "\<dots> = mset (map ?f (filter (missing w ty nk t (set (key # keys)) observed) rows))"
    unfolding all mset_filter_or [where P = ?one and Q = ?rest, OF disj] by simp
  finally show ?case .
qed

section \<open>The contract\<close>

text \<open>The record is in one of the scopes and the complete snapshot neither has it nor is older.\<close>

definition gone_from :: "uuid \<Rightarrow> string \<Rightarrow> string list \<Rightarrow> pydict list \<Rightarrow> time \<Rightarrow> source_record \<Rightarrow> bool" where
  "gone_from w ty names observed t r \<longleftrightarrow> \<not> sr_is_deleted r \<and> sr_observed_at r \<le> t \<and>
     (case normalized_payload_key ty of None \<Rightarrow> False | Some nk \<Rightarrow> \<exists>key\<in>scope_of names. in_scope w ty nk key r
        \<and> sr_external_id r \<notin> observed_external_ids observed key)"

text \<open>C19. Reconciliation is one pass. Whatever the order of the scopes, when it succeeds it has
  tombstoned exactly the live records of the workspace, type and repositories that the snapshot
  does not list and that no later snapshot has seen; it leaves every other row as it was and
  reports how many it tombstoned. To the memory ledger it has appended only events of the
  disappearance of these very records, of each at most one; and for every one of them the
  ledger then holds the event under the key of its disappearance in this job.\<close>

theorem reconciliation_tombstones_exactly_the_missing:
  assumes "reconcile_authoritative_github_records e j ty names observed t db = Inr (res, db')"
  shows "source_records db' = map (\<lambda>r. if gone_from (sj_workspace_id j) ty names observed t r
        then tombstoned_source (ne_now e) t (sj_id j) r else r) (source_records db)
    \<and> rr_records_tombstoned res
        = int (length (filter (gone_from (sj_workspace_id j) ty names observed t) (source_records db)))
    \<and> (\<exists>evs. memory_events db' = memory_events db @ evs
        \<and> mset (map me_subject_id evs)
            \<subseteq># mset (map sr_id (filter (gone_from (sj_workspace_id j) ty names observed t) (source_records db)))
        \<and> (\<forall>ev\<in>set evs. me_event_type ev = ''source_record_disappeared'' \<and> me_occurred_at ev = t))
    \<and> (\<forall>r\<in>set (source_records db). gone_from (sj_workspace_id j) ty names observed t r \<longrightarrow>
        disappearance_key e (sj_id j) t r \<in> memory_key ` set (memory_events db'))"
proof -
  let ?gone = "gone_from (sj_workspace_id j) ty names observed t"
  let ?tomb = "tombstoned_source (ne_now e) t (sj_id j)"
  obtain nk where nk: "normalized_payload_key ty = Some nk"
    and rows: "source_records db' = update_where (missing (sj_workspace_id j) ty nk t (scope_of names)
        (observed_external_ids observed)) ?tomb (source_records db)"
    and n: "rr_records_tombstoned res = int (length (filter (missing (sj_workspace_id j) ty nk t (scope_of names)
        (observed_external_ids observed)) (source_records db)))"
    by (rule reconcile_rows [OF assms])
  have gone: "missing (sj_workspace_id j) ty nk t (scope_of names) (observed_external_ids observed) = ?gone"
    using nk by (auto simp: fun_eq_iff missing_def gone_from_def scanned_def)
  obtain keys where keys: "normalized_repositories names = Inr keys"
    using assms by (auto simp: reconcile_authoritative_github_records_def bindE_Inr_iff)
  obtain k gs rs where r: "reconcile_scopes ?tomb
      (scanned_rows (sj_workspace_id j) ty nk t) (observed_external_ids observed) keys (source_records db) = (k, gs, rs)"
    by (metis surj_pair)
  have ev: "fold_result (disappeared e (sj_id j) t) gs (db\<lparr>source_records := rs\<rparr>) = Inr db'"
    using assms by (auto simp: reconcile_authoritative_github_records_def bindE_Inr_iff nk keys r)
  have "set keys = scope_of names" "distinct keys"
    using normalized_repositories_set [OF keys] by (simp_all add: scope_of_def)
  then have gs: "mset gs = mset (map ?tomb (filter ?gone (source_records db)))"
    using reconcile_scopes_gone [OF _ r] gone by simp
  then have "mset (map sr_id gs) = mset (map (sr_id \<circ> ?tomb) (filter ?gone (source_records db)))"
    by (metis map_map mset_map)
  then have ids: "mset (map sr_id gs) = mset (map sr_id (filter ?gone (source_records db)))"
    by (simp add: comp_def)
  obtain evs where evs: "memory_events db' = memory_events db @ evs" "disappeared_events t gs evs"
    "disappearance_key e (sj_id j) t ` set gs \<subseteq> memory_key ` set (memory_events db')"
    using fold_disappeared_events [OF ev] by auto
  have key: "disappearance_key e (sj_id j) t r \<in> memory_key ` set (memory_events db')"
    if "r \<in> set (source_records db)" "?gone r" for r
  proof -
    have "?tomb r \<in> set gs" using mset_eq_setD [OF gs] that by auto
    moreover have "disappearance_key e (sj_id j) t (?tomb r) = disappearance_key e (sj_id j) t r"
      by (simp add: disappearance_key_def disappearance_args_def)
    ultimately show ?thesis using evs(3) by (metis image_subset_iff)
  qed
  show ?thesis
    using rows n evs(1,2) key unfolding gone update_where_def disappeared_events_def ids by blast
qed

section \<open>A record that disappears\<close>

definition example_source :: source_record where
  "example_source = (blank_source 0 5 2 ''i1'')\<lparr>sr_record_type := ''issue'', sr_payload :=
     [(''normalized_issue'', PDict [(''repository_full_name'', PStr ''a/b'')])], sr_observed_at := 10\<rparr>"

definition example_source_ledger :: "source_record \<Rightarrow> ledger_db" where
  "example_source_ledger r = example_ledger\<lparr>source_records := [r]\<rparr>"

definition example_reconcile_env :: norm_env where
  "example_reconcile_env = \<lparr> ne_sha = zero_sha, ne_local_zone = id, ne_now = 30, ne_source_id = length,
     ne_repository_id = length, ne_task_id = length, ne_pull_request_id = length, ne_event_id = (\<lambda>_ i. i) \<rparr>"

lemma example_source_evidence: "validated_evidence_refs [(''source_record'', 5), (''sync_job'', 80)]
    = Inr [(''source_record'', uuid_str 5), (''sync_job'', uuid_str 80)]"
  by (simp add: validated_evidence_refs_def bindE_def require_def COMPANY_MEMORY_EVENT_REFERENCE_TYPES_def
      COMPANY_MEMORY_EVENT_EVIDENCE_LIMIT_def)

lemma example_source_subject: "subject_key_of ''source_record'' (uuid_str 5) 5 = Inr (uuid_str 5)"
  by code_simp

lemma example_source_tables: "memory_events (example_source_ledger r) = []" "w_id ` set (workspaces (example_source_ledger r)) = {2}"
   "source_records (example_source_ledger r) = [r]" "memory_streams (example_source_ledger r) = []"
  by (simp_all add: example_source_ledger_def example_ledger_def auth_db.defs ledger_db.defs example_auth_def
      example_workspace_def identity_db.defs)

lemma example_disappeared:
  assumes "sr_id r = 5" "sr_workspace_id r = 2" "sr_provider r = ''github''"
  shows "\<exists>db'. disappeared example_reconcile_env 80 t r (example_source_ledger r) = Inr db'"
proof -
  have "\<exists>ev db'. append_source_record_lifecycle_memory_event zero_sha 5 30 r 80 ''source_record_disappeared'' t
      (example_source_ledger r) = Inr (ev, db')"
    by (simp add: append_source_record_lifecycle_memory_event_def append_company_memory_event_def prepared_event_def assms
        example_source_evidence example_source_subject EVENT_RULES_def COMPANY_MEMORY_EVENT_SOURCE_KEYS_def zero_memory_digest
        memory_event_by_key_def next_workspace_sequence_def memory_row_ok_def Let_def example_source_tables)
  then show ?thesis by (auto simp: disappeared_def lifecycle_event_def example_reconcile_env_def assms(1))
qed

lemma example_scan: "normalized_repositories [''a/b''] = Inr [''a/b'']"
    "scanned_rows 2 ''issue'' ''normalized_issue'' 20 ''a/b'' [example_source] = [example_source]"
    "observed_external_ids [] ''a/b'' = {}"
  by code_simp+

theorem reconciliation_witness:
  "\<exists>res db'. reconcile_authoritative_github_records example_reconcile_env (queued_job 80 0 2 61 None) ''issue'' [''a/b''] [] 20
      (example_source_ledger example_source) = Inr (res, db')
    \<and> source_records db' = [tombstoned_source 30 20 80 example_source]"
proof -
  let ?r = "tombstoned_source 30 20 80 example_source"
  obtain db' where db': "disappeared example_reconcile_env 80 20 ?r (example_source_ledger ?r) = Inr db'"
    using example_disappeared [of ?r] by (auto simp: example_source_def blank_source_def)
  have put: "(example_source_ledger example_source)\<lparr>source_records := [?r]\<rparr> = example_source_ledger ?r"
    by (simp add: example_source_ledger_def)
  have job: "sj_workspace_id (queued_job 80 0 2 61 None) = 2" "sj_id (queued_job 80 0 2 61 None) = 80"
    "sj_provider (queued_job 80 0 2 61 None) = ''github''" "ne_now example_reconcile_env = 30"
    by (simp_all add: queued_job_def example_reconcile_env_def)
  obtain res where ok: "reconcile_authoritative_github_records example_reconcile_env (queued_job 80 0 2 61 None) ''issue''
      [''a/b''] [] 20 (example_source_ledger example_source) = Inr (res, db')"
    by (simp add: reconcile_authoritative_github_records_def job payload_keys example_scan example_source_tables Let_def put db')
  have "gone_from 2 ''issue'' [''a/b''] [] 20 example_source" by code_simp
  then have "source_records db' = [?r]"
    using reconciliation_tombstones_exactly_the_missing [OF ok] by (simp add: job example_source_tables)
  with ok show ?thesis by blast
qed

end
