(* ===== verification/Repository_Identity.thy ===== *)
theory Repository_Identity
  imports Source_Snapshots
begin

text \<open>
  The two identities of a repository row, its GitHub id and its full name, may point to two rows:
  a repository renamed to the name of another one (which was deleted, say). The upsert then
  writes the id of one row into the other and meets the unique index. The batch of that
  repository can never be stored, however often its job is tried.
\<close>

section \<open>The upsert\<close>

definition two_identities :: "uuid \<Rightarrow> pydict \<Rightarrow> repository \<Rightarrow> repository \<Rightarrow> 'z action_db_scheme \<Rightarrow> bool" where
  "two_identities w repo by_id by_name db \<longleftrightarrow> by_id \<in> set (repositories db) \<and> by_name \<in> set (repositories db)
     \<and> rp_workspace_id by_id = w \<and> rp_external_id by_id = repository_external_id repo
     \<and> rp_workspace_id by_name = w \<and> rp_provider by_name = ''github'' \<and> rp_full_name by_name = stored_full_name repo
     \<and> rp_id by_id \<noteq> rp_id by_name \<and> repository_external_id repo \<noteq> stored_full_name repo
     \<and> distinct (map (\<lambda>r. (rp_workspace_id r, rp_provider r, rp_full_name r)) (repositories db))"

lemma upsert_two_identities:
  assumes "two_identities (sj_workspace_id j) repo by_id by_name db"
  shows "upsert_repository e j repo (repository_external_id repo) db = Inl NormDatabaseError"
proof -
  let ?x = "repository_external_id repo"
  let ?new = "written_repository e repo (blank_repository (ne_repository_id e ?x) (sj_workspace_id j) ?x (ne_now e))"
  let ?key = "\<lambda>r. (rp_workspace_id r, rp_provider r, rp_full_name r)"
  have "find (same_full_name ?new) (repositories db) = find (\<lambda>r. ?key r = ?key by_name) (repositories db)"
    using assms by (intro find_cong_set)
      (auto simp: two_identities_def same_full_name_def written_repository_def blank_repository_def)
  also have "\<dots> = Some by_name"
    using assms find_key_unique [of ?key "repositories db" by_name] by (simp add: two_identities_def)
  finally have name: "find (same_full_name ?new) (repositories db) = Some by_name" .
  let ?r = "written_repository e repo (by_name\<lparr>rp_external_id := ?x\<rparr>)"
  have "same_external_id ?r by_id" "by_id \<in> set (repositories db)" "rp_id by_id \<noteq> rp_id by_name"
    using assms by (auto simp: two_identities_def same_external_id_def written_repository_def)
  then have "\<not> (\<forall>x\<in>set (repositories db). rp_id x = rp_id by_name \<or> \<not> same_external_id ?r x)" by blast
  then show ?thesis
    using assms unfolding upsert_repository_def Let_def name two_identities_def
    by (auto simp: bindE_def require_def split: option.splits)
qed

lemma persist_two_identities:
  assumes "two_identities (sj_workspace_id j) repo by_id by_name db" "\<forall>r\<in>set (source_records db). not_newer t r"
  shows "\<exists>err. persist_repository e j t True repo (c, db) = Inl err"
proof (cases "upsert_source_record e j (repository_args e t True repo) db")
  case (Inl err)
  then show ?thesis by (simp add: persist_repository_def persist_source_def)
next
  case (Inr u)
  obtain us db1 where u: "u = (us, db1)" by force
  have args: "sa_allow_restore (repository_args e t True repo)" "sa_observed_at (repository_args e t True repo) = t"
    by (simp_all add: repository_args_def source_args_of_def)
  have acc: "us_accepted us \<and> repositories db1 = repositories db"
    using Inr u args assms(2) find_Some_mem
    by (fastforce simp: upsert_source_record_def Let_def bindE_Inr_iff lifecycle_event_def map_error_Inr_iff
        append_source_record_lifecycle_memory_event_def split: option.splits if_splits elim!: append_memory_cases)
  then have "two_identities (sj_workspace_id j) repo by_id by_name db1"
    using assms(1) by (simp add: two_identities_def)
  from upsert_two_identities [OF this] show ?thesis
    using acc by (simp add: persist_repository_def persist_source_def Inr u)
qed


section \<open>In the worker\<close>

lemma batch_repositories:
  "sj_cursor_before j = sj_cursor_before (batch_job request b j0) \<Longrightarrow> lr_repositories (local_github_records j) = [rb_repository b]"
  by (simp add: local_github_records_def batch_job_def record_list_def py_get_def mapping_of_def map_filter_simps as_dict_def)

lemma normalize_two_identities:
  assumes "two_identities (sj_workspace_id j0) (build_normalized_repository (rb_repository b)) by_id by_name db"
    and "\<forall>r\<in>set (source_records db). not_newer (rb_observed_at b) r"
  shows "github_normalizer e inventory (batch_options p b) (batch_job request b j0) db = None"
proof -
  let ?j0 = "batch_job request b j0" and ?opts = "worker_github_options (batch_options p b)"
  let ?repo = "build_normalized_repository (rb_repository b)"
  have opts: "go_include_repositories ?opts" "go_persist_if_supported ?opts" "go_provider_attested ?opts"
    "go_snapshot_observed_at ?opts = Some (rb_observed_at b)"
    by (simp_all add: worker_github_options_def batch_options_def)
  have "False" if ok: "normalize_github_sync_job_local e inventory (sj_workspace_id ?j0) (sj_id ?j0) ?opts
      (sync_jobs (put_job ?j0 db)) (put_job ?j0 db) = Inr (a, db')" for a db'
  proof -
    obtain j1 row n c rs db1 where
      j1: "find (\<lambda>j. sj_workspace_id j = sj_workspace_id ?j0 \<and> sj_id j = sj_id ?j0) (sync_jobs (put_job ?j0 db)) = Some j1" and
      n: "normalized_records_of (inventory (put_job row (put_job ?j0 db))) (sj_workspace_id ?j0) ?opts
        (normalizing_job (ne_now e) j1) = Inr n" and
      p: "persist_and_reconcile e (normalizing_job (ne_now e) j1) ?opts (rb_observed_at b) n
        (put_job row (put_job ?j0 db)) = Inr (c, rs, db1)"
      using ok by (auto simp: normalize_github_sync_job_local_def Let_def bindE_Inr_iff require_some_Inr_iff opts)
    have "j1 = ?j0" using find_Some_mem [OF j1] find_Some_holds [OF j1]
      by (auto simp: put_job_def in_update_where)
    then have "lr_repositories (local_github_records (normalizing_job (ne_now e) j1)) = [rb_repository b]"
      by (intro batch_repositories) (simp add: normalizing_job_def)
    then have repos: "nm_repositories n = [?repo]"
      using n opts by (auto simp: normalized_records_of_def normalized_repository_list_def Let_def bindE_Inr_iff)
    have "two_identities (sj_workspace_id (normalizing_job (ne_now e) j1)) ?repo by_id by_name
        (put_job row (put_job ?j0 db))"
      using assms(1) \<open>j1 = ?j0\<close> by (simp add: two_identities_def put_job_def normalizing_job_def batch_job_def)
    then obtain err where "persist_repository e (normalizing_job (ne_now e) j1) (rb_observed_at b) True ?repo
        (no_counts, put_job row (put_job ?j0 db)) = Inl err"
      using persist_two_identities assms(2) by (metis source_records_put_job)
    then show False using p by (simp add: persist_and_reconcile_def persist_canonical_github_records_def opts repos)
  qed
  then show ?thesis by (auto simp: github_normalizer_def split: sum.split)
qed

text \<open>C21. A repository that takes another one's name cannot be synchronised any more. The tables
  have a row with its GitHub id and another row with its present full name, as after a rename
  over a deleted repository, and nothing newer than the batch. Then the transaction that stores
  its batch fails with an unexpected error, whatever else the batch holds, and stores nothing: so
  does every retry.\<close>

theorem renamed_repository_blocks_its_batch:
  assumes "locked_claim_job claim db = Inr j" "sj_cancel_requested_at j = None"
    and "request_mapping (sj_cursor_before j) = Inr request"
    and "casefold (rb_full_name b) \<notin> casefold ` set (completed_of j)"
    and "two_identities (sj_workspace_id j) (build_normalized_repository (rb_repository b)) by_id by_name db"
    and "\<forall>r\<in>set (source_records db). not_newer (rb_observed_at b) r"
  shows "persist_repository_batch st (github_normalizer e inventory) now claim p b db = (Inl UnexpectedStop, db)"
  using assms normalize_two_identities [OF assms(5,6), of e inventory p request]
  by (simp add: persist_repository_batch_def with_lease_def)

section \<open>At concrete tables\<close>

definition example_repo_row :: "uuid \<Rightarrow> string \<Rightarrow> string \<Rightarrow> repository" where
  "example_repo_row i ext full_name = (blank_repository i 2 ext 0)\<lparr>rp_full_name := full_name\<rparr>"

definition example_running_job :: sync_job where
  "example_running_job = (queued_job 80 0 2 61 (Some [(''github_app_live_sync'', PDict [])]))\<lparr>sj_status := SyncRunning,
     sj_lease_owner := Some ''w''\<rparr>"

definition example_identity_db :: canonical_db where
  "example_identity_db = app_db.extend (action_db.extend (example_db\<lparr>
       repositories := [example_repo_row 1 ''r1'' ''a/old'', example_repo_row 2 ''r2'' ''a/b''],
       sync_jobs := [example_running_job]\<rparr>) (app_db.fields [] [])) (canonical_db.fields [] [])"

definition example_identity_claim :: job_claim where
  "example_identity_claim = \<lparr> cl_id = 80, cl_workspace_id = 2, cl_lease_owner = ''w'', cl_input = example_live_input,
     cl_requested_by = ''session'' \<rparr>"

definition example_identity_env :: norm_env where
  "example_identity_env = \<lparr> ne_sha = zero_sha, ne_local_zone = id, ne_now = 30, ne_source_id = length,
     ne_repository_id = length, ne_task_id = length, ne_pull_request_id = length, ne_event_id = (\<lambda>_ i. i) \<rparr>"

definition example_renamed_batch :: repository_batch where
  "example_renamed_batch = \<lparr> rb_full_name = ''a/b'', rb_observed_at = 10,
     rb_repository = [(''id'', PStr ''r1''), (''full_name'', PStr ''a/b''), (''name'', PStr ''b'')], rb_issues = [],
     rb_pull_requests = [], rb_skipped_pull_requests = 0 \<rparr>"

lemma example_identity_tables:
  "repositories example_identity_db = [example_repo_row 1 ''r1'' ''a/old'', example_repo_row 2 ''r2'' ''a/b'']"
  "sync_jobs example_identity_db = [example_running_job]" "source_records example_identity_db = []"
  by (simp_all add: example_identity_db_def app_db.defs action_db.defs canonical_db.defs)
     (code_simp)

lemma example_identity_names:
  "repository_external_id (build_normalized_repository (rb_repository example_renamed_batch)) = ''r1''"
  "stored_full_name (build_normalized_repository (rb_repository example_renamed_batch)) = ''a/b''"
  "completed_of example_running_job = []"
  by code_simp+

theorem renamed_repository_witness:
  "persist_repository_batch \<lparr> st_lease_seconds = 300, st_retry_base_seconds = 5 \<rparr> (github_normalizer example_identity_env (\<lambda>_ _. ([], []))) 20
     example_identity_claim example_prepared example_renamed_batch example_identity_db = (Inl UnexpectedStop, example_identity_db)"
proof (rule renamed_repository_blocks_its_batch)
  show "locked_claim_job example_identity_claim example_identity_db = Inr example_running_job"
    by (simp add: locked_claim_job_def claim_job_def example_identity_tables example_identity_claim_def example_running_job_def queued_job_def)
  show "request_mapping (sj_cursor_before example_running_job) = Inr []"
    by (simp add: request_mapping_def live_sync_request_def example_running_job_def queued_job_def py_get_def as_dict_def)
  show "two_identities (sj_workspace_id example_running_job) (build_normalized_repository (rb_repository example_renamed_batch))
      (example_repo_row 1 ''r1'' ''a/old'') (example_repo_row 2 ''r2'' ''a/b'') example_identity_db"
    by (simp add: two_identities_def example_identity_names example_identity_tables example_running_job_def queued_job_def)
       (simp add: example_repo_row_def blank_repository_def)
  show "casefold (rb_full_name example_renamed_batch) \<notin> casefold ` set (completed_of example_running_job)"
    by (simp add: example_identity_names)
qed (simp_all add: example_identity_tables example_running_job_def queued_job_def)

end
