(* ===== verification/World_Tables.thy ===== *)
theory World_Tables
  imports Canonical_Store Mailbox_Parsing
begin

text \<open>
  The Company World tables of \<^verbatim>\<open>app/db/company_world_models.py\<close>: people, organizations,
  affiliations, interactions and the terminal resolutions of candidates, as an extension of the
  canonical database. The constraints of a table are a predicate on a new row and the database;
  an insert that fails it is the error the flush raises.
\<close>

section \<open>Rows\<close>

datatype person_origin = MembershipOrigin | FounderConfirmation
datatype profile_status = ProfileActive | ProfileArchived

record person =
  pe_id :: uuid
  pe_workspace_id :: uuid
  pe_user_id :: "uuid option"
  pe_normalized_email :: string
  pe_display_name :: "string option"
  pe_origin :: person_origin
  pe_status :: profile_status
  pe_confirmed_by_user_id :: "uuid option"
  pe_confirmed_at :: "time option"

record organization =
  og_id :: uuid
  og_workspace_id :: uuid
  og_canonical_key :: string
  og_normalized_domain :: "string option"
  og_display_name :: string
  og_relationship_kind :: string
  og_status :: profile_status
  og_confirmed_by_user_id :: uuid
  og_confirmed_at :: time

record affiliation =
  af_id :: uuid
  af_workspace_id :: uuid
  af_person_id :: uuid
  af_organization_id :: uuid
  af_relationship_type :: string
  af_role_title :: "string option"
  af_source_record_id :: uuid
  af_confirmed_by_user_id :: uuid
  af_confirmed_at :: time
  af_status :: profile_status

record interaction =
  in_id :: uuid
  in_workspace_id :: uuid
  in_person_id :: uuid
  in_organization_id :: "uuid option"
  in_source_record_id :: uuid
  in_channel :: string
  in_direction :: string
  in_subject :: "string option"
  in_occurred_at :: time
  in_source_url :: "string option"

record resolution =
  rs_id :: uuid
  rs_workspace_id :: uuid
  rs_candidate_type :: string
  rs_candidate_key :: string
  rs_candidate_version :: string
  rs_decision :: string
  rs_idempotency_key :: string
  rs_request_hash :: string
  rs_actor_user_id :: uuid
  rs_source_record_id :: uuid
  rs_result_person_id :: "uuid option"
  rs_result_organization_id :: "uuid option"
  rs_result_affiliation_id :: "uuid option"
  rs_created_at :: time

record world_db = canonical_db +
  people :: "person list"
  organizations :: "organization list"
  affiliations :: "affiliation list"
  interactions :: "interaction list"
  resolutions :: "resolution list"

definition RELATIONSHIP_KINDS :: "string list" where
  "RELATIONSHIP_KINDS = [''unknown'', ''prospect'', ''customer'', ''partner'', ''vendor'', ''other'']"
definition RELATIONSHIP_TYPES :: "string list" where
  "RELATIONSHIP_TYPES = [''contact'', ''employee'', ''decision_maker'', ''account_owner'', ''advisor'', ''other'']"
definition INTERACTION_DIRECTIONS :: "string list" where
  "INTERACTION_DIRECTIONS = [''inbound'', ''outbound'', ''mixed'', ''unknown'']"

section \<open>Constraints\<close>

definition short_enough :: "nat \<Rightarrow> string option \<Rightarrow> bool" where
  "short_enough n x = (case x of None \<Rightarrow> True | Some t \<Rightarrow> length t \<le> n)"

text \<open>The foreign keys: a membership, a source record, a person, an organization of the workspace.\<close>

definition member_exists :: "uuid \<Rightarrow> uuid \<Rightarrow> 'z identity_db_scheme \<Rightarrow> bool" where
  "member_exists workspace_id user_id db \<longleftrightarrow>
     (workspace_id, user_id) \<in> (\<lambda>m. (m_workspace_id m, m_user_id m)) ` set (memberships db)"

definition source_exists :: "uuid \<Rightarrow> uuid \<Rightarrow> 'z ledger_db_scheme \<Rightarrow> bool" where
  "source_exists workspace_id record_id db \<longleftrightarrow>
     (workspace_id, record_id) \<in> (\<lambda>r. (sr_workspace_id r, sr_id r)) ` set (source_records db)"

definition person_exists :: "uuid \<Rightarrow> uuid \<Rightarrow> 'z world_db_scheme \<Rightarrow> bool" where
  "person_exists workspace_id person_id db \<longleftrightarrow>
     (workspace_id, person_id) \<in> (\<lambda>p. (pe_workspace_id p, pe_id p)) ` set (people db)"

definition organization_exists :: "uuid \<Rightarrow> uuid \<Rightarrow> 'z world_db_scheme \<Rightarrow> bool" where
  "organization_exists workspace_id organization_id db \<longleftrightarrow>
     (workspace_id, organization_id) \<in> (\<lambda>x. (og_workspace_id x, og_id x)) ` set (organizations db)"

definition optionally :: "('a \<Rightarrow> bool) \<Rightarrow> 'a option \<Rightarrow> bool" where
  "optionally P x = (case x of None \<Rightarrow> True | Some y \<Rightarrow> P y)"

lemma optionally_simps [simp]: "optionally P None" "optionally P (Some y) = P y"
  by (simp_all add: optionally_def)

definition person_key :: "person \<Rightarrow> uuid \<times> string" where
  "person_key p = (pe_workspace_id p, pe_normalized_email p)"

definition person_row_ok :: "person \<Rightarrow> 'z world_db_scheme \<Rightarrow> bool" where
  "person_row_ok p db \<longleftrightarrow>
     pe_id p \<notin> pe_id ` set (people db)
     \<and> person_key p \<notin> person_key ` set (people db)
     \<and> (case pe_user_id p of None \<Rightarrow> True
        | Some u \<Rightarrow> (pe_workspace_id p, Some u) \<notin> (\<lambda>x. (pe_workspace_id x, pe_user_id x)) ` set (people db))
     \<and> (pe_origin p = MembershipOrigin \<longrightarrow> pe_user_id p \<noteq> None)
     \<and> (pe_origin p = FounderConfirmation \<longrightarrow> pe_confirmed_by_user_id p \<noteq> None \<and> pe_confirmed_at p \<noteq> None)
     \<and> pe_workspace_id p \<in> w_id ` set (workspaces db)
     \<and> optionally (\<lambda>u. member_exists (pe_workspace_id p) u db) (pe_user_id p)
     \<and> optionally (\<lambda>u. member_exists (pe_workspace_id p) u db) (pe_confirmed_by_user_id p)
     \<and> length (pe_normalized_email p) \<le> 320 \<and> short_enough 255 (pe_display_name p)"

definition organization_key :: "organization \<Rightarrow> uuid \<times> string" where
  "organization_key x = (og_workspace_id x, og_canonical_key x)"

definition organization_row_ok :: "organization \<Rightarrow> 'z world_db_scheme \<Rightarrow> bool" where
  "organization_row_ok x db \<longleftrightarrow>
     og_id x \<notin> og_id ` set (organizations db)
     \<and> organization_key x \<notin> organization_key ` set (organizations db)
     \<and> (case og_normalized_domain x of None \<Rightarrow> True
        | Some d \<Rightarrow> (og_workspace_id x, Some d) \<notin> (\<lambda>y. (og_workspace_id y, og_normalized_domain y)) ` set (organizations db))
     \<and> og_relationship_kind x \<in> set RELATIONSHIP_KINDS
     \<and> og_workspace_id x \<in> w_id ` set (workspaces db)
     \<and> member_exists (og_workspace_id x) (og_confirmed_by_user_id x) db
     \<and> length (og_canonical_key x) \<le> 500 \<and> short_enough 253 (og_normalized_domain x)
     \<and> length (og_display_name x) \<le> 255"

definition affiliation_key :: "affiliation \<Rightarrow> uuid \<times> uuid \<times> uuid" where
  "affiliation_key x = (af_workspace_id x, af_person_id x, af_organization_id x)"

definition affiliation_row_ok :: "affiliation \<Rightarrow> 'z world_db_scheme \<Rightarrow> bool" where
  "affiliation_row_ok x db \<longleftrightarrow>
     af_id x \<notin> af_id ` set (affiliations db)
     \<and> affiliation_key x \<notin> affiliation_key ` set (affiliations db)
     \<and> af_relationship_type x \<in> set RELATIONSHIP_TYPES
     \<and> person_exists (af_workspace_id x) (af_person_id x) db
     \<and> organization_exists (af_workspace_id x) (af_organization_id x) db
     \<and> source_exists (af_workspace_id x) (af_source_record_id x) db
     \<and> member_exists (af_workspace_id x) (af_confirmed_by_user_id x) db
     \<and> short_enough 255 (af_role_title x)"

definition interaction_key :: "interaction \<Rightarrow> uuid \<times> uuid \<times> uuid" where
  "interaction_key x = (in_workspace_id x, in_source_record_id x, in_person_id x)"

definition interaction_row_ok :: "interaction \<Rightarrow> 'z world_db_scheme \<Rightarrow> bool" where
  "interaction_row_ok x db \<longleftrightarrow>
     in_id x \<notin> in_id ` set (interactions db)
     \<and> interaction_key x \<notin> interaction_key ` set (interactions db)
     \<and> in_channel x = ''email'' \<and> in_direction x \<in> set INTERACTION_DIRECTIONS
     \<and> person_exists (in_workspace_id x) (in_person_id x) db
     \<and> optionally (\<lambda>g. organization_exists (in_workspace_id x) g db) (in_organization_id x)
     \<and> source_exists (in_workspace_id x) (in_source_record_id x) db
     \<and> short_enough 500 (in_subject x) \<and> short_enough 1000 (in_source_url x)"

definition result_shape_ok :: "resolution \<Rightarrow> bool" where
  "result_shape_ok r \<longleftrightarrow>
     (rs_decision r = ''dismissed'' \<and> rs_result_person_id r = None \<and> rs_result_organization_id r = None
        \<and> rs_result_affiliation_id r = None)
     \<or> (rs_decision r = ''confirmed'' \<and> rs_candidate_type r = ''external_person'' \<and> rs_result_person_id r \<noteq> None
        \<and> (rs_result_affiliation_id r = None \<or> rs_result_organization_id r \<noteq> None))
     \<or> (rs_decision r = ''confirmed'' \<and> rs_candidate_type r = ''organization'' \<and> rs_result_organization_id r \<noteq> None
        \<and> rs_result_person_id r = None \<and> rs_result_affiliation_id r = None)"

definition resolution_candidate :: "resolution \<Rightarrow> uuid \<times> string \<times> string" where
  "resolution_candidate r = (rs_workspace_id r, rs_candidate_type r, rs_candidate_key r)"

definition resolution_idempotency :: "resolution \<Rightarrow> uuid \<times> string" where
  "resolution_idempotency r = (rs_workspace_id r, rs_idempotency_key r)"

text \<open>A composite foreign key with an absent part is not checked.\<close>

definition result_affiliation_ok :: "resolution \<Rightarrow> 'z world_db_scheme \<Rightarrow> bool" where
  "result_affiliation_ok r db =
     (case (rs_result_affiliation_id r, rs_result_person_id r, rs_result_organization_id r) of
        (Some a, Some p, Some g) \<Rightarrow> (rs_workspace_id r, a, p, g)
          \<in> (\<lambda>x. (af_workspace_id x, af_id x, af_person_id x, af_organization_id x)) ` set (affiliations db)
      | _ \<Rightarrow> True)"

definition resolution_row_ok :: "resolution \<Rightarrow> 'z world_db_scheme \<Rightarrow> bool" where
  "resolution_row_ok r db \<longleftrightarrow>
     rs_id r \<notin> rs_id ` set (resolutions db)
     \<and> resolution_idempotency r \<notin> resolution_idempotency ` set (resolutions db)
     \<and> resolution_candidate r \<notin> resolution_candidate ` set (resolutions db)
     \<and> rs_candidate_type r \<in> {''external_person'', ''organization''}
     \<and> length (rs_candidate_version r) = 64
     \<and> rs_decision r \<in> {''confirmed'', ''dismissed''}
     \<and> result_shape_ok r
     \<and> member_exists (rs_workspace_id r) (rs_actor_user_id r) db
     \<and> source_exists (rs_workspace_id r) (rs_source_record_id r) db
     \<and> optionally (\<lambda>p. person_exists (rs_workspace_id r) p db) (rs_result_person_id r)
     \<and> optionally (\<lambda>g. organization_exists (rs_workspace_id r) g db) (rs_result_organization_id r)
     \<and> result_affiliation_ok r db
     \<and> length (rs_candidate_key r) \<le> 500 \<and> length (rs_idempotency_key r) \<le> 255
     \<and> length (rs_request_hash r) \<le> 64"

section \<open>Errors and surroundings\<close>

text \<open>
  What the services raise: their own exceptions, \<^verbatim>\<open>ValueError\<close>, an error of the memory ledger, a
  row the database refuses.
\<close>

datatype world_error =
    CompanyWorldCandidateNotFoundError string
  | CompanyWorldResolutionConflictError string
  | CompanyWorldEvidenceError string
  | WorldValueError string
  | WorldMemoryError memory_error
  | WorldDatabaseError

text \<open>
  What a transaction does not compute: hashing, the clock, new identifiers (those of
  interactions by person and source record), and the label for messages without a subject, which is
  Cyrillic text and so not spelled in the characters of the model.
\<close>

record world_env =
  we_sha :: sha
  we_now :: time
  we_person_id :: uuid
  we_organization_id :: uuid
  we_affiliation_id :: uuid
  we_resolution_id :: uuid
  we_event_id :: uuid
  we_interaction_id :: "uuid \<Rightarrow> uuid \<Rightarrow> uuid"
  we_member_person_id :: "uuid \<Rightarrow> uuid"
  we_untitled :: string

section \<open>Inserts\<close>

definition insert_person :: "person \<Rightarrow> 'z world_db_scheme \<Rightarrow> (world_error, 'z world_db_scheme) result" where
  "insert_person p db = (if person_row_ok p db then Inr (db\<lparr>people := people db @ [p]\<rparr>) else Inl WorldDatabaseError)"

definition insert_organization ::
  "organization \<Rightarrow> 'z world_db_scheme \<Rightarrow> (world_error, 'z world_db_scheme) result" where
  "insert_organization x db =
     (if organization_row_ok x db then Inr (db\<lparr>organizations := organizations db @ [x]\<rparr>) else Inl WorldDatabaseError)"

definition insert_affiliation ::
  "affiliation \<Rightarrow> 'z world_db_scheme \<Rightarrow> (world_error, 'z world_db_scheme) result" where
  "insert_affiliation x db =
     (if affiliation_row_ok x db then Inr (db\<lparr>affiliations := affiliations db @ [x]\<rparr>) else Inl WorldDatabaseError)"

fun insert_interactions ::
  "interaction list \<Rightarrow> 'z world_db_scheme \<Rightarrow> (world_error, 'z world_db_scheme) result" where
  "insert_interactions [] db = Inr db"
| "insert_interactions (x # xs) db =
     (if interaction_row_ok x db then insert_interactions xs (db\<lparr>interactions := interactions db @ [x]\<rparr>)
      else Inl WorldDatabaseError)"

definition insert_resolution ::
  "resolution \<Rightarrow> 'z world_db_scheme \<Rightarrow> (world_error, 'z world_db_scheme) result" where
  "insert_resolution r db =
     (if resolution_row_ok r db then Inr (db\<lparr>resolutions := resolutions db @ [r]\<rparr>) else Inl WorldDatabaseError)"

text \<open>A further table of rows with distinct keys stays so when a row with a new key is added.\<close>

lemma distinct_snoc_key: "distinct (map f (xs @ [x])) \<longleftrightarrow> f x \<notin> f ` set xs \<and> distinct (map f xs)"
  by auto

end
