(* ===== verification/Company_Map.thy ===== *)
theory Company_Map
  imports World_Tables
begin

text \<open>
  The Company World projection, \<^verbatim>\<open>app/services/company_map_read_service.py\<close>: from the newest Gmail
  messages of a workspace to candidates for external people and organizations with their
  evidence and version, touchpoints, and the durable rows that hide candidates already resolved.
  The messages are those of \<^verbatim>\<open>build_workspace_company_brain\<close> in
  \<^verbatim>\<open>app/services/company_brain_github_read_service.py\<close>, the only part of the brain it reads.
\<close>

section \<open>Messages\<close>

record source_ref =
  ref_id :: string
  ref_kind :: string
  ref_source :: string
  ref_label :: string
  ref_url :: "string option"
  ref_record_type :: string
  ref_record_id :: uuid

record gmail_message =
  gm_source_record_id :: uuid
  gm_message_id :: string
  gm_thread_id :: "string option"
  gm_subject :: string
  gm_snippet :: "string option"
  gm_from_address :: "string option"
  gm_to_addresses :: "string list"
  gm_labels :: "string list"
  gm_unread :: bool
  gm_received_at :: "time option"
  gm_source_url :: "string option"
  gm_source_refs :: "source_ref list"

definition world_url :: "pyval \<Rightarrow> string option" where
  "world_url value = (case world_text value of None \<Rightarrow> None
     | Some t \<Rightarrow> if (is_prefix ''https://'' t \<or> is_prefix ''http://'' t) \<and> CHR ''@'' \<notin> set t
               then Some (take 1000 t) else None)"

definition safe_string_list :: "pyval \<Rightarrow> string list" where
  "safe_string_list value = (case value of
     PList vs \<Rightarrow> rev (remdups (rev (List.map_filter world_text (take 40 vs)))) | _ \<Rightarrow> [])"

definition or_else :: "'a option \<Rightarrow> 'a option \<Rightarrow> 'a option" where
  "or_else x y = (case x of Some v \<Rightarrow> Some v | None \<Rightarrow> y)"

definition normalize_source_ref :: "source_record \<Rightarrow> pyval \<Rightarrow> nat \<Rightarrow> source_ref option" where
  "normalize_source_ref r raw index = (case as_dict raw of None \<Rightarrow> None
     | Some d \<Rightarrow> (case or_else (world_text (py_get d ''ref'')) (world_text (py_get d ''label'')) of None \<Rightarrow> None
       | Some label \<Rightarrow> Some \<lparr> ref_id = uuid_str (sr_id r) @ '':'' @ show_nat index,
           ref_kind = or_text (world_text (py_get d ''kind'')) (sr_record_type r),
           ref_source = or_text (world_text (py_get d ''source'')) (sr_provider r),
           ref_label = label,
           ref_url = or_else (world_url (py_get d ''url'')) (world_url (opt_val PStr (sr_source_url r))),
           ref_record_type = sr_record_type r, ref_record_id = sr_id r \<rparr>))"

definition record_source_refs :: "source_record \<Rightarrow> source_ref list" where
  "record_source_refs r =
     (let raw_refs = (case py_get (sr_payload r) ''evidence_refs'' of PList vs \<Rightarrow> vs | _ \<Rightarrow> []);
          refs = List.map_filter (\<lambda>(i, raw). normalize_source_ref r raw i) (List.enumerate 0 (take 20 raw_refs)) in
      if refs \<noteq> [] then refs
      else [\<lparr> ref_id = uuid_str (sr_id r) @ '':source-record'', ref_kind = ''source_record'',
              ref_source = sr_provider r, ref_label = sr_external_id r,
              ref_url = world_url (opt_val PStr (sr_source_url r)),
              ref_record_type = sr_record_type r, ref_record_id = sr_id r \<rparr>])"

definition normalized_message :: "source_record \<Rightarrow> pydict" where
  "normalized_message r = (case as_dict (py_get (sr_payload r) ''normalized_message'') of Some d \<Rightarrow> d | None \<Rightarrow> [])"

definition gmail_message_payload :: "source_record \<Rightarrow> gmail_message" where
  "gmail_message_payload r =
     (let message = normalized_message r; labels = safe_string_list (py_get message ''labels'') in
      \<lparr> gm_source_record_id = sr_id r,
        gm_message_id = or_text (world_text (py_get message ''message_id'')) (sr_external_id r),
        gm_thread_id = world_text (py_get message ''thread_id''),
        gm_subject = or_text (world_text (py_get message ''subject'')) ''(no subject)'',
        gm_snippet = world_text (py_get message ''snippet''),
        gm_from_address = world_text (py_get message ''from_address''),
        gm_to_addresses = safe_string_list (py_get message ''to_addresses''),
        gm_labels = labels,
        gm_unread = (py_get message ''unread'' = PBool True \<or> ''unread'' \<in> casefold ` set labels),
        gm_received_at = sr_source_updated_at r,
        gm_source_url = or_else (world_url (py_get message ''source_url'')) (world_url (opt_val PStr (sr_source_url r))),
        gm_source_refs = record_source_refs r \<rparr>)"

definition is_gmail_message :: "uuid \<Rightarrow> source_record \<Rightarrow> bool" where
  "is_gmail_message workspace_id r \<longleftrightarrow> sr_workspace_id r = workspace_id \<and> sr_provider r = ''gmail''
     \<and> sr_record_type r = ''message'' \<and> \<not> sr_is_deleted r"

definition gmail_records :: "uuid \<Rightarrow> 'z ledger_db_scheme \<Rightarrow> source_record list" where
  "gmail_records workspace_id db = filter (is_gmail_message workspace_id) (source_records db)"

text \<open>\<^verbatim>\<open>sorted(xs, key=key, reverse=True)\<close>: descending, equal keys in their old order.\<close>

definition sort_descending :: "('a \<Rightarrow> 'b::linorder) \<Rightarrow> 'a list \<Rightarrow> 'a list" where
  "sort_descending key xs = rev (sort_key key (rev xs))"

text \<open>By time of the source, absent last, then creation, then identifier, all descending.\<close>

definition newest_first_key :: "source_record \<Rightarrow> (nat \<times> time) \<times> time \<times> uuid" where
  "newest_first_key r = (case sr_source_updated_at r of None \<Rightarrow> (0, 0) | Some t \<Rightarrow> (1, t),
     sr_created_at r, sr_id r)"

definition gmail_message_rows :: "uuid \<Rightarrow> nat \<Rightarrow> 'z ledger_db_scheme \<Rightarrow> gmail_message list" where
  "gmail_message_rows workspace_id limit db =
     map gmail_message_payload (take limit (sort_descending newest_first_key (gmail_records workspace_id db)))"

definition gmail_message_count :: "uuid \<Rightarrow> 'z ledger_db_scheme \<Rightarrow> nat" where
  "gmail_message_count workspace_id db = length (gmail_records workspace_id db)"

section \<open>Keys and texts\<close>

definition GENERIC_EMAIL_DOMAINS :: "string list" where
  "GENERIC_EMAIL_DOMAINS = [''gmail.com'', ''googlemail.com'', ''icloud.com'', ''me.com'', ''mac.com'',
     ''outlook.com'', ''hotmail.com'', ''live.com'', ''yahoo.com'', ''yandex.com'', ''yandex.ru'', ''mail.ru'',
     ''proton.me'', ''protonmail.com'']"

definition external_person_key :: "sha \<Rightarrow> string \<Rightarrow> string" where
  "external_person_key sha email = ''external-person:'' @ take 20 (sha (utf8 email))"

definition organization_key_for_email :: "string \<Rightarrow> string option" where
  "organization_key_for_email email =
     (let domain = casefold (after_last CHR ''@'' email) in
      if domain = [] \<or> domain \<in> set GENERIC_EMAIL_DOMAINS \<or> CHR ''.'' \<notin> set domain then None
      else Some (''organization:'' @ domain))"

definition message_direction :: "string option \<Rightarrow> string list \<Rightarrow> string set \<Rightarrow> string" where
  "message_direction sender_email recipient_emails internal_emails =
     (let sender_internal = (case sender_email of None \<Rightarrow> False | Some e \<Rightarrow> e \<noteq> [] \<and> e \<in> internal_emails);
          recipients_internal = (\<exists>e\<in>set recipient_emails. e \<in> internal_emails);
          recipients_external = (\<exists>e\<in>set recipient_emails. e \<notin> internal_emails) in
      if sender_internal \<and> recipients_internal \<and> recipients_external then ''mixed''
      else if sender_internal \<and> recipients_external then ''outbound''
      else if sender_email \<notin> {None, Some []} \<and> \<not> sender_internal \<and> recipients_internal then ''inbound''
      else ''unknown'')"

definition subject_or_fallback :: "string \<Rightarrow> pyval \<Rightarrow> string" where
  "subject_or_fallback untitled value = (case world_text value of None \<Rightarrow> untitled
     | Some t \<Rightarrow> if casefold t \<in> {''(no subject)'', ''no subject''} then untitled else t)"

definition latest_datetime :: "time option \<Rightarrow> time option \<Rightarrow> time option" where
  "latest_datetime left right = (case left of None \<Rightarrow> right
     | Some a \<Rightarrow> (case right of None \<Rightarrow> Some a | Some b \<Rightarrow> Some (max a b)))"

definition merge_source_refs :: "source_ref list \<Rightarrow> source_ref list \<Rightarrow> source_ref list" where
  "merge_source_refs existing incoming =
     foldl (\<lambda>merged ref. if ref_id ref \<in> ref_id ` set merged then merged else merged @ [ref]) existing incoming"

text \<open>\<^verbatim>\<open>datetime.min\<close> in UTC, which stands for an absent time when rows are sorted.\<close>

definition DATETIME_MIN :: time where "DATETIME_MIN = days (- 719162)"

definition time_or_min :: "time option \<Rightarrow> time" where
  "time_or_min x = (case x of Some t \<Rightarrow> t | None \<Rightarrow> DATETIME_MIN)"

section \<open>Candidates\<close>

record external_person =
  xp_key :: string
  xp_email :: string
  xp_display_name :: "string option"
  xp_organization_key :: "string option"
  xp_last_interaction_at :: "time option"
  xp_interaction_count :: int
  xp_source_refs :: "source_ref list"
  xp_candidate_version :: string

record external_organization =
  xo_key :: string
  xo_domain :: string
  xo_people :: "string list"
  xo_interaction_count :: int
  xo_last_interaction_at :: "time option"
  xo_source_refs :: "source_ref list"
  xo_candidate_version :: string

record touchpoint =
  tp_key :: string
  tp_source_record_id :: uuid
  tp_subject :: string
  tp_direction :: string
  tp_occurred_at :: "time option"
  tp_person_keys :: "string list"
  tp_organization_keys :: "string list"
  tp_source_url :: "string option"
  tp_source_refs :: "source_ref list"

record projection =
  pj_people :: "(string \<times> external_person) list"
  pj_organizations :: "(string \<times> external_organization) list"
  pj_touchpoints :: "touchpoint list"

definition gmail_refs :: "gmail_message \<Rightarrow> source_ref list" where
  "gmail_refs m = map (\<lambda>ref. ref\<lparr>ref_source := ''gmail''\<rparr>) (gm_source_refs m)"

definition message_sender :: "gmail_message \<Rightarrow> mailbox option" where
  "message_sender m = parse_mailbox (opt_val PStr (gm_from_address m))"

definition message_recipients :: "gmail_message \<Rightarrow> mailbox list" where
  "message_recipients m = mailboxes (PList (map PStr (gm_to_addresses m)))"

text \<open>\<^verbatim>\<open>[sender, *recipients]\<close> without an absent sender.\<close>

definition message_mailboxes :: "gmail_message \<Rightarrow> mailbox list" where
  "message_mailboxes m = (case message_sender m of None \<Rightarrow> [] | Some s \<Rightarrow> [s]) @ message_recipients m"

text \<open>\<^verbatim>\<open>participant_by_email\<close>: a dictionary, later mailboxes of one address replacing earlier ones.\<close>

definition participant_by_email :: "gmail_message \<Rightarrow> (string \<times> mailbox) list" where
  "participant_by_email m =
     foldl (\<lambda>d mailbox. AList.update (snd mailbox) mailbox d) [] (message_mailboxes m)"

definition external_mailboxes :: "(string \<times> string) list \<Rightarrow> gmail_message \<Rightarrow> mailbox list" where
  "external_mailboxes internal_keys m =
     map snd (filter (\<lambda>(email, _). map_of internal_keys email = None) (participant_by_email m))"

definition message_organization_keys :: "(string \<times> string) list \<Rightarrow> gmail_message \<Rightarrow> string list" where
  "message_organization_keys internal_keys m =
     sort (remdups (List.map_filter (\<lambda>(_, email). organization_key_for_email email) (external_mailboxes internal_keys m)))"

definition message_touchpoint :: "sha \<Rightarrow> string \<Rightarrow> (string \<times> string) list \<Rightarrow> gmail_message \<Rightarrow> touchpoint" where
  "message_touchpoint sha untitled internal_keys m =
     \<lparr> tp_key = ''touchpoint:'' @ uuid_str (gm_source_record_id m),
       tp_source_record_id = gm_source_record_id m,
       tp_subject = subject_or_fallback untitled (PStr (gm_subject m)),
       tp_direction = message_direction (map_option snd (message_sender m)) (map snd (message_recipients m))
         (fst ` set internal_keys),
       tp_occurred_at = gm_received_at m,
       tp_person_keys = map (\<lambda>email. case map_of internal_keys email of Some k \<Rightarrow> k
         | None \<Rightarrow> external_person_key sha email) (sort (map fst (participant_by_email m))),
       tp_organization_keys = message_organization_keys internal_keys m,
       tp_source_url = world_url (opt_val PStr (gm_source_url m)),
       tp_source_refs = gmail_refs m \<rparr>"

definition touched_person :: "sha \<Rightarrow> gmail_message \<Rightarrow> mailbox \<Rightarrow> external_person option \<Rightarrow> external_person" where
  "touched_person sha m mailbox old =
     (let (display_name, email) = mailbox;
          person = (case old of Some p \<Rightarrow> p
            | None \<Rightarrow> \<lparr> xp_key = external_person_key sha email, xp_email = email, xp_display_name = display_name,
                xp_organization_key = organization_key_for_email email, xp_last_interaction_at = gm_received_at m,
                xp_interaction_count = 0, xp_source_refs = [], xp_candidate_version = [] \<rparr>) in
      person\<lparr>xp_display_name := or_else (xp_display_name person) display_name,
         xp_interaction_count := xp_interaction_count person + 1,
         xp_last_interaction_at := latest_datetime (xp_last_interaction_at person) (gm_received_at m),
         xp_source_refs := merge_source_refs (xp_source_refs person) (gmail_refs m)\<rparr>)"

definition add_external_person ::
  "sha \<Rightarrow> gmail_message \<Rightarrow> (string \<times> external_person) list \<Rightarrow> mailbox \<Rightarrow> (string \<times> external_person) list" where
  "add_external_person sha m rows mailbox =
     AList.update (snd mailbox) (touched_person sha m mailbox (map_of rows (snd mailbox))) rows"

definition organization_domain :: "string \<Rightarrow> string" where
  "organization_domain key = (if is_prefix ''organization:'' key then drop 13 key else key)"

definition add_external_organization ::
  "(string \<times> string) list \<Rightarrow> gmail_message \<Rightarrow> (string \<times> external_organization) list \<Rightarrow> string
     \<Rightarrow> (string \<times> external_organization) list" where
  "add_external_organization internal_keys m rows key =
     (let organization = (case map_of rows key of Some g \<Rightarrow> g
            | None \<Rightarrow> \<lparr> xo_key = key, xo_domain = organization_domain key, xo_people = [], xo_interaction_count = 0,
                xo_last_interaction_at = gm_received_at m, xo_source_refs = [], xo_candidate_version = [] \<rparr>) in
      AList.update key
        (organization\<lparr>xo_people := List.union (xo_people organization)
             (filter (\<lambda>email. organization_key_for_email email = Some key) (map snd (external_mailboxes internal_keys m))),
           xo_interaction_count := xo_interaction_count organization + 1,
           xo_last_interaction_at := latest_datetime (xo_last_interaction_at organization) (gm_received_at m),
           xo_source_refs := merge_source_refs (xo_source_refs organization) (gmail_refs m)\<rparr>) rows)"

definition project_message :: "sha \<Rightarrow> string \<Rightarrow> (string \<times> string) list \<Rightarrow> projection \<Rightarrow> gmail_message \<Rightarrow> projection" where
  "project_message sha untitled internal_keys pj m =
     \<lparr> pj_people = foldl (add_external_person sha m) (pj_people pj) (external_mailboxes internal_keys m),
       pj_organizations = foldl (add_external_organization internal_keys m) (pj_organizations pj)
         (message_organization_keys internal_keys m),
       pj_touchpoints = pj_touchpoints pj @ [message_touchpoint sha untitled internal_keys m] \<rparr>"

definition project_messages :: "sha \<Rightarrow> string \<Rightarrow> (string \<times> string) list \<Rightarrow> gmail_message list \<Rightarrow> projection" where
  "project_messages sha untitled internal_keys messages =
     foldl (project_message sha untitled internal_keys)
       \<lparr> pj_people = [], pj_organizations = [], pj_touchpoints = [] \<rparr> messages"

section \<open>Versions\<close>

definition evidence_ids :: "source_ref list \<Rightarrow> uuid list" where
  "evidence_ids refs = sort_key uuid_str (remdups (map ref_record_id refs))"

definition candidate_payload_hashes :: "uuid \<Rightarrow> uuid set \<Rightarrow> 'z ledger_db_scheme \<Rightarrow> (uuid \<times> string) list" where
  "candidate_payload_hashes workspace_id record_ids db =
     map (\<lambda>r. (sr_id r, sr_payload_hash r)) (filter (\<lambda>r. sr_id r \<in> record_ids) (gmail_records workspace_id db))"

definition version_opts :: json_opts where
  "version_opts = \<lparr> sort_keys = True, compact = True, ensure_ascii = False, allow_nan = True,
     default_text = (\<lambda>_. None) \<rparr>"

definition json_sha :: "sha \<Rightarrow> pydict \<Rightarrow> string" where
  "json_sha sha shown = sha (utf8 (case dumps version_opts (PDict shown) of Some t \<Rightarrow> t | None \<Rightarrow> []))"

definition version_fields :: "pydict \<Rightarrow> source_ref list \<Rightarrow> (uuid \<times> string) list \<Rightarrow> pydict" where
  "version_fields candidate refs payload_hashes =
     map (\<lambda>field. (field, py_get candidate field)) [''key'', ''email'', ''display_name'', ''organization_key'', ''domain'',
       ''name'', ''kind'', ''people_count'', ''interaction_count'', ''last_interaction_at'']
     @ [(''source_records'', PList (map (\<lambda>i. PDict [(''id'', PStr (uuid_str i)),
         (''payload_hash'', PStr (case map_of payload_hashes i of Some h \<Rightarrow> h | None \<Rightarrow> []))]) (evidence_ids refs)))]"

definition iso_value :: "time option \<Rightarrow> pyval" where
  "iso_value x = opt_val (\<lambda>t. PStr (isoformat ''T'' t)) x"

definition person_version :: "sha \<Rightarrow> (uuid \<times> string) list \<Rightarrow> external_person \<Rightarrow> string" where
  "person_version sha payload_hashes p = json_sha sha (version_fields
     [(''key'', PStr (xp_key p)), (''email'', PStr (xp_email p)), (''display_name'', opt_val PStr (xp_display_name p)),
      (''organization_key'', opt_val PStr (xp_organization_key p)), (''interaction_count'', PInt (xp_interaction_count p)),
      (''last_interaction_at'', iso_value (xp_last_interaction_at p))] (xp_source_refs p) payload_hashes)"

definition organization_version :: "sha \<Rightarrow> (uuid \<times> string) list \<Rightarrow> external_organization \<Rightarrow> string" where
  "organization_version sha payload_hashes g = json_sha sha (version_fields
     [(''key'', PStr (xo_key g)), (''domain'', PStr (xo_domain g)), (''name'', PNone), (''kind'', PStr ''external_candidate''),
      (''people_count'', PInt (int (length (xo_people g)))), (''interaction_count'', PInt (xo_interaction_count g)),
      (''last_interaction_at'', iso_value (xo_last_interaction_at g))] (xo_source_refs g) payload_hashes)"

end
