(* ===== verification/Company_Projection.thy ===== *)
theory Company_Projection
  imports Company_Map
begin

text \<open>
  \<^verbatim>\<open>build_workspace_company_map\<close>: the projection of the messages together with the members of the
  workspace and the durable rows. The texts of the warnings are Cyrillic; here a warning is a
  constructor.
\<close>

section \<open>Durable rows\<close>

record confirmed_person =
  cp_key :: string
  cp_person_id :: uuid
  cp_email :: string
  cp_display_name :: "string option"
  cp_status :: profile_status
  cp_organization_id :: "uuid option"
  cp_organization_key :: "string option"
  cp_organization_name :: "string option"
  cp_relationship_type :: "string option"
  cp_role_title :: "string option"
  cp_interaction_count :: nat
  cp_last_interaction_at :: "time option"
  cp_source_refs :: "source_ref list"

record confirmed_organization =
  cg_key :: string
  cg_organization_id :: uuid
  cg_domain :: "string option"
  cg_name :: string
  cg_relationship_kind :: string
  cg_status :: profile_status
  cg_people_count :: nat
  cg_interaction_count :: nat
  cg_last_interaction_at :: "time option"
  cg_source_refs :: "source_ref list"

record durable_rows =
  dr_confirmed_people :: "confirmed_person list"
  dr_confirmed_organizations :: "confirmed_organization list"
  dr_resolved_candidates :: "(string \<times> string) set"
  dr_confirmed_person_keys :: "string set"
  dr_confirmed_organization_keys :: "string set"
  dr_person_ids_by_user_id :: "(uuid \<times> uuid) list"
  dr_person_key_map :: "(string \<times> string) list"
  dr_organization_key_map :: "(string \<times> string) list"

definition empty_durable_rows :: durable_rows where
  "empty_durable_rows = \<lparr> dr_confirmed_people = [], dr_confirmed_organizations = [], dr_resolved_candidates = {},
     dr_confirmed_person_keys = {}, dr_confirmed_organization_keys = {}, dr_person_ids_by_user_id = [],
     dr_person_key_map = [], dr_organization_key_map = [] \<rparr>"

text \<open>A dictionary built from rows: of several rows with one key the last wins.\<close>

definition dict_by :: "('r \<Rightarrow> 'k option) \<Rightarrow> 'r list \<Rightarrow> ('k \<times> 'r) list" where
  "dict_by key rows = foldl (\<lambda>d r. case key r of None \<Rightarrow> d | Some k \<Rightarrow> AList.update k r d) [] rows"

definition latest_interaction_at :: "interaction list \<Rightarrow> time option" where
  "latest_interaction_at xs = (if xs = [] then None else Some (foldr max (map in_occurred_at xs) (in_occurred_at (hd xs))))"

definition durable_source_refs :: "interaction list \<Rightarrow> resolution option \<Rightarrow> string \<Rightarrow> source_ref list" where
  "durable_source_refs xs r fallback_label =
     (let ref = (\<lambda>label url i. \<lparr> ref_id = ''source-record:'' @ uuid_str i, ref_kind = ''gmail_message'',
            ref_source = ''gmail'', ref_label = label, ref_url = url, ref_record_type = ''message'', ref_record_id = i \<rparr>);
          refs = foldl (\<lambda>refs x. if in_source_record_id x \<in> ref_record_id ` set refs then refs
              else refs @ [ref (case in_subject x of None \<Rightarrow> fallback_label | Some [] \<Rightarrow> fallback_label | Some t \<Rightarrow> t)
                (in_source_url x) (in_source_record_id x)]) []
            (sort_descending in_occurred_at xs) in
      case r of None \<Rightarrow> refs
      | Some r \<Rightarrow> if rs_source_record_id r \<in> ref_record_id ` set refs then refs
          else refs @ [ref fallback_label None (rs_source_record_id r)])"

definition active_people :: "uuid \<Rightarrow> 'z world_db_scheme \<Rightarrow> person list" where
  "active_people workspace_id db =
     filter (\<lambda>p. pe_workspace_id p = workspace_id \<and> pe_status p = ProfileActive) (people db)"

definition active_organizations :: "uuid \<Rightarrow> 'z world_db_scheme \<Rightarrow> organization list" where
  "active_organizations workspace_id db =
     filter (\<lambda>x. og_workspace_id x = workspace_id \<and> og_status x = ProfileActive) (organizations db)"

definition workspace_resolutions :: "uuid \<Rightarrow> 'z world_db_scheme \<Rightarrow> resolution list" where
  "workspace_resolutions workspace_id db = filter (\<lambda>r. rs_workspace_id r = workspace_id) (resolutions db)"

definition is_confirmed_external :: "person \<Rightarrow> bool" where
  "is_confirmed_external p \<longleftrightarrow> pe_origin p = FounderConfirmation \<and> pe_user_id p = None"

definition person_durable_key :: "uuid \<Rightarrow> string" where
  "person_durable_key i = ''person:'' @ uuid_str i"

definition organization_durable_key :: "uuid \<Rightarrow> string" where
  "organization_durable_key i = ''organization:'' @ uuid_str i"

definition confirmed_person_row ::
  "(uuid \<times> affiliation) list \<Rightarrow> (uuid \<times> organization) list \<Rightarrow> interaction list \<Rightarrow> resolution option \<Rightarrow> person
     \<Rightarrow> confirmed_person" where
  "confirmed_person_row affiliations_by_person organizations_by_id xs r p =
     (let a = map_of affiliations_by_person (pe_id p);
          g = (case a of None \<Rightarrow> None | Some a \<Rightarrow> map_of organizations_by_id (af_organization_id a)) in
      \<lparr> cp_key = person_durable_key (pe_id p), cp_person_id = pe_id p, cp_email = pe_normalized_email p,
        cp_display_name = pe_display_name p, cp_status = pe_status p,
        cp_organization_id = map_option og_id g,
        cp_organization_key = map_option (\<lambda>x. organization_durable_key (og_id x)) g,
        cp_organization_name = map_option og_display_name g,
        cp_relationship_type = map_option af_relationship_type a,
        cp_role_title = (case a of None \<Rightarrow> None | Some a \<Rightarrow> af_role_title a),
        cp_interaction_count = length xs, cp_last_interaction_at = latest_interaction_at xs,
        cp_source_refs = durable_source_refs xs r
          (case pe_display_name p of None \<Rightarrow> pe_normalized_email p | Some [] \<Rightarrow> pe_normalized_email p | Some n \<Rightarrow> n) \<rparr>)"

definition confirmed_organization_row ::
  "affiliation list \<Rightarrow> interaction list \<Rightarrow> resolution option \<Rightarrow> organization \<Rightarrow> confirmed_organization" where
  "confirmed_organization_row affs xs r x =
     \<lparr> cg_key = organization_durable_key (og_id x), cg_organization_id = og_id x, cg_domain = og_normalized_domain x,
       cg_name = og_display_name x, cg_relationship_kind = og_relationship_kind x, cg_status = og_status x,
       cg_people_count = length (remdups (map af_person_id (filter (\<lambda>a. af_organization_id a = og_id x) affs))),
       cg_interaction_count = length xs, cg_last_interaction_at = latest_interaction_at xs,
       cg_source_refs = durable_source_refs xs r (og_display_name x) \<rparr>"

definition durable_company_world_rows :: "uuid \<Rightarrow> 'z world_db_scheme \<Rightarrow> durable_rows" where
  "durable_company_world_rows workspace_id db =
     (let ps = active_people workspace_id db;
          gs = active_organizations workspace_id db;
          affs = filter (\<lambda>a. af_workspace_id a = workspace_id \<and> af_status a = ProfileActive) (affiliations db);
          xs = filter (\<lambda>x. in_workspace_id x = workspace_id) (interactions db);
          rs = workspace_resolutions workspace_id db;
          resolutions_by_person = dict_by rs_result_person_id rs;
          resolutions_by_organization = dict_by rs_result_organization_id rs;
          external = filter is_confirmed_external ps;
          person_key_map = foldl (\<lambda>d p. case map_of resolutions_by_person (pe_id p) of None \<Rightarrow> d
            | Some r \<Rightarrow> AList.update (rs_candidate_key r) (person_durable_key (pe_id p)) d) [] external;
          organization_key_map = foldl (\<lambda>d x.
            let d1 = AList.update (og_canonical_key x) (organization_durable_key (og_id x)) d in
            case map_of resolutions_by_organization (og_id x) of None \<Rightarrow> d1
            | Some r \<Rightarrow> if rs_candidate_type r = ''organization''
                then AList.update (rs_candidate_key r) (organization_durable_key (og_id x)) d1 else d1) [] gs in
      \<lparr> dr_confirmed_people = sort_descending (\<lambda>row. (time_or_min (cp_last_interaction_at row), cp_email row))
          (map (\<lambda>p. confirmed_person_row (dict_by (Some \<circ> af_person_id) affs) (dict_by (Some \<circ> og_id) gs)
             (filter (\<lambda>x. in_person_id x = pe_id p) xs) (map_of resolutions_by_person (pe_id p)) p) external),
        dr_confirmed_organizations = sort_descending (\<lambda>row. (time_or_min (cg_last_interaction_at row), cg_name row))
          (map (\<lambda>x. confirmed_organization_row affs (filter (\<lambda>y. in_organization_id y = Some (og_id x)) xs)
             (map_of resolutions_by_organization (og_id x)) x) gs),
        dr_resolved_candidates = (\<lambda>r. (rs_candidate_type r, rs_candidate_key r)) ` set rs,
        dr_confirmed_person_keys = fst ` set person_key_map,
        dr_confirmed_organization_keys = og_canonical_key ` set gs,
        dr_person_ids_by_user_id = map (\<lambda>(u, p). (u, pe_id p)) (dict_by pe_user_id ps),
        dr_person_key_map = person_key_map,
        dr_organization_key_map = organization_key_map \<rparr>)"

definition resolution_only_rows :: "uuid \<Rightarrow> string set \<Rightarrow> string set \<Rightarrow> 'z world_db_scheme \<Rightarrow> durable_rows" where
  "resolution_only_rows workspace_id person_keys organization_keys db =
     (let pairs = Pair ''external_person'' ` person_keys \<union> Pair ''organization'' ` organization_keys in
      if pairs = {} then empty_durable_rows
      else empty_durable_rows\<lparr>
        dr_resolved_candidates :=
          (\<lambda>r. (rs_candidate_type r, rs_candidate_key r)) ` set (workspace_resolutions workspace_id db) \<inter> pairs,
        dr_confirmed_organization_keys :=
          og_canonical_key ` set (active_organizations workspace_id db) \<inter> organization_keys\<rparr>)"

section \<open>The map\<close>

record internal_person =
  ip_key :: string
  ip_person_id :: "uuid option"
  ip_user :: user
  ip_role :: string
  ip_source_refs :: "source_ref list"

datatype map_warning = NoMessages | WindowOnly | CandidatesOnly

record company_map =
  cm_workspace :: workspace
  cm_internal :: "internal_person list"
  cm_external_candidates :: "external_person list"
  cm_confirmed_external :: "confirmed_person list"
  cm_organizations :: "external_organization list"
  cm_confirmed_organizations :: "confirmed_organization list"
  cm_touchpoints :: "touchpoint list"
  cm_messages_available :: nat
  cm_messages_considered :: nat
  cm_message_limit :: nat
  cm_truncated :: bool
  cm_can_resolve :: bool
  cm_warnings :: "map_warning list"

definition RESOLUTION_ONLY_MESSAGE_LIMIT :: nat where "RESOLUTION_ONLY_MESSAGE_LIMIT = 100"

definition message_participant_emails :: "gmail_message list \<Rightarrow> string set" where
  "message_participant_emails messages = (\<Union>m\<in>set messages. snd ` set (message_mailboxes m))"

definition matching_active_members ::
  "uuid \<Rightarrow> string set \<Rightarrow> 'z identity_db_scheme \<Rightarrow> (user \<times> workspace \<times> membership) list" where
  "matching_active_members workspace_id participant_emails db =
     sort_key (\<lambda>(u, w, m). (m_created_at m, u_email u))
       (filter (\<lambda>(u, w, m). w_id w = workspace_id \<and> u_status u = UserActive \<and> u_email u \<in> participant_emails)
         (joined_memberships db))"

definition user_key :: "uuid \<Rightarrow> string" where "user_key i = ''user:'' @ uuid_str i"

definition internal_person_row :: "user \<times> workspace \<times> membership \<Rightarrow> internal_person" where
  "internal_person_row = (\<lambda>(u, w, m).
     \<lparr> ip_key = user_key (u_id u), ip_person_id = None, ip_user = u, ip_role = m_role m,
       ip_source_refs = [\<lparr> ref_id = ''membership:'' @ uuid_str (m_id m), ref_kind = ''workspace_membership'',
         ref_source = ''founderos'', ref_label = m_role m, ref_url = None, ref_record_type = ''membership'',
         ref_record_id = m_id m \<rparr>] \<rparr>)"

definition internal_key_map :: "(user \<times> workspace \<times> membership) list \<Rightarrow> (string \<times> string) list" where
  "internal_key_map members =
     foldl (\<lambda>d (u, w, m). AList.update (fold_email (u_email u)) (user_key (u_id u)) d) [] members"

text \<open>The candidates with their versions, before the durable rows hide some.\<close>

definition versioned_people :: "sha \<Rightarrow> (uuid \<times> string) list \<Rightarrow> projection \<Rightarrow> external_person list" where
  "versioned_people sha payload_hashes pj =
     map (\<lambda>p. p\<lparr>xp_candidate_version := person_version sha payload_hashes p\<rparr>)
       (sort_descending (\<lambda>p. (time_or_min (xp_last_interaction_at p), xp_email p)) (map snd (pj_people pj)))"

definition versioned_organizations :: "sha \<Rightarrow> (uuid \<times> string) list \<Rightarrow> projection \<Rightarrow> external_organization list" where
  "versioned_organizations sha payload_hashes pj =
     sort_descending (\<lambda>g. (time_or_min (xo_last_interaction_at g), xo_domain g))
       (map (\<lambda>g. g\<lparr>xo_candidate_version := organization_version sha payload_hashes g\<rparr>) (map snd (pj_organizations pj)))"

definition projection_record_ids :: "projection \<Rightarrow> uuid set" where
  "projection_record_ids pj =
     ref_record_id ` (\<Union> ((set \<circ> xp_source_refs) ` set (map snd (pj_people pj)))
       \<union> \<Union> ((set \<circ> xo_source_refs) ` set (map snd (pj_organizations pj))))"

definition rename_keys :: "(string \<times> string) list \<Rightarrow> string list \<Rightarrow> string list" where
  "rename_keys d ks = map (\<lambda>k. case map_of d k of Some k' \<Rightarrow> k' | None \<Rightarrow> k) ks"

record map_request =
  mq_limit :: nat
  mq_include_durable :: bool
  mq_resolution_only :: bool
  mq_access_role :: "string option"

definition build_workspace_company_map ::
  "world_env \<Rightarrow> uuid \<Rightarrow> map_request \<Rightarrow> 'z world_db_scheme \<Rightarrow> (world_error, company_map) result" where
  "build_workspace_company_map e workspace_id q db =
     bindE (require_some (find (\<lambda>w. w_id w = workspace_id) (workspaces db)) (WorldValueError ''workspace not found'')) (\<lambda>workspace.
     let message_limit = (if mq_resolution_only q then min (mq_limit q) RESOLUTION_ONLY_MESSAGE_LIMIT else mq_limit q);
         messages = gmail_message_rows workspace_id message_limit db;
         members = (if mq_resolution_only q
           then matching_active_members workspace_id (message_participant_emails messages) db
           else list_workspace_members workspace_id db);
         available = gmail_message_count workspace_id db;
         pj = project_messages (we_sha e) (we_untitled e) (internal_key_map members) messages;
         payload_hashes = candidate_payload_hashes workspace_id (projection_record_ids pj) db;
         external_rows = versioned_people (we_sha e) payload_hashes pj;
         organization_rows = versioned_organizations (we_sha e) payload_hashes pj;
         touchpoints = sort_descending (\<lambda>t. time_or_min (tp_occurred_at t)) (pj_touchpoints pj);
         durable = (if mq_resolution_only q
             then resolution_only_rows workspace_id (xp_key ` set external_rows) (xo_key ` set organization_rows) db
           else if mq_include_durable q then durable_company_world_rows workspace_id db
           else empty_durable_rows);
         external_left = filter (\<lambda>p. (''external_person'', xp_key p) \<notin> dr_resolved_candidates durable
           \<and> xp_key p \<notin> dr_confirmed_person_keys durable) external_rows;
         organizations_left = filter (\<lambda>g. (''organization'', xo_key g) \<notin> dr_resolved_candidates durable
           \<and> xo_key g \<notin> dr_confirmed_organization_keys durable) organization_rows
     in Inr \<lparr> cm_workspace = workspace,
          cm_internal = map (\<lambda>p. p\<lparr>ip_person_id := map_of (dr_person_ids_by_user_id durable) (u_id (ip_user p))\<rparr>)
            (map internal_person_row members),
          cm_external_candidates = external_left,
          cm_confirmed_external = dr_confirmed_people durable,
          cm_organizations = organizations_left,
          cm_confirmed_organizations = dr_confirmed_organizations durable,
          cm_touchpoints = map (\<lambda>t. t\<lparr>tp_person_keys := rename_keys (dr_person_key_map durable) (tp_person_keys t),
            tp_organization_keys := rename_keys (dr_organization_key_map durable) (tp_organization_keys t)\<rparr>) touchpoints,
          cm_messages_available = available,
          cm_messages_considered = length messages,
          cm_message_limit = message_limit,
          cm_truncated = (length messages < available),
          cm_can_resolve = (mq_access_role q \<in> {Some ''owner'', Some ''admin'', Some ''member''}),
          cm_warnings = (if messages = [] then [NoMessages] else [])
            @ (if length messages < available then [WindowOnly] else [])
            @ (if external_left \<noteq> [] then [CandidatesOnly] else []) \<rparr>)"

end
