(* ===== verification/Company_Confirmation.thy ===== *)
theory Company_Confirmation
  imports Company_Projection
begin

text \<open>
  The resolution of Company World candidates, \<^verbatim>\<open>app/services/company_world_confirmation_service.py\<close>
  with its route in \<^verbatim>\<open>app/api/company_map.py\<close>, and the backfill of
  \<^verbatim>\<open>app/services/company_world_backfill_service.py\<close>.

  An advisory lock serialises the writers of one workspace's Company World, so the tables of
  Company World are the same from the lock to the commit. Source records and members are not
  covered by it: the first reading of the candidate sees a state \<open>seen\<close> of its own, before the
  evidence records are locked; from then on the transaction is one step on \<open>db\<close>.
\<close>

section \<open>Memory events of resolutions\<close>

definition resolution_event_type :: "string \<Rightarrow> string option" where
  "resolution_event_type decision =
     map_of [(''confirmed'', ''company_world_confirmed''), (''dismissed'', ''company_world_dismissed'')] decision"

definition resolution_event_args :: "uuid \<Rightarrow> time \<Rightarrow> string \<Rightarrow> resolution \<Rightarrow> memory_args" where
  "resolution_event_args new_id now event_type r =
     \<lparr> ma_new_id = new_id, ma_observed_at = now, ma_workspace_id = rs_workspace_id r, ma_event_type = event_type,
       ma_subject_type = rs_candidate_type r @ ''_candidate'', ma_subject_key = rs_candidate_version r,
       ma_subject_id = rs_id r, ma_source_key = ''gmail'', ma_actor_user_id = Some (rs_actor_user_id r),
       ma_primary_source_record_id = Some (rs_source_record_id r),
       ma_evidence_refs = [(''company_world_resolution'', rs_id r), (''source_record'', rs_source_record_id r)],
       ma_occurred_at = Some (rs_created_at r),
       ma_idempotency_material = [(''event_type'', PStr event_type), (''resolution_id'', PUuid (rs_id r)),
         (''workspace_id'', PUuid (rs_workspace_id r))] \<rparr>"

definition append_company_world_resolution_memory_event ::
  "sha \<Rightarrow> uuid \<Rightarrow> time \<Rightarrow> resolution \<Rightarrow> 'z ledger_db_scheme \<Rightarrow>
     (memory_error, memory_event \<times> 'z ledger_db_scheme) result" where
  "append_company_world_resolution_memory_event sha new_id now r db =
     bindE (require_some (resolution_event_type (rs_decision r))
       (MemoryValueError ''unsupported company world resolution decision'')) (\<lambda>event_type.
     append_company_memory_event sha (resolution_event_args new_id now event_type r) db db)"

section \<open>Commands and receipts\<close>

record resolve_command =
  rc_candidate_type :: string
  rc_candidate_key :: string
  rc_candidate_version :: string
  rc_decision :: string
  rc_idempotency_key :: string
  rc_display_name :: "string option"
  rc_organization_name :: "string option"
  rc_relationship_type :: "string option"
  rc_organization_relationship_kind :: "string option"
  rc_role_title :: "string option"

record resolution_receipt =
  rr_resolution :: resolution
  rr_person_id :: "uuid option"
  rr_organization_id :: "uuid option"
  rr_affiliation_id :: "uuid option"
  rr_interaction_count :: nat
  rr_replayed :: bool

definition command_hash :: "sha \<Rightarrow> resolve_command \<Rightarrow> string" where
  "command_hash sha c = json_sha sha
     [(''candidate_type'', PStr (rc_candidate_type c)), (''candidate_key'', PStr (rc_candidate_key c)),
      (''candidate_version'', PStr (rc_candidate_version c)), (''decision'', PStr (rc_decision c)),
      (''display_name'', opt_val PStr (rc_display_name c)), (''organization_name'', opt_val PStr (rc_organization_name c)),
      (''relationship_type'', opt_val PStr (rc_relationship_type c)),
      (''organization_relationship_kind'', opt_val PStr (rc_organization_relationship_kind c)),
      (''role_title'', opt_val PStr (rc_role_title c))]"

definition receipt_for_resolution :: "resolution \<Rightarrow> bool \<Rightarrow> 'z world_db_scheme \<Rightarrow> resolution_receipt" where
  "receipt_for_resolution r replayed db =
     \<lparr> rr_resolution = r, rr_person_id = rs_result_person_id r, rr_organization_id = rs_result_organization_id r,
       rr_affiliation_id = rs_result_affiliation_id r,
       rr_interaction_count = (case rs_result_person_id r of None \<Rightarrow> 0
         | Some p \<Rightarrow> length (filter (\<lambda>x. in_workspace_id x = rs_workspace_id r \<and> in_person_id x = p) (interactions db))),
       rr_replayed = replayed \<rparr>"

section \<open>Candidates and their evidence\<close>

datatype candidate = PersonCandidate external_person | OrganizationCandidate external_organization

definition candidate_version_of :: "candidate \<Rightarrow> string" where
  "candidate_version_of c = (case c of PersonCandidate p \<Rightarrow> xp_candidate_version p
     | OrganizationCandidate g \<Rightarrow> xo_candidate_version g)"

definition candidate_evidence :: "candidate \<Rightarrow> uuid list" where
  "candidate_evidence c = evidence_ids (case c of PersonCandidate p \<Rightarrow> xp_source_refs p
     | OrganizationCandidate g \<Rightarrow> xo_source_refs g)"

definition candidate_not_found :: world_error where
  "candidate_not_found = CompanyWorldCandidateNotFoundError ''candidate not found''"

definition candidate_changed :: world_error where
  "candidate_changed = CompanyWorldResolutionConflictError ''candidate changed; refresh Company World before resolving it''"

definition resolve_candidate ::
  "world_env \<Rightarrow> uuid \<Rightarrow> string \<Rightarrow> string \<Rightarrow> 'z world_db_scheme \<Rightarrow> (world_error, candidate) result" where
  "resolve_candidate e workspace_id candidate_type candidate_key db =
     bindE (build_workspace_company_map e workspace_id
       \<lparr> mq_limit = 100, mq_include_durable = False, mq_resolution_only = False, mq_access_role = None \<rparr> db) (\<lambda>cm.
     if candidate_type = ''external_person'' then
       require_some (map_option PersonCandidate
         (find (\<lambda>p. xp_key p = candidate_key) (cm_external_candidates cm))) candidate_not_found
     else if candidate_type = ''organization'' then
       require_some (map_option OrganizationCandidate
         (find (\<lambda>g. xo_key g = candidate_key) (cm_organizations cm))) candidate_not_found
     else Inl candidate_not_found)"

definition lock_candidate_evidence ::
  "uuid \<Rightarrow> candidate \<Rightarrow> 'z ledger_db_scheme \<Rightarrow> (world_error, source_record list) result" where
  "lock_candidate_evidence workspace_id c db =
     (let record_ids = candidate_evidence c;
          records = filter (\<lambda>r. sr_id r \<in> set record_ids) (gmail_records workspace_id db) in
      bindE (require (record_ids \<noteq> []) (CompanyWorldEvidenceError ''candidate has no source record evidence'')) (\<lambda>_.
      bindE (require (sr_id ` set records = set record_ids) (CompanyWorldEvidenceError ''candidate evidence is unavailable'')) (\<lambda>_.
      Inr records)))"

definition primary_source_record :: "candidate \<Rightarrow> source_record list \<Rightarrow> (world_error, source_record) result" where
  "primary_source_record c locked_records =
     (case find (\<lambda>i. i \<in> sr_id ` set locked_records) (candidate_evidence c) of
        None \<Rightarrow> Inl (CompanyWorldEvidenceError ''candidate evidence is unavailable'')
      | Some i \<Rightarrow> require_some (find (\<lambda>r. sr_id r = i) locked_records)
          (CompanyWorldEvidenceError ''candidate evidence is unavailable''))"

section \<open>Profiles\<close>

definition resolution_of_candidate :: "uuid \<Rightarrow> string \<Rightarrow> string \<Rightarrow> 'z world_db_scheme \<Rightarrow> resolution option" where
  "resolution_of_candidate workspace_id candidate_type candidate_key db =
     find (\<lambda>r. resolution_candidate r = (workspace_id, candidate_type, candidate_key)) (resolutions db)"

definition resolved_organization ::
  "uuid \<Rightarrow> external_person \<Rightarrow> bool \<Rightarrow> 'z world_db_scheme \<Rightarrow> (world_error, organization option) result" where
  "resolved_organization workspace_id p has_affiliation_intent db =
     (let refuse_intent = require (\<not> has_affiliation_intent)
            (CompanyWorldResolutionConflictError ''affiliation fields require a confirmed organization candidate'') in
      case xp_organization_key p of
        None \<Rightarrow> bindE refuse_intent (\<lambda>_. Inr None)
      | Some [] \<Rightarrow> bindE refuse_intent (\<lambda>_. Inr None)
      | Some key \<Rightarrow>
          bindE (require_some (resolution_of_candidate workspace_id ''organization'' key db)
            (CompanyWorldResolutionConflictError ''organization candidate must be resolved before confirming this person'')) (\<lambda>r.
          if rs_decision r = ''dismissed'' then bindE refuse_intent (\<lambda>_. Inr None)
          else bindE (require_some (rs_result_organization_id r)
            (CompanyWorldEvidenceError ''confirmed organization resolution has no durable organization'')) (\<lambda>i.
          bindE (require_some (find (\<lambda>x. og_workspace_id x = workspace_id \<and> og_id x = i) (organizations db))
            (CompanyWorldEvidenceError ''confirmed organization is unavailable'')) (\<lambda>x. Inr (Some x)))))"

definition get_or_create_external_person ::
  "world_env \<Rightarrow> uuid \<Rightarrow> uuid \<Rightarrow> external_person \<Rightarrow> string option \<Rightarrow> 'z world_db_scheme \<Rightarrow>
     (world_error, person \<times> 'z world_db_scheme) result" where
  "get_or_create_external_person e workspace_id actor_user_id c display_name db =
     (let normalized_email = fold_email (xp_email c) in
      case find (\<lambda>p. person_key p = (workspace_id, normalized_email)) (people db) of
        Some existing \<Rightarrow> Inr (existing, db)
      | None \<Rightarrow>
         (let p = \<lparr> pe_id = we_person_id e, pe_workspace_id = workspace_id, pe_user_id = None,
                pe_normalized_email = normalized_email,
                pe_display_name = Some (or_text (or_else (optional_text display_name) (optional_text (xp_display_name c)))
                  normalized_email),
                pe_origin = FounderConfirmation, pe_status = ProfileActive,
                pe_confirmed_by_user_id = Some actor_user_id, pe_confirmed_at = Some (we_now e) \<rparr> in
          bindE (insert_person p db) (\<lambda>db'. Inr (p, db'))))"

definition get_or_create_organization ::
  "world_env \<Rightarrow> uuid \<Rightarrow> uuid \<Rightarrow> string \<Rightarrow> string option \<Rightarrow> string \<Rightarrow> 'z world_db_scheme \<Rightarrow>
     (world_error, organization \<times> 'z world_db_scheme) result" where
  "get_or_create_organization e workspace_id actor_user_id candidate_key display_name relationship_kind db =
     (case find (\<lambda>x. organization_key x = (workspace_id, candidate_key)) (organizations db) of
        Some existing \<Rightarrow> Inr (existing, db)
      | None \<Rightarrow>
         (let domain = casefold (strip (organization_domain candidate_key)) in
          if domain = [] \<or> domain = candidate_key
          then Inl (CompanyWorldCandidateNotFoundError ''organization candidate not found'')
          else (let x = \<lparr> og_id = we_organization_id e, og_workspace_id = workspace_id,
                  og_canonical_key = candidate_key, og_normalized_domain = Some domain,
                  og_display_name = or_text (optional_text display_name) domain,
                  og_relationship_kind = relationship_kind, og_status = ProfileActive,
                  og_confirmed_by_user_id = actor_user_id, og_confirmed_at = we_now e \<rparr> in
            bindE (insert_organization x db) (\<lambda>db'. Inr (x, db')))))"

definition get_or_create_affiliation ::
  "world_env \<Rightarrow> uuid \<Rightarrow> uuid \<Rightarrow> person \<Rightarrow> organization \<Rightarrow> source_record \<Rightarrow> string \<Rightarrow> string option \<Rightarrow>
     'z world_db_scheme \<Rightarrow> (world_error, affiliation \<times> 'z world_db_scheme) result" where
  "get_or_create_affiliation e workspace_id actor_user_id p x source relationship_type role_title db =
     (case find (\<lambda>a. affiliation_key a = (workspace_id, pe_id p, og_id x)) (affiliations db) of
        Some existing \<Rightarrow> Inr (existing, db)
      | None \<Rightarrow>
         (let a = \<lparr> af_id = we_affiliation_id e, af_workspace_id = workspace_id, af_person_id = pe_id p,
                af_organization_id = og_id x,
                af_relationship_type = (if relationship_type = [] then ''contact'' else relationship_type),
                af_role_title = optional_text role_title, af_source_record_id = sr_id source,
                af_confirmed_by_user_id = actor_user_id, af_confirmed_at = we_now e, af_status = ProfileActive \<rparr> in
          bindE (insert_affiliation a db) (\<lambda>db'. Inr (a, db'))))"

section \<open>Interactions\<close>

definition record_mailboxes :: "source_record \<Rightarrow> mailbox list" where
  "record_mailboxes r =
     (case parse_mailbox (py_get (normalized_message r) ''from_address'') of None \<Rightarrow> [] | Some s \<Rightarrow> [s])
       @ mailboxes (py_get (normalized_message r) ''to_addresses'')"

definition internal_email_set :: "uuid \<Rightarrow> 'z identity_db_scheme \<Rightarrow> string set" where
  "internal_email_set workspace_id db =
     (\<lambda>(u, _, _). fold_email (u_email u)) ` set (list_workspace_members workspace_id db)"

definition interaction_of ::
  "world_env \<Rightarrow> uuid \<Rightarrow> string set \<Rightarrow> person \<Rightarrow> organization option \<Rightarrow> source_record \<Rightarrow> interaction" where
  "interaction_of e workspace_id internal_emails p x r =
     (let message = normalized_message r;
          url = py_get message ''source_url'' in
      \<lparr> in_id = we_interaction_id e (pe_id p) (sr_id r), in_workspace_id = workspace_id, in_person_id = pe_id p,
        in_organization_id = map_option og_id x, in_source_record_id = sr_id r, in_channel = ''email'',
        in_direction = message_direction (map_option snd (parse_mailbox (py_get message ''from_address'')))
          (map snd (mailboxes (py_get message ''to_addresses''))) internal_emails,
        in_subject = Some (take 500 (subject_or_fallback (we_untitled e) (py_get message ''subject''))),
        in_occurred_at = (case sr_source_updated_at r of Some t \<Rightarrow> t | None \<Rightarrow> sr_observed_at r),
        in_source_url = world_url (if truthy url then url else opt_val PStr (sr_source_url r)) \<rparr>)"

text \<open>The interactions that one person still lacks, of all messages or of those given.\<close>

definition proposed_interactions ::
  "world_env \<Rightarrow> uuid \<Rightarrow> person \<Rightarrow> organization option \<Rightarrow> uuid set option \<Rightarrow> 'z world_db_scheme \<Rightarrow> interaction list" where
  "proposed_interactions e workspace_id p x source_record_ids db =
     (let email = fold_email (pe_normalized_email p);
          records = sort_key (\<lambda>r. (sr_observed_at r, sr_id r))
            (filter (\<lambda>r. case source_record_ids of None \<Rightarrow> True | Some ids \<Rightarrow> sr_id r \<in> ids) (gmail_records workspace_id db));
          existing_source_ids = in_source_record_id ` set (filter
            (\<lambda>y. in_workspace_id y = workspace_id \<and> in_person_id y = pe_id p) (interactions db)) in
      if email = [] then []
      else map (interaction_of e workspace_id (internal_email_set workspace_id db) p x)
        (filter (\<lambda>r. email \<in> snd ` set (record_mailboxes r) \<and> sr_id r \<notin> existing_source_ids) records))"

definition materialize_person_interactions ::
  "world_env \<Rightarrow> uuid \<Rightarrow> person \<Rightarrow> organization option \<Rightarrow> bool \<Rightarrow> uuid set option \<Rightarrow> 'z world_db_scheme \<Rightarrow>
     (world_error, nat \<times> 'z world_db_scheme) result" where
  "materialize_person_interactions e workspace_id p x apply_rows source_record_ids db =
     (let proposed = proposed_interactions e workspace_id p x source_record_ids db in
      bindE (if apply_rows then insert_interactions proposed db else Inr db) (\<lambda>db'. Inr (length proposed, db')))"

section \<open>The handler\<close>

record confirmed_rows =
  cr_person :: "person option"
  cr_organization :: "organization option"
  cr_affiliation :: "affiliation option"
  cr_interaction_count :: nat

definition no_rows :: confirmed_rows where
  "no_rows = \<lparr> cr_person = None, cr_organization = None, cr_affiliation = None, cr_interaction_count = 0 \<rparr>"

definition confirm_person ::
  "world_env \<Rightarrow> uuid \<Rightarrow> uuid \<Rightarrow> resolve_command \<Rightarrow> external_person \<Rightarrow> source_record \<Rightarrow> 'z world_db_scheme \<Rightarrow>
     (world_error, confirmed_rows \<times> 'z world_db_scheme) result" where
  "confirm_person e workspace_id actor_user_id c p source db =
     bindE (resolved_organization workspace_id p (rc_relationship_type c \<noteq> None \<or> rc_role_title c \<noteq> None) db) (\<lambda>x.
     bindE (get_or_create_external_person e workspace_id actor_user_id p (rc_display_name c) db) (\<lambda>(person, db1).
     bindE (case (x, rc_relationship_type c) of
          (Some x, Some (t # ts)) \<Rightarrow>
            bindE (get_or_create_affiliation e workspace_id actor_user_id person x source (t # ts) (rc_role_title c) db1)
              (\<lambda>(a, db2). Inr (Some a, db2))
        | _ \<Rightarrow> Inr (None, db1)) (\<lambda>(a, db2).
     bindE (materialize_person_interactions e workspace_id person x True
          (Some (set (candidate_evidence (PersonCandidate p)))) db2) (\<lambda>(n, db3).
     Inr (\<lparr> cr_person = Some person, cr_organization = x, cr_affiliation = a, cr_interaction_count = n \<rparr>, db3)))))"

definition confirm_organization ::
  "world_env \<Rightarrow> uuid \<Rightarrow> uuid \<Rightarrow> resolve_command \<Rightarrow> external_organization \<Rightarrow> 'z world_db_scheme \<Rightarrow>
     (world_error, confirmed_rows \<times> 'z world_db_scheme) result" where
  "confirm_organization e workspace_id actor_user_id c g db =
     (let nonempty = (\<lambda>x. case x of Some [] \<Rightarrow> None | _ \<Rightarrow> x) in
      bindE (get_or_create_organization e workspace_id actor_user_id (xo_key g)
        (or_else (nonempty (rc_organization_name c)) (rc_display_name c))
        (or_text (nonempty (rc_organization_relationship_kind c)) ''unknown'') db) (\<lambda>(x, db1).
      Inr (no_rows\<lparr>cr_organization := Some x\<rparr>, db1)))"

definition confirm_candidate ::
  "world_env \<Rightarrow> uuid \<Rightarrow> uuid \<Rightarrow> resolve_command \<Rightarrow> candidate \<Rightarrow> source_record \<Rightarrow> 'z world_db_scheme \<Rightarrow>
     (world_error, confirmed_rows \<times> 'z world_db_scheme) result" where
  "confirm_candidate e workspace_id actor_user_id c cand source db =
     (if rc_decision c \<noteq> ''confirmed'' then Inr (no_rows, db)
      else case cand of
        PersonCandidate p \<Rightarrow> confirm_person e workspace_id actor_user_id c p source db
      | OrganizationCandidate g \<Rightarrow> confirm_organization e workspace_id actor_user_id c g db)"

definition new_resolution ::
  "world_env \<Rightarrow> uuid \<Rightarrow> uuid \<Rightarrow> resolve_command \<Rightarrow> source_record \<Rightarrow> confirmed_rows \<Rightarrow> resolution" where
  "new_resolution e workspace_id actor_user_id c source rows =
     \<lparr> rs_id = we_resolution_id e, rs_workspace_id = workspace_id, rs_candidate_type = rc_candidate_type c,
       rs_candidate_key = rc_candidate_key c, rs_candidate_version = rc_candidate_version c,
       rs_decision = rc_decision c, rs_idempotency_key = rc_idempotency_key c,
       rs_request_hash = command_hash (we_sha e) c, rs_actor_user_id = actor_user_id,
       rs_source_record_id = sr_id source, rs_result_person_id = map_option pe_id (cr_person rows),
       rs_result_organization_id = map_option og_id (cr_organization rows),
       rs_result_affiliation_id = map_option af_id (cr_affiliation rows), rs_created_at = we_now e \<rparr>"

text \<open>The candidate at the state of the decision, with its locked evidence.\<close>

definition current_candidate ::
  "world_env \<Rightarrow> uuid \<Rightarrow> resolve_command \<Rightarrow> 'z world_db_scheme \<Rightarrow> 'z world_db_scheme \<Rightarrow>
     (world_error, candidate \<times> source_record list) result" where
  "current_candidate e workspace_id c seen db =
     bindE (resolve_candidate e workspace_id (rc_candidate_type c) (rc_candidate_key c) seen) (\<lambda>cand0.
     bindE (lock_candidate_evidence workspace_id cand0 db) (\<lambda>locked_records.
     bindE (map_error (\<lambda>err. case err of CompanyWorldCandidateNotFoundError _ \<Rightarrow> candidate_changed | _ \<Rightarrow> err)
       (resolve_candidate e workspace_id (rc_candidate_type c) (rc_candidate_key c) db)) (\<lambda>cand.
     bindE (require (set (candidate_evidence cand) = sr_id ` set locked_records) candidate_changed) (\<lambda>_.
     bindE (require (candidate_version_of cand = rc_candidate_version c) candidate_changed) (\<lambda>_.
     Inr (cand, locked_records))))))"

definition replay_resolution ::
  "world_env \<Rightarrow> resolution \<Rightarrow> 'z world_db_scheme \<Rightarrow> (world_error, resolution_receipt \<times> 'z world_db_scheme) result" where
  "replay_resolution e r db =
     bindE (map_error WorldMemoryError (append_company_world_resolution_memory_event (we_sha e) (we_event_id e)
       (we_now e) r db)) (\<lambda>(_, db'). Inr (receipt_for_resolution r True db', db'))"

definition resolve_company_world_candidate ::
  "world_env \<Rightarrow> uuid \<Rightarrow> uuid \<Rightarrow> resolve_command \<Rightarrow> 'z world_db_scheme \<Rightarrow> 'z world_db_scheme \<Rightarrow>
     (world_error, resolution_receipt \<times> 'z world_db_scheme) result" where
  "resolve_company_world_candidate e workspace_id actor_user_id c seen db =
     (let request_hash = command_hash (we_sha e) c in
      case find (\<lambda>r. resolution_idempotency r = (workspace_id, rc_idempotency_key c)) (resolutions db) of
        Some r \<Rightarrow>
          bindE (require (rs_request_hash r = request_hash)
            (CompanyWorldResolutionConflictError ''idempotency key was already used with a different request'')) (\<lambda>_.
          replay_resolution e r db)
      | None \<Rightarrow>
         (case resolution_of_candidate workspace_id (rc_candidate_type c) (rc_candidate_key c) db of
            Some r \<Rightarrow>
              bindE (require (rs_request_hash r = request_hash)
                (CompanyWorldResolutionConflictError ''candidate already has a different terminal resolution'')) (\<lambda>_.
              replay_resolution e r db)
          | None \<Rightarrow>
              bindE (current_candidate e workspace_id c seen db) (\<lambda>(cand, locked_records).
              bindE (primary_source_record cand locked_records) (\<lambda>source.
              bindE (confirm_candidate e workspace_id actor_user_id c cand source db) (\<lambda>(rows, db1).
              let r = new_resolution e workspace_id actor_user_id c source rows in
              bindE (insert_resolution r db1) (\<lambda>db2.
              bindE (map_error WorldMemoryError (append_company_world_resolution_memory_event (we_sha e) (we_event_id e)
                (we_now e) r db2)) (\<lambda>(_, db3).
              Inr (\<lparr> rr_resolution = r, rr_person_id = map_option pe_id (cr_person rows),
                    rr_organization_id = map_option og_id (cr_organization rows),
                    rr_affiliation_id = map_option af_id (cr_affiliation rows),
                    rr_interaction_count = cr_interaction_count rows, rr_replayed = False \<rparr>, db3))))))))"

end
