(* ===== verification/Company_Backfill.thy ===== *)
theory Company_Backfill
  imports Company_Confirmation
begin

text \<open>
  The backfill of \<^verbatim>\<open>app/services/company_world_backfill_service.py\<close>: durable people for members and
  missing interactions of confirmed external people, planned (dry run) or applied; and the request model and
  route of \<^verbatim>\<open>app/api/company_map.py\<close> that resolves candidates.
\<close>

section \<open>The plan\<close>

definition workspace_people :: "uuid \<Rightarrow> 'z world_db_scheme \<Rightarrow> person list" where
  "workspace_people workspace_id db = filter (\<lambda>p. pe_workspace_id p = workspace_id) (people db)"

datatype member_plan = ProposePerson | KeepPerson | PersonConflict

definition plan_member :: "person list \<Rightarrow> user \<Rightarrow> member_plan" where
  "plan_member ps u =
     (let email = fold_email (u_email u) in
      case map_of (dict_by pe_user_id ps) (u_id u) of
        Some p \<Rightarrow> if pe_normalized_email p \<noteq> email then PersonConflict else KeepPerson
      | None \<Rightarrow> if map_of (dict_by (Some \<circ> pe_normalized_email) ps) email \<noteq> None then PersonConflict else ProposePerson)"

definition proposed_members :: "uuid \<Rightarrow> 'z world_db_scheme \<Rightarrow> user list" where
  "proposed_members workspace_id db = filter (\<lambda>u. plan_member (workspace_people workspace_id db) u = ProposePerson)
     (map fst (list_workspace_members workspace_id db))"

definition member_conflicts :: "uuid \<Rightarrow> 'z world_db_scheme \<Rightarrow> nat" where
  "member_conflicts workspace_id db =
     length (filter (\<lambda>u. plan_member (workspace_people workspace_id db) u = PersonConflict)
       (map fst (list_workspace_members workspace_id db)))"

definition confirmed_external_people :: "uuid \<Rightarrow> 'z world_db_scheme \<Rightarrow> person list" where
  "confirmed_external_people workspace_id db =
     filter (\<lambda>p. is_confirmed_external p \<and> pe_status p = ProfileActive) (workspace_people workspace_id db)"

definition person_organization :: "uuid \<Rightarrow> 'z world_db_scheme \<Rightarrow> person \<Rightarrow> organization option" where
  "person_organization workspace_id db p =
     (case map_of (dict_by (Some \<circ> af_person_id)
         (filter (\<lambda>a. af_workspace_id a = workspace_id) (affiliations db))) (pe_id p) of
        None \<Rightarrow> None
      | Some a \<Rightarrow> map_of (dict_by (Some \<circ> og_id)
          (filter (\<lambda>x. og_workspace_id x = workspace_id) (organizations db))) (af_organization_id a))"

section \<open>The backfill\<close>

definition member_person :: "world_env \<Rightarrow> uuid \<Rightarrow> user \<Rightarrow> person" where
  "member_person e workspace_id u =
     \<lparr> pe_id = we_member_person_id e (u_id u), pe_workspace_id = workspace_id, pe_user_id = Some (u_id u),
       pe_normalized_email = fold_email (u_email u), pe_display_name = u_name u, pe_origin = MembershipOrigin,
       pe_status = ProfileActive, pe_confirmed_by_user_id = None, pe_confirmed_at = None \<rparr>"

fun insert_people :: "person list \<Rightarrow> 'z world_db_scheme \<Rightarrow> (world_error, 'z world_db_scheme) result" where
  "insert_people [] db = Inr db"
| "insert_people (p # ps) db = bindE (insert_person p db) (\<lambda>db'. insert_people ps db')"

fun materialize_all ::
  "world_env \<Rightarrow> uuid \<Rightarrow> bool \<Rightarrow> (person \<times> organization option) list \<Rightarrow> 'z world_db_scheme \<Rightarrow>
     (world_error, nat \<times> 'z world_db_scheme) result" where
  "materialize_all e workspace_id apply_rows [] db = Inr (0, db)"
| "materialize_all e workspace_id apply_rows ((p, x) # rest) db =
     bindE (materialize_person_interactions e workspace_id p x apply_rows None db) (\<lambda>(n, db1).
     bindE (materialize_all e workspace_id apply_rows rest db1) (\<lambda>(m, db2). Inr (n + m, db2)))"

record backfill_report =
  bf_applied :: bool
  bf_memberships_seen :: nat
  bf_confirmed_external_people_seen :: nat
  bf_people_proposed :: nat
  bf_interactions_proposed :: nat
  bf_people_written :: nat
  bf_interactions_written :: nat
  bf_conflicts :: nat
  bf_writes_performed :: bool
  bf_conflict_warning :: bool

definition backfill_company_world ::
  "world_env \<Rightarrow> uuid \<Rightarrow> bool \<Rightarrow> 'z world_db_scheme \<Rightarrow> (world_error, backfill_report \<times> 'z world_db_scheme) result" where
  "backfill_company_world e workspace_id apply_rows db =
     (let proposed = proposed_members workspace_id db;
          external = confirmed_external_people workspace_id db;
          targets = map (\<lambda>p. (p, person_organization workspace_id db p)) external in
      bindE (materialize_all e workspace_id False targets db) (\<lambda>(interactions_proposed, _).
      bindE (if apply_rows then insert_people (map (member_person e workspace_id) proposed) db else Inr db) (\<lambda>db1.
      bindE (if apply_rows then materialize_all e workspace_id True targets db1 else Inr (0, db1)) (\<lambda>(interactions_written, db2).
      let people_written = (if apply_rows then length proposed else 0) in
      Inr (\<lparr> bf_applied = apply_rows,
             bf_memberships_seen = length (list_workspace_members workspace_id db),
             bf_confirmed_external_people_seen = length external,
             bf_people_proposed = length proposed,
             bf_interactions_proposed = interactions_proposed,
             bf_people_written = people_written,
             bf_interactions_written = interactions_written,
             bf_conflicts = member_conflicts workspace_id db,
             bf_writes_performed = (people_written \<noteq> 0 \<or> interactions_written \<noteq> 0),
             bf_conflict_warning = (member_conflicts workspace_id db \<noteq> 0) \<rparr>, db2)))))"

section \<open>The route\<close>

definition text_within :: "nat \<Rightarrow> nat \<Rightarrow> string \<Rightarrow> bool" where
  "text_within lo hi s \<longleftrightarrow> lo \<le> length s \<and> length s \<le> hi"

definition is_version_text :: "string \<Rightarrow> bool" where
  "is_version_text s \<longleftrightarrow> length s = 64 \<and> list_all (\<lambda>c. is_digit c \<or> c \<in> set ''abcdef'') s"

text \<open>\<^verbatim>\<open>CompanyWorldResolutionRequest\<close>: the fields and \<^verbatim>\<open>validate_founder_fields\<close>.\<close>

definition resolution_request_ok :: "resolve_command \<Rightarrow> bool" where
  "resolution_request_ok c \<longleftrightarrow>
     rc_candidate_type c \<in> {''external_person'', ''organization''}
     \<and> text_within 1 500 (rc_candidate_key c) \<and> is_version_text (rc_candidate_version c)
     \<and> rc_decision c \<in> {''confirmed'', ''dismissed''} \<and> text_within 8 255 (rc_idempotency_key c)
     \<and> short_enough 255 (rc_display_name c) \<and> short_enough 255 (rc_organization_name c)
     \<and> optionally (\<lambda>t. t \<in> set RELATIONSHIP_TYPES) (rc_relationship_type c)
     \<and> optionally (\<lambda>t. t \<in> set RELATIONSHIP_KINDS) (rc_organization_relationship_kind c)
     \<and> short_enough 255 (rc_role_title c)
     \<and> (rc_decision c = ''dismissed'' \<longrightarrow> rc_display_name c = None \<and> rc_organization_name c = None
          \<and> rc_relationship_type c = None \<and> rc_organization_relationship_kind c = None \<and> rc_role_title c = None)
     \<and> (rc_candidate_type c = ''organization'' \<longrightarrow> rc_relationship_type c = None \<and> rc_role_title c = None)
     \<and> (rc_candidate_type c = ''external_person'' \<longrightarrow>
          rc_organization_name c = None \<and> rc_organization_relationship_kind c = None)
     \<and> (rc_role_title c = None \<or> rc_relationship_type c \<noteq> None)"

datatype resolution_reply = UnprocessableRequest | NotFoundReply | ConflictReply string | ServerError
  | ResolutionReply resolution_receipt

text \<open>Only a receipt is committed; on every error the transaction is rolled back.\<close>

definition resolve_workspace_company_map_candidate ::
  "world_env \<Rightarrow> uuid \<Rightarrow> uuid \<Rightarrow> resolve_command \<Rightarrow> 'z world_db_scheme \<Rightarrow> 'z world_db_scheme \<Rightarrow>
     resolution_reply \<times> 'z world_db_scheme" where
  "resolve_workspace_company_map_candidate e workspace_id actor_user_id c seen db =
     (if \<not> resolution_request_ok c then (UnprocessableRequest, db)
      else case resolve_company_world_candidate e workspace_id actor_user_id c seen db of
        Inr (receipt, db') \<Rightarrow> (ResolutionReply receipt, db')
      | Inl (CompanyWorldCandidateNotFoundError _) \<Rightarrow> (NotFoundReply, db)
      | Inl (CompanyWorldResolutionConflictError t) \<Rightarrow> (ConflictReply t, db)
      | Inl (CompanyWorldEvidenceError t) \<Rightarrow> (ConflictReply t, db)
      | Inl _ \<Rightarrow> (ServerError, db))"

end
