(* ===== verification/World_Growth.thy ===== *)
theory World_Growth
  imports Company_Backfill
begin

text \<open>
  What every operation on Company World does to the database: it appends rows to the tables of
  Company World and to the memory ledger and changes nothing else. From this follow the invariants of
  the tables and that decisions are final, whatever resolutions, backfills and other writers do.
\<close>

section \<open>Growth\<close>

definition world_grows :: "'z world_db_scheme \<Rightarrow> 'z world_db_scheme \<Rightarrow> bool" where
  "world_grows db db' \<longleftrightarrow> (\<exists>ps gs as xs rs evs streams. db' = db\<lparr>people := people db @ ps,
     organizations := organizations db @ gs, affiliations := affiliations db @ as,
     interactions := interactions db @ xs, resolutions := resolutions db @ rs,
     memory_events := memory_events db @ evs, memory_streams := streams\<rparr>)"

lemma world_growsI:
  "db' = db\<lparr>people := people db @ ps, organizations := organizations db @ gs, affiliations := affiliations db @ as,
     interactions := interactions db @ xs, resolutions := resolutions db @ rs,
     memory_events := memory_events db @ evs, memory_streams := streams\<rparr> \<Longrightarrow> world_grows db db'"
  unfolding world_grows_def by blast

lemma world_grows_refl: "world_grows db db"
  by (rule world_growsI [where ps = "[]" and gs = "[]" and as = "[]" and xs = "[]" and rs = "[]" and evs = "[]"
      and streams = "memory_streams db"]) simp

lemma world_grows_trans:
  assumes "world_grows a b" "world_grows b c"
  shows "world_grows a c"
proof -
  obtain p1 g1 a1 x1 r1 e1 s1 where 1: "b = a\<lparr>people := people a @ p1, organizations := organizations a @ g1,
      affiliations := affiliations a @ a1, interactions := interactions a @ x1, resolutions := resolutions a @ r1,
      memory_events := memory_events a @ e1, memory_streams := s1\<rparr>"
    using assms(1) by (auto simp: world_grows_def)
  obtain p2 g2 a2 x2 r2 e2 s2 where 2: "c = b\<lparr>people := people b @ p2, organizations := organizations b @ g2,
      affiliations := affiliations b @ a2, interactions := interactions b @ x2, resolutions := resolutions b @ r2,
      memory_events := memory_events b @ e2, memory_streams := s2\<rparr>"
    using assms(2) by (auto simp: world_grows_def)
  show ?thesis
    by (rule world_growsI [where ps = "p1 @ p2" and gs = "g1 @ g2" and as = "a1 @ a2" and xs = "x1 @ x2"
        and rs = "r1 @ r2" and evs = "e1 @ e2" and streams = s2]) (simp add: 2 1)
qed

lemma insert_person_Inr: "insert_person p db = Inr db' \<longleftrightarrow> person_row_ok p db \<and> db' = db\<lparr>people := people db @ [p]\<rparr>"
  by (auto simp: insert_person_def)

lemma insert_organization_Inr:
  "insert_organization x db = Inr db' \<longleftrightarrow> organization_row_ok x db \<and> db' = db\<lparr>organizations := organizations db @ [x]\<rparr>"
  by (auto simp: insert_organization_def)

lemma insert_affiliation_Inr:
  "insert_affiliation x db = Inr db' \<longleftrightarrow> affiliation_row_ok x db \<and> db' = db\<lparr>affiliations := affiliations db @ [x]\<rparr>"
  by (auto simp: insert_affiliation_def)

lemma insert_resolution_Inr:
  "insert_resolution x db = Inr db' \<longleftrightarrow> resolution_row_ok x db \<and> db' = db\<lparr>resolutions := resolutions db @ [x]\<rparr>"
  by (auto simp: insert_resolution_def)

lemmas insert_iffs = insert_person_Inr insert_organization_Inr insert_affiliation_Inr insert_resolution_Inr

lemma insert_interactions_rows:
  "insert_interactions xs db = Inr db' \<Longrightarrow> db' = db\<lparr>interactions := interactions db @ xs\<rparr>"
  by (induction xs db rule: insert_interactions.induct) (auto split: if_splits)

lemma insert_people_rows: "insert_people ps db = Inr db' \<Longrightarrow> db' = db\<lparr>people := people db @ ps\<rparr>"
proof (induction ps arbitrary: db)
  case (Cons p ps)
  then have "insert_people ps (db\<lparr>people := people db @ [p]\<rparr>) = Inr db'" by (auto simp: bindE_Inr_iff insert_iffs)
  from Cons.IH [OF this] show ?case by simp
qed simp

lemma materialize_rows:
  assumes "materialize_person_interactions e w p x ap ids db = Inr (n, db')"
  shows "n = length (proposed_interactions e w p x ids db)
    \<and> db' = (if ap then db\<lparr>interactions := interactions db @ proposed_interactions e w p x ids db\<rparr> else db)"
  using assms by (auto simp: materialize_person_interactions_def Let_def bindE_Inr_iff split: if_splits
      dest: insert_interactions_rows)

lemma materialize_all_rows:
  "materialize_all e w ap ts db = Inr (n, db') \<Longrightarrow> \<exists>xs. db' = db\<lparr>interactions := interactions db @ xs\<rparr>
     \<and> (ap \<longrightarrow> length xs = n) \<and> (\<not> ap \<longrightarrow> xs = [])"
proof (induction ts arbitrary: n db)
  case (Cons t ts)
  obtain p x where t: "t = (p, x)" by (cases t)
  from Cons.prems obtain m db1 k where 1: "materialize_person_interactions e w p x ap None db = Inr (m, db1)"
      and 2: "materialize_all e w ap ts db1 = Inr (k, db')" and n: "n = m + k"
    by (auto simp: t bindE_Inr_iff)
  from Cons.IH [OF 2] obtain xs where xs: "db' = db1\<lparr>interactions := interactions db1 @ xs\<rparr>"
      "ap \<longrightarrow> length xs = k" "\<not> ap \<longrightarrow> xs = []" by blast
  show ?case
    using materialize_rows [OF 1] xs
    by (intro exI [of _ "(if ap then proposed_interactions e w p x None db else []) @ xs"]) (auto simp: n)
qed auto

lemma append_resolution_event_rows:
  assumes "append_company_world_resolution_memory_event sha i t r db = Inr (ev, db')"
  shows "\<exists>evs streams. db' = db\<lparr>memory_events := memory_events db @ evs, memory_streams := streams\<rparr>"
proof -
  from assms obtain a where "append_company_memory_event sha a db db = Inr (ev, db')"
    by (auto simp: append_company_world_resolution_memory_event_def bindE_Inr_iff)
  then show ?thesis
  proof (cases rule: append_memory_cases)
    case stored
    then show ?thesis by (intro exI [of _ "[]"] exI [of _ "memory_streams db"]) simp
  next
    case (fresh p)
    then show ?thesis
      by (intro exI [of _ "[ev]"] exI [of _ "AList.update (ma_workspace_id a)
          (last_sequence (ma_workspace_id a) db + 1) (memory_streams db)"]) simp
  qed
qed

section \<open>The operations grow the world\<close>

lemma grows_people: "world_grows db (db\<lparr>people := people db @ ps\<rparr>)"
  by (rule world_growsI [where ps = ps and gs = "[]" and as = "[]" and xs = "[]" and rs = "[]" and evs = "[]"
      and streams = "memory_streams db"]) simp

lemma grows_organizations: "world_grows db (db\<lparr>organizations := organizations db @ gs\<rparr>)"
  by (rule world_growsI [where ps = "[]" and gs = gs and as = "[]" and xs = "[]" and rs = "[]" and evs = "[]"
      and streams = "memory_streams db"]) simp

lemma grows_affiliations: "world_grows db (db\<lparr>affiliations := affiliations db @ as\<rparr>)"
  by (rule world_growsI [where ps = "[]" and gs = "[]" and as = as and xs = "[]" and rs = "[]" and evs = "[]"
      and streams = "memory_streams db"]) simp

lemma grows_interactions: "world_grows db (db\<lparr>interactions := interactions db @ xs\<rparr>)"
  by (rule world_growsI [where ps = "[]" and gs = "[]" and as = "[]" and xs = xs and rs = "[]" and evs = "[]"
      and streams = "memory_streams db"]) simp

lemma grows_resolutions: "world_grows db (db\<lparr>resolutions := resolutions db @ rs\<rparr>)"
  by (rule world_growsI [where ps = "[]" and gs = "[]" and as = "[]" and xs = "[]" and rs = rs and evs = "[]"
      and streams = "memory_streams db"]) simp

lemma grows_events: "world_grows db (db\<lparr>memory_events := memory_events db @ evs, memory_streams := streams\<rparr>)"
  by (rule world_growsI [where ps = "[]" and gs = "[]" and as = "[]" and xs = "[]" and rs = "[]" and evs = evs
      and streams = streams]) simp

lemmas grows_intros = world_grows_refl grows_people grows_organizations grows_affiliations grows_interactions
  grows_resolutions grows_events

lemma get_person_grows: "get_or_create_external_person e w a c n db = Inr (p, db') \<Longrightarrow> world_grows db db'"
  by (auto simp: get_or_create_external_person_def Let_def bindE_Inr_iff insert_iffs intro: grows_intros split: option.splits)

lemma get_organization_grows: "get_or_create_organization e w a k n rk db = Inr (x, db') \<Longrightarrow> world_grows db db'"
  by (auto simp: get_or_create_organization_def Let_def bindE_Inr_iff insert_iffs intro: grows_intros
      split: option.splits if_splits)

lemma get_affiliation_grows: "get_or_create_affiliation e w a p x s t r db = Inr (f, db') \<Longrightarrow> world_grows db db'"
  by (auto simp: get_or_create_affiliation_def Let_def bindE_Inr_iff insert_iffs intro: grows_intros split: option.splits)

lemma materialize_grows: "materialize_person_interactions e w p x ap ids db = Inr (n, db') \<Longrightarrow> world_grows db db'"
  by (drule materialize_rows) (auto intro: grows_intros)

text \<open>The steps of a confirmed person, named.\<close>

lemma confirm_person_cases:
  assumes "confirm_person e w a c p source db = Inr (rows, db')"
  obtains x person db1 af db2 n where
    "resolved_organization w p (rc_relationship_type c \<noteq> None \<or> rc_role_title c \<noteq> None) db = Inr x"
    "get_or_create_external_person e w a p (rc_display_name c) db = Inr (person, db1)"
    "(af = None \<and> db2 = db1) \<or> (\<exists>g t f. x = Some g \<and> rc_relationship_type c = Some t \<and> af = Some f
       \<and> get_or_create_affiliation e w a person g source t (rc_role_title c) db1 = Inr (f, db2))"
    "materialize_person_interactions e w person x True (Some (set (candidate_evidence (PersonCandidate p)))) db2 = Inr (n, db')"
    "rows = \<lparr> cr_person = Some person, cr_organization = x, cr_affiliation = af, cr_interaction_count = n \<rparr>"
proof -
  from assms obtain x person db1 af db2 n where
      1: "resolved_organization w p (rc_relationship_type c \<noteq> None \<or> rc_role_title c \<noteq> None) db = Inr x"
      "get_or_create_external_person e w a p (rc_display_name c) db = Inr (person, db1)"
      and mid: "(case (x, rc_relationship_type c) of (Some x, Some (t # ts)) \<Rightarrow>
            bindE (get_or_create_affiliation e w a person x source (t # ts) (rc_role_title c) db1)
              (\<lambda>(a, db2). Inr (Some a, db2)) | _ \<Rightarrow> Inr (None, db1)) = Inr (af, db2)"
      and 2: "materialize_person_interactions e w person x True
        (Some (set (candidate_evidence (PersonCandidate p)))) db2 = Inr (n, db')"
      "rows = \<lparr> cr_person = Some person, cr_organization = x, cr_affiliation = af, cr_interaction_count = n \<rparr>"
    by (auto simp: confirm_person_def bindE_Inr_iff)
  have "(af = None \<and> db2 = db1) \<or> (\<exists>g t f. x = Some g \<and> rc_relationship_type c = Some t \<and> af = Some f
       \<and> get_or_create_affiliation e w a person g source t (rc_role_title c) db1 = Inr (f, db2))"
    using mid by (auto simp: bindE_Inr_iff split: option.splits list.splits)
  with 1 2 that show thesis by blast
qed

lemma confirm_candidate_grows:
  assumes "confirm_candidate e w a c cand source db = Inr (rows, db')"
  shows "world_grows db db'"
proof (cases "rc_decision c \<noteq> ''confirmed''")
  case True
  then show ?thesis using assms by (simp add: confirm_candidate_def world_grows_refl)
next
  case False
  show ?thesis
  proof (cases cand)
    case (PersonCandidate p)
    then have "confirm_person e w a c p source db = Inr (rows, db')" using assms False by (simp add: confirm_candidate_def)
    then show ?thesis
      by (cases rule: confirm_person_cases)
         (blast intro: world_grows_trans get_person_grows get_affiliation_grows materialize_grows)
  next
    case (OrganizationCandidate g)
    then show ?thesis using assms False
      by (auto simp: confirm_candidate_def confirm_organization_def Let_def bindE_Inr_iff dest: get_organization_grows)
  qed
qed

text \<open>The two ways a resolution succeeds.\<close>

lemma resolve_cases:
  assumes "resolve_company_world_candidate e w a c seen db = Inr (rcpt, db')"
  obtains (replayed) r ev where "r \<in> set (resolutions db)" "rs_request_hash r = command_hash (we_sha e) c"
      "resolution_idempotency r = (w, rc_idempotency_key c)
        \<or> resolution_candidate r = (w, rc_candidate_type c, rc_candidate_key c)"
      "append_company_world_resolution_memory_event (we_sha e) (we_event_id e) (we_now e) r db = Inr (ev, db')"
      "rcpt = receipt_for_resolution r True db'"
  | (decided) cand records source rows db1 db2 ev where
      "find (\<lambda>r. resolution_idempotency r = (w, rc_idempotency_key c)) (resolutions db) = None"
      "resolution_of_candidate w (rc_candidate_type c) (rc_candidate_key c) db = None"
      "current_candidate e w c seen db = Inr (cand, records)"
      "primary_source_record cand records = Inr source"
      "confirm_candidate e w a c cand source db = Inr (rows, db1)"
      "insert_resolution (new_resolution e w a c source rows) db1 = Inr db2"
      "append_company_world_resolution_memory_event (we_sha e) (we_event_id e) (we_now e)
         (new_resolution e w a c source rows) db2 = Inr (ev, db')"
      "rcpt = \<lparr> rr_resolution = new_resolution e w a c source rows, rr_person_id = map_option pe_id (cr_person rows),
         rr_organization_id = map_option og_id (cr_organization rows),
         rr_affiliation_id = map_option af_id (cr_affiliation rows),
         rr_interaction_count = cr_interaction_count rows, rr_replayed = False \<rparr>"
proof (cases "find (\<lambda>r. resolution_idempotency r = (w, rc_idempotency_key c)) (resolutions db)")
  case (Some r)
  then show thesis
    using assms find_Some_mem [OF Some] find_Some_holds [OF Some] replayed [of r]
    by (auto simp: resolve_company_world_candidate_def Let_def bindE_Inr_iff require_Inr_iff replay_resolution_def
        map_error_Inr_iff)
next
  case idem: None
  show thesis
  proof (cases "resolution_of_candidate w (rc_candidate_type c) (rc_candidate_key c) db")
    case (Some r)
    note f = Some [unfolded resolution_of_candidate_def]
    show thesis
      using assms Some idem find_Some_mem [OF f] find_Some_holds [OF f] replayed [of r]
      by (auto simp: resolve_company_world_candidate_def Let_def bindE_Inr_iff require_Inr_iff replay_resolution_def
          map_error_Inr_iff)
  next
    case None
    from assms idem None obtain cand records source rows db1 db2 ev where
        "current_candidate e w c seen db = Inr (cand, records)" "primary_source_record cand records = Inr source"
        "confirm_candidate e w a c cand source db = Inr (rows, db1)"
        "insert_resolution (new_resolution e w a c source rows) db1 = Inr db2"
        "append_company_world_resolution_memory_event (we_sha e) (we_event_id e) (we_now e)
         (new_resolution e w a c source rows) db2 = Inr (ev, db')"
        "rcpt = \<lparr> rr_resolution = new_resolution e w a c source rows, rr_person_id = map_option pe_id (cr_person rows),
         rr_organization_id = map_option og_id (cr_organization rows),
         rr_affiliation_id = map_option af_id (cr_affiliation rows),
         rr_interaction_count = cr_interaction_count rows, rr_replayed = False \<rparr>"
      by (auto simp: resolve_company_world_candidate_def Let_def bindE_Inr_iff map_error_Inr_iff)
    with decided [OF idem None] show thesis by blast
  qed
qed

lemma resolve_grows:
  assumes "resolve_company_world_candidate e w a c seen db = Inr (rcpt, db')"
  shows "world_grows db db'"
  using assms
proof (cases rule: resolve_cases)
  case (replayed r ev)
  then show ?thesis using append_resolution_event_rows [OF replayed(4)] by (auto intro: grows_intros)
next
  case (decided cand records source rows db1 db2 ev)
  have "world_grows db1 db2" using decided(6) grows_resolutions by (auto simp: insert_iffs)
  moreover have "world_grows db2 db'" using append_resolution_event_rows [OF decided(7)] grows_events by auto
  ultimately show ?thesis
    using confirm_candidate_grows [OF decided(5)] by (blast intro: world_grows_trans)
qed

lemma backfill_grows:
  assumes "backfill_company_world e w ap db = Inr (rep, db')"
  shows "world_grows db db'"
proof (cases ap)
  case True
  from assms obtain n n' d db1 where
      1: "insert_people (map (member_person e w) (proposed_members w db)) db = Inr db1"
      and 2: "materialize_all e w True d db1 = Inr (n', db')"
    by (auto simp: backfill_company_world_def Let_def bindE_Inr_iff True)
  have "world_grows db db1" using insert_people_rows [OF 1] grows_people by auto
  moreover have "world_grows db1 db'" using materialize_all_rows [OF 2] grows_interactions by auto
  ultimately show ?thesis by (rule world_grows_trans)
next
  case False
  then show ?thesis using assms by (auto simp: backfill_company_world_def Let_def bindE_Inr_iff world_grows_refl)
qed


section \<open>Keys stay unique\<close>

definition world_unique :: "'z world_db_scheme \<Rightarrow> bool" where
  "world_unique db \<longleftrightarrow> distinct (map person_key (people db)) \<and> distinct (map pe_id (people db))
     \<and> distinct (map organization_key (organizations db)) \<and> distinct (map og_id (organizations db))
     \<and> distinct (map affiliation_key (affiliations db)) \<and> distinct (map interaction_key (interactions db))
     \<and> distinct (map resolution_candidate (resolutions db)) \<and> distinct (map resolution_idempotency (resolutions db))"

lemma unique_person: "person_row_ok p db \<Longrightarrow> world_unique db \<Longrightarrow> world_unique (db\<lparr>people := people db @ [p]\<rparr>)"
  by (auto simp: world_unique_def person_row_ok_def)

lemma unique_organization:
  "organization_row_ok x db \<Longrightarrow> world_unique db \<Longrightarrow> world_unique (db\<lparr>organizations := organizations db @ [x]\<rparr>)"
  by (auto simp: world_unique_def organization_row_ok_def)

lemma unique_affiliation:
  "affiliation_row_ok x db \<Longrightarrow> world_unique db \<Longrightarrow> world_unique (db\<lparr>affiliations := affiliations db @ [x]\<rparr>)"
  by (auto simp: world_unique_def affiliation_row_ok_def)

lemma unique_interaction:
  "interaction_row_ok x db \<Longrightarrow> world_unique db \<Longrightarrow> world_unique (db\<lparr>interactions := interactions db @ [x]\<rparr>)"
  by (auto simp: world_unique_def interaction_row_ok_def)

lemma unique_resolution:
  "resolution_row_ok x db \<Longrightarrow> world_unique db \<Longrightarrow> world_unique (db\<lparr>resolutions := resolutions db @ [x]\<rparr>)"
  by (auto simp: world_unique_def resolution_row_ok_def)

lemma unique_interactions: "insert_interactions xs db = Inr db' \<Longrightarrow> world_unique db \<Longrightarrow> world_unique db'"
  by (induction xs db rule: insert_interactions.induct) (auto split: if_splits intro: unique_interaction)

lemma unique_people: "insert_people ps db = Inr db' \<Longrightarrow> world_unique db \<Longrightarrow> world_unique db'"
  by (induction ps arbitrary: db) (auto simp: bindE_Inr_iff insert_iffs intro: unique_person)

lemma unique_materialize:
  "materialize_person_interactions e w p x ap ids db = Inr (n, db') \<Longrightarrow> world_unique db \<Longrightarrow> world_unique db'"
  by (auto simp: materialize_person_interactions_def Let_def bindE_Inr_iff split: if_splits dest: unique_interactions)

lemma unique_materialize_all:
  "materialize_all e w ap ts db = Inr (n, db') \<Longrightarrow> world_unique db \<Longrightarrow> world_unique db'"
proof (induction ts arbitrary: n db)
  case (Cons t ts)
  then show ?case by (cases t) (auto simp: bindE_Inr_iff dest: unique_materialize)
qed simp

lemma unique_get_person:
  "get_or_create_external_person e w a c n db = Inr (p, db') \<Longrightarrow> world_unique db \<Longrightarrow> world_unique db'"
  by (auto simp: get_or_create_external_person_def Let_def bindE_Inr_iff insert_iffs intro: unique_person split: option.splits)

lemma unique_get_organization:
  "get_or_create_organization e w a k n rk db = Inr (x, db') \<Longrightarrow> world_unique db \<Longrightarrow> world_unique db'"
  by (auto simp: get_or_create_organization_def Let_def bindE_Inr_iff insert_iffs intro: unique_organization
      split: option.splits if_splits)

lemma unique_get_affiliation:
  "get_or_create_affiliation e w a p x s t r db = Inr (f, db') \<Longrightarrow> world_unique db \<Longrightarrow> world_unique db'"
  by (auto simp: get_or_create_affiliation_def Let_def bindE_Inr_iff insert_iffs intro: unique_affiliation split: option.splits)

lemma unique_confirm_person:
  assumes "confirm_person e w a c p source db = Inr (rows, db')" "world_unique db"
  shows "world_unique db'"
  using assms(1)
proof (cases rule: confirm_person_cases)
  case (1 x person db1 af db2 n)
  have "world_unique db1" using 1(2) assms(2) by (rule unique_get_person)
  then have "world_unique db2" using 1(3) unique_get_affiliation by blast
  then show ?thesis using 1(4) unique_materialize by blast
qed

lemma unique_confirm:
  assumes "confirm_candidate e w a c cand source db = Inr (rows, db')" "world_unique db"
  shows "world_unique db'"
  using assms unique_confirm_person unique_get_organization
  by (auto simp: confirm_candidate_def confirm_organization_def Let_def bindE_Inr_iff split: if_splits candidate.splits)

lemma unique_event:
  assumes "append_company_world_resolution_memory_event sha i t r db = Inr (ev, db')" "world_unique db"
  shows "world_unique db'"
  using append_resolution_event_rows [OF assms(1)] assms(2) by (auto simp: world_unique_def)

lemma unique_resolve:
  assumes "resolve_company_world_candidate e w a c seen db = Inr (rcpt, db')" "world_unique db"
  shows "world_unique db'"
  using assms(1)
proof (cases rule: resolve_cases)
  case (replayed r ev)
  then show ?thesis using assms(2) by (blast intro: unique_event)
next
  case (decided cand records source rows db1 db2 ev)
  have "world_unique db2" using decided(6) unique_confirm [OF decided(5) assms(2)] by (auto simp: insert_iffs intro: unique_resolution)
  then show ?thesis by (rule unique_event [OF decided(7)])
qed

lemma unique_backfill:
  assumes "backfill_company_world e w ap db = Inr (rep, db')" "world_unique db"
  shows "world_unique db'"
  using assms
  by (cases ap) (auto simp: backfill_company_world_def Let_def bindE_Inr_iff dest: unique_people unique_materialize_all)

section \<open>Runs\<close>

text \<open>
  A step is a request to resolve a candidate, a backfill, or a change of other tables by other
  components, which leaves the five tables of Company World alone.
\<close>

definition same_world :: "'z world_db_scheme \<Rightarrow> 'z world_db_scheme \<Rightarrow> bool" where
  "same_world db db' \<longleftrightarrow> people db' = people db \<and> organizations db' = organizations db
     \<and> affiliations db' = affiliations db \<and> interactions db' = interactions db \<and> resolutions db' = resolutions db"

inductive world_step :: "'z world_db_scheme \<Rightarrow> 'z world_db_scheme \<Rightarrow> bool" where
  request: "resolve_workspace_company_map_candidate e w a c seen db = (answer, db') \<Longrightarrow> world_step db db'"
| backfill: "backfill_company_world e w ap db = Inr (rep, db') \<Longrightarrow> world_step db db'"
| elsewhere: "same_world db db' \<Longrightarrow> world_step db db'"

lemma route_cases:
  assumes "resolve_workspace_company_map_candidate e w a c seen db = (answer, db')"
  shows "db' = db \<or> (\<exists>rcpt. resolve_company_world_candidate e w a c seen db = Inr (rcpt, db'))"
  using assms
  by (auto simp: resolve_workspace_company_map_candidate_def split: if_splits sum.splits world_error.splits prod.splits)

text \<open>The five tables only grow.\<close>

definition tables_grow :: "'z world_db_scheme \<Rightarrow> 'z world_db_scheme \<Rightarrow> bool" where
  "tables_grow db db' \<longleftrightarrow> (\<exists>ps gs as xs rs. people db' = people db @ ps \<and> organizations db' = organizations db @ gs
     \<and> affiliations db' = affiliations db @ as \<and> interactions db' = interactions db @ xs \<and> resolutions db' = resolutions db @ rs)"

lemma grows_tables: "world_grows db db' \<Longrightarrow> tables_grow db db'"
  unfolding world_grows_def tables_grow_def by (elim exE) simp

lemma tables_grow_refl: "tables_grow db db"
  by (rule grows_tables) (rule world_grows_refl)

lemma tables_grow_trans: "tables_grow a b \<Longrightarrow> tables_grow b c \<Longrightarrow> tables_grow a c"
  unfolding tables_grow_def by (elim exE) simp

lemma world_step_grows: "world_step db db' \<Longrightarrow> tables_grow db db'"
proof (induction rule: world_step.induct)
  case (request e w a c seen db answer db')
  then show ?case using route_cases [OF request] resolve_grows grows_tables tables_grow_refl by blast
next
  case (backfill e w ap db rep db')
  then show ?case by (blast intro: backfill_grows grows_tables)
qed (auto simp: tables_grow_def same_world_def)

lemma world_step_unique: "world_step db db' \<Longrightarrow> world_unique db \<Longrightarrow> world_unique db'"
proof (induction rule: world_step.induct)
  case (request e w a c seen db answer db')
  then show ?case using route_cases unique_resolve by blast
next
  case (backfill e w ap db rep db')
  then show ?case by (blast intro: unique_backfill)
qed (auto simp: world_unique_def same_world_def)

interpretation world_machine: invariant_machine world_step world_unique
  by unfold_locales (rule world_step_unique)

lemma world_run_grows:
  assumes "run world_step db db'" "world_unique db"
  shows "tables_grow db db'"
  by (rule world_machine.run_relation [where R = tables_grow, OF assms])
     (blast intro: tables_grow_refl tables_grow_trans world_step_grows)+

lemma candidate_lookup_kept:
  assumes "tables_grow db db'" "resolution_of_candidate w t k db = Some r"
  shows "resolution_of_candidate w t k db' = Some r"
  using assms by (auto simp: tables_grow_def resolution_of_candidate_def find_append)

end
