(* ===== verification/World_Decisions.thy ===== *)
theory World_Decisions
  imports World_Growth
begin

text \<open>
  The decisions on Company World candidates: a decision is bound to the version and the live
  evidence it was taken on, is final, and is answered again for a repeated command.
\<close>

section \<open>Evidence of a decision\<close>

lemma current_candidate_Inr:
  assumes "current_candidate e w c seen db = Inr (cand, records)"
  shows "resolve_candidate e w (rc_candidate_type c) (rc_candidate_key c) db = Inr cand"
    and "candidate_version_of cand = rc_candidate_version c"
    and "set (candidate_evidence cand) = sr_id ` set records"
    and "\<forall>r\<in>set records. r \<in> set (source_records db) \<and> is_gmail_message w r"
  using assms by (auto simp: current_candidate_def result_iffs lock_candidate_evidence_def Let_def gmail_records_def)

lemma primary_source_Inr:
  assumes "primary_source_record cand records = Inr source"
  shows "source \<in> set records \<and> sr_id source \<in> set (candidate_evidence cand)"
proof -
  obtain i where i: "find (\<lambda>i. i \<in> sr_id ` set records) (candidate_evidence cand) = Some i"
      and f: "find (\<lambda>r. sr_id r = i) records = Some source"
    using assms by (auto simp: primary_source_record_def require_some_Inr_iff split: option.splits)
  show ?thesis using find_Some_mem [OF i] find_Some_mem [OF f] find_Some_holds [OF f] by simp
qed

text \<open>A dismissed candidate leaves no profile rows.\<close>

lemma dismissed_adds_nothing:
  "rc_decision c \<noteq> ''confirmed'' \<Longrightarrow> confirm_candidate e w a c cand source db = Inr (rows, db') \<Longrightarrow>
     rows = no_rows \<and> db' = db"
  by (simp add: confirm_candidate_def)

lemma confirm_keeps_resolutions:
  assumes "confirm_candidate e w a c cand source db = Inr (rows, db')"
  shows "resolutions db' = resolutions db \<and> source_records db' = source_records db
    \<and> memory_events db' = memory_events db"
proof (cases "rc_decision c = ''confirmed''")
  case False
  then show ?thesis using dismissed_adds_nothing [OF _ assms] by simp
next
  case conf: True
  show ?thesis
  proof (cases cand)
    case (PersonCandidate p)
    then have "confirm_person e w a c p source db = Inr (rows, db')" using assms conf by (simp add: confirm_candidate_def)
    then show ?thesis
    proof (cases rule: confirm_person_cases)
      case (1 x person db1 af db2 n)
      have "resolutions db1 = resolutions db \<and> source_records db1 = source_records db \<and> memory_events db1 = memory_events db"
        using 1(2) by (auto simp: get_or_create_external_person_def Let_def bindE_Inr_iff insert_iffs split: option.splits)
      moreover have "resolutions db2 = resolutions db1 \<and> source_records db2 = source_records db1 \<and> memory_events db2 = memory_events db1"
        using 1(3) by (auto simp: get_or_create_affiliation_def Let_def bindE_Inr_iff insert_iffs split: option.splits)
      ultimately show ?thesis using materialize_rows [OF 1(4)] by simp
    qed
  next
    case (OrganizationCandidate g)
    then show ?thesis using assms conf
      by (auto simp: confirm_candidate_def confirm_organization_def get_or_create_organization_def Let_def bindE_Inr_iff
          insert_iffs split: option.splits if_splits)
  qed
qed

text \<open>C22. A new decision is bound to the candidate as it is when it is recorded: the candidate exists
  then with exactly the version the caller saw, all of its evidence are live Gmail messages of the
  workspace, the recorded source is one of them, and whatever the first reading, before the evidence was
  locked, may have seen plays no part. One resolution is added, of a candidate and under a key that had none;
  a dismissal adds no profile.\<close>

theorem decision_bound_to_evidence:
  assumes "resolve_company_world_candidate e w a c seen db = Inr (receipt, db')" "\<not> rr_replayed receipt"
  shows "\<exists>cand. resolve_candidate e w (rc_candidate_type c) (rc_candidate_key c) db = Inr cand
      \<and> candidate_version_of cand = rc_candidate_version c
      \<and> rs_source_record_id (rr_resolution receipt) \<in> set (candidate_evidence cand)
      \<and> (\<forall>i\<in>set (candidate_evidence cand). \<exists>r\<in>set (source_records db). sr_id r = i \<and> is_gmail_message w r)
      \<and> resolutions db' = resolutions db @ [rr_resolution receipt]
      \<and> resolution_candidate (rr_resolution receipt) = (w, rc_candidate_type c, rc_candidate_key c)
      \<and> rs_decision (rr_resolution receipt) = rc_decision c \<and> rs_actor_user_id (rr_resolution receipt) = a
      \<and> (\<forall>q\<in>set (resolutions db). resolution_candidate q \<noteq> (w, rc_candidate_type c, rc_candidate_key c)
           \<and> resolution_idempotency q \<noteq> (w, rc_idempotency_key c))
      \<and> (rc_decision c \<noteq> ''confirmed'' \<longrightarrow> people db' = people db \<and> organizations db' = organizations db
           \<and> affiliations db' = affiliations db \<and> interactions db' = interactions db)"
  using assms(1)
proof (cases rule: resolve_cases)
  case (replayed r ev)
  then show ?thesis using assms(2) by (simp add: receipt_for_resolution_def)
next
  case (decided cand records source rows db1 db2 ev)
  note cand = current_candidate_Inr [OF decided(3)]
  note src = primary_source_Inr [OF decided(4)]
  note keep = confirm_keeps_resolutions [OF decided(5)]
  have db2: "db2 = db1\<lparr>resolutions := resolutions db1 @ [new_resolution e w a c source rows]\<rparr>"
    using decided(6) by (simp add: insert_iffs)
  have fresh: "\<forall>q\<in>set (resolutions db). resolution_candidate q \<noteq> (w, rc_candidate_type c, rc_candidate_key c)
      \<and> resolution_idempotency q \<noteq> (w, rc_idempotency_key c)"
    using decided(1,2) by (auto simp: find_None_iff resolution_of_candidate_def)
  have evidence: "\<forall>i\<in>set (candidate_evidence cand). \<exists>r\<in>set (source_records db). sr_id r = i \<and> is_gmail_message w r"
    using cand(3,4) by auto
  have dismissed: "db1 = db" if "rc_decision c \<noteq> ''confirmed''" using dismissed_adds_nothing [OF that decided(5)] by simp
  show ?thesis
    using cand(1,2) src fresh evidence keep dismissed append_resolution_event_rows [OF decided(7)]
    by (intro exI [of _ cand]) (auto simp: decided(8) db2 new_resolution_def resolution_candidate_def)
qed

section \<open>Decisions are final\<close>

text \<open>C23. However requests to resolve candidates, backfills and changes by other components interleave, the
  tables of Company World only grow, keep their keys unique, and a candidate that has a
  decision keeps that one and no other.\<close>

theorem decisions_are_final:
  assumes "run world_step db db'" "world_unique db"
  shows "world_unique db' \<and> tables_grow db db'
    \<and> (\<forall>w t k r. resolution_of_candidate w t k db = Some r \<longrightarrow>
         resolution_of_candidate w t k db' = Some r
         \<and> (\<forall>q\<in>set (resolutions db'). resolution_candidate q = (w, t, k) \<longrightarrow> q = r))"
proof (intro conjI allI impI ballI)
  show u: "world_unique db'" by (rule world_machine.inv_run [OF assms])
  show g: "tables_grow db db'" by (rule world_run_grows [OF assms])
  fix w t k r
  assume "resolution_of_candidate w t k db = Some r"
  then show r: "resolution_of_candidate w t k db' = Some r" by (rule candidate_lookup_kept [OF g])
  fix q assume q: "q \<in> set (resolutions db')" "resolution_candidate q = (w, t, k)"
  have "r \<in> set (resolutions db')" "resolution_candidate r = (w, t, k)"
    using r find_Some_mem find_Some_holds by (fastforce simp: resolution_of_candidate_def)+
  then show "q = r" using q u distinct_key_eq [of resolution_candidate "resolutions db'" q r] by (simp add: world_unique_def)
qed

section \<open>Repeated commands\<close>

lemma event_appended_again:
  assumes "append_company_world_resolution_memory_event sha i t r db = Inr (ev, db')"
    and "distinct (map memory_key (memory_events db))"
    and "\<exists>new. memory_events db'' = memory_events db' @ new" "distinct (map memory_key (memory_events db''))"
  shows "append_company_world_resolution_memory_event sha j u r db'' = Inr (ev, db'')"
proof -
  from assms(1) obtain ty where ty: "resolution_event_type (rs_decision r) = Some ty"
    by (auto simp: append_company_world_resolution_memory_event_def bindE_Inr_iff require_some_Inr_iff)
  let ?args = "\<lambda>i t. resolution_event_args i t ty r"
  have app: "append_company_memory_event sha (?args i t) db db = Inr (ev, db')"
    using assms(1) by (simp add: append_company_world_resolution_memory_event_def ty)
  have valid: "valid_memory_args sha (?args i t)" using app by (cases rule: append_memory_cases) auto
  have again: "valid_memory_args sha (?args j u)" "memory_args_key sha (?args j u) = memory_args_key sha (?args i t)"
      "memory_fingerprint sha (?args j u) = memory_fingerprint sha (?args i t)"
    using valid by (auto simp: valid_memory_args_def memory_args_key_def memory_idempotency_key_def memory_fingerprint_def
        resolution_event_args_def prepared_event_def fingerprint_material_def bindE_def require_def require_some_def is_ok_def
        split: sum.splits option.splits if_splits)
  have "ev \<in> set (memory_events db'')" using memory_ledger.append_in_rows [OF app] assms(3) by auto
  then have "append_company_memory_event sha (?args j u) db'' db'' = Inr (ev, db'')"
    using memory_ledger.append_key [OF app valid] again assms(4)
    by (intro memory_ledger.replay_known) auto
  then show ?thesis by (simp add: append_company_world_resolution_memory_event_def ty)
qed

text \<open>C24. A command whose decision was recorded is answered with that decision whenever it is repeated, by
  whomever and however Company World and the memory ledger have grown since; the repetition changes nothing.\<close>

theorem repeated_command_is_answered:
  assumes "resolve_company_world_candidate e w a c seen db = Inr (receipt, db')" "\<not> rr_replayed receipt"
    and "distinct (map memory_key (memory_events db))"
    and "tables_grow db' db''" "world_unique db''"
    and "\<exists>new. memory_events db'' = memory_events db' @ new" "distinct (map memory_key (memory_events db''))"
    and "we_sha e2 = we_sha e"
  shows "\<exists>again. resolve_company_world_candidate e2 w a2 c seen2 db'' = Inr (again, db'') \<and> rr_replayed again
    \<and> rr_resolution again = rr_resolution receipt \<and> rr_person_id again = rr_person_id receipt
    \<and> rr_organization_id again = rr_organization_id receipt \<and> rr_affiliation_id again = rr_affiliation_id receipt"
  using assms(1)
proof (cases rule: resolve_cases)
  case (replayed r ev)
  then show ?thesis using assms(2) by (simp add: receipt_for_resolution_def)
next
  case (decided cand records source rows db1 db2 ev)
  let ?r = "new_resolution e w a c source rows"
  have db2: "db2 = db1\<lparr>resolutions := resolutions db1 @ [?r]\<rparr>" using decided(6) by (simp add: insert_iffs)
  have key: "resolution_idempotency ?r = (w, rc_idempotency_key c)" by (simp add: resolution_idempotency_def new_resolution_def)
  have hash: "rs_request_hash ?r = command_hash (we_sha e2) c" by (simp add: new_resolution_def assms(8))
  have "?r \<in> set (resolutions db')"
    using append_resolution_event_rows [OF decided(7)] by (auto simp: db2)
  then have r: "?r \<in> set (resolutions db'')" using assms(4) by (auto simp: tables_grow_def)
  have "find (\<lambda>r. resolution_idempotency r = resolution_idempotency ?r) (resolutions db'') = Some ?r"
    by (rule find_key_unique) (use assms(5) r in \<open>auto simp: world_unique_def\<close>)
  then have found: "find (\<lambda>r. resolution_idempotency r = (w, rc_idempotency_key c)) (resolutions db'') = Some ?r"
    by (simp only: key)
  have "distinct (map memory_key (memory_events db2))"
    using assms(3) confirm_keeps_resolutions [OF decided(5)] by (simp add: db2)
  then have "append_company_world_resolution_memory_event (we_sha e) (we_event_id e2) (we_now e2) ?r db'' = Inr (ev, db'')"
    by (rule event_appended_again [OF decided(7) _ assms(6,7)])
  then have "resolve_company_world_candidate e2 w a2 c seen2 db'' = Inr (receipt_for_resolution ?r True db'', db'')"
    by (simp add: resolve_company_world_candidate_def found hash replay_resolution_def assms(8))
  then show ?thesis by (simp add: receipt_for_resolution_def decided(8)) (simp add: new_resolution_def)
qed

end
