(* ===== verification/World_Candidates.thy ===== *)
theory World_Candidates
  imports World_Decisions
begin

text \<open>
  What the projection says: who is a candidate, on how many messages and with which evidence; and
  what follows for a confirmation, which records an interaction for each message of the evidence.
\<close>

section \<open>Participants\<close>

definition message_emails :: "gmail_message \<Rightarrow> string set" where
  "message_emails m = snd ` set (message_mailboxes m)"

lemma update_all_keys:
  "fst ` set (foldl (\<lambda>d v. AList.update (k v) (f v) d) d vs) = fst ` set d \<union> k ` set vs"
  by (induction vs arbitrary: d) (auto simp: dom_update)

lemma update_all_distinct:
  "distinct (map fst d) \<Longrightarrow> distinct (map fst (foldl (\<lambda>d v. AList.update (k v) (f v) d) d vs))"
  by (induction vs arbitrary: d) (auto simp: distinct_update)

lemma update_entries: "(k', v') \<in> set (AList.update k v d) \<Longrightarrow> (k', v') = (k, v) \<or> (k', v') \<in> set d"
  by (induction d) (auto split: if_splits)

lemma update_all_entries:
  assumes "\<forall>(k', v')\<in>set d. P k' v'" "\<forall>v\<in>set vs. P (k v) (f v)"
  shows "\<forall>(k', v')\<in>set (foldl (\<lambda>d v. AList.update (k v) (f v) d) d vs). P k' v'"
  using assms
proof (induction vs arbitrary: d)
  case (Cons v vs)
  have "\<forall>(k', v')\<in>set (AList.update (k v) (f v) d). P k' v'" using Cons.prems by (auto dest!: update_entries)
  then show ?case using Cons.IH [of "AList.update (k v) (f v) d"] Cons.prems(2) by simp
qed simp

lemma participant_entries: "(k, v) \<in> set (participant_by_email m) \<Longrightarrow> snd v = k"
  using update_all_entries [of "[]" "\<lambda>k v. snd v = k" "message_mailboxes m" snd "\<lambda>x. x"]
  by (auto simp: participant_by_email_def)

lemma participant_keys: "fst ` set (participant_by_email m) = message_emails m"
  by (simp add: participant_by_email_def update_all_keys [where k = snd and f = "\<lambda>x. x"] message_emails_def)

lemma participant_distinct: "distinct (map fst (participant_by_email m))"
  unfolding participant_by_email_def by (rule update_all_distinct [where k = snd and f = "\<lambda>x. x"]) simp

lemma external_emails:
  "snd ` set (external_mailboxes ik m) = {email \<in> message_emails m. map_of ik email = None}"
proof -
  have "snd ` set (external_mailboxes ik m) = (\<lambda>kv. snd (snd kv)) ` {kv \<in> set (participant_by_email m). map_of ik (fst kv) = None}"
    unfolding external_mailboxes_def by (simp add: image_image case_prod_beta)
  also have "\<dots> = fst ` {kv \<in> set (participant_by_email m). map_of ik (fst kv) = None}"
    by (rule image_cong [OF refl]) (auto dest: participant_entries)
  also have "\<dots> = {email \<in> fst ` set (participant_by_email m). map_of ik email = None}" by auto
  finally show ?thesis by (simp add: participant_keys)
qed

lemma external_distinct: "distinct (map snd (external_mailboxes ik m))"
proof -
  have "map snd (external_mailboxes ik m) = map fst (filter (\<lambda>(email, _). map_of ik email = None) (participant_by_email m))"
    unfolding external_mailboxes_def map_map by (rule map_cong [OF refl]) (auto dest: participant_entries)
  then show ?thesis using participant_distinct [of m] by (simp add: distinct_map_filter)
qed

lemma internal_keys_dom:
  "map_of (internal_key_map (list_workspace_members w db)) email = None \<longleftrightarrow> email \<notin> internal_email_set w db"
proof -
  have eq: "internal_key_map ms = foldl (\<lambda>d v. AList.update (fold_email (u_email (fst v))) (user_key (u_id (fst v))) d) [] ms" for ms
    unfolding internal_key_map_def by (rule arg_cong [of _ _ "\<lambda>f. foldl f [] ms"]) (auto simp: fun_eq_iff)
  show ?thesis
    unfolding eq map_of_eq_None_iff update_all_keys internal_email_set_def by (simp add: case_prod_beta image_image)
qed

section \<open>One message\<close>

lemma add_person_other: "email \<noteq> snd mb \<Longrightarrow> map_of (add_external_person sha m rows mb) email = map_of rows email"
  by (simp add: add_external_person_def update_conv')

lemma add_people_other:
  "email \<notin> snd ` set mbs \<Longrightarrow> map_of (foldl (add_external_person sha m) rows mbs) email = map_of rows email"
  by (induction mbs arbitrary: rows) (auto simp: add_person_other)

lemma add_people_one:
  assumes "distinct (map snd mbs)" "email \<in> snd ` set mbs"
  shows "\<exists>n. map_of (foldl (add_external_person sha m) rows mbs) email = Some (touched_person sha m (n, email) (map_of rows email))"
  using assms
proof (induction mbs arbitrary: rows)
  case (Cons mb mbs)
  show ?case
  proof (cases "snd mb = email")
    case True
    then have "email \<notin> snd ` set mbs" using Cons.prems(1) by auto
    then have "map_of (foldl (add_external_person sha m) rows (mb # mbs)) email
        = Some (touched_person sha m mb (map_of rows email))"
      using True by (simp add: add_people_other) (simp add: add_external_person_def update_conv')
    then show ?thesis using True by (metis prod.collapse)
  next
    case False
    then have "email \<in> snd ` set mbs" "distinct (map snd mbs)" using Cons.prems by auto
    then show ?thesis
      using Cons.IH [of "add_external_person sha m rows mb"] False add_person_other [of email mb] by simp
  qed
qed simp

lemma add_people_distinct: "distinct (map fst rows) \<Longrightarrow> distinct (map fst (foldl (add_external_person sha m) rows mbs))"
  by (induction mbs arbitrary: rows) (auto simp: add_external_person_def distinct_update)

section \<open>Evidence\<close>

text \<open>The references of a message carry its record, in their identifier too.\<close>

definition ref_ok :: "source_ref \<Rightarrow> bool" where
  "ref_ok r \<longleftrightarrow> ref_record_id r < 2 ^ 128 \<and> take 36 (ref_id r) = uuid_str (ref_record_id r)"

lemma uuid_str_eq: "u < 2 ^ 128 \<Longrightarrow> v < 2 ^ 128 \<Longrightarrow> uuid_str u = uuid_str v \<Longrightarrow> u = v"
  by (metis parse_uuid_str option.inject)

lemma length_uuid_str: "length (uuid_str u) = 36"
  by (simp add: uuid_str_def Let_def uuid_hex_def)

lemma ref_ok_record: "ref_ok r \<Longrightarrow> ref_ok s \<Longrightarrow> ref_id r = ref_id s \<Longrightarrow> ref_record_id r = ref_record_id s"
  unfolding ref_ok_def by (metis uuid_str_eq)

lemma merge_refs:
  assumes "\<forall>r\<in>set old. ref_ok r" "\<forall>r\<in>set new. ref_ok r"
  shows "(\<forall>r\<in>set (merge_source_refs old new). ref_ok r)
    \<and> ref_record_id ` set (merge_source_refs old new) = ref_record_id ` set old \<union> ref_record_id ` set new"
  using assms
proof (induction new arbitrary: old)
  case (Cons n new)
  show ?case
  proof (cases "ref_id n \<in> ref_id ` set old")
    case True
    then obtain q where "q \<in> set old" "ref_id q = ref_id n" by auto
    then have "ref_record_id n \<in> ref_record_id ` set old" using Cons.prems ref_ok_record [of q n] by (metis imageI list.set_intros(1))
    then show ?thesis using Cons.IH [of old] Cons.prems True by (auto simp: merge_source_refs_def)
  next
    case False
    then show ?thesis using Cons.IH [of "old @ [n]"] Cons.prems by (auto simp: merge_source_refs_def)
  qed
qed (simp add: merge_source_refs_def)

lemma record_refs_of:
  assumes "sr_id r < 2 ^ 128"
  shows "record_source_refs r \<noteq> [] \<and> (\<forall>x\<in>set (record_source_refs r). ref_ok x \<and> ref_record_id x = sr_id r)"
proof -
  let ?raw = "case py_get (sr_payload r) ''evidence_refs'' of PList vs \<Rightarrow> vs | _ \<Rightarrow> []"
  let ?refs = "List.map_filter (\<lambda>(i, raw). normalize_source_ref r raw i) (List.enumerate 0 (take 20 ?raw))"
  have "ref_ok x \<and> ref_record_id x = sr_id r" if "x \<in> set ?refs" for x
  proof -
    obtain i raw where "normalize_source_ref r raw i = Some x"
      using \<open>x \<in> set ?refs\<close> by (auto simp: List.map_filter_def)
    then show ?thesis using assms
      by (auto simp: normalize_source_ref_def ref_ok_def length_uuid_str split: option.splits)
  qed
  moreover have "record_source_refs r = (if ?refs \<noteq> [] then ?refs else [\<lparr> ref_id = uuid_str (sr_id r) @ '':source-record'',
      ref_kind = ''source_record'', ref_source = sr_provider r, ref_label = sr_external_id r,
      ref_url = world_url (opt_val PStr (sr_source_url r)), ref_record_type = sr_record_type r, ref_record_id = sr_id r \<rparr>])"
    by (simp add: record_source_refs_def Let_def)
  ultimately show ?thesis using assms by (auto simp: ref_ok_def length_uuid_str)
qed

definition message_ok :: "gmail_message \<Rightarrow> bool" where
  "message_ok m \<longleftrightarrow> gm_source_refs m \<noteq> [] \<and> (\<forall>x\<in>set (gm_source_refs m). ref_ok x \<and> ref_record_id x = gm_source_record_id m)"

lemma payload_ok: "sr_id r < 2 ^ 128 \<Longrightarrow> message_ok (gmail_message_payload r)"
  using record_refs_of [of r] by (simp add: message_ok_def gmail_message_payload_def Let_def)

lemma gmail_refs_ok:
  assumes "message_ok m"
  shows "(\<forall>x\<in>set (gmail_refs m). ref_ok x) \<and> ref_record_id ` set (gmail_refs m) = {gm_source_record_id m}"
proof -
  obtain r rs where "gm_source_refs m = r # rs" using assms by (cases "gm_source_refs m") (auto simp: message_ok_def)
  then show ?thesis using assms by (auto simp: message_ok_def gmail_refs_def ref_ok_def)
qed

section \<open>All messages\<close>

text \<open>The row of an address after some messages.\<close>

definition person_row_of :: "(string \<times> string) list \<Rightarrow> gmail_message list \<Rightarrow> string \<Rightarrow> external_person option \<Rightarrow> bool" where
  "person_row_of ik ms email row \<longleftrightarrow>
     (let mine = filter (\<lambda>m. email \<in> message_emails m) ms in
      (row = None \<longleftrightarrow> mine = [] \<or> map_of ik email \<noteq> None)
      \<and> (\<forall>p. row = Some p \<longrightarrow> xp_email p = email \<and> xp_interaction_count p = int (length mine)
           \<and> (\<forall>x\<in>set (xp_source_refs p). ref_ok x)
           \<and> ref_record_id ` set (xp_source_refs p) = gm_source_record_id ` set mine))"

lemma touched_row:
  assumes "person_row_of ik ms email row" "map_of ik email = None" "email \<in> message_emails m" "message_ok m"
  shows "person_row_of ik (ms @ [m]) email (Some (touched_person sha m (n, email) row))"
proof -
  note refs = gmail_refs_ok [OF assms(4)]
  show ?thesis
  proof (cases row)
    case None
    then show ?thesis
      using assms(1-3) refs merge_refs [of "[]" "gmail_refs m"]
      by (auto simp: person_row_of_def touched_person_def Let_def)
  next
    case (Some p)
    then have p: "xp_email p = email" "xp_interaction_count p = int (length (filter (\<lambda>m. email \<in> message_emails m) ms))"
        "\<forall>x\<in>set (xp_source_refs p). ref_ok x"
        "ref_record_id ` set (xp_source_refs p) = gm_source_record_id ` set (filter (\<lambda>m. email \<in> message_emails m) ms)"
      using assms(1) by (simp_all add: person_row_of_def Let_def)
    note m = merge_refs [OF p(3) conjunct1 [OF refs]]
    show ?thesis
      using assms(2,3) m refs p by (auto simp: person_row_of_def touched_person_def Let_def Some)
  qed
qed

lemma projected_rows:
  assumes "\<forall>m\<in>set ms. message_ok m"
  shows "distinct (map fst (pj_people (project_messages sha u ik ms)))
    \<and> (\<forall>email. person_row_of ik ms email (map_of (pj_people (project_messages sha u ik ms)) email))"
  using assms
proof (induction ms rule: rev_induct)
  case Nil
  show ?case by (simp add: project_messages_def person_row_of_def)
next
  case (snoc m ms)
  let ?pj = "project_messages sha u ik ms"
  have IH: "distinct (map fst (pj_people ?pj))" "person_row_of ik ms email (map_of (pj_people ?pj) email)" for email
    using snoc by auto
  have step: "pj_people (project_messages sha u ik (ms @ [m])) = foldl (add_external_person sha m) (pj_people ?pj) (external_mailboxes ik m)"
    by (simp add: project_messages_def project_message_def)
  have "person_row_of ik (ms @ [m]) email (map_of (foldl (add_external_person sha m) (pj_people ?pj) (external_mailboxes ik m)) email)" for email
  proof (cases "email \<in> snd ` set (external_mailboxes ik m)")
    case True
    obtain n where row: "map_of (foldl (add_external_person sha m) (pj_people ?pj) (external_mailboxes ik m)) email
        = Some (touched_person sha m (n, email) (map_of (pj_people ?pj) email))"
      using add_people_one [OF external_distinct True] by blast
    show ?thesis unfolding row
      by (rule touched_row [OF IH(2)]) (use True snoc.prems in \<open>auto simp: external_emails\<close>)
  next
    case False
    then have off: "email \<notin> message_emails m \<or> map_of ik email \<noteq> None" by (simp add: external_emails)
    show ?thesis
      unfolding add_people_other [OF False] using IH(2) [of email] off
      by (auto simp: person_row_of_def Let_def)
  qed
  then show ?case using IH(1) by (simp add: step add_people_distinct)
qed


section \<open>Candidates of the map\<close>

lemma set_sort_descending [simp]: "set (sort_descending k xs) = set xs"
  by (simp add: sort_descending_def)

definition message_window :: "uuid \<Rightarrow> nat \<Rightarrow> 'z ledger_db_scheme \<Rightarrow> source_record list" where
  "message_window w limit db = take limit (sort_descending newest_first_key (gmail_records w db))"

lemma message_window_rows: "gmail_message_rows w n db = map gmail_message_payload (message_window w n db)"
  by (simp add: gmail_message_rows_def message_window_def)

lemma message_window_subset: "set (message_window w n db) \<subseteq> set (gmail_records w db)"
  using set_take_subset by (fastforce simp: message_window_def)

lemma payload_record_id [simp]: "gm_source_record_id (gmail_message_payload r) = sr_id r"
  by (simp add: gmail_message_payload_def Let_def)

definition map_projection :: "world_env \<Rightarrow> uuid \<Rightarrow> nat \<Rightarrow> 'z world_db_scheme \<Rightarrow> projection" where
  "map_projection e w limit db = project_messages (we_sha e) (we_untitled e)
     (internal_key_map (list_workspace_members w db)) (gmail_message_rows w limit db)"

lemma map_candidates:
  assumes "build_workspace_company_map e w q db = Inr cm" "\<not> mq_resolution_only q"
  shows "\<exists>hashes. set (cm_external_candidates cm) \<subseteq> set (versioned_people (we_sha e) hashes (map_projection e w (mq_limit q) db))
    \<and> (\<not> mq_include_durable q \<longrightarrow>
         set (cm_external_candidates cm) = set (versioned_people (we_sha e) hashes (map_projection e w (mq_limit q) db)))"
  using assms by (auto simp: build_workspace_company_map_def bindE_Inr_iff Let_def map_projection_def empty_durable_rows_def)

lemma map_rows:
  assumes "\<forall>r\<in>set (source_records db). sr_id r < 2 ^ 128"
  shows "distinct (map fst (pj_people (map_projection e w n db)))
    \<and> (\<forall>email. person_row_of (internal_key_map (list_workspace_members w db)) (gmail_message_rows w n db) email
         (map_of (pj_people (map_projection e w n db)) email))"
  unfolding map_projection_def
proof (rule projected_rows)
  have "sr_id r < 2 ^ 128" if "r \<in> set (message_window w n db)" for r
    using that message_window_subset assms by (fastforce simp: gmail_records_def)
  then show "\<forall>m\<in>set (gmail_message_rows w n db). message_ok m" by (auto simp: message_window_rows intro: payload_ok)
qed

lemma versioned_row:
  assumes "p \<in> set (versioned_people sha hashes pj)" "distinct (map fst (pj_people pj))"
  shows "\<exists>email q. map_of (pj_people pj) email = Some q \<and> xp_email p = xp_email q
    \<and> xp_interaction_count p = xp_interaction_count q \<and> xp_source_refs p = xp_source_refs q \<and> xp_key p = xp_key q"
  using assms by (auto simp: versioned_people_def) (metis map_of_is_SomeI)

lemma versioned_complete:
  assumes "map_of (pj_people pj) email = Some q"
  shows "\<exists>p\<in>set (versioned_people sha hashes pj). xp_email p = xp_email q"
proof -
  have "q \<in> set (map snd (pj_people pj))" using map_of_SomeD [OF assms] by force
  then show ?thesis by (force simp: versioned_people_def)
qed

lemma window_emails:
  "filter (\<lambda>m. email \<in> message_emails m) (gmail_message_rows w n db)
     = map gmail_message_payload (filter (\<lambda>r. email \<in> message_emails (gmail_message_payload r)) (message_window w n db))"
  by (simp add: message_window_rows filter_map comp_def)

lemma candidate_facts:
  assumes "build_workspace_company_map e w q db = Inr cm" "\<not> mq_resolution_only q"
    and "\<forall>r\<in>set (source_records db). sr_id r < 2 ^ 128"
  shows "(\<not> mq_include_durable q \<longrightarrow> xp_email ` set (cm_external_candidates cm)
      = {email. email \<notin> internal_email_set w db
           \<and> (\<exists>r\<in>set (message_window w (mq_limit q) db). email \<in> message_emails (gmail_message_payload r))})
    \<and> (\<forall>p\<in>set (cm_external_candidates cm). xp_email p \<notin> internal_email_set w db
         \<and> xp_interaction_count p = int (length (filter (\<lambda>r. xp_email p \<in> message_emails (gmail_message_payload r))
             (message_window w (mq_limit q) db)))
         \<and> set (candidate_evidence (PersonCandidate p))
             = sr_id ` {r \<in> set (message_window w (mq_limit q) db). xp_email p \<in> message_emails (gmail_message_payload r)})"
proof -
  let ?pj = "map_projection e w (mq_limit q) db"
  note rows = map_rows [OF assms(3), of e w "mq_limit q"]
  obtain hashes where sub: "set (cm_external_candidates cm) \<subseteq> set (versioned_people (we_sha e) hashes ?pj)"
      and eq: "\<not> mq_include_durable q \<Longrightarrow> set (cm_external_candidates cm) = set (versioned_people (we_sha e) hashes ?pj)"
    using map_candidates [OF assms(1,2)] by blast
  have row: "(map_of (pj_people ?pj) email = None \<longleftrightarrow> email \<in> internal_email_set w db
          \<or> (\<forall>r\<in>set (message_window w (mq_limit q) db). email \<notin> message_emails (gmail_message_payload r)))
      \<and> (\<forall>p. map_of (pj_people ?pj) email = Some p \<longrightarrow> xp_email p = email
          \<and> xp_interaction_count p = int (length (filter (\<lambda>r. email \<in> message_emails (gmail_message_payload r))
             (message_window w (mq_limit q) db)))
          \<and> ref_record_id ` set (xp_source_refs p)
             = sr_id ` {r \<in> set (message_window w (mq_limit q) db). email \<in> message_emails (gmail_message_payload r)})" for email
    using conjunct2 [OF rows, rule_format, of email]
    by (auto simp: person_row_of_def Let_def window_emails internal_keys_dom filter_empty_conv image_image)
  have one: "xp_email p \<notin> internal_email_set w db
         \<and> (\<exists>r\<in>set (message_window w (mq_limit q) db). xp_email p \<in> message_emails (gmail_message_payload r))
         \<and> xp_interaction_count p = int (length (filter (\<lambda>r. xp_email p \<in> message_emails (gmail_message_payload r))
             (message_window w (mq_limit q) db)))
         \<and> set (candidate_evidence (PersonCandidate p))
             = sr_id ` {r \<in> set (message_window w (mq_limit q) db). xp_email p \<in> message_emails (gmail_message_payload r)}"
    if cand: "p \<in> set (versioned_people (we_sha e) hashes ?pj)" for p
  proof -
    obtain email x where x: "map_of (pj_people ?pj) email = Some x" "xp_email p = xp_email x"
        "xp_interaction_count p = xp_interaction_count x" "xp_source_refs p = xp_source_refs x"
      using versioned_row [OF cand conjunct1 [OF rows]] by blast
    have "xp_email p = email" using row [of email] x by simp
    then show ?thesis using row [of email] x by (auto simp: candidate_evidence_def evidence_ids_def)
  qed
  have all: "\<exists>p\<in>set (versioned_people (we_sha e) hashes ?pj). xp_email p = email"
    if known: "email \<notin> internal_email_set w db"
      "\<exists>r\<in>set (message_window w (mq_limit q) db). email \<in> message_emails (gmail_message_payload r)" for email
  proof -
    obtain p where "map_of (pj_people ?pj) email = Some p" using row [of email] known by auto
    then show ?thesis using versioned_complete row [of email] by metis
  qed
  show ?thesis
  proof (intro conjI impI ballI)
    assume "\<not> mq_include_durable q"
    then show "xp_email ` set (cm_external_candidates cm) = {email. email \<notin> internal_email_set w db
           \<and> (\<exists>r\<in>set (message_window w (mq_limit q) db). email \<in> message_emails (gmail_message_payload r))}"
      unfolding eq [OF \<open>\<not> mq_include_durable q\<close>]
    proof (intro equalityI subsetI)
      fix email assume "email \<in> xp_email ` set (versioned_people (we_sha e) hashes ?pj)"
      then show "email \<in> {email. email \<notin> internal_email_set w db
           \<and> (\<exists>r\<in>set (message_window w (mq_limit q) db). email \<in> message_emails (gmail_message_payload r))}"
        using one by blast
    next
      fix email assume "email \<in> {email. email \<notin> internal_email_set w db
           \<and> (\<exists>r\<in>set (message_window w (mq_limit q) db). email \<in> message_emails (gmail_message_payload r))}"
      then show "email \<in> xp_email ` set (versioned_people (we_sha e) hashes ?pj)"
        using all [of email] by blast
    qed
  qed (use one sub in blast)+
qed


lemma candidates_rows:
  assumes "build_workspace_company_map e w q db = Inr cm" "\<not> mq_resolution_only q"
    and "\<forall>r\<in>set (source_records db). sr_id r < 2 ^ 128" "p \<in> set (cm_external_candidates cm)"
  shows "set (candidate_evidence (PersonCandidate p))
    = sr_id ` {r \<in> set (message_window w (mq_limit q) db). xp_email p \<in> message_emails (gmail_message_payload r)}"
  using candidate_facts [OF assms(1-3)] assms(4) by blast

text \<open>C27. The candidates for external people are exact: without durable rows to hide any, they are exactly the
  addresses that take part in a message of the window and belong to no member; each counts
  exactly the messages of the window it takes part in, and its evidence are exactly their records.\<close>

theorem external_candidates_exact:
  assumes "build_workspace_company_map e w q db = Inr cm" "\<not> mq_resolution_only q"
    and "\<forall>r\<in>set (source_records db). sr_id r < 2 ^ 128"
  shows "(\<not> mq_include_durable q \<longrightarrow> xp_email ` set (cm_external_candidates cm)
      = {email. email \<notin> internal_email_set w db
           \<and> (\<exists>r\<in>set (message_window w (mq_limit q) db). email \<in> message_emails (gmail_message_payload r))})
    \<and> (\<forall>p\<in>set (cm_external_candidates cm). xp_email p \<notin> internal_email_set w db
         \<and> xp_interaction_count p = int (length (filter (\<lambda>r. xp_email p \<in> message_emails (gmail_message_payload r))
             (message_window w (mq_limit q) db)))
         \<and> set (candidate_evidence (PersonCandidate p))
             = sr_id ` {r \<in> set (message_window w (mq_limit q) db). xp_email p \<in> message_emails (gmail_message_payload r)})"
  by (rule candidate_facts [OF assms])

section \<open>Addresses are folded\<close>

lemma casefold_Cons: "casefold (c # s) = (if (of_char c :: nat) = 223 then ''ss'' else [lower_char c]) @ casefold s"
  by (simp add: casefold_def)

lemma folded_char: "(of_char c :: nat) \<noteq> 223 \<Longrightarrow> (of_char (lower_char c) :: nat) \<noteq> 223"
  using of_char_lower_char [of c] by (auto simp: is_upper_def Let_def split: if_splits)

lemma casefold_char: "\<forall>d\<in>set (casefold s). (of_char d :: nat) \<noteq> 223 \<and> lower_char d = d"
proof (induction s)
  case (Cons c s)
  have "lower_char (CHR ''s'') = CHR ''s''" by (simp add: lower_char_def is_upper_def)
  then show ?case using Cons folded_char [of c] by (auto simp: casefold_Cons)
qed (simp add: casefold_def)

lemma casefold_idem: "casefold (casefold s) = casefold s"
proof -
  have "casefold t = t" if "\<forall>d\<in>set t. (of_char d :: nat) \<noteq> 223 \<and> lower_char d = d" for t
    using that by (induction t) (auto simp: casefold_def)
  then show ?thesis using casefold_char by blast
qed

lemma casefold_space: "\<forall>d\<in>set (casefold [c]). is_space d = is_space c"
proof (cases "(of_char c :: nat) = 223")
  case True
  then show ?thesis by (simp add: casefold_def is_space_def)
qed (simp add: casefold_def)

lemma casefold_append: "casefold (s @ t) = casefold s @ casefold t" by (simp add: casefold_def)

lemma casefold_ne: "casefold [c] \<noteq> []" by (simp add: casefold_def)

lemma strip_spaceless: "t = [] \<or> (\<not> is_space (hd t) \<and> \<not> is_space (last t)) \<Longrightarrow> strip t = t"
  unfolding strip_def by (cases "t = []") (auto simp: dropWhile_id hd_rev)

lemma strip_last: "strip s = [] \<or> \<not> is_space (last (strip s))"
  unfolding strip_def using dropWhile_hd [of is_space "rev (dropWhile is_space s)"] by (auto simp: last_rev)

lemma strip_casefold:
  assumes "strip t = t"
  shows "strip (casefold t) = casefold t"
proof (cases "t = []")
  case False
  have h: "\<not> is_space (hd t)" "\<not> is_space (last t)" using strip_hd [of t] strip_last [of t] assms False by auto
  obtain c u where c: "t = c # u" using False by (cases t) auto
  obtain v d where d: "t = v @ [d]" using False by (cases t rule: rev_cases) auto
  have "hd (casefold t) \<in> set (casefold [c])"
    using casefold_ne [of c] casefold_append [of "[c]" u] c by (cases "casefold [c]") auto
  moreover have "last (casefold t) \<in> set (casefold [d])"
    using casefold_ne [of d] casefold_append [of v "[d]"] d by (simp add: last_append)
  ultimately have "\<not> is_space (hd (casefold t)) \<and> \<not> is_space (last (casefold t))"
    using h casefold_space c d by (metis last_snoc list.sel(1))
  then show ?thesis by (intro strip_spaceless) blast
qed (simp add: casefold_def)

lemma fold_email_idem [simp]: "fold_email (fold_email s) = fold_email s"
  by (simp add: fold_email_def strip_casefold casefold_idem)

lemma parsed_email: "parse_mailbox v = Some (n, email) \<Longrightarrow> fold_email email = email \<and> email \<noteq> []"
  by (auto simp: parse_mailbox_def Let_def split: option.splits prod.splits if_splits)

lemma map_filter_mem: "y \<in> set (List.map_filter f xs) \<longleftrightarrow> (\<exists>x\<in>set xs. f x = Some y)"
  by (force simp: List.map_filter_def)

lemma mailboxes_email:
  assumes "mb \<in> set (mailboxes v)"
  shows "fold_email (snd mb) = snd mb \<and> snd mb \<noteq> []"
proof -
  obtain x where "parse_mailbox x = Some (fst mb, snd mb)"
    using assms by (auto simp: mailboxes_def map_filter_mem split: pyval.splits)
  then show ?thesis by (rule parsed_email)
qed

lemma message_email_folded: "email \<in> message_emails m \<Longrightarrow> fold_email email = email \<and> email \<noteq> []"
  by (auto simp: message_emails_def message_mailboxes_def message_sender_def message_recipients_def
      dest: parsed_email [OF sym] mailboxes_email split: option.splits)

text \<open>Reading an address from the cleaned text of the payload finds what the text itself gives.\<close>

lemma parse_mailbox_cleaned: "parse_mailbox (opt_val PStr (world_text v)) = parse_mailbox v"
proof (cases "world_text v")
  case (Some t)
  then have "world_text (PStr t) = Some t"
    unfolding world_text_def by (metis as_str_def optional_text_idem pyval.simps(85)) 
  then show ?thesis using Some by (simp add: parse_mailbox_def)
qed (simp add: parse_mailbox_def world_text_def as_str_def optional_text_def)

end
