(* ===== verification/World_Backfill.thy ===== *)
theory World_Backfill
  imports World_Growth
begin

text \<open>
  The backfill writes what its dry run announces, and once applied has nothing more to write.
\<close>

section \<open>Dictionaries over rows\<close>

lemma dict_by_dom: "map_of (dict_by key rows) k \<noteq> None \<longleftrightarrow> (\<exists>r\<in>set rows. key r = Some k)"
proof (induction rows rule: rev_induct)
  case (snoc r rows)
  then show ?case
    by (cases "key r") (auto simp: dict_by_def update_conv')
qed (simp add: dict_by_def)

section \<open>Proposed interactions\<close>

definition person_interactions :: "uuid \<Rightarrow> uuid \<Rightarrow> 'z world_db_scheme \<Rightarrow> interaction list" where
  "person_interactions w p db = filter (\<lambda>y. in_workspace_id y = w \<and> in_person_id y = p) (interactions db)"

definition same_sources :: "'z world_db_scheme \<Rightarrow> 'z world_db_scheme \<Rightarrow> bool" where
  "same_sources db db' \<longleftrightarrow> source_records db' = source_records db \<and> users db' = users db
     \<and> workspaces db' = workspaces db \<and> memberships db' = memberships db"

lemma same_sources_reads:
  assumes "same_sources db db'"
  shows "gmail_records w db' = gmail_records w db" "list_workspace_members w db' = list_workspace_members w db"
    "internal_email_set w db' = internal_email_set w db"
proof -
  have eqs: "source_records db' = source_records db" "users db' = users db" "workspaces db' = workspaces db"
      "memberships db' = memberships db"
    using assms by (simp_all add: same_sources_def)
  show "gmail_records w db' = gmail_records w db" unfolding gmail_records_def eqs by (rule refl)
  show m: "list_workspace_members w db' = list_workspace_members w db"
    unfolding list_workspace_members_def joined_memberships_def eqs by (rule refl)
  show "internal_email_set w db' = internal_email_set w db" unfolding internal_email_set_def m by (rule refl)
qed

lemma proposed_interactions_same:
  assumes "same_sources db db'" "person_interactions w (pe_id p) db' = person_interactions w (pe_id p) db"
  shows "proposed_interactions e w p x ids db' = proposed_interactions e w p x ids db"
  using assms same_sources_reads [OF assms(1)]
  by (simp add: proposed_interactions_def person_interactions_def Let_def)

lemma proposed_person:
  "y \<in> set (proposed_interactions e w p x ids db) \<Longrightarrow> in_person_id y = pe_id p \<and> in_workspace_id y = w"
  by (auto simp: proposed_interactions_def interaction_of_def Let_def split: if_splits)

text \<open>Nothing is proposed once every message of the person has an interaction.\<close>

lemma proposed_none:
  "proposed_interactions e w p x None db = [] \<longleftrightarrow>
     (\<forall>r\<in>set (gmail_records w db). fold_email (pe_normalized_email p) \<in> snd ` set (record_mailboxes r)
        \<longrightarrow> fold_email (pe_normalized_email p) \<noteq> []
        \<longrightarrow> sr_id r \<in> in_source_record_id ` set (person_interactions w (pe_id p) db))"
  by (auto simp: proposed_interactions_def person_interactions_def Let_def filter_empty_conv)

lemma proposed_written:
  assumes "interactions db' = interactions db @ proposed_interactions e w p x None db" "same_sources db db'"
  shows "proposed_interactions e2 w p x2 None db' = []"
proof -
  let ?email = "fold_email (pe_normalized_email p)"
  have "sr_id r \<in> in_source_record_id ` set (person_interactions w (pe_id p) db')"
    if r: "r \<in> set (gmail_records w db)" "?email \<in> snd ` set (record_mailboxes r)" "?email \<noteq> []" for r
  proof (cases "sr_id r \<in> in_source_record_id ` set (person_interactions w (pe_id p) db)")
    case True
    then show ?thesis using assms(1) by (auto simp: person_interactions_def)
  next
    case False
    then have "interaction_of e w (internal_email_set w db) p x r \<in> set (proposed_interactions e w p x None db)"
      using r by (auto simp: proposed_interactions_def person_interactions_def Let_def)
    then show ?thesis
      by (auto simp: person_interactions_def assms(1) interaction_of_def Let_def image_iff intro!: bexI)
  qed
  then show ?thesis using same_sources_reads [OF assms(2)] by (simp add: proposed_none)
qed

lemma proposed_none_grows:
  assumes "proposed_interactions e w p x None db = []" "interactions db' = interactions db @ xs" "same_sources db db'"
  shows "proposed_interactions e2 w p x2 None db' = []"
proof -
  have "set (person_interactions w (pe_id p) db) \<subseteq> set (person_interactions w (pe_id p) db')"
    by (auto simp: person_interactions_def assms(2))
  then show ?thesis
    using assms(1) unfolding proposed_none same_sources_reads(1) [OF assms(3)] by blast
qed

section \<open>All confirmed people\<close>

lemma materialize_all_plan:
  "materialize_all e w False ts db = Inr (sum_list (map (\<lambda>(p, x). length (proposed_interactions e w p x None db)) ts), db)"
  by (induction ts) (auto simp: materialize_person_interactions_def)

lemma same_sources_refl: "same_sources db db" by (simp add: same_sources_def)

lemma materialize_all_writes:
  assumes "materialize_all e w True ts db1 = Inr (m, db2)" "same_sources db db1" "distinct (map (\<lambda>t. pe_id (fst t)) ts)"
    and "\<forall>(p, x)\<in>set ts. person_interactions w (pe_id p) db1 = person_interactions w (pe_id p) db"
  shows "m = sum_list (map (\<lambda>(p, x). length (proposed_interactions e w p x None db)) ts)"
  using assms
proof (induction ts arbitrary: m db1)
  case (Cons t ts)
  obtain p x where t: "t = (p, x)" by (cases t)
  from Cons.prems(1) obtain n db' k where 1: "materialize_person_interactions e w p x True None db1 = Inr (n, db')"
      and 2: "materialize_all e w True ts db' = Inr (k, db2)" and m: "m = n + k"
    by (auto simp: t bindE_Inr_iff)
  have eq: "proposed_interactions e w p x None db1 = proposed_interactions e w p x None db"
    by (rule proposed_interactions_same) (use Cons.prems t in auto)
  have db': "db' = db1\<lparr>interactions := interactions db1 @ proposed_interactions e w p x None db\<rparr>"
    using materialize_rows [OF 1] by (simp add: eq)
  have "k = sum_list (map (\<lambda>(p, x). length (proposed_interactions e w p x None db)) ts)"
  proof (rule Cons.IH [OF 2])
    show "same_sources db db'" using Cons.prems(2) by (simp add: db' same_sources_def)
    show "distinct (map (\<lambda>t. pe_id (fst t)) ts)" using Cons.prems(3) by simp
    show "\<forall>(q, y)\<in>set ts. person_interactions w (pe_id q) db' = person_interactions w (pe_id q) db"
    proof (intro ballI, unfold split_paired_all, simp only: prod.case)
      fix q y assume q: "(q, y) \<in> set ts"
      have ne: "pe_id q \<noteq> pe_id p" using Cons.prems(3) q by (force simp: t)
      have "filter (\<lambda>y. in_workspace_id y = w \<and> in_person_id y = pe_id q) (proposed_interactions e w p x None db) = []"
        using ne proposed_person by (fastforce simp: filter_empty_conv)
      then show "person_interactions w (pe_id q) db' = person_interactions w (pe_id q) db"
        using Cons.prems(4) q by (auto simp: person_interactions_def db')
    qed
  qed
  then show ?case using materialize_rows [OF 1] by (simp add: m t eq)
qed simp

lemma materialize_all_complete:
  assumes "materialize_all e w True ts db = Inr (m, db')" "(p, x) \<in> set ts"
  shows "proposed_interactions e2 w p x2 None db' = []"
  using assms
proof (induction ts arbitrary: m db)
  case (Cons t ts)
  obtain q y where t: "t = (q, y)" by (cases t)
  from Cons.prems(1) obtain n db1 k where 1: "materialize_person_interactions e w q y True None db = Inr (n, db1)"
      and 2: "materialize_all e w True ts db1 = Inr (k, db')"
    by (auto simp: t bindE_Inr_iff)
  show ?case
  proof (cases "(p, x) \<in> set ts")
    case True
    then show ?thesis using Cons.IH [OF 2] by blast
  next
    case False
    then have pq: "p = q" "x = y" using Cons.prems(2) t by auto
    have db1: "db1 = db\<lparr>interactions := interactions db @ proposed_interactions e w q y None db\<rparr>"
      using materialize_rows [OF 1] by simp
    have none: "proposed_interactions e2 w p x2 None db1 = []"
      by (rule proposed_written [where db = db and e = e and x = y]) (simp_all add: pq db1 same_sources_def)
    obtain xs where db': "db' = db1\<lparr>interactions := interactions db1 @ xs\<rparr>" using materialize_all_rows [OF 2] by blast
    show ?thesis by (rule proposed_none_grows [OF none]) (simp_all add: db' same_sources_def)
  qed
qed simp

lemma materialize_all_nothing:
  "\<forall>(p, x)\<in>set ts. proposed_interactions e w p x None db = [] \<Longrightarrow> materialize_all e w ap ts db = Inr (0, db)"
  by (induction ts) (auto simp: materialize_person_interactions_def)

section \<open>Members\<close>

lemma plan_member_grows:
  assumes "plan_member ps u \<noteq> ProposePerson"
  shows "plan_member (ps @ qs) u \<noteq> ProposePerson"
proof -
  have "map_of (dict_by pe_user_id ps) (u_id u) \<noteq> None
      \<or> map_of (dict_by (Some \<circ> pe_normalized_email) ps) (fold_email (u_email u)) \<noteq> None"
    using assms by (auto simp: plan_member_def Let_def split: option.splits if_splits)
  then have "map_of (dict_by pe_user_id (ps @ qs)) (u_id u) \<noteq> None
      \<or> map_of (dict_by (Some \<circ> pe_normalized_email) (ps @ qs)) (fold_email (u_email u)) \<noteq> None"
    unfolding dict_by_dom by auto
  then show ?thesis by (auto simp: plan_member_def Let_def split: option.splits)
qed

lemma plan_member_done:
  assumes "u \<in> set us"
  shows "plan_member (ps @ map (member_person e w) us) u \<noteq> ProposePerson"
proof -
  have "map_of (dict_by pe_user_id (ps @ map (member_person e w) us)) (u_id u) \<noteq> None"
    unfolding dict_by_dom using assms by (intro bexI [of _ "member_person e w u"]) (auto simp: member_person_def)
  then show ?thesis by (auto simp: plan_member_def Let_def split: option.splits)
qed

section \<open>What an applied backfill leaves\<close>

lemma backfill_applied:
  assumes "backfill_company_world e w True db = Inr (rep, db')"
  obtains db1 xs where "insert_people (map (member_person e w) (proposed_members w db)) db = Inr db1"
    "materialize_all e w True (map (\<lambda>p. (p, person_organization w db p)) (confirmed_external_people w db)) db1
       = Inr (bf_interactions_written rep, db')"
    "db1 = db\<lparr>people := people db @ map (member_person e w) (proposed_members w db)\<rparr>"
    "db' = db1\<lparr>interactions := interactions db @ xs\<rparr>" "length xs = bf_interactions_written rep"
    "bf_people_written rep = length (proposed_members w db)" "bf_people_proposed rep = length (proposed_members w db)"
    "bf_interactions_proposed rep = sum_list (map (\<lambda>p. length (proposed_interactions e w p (person_organization w db p) None db))
       (confirmed_external_people w db))"
proof -
  from assms obtain db1 where
      1: "insert_people (map (member_person e w) (proposed_members w db)) db = Inr db1"
      and 2: "materialize_all e w True (map (\<lambda>p. (p, person_organization w db p)) (confirmed_external_people w db)) db1
       = Inr (bf_interactions_written rep, db')"
      and 3: "bf_people_written rep = length (proposed_members w db)" "bf_people_proposed rep = length (proposed_members w db)"
      "bf_interactions_proposed rep = sum_list (map (\<lambda>p. length (proposed_interactions e w p (person_organization w db p) None db))
       (confirmed_external_people w db))"
    by (auto simp: backfill_company_world_def Let_def bindE_Inr_iff materialize_all_plan comp_def)
  note db1 = insert_people_rows [OF 1]
  from materialize_all_rows [OF 2] obtain xs where "db' = db1\<lparr>interactions := interactions db1 @ xs\<rparr>"
      "length xs = bf_interactions_written rep" by auto
  then show thesis using that [OF 1 2 db1 _ _ 3, of xs] by (simp add: db1)
qed

lemma confirmed_external_same:
  assumes "people db' = people db @ map (member_person e w) us"
  shows "confirmed_external_people w db' = confirmed_external_people w db"
  by (simp add: confirmed_external_people_def workspace_people_def assms is_confirmed_external_def member_person_def
      filter_empty_conv)

text \<open>C28. The dry run of the backfill changes nothing, and applying it at the same state writes exactly what it announces: as
  many people and interactions as proposed, no other row of any table.\<close>

theorem backfill_writes_its_plan:
  assumes "backfill_company_world e w True db = Inr (report, db')" "world_unique db"
  shows "\<exists>plan ps xs. backfill_company_world e w False db = Inr (plan, db)
    \<and> bf_people_written plan = 0 \<and> bf_interactions_written plan = 0 \<and> \<not> bf_writes_performed plan
    \<and> db' = db\<lparr>people := people db @ ps, interactions := interactions db @ xs\<rparr>
    \<and> length ps = bf_people_proposed plan \<and> bf_people_written report = bf_people_proposed plan
    \<and> length xs = bf_interactions_proposed plan \<and> bf_interactions_written report = bf_interactions_proposed plan"
  using assms(1)
proof (cases rule: backfill_applied)
  case (1 db1 xs)
  let ?ts = "map (\<lambda>p. (p, person_organization w db p)) (confirmed_external_people w db)"
  let ?n = "sum_list (map (\<lambda>(p, x). length (proposed_interactions e w p x None db)) ?ts)"
  obtain plan where plan: "backfill_company_world e w False db = Inr (plan, db)" "bf_people_proposed plan = length (proposed_members w db)"
      "bf_interactions_proposed plan = ?n" "bf_people_written plan = 0" "bf_interactions_written plan = 0" "\<not> bf_writes_performed plan"
    by (auto simp: backfill_company_world_def Let_def materialize_all_plan)
  have "distinct (map pe_id (confirmed_external_people w db))"
    using assms(2) by (simp add: world_unique_def confirmed_external_people_def workspace_people_def distinct_map_filter)
  then have "distinct (map (\<lambda>t. pe_id (fst t)) ?ts)" by (simp add: comp_def)
  then have "bf_interactions_written report = ?n"
    by (intro materialize_all_writes [OF 1(2)]) (auto simp: 1(3) same_sources_def person_interactions_def)
  then show ?thesis using plan 1 by (intro exI [of _ plan] exI [of _ "map (member_person e w) (proposed_members w db)"] exI [of _ xs]) simp
qed

text \<open>C29. The backfill is idempotent: applied again to the database it left, with whatever new identifiers, it
  proposes nothing and changes nothing.\<close>

theorem backfill_is_idempotent:
  assumes "backfill_company_world e w True db = Inr (report, db')"
  shows "\<exists>again. backfill_company_world e2 w True db' = Inr (again, db') \<and> bf_people_proposed again = 0
    \<and> bf_interactions_proposed again = 0 \<and> \<not> bf_writes_performed again"
  using assms
proof (cases rule: backfill_applied)
  case (1 db1 xs)
  let ?new = "map (member_person e w) (proposed_members w db)"
  have ppl: "people db' = people db @ ?new" by (simp add: 1(3,4))
  have ext: "confirmed_external_people w db' = confirmed_external_people w db" by (rule confirmed_external_same [OF ppl])
  have same: "affiliations db' = affiliations db" "organizations db' = organizations db" by (simp_all add: 1(3,4))
  have org: "person_organization w db' p = person_organization w db p" for p
    unfolding person_organization_def same by (rule refl)
  have mem: "list_workspace_members w db' = list_workspace_members w db"
    by (rule same_sources_reads) (simp add: same_sources_def 1(3,4))
  have wp: "workspace_people w db' = workspace_people w db @ ?new"
    by (simp add: workspace_people_def ppl member_person_def comp_def)
  have "plan_member (workspace_people w db @ ?new) u \<noteq> ProposePerson" if "u \<in> set (map fst (list_workspace_members w db))" for u
  proof (cases "u \<in> set (proposed_members w db)")
    case True
    then show ?thesis by (rule plan_member_done)
  next
    case False
    then have "plan_member (workspace_people w db) u \<noteq> ProposePerson" using that by (simp add: proposed_members_def)
    then show ?thesis by (rule plan_member_grows)
  qed
  then have none: "proposed_members w db' = []" unfolding proposed_members_def mem wp filter_empty_conv by blast
  have "materialize_all e2 w ap (map (\<lambda>p. (p, person_organization w db p)) (confirmed_external_people w db)) db' = Inr (0, db')" for ap
  proof (rule materialize_all_nothing, intro ballI, unfold split_paired_all, simp only: prod.case)
    fix p x
    assume "(p, x) \<in> set (map (\<lambda>p. (p, person_organization w db p)) (confirmed_external_people w db))"
    then show "proposed_interactions e2 w p x None db' = []" by (rule materialize_all_complete [OF 1(2)])
  qed
  then show ?thesis by (simp add: backfill_company_world_def Let_def none ext org)
qed

end
