(* ===== verification/World_Confirmations.thy ===== *)
theory World_Confirmations
  imports World_Candidates World_Backfill
begin

text \<open>
  What a confirmation leaves behind: an interaction for every message of the evidence, and a
  candidate that is not proposed again.
\<close>

section \<open>The evidence names the person\<close>

lemma mailboxes_cleaned:
  "set (mailboxes (PList (map PStr (safe_string_list v)))) \<subseteq> set (mailboxes v)"
proof
  fix mb assume "mb \<in> set (mailboxes (PList (map PStr (safe_string_list v))))"
  then obtain t where t: "t \<in> set (safe_string_list v)" and mb: "parse_mailbox (PStr t) = Some mb"
    by (auto simp: mailboxes_def map_filter_mem)
  then obtain vs item where v: "v = PList vs" and item: "item \<in> set (take 40 vs)" "world_text item = Some t"
    by (auto simp: safe_string_list_def map_filter_mem split: pyval.splits)
  have "parse_mailbox item = Some mb" using parse_mailbox_cleaned [of item] mb item(2) by simp
  moreover have "item \<in> set vs" using item(1) by (rule in_set_takeD)
  ultimately show "mb \<in> set (mailboxes v)" by (auto simp: v mailboxes_def map_filter_mem)
qed

lemma payload_emails:
  assumes "email \<in> message_emails (gmail_message_payload r)"
  shows "email \<in> snd ` set (record_mailboxes r)"
proof -
  let ?m = "normalized_message r"
  have s: "message_sender (gmail_message_payload r) = parse_mailbox (py_get ?m ''from_address'')"
    by (simp add: message_sender_def gmail_message_payload_def Let_def parse_mailbox_cleaned)
  have rc: "message_recipients (gmail_message_payload r) = mailboxes (PList (map PStr (safe_string_list (py_get ?m ''to_addresses''))))"
    by (simp add: message_recipients_def gmail_message_payload_def Let_def)
  show ?thesis
    using assms mailboxes_cleaned [of "py_get ?m ''to_addresses''"]
    unfolding message_emails_def message_mailboxes_def record_mailboxes_def s rc by auto
qed

lemma resolved_person_candidate:
  assumes "resolve_candidate e w ''external_person'' k db = Inr cand"
  obtains p cm where "cand = PersonCandidate p"
    "build_workspace_company_map e w \<lparr> mq_limit = 100, mq_include_durable = False, mq_resolution_only = False,
       mq_access_role = None \<rparr> db = Inr cm" "p \<in> set (cm_external_candidates cm)" "xp_key p = k"
proof -
  from assms obtain cm p where b: "build_workspace_company_map e w \<lparr> mq_limit = 100, mq_include_durable = False,
       mq_resolution_only = False, mq_access_role = None \<rparr> db = Inr cm"
      and f: "find (\<lambda>p. xp_key p = k) (cm_external_candidates cm) = Some p" and c: "cand = PersonCandidate p"
    by (auto simp: resolve_candidate_def bindE_Inr_iff require_some_Inr_iff)
  from that [OF c b] find_Some_mem [OF f] find_Some_holds [OF f] show thesis by blast
qed

text \<open>Each evidence record of a person candidate is a message the person takes part in.\<close>

lemma candidate_takes_part:
  assumes "resolve_candidate e w ''external_person'' k db = Inr (PersonCandidate p)"
    and "\<forall>r\<in>set (source_records db). sr_id r < 2 ^ 128" "i \<in> set (candidate_evidence (PersonCandidate p))"
  shows "\<exists>r\<in>set (gmail_records w db). sr_id r = i \<and> xp_email p \<in> message_emails (gmail_message_payload r)"
  using assms(1)
proof (cases rule: resolved_person_candidate)
  case (1 p' cm)
  have "set (candidate_evidence (PersonCandidate p))
      = sr_id ` {r \<in> set (message_window w 100 db). xp_email p \<in> message_emails (gmail_message_payload r)}"
    using candidates_rows [OF 1(2) _ assms(2)] 1(1,3) by auto
  then show ?thesis using assms(3) message_window_subset by fastforce
qed

section \<open>Rows of a confirmation\<close>

lemma get_person_rows:
  assumes "get_or_create_external_person e w a p n db = Inr (person, db')"
  shows "pe_normalized_email person = fold_email (xp_email p) \<and> pe_workspace_id person = w
    \<and> same_sources db db' \<and> interactions db' = interactions db"
proof (cases "find (\<lambda>x. person_key x = (w, fold_email (xp_email p))) (people db)")
  case (Some x)
  then show ?thesis
    using assms find_Some_holds [OF Some] by (auto simp: get_or_create_external_person_def Let_def person_key_def same_sources_def)
next
  case None
  then show ?thesis
    using assms by (auto simp: get_or_create_external_person_def Let_def bindE_Inr_iff insert_iffs same_sources_def)
qed

lemma get_affiliation_rows:
  assumes "get_or_create_affiliation e w a p x s t r db = Inr (f, db')"
  shows "same_sources db db' \<and> interactions db' = interactions db"
  using assms by (auto simp: get_or_create_affiliation_def Let_def bindE_Inr_iff insert_iffs same_sources_def split: option.splits)

lemma confirmed_interactions:
  assumes "confirm_person e w a c p source db = Inr (rows, db')" "fold_email (xp_email p) = xp_email p" "xp_email p \<noteq> []"
    and "\<forall>i\<in>set (candidate_evidence (PersonCandidate p)). \<exists>r\<in>set (gmail_records w db). sr_id r = i
           \<and> xp_email p \<in> snd ` set (record_mailboxes r)"
  shows "\<exists>person xs. cr_person rows = Some person \<and> interactions db' = interactions db @ xs
    \<and> length xs = cr_interaction_count rows
    \<and> (\<forall>x\<in>set xs. in_person_id x = pe_id person \<and> in_source_record_id x \<in> set (candidate_evidence (PersonCandidate p)))
    \<and> (\<forall>i\<in>set (candidate_evidence (PersonCandidate p)). \<exists>x\<in>set (interactions db'). interaction_key x = (w, i, pe_id person))"
  using assms(1)
proof (cases rule: confirm_person_cases)
  case (1 x person db1 af db2 n)
  let ?ids = "set (candidate_evidence (PersonCandidate p))"
  let ?new = "proposed_interactions e w person x (Some ?ids) db2"
  have 2: "same_sources db db2 \<and> interactions db2 = interactions db"
    using get_person_rows [OF 1(2)] 1(3) get_affiliation_rows by (fastforce simp: same_sources_def)
  have email: "fold_email (pe_normalized_email person) = xp_email p"
    using get_person_rows [OF 1(2)] assms(2) by simp
  have db': "interactions db' = interactions db @ ?new" using materialize_rows [OF 1(4)] 2 by simp
  have new: "in_person_id y = pe_id person \<and> in_source_record_id y \<in> ?ids" if "y \<in> set ?new" for y
    using that by (auto simp: proposed_interactions_def interaction_of_def Let_def split: if_splits)
  have every: "\<exists>y\<in>set (interactions db'). interaction_key y = (w, i, pe_id person)" if i: "i \<in> ?ids" for i
  proof -
    obtain r where r: "r \<in> set (gmail_records w db2)" "sr_id r = i" "xp_email p \<in> snd ` set (record_mailboxes r)"
      using assms(4) i unfolding same_sources_reads(1) [OF conjunct1 [OF 2]] by blast
    show ?thesis
    proof (cases "i \<in> in_source_record_id ` set (filter (\<lambda>y. in_workspace_id y = w \<and> in_person_id y = pe_id person) (interactions db2))")
      case True
      then show ?thesis using 2 by (auto simp: db' interaction_key_def)
    next
      case False
      then have "interaction_of e w (internal_email_set w db2) person x r \<in> set ?new"
        using r i assms(3) by (auto simp: proposed_interactions_def Let_def email)
      then show ?thesis using r(2) by (intro bexI [where x = "interaction_of e w (internal_email_set w db2) person x r"])
          (auto simp: db' interaction_key_def interaction_of_def Let_def)
    qed
  qed
  show ?thesis
    using 1(5) db' new every materialize_rows [OF 1(4)]
    by (intro exI [of _ person] exI [of _ ?new]) auto
qed

text \<open>C25. Confirming an external person records an interaction of that person for every message of
  the candidate's evidence that has none yet, counts them, and records no others.\<close>

theorem confirmation_records_every_message:
  assumes "resolve_company_world_candidate e w a c seen db = Inr (receipt, db')" "\<not> rr_replayed receipt"
    and "rc_candidate_type c = ''external_person''" "rc_decision c = ''confirmed''"
    and "\<forall>r\<in>set (source_records db). sr_id r < 2 ^ 128"
  shows "\<exists>p person_id xs. resolve_candidate e w ''external_person'' (rc_candidate_key c) db = Inr (PersonCandidate p)
    \<and> rr_person_id receipt = Some person_id \<and> interactions db' = interactions db @ xs
    \<and> length xs = rr_interaction_count receipt
    \<and> (\<forall>x\<in>set xs. in_person_id x = person_id \<and> in_source_record_id x \<in> set (candidate_evidence (PersonCandidate p)))
    \<and> (\<forall>i\<in>set (candidate_evidence (PersonCandidate p)).
         \<exists>x\<in>set (interactions db'). interaction_key x = (w, i, person_id))"
  using assms(1)
proof (cases rule: resolve_cases)
  case (replayed r ev)
  then show ?thesis using assms(2) by (simp add: receipt_for_resolution_def)
next
  case (decided cand records source rows db1 db2 ev)
  have rc: "resolve_candidate e w ''external_person'' (rc_candidate_key c) db = Inr cand"
    using current_candidate_Inr(1) [OF decided(3)] assms(3) by simp
  then obtain p where p: "cand = PersonCandidate p" by (cases rule: resolved_person_candidate) blast
  note part = candidate_takes_part [OF rc [unfolded p] assms(5)]
  obtain i where "i \<in> set (candidate_evidence (PersonCandidate p))"
    using primary_source_Inr [OF decided(4)] p by blast
  then have folded: "fold_email (xp_email p) = xp_email p" "xp_email p \<noteq> []" using part message_email_folded by blast+
  have conf: "confirm_person e w a c p source db = Inr (rows, db1)"
    using decided(5) assms(4) by (simp add: confirm_candidate_def p)
  have evidence: "\<forall>i\<in>set (candidate_evidence (PersonCandidate p)). \<exists>r\<in>set (gmail_records w db). sr_id r = i
           \<and> xp_email p \<in> snd ` set (record_mailboxes r)"
    using part payload_emails by blast
  have "interactions db' = interactions db1"
    using decided(6) append_resolution_event_rows [OF decided(7)] by (auto simp: insert_iffs)
  then show ?thesis
    using confirmed_interactions [OF conf folded evidence] rc by (auto simp: decided(8) p)
qed

section \<open>Resolved candidates\<close>

lemma resolved_is_hidden:
  assumes "build_workspace_company_map e w q db = Inr cm" "mq_include_durable q \<or> mq_resolution_only q"
    and "r \<in> set (resolutions db)" "rs_workspace_id r = w"
  shows "(rs_candidate_type r = ''external_person'' \<longrightarrow> rs_candidate_key r \<notin> xp_key ` set (cm_external_candidates cm))
    \<and> (rs_candidate_type r = ''organization'' \<longrightarrow> rs_candidate_key r \<notin> xo_key ` set (cm_organizations cm))"
proof -
  let ?pair = "(rs_candidate_type r, rs_candidate_key r)"
  have r: "?pair \<in> (\<lambda>r. (rs_candidate_type r, rs_candidate_key r)) ` set (workspace_resolutions w db)"
    using assms(3,4) by (force simp: workspace_resolutions_def)
  have full: "dr_resolved_candidates (durable_company_world_rows w db)
      = (\<lambda>r. (rs_candidate_type r, rs_candidate_key r)) ` set (workspace_resolutions w db)"
    by (simp add: durable_company_world_rows_def Let_def)
  have bounded: "?pair \<in> dr_resolved_candidates (resolution_only_rows w ks gs db)"
    if "?pair \<in> Pair ''external_person'' ` ks \<union> Pair ''organization'' ` gs" for ks gs
    using r that by (auto simp: resolution_only_rows_def Let_def)
  from assms(1) obtain ks gs d where
      d: "d = (if mq_resolution_only q then resolution_only_rows w (xp_key ` ks) (xo_key ` gs) db
         else if mq_include_durable q then durable_company_world_rows w db else empty_durable_rows)"
      "set (cm_external_candidates cm) \<subseteq> {p \<in> ks. (''external_person'', xp_key p) \<notin> dr_resolved_candidates d}"
      "set (cm_organizations cm) \<subseteq> {g \<in> gs. (''organization'', xo_key g) \<notin> dr_resolved_candidates d}"
    unfolding build_workspace_company_map_def bindE_Inr_iff Let_def by fastforce
  have "?pair \<notin> Pair ''external_person'' ` xp_key ` set (cm_external_candidates cm)
      \<union> Pair ''organization'' ` xo_key ` set (cm_organizations cm)"
  proof (cases "mq_resolution_only q")
    case True
    then show ?thesis using d bounded [of "xp_key ` ks" "xo_key ` gs"] by auto
  next
    case False
    then have "?pair \<in> dr_resolved_candidates d" using d(1) assms(2) full r by simp
    then show ?thesis using d(2,3) by auto
  qed
  then show ?thesis by (auto simp: image_iff)
qed

text \<open>C26. A resolved candidate never comes back: after a resolution was answered, and whatever happens to Company World
  and to the other tables since, neither the map nor the bounded projection lists the candidate.\<close>

theorem resolved_candidate_never_returns:
  assumes "resolve_company_world_candidate e w a c seen db = Inr (receipt, db')" "world_unique db"
    and "run world_step db' db''"
    and "build_workspace_company_map e2 w q db'' = Inr cm" "mq_include_durable q \<or> mq_resolution_only q"
    and "rs_workspace_id (rr_resolution receipt) = w"
  shows "(rs_candidate_type (rr_resolution receipt) = ''external_person'' \<longrightarrow>
      rs_candidate_key (rr_resolution receipt) \<notin> xp_key ` set (cm_external_candidates cm))
    \<and> (rs_candidate_type (rr_resolution receipt) = ''organization'' \<longrightarrow>
      rs_candidate_key (rr_resolution receipt) \<notin> xo_key ` set (cm_organizations cm))"
proof (rule resolved_is_hidden [OF assms(4,5) _ assms(6)])
  have "rr_resolution receipt \<in> set (resolutions db')"
    using assms(1)
  proof (cases rule: resolve_cases)
    case (replayed r ev)
    then show ?thesis using append_resolution_event_rows [OF replayed(4)] by (auto simp: receipt_for_resolution_def)
  next
    case (decided cand records source rows db1 db2 ev)
    then show ?thesis using append_resolution_event_rows [OF decided(7)] by (auto simp: insert_iffs)
  qed
  then show "rr_resolution receipt \<in> set (resolutions db'')"
    using world_run_grows [OF assms(3) unique_resolve [OF assms(1,2)]] by (auto simp: tables_grow_def)
qed

end
