(* ===== verification/Mailbox_Fuel.thy ===== *)
theory Mailbox_Fuel
  imports Mailbox_Parsing
begin

text \<open>
  The fuel of the address parser is enough: reading an address of a text that is not empty
  shortens it, so no loop of \<^verbatim>\<open>email.utils.parseaddr\<close> runs out, whatever the text.
\<close>

section \<open>No routine lengthens the text\<close>

lemma route_length: "route e k s = (a, k', r) \<Longrightarrow> length r \<le> length s"
proof (induction e k s arbitrary: a k' r rule: route.induct)
  case (2 e k c cs)
  obtain d k1 r1 where d: "getdomain [] [] (c # cs) = (d, k1, r1)" by (cases "getdomain [] [] (c # cs)")
  obtain w2 k2 r2 where g: "gotonext r1 = (w2, k2, r2)" by (cases "gotonext r1")
  obtain w3 k3 r3 where n: "gotonext cs = (w3, k3, r3)" by (cases "gotonext cs")
  obtain a4 k4 r4 where ad: "getaddrspec (c # cs) = (a4, k4, r4)" by (cases "getaddrspec (c # cs)")
  note lens = domain_length [OF d] gotonext_length [OF g] gotonext_length [OF n] addrspec_length [OF ad]
  note IH = "2.IH"(1) [OF _ d [symmetric] refl g [symmetric] refl]
    "2.IH"(2) [OF _ _ _ n [symmetric] refl] "2.IH"(3) [OF _ _ _ _ n [symmetric] refl]
  consider "e" | "\<not> e" "c = CHR ''>''" | "\<not> e" "c \<noteq> CHR ''>''" "c = CHR ''@''"
    | "\<not> e" "c \<noteq> CHR ''>''" "c \<noteq> CHR ''@''" "c = CHR '':''"
    | "\<not> e" "c \<noteq> CHR ''>''" "c \<noteq> CHR ''@''" "c \<noteq> CHR '':''" by blast
  then show ?case
  proof cases
    case 1
    then show ?thesis using "2.prems" IH(1) [OF 1] lens(1,2) by (simp add: d g)
  next
    case 2
    then show ?thesis using \<open>route e k (c # cs) = (a, k', r)\<close> by simp
  next
    case c: 3
    then show ?thesis using \<open>route e k (c # cs) = (a, k', r)\<close> IH(2) [OF c] lens(3) by (simp add: n)
  next
    case c: 4
    then show ?thesis using \<open>route e k (c # cs) = (a, k', r)\<close> IH(3) [OF c] lens(3) by (simp add: n)
  next
    case 5
    then show ?thesis using \<open>route e k (c # cs) = (a, k', r)\<close> lens(4) by (auto simp: ad)
  qed
qed simp

lemma routeaddr_length:
  assumes "getrouteaddr s = (a, k, r)"
  shows "length r \<le> length s - 1"
proof -
  obtain w k0 r0 where "gotonext (tl s) = (w, k0, r0)" by (cases "gotonext (tl s)")
  then show ?thesis
    using assms route_length [of False k0 r0 a k r] gotonext_length [of "tl s" w k0 r0]
    by (simp add: getrouteaddr_def)
qed

text \<open>What \<^const>\<open>getaddress\<close> finds after the phrases.\<close>

definition address_parts ::
  "string \<Rightarrow> string \<times> string list \<times> string list \<times> string" where
  "address_parts s = (case gotonext s of (_, k0, r0) \<Rightarrow> case getphraselist r0 of (plist, k1, r1) \<Rightarrow>
     case gotonext r1 of (_, k2, r2) \<Rightarrow> (r0, plist, k0 @ k1 @ k2, r2))"

definition address_found ::
  "nat \<Rightarrow> string \<Rightarrow> string list \<Rightarrow> string list \<Rightarrow> string \<Rightarrow> (string \<times> string) list \<times> string" where
  "address_found n r0 plist k r2 =
     (if r2 = [] then (if plist = [] then [] else [(join '' '' k, hd plist)], r2)
      else if hd r2 = CHR ''.'' \<or> hd r2 = CHR ''@'' then
        (case getaddrspec r0 of (a, k3, r) \<Rightarrow> ([(join '' '' (k @ k3), a)], r))
      else if hd r2 = CHR '':'' then getgroup n (tl r2)
      else if hd r2 = CHR ''<'' then
        (case getrouteaddr r2 of (a, k3, r) \<Rightarrow>
          ([(if k @ k3 = [] then join '' '' plist
             else join '' '' plist @ '' ('' @ join '' '' (k @ k3) @ '')'', a)], r))
      else if plist \<noteq> [] then ([(join '' '' k, hd plist)], r2)
      else if hd r2 \<in> set SPECIALS then ([], tl r2) else ([], r2))"

definition after_address :: "string \<Rightarrow> string" where
  "after_address r = (let r4 = snd (snd (gotonext r)) in if r4 \<noteq> [] \<and> hd r4 = CHR '','' then tl r4 else r4)"

lemma getaddress_eq:
  "getaddress (Suc n) s = (case address_parts s of (r0, plist, k, r2) \<Rightarrow>
     apsnd after_address (address_found n r0 plist k r2))"
  by (simp add: address_parts_def address_found_def after_address_def Let_def apsnd_def map_prod_def
      case_prod_beta)

declare getaddress.simps(2) [simp del]

lemma after_address_length: "length (after_address r) \<le> length r"
proof -
  have "length (snd (snd (gotonext r))) \<le> length r"
    using gotonext_length [of r] by (cases "gotonext r") auto
  then show ?thesis by (auto simp: after_address_def Let_def intro: le_trans [of _ "length (snd (snd (gotonext r)))"])
qed

lemma address_parts_length:
  assumes "address_parts s = (r0, plist, k, r2)"
  shows "length r0 \<le> length s \<and> length r2 \<le> length r0"
proof -
  obtain w k0 r where a: "gotonext s = (w, k0, r)" by (cases "gotonext s")
  obtain pl k1 r1 where b: "getphraselist r = (pl, k1, r1)" by (cases "getphraselist r")
  obtain w' k2 r' where c: "gotonext r1 = (w', k2, r')" by (cases "gotonext r1")
  show ?thesis
    using assms gotonext_length [OF a] phraselist_length [OF b] gotonext_length [OF c]
    by (auto simp: address_parts_def a b c)
qed

lemma address_found_length:
  assumes group: "\<And>t. length (snd (getgroup n t)) \<le> length t" and r2: "length r2 \<le> length r0"
  shows "length (snd (address_found n r0 plist k r2)) \<le> length r0"
proof -
  obtain a1 k1 r1 where a: "getaddrspec r0 = (a1, k1, r1)" by (cases "getaddrspec r0")
  obtain a3 k3 r3 where ro: "getrouteaddr r2 = (a3, k3, r3)" by (cases "getrouteaddr r2")
  show ?thesis
    using addrspec_length [OF a] routeaddr_length [OF ro] group [of "tl r2"] r2
    by (auto simp: address_found_def a ro)
qed

lemma length_step:
  assumes A: "\<And>s. length (snd (getaddress n s)) \<le> length s" and G: "\<And>s. length (snd (getgroup n s)) \<le> length s"
  shows "length (snd (getaddress (Suc n) s)) \<le> length s \<and> length (snd (getgroup (Suc n) t)) \<le> length t"
proof
  obtain r0 pl k r2 where p: "address_parts s = (r0, pl, k, r2)" by (cases "address_parts s")
  have "length (snd (getaddress (Suc n) s)) \<le> length (snd (address_found n r0 pl k r2))"
    by (simp add: getaddress_eq p apsnd_def map_prod_def after_address_length case_prod_beta)
  also have "\<dots> \<le> length r0"
    by (rule address_found_length) (use G address_parts_length [OF p] in auto)
  finally show "length (snd (getaddress (Suc n) s)) \<le> length s" using address_parts_length [OF p] by linarith
next
  obtain w k r where g: "gotonext t = (w, k, r)" by (cases "gotonext t")
  have "length (snd (getgroup n (snd (getaddress n r)))) \<le> length r"
    using A [of r] G [of "snd (getaddress n r)"] by linarith
  then show "length (snd (getgroup (Suc n) t)) \<le> length t"
    using gotonext_length [OF g] by (auto simp: g Let_def split: prod.splits)
qed

lemma address_group_length:
  "(\<forall>s. length (snd (getaddress n s)) \<le> length s) \<and> (\<forall>s. length (snd (getgroup n s)) \<le> length s)"
proof (induction n)
  case (Suc n)
  then show ?case using length_step [of n] by blast
qed simp

lemma address_length: "length (snd (getaddress n s)) \<le> length s"
  and group_length: "length (snd (getgroup n s)) \<le> length s"
  using address_group_length [of n] by blast+

section \<open>Reading an address shortens the text\<close>

lemma gotonext_stops: "s \<noteq> [] \<Longrightarrow> hd s \<notin> set LWS \<Longrightarrow> hd s \<notin> set CRLF \<Longrightarrow> hd s \<noteq> CHR ''('' \<Longrightarrow> gotonext s = ([], [], s)"
  by (cases s) auto

lemma gotonext_rest:
  "gotonext s = (w, k, r) \<Longrightarrow> r = [] \<or> (hd r \<notin> set LWS \<and> hd r \<notin> set CRLF \<and> hd r \<noteq> CHR ''('')"
proof (induction s arbitrary: w k r rule: gotonext.induct)
  case (2 c cs)
  obtain w1 k1 r1 where blank: "gotonext cs = (w1, k1, r1)" by (cases "gotonext cs")
  obtain t2 r2 where note_text: "getcomment cs = (t2, r2)" by (cases "getcomment cs")
  obtain w3 k3 r3 where after: "gotonext r2 = (w3, k3, r3)" by (cases "gotonext r2")
  show ?case
    using "2.prems" "2.IH"(1) [OF _ blank] "2.IH"(2) [OF _ _ note_text [symmetric] after]
    by (cases "c \<in> set LWS \<or> c \<in> set CRLF"; cases "c = CHR ''(''") (auto simp: blank note_text after)
qed simp

lemma gotonext_same: "gotonext s = (w, k, r) \<Longrightarrow> r = s \<or> length r < length s"
proof (cases s)
  case (Cons c cs)
  obtain w1 k1 r1 where blank: "gotonext cs = (w1, k1, r1)" by (cases "gotonext cs")
  obtain t2 r2 where note_text: "getcomment cs = (t2, r2)" by (cases "getcomment cs")
  obtain w3 k3 r3 where after: "gotonext r2 = (w3, k3, r3)" by (cases "gotonext r2")
  assume "gotonext s = (w, k, r)"
  then show ?thesis
    using gotonext_length [OF blank] gotonext_length [OF after] lexical_length(2) [OF note_text]
    by (cases "c \<in> set LWS \<or> c \<in> set CRLF"; cases "c = CHR ''(''") (auto simp: Cons blank note_text after)
qed simp

lemma phrase_end_special: "c \<in> set PHRASE_ENDS \<Longrightarrow> c \<notin> set LWS \<Longrightarrow> c \<notin> set CRLF \<Longrightarrow> c \<in> set SPECIALS"
  by (auto simp: PHRASE_ENDS_def ATOM_ENDS_def)

text \<open>The first character decides whether there are phrases before the address.\<close>

lemma phraselist_first:
  assumes "s \<noteq> []" "hd s \<notin> set LWS" "hd s \<notin> set CRLF" "hd s \<noteq> CHR ''(''" "getphraselist s = (pl, k, r)"
  shows "(pl = [] \<and> k = [] \<and> r = s \<and> hd s \<in> set PHRASE_ENDS \<and> hd s \<noteq> DQUOTE)
    \<or> (length r < length s \<and> (hd s = DQUOTE \<or> hd s \<notin> set PHRASE_ENDS))"
proof (cases s)
  case (Cons c cs)
  obtain t r1 where q: "getquote cs = (t, r1)" by (cases "getquote cs")
  obtain t2 r2 where a: "getatom PHRASE_ENDS (c # cs) = (t2, r2)" by (cases "getatom PHRASE_ENDS (c # cs)")
  obtain p1 k1 s1 where g1: "getphraselist r1 = (p1, k1, s1)" by (cases "getphraselist r1")
  obtain p2 k2 s2 where g2: "getphraselist r2 = (p2, k2, s2)" by (cases "getphraselist r2")
  show ?thesis
    using assms lexical_length(1) [OF q] getatom_shorter [OF _ a] phraselist_length [OF g1] phraselist_length [OF g2]
    by (auto simp: Cons q a g1 g2 split: if_splits)
qed (use assms in simp)

lemma local_part_shorter:
  assumes "s \<noteq> []" "hd s = CHR ''.'' \<or> hd s = DQUOTE \<or> hd s \<notin> set ATOM_ENDS" "local_part ps k s = (ps', k', r)"
  shows "length r < length s"
proof (cases s)
  case (Cons c cs)
  obtain w1 k1 r1 where dot: "gotonext cs = (w1, k1, r1)" by (cases "gotonext cs")
  obtain t2 r2 where quote: "getquote cs = (t2, r2)" by (cases "getquote cs")
  obtain w2 k2 s2 where after_q: "gotonext r2 = (w2, k2, s2)" by (cases "gotonext r2")
  obtain t3 r3 where atom: "getatom ATOM_ENDS (c # cs) = (t3, r3)" by (cases "getatom ATOM_ENDS (c # cs)")
  obtain w3 k3 s3 where after_a: "gotonext r3 = (w3, k3, s3)" by (cases "gotonext r3")
  note lens = gotonext_length [OF dot] gotonext_length [OF after_q] gotonext_length [OF after_a]
    lexical_length(1) [OF quote] getatom_shorter [OF _ atom]
  have out: "length r \<le> length (if c = CHR ''.'' then r1 else if c = DQUOTE then s2 else s3)"
    using assms by (auto simp: Cons local_part.simps(2) dot quote after_q atom after_a split: if_splits
        dest: local_part_length)
  show ?thesis using assms(1,2) lens out by (auto simp: Cons split: if_splits)
qed (use assms in simp)

lemma addrspec_shorter:
  assumes "s \<noteq> []" "hd s \<notin> set LWS" "hd s \<notin> set CRLF" "hd s \<noteq> CHR ''(''"
    "hd s \<in> {CHR ''.'', CHR ''@'', DQUOTE} \<or> hd s \<notin> set ATOM_ENDS" "getaddrspec s = (a, k, r)"
  shows "length r < length s"
proof -
  have g: "gotonext s = ([], [], s)" by (rule gotonext_stops) (use assms in auto)
  obtain ps k1 r1 where l: "local_part [] [] s = (ps, k1, r1)" by (cases "local_part [] [] s")
  obtain w2 k2 r2 where g2: "gotonext (tl r1) = (w2, k2, r2)" by (cases "gotonext (tl r1)")
  obtain d k3 r3 where d: "getdomain [] [] r2 = (d, k3, r3)" by (cases "getdomain [] [] r2")
  note lens = local_part_length [OF l] gotonext_length [OF g2] domain_length [OF d]
  have at: "CHR ''@'' \<noteq> DQUOTE \<and> CHR ''@'' \<in> set ATOM_ENDS" by (simp add: DQUOTE_def ATOM_ENDS_def SPECIALS_def)
  show ?thesis
  proof (cases "hd s = CHR ''@''")
    case True
    then have "r1 = s" using l assms(1) at by (cases s) (simp_all add: local_part.simps(2))
    then have "r1 \<noteq> []" "hd r1 = CHR ''@''" "length (tl r1) < length s" using assms(1) True by simp_all
    moreover from this have "r = r3" using assms(6) by (simp add: getaddrspec_def g l g2 d)
    ultimately show ?thesis using lens by simp
  next
    case False
    then have "length r1 < length s" using local_part_shorter [OF assms(1) _ l] assms(5) by auto
    then show ?thesis using assms(6) lens by (auto simp: getaddrspec_def g l g2 d split: if_splits)
  qed
qed


lemma atom_ends_cases:
  "c \<in> set ATOM_ENDS \<Longrightarrow> c \<notin> set LWS \<Longrightarrow> c \<notin> set CRLF \<Longrightarrow> c \<noteq> CHR ''.'' \<Longrightarrow> c \<in> set PHRASE_ENDS"
  by (auto simp: PHRASE_ENDS_def)

lemma address_found_shorter:
  assumes "address_parts s = (r0, plist, k, r2)" "s \<noteq> []"
  shows "length (snd (address_found n r0 plist k r2)) < length s"
proof -
  obtain w k0 r where a: "gotonext s = (w, k0, r)" by (cases "gotonext s")
  obtain pl k1 r1 where b: "getphraselist r = (pl, k1, r1)" by (cases "getphraselist r")
  obtain w' k2 r' where c: "gotonext r1 = (w', k2, r')" by (cases "gotonext r1")
  have eqs: "r0 = r" "plist = pl" "r2 = r'" using assms(1) by (auto simp: address_parts_def a b c)
  have same: "r' = r1" if "r1 \<noteq> []"
    using gotonext_stops [of r1] phraselist_rest [OF b] c that by auto
  have sp: "hd r' \<in> set SPECIALS" if "r' \<noteq> []"
    using phraselist_rest [OF b] phrase_end_special same that c by (cases "r1 = []") auto
  obtain a1 k4 s1 where ad: "getaddrspec r = (a1, k4, s1)" by (cases "getaddrspec r")
  obtain a3 k3 s3 where ro: "getrouteaddr r' = (a3, k3, s3)" by (cases "getrouteaddr r'")
  note len = gotonext_length [OF a] phraselist_length [OF b] gotonext_length [OF c]
    routeaddr_length [OF ro] group_length [of n "tl r'"]
  show ?thesis
  proof (cases "r = []")
    case True
    then have "pl = [] \<and> r1 = []" using b by simp
    then show ?thesis using c assms(2) by (simp add: eqs address_found_def)
  next
    case False
    note first = gotonext_rest [OF a]
    have ph: "(pl = [] \<and> r1 = r \<and> hd r \<in> set PHRASE_ENDS) \<or> length r1 < length r"
      using phraselist_first [OF False _ _ _ b] first False by auto
    have spec: "length s1 < length r" if "r' \<noteq> []" "hd r' = CHR ''.'' \<or> hd r' = CHR ''@''"
    proof (rule addrspec_shorter [OF False _ _ _ _ ad])
      have "r1 \<noteq> []" using c that(1) by auto
      then have "hd r = CHR ''@'' \<or> hd r = DQUOTE \<or> hd r \<notin> set PHRASE_ENDS"
        using phraselist_first [OF False _ _ _ b] first False same that by (auto simp: PHRASE_ENDS_def)
      then show "hd r \<in> {CHR ''.'', CHR ''@'', DQUOTE} \<or> hd r \<notin> set ATOM_ENDS"
        using atom_ends_cases [of "hd r"] first False by auto
    qed (use first False in auto)
    have rest: "length s3 < length s \<and> length (snd (getgroup n (tl r'))) < length s \<and> length (tl r') < length s"
      if "r' \<noteq> []"
    proof -
      have "0 < length r'" using that by simp
      moreover have "length (tl r') = length r' - 1" by simp
      ultimately show ?thesis using len by linarith
    qed
    have "length r1 < length s \<or> r' \<noteq> []" using ph c len(1) False same by (cases "r1 = []") auto
    moreover have "length r' < length s" if "pl \<noteq> []" using ph that len by auto
    moreover have "length s1 < length s" if "r' \<noteq> []" "hd r' = CHR ''.'' \<or> hd r' = CHR ''@''"
      using spec [OF that] len(1) by linarith
    ultimately show ?thesis
      using rest sp len(3) assms(2) by (auto simp: eqs address_found_def ad ro)
  qed
qed

lemma address_shorter:
  assumes "s \<noteq> []"
  shows "length (snd (getaddress (Suc n) s)) < length s"
proof -
  obtain r0 pl k r2 where p: "address_parts s = (r0, pl, k, r2)" by (cases "address_parts s")
  have "length (snd (getaddress (Suc n) s)) \<le> length (snd (address_found n r0 pl k r2))"
    by (simp add: getaddress_eq p apsnd_def map_prod_def after_address_length case_prod_beta)
  then show ?thesis using address_found_shorter [OF p assms] by (rule le_less_trans)
qed

section \<open>The fuel is enough\<close>

lemma address_found_fuel:
  "(r2 \<noteq> [] \<Longrightarrow> getgroup n (tl r2) = getgroup m (tl r2)) \<Longrightarrow>
     address_found n r0 pl k r2 = address_found m r0 pl k r2"
  by (simp add: address_found_def)

lemma fuel_enough:
  "(2 * length s < n \<and> 2 * length s < m \<longrightarrow> getaddress n s = getaddress m s)
     \<and> (2 * length s + 1 < n \<and> 2 * length s + 1 < m \<longrightarrow> getgroup n s = getgroup m s)"
proof (induction "length s" arbitrary: s n m rule: less_induct)
  case less
  have address: "getaddress n s = getaddress m s" if nm: "2 * length s < n" "2 * length s < m" for n m
  proof -
    obtain n' m' where S: "n = Suc n'" "m = Suc m'" using nm by (metis less_nat_zero_code not0_implies_Suc)
    obtain r0 pl k r2 where p: "address_parts s = (r0, pl, k, r2)" by (cases "address_parts s")
    have "getgroup n' (tl r2) = getgroup m' (tl r2)" if "r2 \<noteq> []"
    proof -
      have l: "length (tl r2) < length s" using address_parts_length [OF p] that by (cases r2) auto
      then have "2 * length (tl r2) + 1 < n' \<and> 2 * length (tl r2) + 1 < m'" using nm S by linarith
      then show ?thesis using less [OF l, of n' m'] by blast
    qed
    then show ?thesis
      using address_found_fuel [of r2 n' m' r0 pl k] by (simp add: S getaddress_eq p)
  qed
  have "getgroup n s = getgroup m s" if nm: "2 * length s + 1 < n" "2 * length s + 1 < m" for n m
  proof (cases "s = []")
    case True
    then show ?thesis using nm by (cases n; cases m) auto
  next
    case False
    obtain n' m' where S: "n = Suc n'" "m = Suc m'" using nm by (metis less_nat_zero_code not0_implies_Suc)
    obtain w k r where g: "gotonext s = (w, k, r)" by (cases "gotonext s")
    let ?t = "snd (getaddress n' r)"
    have lr: "length r \<le> length s" by (rule gotonext_length [OF g])
    have ad: "getaddress n' r = getaddress m' r"
    proof (cases "r = s")
      case True
      then show ?thesis using address [of n' m'] nm S by simp
    next
      case False
      then have "length r < length s" using gotonext_same [OF g] by blast
      then show ?thesis using less [of r n' m'] nm S by auto
    qed
    have "getgroup n' ?t = getgroup m' ?t"
    proof -
      have "length ?t < length s"
      proof (cases "r = []")
        case True
        then show ?thesis using address_length [of n' r] False by simp
      next
        case r: False
        obtain n'' where "n' = Suc n''" using nm S by (cases n') auto
        then show ?thesis using address_shorter [OF r, of n''] lr by simp
      qed
      then show ?thesis using less [of ?t n' m'] nm S by auto
    qed
    then show ?thesis using ad False by (auto simp: S g Let_def case_prod_beta)
  qed
  with address show ?case by blast
qed

theorem parse_never_runs_out:
  "(length s \<le> n \<longrightarrow> getaddrlist n s = address_list s)
     \<and> (2 * length s < m \<longrightarrow> getaddress m s = getaddress (2 * length s + 1) s)"
proof (intro conjI impI)
  show "getaddrlist n s = address_list s" if "length s \<le> n"
    unfolding address_list_def using that
  proof (induction "length s" arbitrary: s n rule: less_induct)
    case less
    show ?case
    proof (cases "s = []")
      case True
      then show ?thesis by (cases n) auto
    next
      case False
      obtain n' k where S: "n = Suc n'" "length s = Suc k" using less(2) False by (cases n; cases s) auto
      let ?r = "snd (getaddress (2 * length s + 1) s)"
      have l: "length ?r < length s" using address_shorter [OF False, of "2 * length s"] by simp
      have "getaddrlist n' ?r = getaddrlist (length ?r) ?r" using less(1) [OF l, of n'] l less(2) S by simp
      moreover have "getaddrlist k ?r = getaddrlist (length ?r) ?r" using less(1) [OF l, of k] l S by simp
      ultimately show ?thesis using S by (simp add: case_prod_beta)
    qed
  qed
  show "getaddress m s = getaddress (2 * length s + 1) s" if "2 * length s < m"
    using fuel_enough [of s m "2 * length s + 1"] that by auto
qed

end
