(* ===== verification/World_Examples.thy ===== *)
theory World_Examples
  imports World_Confirmations Repository_Identity Mailbox_Fuel
begin

text \<open>The properties of Company World at a small workspace: one Gmail message from one outside address.\<close>

definition example_mail :: source_record where
  "example_mail = (blank_source 0 5 2 ''m1'')\<lparr>sr_provider := ''gmail'', sr_record_type := ''message'', sr_payload :=
     [(''normalized_message'', PDict [(''from_address'', PStr ''b@x''), (''to_addresses'', PList [PStr ''a@x'']),
        (''subject'', PStr ''Hi'')])], sr_observed_at := 10\<rparr>"

definition example_company :: world_db where
  "example_company = canonical_db.extend (example_identity_db\<lparr>source_records := [example_mail]\<rparr>)
     (world_db.fields [] [] [] [] [])"

definition example_world_env :: world_env where
  "example_world_env = \<lparr> we_sha = zero_sha, we_now = 30, we_person_id = 101, we_organization_id = 102,
     we_affiliation_id = 103, we_resolution_id = 104, we_event_id = 105, we_interaction_id = (\<lambda>p r. 1000 * p + r),
     we_member_person_id = (\<lambda>u. 200 + u), we_untitled = ''-'' \<rparr>"

lemma example_mailboxes: "parse_mailbox (PStr ''b@x'') = Some (None, ''b@x'')" "mailboxes (PList [PStr ''a@x'']) = [(None, ''a@x'')]"
  by code_simp+

lemma zero_versions: "json_sha zero_sha d = replicate 64 CHR ''0''"
  by (simp add: json_sha_def zero_sha_def)

definition example_message :: gmail_message where
  "example_message = \<lparr> gm_source_record_id = 5, gm_message_id = ''m1'', gm_thread_id = None, gm_subject = ''Hi'',
     gm_snippet = None, gm_from_address = Some ''b@x'', gm_to_addresses = [''a@x''], gm_labels = [], gm_unread = False,
     gm_received_at = None, gm_source_url = None, gm_source_refs = [\<lparr> ref_id = uuid_str 5 @ '':source-record'',
       ref_kind = ''source_record'', ref_source = ''gmail'', ref_label = ''m1'', ref_url = None,
       ref_record_type = ''message'', ref_record_id = 5 \<rparr>] \<rparr>"

lemma example_payload: "gmail_message_payload example_mail = example_message"
  by code_simp

lemma example_reads: "gmail_records 2 example_company = [example_mail]"
  "map (\<lambda>(u, w, m). (u_id u, u_email u)) (list_workspace_members 2 example_company) = [(1, ''a@x'')]"
  by code_simp+

lemma example_folds: "fold_email ''a@x'' = ''a@x''" "fold_email ''b@x'' = ''b@x''" "organization_key_for_email ''b@x'' = None"
  by code_simp+

lemma example_internal_keys: "internal_key_map (list_workspace_members 2 example_company) = [(''a@x'', user_key 1)]"
  using example_reads(2) by (auto simp: internal_key_map_def example_folds)

definition example_person_key :: string where
  "example_person_key = ''external-person:'' @ replicate 20 CHR ''0''"

definition example_candidate :: external_person where
  "example_candidate = \<lparr> xp_key = example_person_key, xp_email = ''b@x'', xp_display_name = None,
     xp_organization_key = None, xp_last_interaction_at = None, xp_interaction_count = 1,
     xp_source_refs = gm_source_refs example_message, xp_candidate_version = replicate 64 CHR ''0'' \<rparr>"

lemma example_people: "pj_people (project_messages zero_sha ''-'' [(''a@x'', k)] [example_message])
    = [(''b@x'', example_candidate\<lparr>xp_candidate_version := []\<rparr>)]"
  by (simp add: project_messages_def project_message_def external_mailboxes_def participant_by_email_def
    message_mailboxes_def message_sender_def message_recipients_def example_message_def example_mailboxes opt_val_def
    add_external_person_def touched_person_def gmail_refs_def merge_source_refs_def or_else_def latest_datetime_def
    example_candidate_def example_person_key_def external_person_key_def zero_sha_def example_folds)

lemma example_rows: "gmail_message_rows 2 100 example_company = [example_message]"
  by (simp add: gmail_message_rows_def example_reads sort_descending_def example_payload)

lemma company_tables: "find (\<lambda>w. w_id w = 2) (workspaces example_company) = Some (hd (workspaces example_company))"
  "people example_company = []" "organizations example_company = []" "interactions example_company = []"
  "resolutions example_company = []" "affiliations example_company = []" "memory_events example_company = []"
  "memory_streams example_company = []" "w_id ` set (workspaces example_company) = {2}"
  "source_records example_company = [example_mail]"
  by code_simp+

definition example_request :: map_request where
  "example_request = \<lparr> mq_limit = 100, mq_include_durable = False, mq_resolution_only = False, mq_access_role = None \<rparr>"

lemma example_map:
  "\<exists>cm. build_workspace_company_map example_world_env 2 example_request example_company = Inr cm
     \<and> cm_external_candidates cm = [example_candidate]"
  by (simp add: build_workspace_company_map_def example_request_def company_tables Let_def example_rows
      example_internal_keys example_world_env_def example_people versioned_people_def sort_descending_def
      person_version_def zero_versions empty_durable_rows_def)
    (simp add: example_candidate_def)

lemma example_candidate_read:
  "resolve_candidate example_world_env 2 ''external_person'' example_person_key example_company
     = Inr (PersonCandidate example_candidate)"
  using example_map by (auto simp: resolve_candidate_def example_request_def [symmetric])
    (simp add: example_candidate_def)

lemma company_evidence: "candidate_evidence (PersonCandidate example_candidate) = [5]"
  by (simp add: candidate_evidence_def example_candidate_def example_message_def evidence_ids_def)

definition example_bob :: person where
  "example_bob = \<lparr> pe_id = 101, pe_workspace_id = 2, pe_user_id = None, pe_normalized_email = ''b@x'',
     pe_display_name = Some ''b@x'', pe_origin = FounderConfirmation, pe_status = ProfileActive,
     pe_confirmed_by_user_id = Some 1, pe_confirmed_at = Some 30 \<rparr>"

definition example_resolve :: resolve_command where
  "example_resolve = \<lparr> rc_candidate_type = ''external_person'', rc_candidate_key = example_person_key,
     rc_candidate_version = replicate 64 CHR ''0'', rc_decision = ''confirmed'', rc_idempotency_key = ''key-0001'',
     rc_display_name = None, rc_organization_name = None, rc_relationship_type = None,
     rc_organization_relationship_kind = None, rc_role_title = None \<rparr>"

lemma example_lock: "lock_candidate_evidence 2 (PersonCandidate example_candidate) example_company = Inr [example_mail]"
  by (simp add: lock_candidate_evidence_def company_evidence example_reads Let_def example_mail_def blank_source_def)

lemma example_current:
  "current_candidate example_world_env 2 example_resolve example_company example_company
     = Inr (PersonCandidate example_candidate, [example_mail])"
  by (simp add: current_candidate_def example_resolve_def example_candidate_read example_lock company_evidence)
     (simp add: candidate_version_of_def example_candidate_def example_mail_def blank_source_def)

lemma example_primary: "primary_source_record (PersonCandidate example_candidate) [example_mail] = Inr example_mail"
  by (simp add: primary_source_record_def company_evidence example_mail_def blank_source_def)

lemma example_person_step:
  "get_or_create_external_person example_world_env 2 1 example_candidate None example_company
     = Inr (example_bob, example_company\<lparr>people := [example_bob]\<rparr>)"
  by code_simp

definition example_interaction :: interaction where
  "example_interaction = \<lparr> in_id = 101005, in_workspace_id = 2, in_person_id = 101, in_organization_id = None,
     in_source_record_id = 5, in_channel = ''email'', in_direction = ''inbound'', in_subject = Some ''Hi'',
     in_occurred_at = 10, in_source_url = None \<rparr>"

definition example_confirmed :: world_db where
  "example_confirmed = example_company\<lparr>people := [example_bob], interactions := [example_interaction]\<rparr>"

lemma example_interactions_step:
  "materialize_person_interactions example_world_env 2 example_bob None True (Some {5}) (example_company\<lparr>people := [example_bob]\<rparr>)
     = Inr (1, example_confirmed)"
  by code_simp

lemma example_confirm:
  "confirm_candidate example_world_env 2 1 example_resolve (PersonCandidate example_candidate) example_mail example_company
     = Inr (no_rows\<lparr>cr_person := Some example_bob, cr_interaction_count := 1\<rparr>, example_confirmed)"
proof -
  have "xp_organization_key example_candidate = None" by (simp add: example_candidate_def)
  then show ?thesis
    using example_person_step example_interactions_step
    by (simp add: confirm_candidate_def example_resolve_def confirm_person_def resolved_organization_def company_evidence no_rows_def)
qed

definition example_resolution :: resolution where
  "example_resolution = \<lparr> rs_id = 104, rs_workspace_id = 2, rs_candidate_type = ''external_person'',
     rs_candidate_key = example_person_key, rs_candidate_version = replicate 64 CHR ''0'', rs_decision = ''confirmed'',
     rs_idempotency_key = ''key-0001'', rs_request_hash = replicate 64 CHR ''0'', rs_actor_user_id = 1,
     rs_source_record_id = 5, rs_result_person_id = Some 101, rs_result_organization_id = None,
     rs_result_affiliation_id = None, rs_created_at = 30 \<rparr>"

lemma example_new_resolution:
  "new_resolution example_world_env 2 1 example_resolve example_mail
     (no_rows\<lparr>cr_person := Some example_bob, cr_interaction_count := 1\<rparr>) = example_resolution"
  by (simp add: new_resolution_def example_world_env_def example_resolve_def command_hash_def zero_versions
      example_mail_def blank_source_def example_bob_def no_rows_def example_resolution_def)

lemma example_resolution_row: "resolution_row_ok example_resolution example_confirmed"
  by code_simp

definition example_resolved :: world_db where
  "example_resolved = example_confirmed\<lparr>resolutions := [example_resolution]\<rparr>"

lemma example_insert: "insert_resolution example_resolution example_confirmed = Inr example_resolved"
  by (simp add: insert_resolution_def example_resolution_row example_resolved_def)
     (simp add: example_confirmed_def company_tables)

lemma resolved_tables: "memory_events example_resolved = []" "memory_streams example_resolved = []"
  "w_id ` set (workspaces example_resolved) = {2}" "source_records example_resolved = [example_mail]"
  "u_id ` set (users example_resolved) = {1}"
  by code_simp+

lemma example_event_evidence: "validated_evidence_refs [(''company_world_resolution'', 104), (''source_record'', 5)]
    = Inr [(''company_world_resolution'', uuid_str 104), (''source_record'', uuid_str 5)]"
  by (simp add: validated_evidence_refs_def bindE_def require_def COMPANY_MEMORY_EVENT_REFERENCE_TYPES_def
      COMPANY_MEMORY_EVENT_EVIDENCE_LIMIT_def)

lemma example_event_subject: "subject_key_of ''external_person_candidate'' (replicate 64 CHR ''0'') 104 = Inr (replicate 64 CHR ''0'')"
  by code_simp

lemma example_event: "\<exists>ev db'. append_company_world_resolution_memory_event zero_sha 105 30 example_resolution example_resolved = Inr (ev, db')
    \<and> memory_events db' = [ev] \<and> workspaces db' = workspaces example_resolved"
  by (simp add: append_company_world_resolution_memory_event_def resolution_event_type_def resolution_event_args_def
      append_company_memory_event_def prepared_event_def example_event_evidence example_event_subject EVENT_RULES_def
      COMPANY_MEMORY_EVENT_SOURCE_KEYS_def zero_memory_digest memory_event_by_key_def next_workspace_sequence_def
      memory_row_ok_def Let_def resolved_tables example_resolution_def example_mail_def blank_source_def)

lemma example_decision: "\<exists>receipt db' ev. resolve_company_world_candidate example_world_env 2 1 example_resolve example_company example_company
    = Inr (receipt, db') \<and> \<not> rr_replayed receipt \<and> rr_resolution receipt = example_resolution \<and> memory_events db' = [ev]
    \<and> workspaces db' = workspaces example_company"
proof -
  obtain ev db' where ev: "append_company_world_resolution_memory_event zero_sha 105 30 example_resolution example_resolved = Inr (ev, db')"
      "memory_events db' = [ev]" "workspaces db' = workspaces example_company"
    using example_event by (auto simp: example_resolved_def example_confirmed_def)
  have "we_sha example_world_env = zero_sha" "we_event_id example_world_env = 105" "we_now example_world_env = 30"
    by (simp_all add: example_world_env_def)
  then show ?thesis using ev
    by (simp add: resolve_company_world_candidate_def resolution_of_candidate_def company_tables example_current example_primary
        example_confirm [unfolded One_nat_def] example_new_resolution [unfolded One_nat_def] example_insert Let_def)
qed

lemma company_unique: "world_unique example_company"
  by (simp add: world_unique_def company_tables)

section \<open>The decisions\<close>

theorem decision_bound_to_evidence_witness:
  "\<exists>receipt db'. resolve_company_world_candidate example_world_env 2 1 example_resolve example_company example_company = Inr (receipt, db')
    \<and> resolutions db' = [example_resolution]"
  using example_decision decision_bound_to_evidence company_tables(5) by fastforce

theorem decisions_are_final_witness:
  "\<exists>receipt db'. resolve_company_world_candidate example_world_env 2 1 example_resolve example_company example_company = Inr (receipt, db')
    \<and> world_unique db' \<and> tables_grow example_company db'"
proof -
  obtain receipt db' where ok: "resolve_company_world_candidate example_world_env 2 1 example_resolve example_company example_company
      = Inr (receipt, db')" using example_decision by blast
  have "resolution_request_ok example_resolve" by code_simp
  then have "resolve_workspace_company_map_candidate example_world_env 2 1 example_resolve example_company example_company
      = (ResolutionReply receipt, db')" using ok by (simp add: resolve_workspace_company_map_candidate_def)
  then have "run world_step example_company db'" by (rule run_single [of world_step, OF world_step.request])
  then show ?thesis using decisions_are_final [OF _ company_unique] ok by blast
qed

theorem repeated_command_is_answered_witness:
  "\<exists>receipt db' again. resolve_company_world_candidate example_world_env 2 1 example_resolve example_company example_company = Inr (receipt, db')
    \<and> resolve_company_world_candidate example_world_env 2 7 example_resolve example_company db' = Inr (again, db')
    \<and> rr_replayed again \<and> rr_resolution again = example_resolution"
proof -
  obtain receipt db' ev where ok: "resolve_company_world_candidate example_world_env 2 1 example_resolve example_company example_company
      = Inr (receipt, db')" "\<not> rr_replayed receipt" "rr_resolution receipt = example_resolution" "memory_events db' = [ev]"
    using example_decision by blast
  have "tables_grow db' db'" by (simp add: tables_grow_def)
  moreover have "world_unique db'" by (rule unique_resolve [OF ok(1) company_unique])
  ultimately show ?thesis
    using repeated_command_is_answered [OF ok(1,2), of db' example_world_env 7 example_company] ok
    by (simp add: company_tables) blast
qed

theorem confirmation_records_every_message_witness:
  "\<exists>receipt db' x. resolve_company_world_candidate example_world_env 2 1 example_resolve example_company example_company = Inr (receipt, db')
    \<and> x \<in> set (interactions db') \<and> in_source_record_id x = 5"
proof -
  obtain receipt db' where ok: "resolve_company_world_candidate example_world_env 2 1 example_resolve example_company example_company
      = Inr (receipt, db')" "\<not> rr_replayed receipt" using example_decision by blast
  have "rc_candidate_type example_resolve = ''external_person''" "rc_decision example_resolve = ''confirmed''"
      "\<forall>r\<in>set (source_records example_company). sr_id r < 2 ^ 128" "rc_candidate_key example_resolve = example_person_key"
    by (simp_all add: example_resolve_def company_tables example_mail_def blank_source_def)
  then show ?thesis
    using confirmation_records_every_message [OF ok] ok(1) company_evidence by (auto simp: example_candidate_read interaction_key_def)
qed

theorem resolved_candidate_never_returns_witness:
  "\<exists>receipt db' cm. resolve_company_world_candidate example_world_env 2 1 example_resolve example_company example_company = Inr (receipt, db')
    \<and> build_workspace_company_map example_world_env 2 (example_request\<lparr>mq_include_durable := True\<rparr>) db' = Inr cm
    \<and> example_person_key \<notin> xp_key ` set (cm_external_candidates cm)"
proof -
  obtain receipt db' where ok: "resolve_company_world_candidate example_world_env 2 1 example_resolve example_company example_company
      = Inr (receipt, db')" "rr_resolution receipt = example_resolution" "workspaces db' = workspaces example_company"
    using example_decision by blast
  obtain cm where cm: "build_workspace_company_map example_world_env 2 (example_request\<lparr>mq_include_durable := True\<rparr>) db' = Inr cm"
    by (simp add: build_workspace_company_map_def ok(3) company_tables Let_def)
  then show ?thesis
    using resolved_candidate_never_returns [OF ok(1) company_unique run_refl cm] ok by (auto simp: example_resolution_def)
qed

section \<open>The candidates\<close>

theorem external_candidates_exact_witness:
  "\<exists>cm. build_workspace_company_map example_world_env 2 example_request example_company = Inr cm
    \<and> (\<forall>p\<in>set (cm_external_candidates cm). xp_email p \<notin> internal_email_set 2 example_company)"
proof -
  obtain cm where cm: "build_workspace_company_map example_world_env 2 example_request example_company = Inr cm"
    using example_map by blast
  have "\<forall>r\<in>set (source_records example_company). sr_id r < 2 ^ 128"
    by (simp add: company_tables example_mail_def blank_source_def)
  then show ?thesis using external_candidates_exact [OF cm] cm by (auto simp: example_request_def)
qed

section \<open>The backfill\<close>

text \<open>One outside person is confirmed and lacks the interaction of the message; the member has no person yet.\<close>

definition example_backlog :: world_db where
  "example_backlog = example_company\<lparr>people := [example_bob]\<rparr>"

lemma backlog_unique: "world_unique example_backlog"
  by (simp add: world_unique_def example_backlog_def company_tables)

lemma example_backfill: "\<exists>report db'. backfill_company_world example_world_env 2 True example_backlog = Inr (report, db')"
proof -
  have "is_ok (backfill_company_world example_world_env 2 True example_backlog)" by code_simp
  then show ?thesis by (auto simp: is_ok_def split: sum.splits)
qed

theorem backfill_writes_its_plan_witness:
  "\<exists>report db' plan. backfill_company_world example_world_env 2 True example_backlog = Inr (report, db')
    \<and> backfill_company_world example_world_env 2 False example_backlog = Inr (plan, example_backlog)
    \<and> bf_people_written report = bf_people_proposed plan"
  using example_backfill backfill_writes_its_plan [OF _ backlog_unique] by blast

theorem backfill_is_idempotent_witness:
  "\<exists>report db' again. backfill_company_world example_world_env 2 True example_backlog = Inr (report, db')
    \<and> backfill_company_world example_world_env 2 True db' = Inr (again, db') \<and> \<not> bf_writes_performed again"
  using example_backfill backfill_is_idempotent by blast

end
