(* ===== verification/Spec2Isabelle.thy ===== *)
theory Spec2Isabelle
  imports Prelude Identity Sessions Enrollment Throttle Admission Execution_Audit Memory_Events Open_Executions Queue_Properties Snapshot_Properties Reconciliation_Exact Repository_Identity World_Examples
begin

text \<open>
  A model of the write path of FounderOS, the Python back end under \<^verbatim>\<open>src/app\<close>: who may act in a
  workspace, how a proposed action is decided, how an approved one is executed once against
  GitHub, the append-only ledgers that record it, and the queue of jobs that read GitHub back.

  The parts, in the order of the theories.

  \<^item> \<open>Prelude\<close>, \<open>Pyvalue\<close>, \<open>Stdlib_Text\<close>: results (\<open>Inl\<close> an exception, \<open>Inr\<close> a value), Python text
    functions on code points below 256, UUIDs and UTC times as numbers (microseconds), JSON
    values and \<^verbatim>\<open>json.dumps\<close>, updates of tables, runs of step relations and the locale of their
    invariants.
  \<^item> \<open>Identity\<close>, \<open>Sessions\<close>, \<open>Enrollment\<close>, \<open>Throttle\<close>, \<open>Admission\<close>: \<^verbatim>\<open>identity_service\<close>,
    \<^verbatim>\<open>session_service\<close> with \<^verbatim>\<open>auth_artifact_cleanup_service\<close>, \<^verbatim>\<open>founder_enrollment_service\<close> with
    \<^verbatim>\<open>account_setup_service\<close>, \<^verbatim>\<open>login_throttle_service\<close>, and the in-process controller of
    \<^verbatim>\<open>login_rate_limit_service\<close>. Each has its tables as records, one definition per operation,
    the invariant its operations keep and the properties of the runs of its step relation.
  \<^item> \<open>Ledger\<close>, \<open>Execution_Audit\<close>, \<open>Memory_Events\<close>: the ledgers of
    \<^verbatim>\<open>action_execution_audit_service\<close> and \<^verbatim>\<open>company_memory_event_service\<close>. Both append one row per
    idempotency key; the locale \<open>keyed_ledger\<close> states that contract, and each service interprets it.
    An append has two states: \<open>seen\<close>, which its first lookup reads, and \<open>db\<close>, in which it flushes,
    so that a concurrent append of the same key in between is covered.
  \<^item> \<open>Action_Tables\<close>, \<open>Action_Proposals\<close>, \<open>Evidence_Validation\<close>, \<open>Proposal_Decisions\<close>: the
    proposals of \<^verbatim>\<open>action_proposal_service\<close>, the gate \<^verbatim>\<open>validate_action_proposal_evidence\<close> of
    \<^verbatim>\<open>headquarters_read_service\<close>, and the decision command of \<^verbatim>\<open>action_proposal_decision_service\<close>.
  \<^item> \<open>Issue_Execution\<close>, \<open>Execution_Machine\<close>, \<open>Execution_Liveness\<close>: \<^verbatim>\<open>github_issue_execution_service\<close>.
    The handler commits three times before it ends, so it is modelled as its phases: claim
    (\<open>claim_execution\<close>), start (\<open>start_execution\<close>), the renewed evidence check with the request that
    is sent (\<open>recheck_and_request\<close>), and the outcome (\<open>finish_execution\<close>). \<open>exec_step\<close> interleaves the
    phases of any number of requests with crashes and with changes of other tables; a thread
    keeps what the handler keeps in memory.
  \<^item> \<open>Provider_Client\<close>: \<^verbatim>\<open>github_issue_client\<close>, \<^verbatim>\<open>github_pull_request_client\<close>,
    \<^verbatim>\<open>github_repository_client\<close> and \<^verbatim>\<open>github_provider_error\<close> over a transport, the argument that answers a
    request. The three paged reads share the loop \<open>read_pages\<close>, bounded by the page limit of the code.
  \<^item> \<open>Result_Sync\<close>, \<open>Recovery_Machine\<close>, \<open>Late_Write\<close>: \<^verbatim>\<open>github_execution_result_sync_service\<close>, what it
    loads (\<open>sync_read\<close>) and what it writes (\<open>sync_apply\<close>), up to the sync job it creates. \<open>recon_step\<close>
    interleaves it with \<open>exec_step\<close> and with the provider, which turns requests into issues;
    \<open>Late_Write\<close> has the run in which a delayed request creates a second issue. \<open>Open_Executions\<close> has
    the machines in which reconciliations may overtake a process that holds an execution: \<open>open_step\<close>
    commits any change between the phases that keeps the executions and their proposals, \<open>outcome_step\<close>
    has reconciliations that act on rows loaded at any earlier time.
  \<^item> \<open>Sync_Jobs\<close>, \<open>GitHub_App\<close>, \<open>Live_Sync\<close>: the synchronisation jobs (\<^verbatim>\<open>github_sync_job_service\<close>), the
    credential, installation and token of a GitHub App (\<^verbatim>\<open>github_app_credential_service\<close>,
    \<^verbatim>\<open>github_app_token_service\<close>) and the authorised read of a repository batch
    (\<^verbatim>\<open>github_app_live_sync_service\<close>).
  \<^item> \<open>Sync_Worker\<close>, \<open>Job_Lifecycle\<close>, \<open>Worker_Machine\<close>, \<open>Normalization_Jobs\<close>, \<open>Sync_Queue\<close>, \<open>Queue_Safety\<close>, \<open>Queue_Properties\<close>:
    \<^verbatim>\<open>github_sync_worker_service\<close>. Its transactions, the abstract life cycle of a job and the proof
    that every transaction follows it, the program of a worker (\<open>worker_step\<close>), the queue with its
    workers, operators and deaths (\<open>queue_step\<close>), its invariant \<open>queue_ok\<close> and the theorems on leases,
    attempts and termination. The normalisation of a batch is the argument \<open>norm\<close>. The route that
    normalises a job locally reads it without a lock; a step of the queue is one whose job is still
    the row it read, and \<open>racing_normalization_overwrites\<close> says what the others do.
  \<^item> \<open>Iso_Datetime\<close>, \<open>GitHub_Records\<close>, \<open>Canonical_Store\<close>, \<open>Source_Reconciliation\<close>, \<open>Normalization\<close>:
    \<^verbatim>\<open>github_normalization_service\<close> and \<^verbatim>\<open>source_reconciliation_service\<close>, from the records of a batch to the
    tables of source records, repositories, tasks and pull requests; \<open>github_normalizer\<close> is the \<open>norm\<close> of
    the worker. \<open>Source_Snapshots\<close> reduces them to functions of the table of source records, on which
    \<open>Snapshot_Order\<close>, \<open>Snapshot_Exact\<close>, \<open>Reconciliation_Exact\<close>, \<open>Snapshot_Properties\<close> and
    \<open>Repository_Identity\<close> rest.
  \<^item> \<open>Mailbox_Parsing\<close>, \<open>World_Tables\<close>, \<open>Company_Map\<close>, \<open>Company_Projection\<close>, \<open>Company_Confirmation\<close>,
    \<open>Company_Backfill\<close>: Company World, the people and organizations behind the messages of a
    workspace. \<^verbatim>\<open>company_map_read_service\<close> projects the newest Gmail records to candidates with a version
    over their evidence, \<^verbatim>\<open>company_world_confirmation_service\<close> records decisions on them and the profiles
    and interactions these lead to, \<^verbatim>\<open>company_world_backfill_service\<close> adds the rows members and confirmed
    people still lack. \<^verbatim>\<open>email.utils.parseaddr\<close> of the standard library is written out; its recursion on
    the rest of the text counts down a number that \<open>Mailbox_Fuel\<close> proves large enough. \<open>world_step\<close>
    (\<open>World_Growth\<close>) interleaves requests, backfills and other components; \<open>World_Decisions\<close>,
    \<open>World_Candidates\<close>, \<open>World_Confirmations\<close>, \<open>World_Backfill\<close> hold the properties, \<open>World_Examples\<close>
    applies them to a workspace with one message.

  Conventions. SHA-256, Argon2, the decryption of tokens, the provider's answers and the
  headquarters projection are arguments of the definitions; so is the label of messages without a subject,
  which is Cyrillic text. So are new identifiers, random
  tokens and the clock: one value per transaction. A table is the list of its rows in
  insertion order; a unique index is a check at the insert or update that may violate it;
  a row lock (\<^verbatim>\<open>with_for_update\<close>) makes an operation one step, and an operation that reads without one has
  the state it read as an argument of its own, as with the ledgers, as does the advisory lock of Company World for
  its tables. Columns with a check constraint
  are datatypes, roles and event types are text as in the code. JSON objects have distinct text
  keys, and a float is its text. Text beyond code point 255 is not modelled (the micro sign,
  which casefolding maps beyond, is left unchanged). What a route commits or rolls back after an
  error is part of the answer of the operation: an execute request keeps the audit event
  of a blocked execution, a proposal or decision request keeps nothing.

  What the lemmas show. For each component: the invariant of its tables and that every
  operation keeps it; what each operation does on success and when it fails; what any later
  run can no longer change (revoked sessions, spent links, decided proposals); for the ledgers
  exactly-once appends and gapless numbering; for the execution that it sends at most
  one request and that a proposal gets a second one only beside an execution that was given up, what
  a sent request rests on, that outcomes need a sent request,
  and that an executable proposal does get executed; for reconciliation what it may conclude
  from a list of issues, that it recovers a write that happened, and under which assumptions on
  time at most one issue exists per proposal; for the queue that a lost lease is final, that
  attempts and claims are bounded, that a worker's turn ends, and that only selected repositories
  of the workspace's own installation are read; for the source records that a complete snapshot
  makes them exact and that older snapshots do not change them; for Company World that a decision is
  bound to live evidence, is final and answers its repetitions, that the candidates are exactly the outside
  addresses of the messages, and that the backfill writes what it announced and then nothing. Claims about the code's errors are
  theorems too: the replay of an approval after execution, the request a process sends although its
  execution was given up, the local normalisation that overwrites a claimed or cancelled job, the absence
  of an issue that no table remembers, and the batch that a renamed repository blocks. Loops of the code are structural recursions or maps here; the
  page loops count down their page limit, and the parser of mail addresses the length of its text
  (an address of \<open>n\<close> characters needs at most \<open>2 * n + 1\<close> steps, a list of them \<open>n\<close>).

  Not modelled: the routes of \<^verbatim>\<open>app/api\<close> (parsing and formatting), the read projections (head
  quarters, briefings, assistant; the repository list a job without local records
  falls back to is an argument), the GitHub app setup and the Jira, Gmail and Drive connectors,
  the repository intelligence collectors (file system and processes), the Redis back end of
  the login admission (a Lua script), scripts, migrations and the web front end.
\<close>

end
